(* ===== verification/Prelude.thy ===== *)
theory Prelude
  imports Complex_Main "HOL-Library.Char_ord" "HOL-Library.List_Lexorder"
begin

text \<open>
  Shared vocabulary of the development: JSON values as the Python code sees them after
  \<^verbatim>\<open>json.loads\<close>, the dictionary and truthiness operations the code applies to them, the
  errors that handlers raise, insertion-ordered dictionaries, and the list lemmas that the
  component theories use.

  Conventions. A Python string is a \<^typ>\<open>string\<close> whose characters stand for the code points
  below 256. A Python float is a rational number: every finite double is one, and the rounding
  of a single floating-point operation is not modelled. An exception is a value of
  \<open>exn\<close>: \<open>RpcError\<close> carries the error code a caller sees; \<open>PyError\<close>
  carries the class name of any other Python exception, which the RPC server reports as
  \<open>internal\<close>. The human-readable text of a message is not modelled.
\<close>

named_theorems store_simps "unfolding rules of the episode store"
named_theorems audit_simps "unfolding rules of the audit chain"

section \<open>JSON values\<close>

datatype jv =
    JNull
  | JBool bool
  | JInt int
  | JFloat rat
  | JStr string
  | JArr "jv list"
  | JObj "(string \<times> jv) list"

type_synonym params = "(string \<times> jv) list"

datatype exn = RpcError string | PyError string

type_synonym 'a result = "exn + 'a"

text \<open>Sequencing of fallible steps: an error ends the handler.\<close>

definition rbind :: "'a result \<Rightarrow> ('a \<Rightarrow> 'b result) \<Rightarrow> 'b result" where
  "rbind m k = (case m of Inl e \<Rightarrow> Inl e | Inr x \<Rightarrow> k x)"

text \<open>\<^verbatim>\<open>d.get(k)\<close> and \<^verbatim>\<open>d.get(k, default)\<close> on a dictionary.\<close>

definition pget :: "params \<Rightarrow> string \<Rightarrow> jv" where
  "pget p k = (case map_of p k of None \<Rightarrow> JNull | Some v \<Rightarrow> v)"

definition pget_default :: "params \<Rightarrow> string \<Rightarrow> jv \<Rightarrow> jv" where
  "pget_default p k d = (case map_of p k of None \<Rightarrow> d | Some v \<Rightarrow> v)"

definition has_key :: "params \<Rightarrow> string \<Rightarrow> bool" where
  "has_key p k = (map_of p k \<noteq> None)"

fun truthy :: "jv \<Rightarrow> bool" where
  "truthy JNull = False"
| "truthy (JBool b) = b"
| "truthy (JInt i) = (i \<noteq> 0)"
| "truthy (JFloat r) = (r \<noteq> 0)"
| "truthy (JStr s) = (s \<noteq> [])"
| "truthy (JArr xs) = (xs \<noteq> [])"
| "truthy (JObj kvs) = (kvs \<noteq> [])"

text \<open>\<^verbatim>\<open>v or {}\<close> followed by \<^verbatim>\<open>.get\<close>: a truthy value that is no dictionary raises.\<close>

definition as_dict_or_empty :: "jv \<Rightarrow> params result" where
  "as_dict_or_empty v =
     (if \<not> truthy v then Inr []
      else case v of JObj d \<Rightarrow> Inr d | _ \<Rightarrow> Inl (PyError ''AttributeError''))"

text \<open>Numeric reading of a value: Python's \<^verbatim>\<open>bool\<close> is a subtype of \<^verbatim>\<open>int\<close>.\<close>

fun num_of :: "jv \<Rightarrow> rat option" where
  "num_of (JBool b) = Some (if b then 1 else 0)"
| "num_of (JInt i) = Some (of_int i)"
| "num_of (JFloat r) = Some r"
| "num_of _ = None"

text \<open>Python's \<open>==\<close> on JSON values: numbers compare by value, dictionaries by content.\<close>

function py_eq :: "jv \<Rightarrow> jv \<Rightarrow> bool" where
  "py_eq JNull w = (w = JNull)"
| "py_eq (JBool b) w = (num_of w = Some (if b then 1 else 0))"
| "py_eq (JInt i) w = (num_of w = Some (of_int i))"
| "py_eq (JFloat r) w = (num_of w = Some r)"
| "py_eq (JStr s) w = (w = JStr s)"
| "py_eq (JArr xs) w =
     (case w of JArr ys \<Rightarrow> length xs = length ys \<and> list_all (\<lambda>(x, y). py_eq x y) (zip xs ys)
              | _ \<Rightarrow> False)"
| "py_eq (JObj a) w =
     (case w of JObj b \<Rightarrow> length a = length b \<and>
        list_all (\<lambda>(k, v). case map_of b k of None \<Rightarrow> False | Some u \<Rightarrow> py_eq v u) a
      | _ \<Rightarrow> False)"
  by pat_completeness auto
termination
  by (relation "measure (size \<circ> fst)")
    (auto dest!: set_zip_leftD simp: less_Suc_eq_le intro: size_list_estimation'
      intro!: le_SucI order_trans [OF _ size_list_estimation' [of "(k, v)" for k v]])

text \<open>Lists and dictionaries are unhashable: as a set element or dictionary key they raise.\<close>

fun hashable :: "jv \<Rightarrow> bool" where
  "hashable (JArr _) = False"
| "hashable (JObj _) = False"
| "hashable _ = True"

section \<open>Strings\<close>

text \<open>Whitespace of \<^verbatim>\<open>str.strip\<close> among the code points below 256.\<close>

definition is_space :: "char \<Rightarrow> bool" where
  "is_space c = (let n = of_char c :: nat in
     n = 32 \<or> (9 \<le> n \<and> n \<le> 13) \<or> (28 \<le> n \<and> n \<le> 31) \<or> n = 133 \<or> n = 160)"

definition strip :: "string \<Rightarrow> string" where
  "strip s = rev (dropWhile is_space (rev (dropWhile is_space s)))"

definition nonempty :: "jv \<Rightarrow> bool" where
  "nonempty v = (case v of JStr s \<Rightarrow> strip s \<noteq> [] | _ \<Rightarrow> False)"

fun is_str :: "jv \<Rightarrow> bool" where
  "is_str (JStr s) = True"
| "is_str _ = False"

fun str_of :: "jv \<Rightarrow> string" where
  "str_of (JStr s) = s"
| "str_of _ = []"

fun starts_with :: "string \<Rightarrow> string \<Rightarrow> bool" where
  "starts_with [] s = True"
| "starts_with (c # cs) s = (case s of [] \<Rightarrow> False | d # ds \<Rightarrow> c = d \<and> starts_with cs ds)"

fun substring :: "string \<Rightarrow> string \<Rightarrow> bool" where
  "substring a [] = (a = [])"
| "substring a (c # cs) = (starts_with a (c # cs) \<or> substring a cs)"

text \<open>Decimal rendering of integers, as \<^verbatim>\<open>str(n)\<close> and f-strings produce it.\<close>

fun nat_str :: "nat \<Rightarrow> string" where
  "nat_str n = (if n < 10 then [char_of (48 + n)] else nat_str (n div 10) @ [char_of (48 + n mod 10)])"

declare nat_str.simps [simp del]

definition int_str :: "int \<Rightarrow> string" where
  "int_str i = (if i < 0 then ''-'' @ nat_str (nat (- i)) else nat_str (nat i))"

text \<open>
  \<^verbatim>\<open>str(v)\<close> as an f-string inserts it; the rendering of floats and containers is a parameter.
\<close>

fun py_str :: "(jv \<Rightarrow> string) \<Rightarrow> jv \<Rightarrow> string" where
  "py_str other JNull = ''None''"
| "py_str other (JBool b) = (if b then ''True'' else ''False'')"
| "py_str other (JInt i) = int_str i"
| "py_str other (JStr s) = s"
| "py_str other v = other v"

section \<open>Insertion-ordered dictionaries\<close>

text \<open>Python dictionaries keep insertion order; assigning to a present key keeps its place.\<close>

fun dict_set :: "('k \<times> 'v) list \<Rightarrow> 'k \<Rightarrow> 'v \<Rightarrow> ('k \<times> 'v) list" where
  "dict_set [] k v = [(k, v)]"
| "dict_set ((k', v') # d) k v = (if k' = k then (k, v) # d else (k', v') # dict_set d k v)"

lemma map_of_dict_set [simp]: "map_of (dict_set d k v) = (map_of d)(k \<mapsto> v)"
  by (induction d k v rule: dict_set.induct) (auto simp: fun_eq_iff)

lemma keys_dict_set:
  "map fst (dict_set d k v) = (if k \<in> set (map fst d) then map fst d else map fst d @ [k])"
  by (induction d k v rule: dict_set.induct) auto

lemma distinct_keys_dict_set [intro]:
  "distinct (map fst d) \<Longrightarrow> distinct (map fst (dict_set d k v))"
  by (simp add: keys_dict_set)

lemma dict_set_snd: "x \<in> set (dict_set d k v) \<Longrightarrow> x = (k, v) \<or> x \<in> set d"
  by (induction d k v rule: dict_set.induct) (auto split: if_splits)

lemma map_of_eq_mem: "distinct (map fst d) \<Longrightarrow> (k, v) \<in> set d \<longleftrightarrow> map_of d k = Some v"
  by (metis map_of_eq_Some_iff)

section \<open>Inversion of successful steps\<close>

lemma rbind_Inr [simp]: "rbind m k = Inr x \<longleftrightarrow> (\<exists>y. m = Inr y \<and> k y = Inr x)"
  by (cases m) (auto simp: rbind_def)

lemma rbind_simps: "rbind (Inl e) k = Inl e" "rbind (Inr y) k = k y"
  by (simp_all add: rbind_def)

lemma if_Inl_Inr [simp]: "(if b then Inl e else m) = Inr x \<longleftrightarrow> \<not> b \<and> m = Inr x"
  by simp

lemma if_Inr_Inl [simp]: "(if b then m else Inl e) = Inr x \<longleftrightarrow> b \<and> m = Inr x"
  by simp

section \<open>List lemmas\<close>

lemma filter_snoc [simp]: "filter P (xs @ [x]) = (if P x then filter P xs @ [x] else filter P xs)"
  by simp

lemma pget_JStr_nonempty: "nonempty (pget p k) \<Longrightarrow> \<exists>s. pget p k = JStr s"
  by (auto simp: nonempty_def split: jv.splits)

lemma nonemptyE:
  assumes "nonempty v" obtains s where "v = JStr s" "strip s \<noteq> []" "s \<noteq> []"
proof -
  from assms obtain s where "v = JStr s" "strip s \<noteq> []"
    by (auto simp: nonempty_def split: jv.splits)
  moreover have "s \<noteq> []" using \<open>strip s \<noteq> []\<close> by (auto simp: strip_def)
  ultimately show ?thesis by (rule that)
qed

lemma nat_str_nonempty [simp]: "nat_str n \<noteq> []"
  by (subst nat_str.simps) simp

lemma nat_str_digit_last:
  "nat_str n = nat_str m \<Longrightarrow> n mod 10 = m mod 10"
proof -
  have last: "last (nat_str k) = char_of (48 + k mod 10)" for k
    by (subst nat_str.simps) (auto)
  assume "nat_str n = nat_str m"
  then have "char_of (48 + n mod 10) = (char_of (48 + m mod 10) :: char)"
    using last by metis
  then have "(48 + n mod 10) mod 256 = (48 + m mod 10) mod 256"
    using char_of_eq_iff [of "48 + n mod 10"] by (metis of_char_of)
  then show ?thesis by simp
qed

lemma nat_str_length_1: "length (nat_str n) = 1 \<longleftrightarrow> n < 10"
  by (subst nat_str.simps) (auto)

lemma nat_str_inject [simp]: "nat_str n = nat_str m \<longleftrightarrow> n = m"
proof
  show "nat_str n = nat_str m \<Longrightarrow> n = m"
  proof (induction n arbitrary: m rule: nat_str.induct)
    case (1 n)
    show ?case
    proof (cases "n < 10")
      case True
      then have "m < 10" using "1.prems" nat_str_length_1 [of n] nat_str_length_1 [of m] by simp
      with True nat_str_digit_last [OF "1.prems"] show ?thesis by simp
    next
      case False
      then have m: "\<not> m < 10"
        using "1.prems" nat_str_length_1 [of n] nat_str_length_1 [of m] by simp
      have "nat_str (n div 10) = nat_str (m div 10)"
        using "1.prems" False m nat_str.simps [of n] nat_str.simps [of m] by simp
      then have "n div 10 = m div 10" using "1.IH" False by blast
      moreover have "n mod 10 = m mod 10" by (rule nat_str_digit_last [OF "1.prems"])
      ultimately show ?thesis by (metis div_mod_decomp)
    qed
  qed
qed simp

end
