(* ===== verification/Transitions.thy ===== *)
theory Transitions
  imports Prelude
begin

text \<open>
  \<^verbatim>\<open>valops/store/transitions.py\<close>: the episode states and the transition table with its
  authorised principals. An episode state is the string the code stores.
\<close>

definition STATES :: "string list" where
  "STATES = [''open'', ''diagnosing'', ''recommending'', ''judging'', ''reporting'',
             ''awaiting_operator'', ''resolved'', ''handed_off'']"

definition TERMINAL :: "string list" where
  "TERMINAL = [''resolved'', ''handed_off'']"

definition NONTERMINAL :: "string list" where
  "NONTERMINAL = filter (\<lambda>s. s \<notin> set TERMINAL) STATES"

definition CONTROLLER :: "(string \<times> string) list" where
  "CONTROLLER =
     [(''open'', ''diagnosing''),
      (''diagnosing'', ''recommending''),
      (''diagnosing'', ''reporting''),
      (''recommending'', ''judging''),
      (''judging'', ''recommending''),
      (''judging'', ''reporting''),
      (''reporting'', ''awaiting_operator'')] @ map (\<lambda>s. (s, ''handed_off'')) NONTERMINAL"

definition VERIFIER :: "(string \<times> string) list" where
  "VERIFIER = [(''awaiting_operator'', ''resolved'')]"

definition allowed :: "string \<Rightarrow> string \<Rightarrow> string \<Rightarrow> bool" where
  "allowed pr frm to =
     ((frm, to) \<in> set (if pr = ''controller'' then CONTROLLER
                       else if pr = ''verifier'' then VERIFIER else []))"

lemmas table_defs = STATES_def TERMINAL_def NONTERMINAL_def CONTROLLER_def VERIFIER_def

section \<open>Facts about the table\<close>

lemma NONTERMINAL_eval:
  "NONTERMINAL = [''open'', ''diagnosing'', ''recommending'', ''judging'', ''reporting'', ''awaiting_operator'']"
  by (simp add: table_defs)

lemma allowed_source: "allowed pr frm to \<Longrightarrow> frm \<in> set NONTERMINAL"
  by (auto simp: allowed_def CONTROLLER_def VERIFIER_def NONTERMINAL_eval split: if_splits)

lemma allowed_target: "allowed pr frm to \<Longrightarrow> to \<in> set STATES \<and> to \<noteq> ''open''"
  by (auto simp: allowed_def CONTROLLER_def VERIFIER_def NONTERMINAL_eval STATES_def split: if_splits)

lemma allowed_not_terminal: "allowed pr frm to \<Longrightarrow> frm \<notin> set TERMINAL"
  using allowed_source [of pr frm to] by (auto simp: NONTERMINAL_def)

lemma allowed_resolved:
  "allowed pr frm ''resolved'' \<longleftrightarrow> pr = ''verifier'' \<and> frm = ''awaiting_operator''"
  by (auto simp: allowed_def CONTROLLER_def VERIFIER_def NONTERMINAL_eval)

lemma allowed_verifier: "allowed ''verifier'' frm to \<longleftrightarrow> frm = ''awaiting_operator'' \<and> to = ''resolved''"
  by (auto simp: allowed_def VERIFIER_def)

lemma allowed_irrefl: "\<not> allowed pr s s"
  by (auto simp: allowed_def CONTROLLER_def VERIFIER_def NONTERMINAL_eval)

text \<open>The way into \<open>awaiting_operator\<close> is the reporting step, and only for the controller.\<close>

lemma allowed_awaiting:
  "allowed pr frm ''awaiting_operator'' \<longleftrightarrow> pr = ''controller'' \<and> frm = ''reporting''"
  by (auto simp: allowed_def CONTROLLER_def VERIFIER_def NONTERMINAL_eval)

text \<open>The way into \<open>reporting\<close>.\<close>

lemma allowed_reporting:
  "allowed pr frm ''reporting'' \<longleftrightarrow> pr = ''controller'' \<and> (frm = ''diagnosing'' \<or> frm = ''judging'')"
  by (auto simp: allowed_def CONTROLLER_def VERIFIER_def NONTERMINAL_eval)

end
