(* ===== verification/Canonical.thy ===== *)
theory Canonical
  imports Prelude
begin

text \<open>
  \<^verbatim>\<open>valops/common/canonical.py\<close>: URL-safe base64 without padding and the RFC 3339
  rendering of time stamps. A byte string is a list of numbers below 256. The decoder follows
  the non-strict loop of \<^verbatim>\<open>binascii.a2b_base64\<close>, which skips characters outside the
  alphabet and stops at a complete padding. The main result is that decoding inverts
  encoding.
\<close>

type_synonym bytes = "nat list"

section \<open>URL-safe base64\<close>

definition b64_char :: "nat \<Rightarrow> char" where
  "b64_char n =
     (if n < 26 then char_of (65 + n)
      else if n < 52 then char_of (97 + (n - 26))
      else if n < 62 then char_of (48 + (n - 52))
      else if n = 62 then CHR ''-'' else CHR ''_'')"

fun urlsafe_b64encode :: "bytes \<Rightarrow> string" where
  "urlsafe_b64encode [] = []"
| "urlsafe_b64encode [a] = [b64_char (a div 4), b64_char (a mod 4 * 16), CHR ''='', CHR ''='']"
| "urlsafe_b64encode [a, b] =
     [b64_char (a div 4), b64_char (a mod 4 * 16 + b div 16), b64_char (b mod 16 * 4), CHR ''='']"
| "urlsafe_b64encode (a # b # c # r) =
     b64_char (a div 4) # b64_char (a mod 4 * 16 + b div 16) #
     b64_char (b mod 16 * 4 + c div 64) # b64_char (c mod 64) # urlsafe_b64encode r"

definition rstrip_char :: "char \<Rightarrow> string \<Rightarrow> string" where
  "rstrip_char c s = rev (dropWhile (\<lambda>x. x = c) (rev s))"

definition b64u :: "bytes \<Rightarrow> string" where
  "b64u data = rstrip_char (CHR ''='') (urlsafe_b64encode data)"

text \<open>
  The decoding table after the translation of \<open>-_\<close> to \<open>+/\<close>: both spellings of
  the last two digits decode.
\<close>

definition b64_val :: "char \<Rightarrow> nat option" where
  "b64_val ch = (let n = of_char ch :: nat in
     if 65 \<le> n \<and> n \<le> 90 then Some (n - 65)
     else if 97 \<le> n \<and> n \<le> 122 then Some (n - 97 + 26)
     else if 48 \<le> n \<and> n \<le> 57 then Some (n - 48 + 52)
     else if n = 45 \<or> n = 43 then Some 62
     else if n = 95 \<or> n = 47 then Some 63
     else None)"

text \<open>
  The loop state is the position in the current quartet, the bits left over from the previous
  character and the padding seen; \<^term>\<open>None\<close> stands for \<^verbatim>\<open>binascii.Error\<close>.
\<close>

fun a2b_base64 :: "nat \<Rightarrow> nat \<Rightarrow> nat \<Rightarrow> string \<Rightarrow> bytes option" where
  "a2b_base64 q l pads [] = (if q = 0 then Some [] else None)"
| "a2b_base64 q l pads (c # cs) =
     (if c = CHR ''='' then
        (if 2 \<le> q \<and> 4 \<le> q + Suc pads then Some []
         else a2b_base64 q l (if 2 \<le> q then Suc pads else pads) cs)
      else case b64_val c of
        None \<Rightarrow> a2b_base64 q l pads cs
      | Some v \<Rightarrow>
          (if q = 0 then a2b_base64 1 v 0 cs
           else if q = 1 then map_option ((#) (l * 4 + v div 16)) (a2b_base64 2 (v mod 16) 0 cs)
           else if q = 2 then map_option ((#) (l * 16 + v div 4)) (a2b_base64 3 (v mod 4) 0 cs)
           else map_option ((#) (l * 64 + v)) (a2b_base64 0 0 0 cs)))"

text \<open>\<^verbatim>\<open>base64.urlsafe_b64decode(s + "=" * (-len(s) % 4))\<close>; a non-ASCII character raises.\<close>

definition b64u_dec :: "string \<Rightarrow> bytes option" where
  "b64u_dec s =
     (if list_all (\<lambda>c. (of_char c :: nat) < 128) s
      then a2b_base64 0 0 0 (s @ replicate (nat ((- int (length s)) mod 4)) (CHR ''=''))
      else None)"

section \<open>Time stamps\<close>

definition round_half_even :: "rat \<Rightarrow> int" where
  "round_half_even x =
     (let f = \<lfloor>x\<rfloor>; d = x - of_int f in
      if d < 1 / 2 then f else if 1 / 2 < d then f + 1 else if even f then f else f + 1)"

definition pad_left :: "nat \<Rightarrow> string \<Rightarrow> string" where
  "pad_left n s = replicate (n - length s) (CHR ''0'') @ s"

text \<open>Proleptic Gregorian date of a day number counted from 1970-01-01.\<close>

definition civil_from_days :: "int \<Rightarrow> int \<times> int \<times> int" where
  "civil_from_days days =
     (let z = days + 719468; era = z div 146097; doe = z mod 146097;
          yoe = (doe - doe div 1460 + doe div 36524 - doe div 146096) div 365;
          doy = doe - (365 * yoe + yoe div 4 - yoe div 100);
          mp = (5 * doy + 2) div 153;
          d = doy - (153 * mp + 2) div 5 + 1;
          m = (if mp < 10 then mp + 3 else mp - 9)
      in (yoe + era * 400 + (if m \<le> 2 then 1 else 0), m, d))"

text \<open>
  \<^verbatim>\<open>datetime.fromtimestamp(ts, tz=utc).isoformat(timespec="milliseconds")\<close>: the time is
  rounded to microseconds and then cut to milliseconds. Years outside 1 to 9999, which
  \<^verbatim>\<open>datetime\<close> refuses, do not arise from the system clock.
\<close>

definition rfc3339 :: "rat \<Rightarrow> string" where
  "rfc3339 ts =
     (let us = round_half_even (ts * 1000000); ms = us div 1000; secs = ms div 1000;
          sod = secs mod 86400; (y, m, d) = civil_from_days (secs div 86400)
      in pad_left 4 (int_str y) @ ''-'' @ pad_left 2 (int_str m) @ ''-'' @ pad_left 2 (int_str d) @
         ''T'' @ pad_left 2 (int_str (sod div 3600)) @ '':'' @
         pad_left 2 (int_str (sod div 60 mod 60)) @ '':'' @ pad_left 2 (int_str (sod mod 60)) @
         ''.'' @ pad_left 3 (int_str (ms mod 1000)) @ ''+00:00'')"

section \<open>Decoding inverts encoding\<close>

fun enc_nopad :: "bytes \<Rightarrow> string" where
  "enc_nopad [] = []"
| "enc_nopad [a] = [b64_char (a div 4), b64_char (a mod 4 * 16)]"
| "enc_nopad [a, b] =
     [b64_char (a div 4), b64_char (a mod 4 * 16 + b div 16), b64_char (b mod 16 * 4)]"
| "enc_nopad (a # b # c # r) =
     b64_char (a div 4) # b64_char (a mod 4 * 16 + b div 16) #
     b64_char (b mod 16 * 4 + c div 64) # b64_char (c mod 64) # enc_nopad r"

lemma b64_val_char [simp]: "n < 64 \<Longrightarrow> b64_val (b64_char n) = Some n"
  by (auto simp: b64_val_def b64_char_def Let_def of_char_of)

lemma b64_char_ne_pad [simp]: "b64_char n \<noteq> CHR ''=''"
proof
  assume "b64_char n = CHR ''=''"
  then have "(of_char (b64_char n) :: nat) = 61" by simp
  then show False
    by (auto simp: b64_char_def of_char_of split: if_splits)
qed

lemma b64_char_ascii [simp]: "(of_char (b64_char n) :: nat) < 128"
  by (auto simp: b64_char_def of_char_of)

lemma enc_nopad_no_eq: "CHR ''='' \<notin> set (enc_nopad bs)"
  by (induction bs rule: enc_nopad.induct) (auto dest: sym)

lemma enc_nopad_ascii: "list_all (\<lambda>c. (of_char c :: nat) < 128) (enc_nopad bs)"
  by (induction bs rule: enc_nopad.induct) auto

lemma encode_split:
  "\<exists>k. urlsafe_b64encode bs = enc_nopad bs @ replicate k (CHR ''='')"
proof (induction bs rule: enc_nopad.induct)
  case 1
  show ?case by (intro exI [of _ 0]) simp
next
  case (2 a)
  show ?case by (intro exI [of _ 2]) (simp add: numeral_2_eq_2)
next
  case (3 a b)
  show ?case by (intro exI [of _ 1]) simp
next
  case (4 a b c r)
  then show ?case by auto
qed

lemma rstrip_char_replicate:
  "c \<notin> set s \<Longrightarrow> rstrip_char c (s @ replicate k c) = s"
proof -
  assume c: "c \<notin> set s"
  have "dropWhile (\<lambda>x. x = c) (replicate k c @ rev s) = dropWhile (\<lambda>x. x = c) (rev s)"
    by (induction k) auto
  also have "\<dots> = rev s" using c by (cases "rev s") (auto dest: arg_cong [of _ _ set])
  finally show ?thesis by (simp add: rstrip_char_def)
qed

lemma b64u_eq: "b64u bs = enc_nopad bs"
  using encode_split [of bs] by (auto simp: b64u_def rstrip_char_replicate enc_nopad_no_eq)

definition pads_for :: "nat \<Rightarrow> nat" where
  "pads_for n = nat ((- int n) mod 4)"

lemma pads_for_simps [simp]: "pads_for 0 = 0" "pads_for 2 = 2" "pads_for 3 = 1"
  "pads_for (Suc (Suc (Suc (Suc n)))) = pads_for n"
proof -
  have "(- int (Suc (Suc (Suc (Suc n))))) mod 4 = (- int n + (-1) * 4) mod 4"
    by (rule arg_cong [where f = "\<lambda>x. x mod 4"]) simp
  also have "\<dots> = (- int n) mod 4" by (rule mod_mult_self1)
  finally show "pads_for (Suc (Suc (Suc (Suc n)))) = pads_for n" by (simp add: pads_for_def)
qed (simp_all add: pads_for_def)

lemma split_16: "y < (16::nat) \<Longrightarrow> (x * 16 + y) div 16 = x \<and> (x * 16 + y) mod 16 = y"
  by simp

lemma split_4: "y < (4::nat) \<Longrightarrow> (x * 4 + y) div 4 = x \<and> (x * 4 + y) mod 4 = y"
  by simp

lemma pack_bits:
  fixes a b c :: nat
  shows "b < 256 \<Longrightarrow> a div 4 * 4 + (a mod 4 * 16 + b div 16) div 16 = a"
    and "b < 256 \<Longrightarrow> (a mod 4 * 16 + b div 16) mod 16 * 16 + b mod 16 * 4 div 4 = b"
    and "b < 256 \<Longrightarrow> c < 256 \<Longrightarrow>
      (a mod 4 * 16 + b div 16) mod 16 * 16 + (b mod 16 * 4 + c div 64) div 4 = b"
    and "c < 256 \<Longrightarrow> (b mod 16 * 4 + c div 64) mod 4 * 64 + c mod 64 = c"
proof -
  have b: "b < 256 \<Longrightarrow> b div 16 < 16" and c: "c < 256 \<Longrightarrow> c div 64 < 4" by simp_all
  show "b < 256 \<Longrightarrow> a div 4 * 4 + (a mod 4 * 16 + b div 16) div 16 = a"
    using split_16 [OF b] by simp
  show "b < 256 \<Longrightarrow> (a mod 4 * 16 + b div 16) mod 16 * 16 + b mod 16 * 4 div 4 = b"
    using split_16 [OF b] by simp
  show "b < 256 \<Longrightarrow> c < 256 \<Longrightarrow>
      (a mod 4 * 16 + b div 16) mod 16 * 16 + (b mod 16 * 4 + c div 64) div 4 = b"
    using split_16 [OF b] split_4 [OF c] by simp
  show "c < 256 \<Longrightarrow> (b mod 16 * 4 + c div 64) mod 4 * 64 + c mod 64 = c"
    using split_4 [OF c] by simp
qed

lemma a2b_enc_nopad:
  assumes "\<forall>b \<in> set bs. b < 256"
  shows "a2b_base64 0 0 0 (enc_nopad bs @ replicate (pads_for (length (enc_nopad bs))) (CHR ''=''))
           = Some bs"
  using assms
proof (induction bs rule: enc_nopad.induct)
  case 1
  show ?case by simp
next
  case (2 a)
  have "a div 4 * 4 + a mod 4 * 16 div 16 = a" by simp
  moreover have "a div 4 < 64" "a mod 4 * 16 < 64" using 2 by auto
  ultimately show ?case by (simp add: numeral_2_eq_2 [symmetric]) (simp add: numeral_2_eq_2)
next
  case (3 a b)
  then have "a div 4 < 64" "a mod 4 * 16 + b div 16 < 64" "b mod 16 * 4 < 64" "b < 256" by auto
  with pack_bits(1,2) [of b a] show ?case by (simp add: numeral_3_eq_3 [symmetric])
next
  case (4 a b c r)
  then have "a div 4 < 64" "a mod 4 * 16 + b div 16 < 64" "b mod 16 * 4 + c div 64 < 64"
    "c mod 64 < 64" "b < 256" "c < 256" by auto
  with 4 pack_bits(1,3,4) show ?case by simp
qed

lemma b64u_dec_b64u: "\<forall>b \<in> set bs. b < 256 \<Longrightarrow> b64u_dec (b64u bs) = Some bs"
  using a2b_enc_nopad [of bs] enc_nopad_ascii [of bs]
  by (simp add: b64u_dec_def b64u_eq pads_for_def)

lemma b64u_no_dot: "CHR ''.'' \<notin> set (b64u bs)"
proof -
  have "b64_char n \<noteq> CHR ''.''" for n
  proof
    assume "b64_char n = CHR ''.''"
    then have "(of_char (b64_char n) :: nat) = 46" by simp
    then show False by (auto simp: b64_char_def of_char_of split: if_splits)
  qed
  then have "CHR ''.'' \<notin> set (enc_nopad bs)"
    by (induction bs rule: enc_nopad.induct) (auto dest: sym)
  then show ?thesis by (simp add: b64u_eq)
qed

end
