(* ===== verification/Fold.thy ===== *)
theory Fold
  imports Transitions Canonical
begin

text \<open>
  \<^verbatim>\<open>valops/store/fold.py\<close>: the episode record is a fold over the append-only entry log. A log
  entry carries a body, one constructor per entry kind; the items of the record extend the
  bodies with the stamps that \<^verbatim>\<open>apply\<close> adds (\<^verbatim>\<open>{**b, "t": t, ...}\<close>). A field that the store
  copies from a request unchecked is a JSON value.
\<close>

section \<open>Entry bodies and record items\<close>

record opened_b =
  o_class :: string
  o_trigger :: params
  o_validator_id :: string
  o_bundle_id :: string
  o_consensus_mode :: string
  o_consensus_mode_evidence :: jv
  o_dedupe_key :: string

record signal_b =
  g_id :: string
  g_command_id :: string
  g_status :: jv
  g_summary :: jv
  g_truncated :: bool
  g_collected_at :: jv
  g_flags :: jv
  g_ref :: jv
  g_source :: string

record signal = signal_b +
  g_t :: string
  g_audit_ref :: string

record hypothesis_b =
  h_id :: string
  h_step_session :: string
  h_rank :: int
  h_claim :: string
  h_test :: string
  h_expected_evidence :: string

record hypothesis = hypothesis_b +
  h_status :: string
  h_evidence_refs :: "string list"
  h_t :: string
  h_status_history :: "(string \<times> string \<times> jv) list" \<comment> \<open>time, status, session\<close>

record status_b =
  hs_hypothesis_id :: string
  hs_status :: string
  hs_evidence_refs :: "string list"

record recommendation_b =
  rc_id :: string
  rc_hypothesis :: string
  rc_action_text :: string
  rc_skill :: string
  rc_preconditions :: jv
  rc_expected_postcondition :: string
  rc_evidence_refs :: "string list"

record recommendation = recommendation_b +
  rc_session_id :: jv
  rc_t :: string
  rc_rev :: nat

record no_action_b =
  na_id :: string
  na_reason :: string
  na_evidence_refs :: "string list"

record no_action = no_action_b +
  na_session_id :: jv
  na_t :: string
  na_rev :: nat

record verdict_b =
  v_target_id :: string
  v_result :: string
  v_checks :: "jv list"

record verdict = verdict_b +
  v_recommendation :: string
  v_session_id :: jv
  v_t :: string

record report_b =
  rp_kind :: string
  rp_ref :: string

record report = report_b +
  rp_session_id :: jv
  rp_t :: string

record verification_b =
  vf_rule :: jv
  vf_result :: jv
  vf_samples :: jv

record verification = verification_b +
  vf_t :: string
  vf_by :: string

record recovery_b =
  ro_rule :: jv
  ro_note :: jv

record recovery = recovery_b +
  ro_t :: string

record state_b =
  sb_from :: "string option"
  sb_to :: string
  sb_reason :: jv

record state_change =
  sh_t :: string
  sh_ts :: rat
  sh_from :: "string option"
  sh_to :: string
  sh_by :: string
  sh_rev :: nat
  sh_reason :: jv

record cost_b =
  c_role :: string
  c_usd :: rat
  c_turns :: int
  c_session_id :: jv
  c_configuration :: jv
  c_tokens :: jv

record session_cost =
  sc_role :: string
  sc_usd :: rat
  sc_turns :: int
  sc_configuration :: jv
  sc_tokens :: jv

record cost =
  per_role_usd :: "(string \<times> rat) list"
  per_role_turns :: "(string \<times> int) list"
  by_session :: "(jv \<times> session_cost) list"

record step_b =
  st_role :: string
  st_session_id :: jv
  st_outcome :: string
  st_reason :: jv
  st_state :: jv
  st_configuration :: jv

record step = step_b +
  st_t :: string
  st_ts :: rat

record annotation_b =
  an_kind :: jv
  an_note :: jv

record annotation = annotation_b +
  an_t :: string

datatype body =
    Opened opened_b
  | Signal signal_b
  | Hypothesis hypothesis_b
  | Hypothesis_status status_b
  | Recommendation recommendation_b
  | No_action no_action_b
  | Verdict verdict_b
  | Report report_b
  | Verification verification_b
  | Recovery_observation recovery_b
  | State state_b
  | Cost cost_b
  | Step step_b
  | Annotation annotation_b

record entry =
  e_episode_id :: string
  e_rev :: nat
  e_ts :: rat
  e_body :: body
  e_principal :: string
  e_session_id :: jv
  e_bundle_id :: string
  e_audit_ref :: string

section \<open>The episode record\<close>

record erec =
  r_episode_id :: string
  r_revision :: nat
  r_class :: "string option"
  r_opened_at :: "string option"
  r_opened_ts :: "rat option"
  r_trigger :: "params option"
  r_validator_id :: "string option"
  r_policy_bundle :: "string option"
  r_bundle_id :: "string option"
  r_consensus_mode :: "string option"
  r_consensus_mode_evidence :: jv
  r_signals :: "signal list"
  r_hypotheses :: "hypothesis list"
  r_recommendations :: "recommendation list"
  r_no_action :: "no_action list"
  r_verdicts :: "verdict list"
  r_approvals :: "jv list"
  r_executions :: "jv list"
  r_verifications :: "verification list"
  r_recovery_observations :: "recovery list"
  r_reports :: "report list"
  r_annotations :: "annotation list"
  r_steps :: "step list"
  r_state :: "string option"
  r_state_history :: "state_change list"
  r_cost :: cost
  r_dedupe_key :: "string option"

definition empty_record :: "string \<Rightarrow> erec" where
  "empty_record eid =
     \<lparr>r_episode_id = eid, r_revision = 0, r_class = None, r_opened_at = None, r_opened_ts = None,
      r_trigger = None, r_validator_id = None, r_policy_bundle = None, r_bundle_id = None,
      r_consensus_mode = None, r_consensus_mode_evidence = JObj [],
      r_signals = [], r_hypotheses = [], r_recommendations = [], r_no_action = [], r_verdicts = [],
      r_approvals = [], r_executions = [], r_verifications = [], r_recovery_observations = [],
      r_reports = [], r_annotations = [], r_steps = [], r_state = None, r_state_history = [],
      r_cost = \<lparr>per_role_usd = [], per_role_turns = [], by_session = []\<rparr>, r_dedupe_key = None\<rparr>"

text \<open>Python's \<^verbatim>\<open>round(x, 6)\<close> on the exact value.\<close>

definition round6 :: "rat \<Rightarrow> rat" where
  "round6 x = of_int (round_half_even (x * 1000000)) / 1000000"

definition dict_get :: "('k \<times> 'v) list \<Rightarrow> 'k \<Rightarrow> 'v \<Rightarrow> 'v" where
  "dict_get d k dflt = (case map_of d k of None \<Rightarrow> dflt | Some v \<Rightarrow> v)"

definition set_status :: "status_b \<Rightarrow> string \<Rightarrow> jv \<Rightarrow> hypothesis \<Rightarrow> hypothesis" where
  "set_status b t sess h =
     (if h_id h = hs_hypothesis_id b
      then h\<lparr>h_status := hs_status b, h_evidence_refs := hs_evidence_refs b,
             h_status_history := h_status_history h @ [(t, hs_status b, sess)]\<rparr>
      else h)"

definition add_cost :: "cost_b \<Rightarrow> cost \<Rightarrow> cost" where
  "add_cost b c =
     c\<lparr>per_role_usd := dict_set (per_role_usd c) (c_role b)
          (round6 (dict_get (per_role_usd c) (c_role b) 0 + c_usd b)),
       per_role_turns := dict_set (per_role_turns c) (c_role b)
          (dict_get (per_role_turns c) (c_role b) 0 + c_turns b),
       by_session := dict_set (by_session c) (c_session_id b)
          \<lparr>sc_role = c_role b, sc_usd = c_usd b, sc_turns = c_turns b,
           sc_configuration = c_configuration b, sc_tokens = c_tokens b\<rparr>\<rparr>"

fun apply_body :: "erec \<Rightarrow> 'a entry_scheme \<Rightarrow> string \<Rightarrow> body \<Rightarrow> erec" where
  "apply_body rec e t (Opened b) =
     rec\<lparr>r_class := Some (o_class b), r_opened_at := Some t, r_opened_ts := Some (e_ts e),
         r_trigger := Some (o_trigger b), r_validator_id := Some (o_validator_id b),
         r_bundle_id := Some (o_bundle_id b), r_policy_bundle := Some (''sha256:'' @ o_bundle_id b),
         r_consensus_mode := Some (o_consensus_mode b),
         r_consensus_mode_evidence := o_consensus_mode_evidence b,
         r_state := Some ''open'', r_dedupe_key := Some (o_dedupe_key b),
         r_state_history := r_state_history rec @
           [\<lparr>sh_t = t, sh_ts = e_ts e, sh_from = None, sh_to = ''open'', sh_by = e_principal e,
             sh_rev = e_rev e, sh_reason = JNull\<rparr>]\<rparr>"
| "apply_body rec e t (Signal b) =
     rec\<lparr>r_signals := r_signals rec @ [signal_b.extend b \<lparr>g_t = t, g_audit_ref = e_audit_ref e\<rparr>]\<rparr>"
| "apply_body rec e t (Hypothesis b) =
     rec\<lparr>r_hypotheses := r_hypotheses rec @
       [hypothesis_b.extend b \<lparr>h_status = ''open'', h_evidence_refs = [], h_t = t, h_status_history = []\<rparr>]\<rparr>"
| "apply_body rec e t (Hypothesis_status b) =
     rec\<lparr>r_hypotheses := map (set_status b t (e_session_id e)) (r_hypotheses rec)\<rparr>"
| "apply_body rec e t (Recommendation b) =
     rec\<lparr>r_recommendations := r_recommendations rec @
       [recommendation_b.extend b \<lparr>rc_session_id = e_session_id e, rc_t = t, rc_rev = e_rev e\<rparr>]\<rparr>"
| "apply_body rec e t (No_action b) =
     rec\<lparr>r_no_action := r_no_action rec @
       [no_action_b.extend b \<lparr>na_session_id = e_session_id e, na_t = t, na_rev = e_rev e\<rparr>]\<rparr>"
| "apply_body rec e t (Verdict b) =
     rec\<lparr>r_verdicts := r_verdicts rec @
       [verdict_b.extend b \<lparr>v_recommendation = v_target_id b, v_session_id = e_session_id e, v_t = t\<rparr>]\<rparr>"
| "apply_body rec e t (Report b) =
     rec\<lparr>r_reports := r_reports rec @ [report_b.extend b \<lparr>rp_session_id = e_session_id e, rp_t = t\<rparr>]\<rparr>"
| "apply_body rec e t (Verification b) =
     rec\<lparr>r_verifications := r_verifications rec @
       [verification_b.extend b \<lparr>vf_t = t, vf_by = ''verifier''\<rparr>]\<rparr>"
| "apply_body rec e t (Recovery_observation b) =
     rec\<lparr>r_recovery_observations := r_recovery_observations rec @ [recovery_b.extend b \<lparr>ro_t = t\<rparr>]\<rparr>"
| "apply_body rec e t (State b) =
     rec\<lparr>r_state := Some (sb_to b),
         r_state_history := r_state_history rec @
           [\<lparr>sh_t = t, sh_ts = e_ts e, sh_from = sb_from b, sh_to = sb_to b, sh_by = e_principal e,
             sh_rev = e_rev e, sh_reason = sb_reason b\<rparr>]\<rparr>"
| "apply_body rec e t (Cost b) = rec\<lparr>r_cost := add_cost b (r_cost rec)\<rparr>"
| "apply_body rec e t (Step b) =
     rec\<lparr>r_steps := r_steps rec @ [step_b.extend b \<lparr>st_t = t, st_ts = e_ts e\<rparr>]\<rparr>"
| "apply_body rec e t (Annotation b) =
     rec\<lparr>r_annotations := r_annotations rec @ [annotation_b.extend b \<lparr>an_t = t\<rparr>]\<rparr>"

definition apply_entry :: "erec \<Rightarrow> 'a entry_scheme \<Rightarrow> erec" where
  "apply_entry rec e = apply_body (rec\<lparr>r_revision := e_rev e\<rparr>) e (rfc3339 (e_ts e)) (e_body e)"

definition fold_entries :: "'a entry_scheme list \<Rightarrow> erec result" where
  "fold_entries es =
     (case es of [] \<Rightarrow> Inl (PyError ''KeyError'')
      | e # _ \<Rightarrow> Inr (foldl apply_entry (empty_record (e_episode_id e)) es))"

section \<open>Views\<close>

definition top_hypothesis :: "erec \<Rightarrow> hypothesis option" where
  "top_hypothesis rec =
     (case rev (filter (\<lambda>s. st_role s = ''diagnostician'' \<and> st_outcome s = ''ok'') (r_steps rec)) of
        [] \<Rightarrow> None
      | s # _ \<Rightarrow> find (\<lambda>h. JStr (h_step_session h) = st_session_id s \<and> h_rank h = 1) (r_hypotheses rec))"

datatype artefact = ARec recommendation | ANo no_action

fun artefact_rev :: "artefact \<Rightarrow> nat" where
  "artefact_rev (ARec r) = rc_rev r"
| "artefact_rev (ANo n) = na_rev n"

fun artefact_id :: "artefact \<Rightarrow> string" where
  "artefact_id (ARec r) = rc_id r"
| "artefact_id (ANo n) = na_id n"

text \<open>Python's \<^verbatim>\<open>max(..., key=...)\<close>: the first element with the largest key.\<close>

fun max_by_rev :: "artefact \<Rightarrow> artefact list \<Rightarrow> artefact" where
  "max_by_rev m [] = m"
| "max_by_rev m (x # xs) = max_by_rev (if artefact_rev m < artefact_rev x then x else m) xs"

definition under_judgement :: "erec \<Rightarrow> artefact option" where
  "under_judgement rec =
     (case map ARec (r_recommendations rec) @ map ANo (r_no_action rec) of
        [] \<Rightarrow> None | x # xs \<Rightarrow> Some (max_by_rev x xs))"

record skill =
  sk_roles :: "string list"
  sk_modes :: jv
  sk_preconditions :: jv

type_synonym skills = "(string \<times> skill) list"

text \<open>The artefact as the Judge sees it: without \<^verbatim>\<open>session_id\<close> and \<^verbatim>\<open>rev\<close>.\<close>

datatype target_view = TRec recommendation_b string | TNo no_action_b string

fun target_of :: "artefact \<Rightarrow> target_view" where
  "target_of (ARec r) = TRec (recommendation_b.truncate r) (rc_t r)"
| "target_of (ANo n) = TNo (no_action_b.truncate n) (na_t n)"

definition skill_view :: "skills \<Rightarrow> string \<Rightarrow> string \<times> jv \<times> jv" where
  "skill_view skills name =
     (case map_of skills name of
        None \<Rightarrow> (name, JNull, JArr [])
      | Some s \<Rightarrow> (name, sk_modes s, sk_preconditions s))"

record judge_view =
  jw_episode_id :: string
  jw_class :: "string option"
  jw_trigger :: "params option"
  jw_state :: "string option"
  jw_consensus_mode :: "string option"
  jw_consensus_mode_evidence :: jv
  jw_signals :: "signal list"
  jw_under_judgement :: "target_view option"
  jw_skill :: "(string \<times> jv \<times> jv) option"
  jw_verifications :: "verification list"
  jw_recovery_observations :: "recovery list"

definition judge_view_of :: "erec \<Rightarrow> skills \<Rightarrow> judge_view" where
  "judge_view_of rec skills =
     \<lparr>jw_episode_id = r_episode_id rec, jw_class = r_class rec, jw_trigger = r_trigger rec,
      jw_state = r_state rec, jw_consensus_mode = r_consensus_mode rec,
      jw_consensus_mode_evidence = r_consensus_mode_evidence rec, jw_signals = r_signals rec,
      jw_under_judgement = map_option target_of (under_judgement rec),
      jw_skill = (case under_judgement rec of
                    Some (ARec r) \<Rightarrow> Some (skill_view skills (rc_skill r)) | _ \<Rightarrow> None),
      jw_verifications = r_verifications rec,
      jw_recovery_observations = r_recovery_observations rec\<rparr>"

datatype view = JudgeView judge_view | FullView erec "hypothesis option"

definition full_view :: "erec \<Rightarrow> view" where
  "full_view rec = FullView (rec\<lparr>r_dedupe_key := None\<rparr>) (top_hypothesis rec)"

definition VIEW_BY_ROLE :: "string \<Rightarrow> string option" where
  "VIEW_BY_ROLE role = map_of
     [(''diagnostician'', ''full''), (''change_planner'', ''full''), (''proposal_judge'', ''judge''),
      (''reporter'', ''full'')] role"

definition view_for :: "erec \<Rightarrow> jv \<Rightarrow> skills \<Rightarrow> view" where
  "view_for rec vw skills =
     (if vw = JStr ''judge'' then JudgeView (judge_view_of rec skills) else full_view rec)"

section \<open>What one entry changes\<close>

lemmas extend_defs = signal_b.defs hypothesis_b.defs recommendation_b.defs no_action_b.defs
  verdict_b.defs report_b.defs verification_b.defs recovery_b.defs step_b.defs annotation_b.defs

lemma apply_entry_frame [simp]:
  "r_revision (apply_entry rec e) = e_rev e"
  "r_episode_id (apply_entry rec e) = r_episode_id rec"
  "r_approvals (apply_entry rec e) = r_approvals rec"
  "r_executions (apply_entry rec e) = r_executions rec"
  by (cases "e_body e"; simp add: apply_entry_def)+

lemma apply_entry_state:
  "r_state (apply_entry rec e) =
     (case e_body e of Opened _ \<Rightarrow> Some ''open'' | State b \<Rightarrow> Some (sb_to b) | _ \<Rightarrow> r_state rec)"
  by (cases "e_body e") (simp_all add: apply_entry_def)

lemma apply_entry_binding:
  "r_bundle_id (apply_entry rec e) = (case e_body e of Opened b \<Rightarrow> Some (o_bundle_id b) | _ \<Rightarrow> r_bundle_id rec)"
  "r_consensus_mode (apply_entry rec e) =
     (case e_body e of Opened b \<Rightarrow> Some (o_consensus_mode b) | _ \<Rightarrow> r_consensus_mode rec)"
  "r_dedupe_key (apply_entry rec e) = (case e_body e of Opened b \<Rightarrow> Some (o_dedupe_key b) | _ \<Rightarrow> r_dedupe_key rec)"
  by (cases "e_body e"; simp add: apply_entry_def)+

lemma apply_entry_signals:
  "map g_id (r_signals (apply_entry rec e)) =
     map g_id (r_signals rec) @ (case e_body e of Signal b \<Rightarrow> [g_id b] | _ \<Rightarrow> [])"
  by (cases "e_body e") (simp_all add: apply_entry_def signal_b.defs)

lemma apply_entry_hypotheses:
  "map (\<lambda>h. (h_id h, h_step_session h, h_rank h)) (r_hypotheses (apply_entry rec e)) =
     map (\<lambda>h. (h_id h, h_step_session h, h_rank h)) (r_hypotheses rec) @
       (case e_body e of Hypothesis b \<Rightarrow> [(h_id b, h_step_session b, h_rank b)] | _ \<Rightarrow> [])"
  by (cases "e_body e") (simp_all add: apply_entry_def hypothesis_b.defs set_status_def)

lemma apply_entry_recommendations:
  "r_recommendations (apply_entry rec e) = r_recommendations rec @
     (case e_body e of
        Recommendation b \<Rightarrow> [recommendation_b.extend b
          \<lparr>rc_session_id = e_session_id e, rc_t = rfc3339 (e_ts e), rc_rev = e_rev e\<rparr>]
      | _ \<Rightarrow> [])"
  by (cases "e_body e") (simp_all add: apply_entry_def)

lemma apply_entry_no_action:
  "r_no_action (apply_entry rec e) = r_no_action rec @
     (case e_body e of
        No_action b \<Rightarrow> [no_action_b.extend b
          \<lparr>na_session_id = e_session_id e, na_t = rfc3339 (e_ts e), na_rev = e_rev e\<rparr>]
      | _ \<Rightarrow> [])"
  by (cases "e_body e") (simp_all add: apply_entry_def)

lemma apply_entry_verdicts:
  "r_verdicts (apply_entry rec e) = r_verdicts rec @
     (case e_body e of
        Verdict b \<Rightarrow> [verdict_b.extend b
          \<lparr>v_recommendation = v_target_id b, v_session_id = e_session_id e, v_t = rfc3339 (e_ts e)\<rparr>]
      | _ \<Rightarrow> [])"
  by (cases "e_body e") (simp_all add: apply_entry_def)

lemma apply_entry_history:
  "r_state_history (apply_entry rec e) = r_state_history rec @
     (case e_body e of
        Opened _ \<Rightarrow> [\<lparr>sh_t = rfc3339 (e_ts e), sh_ts = e_ts e, sh_from = None, sh_to = ''open'',
                      sh_by = e_principal e, sh_rev = e_rev e, sh_reason = JNull\<rparr>]
      | State b \<Rightarrow> [\<lparr>sh_t = rfc3339 (e_ts e), sh_ts = e_ts e, sh_from = sb_from b, sh_to = sb_to b,
                     sh_by = e_principal e, sh_rev = e_rev e, sh_reason = sb_reason b\<rparr>]
      | _ \<Rightarrow> [])"
  by (cases "e_body e") (simp_all add: apply_entry_def)

lemma apply_entry_hyp_items:
  "r_hypotheses (apply_entry rec e) =
     (case e_body e of
        Hypothesis b \<Rightarrow> r_hypotheses rec @ [hypothesis_b.extend b
          \<lparr>h_status = ''open'', h_evidence_refs = [], h_t = rfc3339 (e_ts e), h_status_history = []\<rparr>]
      | Hypothesis_status b \<Rightarrow> map (set_status b (rfc3339 (e_ts e)) (e_session_id e)) (r_hypotheses rec)
      | _ \<Rightarrow> r_hypotheses rec)"
  by (cases "e_body e") (simp_all add: apply_entry_def)

lemma set_status_frame [simp]:
  "h_id (set_status b t sess h) = h_id h" "h_rank (set_status b t sess h) = h_rank h"
  "h_step_session (set_status b t sess h) = h_step_session h"
  by (simp_all add: set_status_def)

text \<open>An opening entry does not depend on the bundle id that the store put into the record.\<close>

lemma apply_entry_opened_bundle:
  "e_body e = Opened b \<Longrightarrow> apply_entry (rec\<lparr>r_bundle_id := x\<rparr>) e = apply_entry rec e"
  by (simp add: apply_entry_def)

text \<open>The Judge's view is a function of the fields it may show.\<close>

lemma judge_view_cong:
  assumes "r_episode_id rec = r_episode_id rec'" "r_class rec = r_class rec'"
    "r_trigger rec = r_trigger rec'" "r_state rec = r_state rec'"
    "r_consensus_mode rec = r_consensus_mode rec'"
    "r_consensus_mode_evidence rec = r_consensus_mode_evidence rec'"
    "r_signals rec = r_signals rec'" "r_recommendations rec = r_recommendations rec'"
    "r_no_action rec = r_no_action rec'" "r_verifications rec = r_verifications rec'"
    "r_recovery_observations rec = r_recovery_observations rec'"
  shows "judge_view_of rec sk = judge_view_of rec' sk"
  using assms by (simp add: judge_view_of_def under_judgement_def)

lemma max_by_rev_mem: "max_by_rev m xs \<in> insert m (set xs)"
  by (induction m xs rule: max_by_rev.induct) auto

lemma max_by_rev_max: "y \<in> insert m (set xs) \<Longrightarrow> artefact_rev y \<le> artefact_rev (max_by_rev m xs)"
proof (induction m xs arbitrary: y rule: max_by_rev.induct)
  case (2 m x xs)
  let ?n = "if artefact_rev m < artefact_rev x then x else m"
  have n: "artefact_rev ?n \<le> artefact_rev (max_by_rev ?n xs)" using "2.IH" by blast
  show ?case
  proof (cases "y \<in> set xs")
    case True
    then show ?thesis using "2.IH" by simp
  next
    case False
    with "2.prems" have "artefact_rev y \<le> artefact_rev ?n" by auto
    with n show ?thesis by simp
  qed
qed simp

text \<open>The artefact under judgement is the one written last.\<close>

lemma under_judgement_Some:
  assumes "under_judgement rec = Some a"
  shows "a \<in> ARec ` set (r_recommendations rec) \<union> ANo ` set (r_no_action rec)"
    and "\<And>y. y \<in> ARec ` set (r_recommendations rec) \<union> ANo ` set (r_no_action rec) \<Longrightarrow>
           artefact_rev y \<le> artefact_rev a"
proof -
  let ?c = "map ARec (r_recommendations rec) @ map ANo (r_no_action rec)"
  from assms obtain x xs where c: "?c = x # xs" and a: "a = max_by_rev x xs"
    by (auto simp: under_judgement_def split: list.splits)
  have set: "ARec ` set (r_recommendations rec) \<union> ANo ` set (r_no_action rec) = insert x (set xs)"
    using arg_cong [OF c, of set] by simp
  show "a \<in> ARec ` set (r_recommendations rec) \<union> ANo ` set (r_no_action rec)"
    unfolding set a by (rule max_by_rev_mem)
  show "\<And>y. y \<in> ARec ` set (r_recommendations rec) \<union> ANo ` set (r_no_action rec) \<Longrightarrow>
      artefact_rev y \<le> artefact_rev a"
    unfolding set a by (rule max_by_rev_max)
qed

end
