(* ===== verification/Schema.thy ===== *)
theory Schema
  imports Prelude
begin

text \<open>
  \<^verbatim>\<open>valops/common/schema.py\<close>: the JSON-Schema subset validator. A schema is a constant of
  the program, so it is a datatype whose fields are the keywords the validator reads; an absent
  keyword is \<^term>\<open>None\<close>. \<^verbatim>\<open>validate\<close> raises one exception class, so the model is the
  predicate ``no SchemaError is raised''. The patterns of the program are anchored sequences of
  character classes; \<open>re_search\<close> follows Python, where the final anchor also
  matches before one trailing newline.
\<close>

section \<open>Patterns\<close>

datatype char_class = CLit char | CDigit | CHexLower | CRn

datatype atom = One char_class | Plus char_class | Times nat char_class

definition in_class :: "char_class \<Rightarrow> char \<Rightarrow> bool" where
  "in_class k c = (let n = of_char c :: nat in
     case k of CLit d \<Rightarrow> c = d
     | CDigit \<Rightarrow> 48 \<le> n \<and> n \<le> 57
     | CHexLower \<Rightarrow> (48 \<le> n \<and> n \<le> 57) \<or> (97 \<le> n \<and> n \<le> 102)
     | CRn \<Rightarrow> c = CHR ''r'' \<or> c = CHR ''n'')"

text \<open>
  Greedy matching is exact here: in every pattern of the program a repeated class is either
  last or of fixed length.
\<close>

fun match_atoms :: "atom list \<Rightarrow> string \<Rightarrow> bool" where
  "match_atoms [] s = (s = [] \<or> s = [char_of (10::nat)])"
| "match_atoms (One k # as) s = (case s of [] \<Rightarrow> False | c # cs \<Rightarrow> in_class k c \<and> match_atoms as cs)"
| "match_atoms (Plus k # as) s =
     (takeWhile (in_class k) s \<noteq> [] \<and> match_atoms as (dropWhile (in_class k) s))"
| "match_atoms (Times n k # as) s =
     (n \<le> length s \<and> list_all (in_class k) (take n s) \<and> match_atoms as (drop n s))"

definition lit :: "string \<Rightarrow> atom list" where
  "lit s = map (\<lambda>c. One (CLit c)) s"

definition re_search :: "atom list \<Rightarrow> string \<Rightarrow> bool" where
  "re_search p s = match_atoms p s"

section \<open>Schemas\<close>

datatype jtype = TObject | TArray | TString | TBoolean | TInteger | TNumber | TNull

datatype schema = Schema
  (s_type: "jtype list option") (s_const: "jv option") (s_enum: "jv list option")
  (s_minLength: nat) (s_maxLength: "nat option") (s_pattern: "atom list option")
  (s_minimum: "rat option") (s_maximum: "rat option")
  (s_minItems: nat) (s_maxItems: "nat option") (s_items: "schema option")
  (s_properties: "(string \<times> schema) list") (s_required: "string list")
  (s_additional: bool) \<comment> \<open>\<^term>\<open>False\<close> for \<^verbatim>\<open>"additionalProperties": False\<close>\<close>

fun has_type :: "jv \<Rightarrow> jtype \<Rightarrow> bool" where
  "has_type (JObj _) t = (t = TObject)"
| "has_type (JArr _) t = (t = TArray)"
| "has_type (JStr _) t = (t = TString)"
| "has_type (JBool _) t = (t = TBoolean)"
| "has_type (JInt _) t = (t = TInteger \<or> t = TNumber)"
| "has_type (JFloat _) t = (t = TNumber)"
| "has_type JNull t = (t = TNull)"

definition string_ok :: "string \<Rightarrow> nat \<Rightarrow> nat option \<Rightarrow> atom list option \<Rightarrow> bool" where
  "string_ok s minl maxl pat =
     (minl \<le> length s \<and>
      (case maxl of None \<Rightarrow> True | Some m \<Rightarrow> length s \<le> m) \<and>
      (case pat of None \<Rightarrow> True | Some p \<Rightarrow> re_search p s) \<and>
      (strip s \<noteq> [] \<or> minl = 0))"

definition number_ok :: "rat \<Rightarrow> rat option \<Rightarrow> rat option \<Rightarrow> bool" where
  "number_ok r lo hi =
     ((case lo of None \<Rightarrow> True | Some m \<Rightarrow> m \<le> r) \<and> (case hi of None \<Rightarrow> True | Some m \<Rightarrow> r \<le> m))"

function validate :: "jv \<Rightarrow> schema \<Rightarrow> bool" where
  "validate v (Schema ty con en minl maxl pat lo hi mini maxi items props req addl) =
     ((case ty of None \<Rightarrow> True | Some ts \<Rightarrow> list_ex (has_type v) ts) \<and>
      (case con of None \<Rightarrow> True | Some c \<Rightarrow> py_eq v c) \<and>
      (case en of None \<Rightarrow> True | Some es \<Rightarrow> list_ex (py_eq v) es) \<and>
      (case v of
         JStr s \<Rightarrow> string_ok s minl maxl pat
       | JInt i \<Rightarrow> number_ok (of_int i) lo hi
       | JFloat r \<Rightarrow> number_ok r lo hi
       | JArr xs \<Rightarrow>
           mini \<le> length xs \<and>
           (case maxi of None \<Rightarrow> True | Some m \<Rightarrow> length xs \<le> m) \<and>
           (case items of None \<Rightarrow> True | Some it \<Rightarrow> list_all (\<lambda>x. validate x it) xs)
       | JObj d \<Rightarrow>
           list_all (has_key d) req \<and>
           (addl \<or> list_all (\<lambda>kv. fst kv \<in> set (map fst props)) d) \<and>
           list_all (\<lambda>(k, sub). case map_of d k of None \<Rightarrow> True | Some x \<Rightarrow> validate x sub) props
       | _ \<Rightarrow> True))"
  by pat_completeness auto
termination
proof (relation "measure (size \<circ> snd)", goal_cases)
  case 3
  have "size y \<le> size_list (size_prod (\<lambda>x. 0) size) props" if "(k, y) \<in> set props"
    for k y and props :: "(string \<times> schema) list"
    using that by (intro size_list_estimation' [OF that]) simp
  with 3 show ?case by (fastforce simp: less_Suc_eq_le intro: trans_le_add2)
qed auto

definition is_valid :: "jv \<Rightarrow> schema \<Rightarrow> bool" where
  "is_valid v s = validate v s"

text \<open>Schema builders for the keyword combinations the program uses.\<close>

definition str_schema :: "nat \<Rightarrow> nat option \<Rightarrow> schema" where
  "str_schema minl maxl = Schema (Some [TString]) None None minl maxl None None None 0 None None [] [] True"

definition pat_schema :: "atom list \<Rightarrow> schema" where
  "pat_schema p = Schema (Some [TString]) None None 0 None (Some p) None None 0 None None [] [] True"

definition enum_schema :: "string list \<Rightarrow> schema" where
  "enum_schema es = Schema (Some [TString]) None (Some (map JStr es)) 0 None None None None 0 None None [] [] True"

definition int_schema :: "rat option \<Rightarrow> rat option \<Rightarrow> schema" where
  "int_schema lo hi = Schema (Some [TInteger]) None None 0 None None lo hi 0 None None [] [] True"

definition arr_schema :: "schema \<Rightarrow> nat \<Rightarrow> nat option \<Rightarrow> schema" where
  "arr_schema it mini maxi = Schema (Some [TArray]) None None 0 None None None None mini maxi (Some it) [] [] True"

definition obj_schema :: "(string \<times> schema) list \<Rightarrow> string list \<Rightarrow> schema" where
  "obj_schema props req = Schema (Some [TObject]) None None 0 None None None None 0 None None props req False"

section \<open>What acceptance means\<close>

lemma list_ex_JStr: "list_ex (py_eq v) (map JStr es) \<longleftrightarrow> (\<exists>s \<in> set es. v = JStr s)"
proof -
  have "py_eq v (JStr s) \<longleftrightarrow> v = JStr s" for s by (cases v) auto
  then show ?thesis by (auto simp: list_ex_iff)
qed

lemma validate_str_schema [simp]:
  "validate v (str_schema minl maxl) \<longleftrightarrow> (\<exists>s. v = JStr s \<and> string_ok s minl maxl None)"
  by (cases v) (simp_all add: str_schema_def)

lemma validate_pat_schema [simp]:
  "validate v (pat_schema p) \<longleftrightarrow> (\<exists>s. v = JStr s \<and> re_search p s)"
  by (cases v) (simp_all add: pat_schema_def string_ok_def)

lemma validate_enum_schema [simp]:
  "validate v (enum_schema es) \<longleftrightarrow> (\<exists>s \<in> set es. v = JStr s)"
  by (cases v) (auto simp: enum_schema_def string_ok_def list_ex_JStr)

lemma validate_int_schema [simp]:
  "validate v (int_schema lo hi) \<longleftrightarrow> (\<exists>i. v = JInt i \<and> number_ok (of_int i) lo hi)"
  by (cases v) (simp_all add: int_schema_def)

lemma validate_arr_schema [simp]:
  "validate v (arr_schema it mini maxi) \<longleftrightarrow>
     (\<exists>xs. v = JArr xs \<and> mini \<le> length xs \<and> (case maxi of None \<Rightarrow> True | Some m \<Rightarrow> length xs \<le> m) \<and>
       (\<forall>x \<in> set xs. validate x it))"
  by (cases v) (simp_all add: arr_schema_def list_all_iff)

lemma validate_obj_schema [simp]:
  "validate v (obj_schema props req) \<longleftrightarrow>
     (\<exists>d. v = JObj d \<and> (\<forall>k \<in> set req. has_key d k) \<and> (\<forall>k \<in> set (map fst d). k \<in> set (map fst props)) \<and>
       (\<forall>(k, sub) \<in> set props. \<forall>x. map_of d k = Some x \<longrightarrow> validate x sub))"
  by (cases v) (auto simp: obj_schema_def list_all_iff split: option.splits)

text \<open>A required and declared property of an accepted object is present and accepted.\<close>

lemma validate_obj_field:
  assumes "validate (JObj d) (obj_schema props req)" "k \<in> set req" "(k, sub) \<in> set props"
  shows "validate (pget d k) sub"
proof -
  from assms obtain x where "map_of d k = Some x"
    by (auto simp: has_key_def)
  with assms show ?thesis by (auto simp: pget_def)
qed

end
