(* ===== verification/Tools.thy ===== *)
theory Tools
  imports Schema
begin

text \<open>
  \<^verbatim>\<open>valops/common/tools.py\<close> and \<^verbatim>\<open>valops/common/artefact_schema.py\<close>: the tool surface by
  role, the single source of truth for the broker-side role checks, and the structured-output
  schemas per role. Descriptions (prose for the model) are left out.
\<close>

definition DIAG :: string where "DIAG = ''diagnostician''"
definition PLAN :: string where "PLAN = ''change_planner''"
definition JUDGE :: string where "JUDGE = ''proposal_judge''"
definition REPORT :: string where "REPORT = ''reporter''"

definition T0_ROLES :: "string list" where "T0_ROLES = [DIAG, PLAN, JUDGE]"

lemmas role_defs = DIAG_def PLAN_def JUDGE_def REPORT_def

definition STR_SCHEMA :: schema where "STR_SCHEMA = str_schema 1 (Some 4000)"

definition REF_PATTERN :: "atom list" where "REF_PATTERN = lit ''s'' @ [Plus CDigit]"
definition HYP_PATTERN :: "atom list" where "HYP_PATTERN = lit ''h'' @ [Plus CDigit]"
definition ART_PATTERN :: "atom list" where "ART_PATTERN = [One CRn, Plus CDigit]"
definition REPORT_PATTERN :: "atom list" where
  "REPORT_PATTERN = lit ''report:sha256:'' @ [Times 64 CHexLower]"

text \<open>\<^verbatim>\<open>{**_REFS, "minItems": 1}\<close>\<close>

definition REFS1_SCHEMA :: schema where
  "REFS1_SCHEMA = arr_schema (pat_schema REF_PATTERN) 1 (Some 50)"

definition EMPTY_SCHEMA :: schema where "EMPTY_SCHEMA = obj_schema [] []"

record tool_spec =
  t_name :: string
  t_roles :: "string list"
  t_tier :: string
  t_broker :: string
  t_schema :: schema
  t_command_id :: "string option"
  t_states :: "string list"

definition OBS_STATES :: "string list" where
  "OBS_STATES = [''diagnosing'', ''recommending'', ''judging'']"

definition obs :: "string \<Rightarrow> string \<Rightarrow> schema \<Rightarrow> tool_spec" where
  "obs name command_id schema =
     \<lparr>t_name = name, t_roles = T0_ROLES, t_tier = ''T0'', t_broker = ''observer'', t_schema = schema,
      t_command_id = Some command_id, t_states = OBS_STATES\<rparr>"

definition tool :: "string \<Rightarrow> string list \<Rightarrow> string \<Rightarrow> string \<Rightarrow> schema \<Rightarrow> string list \<Rightarrow> tool_spec" where
  "tool name roles tier broker schema states =
     \<lparr>t_name = name, t_roles = roles, t_tier = tier, t_broker = broker, t_schema = schema,
      t_command_id = None, t_states = states\<rparr>"

definition HYPOTHESIS_SCHEMA :: schema where
  "HYPOTHESIS_SCHEMA = obj_schema
     [(''rank'', int_schema (Some 1) (Some 20)), (''claim'', STR_SCHEMA), (''test'', STR_SCHEMA),
      (''expected_evidence'', STR_SCHEMA)]
     [''rank'', ''claim'', ''test'', ''expected_evidence'']"

definition STATUS_SCHEMA :: schema where
  "STATUS_SCHEMA = obj_schema
     [(''hypothesis_id'', pat_schema HYP_PATTERN), (''status'', enum_schema [''supported'', ''refuted'']),
      (''evidence_refs'', REFS1_SCHEMA)]
     [''hypothesis_id'', ''status'', ''evidence_refs'']"

definition RECOMMENDATION_SCHEMA :: schema where
  "RECOMMENDATION_SCHEMA = obj_schema
     [(''hypothesis_id'', pat_schema HYP_PATTERN), (''action_text'', STR_SCHEMA),
      (''skill'', str_schema 1 (Some 80)),
      (''preconditions'', arr_schema STR_SCHEMA 1 (Some 20)),
      (''expected_postcondition'', STR_SCHEMA), (''evidence_refs'', REFS1_SCHEMA)]
     [''hypothesis_id'', ''action_text'', ''skill'', ''preconditions'', ''expected_postcondition'',
      ''evidence_refs'']"

definition NO_ACTION_SCHEMA :: schema where
  "NO_ACTION_SCHEMA = obj_schema
     [(''reason'', STR_SCHEMA), (''evidence_refs'', REFS1_SCHEMA)] [''reason'', ''evidence_refs'']"

definition CHECK_SCHEMA :: schema where
  "CHECK_SCHEMA = obj_schema
     [(''check'', str_schema 1 (Some 200)), (''result'', enum_schema [''pass'', ''fail'', ''n/a'']),
      (''note'', str_schema 0 (Some 2000))]
     [''check'', ''result'']"

definition CHECKS_SCHEMA :: schema where
  "CHECKS_SCHEMA = arr_schema CHECK_SCHEMA 1 (Some 30)"

definition VERDICT_SCHEMA :: schema where
  "VERDICT_SCHEMA = obj_schema
     [(''target_id'', pat_schema ART_PATTERN), (''result'', enum_schema [''PASS'', ''FAIL'']),
      (''checks'', CHECKS_SCHEMA)]
     [''target_id'', ''result'', ''checks'']"

definition REPORT_SCHEMA :: schema where
  "REPORT_SCHEMA = obj_schema
     [(''kind'', enum_schema [''incident'', ''closure'']), (''markdown'', str_schema 1 (Some 60000))]
     [''kind'', ''markdown'']"

definition ALERT_SCHEMA :: schema where
  "ALERT_SCHEMA = obj_schema
     [(''kind'', enum_schema [''incident'', ''closure'']), (''summary'', str_schema 1 (Some 1500))]
     [''kind'', ''summary'']"

definition TOOLS :: "tool_spec list" where
  "TOOLS = [
     obs ''get_validator_monitor'' ''validator_monitor'' EMPTY_SCHEMA,
     obs ''get_catchup'' ''catchup'' EMPTY_SCHEMA,
     obs ''get_leader_schedule'' ''leader_schedule_self''
       (obj_schema [(''epoch'', int_schema (Some 0) None)] []),
     obs ''get_identity_balance'' ''identity_balance'' EMPTY_SCHEMA,
     obs ''get_running_version'' ''running_version'' EMPTY_SCHEMA,
     obs ''tail_validator_log'' ''log_tail''
       (obj_schema [(''lines'', int_schema (Some 1) (Some 500))] [''lines'']),
     obs ''get_host_metrics'' ''host_metrics'' EMPTY_SCHEMA,
     obs ''get_host_hygiene'' ''host_hygiene'' EMPTY_SCHEMA,
     obs ''get_consensus_state_files'' ''consensus_state_files'' EMPTY_SCHEMA,
     tool ''get_telemetry_health'' T0_ROLES ''T0'' ''observer'' EMPTY_SCHEMA OBS_STATES,
     tool ''get_verification_result'' [PLAN, JUDGE, REPORT] ''T0'' ''episode'' EMPTY_SCHEMA
       [''recommending'', ''judging'', ''reporting'', ''resolved''],
     tool ''add_hypothesis'' [DIAG] ''T1'' ''episode'' HYPOTHESIS_SCHEMA [''diagnosing''],
     tool ''set_hypothesis_status'' [DIAG] ''T1'' ''episode'' STATUS_SCHEMA [''diagnosing''],
     tool ''propose_recommendation'' [PLAN] ''T1'' ''episode'' RECOMMENDATION_SCHEMA [''recommending''],
     tool ''report_no_action'' [PLAN] ''T1'' ''episode'' NO_ACTION_SCHEMA [''recommending''],
     tool ''draft_failover_runbook'' [PLAN] ''T1'' ''episode'' EMPTY_SCHEMA [''recommending''],
     tool ''submit_verdict'' [JUDGE] ''T1'' ''episode'' VERDICT_SCHEMA [''judging''],
     tool ''write_incident_report'' [REPORT] ''T1'' ''report'' REPORT_SCHEMA [''reporting'', ''resolved''],
     tool ''send_alert'' [REPORT] ''T1'' ''report'' ALERT_SCHEMA [''reporting'', ''resolved'']]"

definition TOOLS_BY_NAME :: "string \<Rightarrow> tool_spec option" where
  "TOOLS_BY_NAME name = map_of (map (\<lambda>t. (t_name t, t)) TOOLS) name"

definition TOOLS_BY_ROLE :: "string \<Rightarrow> string list option" where
  "TOOLS_BY_ROLE r =
     (if r \<in> set [DIAG, PLAN, JUDGE, REPORT]
      then Some (map t_name (filter (\<lambda>t. r \<in> set (t_roles t)) TOOLS)) else None)"

definition tool_allowed :: "string \<Rightarrow> string \<Rightarrow> bool" where
  "tool_allowed role name = (case TOOLS_BY_ROLE role of None \<Rightarrow> False | Some ts \<Rightarrow> name \<in> set ts)"

definition ARTEFACT_SCHEMA :: "string \<Rightarrow> schema option" where
  "ARTEFACT_SCHEMA role = map_of
     [(DIAG, obj_schema [(''hypothesis_ids'', arr_schema (pat_schema HYP_PATTERN) 1 None)] [''hypothesis_ids'']),
      (PLAN, obj_schema [(''artefact_id'', pat_schema ART_PATTERN)] [''artefact_id'']),
      (JUDGE, obj_schema [(''target_id'', pat_schema ART_PATTERN), (''result'', enum_schema [''PASS'', ''FAIL''])]
         [''target_id'', ''result'']),
      (REPORT, obj_schema [(''report_ref'', pat_schema REPORT_PATTERN)] [''report_ref''])] role"

section \<open>The table evaluated\<close>

lemmas tool_table = TOOLS_def obs_def tool_def T0_ROLES_def OBS_STATES_def role_defs

lemma TOOLS_BY_NAME_writes [simp]:
  "TOOLS_BY_NAME ''add_hypothesis'' =
     Some (tool ''add_hypothesis'' [DIAG] ''T1'' ''episode'' HYPOTHESIS_SCHEMA [''diagnosing''])"
  "TOOLS_BY_NAME ''set_hypothesis_status'' =
     Some (tool ''set_hypothesis_status'' [DIAG] ''T1'' ''episode'' STATUS_SCHEMA [''diagnosing''])"
  "TOOLS_BY_NAME ''propose_recommendation'' =
     Some (tool ''propose_recommendation'' [PLAN] ''T1'' ''episode'' RECOMMENDATION_SCHEMA [''recommending''])"
  "TOOLS_BY_NAME ''report_no_action'' =
     Some (tool ''report_no_action'' [PLAN] ''T1'' ''episode'' NO_ACTION_SCHEMA [''recommending''])"
  "TOOLS_BY_NAME ''submit_verdict'' =
     Some (tool ''submit_verdict'' [JUDGE] ''T1'' ''episode'' VERDICT_SCHEMA [''judging''])"
  "TOOLS_BY_NAME ''write_incident_report'' =
     Some (tool ''write_incident_report'' [REPORT] ''T1'' ''report'' REPORT_SCHEMA [''reporting'', ''resolved''])"
  by (simp_all add: TOOLS_BY_NAME_def TOOLS_def obs_def tool_def)

lemma tool_names_distinct: "distinct (map t_name TOOLS)"
  by (simp add: TOOLS_def obs_def tool_def)

text \<open>The broker's role check is membership of the role in the tool's own row.\<close>

lemma tool_allowed_iff:
  "tool_allowed role name \<longleftrightarrow>
     role \<in> set [DIAG, PLAN, JUDGE, REPORT] \<and> (\<exists>t \<in> set TOOLS. t_name t = name \<and> role \<in> set (t_roles t))"
  by (auto simp: tool_allowed_def TOOLS_BY_ROLE_def)

lemma recommendation_fields:
  assumes "validate (JObj r) RECOMMENDATION_SCHEMA"
  shows "\<exists>s. pget r ''hypothesis_id'' = JStr s" "\<exists>s. pget r ''skill'' = JStr s"
    "\<exists>s. pget r ''action_text'' = JStr s" "\<exists>s. pget r ''expected_postcondition'' = JStr s"
    "\<exists>xs. pget r ''evidence_refs'' = JArr xs \<and> xs \<noteq> [] \<and> (\<forall>x \<in> set xs. \<exists>s. x = JStr s)"
proof -
  note field = validate_obj_field [OF assms [unfolded RECOMMENDATION_SCHEMA_def]]
  show "\<exists>s. pget r ''hypothesis_id'' = JStr s"
    using field [of "''hypothesis_id''" "pat_schema HYP_PATTERN"] by auto
  show "\<exists>s. pget r ''skill'' = JStr s"
    using field [of "''skill''" "str_schema 1 (Some 80)"] by auto
  show "\<exists>s. pget r ''action_text'' = JStr s" "\<exists>s. pget r ''expected_postcondition'' = JStr s"
    using field [of "''action_text''" STR_SCHEMA] field [of "''expected_postcondition''" STR_SCHEMA]
    by (auto simp: STR_SCHEMA_def)
  show "\<exists>xs. pget r ''evidence_refs'' = JArr xs \<and> xs \<noteq> [] \<and> (\<forall>x \<in> set xs. \<exists>s. x = JStr s)"
    using field [of "''evidence_refs''" REFS1_SCHEMA] by (fastforce simp: REFS1_SCHEMA_def)
qed

end
