(* ===== verification/Tokens.thy ===== *)
theory Tokens
  imports Canonical Tools
begin

text \<open>
  \<^verbatim>\<open>valops/common/tokens.py\<close>: capability tokens. The Ed25519 primitives come from a
  third-party package and are parameters; so is the JSON codec of the token body. A signed
  body comes from \<^verbatim>\<open>mint\<close>, so its fields have the types that \<^verbatim>\<open>mint\<close> gives them; a body of
  another shape is the \<^verbatim>\<open>TypeError\<close> that the gate reports as \<open>unauthenticated\<close>.
\<close>

definition ROLES :: "string list" where
  "ROLES = [''diagnostician'', ''change_planner'', ''proposal_judge'', ''reporter'']"

record capability =
  cap_episode_id :: string
  cap_role :: string
  cap_session_id :: string
  cap_bundle_id :: string
  cap_exp :: rat
  cap_nonce :: string
  cap_iat :: rat
  cap_v :: int

record codec =
  cd_dumps :: "jv \<Rightarrow> bytes" \<comment> \<open>\<^verbatim>\<open>canonical\<close>\<close>
  cd_loads :: "bytes \<Rightarrow> jv option" \<comment> \<open>\<^verbatim>\<open>json.loads\<close>, \<^term>\<open>None\<close> for \<^verbatim>\<open>ValueError\<close>\<close>
  cd_sign :: "bytes \<Rightarrow> bytes" \<comment> \<open>the controller's private key\<close>
  cd_verify :: "bytes \<Rightarrow> bytes \<Rightarrow> bool" \<comment> \<open>\<^verbatim>\<open>Verifier.verify(sig, data)\<close>\<close>

definition cap_json :: "capability \<Rightarrow> jv" where
  "cap_json c = JObj
     [(''episode_id'', JStr (cap_episode_id c)), (''role'', JStr (cap_role c)),
      (''session_id'', JStr (cap_session_id c)), (''bundle_id'', JStr (cap_bundle_id c)),
      (''exp'', JFloat (cap_exp c)), (''nonce'', JStr (cap_nonce c)), (''iat'', JFloat (cap_iat c)),
      (''v'', JInt (cap_v c))]"

text \<open>\<^verbatim>\<open>Capability(**json.loads(body))\<close>: exactly the declared fields, \<^verbatim>\<open>v\<close> optional.\<close>

definition CAP_FIELDS :: "string list" where
  "CAP_FIELDS = [''episode_id'', ''role'', ''session_id'', ''bundle_id'', ''exp'', ''nonce'', ''iat'']"

definition cap_of_json :: "jv \<Rightarrow> capability option" where
  "cap_of_json v =
     (case v of JObj d \<Rightarrow>
        if list_all (has_key d) CAP_FIELDS \<and> list_all (\<lambda>kv. fst kv \<in> set (''v'' # CAP_FIELDS)) d
        then case (pget d ''episode_id'', pget d ''role'', pget d ''session_id'', pget d ''bundle_id'',
                   pget d ''nonce'', num_of (pget d ''exp''), num_of (pget d ''iat''),
                   pget_default d ''v'' (JInt 1)) of
               (JStr e, JStr r, JStr s, JStr b, JStr n, Some x, Some i, JInt w) \<Rightarrow>
                 Some \<lparr>cap_episode_id = e, cap_role = r, cap_session_id = s, cap_bundle_id = b,
                       cap_exp = x, cap_nonce = n, cap_iat = i, cap_v = w\<rparr>
             | _ \<Rightarrow> None
        else None
      | _ \<Rightarrow> None)"

definition mint ::
  "codec \<Rightarrow> rat \<Rightarrow> string \<Rightarrow> string \<Rightarrow> string \<Rightarrow> string \<Rightarrow> string \<Rightarrow> rat \<Rightarrow> string result" where
  "mint cd t nonce episode_id role session_id bundle_id ttl_s =
     (if role \<notin> set ROLES then Inl (PyError ''ValueError'')
      else let cap = \<lparr>cap_episode_id = episode_id, cap_role = role, cap_session_id = session_id,
                      cap_bundle_id = bundle_id, cap_exp = t + ttl_s, cap_nonce = nonce, cap_iat = t,
                      cap_v = 1\<rparr>;
               body = cd_dumps cd (cap_json cap)
           in Inr (b64u body @ ''.'' @ b64u (cd_sign cd body)))"

record token_gate =
  tg_revoked :: "string list"

definition revoke_session :: "token_gate \<Rightarrow> string \<Rightarrow> token_gate" where
  "revoke_session g sid = g\<lparr>tg_revoked := List.insert sid (tg_revoked g)\<rparr>"

text \<open>
  \<^verbatim>\<open>TokenGate.check(token, episode_id=..., role=...)\<close> at the clock reading \<open>t\<close>;
  \<open>bundle_ok\<close> is the registry's \<^verbatim>\<open>verify\<close>: the reason for a refusal or nothing, unless it raises.
\<close>

definition check ::
  "codec \<Rightarrow> (string \<Rightarrow> string option result) \<Rightarrow> token_gate \<Rightarrow> rat \<Rightarrow> jv \<Rightarrow> jv \<Rightarrow> jv \<Rightarrow> capability result" where
  "check cd bundle_ok g t token episode_id role =
     (case token of JStr tok \<Rightarrow>
        if count_list tok (CHR ''.'') \<noteq> 1 then Inl (RpcError ''unauthenticated'')
        else let body_s = takeWhile (\<lambda>c. c \<noteq> CHR ''.'') tok;
                 sig_s = tl (dropWhile (\<lambda>c. c \<noteq> CHR ''.'') tok)
             in (case (b64u_dec body_s, b64u_dec sig_s) of
                   (Some body, Some sig) \<Rightarrow>
                     if \<not> cd_verify cd sig body then Inl (RpcError ''unauthenticated'')
                     else (case Option.bind (cd_loads cd body) cap_of_json of
                             None \<Rightarrow> Inl (RpcError ''unauthenticated'')
                           | Some cap \<Rightarrow>
                               if cap_exp cap < t then Inl (RpcError ''token_expired'')
                               else if cap_session_id cap \<in> set (tg_revoked g)
                               then Inl (RpcError ''token_revoked'')
                               else if episode_id \<noteq> JNull \<and> episode_id \<noteq> JStr (cap_episode_id cap)
                               then Inl (RpcError ''forbidden'')
                               else if role \<noteq> JNull \<and> role \<noteq> JStr (cap_role cap)
                               then Inl (RpcError ''forbidden'')
                               else rbind (bundle_ok (cap_bundle_id cap))
                                 (\<lambda>reason. if reason \<noteq> None then Inl (RpcError ''bundle_refused'') else Inr cap))
                 | _ \<Rightarrow> Inl (RpcError ''unauthenticated''))
      | _ \<Rightarrow> Inl (RpcError ''unauthenticated''))"

section \<open>What the gate guarantees\<close>

lemma cap_of_json_cap_json [simp]: "cap_of_json (cap_json c) = Some c"
  by (simp add: cap_of_json_def cap_json_def CAP_FIELDS_def has_key_def pget_def pget_default_def)

text \<open>Everything a successful check establishes.\<close>

lemma check_Inr:
  assumes "check cd bundle_ok g t token episode_id role = Inr cap"
  shows "t \<le> cap_exp cap" "cap_session_id cap \<notin> set (tg_revoked g)"
    "episode_id = JNull \<or> episode_id = JStr (cap_episode_id cap)"
    "role = JNull \<or> role = JStr (cap_role cap)" "bundle_ok (cap_bundle_id cap) = Inr None"
    "\<exists>body sig. cd_verify cd sig body \<and> Option.bind (cd_loads cd body) cap_of_json = Some cap"
proof -
  from assms obtain tok body sig where
    "token = JStr tok" "cd_verify cd sig body" "Option.bind (cd_loads cd body) cap_of_json = Some cap"
    and rest: "\<not> cap_exp cap < t" "cap_session_id cap \<notin> set (tg_revoked g)"
      "\<not> (episode_id \<noteq> JNull \<and> episode_id \<noteq> JStr (cap_episode_id cap))"
      "\<not> (role \<noteq> JNull \<and> role \<noteq> JStr (cap_role cap))" "bundle_ok (cap_bundle_id cap) = Inr None"
    by (auto simp: check_def Let_def split: jv.splits if_splits option.splits)
  then show "\<exists>body sig. cd_verify cd sig body \<and> Option.bind (cd_loads cd body) cap_of_json = Some cap"
    by blast
  from rest show "t \<le> cap_exp cap" "cap_session_id cap \<notin> set (tg_revoked g)"
    "episode_id = JNull \<or> episode_id = JStr (cap_episode_id cap)"
    "role = JNull \<or> role = JStr (cap_role cap)" "bundle_ok (cap_bundle_id cap) = Inr None"
    by auto
qed

lemma revoked_stays: "sid \<in> set (tg_revoked g) \<Longrightarrow> sid \<in> set (tg_revoked (revoke_session g sid'))"
  by (simp add: revoke_session_def)

lemma revoke_session_revokes [simp]: "sid \<in> set (tg_revoked (revoke_session g sid))"
  by (simp add: revoke_session_def)

lemma split_at_dot:
  assumes "CHR ''.'' \<notin> set a" "CHR ''.'' \<notin> set b"
  shows "count_list (a @ ''.'' @ b) (CHR ''.'') = 1"
    "takeWhile (\<lambda>c. c \<noteq> CHR ''.'') (a @ ''.'' @ b) = a"
    "tl (dropWhile (\<lambda>c. c \<noteq> CHR ''.'') (a @ ''.'' @ b)) = b"
proof -
  have *: "\<And>c. c \<in> set a \<Longrightarrow> c \<noteq> CHR ''.''" using assms by auto
  show "count_list (a @ ''.'' @ b) (CHR ''.'') = 1"
    using assms by (simp add: count_list_0_iff [THEN iffD2])
  show "takeWhile (\<lambda>c. c \<noteq> CHR ''.'') (a @ ''.'' @ b) = a"
    using * by (simp add: takeWhile_append2)
  show "tl (dropWhile (\<lambda>c. c \<noteq> CHR ''.'') (a @ ''.'' @ b)) = b"
    using * by (simp add: dropWhile_append2)
qed

end
