(* ===== verification/Rpc.thy ===== *)
theory Rpc
  imports Prelude
begin

text \<open>
  \<^verbatim>\<open>valops/common/rpc.py\<close>: the RPC server. A handler is a function of the call context, the
  parameters and the state of the service; a raised exception is an \<^term>\<open>Inl\<close> and leaves the
  state as it was. A request line is its length and its parsed JSON value (\<^term>\<open>None\<close> when
  \<^verbatim>\<open>json.loads\<close> raises \<^verbatim>\<open>ValueError\<close>); sockets and threads are not modelled.
\<close>

definition MAX_MESSAGE :: nat where
  "MAX_MESSAGE = 4 * 1024 * 1024"

definition IDENTITY_FIELDS :: "string list" where
  "IDENTITY_FIELDS = [''actor'', ''principal'', ''caller'']"

record ctx =
  x_endpoint :: string
  x_principal :: string
  x_uid :: int
  x_pid :: int

type_synonym ('st, 'r) handler = "ctx \<Rightarrow> params \<Rightarrow> 'st \<Rightarrow> ('r \<times> 'st) result"

record ('st, 'r) endpoint =
  ep_name :: string
  ep_principal :: string
  ep_allowed_uids :: "int list"
  ep_methods :: "(string \<times> ('st, 'r) handler) list"

definition served :: "('st, 'r) endpoint \<Rightarrow> string list" where
  "served ep = sort (remdups (map fst (ep_methods ep)))"

text \<open>A response: the request id with a result, the served method names, or an error code.\<close>

datatype 'r response = Result jv 'r | Served jv "string list" | Failed jv string

fun error_code :: "exn \<Rightarrow> string" where
  "error_code (RpcError c) = c"
| "error_code (PyError _) = ''internal''"

definition strip_identity :: "params \<Rightarrow> params" where
  "strip_identity p = filter (\<lambda>(k, v). k \<notin> set IDENTITY_FIELDS) p"

text \<open>
  \<^verbatim>\<open>_dispatch\<close>. \<^term>\<open>Inl\<close> is an exception that leaves \<^verbatim>\<open>_dispatch\<close>: it ends the connection
  without a response. That happens for \<^verbatim>\<open>params\<close> that is truthy but no object (the
  \<^verbatim>\<open>RpcError\<close> raised inside the \<^verbatim>\<open>try\<close> is not one of the exceptions caught there) and for an
  unhashable \<^verbatim>\<open>method\<close>.
\<close>

definition dispatch ::
  "('st, 'r) endpoint \<Rightarrow> ctx \<Rightarrow> jv option \<Rightarrow> 'st \<Rightarrow> ('r response \<times> 'st) result" where
  "dispatch ep x req st =
     (case req of
        Some (JObj q) \<Rightarrow>
          (let rid = pget q ''id''; mth = pget q ''method'';
               params = (if truthy (pget q ''params'') then pget q ''params'' else JObj []) in
           case params of
             JObj p \<Rightarrow>
               if mth = JStr ''rpc.methods'' then Inr (Served rid (served ep), st)
               else if \<not> hashable mth then Inl (PyError ''TypeError'')
               else (case (case mth of JStr m \<Rightarrow> map_of (ep_methods ep) m | _ \<Rightarrow> None) of
                       None \<Rightarrow> Inr (Failed rid ''unknown_method'', st)
                     | Some fn \<Rightarrow>
                         (case fn x (strip_identity p) st of
                            Inl e \<Rightarrow> Inr (Failed rid (error_code e), st)
                          | Inr (r, st') \<Rightarrow> Inr (Result rid r, st')))
           | _ \<Rightarrow> Inl (RpcError ''invalid''))
      | _ \<Rightarrow> Inr (Failed JNull ''invalid'', st))"

text \<open>\<^verbatim>\<open>handle\<close>: one connection, from the peer's credentials to the last request line.\<close>

fun serve_lines ::
  "('st, 'r) endpoint \<Rightarrow> ctx \<Rightarrow> (nat \<times> jv option) list \<Rightarrow> 'st \<Rightarrow> 'r response list \<times> 'st" where
  "serve_lines ep x [] st = ([], st)"
| "serve_lines ep x ((len, req) # rest) st =
     (if MAX_MESSAGE < len then ([Failed JNull ''too_large''], st)
      else case dispatch ep x req st of
          Inl e \<Rightarrow> ([], st)
        | Inr (resp, st') \<Rightarrow>
            (let (rs, st'') = serve_lines ep x rest st' in (resp # rs, st'')))"

definition serve ::
  "('st, 'r) endpoint \<Rightarrow> int \<Rightarrow> int \<Rightarrow> (nat \<times> jv option) list \<Rightarrow> 'st \<Rightarrow> 'r response list \<times> 'st" where
  "serve ep uid pid ls st =
     (if uid \<notin> set (ep_allowed_uids ep) then ([Failed JNull ''denied''], st)
      else serve_lines ep
             \<lparr>x_endpoint = ep_name ep, x_principal = ep_principal ep, x_uid = uid, x_pid = pid\<rparr> ls st)"

section \<open>What the server guarantees\<close>

lemma strip_identity_idem [simp]: "strip_identity (strip_identity p) = strip_identity p"
  by (simp add: strip_identity_def)

lemma strip_identity_keys: "f \<in> set IDENTITY_FIELDS \<Longrightarrow> \<not> has_key (strip_identity p) f"
  by (auto simp: strip_identity_def has_key_def map_of_eq_None_iff)

text \<open>A request changes the state only through a handler of the endpoint, called with the context.\<close>

lemma dispatch_step:
  assumes "dispatch ep x req st = Inr (resp, st')"
  shows "st' = st \<or> (\<exists>m fn p r. map_of (ep_methods ep) m = Some fn \<and> fn x (strip_identity p) st = Inr (r, st'))"
  using assms
  by (auto simp: dispatch_def Let_def split: option.splits jv.splits if_splits sum.splits prod.splits)

inductive calls :: "('st, 'r) endpoint \<Rightarrow> ctx \<Rightarrow> 'st \<Rightarrow> 'st \<Rightarrow> bool" for ep x where
  calls_nil: "calls ep x st st"
| calls_step: "map_of (ep_methods ep) m = Some fn \<Longrightarrow> fn x (strip_identity p) st = Inr (r, st') \<Longrightarrow>
     calls ep x st' st'' \<Longrightarrow> calls ep x st st''"

lemma serve_lines_calls: "calls ep x st (snd (serve_lines ep x ls st))"
proof (induction ep x ls st rule: serve_lines.induct)
  case (1 ep x st)
  show ?case by (simp add: calls_nil)
next
  case (2 ep x len req rest st)
  show ?case
  proof (cases "\<not> MAX_MESSAGE < len \<and> (\<exists>resp st'. dispatch ep x req st = Inr (resp, st'))")
    case True
    then obtain resp st' where d: "dispatch ep x req st = Inr (resp, st')" and l: "\<not> MAX_MESSAGE < len" by blast
    have ih: "calls ep x st' (snd (serve_lines ep x rest st'))" using 2 [OF l d refl] .
    have "calls ep x st (snd (serve_lines ep x rest st'))"
      using dispatch_step [OF d] ih by (auto intro: calls_step)
    with l d show ?thesis by (simp add: case_prod_beta)
  next
    case False
    then show ?thesis by (auto simp: calls_nil split: sum.splits)
  qed
qed

text \<open>A well-formed request for a served method reaches its handler.\<close>

lemma serve_one:
  assumes "uid \<in> set (ep_allowed_uids ep)" "map_of (ep_methods ep) m = Some fn" "m \<noteq> ''rpc.methods''"
    "strip_identity p = p" "p \<noteq> []"
    "fn \<lparr>x_endpoint = ep_name ep, x_principal = ep_principal ep, x_uid = uid, x_pid = pid\<rparr> p st = Inr (r, st')"
  shows "serve ep uid pid [(1, Some (JObj [(''id'', rid), (''method'', JStr m), (''params'', JObj p)]))] st =
    ([Result rid r], st')"
  using assms by (simp add: serve_def dispatch_def MAX_MESSAGE_def pget_def)

end
