(* ===== verification/Store.thy ===== *)
theory Store
  imports Fold Tokens Rpc
begin

text \<open>
  \<^verbatim>\<open>valops/store/service.py\<close>: the episode store. Its state is the rows of the append-only
  \<^verbatim>\<open>entries\<close> table in insertion order, the \<^verbatim>\<open>opens\<close> table and the in-memory records. Every
  handler runs under the store's lock, so one call is one atomic step
  (\<^verbatim>\<open>append_verification\<close>, which takes the lock twice, is split in two). A handler that
  raises leaves the state as it was.

  What the store calls is an argument, the record \<open>senv\<close> of one call: the two clock
  readings, the result of the audit submission, a fresh UUID, the token gate, and the bundle
  registry's \<^verbatim>\<open>verify\<close> and \<^verbatim>\<open>load(...).skills\<close>.
\<close>

datatype audit_outcome = NoAudit | AuditRef string | AuditFails

record senv =
  se_ts :: rat
  se_uuid :: string
  se_audit :: audit_outcome
  se_gate :: "jv \<Rightarrow> jv \<Rightarrow> capability result"
  se_verify :: "string \<Rightarrow> string option result"
  se_skills :: "string \<Rightarrow> skills result"
  se_repr :: "jv \<Rightarrow> string"

record row = entry +
  w_idem_key :: string
  w_result :: jv

record store =
  s_rows :: "row list"
  s_opens :: "(string \<times> string \<times> jv) list"
  s_records :: "(string \<times> erec) list"

record episode_summary =
  es_episode_id :: string
  es_state :: "string option"
  es_revision :: nat
  es_class :: "string option"
  es_bundle_id :: "string option"
  es_trigger :: "params option"
  es_opened_at :: "string option"
  es_opened_ts :: "rat option"
  es_validator_id :: "string option"
  es_consensus_mode :: "string option"

datatype reply = RJson jv | RView view | RRecord erec | REpisodes "episode_summary list"

type_synonym store_handler = "senv \<Rightarrow> (store, reply) handler"

definition CLASSES :: "string list" where
  "CLASSES = [''validator_health'', ''telemetry_health'']"

definition MODES :: "string list" where
  "MODES = [''tower'', ''alpenglow'', ''unknown'']"

definition AGENT_OPS :: "string \<Rightarrow> string option" where
  "AGENT_OPS = map_of
     [(''append_hypothesis'', ''add_hypothesis''),
      (''append_hypothesis_status'', ''set_hypothesis_status''),
      (''append_recommendation'', ''propose_recommendation''),
      (''append_no_action'', ''report_no_action''),
      (''append_verdict'', ''submit_verdict''),
      (''append_report'', ''write_incident_report'')]"

definition terminal :: "erec \<Rightarrow> bool" where
  "terminal rec = (\<exists>st \<in> set TERMINAL. r_state rec = Some st)"

section \<open>Persistence\<close>

text \<open>
  \<^verbatim>\<open>_rebuild\<close>: the rows are read ordered by episode and revision; each one is applied to the
  record of its episode.
\<close>

definition rebuild_row :: "(string \<times> erec) list \<Rightarrow> row \<Rightarrow> (string \<times> erec) list" where
  "rebuild_row recs r =
     dict_set recs (e_episode_id r)
       (apply_entry (dict_get recs (e_episode_id r) (empty_record (e_episode_id r))) r)"

definition rebuild :: "row list \<Rightarrow> (string \<times> erec) list" where
  "rebuild rows =
     foldl rebuild_row [] (sort_key (\<lambda>r. e_episode_id r) (sort_key (\<lambda>r. e_rev r) rows))"

definition record_of :: "store \<Rightarrow> jv \<Rightarrow> erec result" where
  "record_of s eid =
     (case eid of
        JStr i \<Rightarrow> (case map_of (s_records s) i of None \<Rightarrow> Inl (RpcError ''not_found'') | Some r \<Rightarrow> Inr r)
      | _ \<Rightarrow> if hashable eid then Inl (RpcError ''not_found'') else Inl (PyError ''TypeError''))"

definition find_row :: "store \<Rightarrow> string \<Rightarrow> string \<Rightarrow> row option" where
  "find_row s eid key = find (\<lambda>r. e_episode_id r = eid \<and> w_idem_key r = key) (s_rows s)"

definition idem :: "store \<Rightarrow> string \<Rightarrow> jv \<Rightarrow> jv option result" where
  "idem s eid key =
     (if \<not> nonempty key \<or> 200 < length (str_of key) then Inl (RpcError ''invalid'')
      else Inr (map_option w_result (find_row s eid (str_of key))))"

text \<open>
  A handler that has seen no row under the idempotency key goes on; otherwise the recorded
  result is returned.
\<close>

definition once ::
  "store \<Rightarrow> string \<Rightarrow> jv \<Rightarrow> (string \<Rightarrow> (reply \<times> store) result) \<Rightarrow> (reply \<times> store) result" where
  "once s eid key k =
     rbind (idem s eid key)
       (\<lambda>prior. case prior of Some r \<Rightarrow> Inr (RJson r, s) | None \<Rightarrow> k (str_of key))"

definition mk_row ::
  "senv \<Rightarrow> erec \<Rightarrow> body \<Rightarrow> string \<Rightarrow> jv \<Rightarrow> string \<Rightarrow> string \<Rightarrow> string \<Rightarrow> jv \<Rightarrow> row" where
  "mk_row env rec bdy pr sess bid aref key res =
     \<lparr>e_episode_id = r_episode_id rec, e_rev = r_revision rec + 1, e_ts = se_ts env, e_body = bdy,
      e_principal = pr, e_session_id = sess, e_bundle_id = bid, e_audit_ref = aref,
      w_idem_key = key, w_result = res\<rparr>"

text \<open>
  \<^verbatim>\<open>_append\<close>: the audit record first, then the row (whose constraints and parameter types
  SQLite enforces), then the in-memory record.
\<close>

definition append_row ::
  "senv \<Rightarrow> store \<Rightarrow> erec \<Rightarrow> body \<Rightarrow> string \<Rightarrow> jv \<Rightarrow> string \<Rightarrow> jv \<Rightarrow> (reply \<times> store) result" where
  "append_row env s rec bdy pr sess key res =
     rbind (case se_audit env of NoAudit \<Rightarrow> Inr ''audit:none'' | AuditRef a \<Rightarrow> Inr a
            | AuditFails \<Rightarrow> Inl (RpcError ''audit_unavailable''))
       (\<lambda>aref.
         case r_bundle_id rec of
           None \<Rightarrow> Inl (PyError ''IntegrityError'')
         | Some bid \<Rightarrow>
             (let w = mk_row env rec bdy pr sess bid aref key res in
              if \<not> hashable sess then Inl (PyError ''InterfaceError'')
              else if list_ex (\<lambda>r. e_episode_id r = e_episode_id w \<and>
                                  (e_rev r = e_rev w \<or> w_idem_key r = w_idem_key w)) (s_rows s)
              then Inl (PyError ''IntegrityError'')
              else Inr (RJson res,
                s\<lparr>s_rows := s_rows s @ [w],
                  s_records := dict_set (s_records s) (r_episode_id rec) (apply_entry rec w)\<rparr>)))"

definition next_id :: "'a list \<Rightarrow> string \<Rightarrow> string" where
  "next_id items prefix = prefix @ nat_str (length items + 1)"

section \<open>Shared checks\<close>

definition refs_exist :: "erec \<Rightarrow> jv \<Rightarrow> string list result" where
  "refs_exist rec refs =
     (case refs of
        JArr rs \<Rightarrow>
          if rs = [] then Inl (RpcError ''contract'')
          else if list_ex (\<lambda>r. \<not> hashable r) rs then Inl (PyError ''TypeError'')
          else if list_all (\<lambda>r. r \<in> set (map (\<lambda>g. JStr (g_id g)) (r_signals rec))) rs
          then Inr (map str_of rs)
          else Inl (RpcError ''contract'')
      | _ \<Rightarrow> Inl (RpcError ''contract''))"

definition agent_gate :: "senv \<Rightarrow> ctx \<Rightarrow> string \<Rightarrow> params \<Rightarrow> store \<Rightarrow> (capability \<times> erec) result" where
  "agent_gate env x op p s =
     (if x_principal x \<notin> set [''episode_broker'', ''report_broker''] then Inl (RpcError ''forbidden'')
      else rbind (se_gate env (pget p ''token'') (pget p ''episode_id'')) (\<lambda>cap.
        rbind (record_of s (pget p ''episode_id'')) (\<lambda>rec.
          if Some (cap_bundle_id cap) \<noteq> r_bundle_id rec then Inl (RpcError ''bundle_refused'')
          else case Option.bind (AGENT_OPS op) TOOLS_BY_NAME of
              None \<Rightarrow> Inr (cap, rec)
            | Some ts \<Rightarrow>
                if cap_role cap \<notin> set (t_roles ts) then Inl (RpcError ''forbidden'')
                else if r_state rec \<notin> set (map Some (t_states ts)) then Inl (RpcError ''illegal_state'')
                else Inr (cap, rec))))"

definition agent_principal :: "capability \<Rightarrow> string" where
  "agent_principal cap = ''agent:'' @ cap_role cap"

definition ok_reply :: jv where
  "ok_reply = JObj [(''ok'', JBool True)]"

section \<open>The store-agent endpoint\<close>

definition append_hypothesis :: store_handler where
  "append_hypothesis env x p s =
     rbind (agent_gate env x ''append_hypothesis'' p s) (\<lambda>(cap, rec).
       once s (r_episode_id rec) (pget p ''idem_key'') (\<lambda>key.
         rbind (as_dict_or_empty (pget p ''hypothesis'')) (\<lambda>h.
           if \<not> list_all (\<lambda>f. nonempty (pget h f)) [''claim'', ''test'', ''expected_evidence'']
           then Inl (RpcError ''contract'')
           else case pget h ''rank'' of
               JInt rank \<Rightarrow>
                 if rank < 1 then Inl (RpcError ''contract'')
                 else if list_ex (\<lambda>y. h_step_session y = cap_session_id cap \<and> h_rank y = rank) (r_hypotheses rec)
                 then Inl (RpcError ''contract'')
                 else let hid = next_id (r_hypotheses rec) ''h'' in
                   append_row env s rec
                     (Hypothesis \<lparr>h_id = hid, h_step_session = cap_session_id cap, h_rank = rank,
                        h_claim = str_of (pget h ''claim''), h_test = str_of (pget h ''test''),
                        h_expected_evidence = str_of (pget h ''expected_evidence'')\<rparr>)
                     (agent_principal cap) (JStr (cap_session_id cap)) key
                     (JObj [(''hypothesis_id'', JStr hid)])
             | _ \<Rightarrow> Inl (RpcError ''contract''))))"

definition append_hypothesis_status :: store_handler where
  "append_hypothesis_status env x p s =
     rbind (agent_gate env x ''append_hypothesis_status'' p s) (\<lambda>(cap, rec).
       once s (r_episode_id rec) (pget p ''idem_key'') (\<lambda>key.
         let hid = pget p ''hypothesis_id''; status = pget p ''status'' in
         if \<not> hashable hid then Inl (PyError ''TypeError'')
         else if hid \<notin> set (map (\<lambda>h. JStr (h_id h)) (r_hypotheses rec)) then Inl (RpcError ''contract'')
         else if status \<notin> set [JStr ''supported'', JStr ''refuted''] then Inl (RpcError ''contract'')
         else rbind (refs_exist rec (pget p ''evidence_refs'')) (\<lambda>refs.
           append_row env s rec
             (Hypothesis_status \<lparr>hs_hypothesis_id = str_of hid, hs_status = str_of status,
                hs_evidence_refs = refs\<rparr>)
             (agent_principal cap) (JStr (cap_session_id cap)) key ok_reply)))"

definition planner_done :: "erec \<Rightarrow> capability \<Rightarrow> bool" where
  "planner_done rec cap =
     (list_ex (\<lambda>r. rc_session_id r = JStr (cap_session_id cap)) (r_recommendations rec) \<or>
      list_ex (\<lambda>n. na_session_id n = JStr (cap_session_id cap)) (r_no_action rec))"

text \<open>
  The mode rule: a skill marked \<open>any\<close> applies always; another one never under mode
  \<open>unknown\<close>, and otherwise only if its modes contain the episode's mode.
\<close>

definition mode_ok :: "jv \<Rightarrow> string option \<Rightarrow> unit result" where
  "mode_ok modes mode =
     (if modes = JStr ''any'' then Inr ()
      else if mode = Some ''unknown'' then Inl (RpcError ''contract'')
      else case modes of
          JArr ms \<Rightarrow> if (case mode of None \<Rightarrow> JNull | Some m \<Rightarrow> JStr m) \<in> set ms then Inr ()
                     else Inl (RpcError ''contract'')
        | JObj d \<Rightarrow> if (\<exists>m \<in> set (map fst d). mode = Some m) then Inr () else Inl (RpcError ''contract'')
        | JStr t \<Rightarrow> (case mode of None \<Rightarrow> Inl (PyError ''TypeError'')
                      | Some m \<Rightarrow> if substring m t then Inr () else Inl (RpcError ''contract''))
        | _ \<Rightarrow> Inl (PyError ''TypeError''))"

definition append_recommendation :: store_handler where
  "append_recommendation env x p s =
     rbind (agent_gate env x ''append_recommendation'' p s) (\<lambda>(cap, rec).
       once s (r_episode_id rec) (pget p ''idem_key'') (\<lambda>key.
         if planner_done rec cap then Inl (RpcError ''contract'')
         else let rv = (if truthy (pget p ''recommendation'') then pget p ''recommendation'' else JObj []) in
         case rv of
           JObj r \<Rightarrow>
             if \<not> validate rv RECOMMENDATION_SCHEMA then Inl (RpcError ''contract'')
             else if pget r ''hypothesis_id'' \<notin> set (map (\<lambda>h. JStr (h_id h)) (r_hypotheses rec))
             then Inl (RpcError ''contract'')
             else rbind (case r_bundle_id rec of None \<Rightarrow> Inl (PyError ''BundleError'') | Some b \<Rightarrow> se_skills env b)
               (\<lambda>skills.
                 case map_of skills (str_of (pget r ''skill'')) of
                   None \<Rightarrow> Inl (RpcError ''contract'')
                 | Some sk \<Rightarrow>
                     if ''change_planner'' \<notin> set (sk_roles sk) then Inl (RpcError ''contract'')
                     else rbind (mode_ok (sk_modes sk) (r_consensus_mode rec)) (\<lambda>_.
                       rbind (refs_exist rec (pget r ''evidence_refs'')) (\<lambda>refs.
                         let rid = next_id (r_recommendations rec) ''r'' in
                         append_row env s rec
                           (Recommendation \<lparr>rc_id = rid, rc_hypothesis = str_of (pget r ''hypothesis_id''),
                              rc_action_text = str_of (pget r ''action_text''),
                              rc_skill = str_of (pget r ''skill''), rc_preconditions = pget r ''preconditions'',
                              rc_expected_postcondition = str_of (pget r ''expected_postcondition''),
                              rc_evidence_refs = refs\<rparr>)
                           (agent_principal cap) (JStr (cap_session_id cap)) key
                           (JObj [(''recommendation_id'', JStr rid)]))))
         | _ \<Rightarrow> Inl (RpcError ''contract'')))"

definition append_no_action :: store_handler where
  "append_no_action env x p s =
     rbind (agent_gate env x ''append_no_action'' p s) (\<lambda>(cap, rec).
       once s (r_episode_id rec) (pget p ''idem_key'') (\<lambda>key.
         if planner_done rec cap then Inl (RpcError ''contract'')
         else if \<not> nonempty (pget p ''reason'') then Inl (RpcError ''contract'')
         else rbind (refs_exist rec (pget p ''evidence_refs'')) (\<lambda>refs.
           let nid = next_id (r_no_action rec) ''n'' in
           append_row env s rec
             (No_action \<lparr>na_id = nid, na_reason = str_of (pget p ''reason''), na_evidence_refs = refs\<rparr>)
             (agent_principal cap) (JStr (cap_session_id cap)) key
             (JObj [(''no_action_id'', JStr nid)]))))"

definition append_verdict :: store_handler where
  "append_verdict env x p s =
     rbind (agent_gate env x ''append_verdict'' p s) (\<lambda>(cap, rec).
       once s (r_episode_id rec) (pget p ''idem_key'') (\<lambda>key.
         if list_ex (\<lambda>v. v_session_id v = JStr (cap_session_id cap)) (r_verdicts rec)
         then Inl (RpcError ''contract'')
         else case under_judgement rec of
             None \<Rightarrow> Inl (RpcError ''contract'')
           | Some target \<Rightarrow>
               if pget p ''target_id'' \<noteq> JStr (artefact_id target) then Inl (RpcError ''contract'')
               else if pget p ''result'' \<notin> set [JStr ''PASS'', JStr ''FAIL''] then Inl (RpcError ''contract'')
               else (case pget p ''checks'' of
                       JArr checks \<Rightarrow>
                         if checks = [] \<or> \<not> validate (JArr checks) CHECKS_SCHEMA
                         then Inl (RpcError ''contract'')
                         else append_row env s rec
                           (Verdict \<lparr>v_target_id = artefact_id target, v_result = str_of (pget p ''result''),
                              v_checks = checks\<rparr>)
                           (agent_principal cap) (JStr (cap_session_id cap)) key ok_reply
                     | _ \<Rightarrow> Inl (RpcError ''contract''))))"

definition append_report :: store_handler where
  "append_report env x p s =
     (if x_principal x \<noteq> ''report_broker'' then Inl (RpcError ''forbidden'')
      else rbind (agent_gate env x ''append_report'' p s) (\<lambda>(cap, rec).
        once s (r_episode_id rec) (pget p ''idem_key'') (\<lambda>key.
          let kind = pget p ''kind''; ref = pget p ''ref'' in
          if \<not> hashable kind then Inl (PyError ''TypeError'')
          else case map_of [(JStr ''incident'', ''reporting''), (JStr ''closure'', ''resolved'')] kind of
              None \<Rightarrow> Inl (RpcError ''illegal_state'')
            | Some need \<Rightarrow>
                if r_state rec \<noteq> Some need then Inl (RpcError ''illegal_state'')
                else if \<not> nonempty ref \<or> \<not> starts_with ''report:sha256:'' (str_of ref)
                then Inl (RpcError ''contract'')
                else append_row env s rec (Report \<lparr>rp_kind = str_of kind, rp_ref = str_of ref\<rparr>)
                  (agent_principal cap) (JStr (cap_session_id cap)) key ok_reply)))"

definition agent_read :: store_handler where
  "agent_read env x p s =
     rbind (agent_gate env x ''read_episode'' p s) (\<lambda>(cap, rec).
       case VIEW_BY_ROLE (cap_role cap) of
         None \<Rightarrow> Inl (PyError ''KeyError'')
       | Some vw \<Rightarrow>
           rbind (case r_bundle_id rec of None \<Rightarrow> Inl (PyError ''BundleError'') | Some b \<Rightarrow> se_skills env b)
             (\<lambda>skills. Inr (RView (view_for rec (JStr vw) skills), s)))"

section \<open>The store-control endpoint\<close>

text \<open>\<^verbatim>\<open>bundles.verify(p.get("bundle_id"))\<close>: a falsy value is malformed, another non-string raises.\<close>

definition verify_param :: "senv \<Rightarrow> jv \<Rightarrow> string result" where
  "verify_param env v =
     (case v of
        JStr b \<Rightarrow> rbind (se_verify env b)
                    (\<lambda>reason. if reason \<noteq> None then Inl (RpcError ''bundle_refused'') else Inr b)
      | _ \<Rightarrow> if truthy v then Inl (PyError ''TypeError'') else Inl (RpcError ''bundle_refused''))"

definition dedupe_key_of :: "string \<Rightarrow> string \<Rightarrow> string \<Rightarrow> string" where
  "dedupe_key_of cls chk vid = cls @ ''|'' @ chk @ ''|'' @ vid"

text \<open>
  The UUID of a new episode is assumed fresh: a collision of \<^verbatim>\<open>uuid4\<close> is reported as an error
  and its effect on the in-memory records is not modelled.
\<close>

definition open_episode :: store_handler where
  "open_episode env x p s =
     (let key = pget p ''idem_key'' in
      if \<not> nonempty key then Inl (RpcError ''invalid'')
      else case map_of (s_opens s) (str_of key) of
          Some (_, res) \<Rightarrow> Inr (RJson res, s)
        | None \<Rightarrow>
            if pget p ''class'' \<notin> set (map JStr CLASSES) then Inl (RpcError ''invalid'')
            else rbind (as_dict_or_empty (pget p ''trigger'')) (\<lambda>trig.
              if \<not> list_all (\<lambda>k. nonempty (pget trig k)) [''source'', ''check'', ''severity''] \<or>
                 \<not> nonempty (pget p ''validator_id'') then Inl (RpcError ''invalid'')
              else if pget p ''consensus_mode'' \<notin> set (map JStr MODES) then Inl (RpcError ''invalid'')
              else rbind (verify_param env (pget p ''bundle_id'')) (\<lambda>bid.
                let cls = str_of (pget p ''class''); vid = str_of (pget p ''validator_id'');
                    dk = dedupe_key_of cls (str_of (pget trig ''check'')) vid in
                case find (\<lambda>(_, r). r_dedupe_key r = Some dk \<and> \<not> terminal r) (s_records s) of
                  Some (_, r) \<Rightarrow>
                    let res = JObj [(''episode_id'', JStr (r_episode_id r)), (''deduplicated'', JBool True)] in
                    Inr (RJson res, s\<lparr>s_opens := s_opens s @ [(str_of key, r_episode_id r, res)]\<rparr>)
                | None \<Rightarrow>
                    let eid = se_uuid env;
                        res = JObj [(''episode_id'', JStr eid), (''deduplicated'', JBool False)] in
                    if eid \<in> set (map fst (s_records s)) then Inl (PyError ''IntegrityError'')
                    else rbind (append_row env s ((empty_record eid)\<lparr>r_bundle_id := Some bid\<rparr>)
                        (Opened \<lparr>o_class = cls, o_trigger = trig, o_validator_id = vid, o_bundle_id = bid,
                           o_consensus_mode = str_of (pget p ''consensus_mode''),
                           o_consensus_mode_evidence =
                             (if truthy (pget p ''consensus_mode_evidence'')
                              then pget p ''consensus_mode_evidence'' else JObj []),
                           o_dedupe_key = dk\<rparr>)
                        (x_principal x) JNull (str_of key) res)
                      (\<lambda>(r, s'). Inr (r, s'\<lparr>s_opens := s_opens s' @ [(str_of key, eid, res)]\<rparr>)))))"

text \<open>\<^verbatim>\<open>p.get("idem_key") or f"state:{expected}:{to}"\<close>\<close>

definition set_state_key :: "senv \<Rightarrow> params \<Rightarrow> jv" where
  "set_state_key env p =
     (if truthy (pget p ''idem_key'') then pget p ''idem_key''
      else JStr (''state:'' @ py_str (se_repr env) (pget p ''expected_revision'') @ '':'' @
                 py_str (se_repr env) (pget p ''state'')))"

definition set_state :: store_handler where
  "set_state env x p s =
     rbind (record_of s (pget p ''episode_id'')) (\<lambda>rec.
       let to = pget p ''state''; expected = pget p ''expected_revision''
       in once s (r_episode_id rec) (set_state_key env p) (\<lambda>k.
         if terminal rec then Inl (RpcError ''terminal'')
         else if \<not> hashable to then Inl (PyError ''TypeError'')
         else let ok = (\<lambda>frm. case to of JStr t \<Rightarrow> allowed (x_principal x) frm t | _ \<Rightarrow> False);
                  here = (case r_state rec of None \<Rightarrow> False | Some f \<Rightarrow> ok f) in
           if \<not> here \<and> \<not> list_ex ok STATES then Inl (RpcError ''forbidden_transition'')
           else if \<not> py_eq expected (JInt (int (r_revision rec))) then Inl (RpcError ''conflict'')
           else if \<not> here then Inl (RpcError ''forbidden_transition'')
           else append_row env s rec
             (State \<lparr>sb_from = r_state rec, sb_to = str_of to, sb_reason = pget p ''reason''\<rparr>)
             (x_principal x) JNull k
             (JObj [(''revision'', JInt (int (r_revision rec) + 1)), (''state'', to)])))"

definition append_signal_as :: "senv \<Rightarrow> string \<Rightarrow> jv \<Rightarrow> params \<Rightarrow> store \<Rightarrow> (reply \<times> store) result" where
  "append_signal_as env pr sess p s =
     rbind (record_of s (pget p ''episode_id'')) (\<lambda>rec.
       once s (r_episode_id rec) (pget p ''idem_key'') (\<lambda>key.
         if terminal rec then Inl (RpcError ''terminal'')
         else rbind (as_dict_or_empty (pget p ''snapshot'')) (\<lambda>snap.
           if \<not> nonempty (pget snap ''command_id'') then Inl (RpcError ''invalid'')
           else let sid = next_id (r_signals rec) ''s'' in
             append_row env s rec
               (Signal \<lparr>g_id = sid, g_command_id = str_of (pget snap ''command_id''),
                  g_status = pget snap ''status'',
                  g_summary = (if pget snap ''structured'' \<noteq> JNull then pget snap ''structured''
                               else pget snap ''summary''),
                  g_truncated = truthy (pget snap ''truncated''),
                  g_collected_at = pget snap ''collected_at'',
                  g_flags = pget_default snap ''flags'' (JArr []),
                  g_ref = pget snap ''audit_ref'', g_source = pr\<rparr>)
               pr sess key (JObj [(''signal_id'', JStr sid)]))))"

definition append_signal :: store_handler where
  "append_signal env x p s = append_signal_as env (x_principal x) JNull p s"

definition simple :: "senv \<Rightarrow> ctx \<Rightarrow> params \<Rightarrow> body \<Rightarrow> store \<Rightarrow> (reply \<times> store) result" where
  "simple env x p bdy s =
     rbind (record_of s (pget p ''episode_id'')) (\<lambda>rec.
       once s (r_episode_id rec) (pget p ''idem_key'') (\<lambda>key.
         append_row env s rec bdy (x_principal x) (pget p ''session_id'') key
           (JObj [(''ok'', JBool True), (''revision'', JInt (int (r_revision rec) + 1))])))"

definition known_role :: "jv \<Rightarrow> bool" where
  "known_role v = (is_str v \<and> VIEW_BY_ROLE (str_of v) \<noteq> None)"

fun int_of :: "jv \<Rightarrow> int option" where
  "int_of (JInt i) = Some i"
| "int_of (JBool b) = Some (if b then 1 else 0)"
| "int_of _ = None"

definition append_cost :: store_handler where
  "append_cost env x p s =
     (if \<not> hashable (pget p ''role'') then Inl (PyError ''TypeError'')
      else if \<not> known_role (pget p ''role'') then Inl (RpcError ''invalid'')
      else case (num_of (pget p ''usd''), int_of (pget p ''turns'')) of
          (Some usd, Some turns) \<Rightarrow>
            simple env x p
              (Cost \<lparr>c_role = str_of (pget p ''role''), c_usd = usd, c_turns = turns,
                 c_session_id = pget p ''session_id'', c_configuration = pget p ''configuration'',
                 c_tokens = pget p ''tokens''\<rparr>) s
        | _ \<Rightarrow> Inl (RpcError ''invalid''))"

definition append_step :: store_handler where
  "append_step env x p s =
     (if pget p ''outcome'' \<notin> set [JStr ''ok'', JStr ''failed''] then Inl (RpcError ''invalid'')
      else if \<not> hashable (pget p ''role'') then Inl (PyError ''TypeError'')
      else if \<not> known_role (pget p ''role'') then Inl (RpcError ''invalid'')
      else simple env x p
        (Step \<lparr>st_role = str_of (pget p ''role''), st_session_id = pget p ''session_id'',
           st_outcome = str_of (pget p ''outcome''), st_reason = pget p ''reason'',
           st_state = pget p ''state'', st_configuration = pget p ''configuration''\<rparr>) s)"

definition annotate :: store_handler where
  "annotate env x p s =
     (if \<not> nonempty (pget p ''note'') then Inl (RpcError ''invalid'')
      else simple env x p (Annotation \<lparr>an_kind = pget p ''kind'', an_note = pget p ''note''\<rparr>) s)"

definition control_read :: store_handler where
  "control_read env x p s =
     rbind (record_of s (pget p ''episode_id'')) (\<lambda>rec.
       let vw = pget_default p ''view'' (JStr ''full'') in
       if vw = JStr ''record'' then Inr (RRecord rec, s)
       else if vw = JStr ''judge'' then
         rbind (case r_bundle_id rec of None \<Rightarrow> Inl (PyError ''BundleError'') | Some b \<Rightarrow> se_skills env b)
           (\<lambda>skills. Inr (RView (view_for rec vw skills), s))
       else Inr (RView (view_for rec vw []), s))"

definition summary_of :: "erec \<Rightarrow> episode_summary" where
  "summary_of r =
     \<lparr>es_episode_id = r_episode_id r, es_state = r_state r, es_revision = r_revision r,
      es_class = r_class r, es_bundle_id = r_bundle_id r, es_trigger = r_trigger r,
      es_opened_at = r_opened_at r, es_opened_ts = r_opened_ts r, es_validator_id = r_validator_id r,
      es_consensus_mode = r_consensus_mode r\<rparr>"

definition list_episodes :: store_handler where
  "list_episodes env x p s =
     Inr (REpisodes (sort_key (\<lambda>r. case es_opened_ts r of None \<Rightarrow> 0 | Some t \<Rightarrow> t)
       (map summary_of (filter (\<lambda>r. \<not> (truthy (pget p ''nonterminal_only'') \<and> terminal r) \<and>
                    \<not> (truthy (pget p ''class'') \<and> map_option JStr (r_class r) \<noteq> Some (pget p ''class'')))
         (map snd (s_records s))))), s)"

section \<open>The store-verify and store-observe endpoints\<close>

text \<open>
  \<^verbatim>\<open>append_verification\<close> checks the state under the lock, releases it, and writes under the
  lock again: two atomic steps.
\<close>

definition append_verification_check :: "params \<Rightarrow> store \<Rightarrow> unit result" where
  "append_verification_check p s =
     (if pget p ''result'' \<notin> set [JStr ''pass'', JStr ''fail''] \<or> \<not> nonempty (pget p ''rule'')
      then Inl (RpcError ''invalid'')
      else rbind (record_of s (pget p ''episode_id'')) (\<lambda>rec.
        if terminal rec then Inl (RpcError ''terminal'') else Inr ()))"

definition append_verification_write :: store_handler where
  "append_verification_write env x p s =
     simple env x p
       (Verification \<lparr>vf_rule = pget p ''rule'', vf_result = pget p ''result'', vf_samples = pget p ''samples''\<rparr>) s"

definition append_verification :: store_handler where
  "append_verification env x p s =
     rbind (append_verification_check p s) (\<lambda>_. append_verification_write env x p s)"

definition append_recovery_observation :: store_handler where
  "append_recovery_observation env x p s =
     (if \<not> nonempty (pget p ''rule'') then Inl (RpcError ''invalid'')
      else simple env x p (Recovery_observation \<lparr>ro_rule = pget p ''rule'', ro_note = pget p ''note''\<rparr>) s)"

definition verifier_set_state :: store_handler where
  "verifier_set_state env x p s =
     (if pget p ''state'' \<noteq> JStr ''resolved'' then Inl (RpcError ''forbidden_transition'')
      else set_state env x p s)"

definition append_observation :: store_handler where
  "append_observation env x p s =
     rbind (se_gate env (pget p ''token'') (pget p ''episode_id'')) (\<lambda>cap.
       rbind (record_of s (JStr (cap_episode_id cap))) (\<lambda>rec.
         if Some (cap_bundle_id cap) \<noteq> r_bundle_id rec then Inl (RpcError ''bundle_refused'')
         else append_signal_as env (''observer_broker/agent:'' @ cap_role cap) (JStr (cap_session_id cap)) p s))"

section \<open>Endpoints\<close>

text \<open>One socket per principal class; \<open>uids\<close> is the configured set of peer uids of a principal.\<close>

definition endpoints :: "(string \<Rightarrow> int list) \<Rightarrow> senv \<Rightarrow> (store, reply) endpoint list" where
  "endpoints uids env =
     [\<lparr>ep_name = ''store-agent'', ep_principal = ''episode_broker'', ep_allowed_uids = uids ''episode_broker'',
       ep_methods =
        [(''append_hypothesis'', append_hypothesis env),
         (''append_hypothesis_status'', append_hypothesis_status env),
         (''append_recommendation'', append_recommendation env), (''append_no_action'', append_no_action env),
         (''append_verdict'', append_verdict env), (''read_episode'', agent_read env)]\<rparr>,
      \<lparr>ep_name = ''store-agent-report'', ep_principal = ''report_broker'', ep_allowed_uids = uids ''report_broker'',
       ep_methods = [(''append_report'', append_report env), (''read_episode'', agent_read env)]\<rparr>,
      \<lparr>ep_name = ''store-control'', ep_principal = ''controller'', ep_allowed_uids = uids ''controller'',
       ep_methods =
        [(''open_episode'', open_episode env), (''set_state'', set_state env),
         (''append_signal'', append_signal env), (''append_cost'', append_cost env),
         (''append_step'', append_step env), (''annotate'', annotate env),
         (''read_episode'', control_read env), (''list_episodes'', list_episodes env)]\<rparr>,
      \<lparr>ep_name = ''store-verify'', ep_principal = ''verifier'', ep_allowed_uids = uids ''verifier'',
       ep_methods =
        [(''append_verification'', append_verification env),
         (''append_recovery_observation'', append_recovery_observation env),
         (''set_state'', verifier_set_state env), (''read_episode'', control_read env),
         (''list_episodes'', list_episodes env)]\<rparr>,
      \<lparr>ep_name = ''store-observe'', ep_principal = ''observer_broker'', ep_allowed_uids = uids ''observer_broker'',
       ep_methods = [(''append_observation'', append_observation env)]\<rparr>]"

end
