(* ===== verification/Store_Inv.thy ===== *)
theory Store_Inv
  imports Store
begin

text \<open>
  What the episode store promises. \<open>body_ok\<close> is the contract of one entry kind,
  \<open>episode\<close> the histories that satisfy it entry by entry, and \<open>log_step\<close> an abstract
  append-only log: the handlers of \<^verbatim>\<open>service.py\<close> are shown to implement it, and the invariants
  are proved of the abstract log. The locale \<open>store_deps\<close> is the interface to the token gate
  and the bundle registry.
\<close>

section \<open>The contract of one entry\<close>

definition refs_ok :: "erec \<Rightarrow> string list \<Rightarrow> bool" where
  "refs_ok rec refs = (refs \<noteq> [] \<and> set refs \<subseteq> g_id ` set (r_signals rec))"

definition planner_sessions :: "erec \<Rightarrow> jv set" where
  "planner_sessions rec =
     rc_session_id ` set (r_recommendations rec) \<union> na_session_id ` set (r_no_action rec)"

fun body_ok :: "(string \<Rightarrow> skills) \<Rightarrow> erec \<Rightarrow> string \<Rightarrow> jv \<Rightarrow> body \<Rightarrow> bool" where
  "body_ok content rec pr sess (Opened b) = False"
| "body_ok content rec pr sess (Signal b) =
     (\<not> terminal rec \<and> g_id b = next_id (r_signals rec) ''s'' \<and> g_source b = pr \<and> strip (g_command_id b) \<noteq> [] \<and>
      (pr = ''controller'' \<or> starts_with ''observer_broker/agent:'' pr))"
| "body_ok content rec pr sess (Hypothesis b) =
     (r_state rec = Some ''diagnosing'' \<and> pr = ''agent:diagnostician'' \<and> sess = JStr (h_step_session b) \<and>
      1 \<le> h_rank b \<and> h_id b = next_id (r_hypotheses rec) ''h'' \<and>
      (h_step_session b, h_rank b) \<notin> (\<lambda>h. (h_step_session h, h_rank h)) ` set (r_hypotheses rec) \<and>
      strip (h_claim b) \<noteq> [] \<and> strip (h_test b) \<noteq> [] \<and> strip (h_expected_evidence b) \<noteq> [])"
| "body_ok content rec pr sess (Hypothesis_status b) =
     (r_state rec = Some ''diagnosing'' \<and> pr = ''agent:diagnostician'' \<and>
      hs_hypothesis_id b \<in> h_id ` set (r_hypotheses rec) \<and>
      hs_status b \<in> {''supported'', ''refuted''} \<and> refs_ok rec (hs_evidence_refs b))"
| "body_ok content rec pr sess (Recommendation b) =
     (r_state rec = Some ''recommending'' \<and> pr = ''agent:change_planner'' \<and>
      sess \<notin> planner_sessions rec \<and> rc_id b = next_id (r_recommendations rec) ''r'' \<and>
      rc_hypothesis b \<in> h_id ` set (r_hypotheses rec) \<and> refs_ok rec (rc_evidence_refs b) \<and>
      (case r_bundle_id rec of None \<Rightarrow> False
       | Some bid \<Rightarrow> (case map_of (content bid) (rc_skill b) of None \<Rightarrow> False
          | Some sk \<Rightarrow> ''change_planner'' \<in> set (sk_roles sk) \<and>
                       mode_ok (sk_modes sk) (r_consensus_mode rec) = Inr ())))"
| "body_ok content rec pr sess (No_action b) =
     (r_state rec = Some ''recommending'' \<and> pr = ''agent:change_planner'' \<and>
      sess \<notin> planner_sessions rec \<and> na_id b = next_id (r_no_action rec) ''n'' \<and>
      strip (na_reason b) \<noteq> [] \<and> refs_ok rec (na_evidence_refs b))"
| "body_ok content rec pr sess (Verdict b) =
     (r_state rec = Some ''judging'' \<and> pr = ''agent:proposal_judge'' \<and>
      sess \<notin> v_session_id ` set (r_verdicts rec) \<and>
      map_option artefact_id (under_judgement rec) = Some (v_target_id b) \<and>
      v_result b \<in> {''PASS'', ''FAIL''} \<and> v_checks b \<noteq> [] \<and> validate (JArr (v_checks b)) CHECKS_SCHEMA)"
| "body_ok content rec pr sess (Report b) =
     (pr = ''agent:reporter'' \<and> starts_with ''report:sha256:'' (rp_ref b) \<and>
      (rp_kind b = ''incident'' \<and> r_state rec = Some ''reporting'' \<or>
       rp_kind b = ''closure'' \<and> r_state rec = Some ''resolved''))"
| "body_ok content rec pr sess (Verification b) =
     (pr = ''verifier'' \<and> vf_result b \<in> {JStr ''pass'', JStr ''fail''} \<and> nonempty (vf_rule b))"
| "body_ok content rec pr sess (Recovery_observation b) = (pr = ''verifier'' \<and> nonempty (ro_rule b))"
| "body_ok content rec pr sess (State b) =
     (sb_from b = r_state rec \<and> (case r_state rec of None \<Rightarrow> False | Some f \<Rightarrow> allowed pr f (sb_to b)))"
| "body_ok content rec pr sess (Cost b) = (pr = ''controller'' \<and> VIEW_BY_ROLE (c_role b) \<noteq> None)"
| "body_ok content rec pr sess (Step b) =
     (pr = ''controller'' \<and> VIEW_BY_ROLE (st_role b) \<noteq> None \<and> st_outcome b \<in> {''ok'', ''failed''})"
| "body_ok content rec pr sess (Annotation b) = (pr = ''controller'' \<and> nonempty (an_note b))"

definition opened_ok :: "row \<Rightarrow> opened_b \<Rightarrow> bool" where
  "opened_ok w b =
     (e_body w = Opened b \<and> e_rev w = 1 \<and> e_principal w = ''controller'' \<and> e_bundle_id w = o_bundle_id b \<and>
      o_class b \<in> set CLASSES \<and> o_consensus_mode b \<in> set MODES)"

definition entry_ok :: "(string \<Rightarrow> skills) \<Rightarrow> erec \<Rightarrow> row \<Rightarrow> bool" where
  "entry_ok content rec w =
     (e_episode_id w = r_episode_id rec \<and> e_rev w = Suc (r_revision rec) \<and>
      r_bundle_id rec = Some (e_bundle_id w) \<and>
      body_ok content rec (e_principal w) (e_session_id w) (e_body w))"

inductive episode :: "(string \<Rightarrow> skills) \<Rightarrow> row list \<Rightarrow> erec \<Rightarrow> bool" for content where
  episode_opened: "opened_ok w b \<Longrightarrow>
     episode content [w] (apply_entry (empty_record (e_episode_id w)) w)"
| episode_entry: "episode content ws rec \<Longrightarrow> entry_ok content rec w \<Longrightarrow>
     w_idem_key w \<notin> w_idem_key ` set ws \<Longrightarrow> episode content (ws @ [w]) (apply_entry rec w)"

section \<open>The abstract log\<close>

definition rows_of :: "store \<Rightarrow> string \<Rightarrow> row list" where
  "rows_of s i = filter (\<lambda>r. e_episode_id r = i) (s_rows s)"

inductive log_step :: "(string \<Rightarrow> skills) \<Rightarrow> store \<Rightarrow> store \<Rightarrow> bool" for content where
  log_same: "log_step content s s"
| log_dedupe: "log_step content s (s\<lparr>s_opens := ops\<rparr>)"
| log_write: "map_of (s_records s) i = Some rec \<Longrightarrow> entry_ok content rec w \<Longrightarrow>
     w_idem_key w \<notin> w_idem_key ` set (rows_of s (r_episode_id rec)) \<Longrightarrow>
     log_step content s
       (s\<lparr>s_rows := s_rows s @ [w], s_records := dict_set (s_records s) (r_episode_id rec) (apply_entry rec w)\<rparr>)"
| log_open: "e_episode_id w \<notin> fst ` set (s_records s) \<Longrightarrow> opened_ok w b \<Longrightarrow>
     (\<And>i rec. (i, rec) \<in> set (s_records s) \<Longrightarrow> r_dedupe_key rec = Some (o_dedupe_key b) \<Longrightarrow> terminal rec) \<Longrightarrow>
     log_step content s
       (s\<lparr>s_rows := s_rows s @ [w],
          s_records := dict_set (s_records s) (e_episode_id w) (apply_entry (empty_record (e_episode_id w)) w),
          s_opens := ops\<rparr>)"

definition store_inv :: "(string \<Rightarrow> skills) \<Rightarrow> store \<Rightarrow> bool" where
  "store_inv content s =
     (distinct (map fst (s_records s)) \<and>
      (\<forall>i rec. map_of (s_records s) i = Some rec \<longrightarrow> r_episode_id rec = i \<and> episode content (rows_of s i) rec) \<and>
      (\<forall>w \<in> set (s_rows s). e_episode_id w \<in> fst ` set (s_records s)) \<and>
      (\<forall>i j ri rj. map_of (s_records s) i = Some ri \<longrightarrow> map_of (s_records s) j = Some rj \<longrightarrow>
         \<not> terminal ri \<longrightarrow> \<not> terminal rj \<longrightarrow> r_dedupe_key ri = r_dedupe_key rj \<longrightarrow> i = j))"

section \<open>Facts about histories\<close>

lemma body_ok_not_opened: "body_ok content rec pr sess bdy \<Longrightarrow> (\<forall>b. bdy \<noteq> Opened b)"
  by auto

lemma entry_ok_not_opened: "entry_ok content rec w \<Longrightarrow> e_body w \<noteq> Opened b"
  using body_ok_not_opened by (force simp: entry_ok_def)

lemma apply_entry_keeps:
  assumes "\<And>b. e_body w \<noteq> Opened b"
  shows "r_bundle_id (apply_entry rec w) = r_bundle_id rec"
    "r_consensus_mode (apply_entry rec w) = r_consensus_mode rec"
    "r_dedupe_key (apply_entry rec w) = r_dedupe_key rec"
    "r_class (apply_entry rec w) = r_class rec"
  using assms by (cases "e_body w"; simp add: apply_entry_def)+

lemma terminal_iff: "terminal rec \<longleftrightarrow> r_state rec = Some ''resolved'' \<or> r_state rec = Some ''handed_off''"
  by (auto simp: terminal_def TERMINAL_def)

text \<open>No entry leaves a terminal state.\<close>

lemma entry_ok_terminal:
  assumes "entry_ok content rec w" "terminal rec"
  shows "r_state (apply_entry rec w) = r_state rec"
  using assms allowed_not_terminal
  by (cases "e_body w") (force simp: entry_ok_def apply_entry_state terminal_def)+

lemma entry_ok_nonterminal:
  "entry_ok content rec w \<Longrightarrow> \<not> terminal (apply_entry rec w) \<Longrightarrow> \<not> terminal rec"
  using entry_ok_terminal by (fastforce simp: terminal_def)

lemma episode_fold:
  assumes "episode content ws rec"
  shows "rec = foldl apply_entry (empty_record (r_episode_id rec)) ws"
  using assms by (induction rule: episode.induct) (auto simp: empty_record_def)

lemma episode_nonempty: "episode content ws rec \<Longrightarrow> ws \<noteq> []"
  by (induction rule: episode.induct) auto

lemma episode_rows_id: "episode content ws rec \<Longrightarrow> \<forall>w \<in> set ws. e_episode_id w = r_episode_id rec"
  by (induction rule: episode.induct) (auto simp: empty_record_def entry_ok_def)

lemma episode_revs: "episode content ws rec \<Longrightarrow> map e_rev ws = [1..<Suc (length ws)]"
  and episode_revision: "episode content ws rec \<Longrightarrow> r_revision rec = length ws"
proof (induction rule: episode.induct)
  case (episode_opened w b)
  { case 1 show ?case using episode_opened by (simp add: opened_ok_def) }
  { case 2 show ?case using episode_opened by (simp add: opened_ok_def) }
next
  case (episode_entry ws rec w)
  { case 1 show ?case using episode_entry by (simp add: entry_ok_def) }
  { case 2 show ?case using episode_entry by (simp add: entry_ok_def) }
qed

lemma episode_keys: "episode content ws rec \<Longrightarrow> distinct (map w_idem_key ws)"
  by (induction rule: episode.induct) auto

lemma episode_bundle: "episode content ws rec \<Longrightarrow> \<exists>b. r_bundle_id rec = Some b \<and> (\<forall>w \<in> set ws. e_bundle_id w = b)"
proof (induction rule: episode.induct)
  case (episode_opened w b)
  then show ?case by (simp add: opened_ok_def apply_entry_binding)
next
  case (episode_entry ws rec w)
  then show ?case
    using apply_entry_keeps(1) [of w rec] entry_ok_not_opened [OF episode_entry.hyps(2)]
    by (auto simp: entry_ok_def)
qed

lemma episode_state: "episode content ws rec \<Longrightarrow> \<exists>st \<in> set STATES. r_state rec = Some st"
proof (induction rule: episode.induct)
  case (episode_opened w b)
  then show ?case by (simp add: opened_ok_def apply_entry_state STATES_def)
next
  case (episode_entry ws rec w)
  then show ?case
    using allowed_target by (cases "e_body w") (fastforce simp: entry_ok_def apply_entry_state)+
qed

lemma rows_sorted: "episode content ws rec \<Longrightarrow> sorted (map e_rev ws)"
  by (simp add: episode_revs del: upt_Suc)

section \<open>The log keeps the invariant\<close>

lemma rows_of_snoc:
  "rows_of (s\<lparr>s_rows := s_rows s @ [w], s_records := d\<rparr>) i =
     (if e_episode_id w = i then rows_of s i @ [w] else rows_of s i)"
  "rows_of (s\<lparr>s_rows := s_rows s @ [w], s_records := d, s_opens := ops\<rparr>) i =
     (if e_episode_id w = i then rows_of s i @ [w] else rows_of s i)"
  by (simp_all add: rows_of_def)

lemma rows_of_frame [simp]: "rows_of (s\<lparr>s_opens := ops\<rparr>) = rows_of s" "rows_of (s\<lparr>s_records := d\<rparr>) = rows_of s"
  by (simp_all add: rows_of_def fun_eq_iff)

lemma store_invD:
  assumes "store_inv content s"
  shows "distinct (map fst (s_records s))"
    and "map_of (s_records s) i = Some rec \<Longrightarrow> r_episode_id rec = i"
    and "map_of (s_records s) i = Some rec \<Longrightarrow> episode content (rows_of s i) rec"
    and "w \<in> set (s_rows s) \<Longrightarrow> e_episode_id w \<in> fst ` set (s_records s)"
    and "map_of (s_records s) i = Some ri \<Longrightarrow> map_of (s_records s) j = Some rj \<Longrightarrow>
           \<not> terminal ri \<Longrightarrow> \<not> terminal rj \<Longrightarrow> r_dedupe_key ri = r_dedupe_key rj \<Longrightarrow> i = j"
  using assms unfolding store_inv_def by blast+

lemma rows_of_unknown:
  assumes "store_inv content s" "i \<notin> fst ` set (s_records s)" shows "rows_of s i = []"
  using store_invD(4) [OF assms(1)] assms(2) by (auto simp: rows_of_def filter_empty_conv)

lemma fst_dict_set: "fst ` set (dict_set d k v) = insert k (fst ` set d)"
proof -
  have "set (map fst (dict_set d k v)) = insert k (set (map fst d))" by (auto simp: keys_dict_set)
  then show ?thesis by simp
qed

lemma log_write_inv:
  assumes inv: "store_inv content s" and rec: "map_of (s_records s) i = Some rec"
    and ok: "entry_ok content rec w" and key: "w_idem_key w \<notin> w_idem_key ` set (rows_of s (r_episode_id rec))"
  shows "store_inv content
    (s\<lparr>s_rows := s_rows s @ [w], s_records := dict_set (s_records s) (r_episode_id rec) (apply_entry rec w)\<rparr>)"
    (is "store_inv _ ?s")
proof -
  note i = store_invD(2) [OF inv rec] and D = store_invD [OF inv]
  have w: "e_episode_id w = i" using ok i by (simp add: entry_ok_def)
  have dk: "r_dedupe_key (apply_entry rec w) = r_dedupe_key rec"
    using apply_entry_keeps(3) entry_ok_not_opened [OF ok] by blast
  have recs: "map_of (s_records ?s) j = (if j = i then Some (apply_entry rec w) else map_of (s_records s) j)" for j
    using i by simp
  have ep: "r_episode_id r = j \<and> episode content (rows_of ?s j) r" if "map_of (s_records ?s) j = Some r" for j r
  proof (cases "j = i")
    case True
    have "episode content (rows_of s i @ [w]) (apply_entry rec w)"
      using D(3) [OF rec] ok key i by (intro episode_entry) auto
    with True that show ?thesis unfolding recs rows_of_snoc using i w by auto
  next
    case False
    with that D(2,3) show ?thesis unfolding recs rows_of_snoc using w by auto
  qed
  have one: "j = k" if "map_of (s_records ?s) j = Some rj" "map_of (s_records ?s) k = Some rk"
    "\<not> terminal rj" "\<not> terminal rk" "r_dedupe_key rj = r_dedupe_key rk" for j k rj rk
  proof -
    have old: "\<exists>r'. map_of (s_records s) l = Some r' \<and> \<not> terminal r' \<and> r_dedupe_key r' = r_dedupe_key r"
      if "map_of (s_records ?s) l = Some r" "\<not> terminal r" for l r
      using that rec dk entry_ok_nonterminal [OF ok] unfolding recs by (auto split: if_splits)
    from old [OF that(1,3)] old [OF that(2,4)] that(5) D(5) [of j _ k] show ?thesis by auto
  qed
  have "distinct (map fst (s_records ?s))" using D(1) by (simp add: distinct_keys_dict_set)
  moreover have "\<forall>v \<in> set (s_rows ?s). e_episode_id v \<in> fst ` set (s_records ?s)"
    using D(4) w i by (auto simp: fst_dict_set)
  ultimately show ?thesis using ep one unfolding store_inv_def by blast
qed

lemma log_open_inv:
  assumes inv: "store_inv content s" and new: "e_episode_id w \<notin> fst ` set (s_records s)"
    and ok: "opened_ok w b"
    and dedupe: "\<And>i rec. (i, rec) \<in> set (s_records s) \<Longrightarrow> r_dedupe_key rec = Some (o_dedupe_key b) \<Longrightarrow> terminal rec"
  shows "store_inv content
    (s\<lparr>s_rows := s_rows s @ [w],
       s_records := dict_set (s_records s) (e_episode_id w) (apply_entry (empty_record (e_episode_id w)) w),
       s_opens := ops\<rparr>)" (is "store_inv _ ?s")
proof -
  let ?i = "e_episode_id w" and ?r = "apply_entry (empty_record (e_episode_id w)) w"
  note D = store_invD [OF inv]
  have recs: "map_of (s_records ?s) j = (if j = ?i then Some ?r else map_of (s_records s) j)" for j
    by simp
  have dk: "r_dedupe_key ?r = Some (o_dedupe_key b)"
    using ok by (simp add: opened_ok_def apply_entry_binding)
  have ep: "r_episode_id r = j \<and> episode content (rows_of ?s j) r" if "map_of (s_records ?s) j = Some r" for j r
    using that D(2,3) episode_opened [OF ok, of content] rows_of_unknown [OF inv new]
    unfolding recs rows_of_snoc by (auto simp: empty_record_def split: if_splits)
  have other: "terminal r" if "map_of (s_records s) j = Some r" "r_dedupe_key r = Some (o_dedupe_key b)" for j r
    using dedupe map_of_SomeD that by fast
  have one: "j = k" if h: "map_of (s_records ?s) j = Some rj" "map_of (s_records ?s) k = Some rk"
    "\<not> terminal rj" "\<not> terminal rk" "r_dedupe_key rj = r_dedupe_key rk" for j k rj rk
  proof (rule ccontr)
    assume ne: "j \<noteq> k"
    show False
    proof (cases "j = ?i \<or> k = ?i")
      case True
      then obtain l r where "map_of (s_records s) l = Some r" "\<not> terminal r" "r_dedupe_key r = Some (o_dedupe_key b)"
        using h ne dk unfolding recs by (metis option.inject)
      then show False using other by blast
    next
      case False
      with h ne D(5) [of j rj k rk] show False unfolding recs by simp
    qed
  qed
  have "distinct (map fst (s_records ?s))" using D(1) by (simp add: distinct_keys_dict_set)
  moreover have "\<forall>v \<in> set (s_rows ?s). e_episode_id v \<in> fst ` set (s_records ?s)"
    using D(4) by (auto simp: fst_dict_set)
  ultimately show ?thesis using ep one unfolding store_inv_def by blast
qed

lemma store_inv_opens: "store_inv content s \<Longrightarrow> store_inv content (s\<lparr>s_opens := ops\<rparr>)"
  by (simp add: store_inv_def)

lemma log_step_inv: "log_step content s s' \<Longrightarrow> store_inv content s \<Longrightarrow> store_inv content s'"
proof (induction rule: log_step.induct)
  case (log_write s i rec w)
  show ?case by (rule log_write_inv [OF log_write(4,1-3)])
next
  case (log_open w s b ops)
  show ?case by (rule log_open_inv [OF log_open(4,1-3)])
qed (simp_all add: store_inv_opens)

section \<open>The records are the fold of the log\<close>

lemma rebuild_row_foldl:
  "map_of (foldl rebuild_row recs ws) i =
     (let es = filter (\<lambda>r. e_episode_id r = i) ws in
      if es = [] then map_of recs i
      else Some (foldl apply_entry (dict_get recs i (empty_record i)) es))"
  by (induction ws arbitrary: recs) (auto simp: rebuild_row_def dict_get_def Let_def)

lemma rebuild_keys_distinct: "distinct (map fst (rebuild ws))"
proof -
  have "distinct (map fst recs) \<Longrightarrow> distinct (map fst (foldl rebuild_row recs vs))" for recs vs
    by (induction vs arbitrary: recs) (auto simp: rebuild_row_def distinct_keys_dict_set)
  then show ?thesis by (simp add: rebuild_def)
qed

lemma filter_sorted_rows:
  "filter (\<lambda>r. e_episode_id r = i) (sort_key e_episode_id (sort_key e_rev ws)) =
     sort_key e_rev (filter (\<lambda>r. e_episode_id r = i) ws)"
  by (simp add: sort_key_stable filter_sort)

lemma map_of_rebuild:
  "map_of (rebuild ws) i =
     (let es = sort_key e_rev (filter (\<lambda>r. e_episode_id r = i) ws) in
      if es = [] then None else Some (foldl apply_entry (empty_record i) es))"
  unfolding rebuild_def rebuild_row_foldl
  using filter_sorted_rows [of i ws] by (simp add: dict_get_def Let_def)

lemma rebuild_records:
  assumes inv: "store_inv content s"
  shows "map_of (rebuild (s_rows s)) = map_of (s_records s)"
proof
  fix i
  show "map_of (rebuild (s_rows s)) i = map_of (s_records s) i"
  proof (cases "map_of (s_records s) i")
    case None
    then have "rows_of s i = []" using rows_of_unknown [OF inv, of i] by (simp add: map_of_eq_None_iff)
    with None show ?thesis by (simp add: map_of_rebuild rows_of_def)
  next
    case (Some rec)
    note ep = store_invD(3) [OF inv Some] and i = store_invD(2) [OF inv Some]
    have "sort_key e_rev (rows_of s i) = rows_of s i"
      using rows_sorted [OF ep] by (rule sort_key_id_if_sorted)
    with episode_fold [OF ep] episode_nonempty [OF ep] i Some show ?thesis
      by (simp add: map_of_rebuild rows_of_def)
  qed
qed

lemma restart_inv:
  assumes "store_inv content s" shows "store_inv content (s\<lparr>s_records := rebuild (s_rows s)\<rparr>)"
proof -
  have "fst ` set (rebuild (s_rows s)) = fst ` set (s_records s)"
    using rebuild_records [OF assms] by (metis dom_map_of_conv_image_fst)
  with assms rebuild_records [OF assms] show ?thesis
    by (simp add: store_inv_def rebuild_keys_distinct)
qed

end
