(* ===== verification/Store_Refine.thy ===== *)
theory Store_Refine
  imports Store_Inv
begin

text \<open>
  Every handler of the store's endpoints implements the abstract log of \<open>Store_Inv\<close>. The
  locale \<open>store_deps\<close> states what the store relies on: the token gate compares the
  episode and asks for the bundle, and a bundle id names one immutable content.
\<close>

section \<open>Inversion of the shared checks\<close>

lemma record_of_Inr: "record_of s v = Inr rec \<longleftrightarrow> (\<exists>i. v = JStr i \<and> map_of (s_records s) i = Some rec)"
  by (auto simp: record_of_def split: jv.splits option.splits)

lemma once_Inr:
  assumes "once s eid key k = Inr (r, s')"
  shows "nonempty key" "s' = s \<and> (\<exists>w. find_row s eid (str_of key) = Some w \<and> r = RJson (w_result w)) \<or>
    find_row s eid (str_of key) = None \<and> k (str_of key) = Inr (r, s')"
  using assms by (auto simp: once_def idem_def split: option.splits if_splits)

lemma find_row_None: "find_row s eid key = None \<longleftrightarrow> key \<notin> w_idem_key ` set (rows_of s eid)"
  by (auto simp: find_row_def rows_of_def find_None_iff)

lemma append_row_Inr:
  assumes "append_row env s rec bdy pr sess key res = Inr (r, s')"
  obtains bid aref where "r_bundle_id rec = Some bid" "r = RJson res" "hashable sess"
    "key \<notin> w_idem_key ` set (rows_of s (r_episode_id rec))"
    "s' = s\<lparr>s_rows := s_rows s @ [mk_row env rec bdy pr sess bid aref key res],
      s_records := dict_set (s_records s) (r_episode_id rec)
        (apply_entry rec (mk_row env rec bdy pr sess bid aref key res))\<rparr>"
proof -
  from assms obtain aref bid where 1: "r_bundle_id rec = Some bid" "hashable sess" "r = RJson res"
    "\<not> list_ex (\<lambda>r. e_episode_id r = r_episode_id rec \<and> (e_rev r = r_revision rec + 1 \<or> w_idem_key r = key)) (s_rows s)"
    "s' = s\<lparr>s_rows := s_rows s @ [mk_row env rec bdy pr sess bid aref key res],
      s_records := dict_set (s_records s) (r_episode_id rec)
        (apply_entry rec (mk_row env rec bdy pr sess bid aref key res))\<rparr>"
    by (auto simp: append_row_def Let_def mk_row_def split: option.splits audit_outcome.splits if_splits)
  then have "key \<notin> w_idem_key ` set (rows_of s (r_episode_id rec))"
    by (auto simp: list_ex_iff rows_of_def)
  with 1 that show ?thesis by blast
qed

lemma append_row_log:
  assumes app: "append_row env s rec bdy pr sess key res = Inr (r, s')"
    and rec: "map_of (s_records s) i = Some rec" and ok: "body_ok content rec pr sess bdy"
  shows "log_step content s s'"
proof -
  from app obtain bid aref where a: "r_bundle_id rec = Some bid"
    "key \<notin> w_idem_key ` set (rows_of s (r_episode_id rec))"
    "s' = s\<lparr>s_rows := s_rows s @ [mk_row env rec bdy pr sess bid aref key res],
      s_records := dict_set (s_records s) (r_episode_id rec)
        (apply_entry rec (mk_row env rec bdy pr sess bid aref key res))\<rparr>"
    by (rule append_row_Inr)
  show ?thesis unfolding a(3)
    by (rule log_write [OF rec]) (use a ok in \<open>simp_all add: entry_ok_def mk_row_def\<close>)
qed

lemma refs_exist_Inr:
  assumes "refs_exist rec v = Inr refs" shows "refs_ok rec refs"
proof -
  from assms obtain rs where "v = JArr rs" "rs \<noteq> []"
    "list_all (\<lambda>r. r \<in> set (map (\<lambda>g. JStr (g_id g)) (r_signals rec))) rs" "refs = map str_of rs"
    by (auto simp: refs_exist_def split: jv.splits if_splits)
  then show ?thesis by (force simp: refs_ok_def list_all_iff)
qed

lemma agent_gate_Inr:
  assumes "agent_gate env x op p s = Inr (cap, rec)"
  shows "x_principal x \<in> {''episode_broker'', ''report_broker''}"
    and "se_gate env (pget p ''token'') (pget p ''episode_id'') = Inr cap"
    and "\<exists>i. pget p ''episode_id'' = JStr i \<and> map_of (s_records s) i = Some rec"
    and "r_bundle_id rec = Some (cap_bundle_id cap)"
    and "AGENT_OPS op = Some nm \<Longrightarrow> TOOLS_BY_NAME nm = Some ts \<Longrightarrow>
           cap_role cap \<in> set (t_roles ts) \<and> r_state rec \<in> Some ` set (t_states ts)"
  using assms by (auto simp: agent_gate_def record_of_Inr split: option.splits if_splits)

lemma agent_gate_tool:
  "agent_gate env x op p s = Inr (cap, rec) \<Longrightarrow>
     \<forall>nm ts. AGENT_OPS op = Some nm \<longrightarrow> TOOLS_BY_NAME nm = Some ts \<longrightarrow>
       cap_role cap \<in> set (t_roles ts) \<and> r_state rec \<in> Some ` set (t_states ts)"
  using agent_gate_Inr(5) by blast

lemma gate_tools:
  "agent_gate env x ''append_hypothesis'' p s = Inr (cap, rec) \<Longrightarrow>
     agent_principal cap = ''agent:diagnostician'' \<and> r_state rec = Some ''diagnosing''"
  "agent_gate env x ''append_hypothesis_status'' p s = Inr (cap, rec) \<Longrightarrow>
     agent_principal cap = ''agent:diagnostician'' \<and> r_state rec = Some ''diagnosing''"
  "agent_gate env x ''append_recommendation'' p s = Inr (cap, rec) \<Longrightarrow>
     agent_principal cap = ''agent:change_planner'' \<and> r_state rec = Some ''recommending''"
  "agent_gate env x ''append_no_action'' p s = Inr (cap, rec) \<Longrightarrow>
     agent_principal cap = ''agent:change_planner'' \<and> r_state rec = Some ''recommending''"
  "agent_gate env x ''append_verdict'' p s = Inr (cap, rec) \<Longrightarrow>
     agent_principal cap = ''agent:proposal_judge'' \<and> r_state rec = Some ''judging''"
  "agent_gate env x ''append_report'' p s = Inr (cap, rec) \<Longrightarrow> agent_principal cap = ''agent:reporter''"
  by (auto dest!: agent_gate_tool simp: AGENT_OPS_def agent_principal_def role_defs tool_def)

section \<open>Outcomes that are steps of the log\<close>

text \<open>\<open>logs content s m\<close>: if the computation \<open>m\<close>, started in \<open>s\<close>, succeeds, it is a step of the log.\<close>

definition logs :: "(string \<Rightarrow> skills) \<Rightarrow> store \<Rightarrow> (reply \<times> store) result \<Rightarrow> bool" where
  "logs content s m = (\<forall>r s'. m = Inr (r, s') \<longrightarrow> log_step content s s')"

lemma logsD: "logs content s m \<Longrightarrow> m = Inr (r, s') \<Longrightarrow> log_step content s s'"
  by (simp add: logs_def)

lemma logs_error [simp]: "logs content s (Inl e)"
  by (simp add: logs_def)

lemma logs_same [simp]: "logs content s (Inr (r, s))"
  by (simp add: logs_def log_same)

lemma logs_bind: "(\<And>y. m = Inr y \<Longrightarrow> logs content s (k y)) \<Longrightarrow> logs content s (rbind m k)"
  by (auto simp: logs_def)

lemma logs_if: "(b \<Longrightarrow> logs content s m) \<Longrightarrow> (\<not> b \<Longrightarrow> logs content s n) \<Longrightarrow> logs content s (if b then m else n)"
  by simp

lemma logs_once:
  "(nonempty key \<Longrightarrow> find_row s eid (str_of key) = None \<Longrightarrow> logs content s (k (str_of key))) \<Longrightarrow>
     logs content s (once s eid key k)"
  using once_Inr log_same by (fastforce simp: logs_def)

lemma logs_append:
  "map_of (s_records s) i = Some rec \<Longrightarrow> body_ok content rec pr sess bdy \<Longrightarrow>
     logs content s (append_row env s rec bdy pr sess key res)"
  using append_row_log by (fastforce simp: logs_def)

lemmas logs_intros = logs_bind logs_if logs_once

section \<open>The handlers implement the log\<close>

lemma nonempty_str: "nonempty v \<Longrightarrow> strip (str_of v) \<noteq> []"
  by (auto simp: nonempty_def split: jv.splits)

lemma list_ex_eq_image:
  "list_ex (\<lambda>y. f y = c) xs \<longleftrightarrow> c \<in> f ` set xs"
  "list_ex (\<lambda>y. f y = c \<and> g y = d) xs \<longleftrightarrow> (c, d) \<in> (\<lambda>y. (f y, g y)) ` set xs"
  by (auto simp: list_ex_iff image_iff)

lemma logs_agent:
  "(\<And>cap rec i. agent_gate env x op p s = Inr (cap, rec) \<Longrightarrow> map_of (s_records s) i = Some rec \<Longrightarrow>
      logs content s (k (cap, rec))) \<Longrightarrow> logs content s (rbind (agent_gate env x op p s) k)"
  using agent_gate_Inr(3) by (intro logs_bind) (metis prod.exhaust)

lemma append_hypothesis_logs: "logs content s (append_hypothesis env x p s)"
  unfolding append_hypothesis_def
  by (rule logs_agent)
    (auto intro!: logs_intros logs_append split: jv.splits
      simp: Let_def list_ex_eq_image nonempty_str dest!: refs_exist_Inr gate_tools)

lemma append_hypothesis_status_logs: "logs content s (append_hypothesis_status env x p s)"
  unfolding append_hypothesis_status_def
  by (rule logs_agent)
    (auto intro!: logs_intros logs_append simp: Let_def dest!: refs_exist_Inr gate_tools)

lemma planner_done_iff: "planner_done rec cap \<longleftrightarrow> JStr (cap_session_id cap) \<in> planner_sessions rec"
  by (simp add: planner_done_def planner_sessions_def list_ex_eq_image)

lemma append_no_action_logs: "logs content s (append_no_action env x p s)"
  unfolding append_no_action_def
  by (rule logs_agent)
    (auto intro!: logs_intros logs_append simp: Let_def planner_done_iff nonempty_str
      dest!: refs_exist_Inr gate_tools)

lemma append_verdict_logs: "logs content s (append_verdict env x p s)"
  unfolding append_verdict_def
  by (rule logs_agent)
    (auto intro!: logs_intros logs_append simp: list_ex_eq_image split: option.splits jv.splits dest!: refs_exist_Inr gate_tools)

lemma append_report_logs: "logs content s (append_report env x p s)"
  unfolding append_report_def
  by (intro logs_if logs_agent)
    (auto intro!: logs_intros logs_append simp: Let_def split: option.splits if_splits dest!: refs_exist_Inr gate_tools)

lemma append_recommendation_logs:
  assumes "\<And>b sk. se_skills env b = Inr sk \<Longrightarrow> sk = content b"
  shows "logs content s (append_recommendation env x p s)"
  unfolding append_recommendation_def
  by (rule logs_agent)
    (auto intro!: logs_intros logs_append simp: Let_def planner_done_iff split: option.splits jv.splits
      dest!: refs_exist_Inr gate_tools assms)

lemma agent_read_logs: "logs content s (agent_read env x p s)"
  unfolding agent_read_def by (rule logs_agent) (auto intro!: logs_intros split: option.splits)

text \<open>The control, verify and observe endpoints.\<close>

lemma logs_record:
  "(\<And>rec i. v = JStr i \<Longrightarrow> map_of (s_records s) i = Some rec \<Longrightarrow> logs content s (k rec)) \<Longrightarrow>
     logs content s (rbind (record_of s v) k)"
  by (intro logs_bind) (auto simp: record_of_Inr)

lemma set_state_logs: "logs content s (set_state env x p s)"
  unfolding set_state_def Let_def
  by (intro logs_record logs_once logs_if logs_append) (auto split: option.splits jv.splits)

lemma append_signal_as_logs:
  assumes "pr = ''controller'' \<or> starts_with ''observer_broker/agent:'' pr"
  shows "logs content s (append_signal_as env pr sess p s)"
  unfolding append_signal_as_def Let_def
  by (intro logs_record logs_once logs_if logs_bind logs_append) (use assms in \<open>auto simp: nonempty_str\<close>)

lemma simple_logs:
  assumes "\<And>rec. body_ok content rec (x_principal x) (pget p ''session_id'') bdy"
  shows "logs content s (simple env x p bdy s)"
  unfolding simple_def by (intro logs_record logs_once logs_append) (use assms in auto)

lemma append_cost_logs: "x_principal x = ''controller'' \<Longrightarrow> logs content s (append_cost env x p s)"
  by (auto simp: append_cost_def known_role_def intro!: simple_logs split: option.splits)

lemma append_step_logs: "x_principal x = ''controller'' \<Longrightarrow> logs content s (append_step env x p s)"
  by (auto simp: append_step_def known_role_def intro!: simple_logs)

lemma annotate_logs: "x_principal x = ''controller'' \<Longrightarrow> logs content s (annotate env x p s)"
  by (auto simp: annotate_def intro!: simple_logs)

lemma append_verification_write_logs:
  assumes "x_principal x = ''verifier''" "append_verification_check p s0 = Inr ()"
  shows "logs content s (append_verification_write env x p s)"
  using assms by (auto simp: append_verification_write_def append_verification_check_def intro!: simple_logs)

lemma append_verification_logs:
  "x_principal x = ''verifier'' \<Longrightarrow> logs content s (append_verification env x p s)"
  unfolding append_verification_def
  by (rule logs_bind) (metis append_verification_write_logs old.unit.exhaust)

lemma append_recovery_observation_logs:
  "x_principal x = ''verifier'' \<Longrightarrow> logs content s (append_recovery_observation env x p s)"
  by (auto simp: append_recovery_observation_def intro!: simple_logs)

lemma verifier_set_state_logs: "logs content s (verifier_set_state env x p s)"
  by (simp add: verifier_set_state_def set_state_logs)

lemma append_observation_logs: "logs content s (append_observation env x p s)"
  unfolding append_observation_def
  by (intro logs_bind logs_record logs_if append_signal_as_logs) auto

lemma control_read_logs: "logs content s (control_read env x p s)"
  unfolding control_read_def Let_def by (intro logs_record logs_if logs_bind) auto

lemma list_episodes_logs: "logs content s (list_episodes env x p s)"
  by (simp add: list_episodes_def)

lemma open_row_log:
  assumes app: "append_row env s ((empty_record eid)\<lparr>r_bundle_id := Some (o_bundle_id b)\<rparr>) (Opened b) ''controller'' JNull key res = Inr (r, s1)"
    and new: "eid \<notin> fst ` set (s_records s)"
    and b: "o_class b \<in> set CLASSES" "o_consensus_mode b \<in> set MODES"
    and dedupe: "\<And>i rec. (i, rec) \<in> set (s_records s) \<Longrightarrow> r_dedupe_key rec = Some (o_dedupe_key b) \<Longrightarrow> terminal rec"
  shows "log_step content s (s1\<lparr>s_opens := ops\<rparr>)"
proof -
  let ?r0 = "(empty_record eid)\<lparr>r_bundle_id := Some (o_bundle_id b)\<rparr>"
  from app obtain aref where s1: "s1 = s\<lparr>s_rows := s_rows s @ [mk_row env ?r0 (Opened b) ''controller'' JNull (o_bundle_id b) aref key res],
      s_records := dict_set (s_records s) (r_episode_id ?r0)
        (apply_entry ?r0 (mk_row env ?r0 (Opened b) ''controller'' JNull (o_bundle_id b) aref key res))\<rparr>"
    by (rule append_row_Inr) auto
  let ?w = "mk_row env ?r0 (Opened b) ''controller'' JNull (o_bundle_id b) aref key res"
  have id: "e_episode_id ?w = eid" "r_episode_id ?r0 = eid" by (simp_all add: mk_row_def empty_record_def)
  have ok: "opened_ok ?w b" using b by (simp add: opened_ok_def mk_row_def empty_record_def)
  have rec: "apply_entry ?r0 ?w = apply_entry (empty_record eid) ?w"
    by (rule apply_entry_opened_bundle [of _ b]) (simp add: mk_row_def)
  show ?thesis
    using log_open [of ?w s b content ops, OF _ ok dedupe] new unfolding s1 id rec by simp
qed

lemma open_row_logs:
  assumes "eid \<notin> fst ` set (s_records s)" "o_class b \<in> set CLASSES" "o_consensus_mode b \<in> set MODES"
    "\<And>i rec. (i, rec) \<in> set (s_records s) \<Longrightarrow> r_dedupe_key rec = Some (o_dedupe_key b) \<Longrightarrow> terminal rec"
    "bid = o_bundle_id b"
  shows "logs content s
    (rbind (append_row env s ((empty_record eid)\<lparr>r_bundle_id := Some bid\<rparr>) (Opened b) ''controller'' JNull key res)
      (\<lambda>(r, s'). Inr (r, s'\<lparr>s_opens := f s'\<rparr>)))"
  using open_row_log [OF _ assms(1-4)] assms(5) by (auto simp: logs_def)

lemma open_episode_logs:
  assumes pr: "x_principal x = ''controller''" shows "logs content s (open_episode env x p s)"
  unfolding open_episode_def Let_def pr
proof (intro logs_if, simp, split option.split, intro conjI impI allI, goal_cases)
  case 1
  show ?case
    apply (intro logs_if logs_bind; (simp; fail)?)
    apply (split option.split, intro conjI impI allI)
    subgoal for trig bid
      by (intro logs_if open_row_logs) (auto simp: find_None_iff)
    subgoal for trig bid a
      by (auto simp: logs_def log_dedupe split: prod.splits)
    done
next
  case (2 a)
  then show ?case by (auto split: prod.split)
qed

lemma append_signal_logs: "x_principal x = ''controller'' \<Longrightarrow> logs content s (append_signal env x p s)"
  by (simp add: append_signal_def append_signal_as_logs)

lemmas handler_logs = append_hypothesis_logs append_hypothesis_status_logs append_no_action_logs
  append_verdict_logs append_report_logs agent_read_logs open_episode_logs set_state_logs append_signal_logs
  append_cost_logs append_step_logs annotate_logs control_read_logs list_episodes_logs append_verification_logs
  append_recovery_observation_logs verifier_set_state_logs append_observation_logs

section \<open>The store and what it relies on\<close>

text \<open>
  \<open>env_ok\<close> holds of the environments in which calls are made. A bundle id names one immutable
  content; the gate accepts a token only for its own episode and only while its bundle verifies.
\<close>

locale store_deps =
  fixes content :: "string \<Rightarrow> skills" and env_ok :: "senv \<Rightarrow> bool"
  assumes skills_content: "env_ok env \<Longrightarrow> se_skills env b = Inr sk \<Longrightarrow> sk = content b"
    and gate_episode: "env_ok env \<Longrightarrow> se_gate env tok eid = Inr cap \<Longrightarrow>
           eid = JNull \<or> eid = JStr (cap_episode_id cap)"
    and gate_bundle: "env_ok env \<Longrightarrow> se_gate env tok eid = Inr cap \<Longrightarrow> se_verify env (cap_bundle_id cap) = Inr None"
begin

lemma endpoint_logs:
  assumes "env_ok env" "ep \<in> set (endpoints uids env)" "map_of (ep_methods ep) m = Some fn"
    "x_principal x = ep_principal ep"
  shows "logs content s (fn x p s)"
  using assms append_recommendation_logs [OF skills_content [OF assms(1)]]
  by (auto simp: endpoints_def handler_logs split: if_splits)

end

text \<open>
  The states of the store: it starts empty; a connection to one of its endpoints serves a list of
  request lines in one environment (a connection during which the environment changes is several
  such steps); the second half of an
  \<^verbatim>\<open>append_verification\<close> call may run after other calls; and a restart rebuilds the records from the
  rows.
\<close>

definition empty_store :: store where
  "empty_store = \<lparr>s_rows = [], s_opens = [], s_records = []\<rparr>"

inductive store_step :: "(senv \<Rightarrow> bool) \<Rightarrow> store \<Rightarrow> store \<Rightarrow> bool" for env_ok where
  step_serve: "env_ok env \<Longrightarrow> ep \<in> set (endpoints uids env) \<Longrightarrow> serve ep uid pid ls s = (rs, s') \<Longrightarrow>
     store_step env_ok s s'"
| step_late_verification: "append_verification_check p s0 = Inr () \<Longrightarrow> x_principal x = ''verifier'' \<Longrightarrow>
     append_verification_write env x p s = Inr (r, s') \<Longrightarrow> store_step env_ok s s'"
| step_restart: "store_step env_ok s (s\<lparr>s_records := rebuild (s_rows s)\<rparr>)"

inductive reachable :: "(senv \<Rightarrow> bool) \<Rightarrow> store \<Rightarrow> bool" for env_ok where
  reach_init: "reachable env_ok empty_store"
| reach_step: "reachable env_ok s \<Longrightarrow> store_step env_ok s s' \<Longrightarrow> reachable env_ok s'"

lemma reachable_call:
  assumes "reachable env_ok s" "env_ok env" "ep \<in> set (endpoints uids env)" "uid \<in> set (ep_allowed_uids ep)"
    "map_of (ep_methods ep) m = Some fn" "m \<noteq> ''rpc.methods''" "strip_identity p = p" "p \<noteq> []"
    "fn \<lparr>x_endpoint = ep_name ep, x_principal = ep_principal ep, x_uid = uid, x_pid = pid\<rparr> p s = Inr (r, s')"
  shows "reachable env_ok s'"
proof -
  note sv = serve_one [OF assms(4-9), of JNull]
  have "store_step env_ok s s'" using assms(2,3) sv by (rule step_serve)
  then show ?thesis by (rule reach_step [OF assms(1)])
qed

lemma empty_store_inv: "store_inv content empty_store"
  by (simp add: store_inv_def empty_store_def)

context store_deps
begin

lemma calls_logs:
  assumes "calls ep x s s'" "env_ok env" "ep \<in> set (endpoints uids env)" "x_principal x = ep_principal ep"
  shows "(log_step content)\<^sup>*\<^sup>* s s'"
  using assms
proof (induction rule: calls.induct)
  case (calls_step m fn p st r st' st'')
  have "log_step content st st'"
    using endpoint_logs [OF calls_step.prems(1,2) calls_step.hyps(1) calls_step.prems(3)] calls_step.hyps(2)
    by (rule logsD)
  with calls_step show ?case by (simp add: converse_rtranclp_into_rtranclp)
qed simp

lemma serve_logs:
  assumes "env_ok env" "ep \<in> set (endpoints uids env)" "serve ep uid pid ls s = (rs, s')"
  shows "(log_step content)\<^sup>*\<^sup>* s s'"
proof (cases "uid \<in> set (ep_allowed_uids ep)")
  case True
  let ?x = "\<lparr>x_endpoint = ep_name ep, x_principal = ep_principal ep, x_uid = uid, x_pid = pid\<rparr>"
  have "s' = snd (serve_lines ep ?x ls s)" using assms(3) True by (simp add: serve_def)
  with serve_lines_calls [of ep ?x s ls] show ?thesis
    using calls_logs [of ep ?x s s' env uids] assms(1,2) by simp
next
  case False
  with assms(3) show ?thesis by (simp add: serve_def)
qed

lemma store_step_logs:
  assumes "store_step env_ok s s'"
  shows "(log_step content)\<^sup>*\<^sup>* s s' \<or> s' = s\<lparr>s_records := rebuild (s_rows s)\<rparr>"
  using assms
proof (cases rule: store_step.cases)
  case (step_late_verification p s0 x env r)
  then show ?thesis using append_verification_write_logs [of x p s0] logsD by blast
qed (auto dest: serve_logs)

lemma log_steps_inv: "(log_step content)\<^sup>*\<^sup>* s s' \<Longrightarrow> store_inv content s \<Longrightarrow> store_inv content s'"
  by (induction rule: rtranclp_induct) (auto intro: log_step_inv)

theorem reachable_inv: "reachable env_ok s \<Longrightarrow> store_inv content s"
proof (induction rule: reachable.induct)
  case reach_init
  show ?case by (rule empty_store_inv)
next
  case (reach_step s s')
  then show ?case using store_step_logs log_steps_inv restart_inv by blast
qed

end

end
