(* ===== verification/Registry.thy ===== *)
theory Registry
  imports Fold Tokens
begin

text \<open>
  \<^verbatim>\<open>valops/bundle/registry.py\<close> and \<^verbatim>\<open>compute_manifest\<close> of \<^verbatim>\<open>bundle/builder.py\<close>: the registry of
  signed, content-addressed policy bundles. SHA-256 (\<open>rp_sha\<close>), the JSON reader and the YAML
  reader are parameters. A bundle directory is the list of its files, relative path and bytes,
  in the order in which \<^verbatim>\<open>sorted(root.rglob("*"))\<close> yields them; the append-only files
  \<^verbatim>\<open>revoked\<close> and \<^verbatim>\<open>active.history\<close> are the lists of their lines.
\<close>

section \<open>Text encoding\<close>

text \<open>UTF-8 for the code points below 256; other sequences are outside the modelled strings.\<close>

fun encode_utf8 :: "string \<Rightarrow> bytes" where
  "encode_utf8 [] = []"
| "encode_utf8 (c # cs) =
     (let n = of_char c in
      if n < 128 then n # encode_utf8 cs else (192 + n div 64) # (128 + n mod 64) # encode_utf8 cs)"

fun decode_utf8 :: "bytes \<Rightarrow> string option" where
  "decode_utf8 [] = Some []"
| "decode_utf8 (b # bs) =
     (if b < 128 then map_option (Cons (char_of b)) (decode_utf8 bs)
      else case bs of
          [] \<Rightarrow> None
        | b' # bs' \<Rightarrow>
            if (b = 194 \<or> b = 195) \<and> 128 \<le> b' \<and> b' < 192
            then map_option (Cons (char_of ((b - 192) * 64 + (b' - 128)))) (decode_utf8 bs')
            else None)"

definition is_linebreak :: "char \<Rightarrow> bool" where
  "is_linebreak c = (let n = of_char c :: nat in (10 \<le> n \<and> n \<le> 13) \<or> (28 \<le> n \<and> n \<le> 30) \<or> n = 133)"

text \<open>\<^verbatim>\<open>str.splitlines()\<close>; the accumulator is the current line, reversed.\<close>

fun splitlines_acc :: "string \<Rightarrow> string \<Rightarrow> string list" where
  "splitlines_acc acc [] = (if acc = [] then [] else [rev acc])"
| "splitlines_acc acc (c # cs) =
     (if is_linebreak c then
        rev acc # splitlines_acc [] (if c = CHR 0x0D \<and> cs \<noteq> [] \<and> hd cs = CHR 0x0A then tl cs else cs)
      else splitlines_acc (c # acc) cs)"

definition splitlines :: "string \<Rightarrow> string list" where
  "splitlines s = splitlines_acc [] s"

text \<open>\<^verbatim>\<open>line.split("  ", 1)\<close> unpacked into two: \<^term>\<open>None\<close> when the separator is missing.\<close>

fun split2 :: "string \<Rightarrow> (string \<times> string) option" where
  "split2 s =
     (case s of
        CHR '' '' # CHR '' '' # rest \<Rightarrow> Some ([], rest)
      | c # rest \<Rightarrow> map_option (\<lambda>(a, b). (c # a, b)) (split2 rest)
      | [] \<Rightarrow> None)"

declare split2.simps [simp del]

section \<open>Manifests\<close>

definition MANIFEST :: string where "MANIFEST = ''MANIFEST.sha256''"
definition SIG :: string where "SIG = ''MANIFEST.sha256.sig''"

type_synonym files = "(string \<times> bytes) list"

record reg_params =
  rp_sha :: "bytes \<Rightarrow> string" \<comment> \<open>\<^verbatim>\<open>sha256_hex\<close>\<close>
  rp_loads :: "bytes \<Rightarrow> jv option" \<comment> \<open>\<^verbatim>\<open>json.loads\<close> of the decoded text, \<^term>\<open>None\<close> for \<^verbatim>\<open>ValueError\<close>\<close>
  rp_yaml :: "bytes \<Rightarrow> jv result" \<comment> \<open>\<^verbatim>\<open>yaml.safe_load\<close>\<close>

definition content_files :: "files \<Rightarrow> files" where
  "content_files d = filter (\<lambda>(rel, _). rel \<notin> {MANIFEST, SIG}) d"

definition manifest_line :: "(bytes \<Rightarrow> string) \<Rightarrow> string \<times> bytes \<Rightarrow> string" where
  "manifest_line sha f = sha (snd f) @ ''  '' @ fst f"

fun join_lines :: "string list \<Rightarrow> string" where
  "join_lines [] = []"
| "join_lines [l] = l"
| "join_lines (l # ls) = l @ [CHR 0x0A] @ join_lines ls"

definition compute_manifest :: "(bytes \<Rightarrow> string) \<Rightarrow> files \<Rightarrow> bytes" where
  "compute_manifest sha d =
     encode_utf8 (join_lines (map (manifest_line sha) (content_files d)) @ [CHR 0x0A])"

fun parse_manifest_lines :: "string list \<Rightarrow> (string \<times> string) list option" where
  "parse_manifest_lines [] = Some []"
| "parse_manifest_lines (l # ls) =
     (if strip l = [] then parse_manifest_lines ls
      else case split2 l of None \<Rightarrow> None
        | Some (h, rel) \<Rightarrow> map_option (\<lambda>d. (rel, h) # d) (parse_manifest_lines ls))"

text \<open>
  \<^verbatim>\<open>parse\<close>: later lines overwrite earlier ones; \<^term>\<open>None\<close> is the \<^verbatim>\<open>ValueError\<close> of a line
  without separator or of bytes that do not decode.
\<close>

definition parse_manifest :: "bytes \<Rightarrow> (string \<times> string) list option" where
  "parse_manifest m = map_option rev (Option.bind (decode_utf8 m) (parse_manifest_lines \<circ> splitlines))"

definition diff_manifest :: "bytes \<Rightarrow> bytes \<Rightarrow> string list option" where
  "diff_manifest a b =
     (case (parse_manifest a, parse_manifest b) of
        (Some pa, Some pb) \<Rightarrow>
          Some (take 10 (sort (remdups (filter (\<lambda>k. map_of pa k \<noteq> map_of pb k) (map fst pa @ map fst pb)))))
      | _ \<Rightarrow> None)"

section \<open>Verification\<close>

record trusted_key =
  tk_verify :: "bytes \<Rightarrow> bytes \<Rightarrow> bool"
  tk_status :: string

record activation =
  ac_ts :: rat
  ac_active :: string
  ac_previous :: "string option"
  ac_by :: string

record registry =
  rg_keys :: "(string \<times> trusted_key) list"
  rg_dirs :: "(string \<times> files) list"
  rg_revoked :: "string list"
  rg_active :: "string option"
  rg_history :: "activation list"

text \<open>The reasons that \<^verbatim>\<open>verify\<close> reports.\<close>

datatype reason =
    Malformed_id
  | Revoked string
  | Not_present string
  | Unreadable
  | Content_differs "string list"
  | Hash_mismatch
  | Untrusted_key
  | Bad_signature

definition hex_digits :: string where "hex_digits = ''0123456789abcdef''"

text \<open>Python's \<^verbatim>\<open>repr\<close> of a string and of a list of strings, as an f-string inserts the changed files.\<close>

definition repr_char :: "char \<Rightarrow> char \<Rightarrow> string" where
  "repr_char q c =
     (let n = of_char c :: nat in
      if c = q \<or> n = 92 then [CHR 0x5C, c]
      else if n = 10 then [CHR 0x5C, CHR ''n''] else if n = 13 then [CHR 0x5C, CHR ''r'']
      else if n = 9 then [CHR 0x5C, CHR ''t'']
      else if n < 32 \<or> (127 \<le> n \<and> n < 161) \<or> n = 173
      then [CHR 0x5C, CHR ''x'', hex_digits ! (n div 16), hex_digits ! (n mod 16)]
      else [c])"

definition repr_str :: "string \<Rightarrow> string" where
  "repr_str s =
     (let q = (if CHR 0x27 \<in> set s \<and> CHR 0x22 \<notin> set s then CHR 0x22 else CHR 0x27) in
      [q] @ concat (map (repr_char q) s) @ [q])"

fun repr_items :: "string list \<Rightarrow> string" where
  "repr_items [] = []"
| "repr_items [x] = repr_str x"
| "repr_items (x # xs) = repr_str x @ '', '' @ repr_items xs"

text \<open>The reason strings; the text of the exception after \<^verbatim>\<open>unreadable:\<close> is left out.\<close>

fun reason_text :: "reason \<Rightarrow> string" where
  "reason_text Malformed_id = ''malformed bundle id''"
| "reason_text (Revoked b) = ''bundle '' @ b @ '' revoked''"
| "reason_text (Not_present b) = ''bundle '' @ b @ '' not present''"
| "reason_text Unreadable = ''manifest/signature unreadable: ''"
| "reason_text (Content_differs cs) = ''bundle content differs from manifest: ['' @ repr_items cs @ '']''"
| "reason_text Hash_mismatch = ''manifest hash does not match bundle id''"
| "reason_text Untrusted_key = ''manifest signed by an untrusted key''"
| "reason_text Bad_signature = ''manifest signature invalid''"

definition sig_doc :: "reg_params \<Rightarrow> files \<Rightarrow> jv option" where
  "sig_doc rp d = Option.bind (map_of d SIG) (rp_loads rp)"

definition verify_integrity :: "reg_params \<Rightarrow> registry \<Rightarrow> string \<Rightarrow> reason option result" where
  "verify_integrity rp rg bid =
     (case map_of (rg_dirs rg) bid of
        None \<Rightarrow> Inr (Some (Not_present (take 12 bid)))
      | Some d \<Rightarrow>
          (case (map_of d MANIFEST, sig_doc rp d) of
             (Some recorded, Some sigdoc) \<Rightarrow>
               (let actual = compute_manifest (rp_sha rp) d in
                if actual \<noteq> recorded then
                  (case diff_manifest recorded actual of
                     None \<Rightarrow> Inl (PyError ''ValueError'')
                   | Some changed \<Rightarrow> Inr (Some (Content_differs changed)))
                else if rp_sha rp recorded \<noteq> bid then Inr (Some Hash_mismatch)
                else case sigdoc of
                    JObj sd \<Rightarrow>
                      let kid = pget_default sd ''key_id'' (JStr []) in
                      if \<not> hashable kid then Inl (PyError ''TypeError'')
                      else (case (case kid of JStr k \<Rightarrow> map_of (rg_keys rg) k | _ \<Rightarrow> None) of
                          None \<Rightarrow> Inr (Some Untrusted_key)
                        | Some key \<Rightarrow>
                            (case map_of sd ''sig'' of
                               None \<Rightarrow> Inl (PyError ''KeyError'')
                             | Some (JStr g) \<Rightarrow>
                                 (case b64u_dec g of
                                    None \<Rightarrow> Inl (PyError ''Error'')
                                  | Some raw \<Rightarrow> Inr (if tk_verify key raw recorded then None else Some Bad_signature))
                             | Some _ \<Rightarrow> Inl (PyError ''TypeError'')))
                  | _ \<Rightarrow> Inl (PyError ''AttributeError''))
           | _ \<Rightarrow> Inr (Some Unreadable)))"

definition well_formed_id :: "string \<Rightarrow> bool" where
  "well_formed_id bid = (length bid = 64 \<and> list_all (\<lambda>c. c \<in> set hex_digits) bid)"

definition verify :: "reg_params \<Rightarrow> registry \<Rightarrow> string \<Rightarrow> reason option result" where
  "verify rp rg bid =
     (if \<not> well_formed_id bid then Inr (Some Malformed_id)
      else if bid \<in> set (rg_revoked rg) then Inr (Some (Revoked (take 12 bid)))
      else verify_integrity rp rg bid)"

definition load :: "reg_params \<Rightarrow> registry \<Rightarrow> string \<Rightarrow> files result" where
  "load rp rg bid =
     rbind (verify rp rg bid) (\<lambda>reason.
       if reason \<noteq> None then Inl (PyError ''BundleError'')
       else case map_of (rg_dirs rg) bid of None \<Rightarrow> Inl (PyError ''FileNotFoundError'') | Some d \<Rightarrow> Inr d)"

section \<open>Reading a bundle\<close>

text \<open>\<^verbatim>\<open>Bundle._y\<close>\<close>

definition bundle_y :: "reg_params \<Rightarrow> files \<Rightarrow> string \<Rightarrow> jv result" where
  "bundle_y rp d rel =
     (case map_of d rel of None \<Rightarrow> Inl (PyError ''FileNotFoundError'') | Some bs \<Rightarrow> rp_yaml rp bs)"

text \<open>A skill entry is a mapping; \<^verbatim>\<open>roles\<close> and \<^verbatim>\<open>preconditions\<close> default to the empty list.\<close>

fun skill_of :: "jv \<Rightarrow> skill result" where
  "skill_of (JObj d) =
     (case pget_default d ''roles'' (JArr []) of
        JArr rs \<Rightarrow> Inr \<lparr>sk_roles = map str_of (filter is_str rs), sk_modes = pget d ''modes'',
                        sk_preconditions = pget_default d ''preconditions'' (JArr [])\<rparr>
      | _ \<Rightarrow> Inl (PyError ''TypeError''))"
| "skill_of _ = Inl (PyError ''AttributeError'')"

fun skills_of :: "params \<Rightarrow> skills result" where
  "skills_of [] = Inr []"
| "skills_of ((k, v) # d) = rbind (skill_of v) (\<lambda>s. rbind (skills_of d) (\<lambda>r. Inr ((k, s) # r)))"

definition bundle_skills :: "reg_params \<Rightarrow> files \<Rightarrow> skills result" where
  "bundle_skills rp d =
     rbind (bundle_y rp d ''skills/index.yaml'') (\<lambda>v.
       rbind (as_dict_or_empty v) (\<lambda>idx.
         rbind (as_dict_or_empty (pget idx ''skills'')) skills_of))"

text \<open>\<^verbatim>\<open>Bundle.param\<close> on the value of the parameter.\<close>

definition param_value :: "jv \<Rightarrow> string option \<Rightarrow> string option \<Rightarrow> jv result" where
  "param_value v0 key configuration =
     rbind (case (v0, configuration) of
              (JObj v, Some c) \<Rightarrow>
                if c = [] then Inr v0
                else rbind (as_dict_or_empty (pget v ''by_configuration'')) (\<lambda>bc.
                  case map_of bc c of
                    None \<Rightarrow> Inr v0
                  | Some (JObj over) \<Rightarrow> Inr (JObj (foldl (\<lambda>d (k, x). dict_set d k x) v over))
                  | Some _ \<Rightarrow> Inl (PyError ''TypeError''))
            | _ \<Rightarrow> Inr v0)
       (\<lambda>v. case key of
          None \<Rightarrow> Inr v
        | Some k \<Rightarrow>
            (case v of
               JObj d \<Rightarrow> (case map_of d k of None \<Rightarrow> Inl (PyError ''KeyError'') | Some x \<Rightarrow> Inr x)
             | _ \<Rightarrow> Inl (PyError ''TypeError'')))"

section \<open>Lifecycle\<close>

definition activate :: "reg_params \<Rightarrow> rat \<Rightarrow> string \<Rightarrow> string \<Rightarrow> registry \<Rightarrow> registry result" where
  "activate rp t bid by rg =
     rbind (verify rp rg bid) (\<lambda>reason.
       if reason \<noteq> None then Inl (PyError ''BundleError'')
       else case Option.bind (map_of (rg_dirs rg) bid) (sig_doc rp) of
           Some (JObj sd) \<Rightarrow>
             (case map_of sd ''key_id'' of
                Some (JStr k) \<Rightarrow>
                  (case map_of (rg_keys rg) k of
                     None \<Rightarrow> Inl (PyError ''KeyError'')
                   | Some key \<Rightarrow>
                       if tk_status key \<noteq> ''active'' then Inl (PyError ''BundleError'')
                       else Inr (rg\<lparr>rg_active := Some bid,
                         rg_history := rg_history rg @
                           [\<lparr>ac_ts = t, ac_active = bid, ac_previous = rg_active rg, ac_by = by\<rparr>]\<rparr>))
              | _ \<Rightarrow> Inl (PyError ''KeyError''))
         | _ \<Rightarrow> Inl (PyError ''AttributeError''))"

definition rollback :: "reg_params \<Rightarrow> rat \<Rightarrow> string \<Rightarrow> registry \<Rightarrow> (string \<times> registry) result" where
  "rollback rp t by rg =
     (case find (\<lambda>row. Some (ac_active row) = rg_active rg \<and> ac_previous row \<notin> {None, Some []})
            (rev (rg_history rg)) of
        None \<Rightarrow> Inl (PyError ''BundleError'')
      | Some row \<Rightarrow>
          (case ac_previous row of
             None \<Rightarrow> Inl (PyError ''BundleError'')
           | Some prev \<Rightarrow> rbind (activate rp t prev by rg) (\<lambda>rg'. Inr (prev, rg'))))"

definition revoke :: "string \<Rightarrow> registry \<Rightarrow> registry" where
  "revoke bid rg = rg\<lparr>rg_revoked := rg_revoked rg @ [bid]\<rparr>"

fun superseded_from :: "bool \<Rightarrow> string \<Rightarrow> activation list \<Rightarrow> rat option" where
  "superseded_from seen bid [] = None"
| "superseded_from seen bid (row # rows) =
     (if ac_active row = bid then superseded_from True bid rows
      else if seen then Some (ac_ts row)
      else superseded_from seen bid rows)"

definition superseded_at :: "registry \<Rightarrow> string \<Rightarrow> rat option" where
  "superseded_at rg bid = superseded_from False bid (rg_history rg)"

section \<open>A manifest determines the content\<close>

lemma decode_encode_utf8 [simp]: "decode_utf8 (encode_utf8 s) = Some s"
proof (induction s)
  case (Cons c cs)
  let ?n = "of_char c :: nat"
  show ?case
  proof (cases "?n < 128")
    case True
    with Cons show ?thesis by (simp add: Let_def)
  next
    case False
    have lt: "?n < 256" by (rule nat_of_char_less_256)
    have "?n div 64 = 2 \<or> ?n div 64 = 3" using False lt by linarith
    moreover have "?n div 64 * 64 + ?n mod 64 = ?n" by simp
    ultimately show ?thesis using False Cons by (auto simp: Let_def mult.commute)
  qed
qed simp

lemma encode_utf8_inject [simp]: "encode_utf8 s = encode_utf8 t \<longleftrightarrow> s = t"
  by (metis decode_encode_utf8 option.inject)

lemma append_sep_inject:
  "c \<notin> set h \<Longrightarrow> c \<notin> set k \<Longrightarrow> h @ c # r = k @ c # q \<Longrightarrow> h = k \<and> r = q"
  by (induction h arbitrary: k) (auto simp: Cons_eq_append_conv)

lemma join_lines_cons: "join_lines (l # ls) = (if ls = [] then l else l @ CHR 0x0A # join_lines ls)"
  by (cases ls) auto

lemma join_lines_inject:
  assumes "\<forall>l \<in> set ls. CHR 0x0A \<notin> set l \<and> l \<noteq> []" "\<forall>l \<in> set ms. CHR 0x0A \<notin> set l \<and> l \<noteq> []"
    and "join_lines ls = join_lines ms"
  shows "ls = ms"
  using assms
proof (induction ls arbitrary: ms)
  case Nil
  then show ?case by (cases ms) (auto simp: join_lines_cons split: if_splits)
next
  case (Cons l ls)
  then obtain m ms' where ms: "ms = m # ms'" by (cases ms) (auto simp: join_lines_cons split: if_splits)
  have nl: "CHR 0x0A \<notin> set l" "CHR 0x0A \<notin> set m" using Cons.prems ms by auto
  note sep = append_sep_inject [OF nl, of "join_lines ls" "join_lines ms'"]
  have eq: "(if ls = [] then l else l @ CHR 0x0A # join_lines ls) =
      (if ms' = [] then m else m @ CHR 0x0A # join_lines ms')"
    using Cons.prems(3) unfolding ms join_lines_cons .
  have iff: "ls = [] \<longleftrightarrow> ms' = []"
    using arg_cong [OF eq, of set] nl by (auto split: if_splits)
  show ?case
  proof (cases "ls = []")
    case True
    with iff eq ms show ?thesis by simp
  next
    case False
    with iff eq sep have "l = m" "join_lines ls = join_lines ms'" by simp_all
    with Cons.IH [of ms'] Cons.prems ms show ?thesis by simp
  qed
qed

definition hex_hash :: "(bytes \<Rightarrow> string) \<Rightarrow> bool" where
  "hex_hash sha = (\<forall>b. set (sha b) \<subseteq> set hex_digits)"

definition names_ok :: "files \<Rightarrow> bool" where
  "names_ok d = list_all (\<lambda>(rel, _). CHR 0x0A \<notin> set rel) d"

lemma manifest_line_inject:
  assumes "hex_hash sha" "manifest_line sha f = manifest_line sha g"
  shows "fst f = fst g \<and> sha (snd f) = sha (snd g)"
proof -
  have "CHR '' '' \<notin> set (sha b)" for b
    using assms(1) by (force simp: hex_hash_def hex_digits_def)
  with assms(2) append_sep_inject [of "CHR '' ''" "sha (snd f)" "sha (snd g)"] show ?thesis
    by (fastforce simp: manifest_line_def)
qed

lemma manifest_line_ok:
  assumes "hex_hash sha" "CHR 0x0A \<notin> set (fst f)"
  shows "CHR 0x0A \<notin> set (manifest_line sha f)" "manifest_line sha f \<noteq> []"
  using assms by (force simp: manifest_line_def hex_hash_def hex_digits_def)+

lemma map_eq_transfer:
  "map f xs = map f ys \<Longrightarrow> (\<And>x y. f x = f y \<Longrightarrow> g x = g y) \<Longrightarrow> map g xs = map g ys"
proof (induction xs arbitrary: ys)
  case (Cons x xs)
  from Cons.prems(1) obtain y ys' where ys: "ys = y # ys'" by (cases ys) auto
  with Cons.prems(1) have f: "f x = f y" "map f xs = map f ys'" by simp_all
  have "g x = g y" "map g xs = map g ys'"
    using Cons.prems(2) [OF f(1)] Cons.IH [OF f(2)] Cons.prems(2) by blast+
  with ys show ?case by simp
qed simp

lemma manifest_determines:
  assumes hex: "hex_hash sha" and names: "names_ok d" "names_ok d'"
    and eq: "compute_manifest sha d = compute_manifest sha d'"
  shows "map (\<lambda>f. (fst f, sha (snd f))) (content_files d) = map (\<lambda>f. (fst f, sha (snd f))) (content_files d')"
proof -
  have ok: "\<forall>l \<in> set (map (manifest_line sha) (content_files e)). CHR 0x0A \<notin> set l \<and> l \<noteq> []" if "names_ok e" for e
    using that manifest_line_ok [OF hex] by (auto simp: names_ok_def content_files_def list_all_iff)
  have "map (manifest_line sha) (content_files d) = map (manifest_line sha) (content_files d')"
    using eq join_lines_inject [OF ok [OF names(1)] ok [OF names(2)]] by (simp add: compute_manifest_def)
  then show ?thesis by (rule map_eq_transfer) (drule manifest_line_inject [OF hex], simp)
qed

text \<open>Either the content is the same, or two different byte strings have the same hash.\<close>

definition collision :: "(bytes \<Rightarrow> string) \<Rightarrow> bool" where
  "collision sha = (\<exists>x y. x \<noteq> y \<and> sha x = sha y)"

lemma same_content_or_collision:
  assumes "hex_hash sha" "names_ok d" "names_ok d'"
    and "sha (compute_manifest sha d) = sha (compute_manifest sha d')"
  shows "content_files d = content_files d' \<or> collision sha"
proof (cases "compute_manifest sha d = compute_manifest sha d'")
  case False
  with assms(4) show ?thesis by (auto simp: collision_def)
next
  case True
  let ?p = "\<lambda>f. (fst f, sha (snd f))"
  have eq: "map ?p (content_files d) = map ?p (content_files d')"
    by (rule manifest_determines [OF assms(1-3) True])
  have "map ?p xs = map ?p ys \<Longrightarrow> xs = ys \<or> collision sha" for xs ys :: files
  proof (induction xs arbitrary: ys)
    case (Cons x xs)
    then obtain y ys' where "ys = y # ys'" "fst x = fst y" "sha (snd x) = sha (snd y)" "map ?p xs = map ?p ys'"
      by auto
    with Cons.IH [of ys'] show ?case by (cases "snd x = snd y") (auto simp: collision_def prod_eq_iff)
  qed simp
  with eq show ?thesis by blast
qed

section \<open>What a successful verification establishes\<close>

lemma verify_integrity_ok:
  assumes "verify_integrity rp rg bid = Inr None"
  obtains d sd k key g raw where
    "map_of (rg_dirs rg) bid = Some d" "map_of d MANIFEST = Some (compute_manifest (rp_sha rp) d)"
    "rp_sha rp (compute_manifest (rp_sha rp) d) = bid"
    "sig_doc rp d = Some (JObj sd)" "pget_default sd ''key_id'' (JStr []) = JStr k"
    "map_of (rg_keys rg) k = Some key" "map_of sd ''sig'' = Some (JStr g)" "b64u_dec g = Some raw"
    "tk_verify key raw (compute_manifest (rp_sha rp) d)"
  using assms
  by (auto simp: verify_integrity_def Let_def split: option.splits jv.splits if_splits)

lemma verify_ok:
  "verify rp rg bid = Inr None \<longleftrightarrow>
     well_formed_id bid \<and> bid \<notin> set (rg_revoked rg) \<and> verify_integrity rp rg bid = Inr None"
  by (auto simp: verify_def)

lemma load_ok:
  "load rp rg bid = Inr d \<longleftrightarrow> verify rp rg bid = Inr None \<and> map_of (rg_dirs rg) bid = Some d"
proof
  assume "load rp rg bid = Inr d"
  then show "verify rp rg bid = Inr None \<and> map_of (rg_dirs rg) bid = Some d"
    by (auto simp: load_def split: option.splits)
qed (auto simp: load_def rbind_simps)

lemma bundle_skills_content:
  assumes "content_files d = content_files d'" shows "bundle_skills rp d = bundle_skills rp d'"
proof -
  have "map_of (content_files e) ''skills/index.yaml'' = map_of e ''skills/index.yaml''" for e
    by (induction e) (auto simp: content_files_def MANIFEST_def SIG_def)
  then have "map_of d ''skills/index.yaml'' = map_of d' ''skills/index.yaml''" using assms by metis
  then show ?thesis by (simp add: bundle_skills_def bundle_y_def)
qed

text \<open>Two registries in which one bundle id verifies hold the same content, or SHA-256 collides.\<close>

lemma verified_content_unique:
  assumes hex: "hex_hash (rp_sha rp)"
    and v: "verify_integrity rp rg bid = Inr None" "verify_integrity rp rg' bid = Inr None"
    and d: "map_of (rg_dirs rg) bid = Some d" "map_of (rg_dirs rg') bid = Some d'"
    and names: "names_ok d" "names_ok d'"
  shows "content_files d = content_files d' \<or> collision (rp_sha rp)"
proof (rule same_content_or_collision [OF hex names])
  from v(1) d(1) have "rp_sha rp (compute_manifest (rp_sha rp) d) = bid" by (elim verify_integrity_ok) auto
  moreover from v(2) d(2) have "rp_sha rp (compute_manifest (rp_sha rp) d') = bid"
    by (elim verify_integrity_ok) auto
  ultimately show "rp_sha rp (compute_manifest (rp_sha rp) d) = rp_sha rp (compute_manifest (rp_sha rp) d')"
    by simp
qed

section \<open>Lifecycle facts\<close>

lemma activate_ok:
  assumes "activate rp t bid by rg = Inr rg'"
  obtains key where "verify rp rg bid = Inr None" "tk_status key = ''active''" "key \<in> snd ` set (rg_keys rg)"
    "rg' = rg\<lparr>rg_active := Some bid, rg_history := rg_history rg @
       [\<lparr>ac_ts = t, ac_active = bid, ac_previous = rg_active rg, ac_by = by\<rparr>]\<rparr>"
proof -
  from assms obtain k key where "verify rp rg bid = Inr None" "tk_status key = ''active''"
    "map_of (rg_keys rg) k = Some key" "rg' = rg\<lparr>rg_active := Some bid, rg_history := rg_history rg @
       [\<lparr>ac_ts = t, ac_active = bid, ac_previous = rg_active rg, ac_by = by\<rparr>]\<rparr>"
    by (auto simp: activate_def split: option.splits jv.splits if_splits)
  with that show ?thesis by (metis image_eqI map_of_SomeD snd_conv)
qed

lemma verify_frame [simp]:
  "verify rp (rg\<lparr>rg_active := a, rg_history := h\<rparr>) bid = verify rp rg bid"
proof -
  have "rg_keys (rg\<lparr>rg_active := a, rg_history := h\<rparr>) = rg_keys rg"
    "rg_dirs (rg\<lparr>rg_active := a, rg_history := h\<rparr>) = rg_dirs rg"
    "rg_revoked (rg\<lparr>rg_active := a, rg_history := h\<rparr>) = rg_revoked rg" by simp_all
  then show ?thesis unfolding verify_def verify_integrity_def by presburger
qed

lemma revoke_refuses: "verify rp (revoke bid rg) bid \<noteq> Inr None"
  by (simp add: verify_ok revoke_def)

lemma superseded_from_append:
  "superseded_from seen bid (xs @ ys) =
     (case superseded_from seen bid xs of Some t \<Rightarrow> Some t
      | None \<Rightarrow> superseded_from (seen \<or> bid \<in> ac_active ` set xs) bid ys)"
  by (induction seen bid xs rule: superseded_from.induct) (auto split: option.splits)

end
