(* ===== verification/Store_Props.thy ===== *)
theory Store_Props
  imports Store_Refine Registry
begin

text \<open>
  Properties of the episodes a store holds, by rule induction on their histories, and the store
  as it runs: \<open>live_env\<close> puts the token gate of \<^verbatim>\<open>tokens.py\<close> and the registry of
  \<^verbatim>\<open>registry.py\<close> behind the interface \<open>store_deps\<close>.
\<close>

section \<open>Histories\<close>

text \<open>A state history is a path of the transition table that starts with the opening.\<close>

fun path_ok :: "string option \<Rightarrow> state_change list \<Rightarrow> bool" where
  "path_ok frm [] = True"
| "path_ok frm (c # cs) =
     (sh_from c = frm \<and>
      (case frm of None \<Rightarrow> sh_to c = ''open'' \<and> sh_by c = ''controller''
       | Some f \<Rightarrow> allowed (sh_by c) f (sh_to c)) \<and>
      path_ok (Some (sh_to c)) cs)"

definition last_state :: "string option \<Rightarrow> state_change list \<Rightarrow> string option" where
  "last_state frm cs = (if cs = [] then frm else Some (sh_to (last cs)))"

lemma path_ok_snoc:
  "path_ok frm (cs @ [c]) \<longleftrightarrow> path_ok frm cs \<and> path_ok (last_state frm cs) [c]"
  by (induction cs arbitrary: frm) (auto simp: last_state_def)

lemma last_state_snoc [simp]: "last_state frm (cs @ [c]) = Some (sh_to c)"
  by (simp add: last_state_def)

lemma episode_history:
  "episode content ws rec \<Longrightarrow> path_ok None (r_state_history rec) \<and> last_state None (r_state_history rec) = r_state rec"
proof (induction rule: episode.induct)
  case (episode_opened w b)
  then show ?case by (simp add: apply_entry_history apply_entry_state opened_ok_def empty_record_def last_state_def)
next
  case (episode_entry ws rec w)
  show ?case
  proof (cases "\<exists>b. e_body w = State b")
    case True
    then obtain b where b: "e_body w = State b" by blast
    with episode_entry.hyps(2) obtain f where "r_state rec = Some f" "sb_from b = Some f" "allowed (e_principal w) f (sb_to b)"
      by (auto simp: entry_ok_def split: option.splits)
    with b episode_entry.IH show ?thesis by (simp add: apply_entry_history apply_entry_state path_ok_snoc)
  next
    case False
    with episode_entry.IH entry_ok_not_opened [OF episode_entry.hyps(2)] show ?thesis
      by (simp add: apply_entry_history apply_entry_state split: body.splits)
  qed
qed

lemma path_resolved:
  "path_ok frm cs \<Longrightarrow> c \<in> set cs \<Longrightarrow> sh_to c = ''resolved'' \<Longrightarrow>
     sh_by c = ''verifier'' \<and> sh_from c = Some ''awaiting_operator''"
  by (induction frm cs rule: path_ok.induct) (auto simp: allowed_resolved split: option.splits)

lemma path_terminal_last:
  "path_ok frm (cs @ c # ds) \<Longrightarrow> sh_to c \<in> set TERMINAL \<Longrightarrow> ds = []"
proof (induction cs arbitrary: frm)
  case Nil
  then show ?case by (cases ds) (auto dest: allowed_not_terminal)
qed auto

section \<open>Numbered items\<close>

definition numbered :: "string \<Rightarrow> string list \<Rightarrow> bool" where
  "numbered prefix ids = (ids = map (\<lambda>i. prefix @ nat_str (Suc i)) [0..<length ids])"

lemma numbered_distinct: "numbered prefix ids \<Longrightarrow> distinct ids"
  unfolding numbered_def by (erule ssubst) (simp add: distinct_map inj_on_def)

lemma numbered_snoc: "numbered prefix ids \<Longrightarrow> numbered prefix (ids @ [prefix @ nat_str (Suc (length ids))])"
  by (simp add: numbered_def)

lemma next_id_eq: "next_id xs prefix = prefix @ nat_str (Suc (length xs))"
  by (simp add: next_id_def)

definition ids_ok :: "erec \<Rightarrow> bool" where
  "ids_ok rec =
     (numbered ''s'' (map g_id (r_signals rec)) \<and> numbered ''h'' (map h_id (r_hypotheses rec)) \<and>
      numbered ''r'' (map rc_id (r_recommendations rec)) \<and> numbered ''n'' (map na_id (r_no_action rec)))"

lemma episode_ids: "episode content ws rec \<Longrightarrow> ids_ok rec"
proof (induction rule: episode.induct)
  case (episode_opened w b)
  then show ?case
    by (simp add: ids_ok_def opened_ok_def apply_entry_def empty_record_def numbered_def)
next
  case (episode_entry ws rec w)
  then show ?case
    using numbered_snoc [of "''s''" "map g_id (r_signals rec)"] numbered_snoc [of "''h''" "map h_id (r_hypotheses rec)"]
      numbered_snoc [of "''r''" "map rc_id (r_recommendations rec)"]
      numbered_snoc [of "''n''" "map na_id (r_no_action rec)"]
    by (cases "e_body w")
      (auto simp: ids_ok_def entry_ok_def apply_entry_def extend_defs next_id_eq comp_def)
qed

section \<open>Evidence and sessions\<close>

definition hyp_ok :: "erec \<Rightarrow> hypothesis \<Rightarrow> bool" where
  "hyp_ok rec h = (1 \<le> h_rank h \<and> (h_status h = ''open'' \<and> h_evidence_refs h = [] \<or>
     h_status h \<in> {''supported'', ''refuted''} \<and> refs_ok rec (h_evidence_refs h)))"

definition evidence_ok :: "erec \<Rightarrow> bool" where
  "evidence_ok rec =
     ((\<forall>r \<in> set (r_recommendations rec). refs_ok rec (rc_evidence_refs r) \<and>
         rc_hypothesis r \<in> h_id ` set (r_hypotheses rec)) \<and>
      (\<forall>n \<in> set (r_no_action rec). refs_ok rec (na_evidence_refs n)) \<and>
      (\<forall>h \<in> set (r_hypotheses rec). hyp_ok rec h))"

lemma refs_ok_mono: "refs_ok rec refs \<Longrightarrow> refs_ok (apply_entry rec w) refs"
  using apply_entry_signals [of rec w] unfolding refs_ok_def
  by (metis (no_types, lifting) Un_iff image_set set_append subset_iff)

lemma hyp_ids_mono: "h_id ` set (r_hypotheses rec) \<subseteq> h_id ` set (r_hypotheses (apply_entry rec w))"
proof -
  have "map h_id (r_hypotheses (apply_entry rec w)) = map h_id (r_hypotheses rec) @
      (case e_body w of Hypothesis b \<Rightarrow> [h_id b] | _ \<Rightarrow> [])"
    by (cases "e_body w") (simp_all add: apply_entry_def hypothesis_b.defs set_status_def)
  from arg_cong [OF this, of set] show ?thesis by auto
qed

lemma entry_evidence:
  assumes ok: "entry_ok content rec w" and ev: "evidence_ok rec" shows "evidence_ok (apply_entry rec w)"
proof -
  have hyps: "hyp_ok (apply_entry rec w) h" if "h \<in> set (r_hypotheses (apply_entry rec w))" for h
    using that ok ev refs_ok_mono [of rec _ w]
    by (cases "e_body w") (auto simp: apply_entry_hyp_items entry_ok_def evidence_ok_def hyp_ok_def
        hypothesis_b.defs set_status_def)
  have recs: "refs_ok (apply_entry rec w) (rc_evidence_refs r) \<and>
      rc_hypothesis r \<in> h_id ` set (r_hypotheses (apply_entry rec w))"
    if "r \<in> set (r_recommendations (apply_entry rec w))" for r
    using that ok ev refs_ok_mono [of rec _ w] hyp_ids_mono [of rec w]
    by (cases "e_body w") (auto simp: apply_entry_recommendations entry_ok_def evidence_ok_def
        recommendation_b.defs)
  have nos: "refs_ok (apply_entry rec w) (na_evidence_refs n)"
    if "n \<in> set (r_no_action (apply_entry rec w))" for n
    using that ok ev refs_ok_mono [of rec _ w]
    by (cases "e_body w") (auto simp: apply_entry_no_action entry_ok_def evidence_ok_def no_action_b.defs)
  from hyps recs nos show ?thesis unfolding evidence_ok_def by blast
qed

lemma episode_evidence: "episode content ws rec \<Longrightarrow> evidence_ok rec"
proof (induction rule: episode.induct)
  case (episode_opened w b)
  then show ?case by (simp add: evidence_ok_def opened_ok_def apply_entry_def empty_record_def)
qed (rule entry_evidence)

definition sessions_ok :: "erec \<Rightarrow> bool" where
  "sessions_ok rec =
     (distinct (map rc_session_id (r_recommendations rec) @ map na_session_id (r_no_action rec)) \<and>
      distinct (map v_session_id (r_verdicts rec)) \<and>
      distinct (map (\<lambda>h. (h_step_session h, h_rank h)) (r_hypotheses rec)))"

lemma hyp_ranks_apply:
  "map (\<lambda>h. (h_step_session h, h_rank h)) (r_hypotheses (apply_entry rec w)) =
     map (\<lambda>h. (h_step_session h, h_rank h)) (r_hypotheses rec) @
       (case e_body w of Hypothesis b \<Rightarrow> [(h_step_session b, h_rank b)] | _ \<Rightarrow> [])"
  by (cases "e_body w") (simp_all add: apply_entry_def hypothesis_b.defs set_status_def)

lemma episode_sessions: "episode content ws rec \<Longrightarrow> sessions_ok rec"
proof (induction rule: episode.induct)
  case (episode_opened w b)
  then show ?case by (simp add: sessions_ok_def opened_ok_def apply_entry_def empty_record_def)
next
  case (episode_entry ws rec w)
  then show ?case
    by (cases "e_body w")
      (auto simp: sessions_ok_def entry_ok_def hyp_ranks_apply apply_entry_recommendations
        apply_entry_no_action apply_entry_verdicts extend_defs planner_sessions_def)
qed

section \<open>Skills and the consensus mode\<close>

definition skill_ok :: "(string \<Rightarrow> skills) \<Rightarrow> erec \<Rightarrow> recommendation \<Rightarrow> bool" where
  "skill_ok content rec r =
     (\<exists>bid sk. r_bundle_id rec = Some bid \<and> map_of (content bid) (rc_skill r) = Some sk \<and>
        ''change_planner'' \<in> set (sk_roles sk) \<and> mode_ok (sk_modes sk) (r_consensus_mode rec) = Inr ())"

lemma episode_skills: "episode content ws rec \<Longrightarrow> \<forall>r \<in> set (r_recommendations rec). skill_ok content rec r"
proof (induction rule: episode.induct)
  case (episode_opened w b)
  then show ?case by (simp add: opened_ok_def apply_entry_def empty_record_def)
next
  case (episode_entry ws rec w)
  have keep: "r_bundle_id (apply_entry rec w) = r_bundle_id rec"
    "r_consensus_mode (apply_entry rec w) = r_consensus_mode rec"
    using apply_entry_keeps entry_ok_not_opened [OF episode_entry.hyps(2)] by blast+
  show ?case
    using episode_entry.IH episode_entry.hyps(2)
    by (cases "e_body w")
      (auto simp: skill_ok_def keep apply_entry_recommendations entry_ok_def recommendation_b.defs
        split: option.splits)
qed

lemma mode_ok_unknown: "mode_ok modes (Some ''unknown'') = Inr () \<Longrightarrow> modes = JStr ''any''"
  by (simp add: mode_ok_def split: if_splits)

section \<open>Steps of the log\<close>

lemma log_step_append: "log_step content s s' \<Longrightarrow> \<exists>ws. s_rows s' = s_rows s @ ws"
  by (induction rule: log_step.induct) auto

lemma log_steps_append: "(log_step content)\<^sup>*\<^sup>* s s' \<Longrightarrow> \<exists>ws. s_rows s' = s_rows s @ ws"
  by (induction rule: rtranclp_induct) (auto dest!: log_step_append)

text \<open>What a step does to one record: nothing, or one entry that meets its contract.\<close>

lemma log_step_record:
  assumes "log_step content s s'" "store_inv content s" "map_of (s_records s) i = Some rec"
  shows "map_of (s_records s') i = Some rec \<or>
    (\<exists>w. entry_ok content rec w \<and> map_of (s_records s') i = Some (apply_entry rec w))"
  using assms
proof (cases rule: log_step.cases)
  case (log_write j r w)
  then show ?thesis using store_invD(2) [OF assms(2)] assms(3) by (cases "i = j") auto
next
  case (log_open w b ops)
  then have "i \<noteq> e_episode_id w" using assms(3) by (auto dest!: map_of_SomeD simp: image_iff)
  with log_open assms(3) show ?thesis by simp
qed auto

lemma log_step_terminal:
  assumes "log_step content s s'" "store_inv content s" "map_of (s_records s) i = Some rec" "terminal rec"
  shows "\<exists>rec'. map_of (s_records s') i = Some rec' \<and> r_state rec' = r_state rec"
  using log_step_record [OF assms(1-3)] entry_ok_terminal [OF _ assms(4)] by auto

section \<open>The store as it runs\<close>

definition verify_reason :: "reg_params \<Rightarrow> registry \<Rightarrow> string \<Rightarrow> string option result" where
  "verify_reason rp rg b = rbind (verify rp rg b) (\<lambda>r. Inr (map_option reason_text r))"

definition live_env ::
  "codec \<Rightarrow> reg_params \<Rightarrow> registry \<Rightarrow> token_gate \<Rightarrow> rat \<Rightarrow> rat \<Rightarrow> string \<Rightarrow> audit_outcome \<Rightarrow> (jv \<Rightarrow> string) \<Rightarrow> senv" where
  "live_env cd rp rg g t ts u au rpr =
     \<lparr>se_ts = ts, se_uuid = u, se_audit = au,
      se_gate = (\<lambda>tok eid. check cd (verify_reason rp rg) g t tok eid JNull),
      se_verify = verify_reason rp rg,
      se_skills = (\<lambda>b. rbind (load rp rg b) (bundle_skills rp)), se_repr = rpr\<rparr>"

definition registry_holds :: "reg_params \<Rightarrow> (string \<Rightarrow> skills) \<Rightarrow> registry \<Rightarrow> bool" where
  "registry_holds rp content rg =
     (\<forall>b d sk. load rp rg b = Inr d \<longrightarrow> bundle_skills rp d = Inr sk \<longrightarrow> sk = content b)"

definition live_ok :: "codec \<Rightarrow> reg_params \<Rightarrow> (string \<Rightarrow> skills) \<Rightarrow> senv \<Rightarrow> bool" where
  "live_ok cd rp content env =
     (\<exists>rg g t ts u au rpr. registry_holds rp content rg \<and> env = live_env cd rp rg g t ts u au rpr)"

lemma live_env_sel [simp]:
  "se_ts (live_env cd rp rg g t ts u au rpr) = ts"
  "se_uuid (live_env cd rp rg g t ts u au rpr) = u"
  "se_audit (live_env cd rp rg g t ts u au rpr) = au"
  "se_gate (live_env cd rp rg g t ts u au rpr) tok eid = check cd (verify_reason rp rg) g t tok eid JNull"
  "se_verify (live_env cd rp rg g t ts u au rpr) = verify_reason rp rg"
  "se_skills (live_env cd rp rg g t ts u au rpr) b = rbind (load rp rg b) (bundle_skills rp)"
  by (simp_all add: live_env_def)

interpretation live: store_deps content "live_ok cd rp content" for content cd rp
proof unfold_locales
  fix env b sk
  assume "live_ok cd rp content env" "se_skills env b = Inr sk"
  then show "sk = content b" by (auto simp: live_ok_def registry_holds_def)
next
  fix env tok eid cap
  assume "live_ok cd rp content env" "se_gate env tok eid = Inr cap"
  then show "eid = JNull \<or> eid = JStr (cap_episode_id cap)"
    by (auto simp: live_ok_def dest: check_Inr(3))
next
  fix env tok eid cap
  assume "live_ok cd rp content env" "se_gate env tok eid = Inr cap"
  then show "se_verify env (cap_bundle_id cap) = Inr None"
    by (auto simp: live_ok_def dest: check_Inr(5))
qed

lemma live_record:
  assumes "reachable (live_ok cd rp content) s" "map_of (s_records s) i = Some rec"
  shows "episode content (rows_of s i) rec" "r_episode_id rec = i"
  using store_invD(2,3) [OF live.reachable_inv [OF assms(1)] assms(2)] by auto

text \<open>A successful \<^verbatim>\<open>set_state\<close> is a replay, or a write at the revision the caller named.\<close>

lemma set_state_Inr:
  assumes "set_state env x p s = Inr (r, s')"
  obtains rec where "record_of s (pget p ''episode_id'') = Inr rec"
    and "nonempty (set_state_key env p)" "length (str_of (set_state_key env p)) \<le> 200"
    and "(\<exists>w. s' = s \<and> find_row s (r_episode_id rec) (str_of (set_state_key env p)) = Some w \<and> r = RJson (w_result w)) \<or>
      py_eq (pget p ''expected_revision'') (JInt (int (r_revision rec))) \<and>
      (\<exists>bdy res. append_row env s rec bdy (x_principal x) JNull (str_of (set_state_key env p)) res = Inr (r, s'))"
proof -
  from assms obtain rec where rec: "record_of s (pget p ''episode_id'') = Inr rec"
    by (auto simp: set_state_def Let_def)
  note o = assms [unfolded set_state_def rec rbind_simps Let_def]
  have key: "nonempty (set_state_key env p)" "length (str_of (set_state_key env p)) \<le> 200"
    using o by (auto simp: once_def idem_def split: if_splits)
  from once_Inr(2) [OF o] that [OF rec key] show ?thesis by (auto simp only: if_Inl_Inr)
qed

lemma set_state_write:
  assumes "set_state env x p s = Inr (r, s')"
  obtains rec where "record_of s (pget p ''episode_id'') = Inr rec"
    "s' = s \<or> py_eq (pget p ''expected_revision'') (JInt (int (r_revision rec))) \<and>
       (\<exists>w. e_rev w = Suc (r_revision rec) \<and>
          s' = s\<lparr>s_rows := s_rows s @ [w], s_records := dict_set (s_records s) (r_episode_id rec) (apply_entry rec w)\<rparr>)"
proof -
  have row: "e_rev (mk_row env rec bdy pr sess bid aref key res) = Suc (r_revision rec)" for rec bdy pr sess bid aref key res
    by (simp add: mk_row_def)
  from assms show ?thesis
    by (rule set_state_Inr) (metis that append_row_Inr row)
qed

end
