(* ===== verification/Example_Run.thy ===== *)
theory Example_Run
  imports Store_Props
begin

text \<open>
  A concrete run of the store: a registry with one verified bundle, a token for each role, and
  the requests of one episode from its opening to its resolution. The properties are
  instantiated on it to show that their hypotheses can hold. The hash and the codecs are
  concrete functions that stand for SHA-256, Ed25519 and JSON.
\<close>

definition ex_bid :: string where "ex_bid = replicate 64 CHR ''a''"

definition ex_skills_json :: jv where
  "ex_skills_json = JObj [(''skills'', JObj
     [(''restart-check'', JObj [(''roles'', JArr [JStr ''change_planner'']), (''modes'', JStr ''any'')]),
      (''tower-vote'', JObj [(''roles'', JArr [JStr ''change_planner'']), (''modes'', JArr [JStr ''tower''])])])]"

definition ex_rp :: reg_params where
  "ex_rp = \<lparr>rp_sha = (\<lambda>_. ex_bid),
     rp_loads = (\<lambda>_. Some (JObj [(''key_id'', JStr ''k1''), (''sig'', JStr [])])),
     rp_yaml = (\<lambda>_. Inr ex_skills_json)\<rparr>"

definition ex_dir :: files where
  "ex_dir = [(MANIFEST, compute_manifest (rp_sha ex_rp) [(''skills/index.yaml'', [1])]),
             (SIG, []), (''skills/index.yaml'', [1])]"

definition ex_registry :: registry where
  "ex_registry = \<lparr>rg_keys = [(''k1'', \<lparr>tk_verify = (\<lambda>_ _. True), tk_status = ''active''\<rparr>)],
     rg_dirs = [(ex_bid, ex_dir)], rg_revoked = [], rg_active = None, rg_history = []\<rparr>"

definition ex_cap :: "nat \<Rightarrow> capability" where
  "ex_cap n = \<lparr>cap_episode_id = ''e1'', cap_role = ROLES ! n, cap_session_id = ''sess'' @ nat_str n,
     cap_bundle_id = ex_bid, cap_exp = 100, cap_nonce = ''n'', cap_iat = 0, cap_v = 1\<rparr>"

definition ex_codec :: codec where
  "ex_codec = \<lparr>cd_dumps = (\<lambda>_. [0]),
     cd_loads = (\<lambda>b. case b of [n] \<Rightarrow> if n < 4 then Some (cap_json (ex_cap n)) else None | _ \<Rightarrow> None),
     cd_sign = (\<lambda>_. [7]), cd_verify = (\<lambda>sig _. sig = [7])\<rparr>"

definition ex_token :: "nat \<Rightarrow> jv" where
  "ex_token n = JStr (b64u [n] @ ''.'' @ b64u [7])"

definition ex_env :: senv where
  "ex_env = live_env ex_codec ex_rp ex_registry \<lparr>tg_revoked = []\<rparr> 10 10 ''e1'' NoAudit (\<lambda>_. [])"

definition ex_uids :: "string \<Rightarrow> int list" where "ex_uids _ = [1000]"

definition ex_ctx :: "string \<Rightarrow> string \<Rightarrow> ctx" where
  "ex_ctx nm pr = \<lparr>x_endpoint = nm, x_principal = pr, x_uid = 1000, x_pid = 1\<rparr>"

definition ex_trigger :: params where
  "ex_trigger = [(''source'', JStr ''sentinel''), (''check'', JStr ''delinquent''), (''severity'', JStr ''high'')]"

definition ex_open_p :: params where
  "ex_open_p = [(''idem_key'', JStr ''o1''), (''class'', JStr ''validator_health''), (''trigger'', JObj ex_trigger),
     (''validator_id'', JStr ''v1''), (''consensus_mode'', JStr ''unknown''), (''bundle_id'', JStr ex_bid)]"

definition ex_opened :: opened_b where
  "ex_opened = \<lparr>o_class = ''validator_health'', o_trigger = ex_trigger, o_validator_id = ''v1'',
     o_bundle_id = ex_bid, o_consensus_mode = ''unknown'', o_consensus_mode_evidence = JObj [],
     o_dedupe_key = ''validator_health|delinquent|v1''\<rparr>"

definition ex_open_res :: jv where
  "ex_open_res = JObj [(''episode_id'', JStr ''e1''), (''deduplicated'', JBool False)]"

definition ex_row :: "nat \<Rightarrow> body \<Rightarrow> string \<Rightarrow> jv \<Rightarrow> string \<Rightarrow> jv \<Rightarrow> row" where
  "ex_row rv b pr sess key res =
     \<lparr>e_episode_id = ''e1'', e_rev = rv, e_ts = 10, e_body = b, e_principal = pr, e_session_id = sess,
      e_bundle_id = ex_bid, e_audit_ref = ''audit:none'', w_idem_key = key, w_result = res\<rparr>"

definition ex_w1 :: row where "ex_w1 = ex_row 1 (Opened ex_opened) ''controller'' JNull ''o1'' ex_open_res"
definition ex_r1 :: erec where "ex_r1 = apply_entry (empty_record ''e1'') ex_w1"
definition ex_s1 :: store where
  "ex_s1 = \<lparr>s_rows = [ex_w1], s_opens = [(''o1'', ''e1'', ex_open_res)], s_records = [(''e1'', ex_r1)]\<rparr>"

lemma ex_verify: "verify ex_rp ex_registry ex_bid = Inr None"
  by code_simp

lemma ex_load: "load ex_rp ex_registry ex_bid = Inr ex_dir"
  by code_simp

lemma ex_gate:
  "se_gate ex_env (ex_token 0) (JStr ''e1'') = Inr (ex_cap 0)"
  "se_gate ex_env (ex_token 1) (JStr ''e1'') = Inr (ex_cap 1)"
  unfolding ex_env_def live_env_sel by code_simp+

lemma ex_env_sel: "se_ts ex_env = 10" "se_uuid ex_env = ''e1''" "se_audit ex_env = NoAudit"
  "se_verify ex_env = verify_reason ex_rp ex_registry"
  by (simp_all add: ex_env_def)

lemmas str_eval = pget_def pget_default_def nonempty_def strip_def is_space_def starts_with.simps

lemma ex_nums: "nat_str 0 = ''0''" "nat_str 1 = ''1''" "nat_str (Suc 0) = ''1''" "nat_str 2 = ''2''" "nat_str 3 = ''3''" "nat_str 4 = ''4''" "nat_str 5 = ''5''"
  by code_simp+

lemmas ex_store_eval = append_row_def mk_row_def ex_row_def ex_ctx_def Let_def apply_entry_def rbind_simps
  once_def idem_def find_row_def record_of_def terminal_iff next_id_def ex_nums hashable.simps ex_env_sel

lemma ex_open_ok: "open_episode ex_env (ex_ctx ''store-control'' ''controller'') ex_open_p empty_store = Inr (RJson ex_open_res, ex_s1)"
  using ex_verify
  by (simp add: open_episode_def ex_open_p_def empty_store_def pget_def nonempty_def strip_def is_space_def
     CLASSES_def MODES_def as_dict_or_empty_def ex_trigger_def verify_param_def ex_env_sel verify_reason_def rbind_simps
     dedupe_key_of_def append_row_def mk_row_def ex_open_res_def ex_s1_def ex_w1_def ex_row_def ex_r1_def ex_opened_def
     ex_ctx_def Let_def empty_record_def apply_entry_def)


definition ex_ep :: "string \<Rightarrow> params" where
  "ex_ep k = [(''episode_id'', JStr ''e1''), (''idem_key'', JStr k)]"

definition ex_signal_p :: params where
  "ex_signal_p = ex_ep ''g1'' @ [(''snapshot'', JObj [(''command_id'', JStr ''catchup'')])]"

definition ex_signal :: signal_b where
  "ex_signal = \<lparr>g_id = ''s1'', g_command_id = ''catchup'', g_status = JNull, g_summary = JNull, g_truncated = False,
     g_collected_at = JNull, g_flags = JArr [], g_ref = JNull, g_source = ''controller''\<rparr>"

definition ex_w2 :: row where
  "ex_w2 = ex_row 2 (Signal ex_signal) ''controller'' JNull ''g1'' (JObj [(''signal_id'', JStr ''s1'')])"
definition ex_r2 :: erec where "ex_r2 = apply_entry ex_r1 ex_w2"
definition ex_s2 :: store where "ex_s2 = ex_s1\<lparr>s_rows := [ex_w1, ex_w2], s_records := [(''e1'', ex_r2)]\<rparr>"

lemma ex_r1_sel: "r_state ex_r1 = Some ''open''" "r_revision ex_r1 = 1" "r_bundle_id ex_r1 = Some ex_bid"
  "r_episode_id ex_r1 = ''e1''" "r_signals ex_r1 = []"
  by (simp_all add: ex_r1_def ex_w1_def ex_row_def apply_entry_def ex_opened_def empty_record_def)

lemma ex_signal_ok: "append_signal ex_env (ex_ctx ''store-control'' ''controller'') ex_signal_p ex_s1 =
    Inr (RJson (JObj [(''signal_id'', JStr ''s1'')]), ex_s2)"
  by (simp add: append_signal_def append_signal_as_def ex_signal_p_def ex_ep_def str_eval as_dict_or_empty_def
     ex_store_eval ex_s1_def ex_s2_def ex_r1_sel ex_w2_def ex_signal_def ex_w1_def ex_r2_def numeral_2_eq_2)

definition ex_state_p :: "string \<Rightarrow> int \<Rightarrow> params" where
  "ex_state_p st rv = [(''episode_id'', JStr ''e1''), (''state'', JStr st), (''expected_revision'', JInt rv)]"

definition ex_state_row :: "nat \<Rightarrow> string \<Rightarrow> string \<Rightarrow> row" where
  "ex_state_row rv frm to = ex_row rv (State \<lparr>sb_from = Some frm, sb_to = to, sb_reason = JNull\<rparr>) ''controller'' JNull
     (''state:'' @ nat_str (rv - 1) @ '':'' @ to) (JObj [(''revision'', JInt (int rv)), (''state'', JStr to)])"

definition ex_w3 :: row where "ex_w3 = ex_state_row 3 ''open'' ''diagnosing''"
definition ex_r3 :: erec where "ex_r3 = apply_entry ex_r2 ex_w3"
definition ex_s3 :: store where "ex_s3 = ex_s2\<lparr>s_rows := [ex_w1, ex_w2, ex_w3], s_records := [(''e1'', ex_r3)]\<rparr>"

lemma ex_r2_sel: "r_state ex_r2 = Some ''open''" "r_revision ex_r2 = 2" "r_bundle_id ex_r2 = Some ex_bid"
  "r_episode_id ex_r2 = ''e1''" "map g_id (r_signals ex_r2) = [''s1'']" "r_hypotheses ex_r2 = []"
  "r_recommendations ex_r2 = []" "r_no_action ex_r2 = []" "r_consensus_mode ex_r2 = Some ''unknown''"
  by (simp_all add: ex_r2_def ex_w2_def ex_row_def apply_entry_def ex_signal_def ex_r1_sel signal_b.defs
    ex_r1_def ex_w1_def ex_opened_def empty_record_def)

lemma ex_state_ok: "set_state ex_env (ex_ctx ''store-control'' ''controller'') (ex_state_p ''diagnosing'' 2) ex_s2 =
    Inr (RJson (JObj [(''revision'', JInt 3), (''state'', JStr ''diagnosing'')]), ex_s3)"
  by (simp add: set_state_def set_state_key_def ex_state_p_def str_eval int_str_def allowed_def CONTROLLER_def
     ex_store_eval ex_s1_def ex_s2_def ex_s3_def ex_r2_sel ex_w1_def ex_w2_def ex_w3_def ex_state_row_def ex_r3_def)

definition ex_hyp_p :: params where
  "ex_hyp_p = ex_ep ''y1'' @ [(''token'', ex_token 0), (''hypothesis'', JObj [(''claim'', JStr ''behind''),
     (''test'', JStr ''catchup''), (''expected_evidence'', JStr ''slots''), (''rank'', JInt 1)])]"

definition ex_hyp :: hypothesis_b where
  "ex_hyp = \<lparr>h_id = ''h1'', h_step_session = ''sess0'', h_rank = 1, h_claim = ''behind'', h_test = ''catchup'',
     h_expected_evidence = ''slots''\<rparr>"

definition ex_w4 :: row where
  "ex_w4 = ex_row 4 (Hypothesis ex_hyp) ''agent:diagnostician'' (JStr ''sess0'') ''y1'' (JObj [(''hypothesis_id'', JStr ''h1'')])"
definition ex_r4 :: erec where "ex_r4 = apply_entry ex_r3 ex_w4"
definition ex_s4 :: store where
  "ex_s4 = ex_s3\<lparr>s_rows := [ex_w1, ex_w2, ex_w3, ex_w4], s_records := [(''e1'', ex_r4)]\<rparr>"

lemma ex_r3_sel: "r_state ex_r3 = Some ''diagnosing''" "r_revision ex_r3 = 3" "r_bundle_id ex_r3 = Some ex_bid"
  "r_episode_id ex_r3 = ''e1''" "map g_id (r_signals ex_r3) = [''s1'']" "r_hypotheses ex_r3 = []"
  "r_recommendations ex_r3 = []" "r_no_action ex_r3 = []" "r_consensus_mode ex_r3 = Some ''unknown''"
  by (simp_all add: ex_r3_def ex_w3_def ex_state_row_def ex_row_def apply_entry_def ex_r2_sel)

lemma ex_cap_sel: "cap_session_id (ex_cap 0) = ''sess0''" "cap_role (ex_cap 0) = ''diagnostician''"
  "cap_session_id (ex_cap 1) = ''sess1''" "cap_role (ex_cap 1) = ''change_planner''" "cap_bundle_id (ex_cap n) = ex_bid"
  by (simp_all add: ex_cap_def ROLES_def ex_nums)

lemma ex_agent_gate: "agent_gate ex_env (ex_ctx ''store-agent'' ''episode_broker'') ''append_hypothesis'' ex_hyp_p ex_s3 = Inr (ex_cap 0, ex_r3)"
  using ex_gate by (simp add: agent_gate_def ex_ctx_def ex_hyp_p_def ex_ep_def str_eval rbind_simps record_of_def ex_s3_def
    ex_r3_sel ex_cap_sel AGENT_OPS_def tool_def role_defs)

lemma ex_hyp_ok: "append_hypothesis ex_env (ex_ctx ''store-agent'' ''episode_broker'') ex_hyp_p ex_s3 =
    Inr (RJson (JObj [(''hypothesis_id'', JStr ''h1'')]), ex_s4)"
  unfolding append_hypothesis_def ex_agent_gate
  by (simp add: ex_hyp_p_def ex_ep_def str_eval ex_store_eval as_dict_or_empty_def ex_cap_sel ex_r3_sel
     agent_principal_def ex_s1_def ex_s2_def ex_s3_def ex_s4_def ex_w1_def ex_w2_def ex_w3_def ex_w4_def ex_hyp_def ex_state_row_def ex_r4_def)

definition ex_w5 :: row where "ex_w5 = ex_state_row 5 ''diagnosing'' ''recommending''"
definition ex_r5 :: erec where "ex_r5 = apply_entry ex_r4 ex_w5"
definition ex_s5 :: store where
  "ex_s5 = ex_s4\<lparr>s_rows := [ex_w1, ex_w2, ex_w3, ex_w4, ex_w5], s_records := [(''e1'', ex_r5)]\<rparr>"

lemma ex_r4_sel: "r_state ex_r4 = Some ''diagnosing''" "r_revision ex_r4 = 4" "r_bundle_id ex_r4 = Some ex_bid"
  "r_episode_id ex_r4 = ''e1''" "map g_id (r_signals ex_r4) = [''s1'']" "map h_id (r_hypotheses ex_r4) = [''h1'']"
  "r_recommendations ex_r4 = []" "r_no_action ex_r4 = []" "r_consensus_mode ex_r4 = Some ''unknown''"
  by (simp_all add: ex_r4_def ex_w4_def ex_hyp_def ex_row_def apply_entry_def ex_r3_sel hypothesis_b.defs)

lemma ex_state_ok2: "set_state ex_env (ex_ctx ''store-control'' ''controller'') (ex_state_p ''recommending'' 4) ex_s4 =
    Inr (RJson (JObj [(''revision'', JInt 5), (''state'', JStr ''recommending'')]), ex_s5)"
  by (simp add: set_state_def set_state_key_def ex_state_p_def str_eval int_str_def allowed_def CONTROLLER_def
     ex_store_eval ex_s1_def ex_s2_def ex_s3_def ex_s4_def ex_s5_def ex_r4_sel ex_w1_def ex_w2_def ex_w3_def ex_w4_def ex_w5_def
     ex_state_row_def ex_r5_def)

definition ex_rec_json :: params where
  "ex_rec_json = [(''hypothesis_id'', JStr ''h1''), (''action_text'', JStr ''wait''),
        (''skill'', JStr ''restart-check''), (''preconditions'', JArr [JStr ''p'']),
        (''expected_postcondition'', JStr ''caught up''), (''evidence_refs'', JArr [JStr ''s1''])]"

definition ex_rec_p :: params where
  "ex_rec_p = ex_ep ''c1'' @ [(''token'', ex_token 1), (''recommendation'', JObj ex_rec_json)]"

definition ex_rec :: recommendation_b where
  "ex_rec = \<lparr>rc_id = ''r1'', rc_hypothesis = ''h1'', rc_action_text = ''wait'', rc_skill = ''restart-check'',
     rc_preconditions = JArr [JStr ''p''], rc_expected_postcondition = ''caught up'', rc_evidence_refs = [''s1'']\<rparr>"

definition ex_w6 :: row where
  "ex_w6 = ex_row 6 (Recommendation ex_rec) ''agent:change_planner'' (JStr ''sess1'') ''c1'' (JObj [(''recommendation_id'', JStr ''r1'')])"
definition ex_r6 :: erec where "ex_r6 = apply_entry ex_r5 ex_w6"
definition ex_s6 :: store where
  "ex_s6 = ex_s5\<lparr>s_rows := [ex_w1, ex_w2, ex_w3, ex_w4, ex_w5, ex_w6], s_records := [(''e1'', ex_r6)]\<rparr>"

lemma ex_r5_sel: "r_state ex_r5 = Some ''recommending''" "r_revision ex_r5 = 5" "r_bundle_id ex_r5 = Some ex_bid"
  "r_episode_id ex_r5 = ''e1''" "map g_id (r_signals ex_r5) = [''s1'']" "map h_id (r_hypotheses ex_r5) = [''h1'']"
  "r_recommendations ex_r5 = []" "r_no_action ex_r5 = []" "r_consensus_mode ex_r5 = Some ''unknown''"
  by (simp_all add: ex_r5_def ex_w5_def ex_state_row_def ex_row_def apply_entry_def ex_r4_sel)

lemma ex_agent_gate2: "agent_gate ex_env (ex_ctx ''store-agent'' ''episode_broker'') ''append_recommendation'' ex_rec_p ex_s5 = Inr (ex_cap 1, ex_r5)"
  using ex_gate by (simp add: agent_gate_def ex_ctx_def ex_rec_p_def ex_ep_def str_eval rbind_simps record_of_def ex_s5_def
    ex_r5_sel ex_cap_sel AGENT_OPS_def tool_def role_defs del: One_nat_def)

lemma ex_rec_valid: "validate (JObj ex_rec_json) RECOMMENDATION_SCHEMA"
  by code_simp

lemma ex_skills: "se_skills ex_env ex_bid = Inr
    [(''restart-check'', \<lparr>sk_roles = [''change_planner''], sk_modes = JStr ''any'', sk_preconditions = JArr []\<rparr>),
     (''tower-vote'', \<lparr>sk_roles = [''change_planner''], sk_modes = JArr [JStr ''tower''], sk_preconditions = JArr []\<rparr>)]"
  unfolding ex_env_def live_env_sel ex_load by code_simp

lemma ex_sets: "(\<lambda>g. JStr (g_id g)) ` set (r_signals ex_r5) = {JStr ''s1''}"
    "(\<lambda>h. JStr (h_id h)) ` set (r_hypotheses ex_r5) = {JStr ''h1''}"
  using arg_cong [OF ex_r5_sel(5), of "\<lambda>l. JStr ` set l"] arg_cong [OF ex_r5_sel(6), of "\<lambda>l. JStr ` set l"]
  by (simp_all add: image_image)

lemma ex_rec_ok: "append_recommendation ex_env (ex_ctx ''store-agent'' ''episode_broker'') ex_rec_p ex_s5 =
    Inr (RJson (JObj [(''recommendation_id'', JStr ''r1'')]), ex_s6)"
  unfolding append_recommendation_def ex_agent_gate2
  using ex_rec_valid
  by (simp add: ex_rec_p_def ex_ep_def ex_rec_json_def str_eval ex_store_eval ex_skills mode_ok_def refs_exist_def ex_cap_sel ex_r5_sel ex_sets planner_done_def
     agent_principal_def ex_s1_def ex_s2_def ex_s3_def ex_s4_def ex_s5_def ex_s6_def ex_w1_def ex_w2_def ex_w3_def ex_w4_def ex_w5_def ex_w6_def
     ex_rec_def ex_state_row_def ex_r6_def ex_nums [simplified] del: One_nat_def)

section \<open>The run is reachable\<close>

definition ex_content :: "string \<Rightarrow> skills" where
  "ex_content _ =
    [(''restart-check'', \<lparr>sk_roles = [''change_planner''], sk_modes = JStr ''any'', sk_preconditions = JArr []\<rparr>),
     (''tower-vote'', \<lparr>sk_roles = [''change_planner''], sk_modes = JArr [JStr ''tower''], sk_preconditions = JArr []\<rparr>)]"

abbreviation ex_reachable :: "store \<Rightarrow> bool" where
  "ex_reachable \<equiv> reachable (live_ok ex_codec ex_rp ex_content)"

lemma ex_holds: "registry_holds ex_rp ex_content ex_registry"
proof -
  have skills: "bundle_skills ex_rp ex_dir = Inr (ex_content ex_bid)"
    using ex_skills unfolding ex_env_def live_env_sel ex_load rbind_simps ex_content_def .
  have ld: "b = ex_bid \<and> d = ex_dir" if "load ex_rp ex_registry b = Inr d" for b d
    using that by (simp add: load_ok ex_registry_def split: if_splits)
  show ?thesis by (auto simp: registry_holds_def skills dest!: ld)
qed

lemma ex_env_ok: "live_ok ex_codec ex_rp ex_content ex_env"
  using ex_holds unfolding live_ok_def ex_env_def by blast

lemma ex_control:
  assumes "ex_reachable s" "map_of (ep_methods (endpoints ex_uids ex_env ! 2)) m = Some fn"
    "m \<noteq> ''rpc.methods''" "strip_identity p = p" "p \<noteq> []"
    "fn (ex_ctx ''store-control'' ''controller'') p s = Inr (r, s')"
  shows "ex_reachable s'"
  by (rule reachable_call [OF assms(1) ex_env_ok, of "endpoints ex_uids ex_env ! 2" ex_uids 1000 m fn p 1 r])
    (use assms(2-6) in \<open>simp_all add: endpoints_def ex_uids_def ex_ctx_def\<close>)

lemma ex_agent:
  assumes "ex_reachable s" "map_of (ep_methods (endpoints ex_uids ex_env ! 0)) m = Some fn"
    "m \<noteq> ''rpc.methods''" "strip_identity p = p" "p \<noteq> []"
    "fn (ex_ctx ''store-agent'' ''episode_broker'') p s = Inr (r, s')"
  shows "ex_reachable s'"
  by (rule reachable_call [OF assms(1) ex_env_ok, of "endpoints ex_uids ex_env ! 0" ex_uids 1000 m fn p 1 r])
    (use assms(2-6) in \<open>simp_all add: endpoints_def ex_uids_def ex_ctx_def\<close>)

lemma ex_strip: "strip_identity (ex_state_p st rv) = ex_state_p st rv" "strip_identity ex_open_p = ex_open_p"
  "strip_identity ex_signal_p = ex_signal_p" "strip_identity ex_hyp_p = ex_hyp_p" "strip_identity ex_rec_p = ex_rec_p"
  by (simp_all add: strip_identity_def IDENTITY_FIELDS_def ex_state_p_def ex_open_p_def ex_signal_p_def ex_hyp_p_def
    ex_rec_p_def ex_ep_def)

lemma ex_p_nonempty: "ex_state_p st rv \<noteq> []" "ex_open_p \<noteq> []" "ex_signal_p \<noteq> []" "ex_hyp_p \<noteq> []" "ex_rec_p \<noteq> []"
  by (simp_all add: ex_state_p_def ex_open_p_def ex_signal_p_def ex_hyp_p_def ex_rec_p_def)

lemmas ex_call_eval = ex_strip ex_p_nonempty endpoints_def

lemma ex_reach1: "ex_reachable ex_s1"
  by (rule ex_control [where fn = "open_episode ex_env" and m = "''open_episode''", OF reach_init _ _ _ _ ex_open_ok])
    (simp_all add: ex_call_eval)

lemma ex_reach2: "ex_reachable ex_s2"
  by (rule ex_control [where fn = "append_signal ex_env" and m = "''append_signal''", OF ex_reach1 _ _ _ _ ex_signal_ok])
    (simp_all add: ex_call_eval)

lemma ex_reach3: "ex_reachable ex_s3"
  by (rule ex_control [where fn = "set_state ex_env" and m = "''set_state''", OF ex_reach2 _ _ _ _ ex_state_ok])
    (simp_all add: ex_call_eval)

lemma ex_reach4: "ex_reachable ex_s4"
  by (rule ex_agent [where fn = "append_hypothesis ex_env" and m = "''append_hypothesis''", OF ex_reach3 _ _ _ _ ex_hyp_ok])
    (simp_all add: ex_call_eval)

lemma ex_reach5: "ex_reachable ex_s5"
  by (rule ex_control [where fn = "set_state ex_env" and m = "''set_state''", OF ex_reach4 _ _ _ _ ex_state_ok2])
    (simp_all add: ex_call_eval)

lemma ex_reach6: "ex_reachable ex_s6"
  by (rule ex_agent [where fn = "append_recommendation ex_env" and m = "''append_recommendation''", OF ex_reach5 _ _ _ _ ex_rec_ok])
    (simp_all add: ex_call_eval)

section \<open>A handed-off episode and a late verification\<close>

definition ex_t2 :: row where "ex_t2 = ex_state_row 2 ''open'' ''handed_off''"
definition ex_q2 :: erec where "ex_q2 = apply_entry ex_r1 ex_t2"
definition ex_h2 :: store where "ex_h2 = ex_s1\<lparr>s_rows := [ex_w1, ex_t2], s_records := [(''e1'', ex_q2)]\<rparr>"

lemma ex_hand_off_ok: "set_state ex_env (ex_ctx ''store-control'' ''controller'') (ex_state_p ''handed_off'' 1) ex_s1 =
    Inr (RJson (JObj [(''revision'', JInt 2), (''state'', JStr ''handed_off'')]), ex_h2)"
  by (simp add: set_state_def set_state_key_def ex_state_p_def str_eval int_str_def allowed_def CONTROLLER_def NONTERMINAL_eval
     ex_store_eval ex_s1_def ex_h2_def ex_r1_sel ex_w1_def ex_t2_def ex_state_row_def ex_q2_def numeral_2_eq_2)

lemma ex_reach_h2: "ex_reachable ex_h2"
  by (rule ex_control [where fn = "set_state ex_env" and m = "''set_state''", OF ex_reach1 _ _ _ _ ex_hand_off_ok])
    (simp_all add: ex_call_eval)

lemma ex_q2_sel: "r_state ex_q2 = Some ''handed_off''" "r_revision ex_q2 = 2" "r_bundle_id ex_q2 = Some ex_bid"
  "r_episode_id ex_q2 = ''e1''"
  by (simp_all add: ex_q2_def ex_t2_def ex_state_row_def ex_row_def apply_entry_def ex_r1_sel)

definition ex_vf_p :: params where
  "ex_vf_p = ex_ep ''vf1'' @ [(''rule'', JStr ''caught-up''), (''result'', JStr ''pass'')]"

definition ex_vf :: verification_b where
  "ex_vf = \<lparr>vf_rule = JStr ''caught-up'', vf_result = JStr ''pass'', vf_samples = JNull\<rparr>"

definition ex_t3 :: row where
  "ex_t3 = ex_row 3 (Verification ex_vf) ''verifier'' JNull ''vf1'' (JObj [(''ok'', JBool True), (''revision'', JInt 3)])"
definition ex_q3 :: erec where "ex_q3 = apply_entry ex_q2 ex_t3"
definition ex_h3 :: store where "ex_h3 = ex_h2\<lparr>s_rows := [ex_w1, ex_t2, ex_t3], s_records := [(''e1'', ex_q3)]\<rparr>"

lemma ex_vf_check: "append_verification_check ex_vf_p ex_s1 = Inr ()"
  by (simp add: append_verification_check_def ex_vf_p_def ex_ep_def str_eval rbind_simps record_of_def ex_s1_def
    terminal_iff ex_r1_sel)

lemma ex_vf_write: "append_verification_write ex_env (ex_ctx ''store-verify'' ''verifier'') ex_vf_p ex_h2 =
    Inr (RJson (JObj [(''ok'', JBool True), (''revision'', JInt 3)]), ex_h3)"
  by (simp add: append_verification_write_def simple_def ex_vf_p_def ex_ep_def str_eval ex_store_eval
     ex_s1_def ex_h2_def ex_h3_def ex_q2_sel ex_w1_def ex_t2_def ex_t3_def ex_state_row_def ex_vf_def ex_q3_def)

lemma ex_reach_h3: "ex_reachable ex_h3"
  by (rule reach_step [OF ex_reach_h2 step_late_verification [OF ex_vf_check _ ex_vf_write]]) (simp add: ex_ctx_def)

section \<open>A resolved episode\<close>

definition ex_state_by :: "string \<Rightarrow> nat \<Rightarrow> string \<Rightarrow> string \<Rightarrow> row" where
  "ex_state_by pr rv frm to = ex_row rv (State \<lparr>sb_from = Some frm, sb_to = to, sb_reason = JNull\<rparr>) pr JNull
     (''state:'' @ nat_str (rv - 1) @ '':'' @ to) (JObj [(''revision'', JInt (int rv)), (''state'', JStr to)])"

definition ex_run :: "row list \<Rightarrow> erec \<Rightarrow> store" where
  "ex_run ws r = \<lparr>s_rows = ws, s_opens = [(''o1'', ''e1'', ex_open_res)], s_records = [(''e1'', r)]\<rparr>"

text \<open>One transition of the episode of the run.\<close>

lemma ex_transition:
  assumes "r_state rec = Some frm" "r_revision rec = n" "r_bundle_id rec = Some ex_bid" "r_episode_id rec = ''e1''"
    and "frm \<notin> set TERMINAL" "allowed pr frm to"
    and "list_all (\<lambda>w. e_rev w \<noteq> Suc n \<and> w_idem_key w \<noteq> ''state:'' @ nat_str n @ '':'' @ to) ws"
    and "length (''state:'' @ nat_str n @ '':'' @ to) \<le> 200"
  shows "set_state ex_env (ex_ctx nm pr) (ex_state_p to (int n)) (ex_run ws rec) =
    Inr (RJson (JObj [(''revision'', JInt (int (Suc n))), (''state'', JStr to)]),
      ex_run (ws @ [ex_state_by pr (Suc n) frm to]) (apply_entry rec (ex_state_by pr (Suc n) frm to)))"
proof -
  let ?key = "''state:'' @ nat_str n @ '':'' @ to"
  have key: "set_state_key ex_env (ex_state_p to (int n)) = JStr ?key"
    by (simp add: set_state_key_def ex_state_p_def pget_def int_str_def)
  have "strip ?key \<noteq> []"
    by (simp add: strip_def is_space_def Let_def dropWhile_eq_Nil_conv)
  then have ne: "nonempty (JStr ?key)" by (simp only: nonempty_def jv.case not_False_eq_True)
  have fr: "find (\<lambda>r. e_episode_id r = ''e1'' \<and> w_idem_key r = ?key) ws = None"
    using assms(7) by (auto simp: find_None_iff list_all_iff)
  have nx: "\<not> list_ex (\<lambda>r. e_episode_id r = ''e1'' \<and> (e_rev r = Suc n \<or> w_idem_key r = ?key)) ws"
    using assms(7) by (auto simp: list_all_iff list_ex_iff)
  have idem: "idem (ex_run ws rec) ''e1'' (JStr ?key) = Inr None"
    using ne fr assms(8) by (simp only: idem_def find_row_def ex_run_def store.simps str_of.simps) simp
  show ?thesis
    unfolding set_state_def Let_def key
    using assms(1-6) nx idem
    by (simp add: rbind_simps record_of_def ex_run_def once_def terminal_def append_row_def Let_def
        ex_env_sel ex_state_p_def pget_def ex_ctx_def mk_row_def ex_state_by_def ex_row_def add.commute)
qed

definition ex_y2 :: row where "ex_y2 = ex_state_by ''controller'' 2 ''open'' ''diagnosing''"
definition ex_y3 :: row where "ex_y3 = ex_state_by ''controller'' 3 ''diagnosing'' ''reporting''"
definition ex_y4 :: row where "ex_y4 = ex_state_by ''controller'' 4 ''reporting'' ''awaiting_operator''"
definition ex_y5 :: row where "ex_y5 = ex_state_by ''verifier'' 5 ''awaiting_operator'' ''resolved''"

definition ex_v2 :: erec where "ex_v2 = apply_entry ex_r1 ex_y2"
definition ex_v3 :: erec where "ex_v3 = apply_entry ex_v2 ex_y3"
definition ex_v4 :: erec where "ex_v4 = apply_entry ex_v3 ex_y4"
definition ex_v5 :: erec where "ex_v5 = apply_entry ex_v4 ex_y5"

definition ex_u2 :: store where "ex_u2 = ex_run [ex_w1, ex_y2] ex_v2"
definition ex_u3 :: store where "ex_u3 = ex_run [ex_w1, ex_y2, ex_y3] ex_v3"
definition ex_u4 :: store where "ex_u4 = ex_run [ex_w1, ex_y2, ex_y3, ex_y4] ex_v4"
definition ex_u5 :: store where "ex_u5 = ex_run [ex_w1, ex_y2, ex_y3, ex_y4, ex_y5] ex_v5"

lemmas ex_y_defs = ex_y2_def ex_y3_def ex_y4_def ex_y5_def ex_state_by_def ex_row_def

lemma ex_v_sel:
  "r_state ex_v2 = Some ''diagnosing''" "r_revision ex_v2 = 2" "r_bundle_id ex_v2 = Some ex_bid" "r_episode_id ex_v2 = ''e1''"
  "r_state ex_v3 = Some ''reporting''" "r_revision ex_v3 = 3" "r_bundle_id ex_v3 = Some ex_bid" "r_episode_id ex_v3 = ''e1''"
  "r_state ex_v4 = Some ''awaiting_operator''" "r_revision ex_v4 = 4" "r_bundle_id ex_v4 = Some ex_bid" "r_episode_id ex_v4 = ''e1''"
  "r_state ex_v5 = Some ''resolved''" "r_revision ex_v5 = 5"
  by (simp_all add: ex_v2_def ex_v3_def ex_v4_def ex_v5_def ex_y_defs apply_entry_def ex_r1_sel)

lemma ex_s1_run: "ex_s1 = ex_run [ex_w1] ex_r1"
  by (simp add: ex_s1_def ex_run_def)

lemmas ex_tr_eval = ex_w1_def ex_y_defs ex_nums allowed_def CONTROLLER_def VERIFIER_def TERMINAL_def NONTERMINAL_eval

lemma ex_tr2: "set_state ex_env (ex_ctx ''store-control'' ''controller'') (ex_state_p ''diagnosing'' 1) ex_s1 =
    Inr (RJson (JObj [(''revision'', JInt 2), (''state'', JStr ''diagnosing'')]), ex_u2)"
  using ex_transition [OF ex_r1_sel(1-4), of "''controller''" "''diagnosing''" "[ex_w1]" "''store-control''"]
  by (simp add: ex_s1_run ex_u2_def ex_v2_def ex_tr_eval numeral_2_eq_2)

lemma ex_tr3: "set_state ex_env (ex_ctx ''store-control'' ''controller'') (ex_state_p ''reporting'' 2) ex_u2 =
    Inr (RJson (JObj [(''revision'', JInt 3), (''state'', JStr ''reporting'')]), ex_u3)"
  using ex_transition [OF ex_v_sel(1-4), of "''controller''" "''reporting''" "[ex_w1, ex_y2]" "''store-control''"]
  by (simp add: ex_u2_def ex_u3_def ex_v3_def ex_tr_eval)

lemma ex_tr4: "set_state ex_env (ex_ctx ''store-control'' ''controller'') (ex_state_p ''awaiting_operator'' 3) ex_u3 =
    Inr (RJson (JObj [(''revision'', JInt 4), (''state'', JStr ''awaiting_operator'')]), ex_u4)"
  using ex_transition [OF ex_v_sel(5-8), of "''controller''" "''awaiting_operator''" "[ex_w1, ex_y2, ex_y3]" "''store-control''"]
  by (simp add: ex_u3_def ex_u4_def ex_v4_def ex_tr_eval)

lemma ex_tr5: "verifier_set_state ex_env (ex_ctx ''store-verify'' ''verifier'') (ex_state_p ''resolved'' 4) ex_u4 =
    Inr (RJson (JObj [(''revision'', JInt 5), (''state'', JStr ''resolved'')]), ex_u5)"
  using ex_transition [OF ex_v_sel(9-12), of "''verifier''" "''resolved''" "[ex_w1, ex_y2, ex_y3, ex_y4]" "''store-verify''"]
  by (simp add: verifier_set_state_def ex_state_p_def pget_def ex_u4_def ex_u5_def ex_v5_def ex_tr_eval)

lemma ex_reach_u2: "ex_reachable ex_u2"
  by (rule ex_control [where fn = "set_state ex_env" and m = "''set_state''", OF ex_reach1 _ _ _ _ ex_tr2])
    (simp_all add: ex_call_eval)

lemma ex_reach_u3: "ex_reachable ex_u3"
  by (rule ex_control [where fn = "set_state ex_env" and m = "''set_state''", OF ex_reach_u2 _ _ _ _ ex_tr3])
    (simp_all add: ex_call_eval)

lemma ex_reach_u4: "ex_reachable ex_u4"
  by (rule ex_control [where fn = "set_state ex_env" and m = "''set_state''", OF ex_reach_u3 _ _ _ _ ex_tr4])
    (simp_all add: ex_call_eval)

lemma ex_reach_u5: "ex_reachable ex_u5"
  using ex_tr5
  by (intro reachable_call [OF ex_reach_u4 ex_env_ok, of "endpoints ex_uids ex_env ! 3" ex_uids 1000 "''set_state''"
      "verifier_set_state ex_env" "ex_state_p ''resolved'' 4" 1])
    (simp_all add: ex_call_eval ex_uids_def ex_ctx_def)

section \<open>A verdict\<close>

definition ex_w7 :: row where "ex_w7 = ex_state_by ''controller'' 7 ''recommending'' ''judging''"
definition ex_r7 :: erec where "ex_r7 = apply_entry ex_r6 ex_w7"
definition ex_s7 :: store where "ex_s7 = ex_run [ex_w1, ex_w2, ex_w3, ex_w4, ex_w5, ex_w6, ex_w7] ex_r7"

definition ex_checks :: "jv list" where
  "ex_checks = [JObj [(''check'', JStr ''evidence''), (''result'', JStr ''pass'')]]"

definition ex_vd_p :: params where
  "ex_vd_p = ex_ep ''d1'' @ [(''token'', ex_token 2), (''target_id'', JStr ''r1''), (''result'', JStr ''PASS''),
     (''checks'', JArr ex_checks)]"

definition ex_vd :: verdict_b where
  "ex_vd = \<lparr>v_target_id = ''r1'', v_result = ''PASS'', v_checks = ex_checks\<rparr>"

definition ex_w8 :: row where
  "ex_w8 = ex_row 8 (Verdict ex_vd) ''agent:proposal_judge'' (JStr ''sess2'') ''d1'' ok_reply"
definition ex_r8 :: erec where "ex_r8 = apply_entry ex_r7 ex_w8"
definition ex_s8 :: store where "ex_s8 = ex_run [ex_w1, ex_w2, ex_w3, ex_w4, ex_w5, ex_w6, ex_w7, ex_w8] ex_r8"

definition ex_w9 :: row where "ex_w9 = ex_state_by ''controller'' 9 ''judging'' ''reporting''"
definition ex_s9 :: store where
  "ex_s9 = ex_run [ex_w1, ex_w2, ex_w3, ex_w4, ex_w5, ex_w6, ex_w7, ex_w8, ex_w9] (apply_entry ex_r8 ex_w9)"

lemma ex_r6_sel: "r_state ex_r6 = Some ''recommending''" "r_revision ex_r6 = 6" "r_bundle_id ex_r6 = Some ex_bid"
  "r_episode_id ex_r6 = ''e1''"
  "r_recommendations ex_r6 = [recommendation_b.extend ex_rec \<lparr>rc_session_id = JStr ''sess1'', rc_t = rfc3339 10, rc_rev = 6\<rparr>]"
  "r_no_action ex_r6 = []"
  by (simp_all add: ex_r6_def ex_w6_def ex_row_def apply_entry_def ex_r5_sel)

lemma ex_verdicts0: "r_verdicts ex_r6 = []"
  by (simp add: ex_r6_def ex_r5_def ex_r4_def ex_r3_def ex_r2_def ex_r1_def ex_w6_def ex_w5_def ex_w4_def ex_w3_def
      ex_w2_def ex_w1_def ex_state_row_def ex_row_def apply_entry_def empty_record_def)

lemma ex_r7_sel: "r_state ex_r7 = Some ''judging''" "r_revision ex_r7 = 7" "r_bundle_id ex_r7 = Some ex_bid"
  "r_episode_id ex_r7 = ''e1''" "r_verdicts ex_r7 = []"
  "under_judgement ex_r7 = Some (ARec (recommendation_b.extend ex_rec \<lparr>rc_session_id = JStr ''sess1'', rc_t = rfc3339 10, rc_rev = 6\<rparr>))"
  by (simp_all add: ex_r7_def ex_w7_def ex_state_by_def ex_row_def apply_entry_def ex_r6_sel ex_verdicts0 under_judgement_def)

lemma ex_r8_sel: "r_state ex_r8 = Some ''judging''" "r_revision ex_r8 = 8" "r_bundle_id ex_r8 = Some ex_bid"
  "r_episode_id ex_r8 = ''e1''"
  "r_verdicts ex_r8 = [verdict_b.extend ex_vd \<lparr>v_recommendation = ''r1'', v_session_id = JStr ''sess2'', v_t = rfc3339 10\<rparr>]"
  by (simp_all add: ex_r8_def ex_w8_def ex_row_def apply_entry_def ex_r7_sel ex_vd_def)

lemmas ex_w_defs = ex_w1_def ex_w2_def ex_w3_def ex_w4_def ex_w5_def ex_w6_def ex_w7_def ex_w8_def ex_state_row_def

lemma ex_nums2: "nat_str 6 = ''6''" "nat_str 7 = ''7''" "nat_str 8 = ''8''" by code_simp+

lemma ex_tr7: "set_state ex_env (ex_ctx ''store-control'' ''controller'') (ex_state_p ''judging'' 6) ex_s6 =
    Inr (RJson (JObj [(''revision'', JInt 7), (''state'', JStr ''judging'')]), ex_s7)"
  using ex_transition [OF ex_r6_sel(1-4), of "''controller''" "''judging''" "[ex_w1, ex_w2, ex_w3, ex_w4, ex_w5, ex_w6]" "''store-control''"]
  by (simp add: ex_s7_def ex_s6_def ex_s5_def ex_s4_def ex_s3_def ex_s2_def ex_s1_def ex_run_def ex_r7_def ex_w_defs ex_tr_eval ex_nums2)

lemma ex_gate3: "se_gate ex_env (ex_token 2) (JStr ''e1'') = Inr (ex_cap 2)"
  unfolding ex_env_def live_env_sel by code_simp

lemma ex_cap2_sel: "cap_session_id (ex_cap 2) = ''sess2''" "cap_role (ex_cap 2) = ''proposal_judge''"
  by (simp_all add: ex_cap_def ROLES_def ex_nums)

lemma ex_agent_gate3: "agent_gate ex_env (ex_ctx ''store-agent'' ''episode_broker'') ''append_verdict'' ex_vd_p ex_s7 = Inr (ex_cap 2, ex_r7)"
  using ex_gate3 by (simp add: agent_gate_def ex_ctx_def ex_vd_p_def ex_ep_def str_eval rbind_simps record_of_def ex_s7_def ex_run_def
    ex_r7_sel ex_cap_sel ex_cap2_sel AGENT_OPS_def tool_def role_defs)

lemma ex_checks_valid: "validate (JArr ex_checks) CHECKS_SCHEMA"
  by code_simp

lemma ex_vd_ok: "append_verdict ex_env (ex_ctx ''store-agent'' ''episode_broker'') ex_vd_p ex_s7 = Inr (RJson ok_reply, ex_s8)"
  unfolding append_verdict_def ex_agent_gate3
  using ex_checks_valid
  by (simp add: ex_vd_p_def ex_ep_def str_eval ex_store_eval ex_cap2_sel ex_r7_sel agent_principal_def ex_s7_def ex_s8_def
     ex_run_def ex_w_defs ex_state_by_def ex_r8_def ex_vd_def ex_rec_def ex_checks_def recommendation_b.defs ex_nums2)

lemma ex_tr9: "set_state ex_env (ex_ctx ''store-control'' ''controller'') (ex_state_p ''reporting'' 8) ex_s8 =
    Inr (RJson (JObj [(''revision'', JInt 9), (''state'', JStr ''reporting'')]), ex_s9)"
  using ex_transition [OF ex_r8_sel(1-4), of "''controller''" "''reporting''"
      "[ex_w1, ex_w2, ex_w3, ex_w4, ex_w5, ex_w6, ex_w7, ex_w8]" "''store-control''"]
  by (simp add: ex_s8_def ex_s9_def ex_w9_def ex_w_defs ex_tr_eval ex_nums2)

lemma ex_strip3: "strip_identity ex_vd_p = ex_vd_p" "ex_vd_p \<noteq> []"
  by (simp_all add: strip_identity_def IDENTITY_FIELDS_def ex_vd_p_def ex_ep_def)

lemma ex_reach7: "ex_reachable ex_s7"
  by (rule ex_control [where fn = "set_state ex_env" and m = "''set_state''", OF ex_reach6 _ _ _ _ ex_tr7])
    (simp_all add: ex_call_eval)

lemma ex_reach8: "ex_reachable ex_s8"
  by (rule ex_agent [where fn = "append_verdict ex_env" and m = "''append_verdict''", OF ex_reach7 _ _ _ _ ex_vd_ok])
    (simp_all add: ex_call_eval ex_strip3)

end
