(* ===== verification/Store_Theorems.thy ===== *)
theory Store_Theorems
  imports Example_Run
begin

text \<open>
  The theorems about the episode store as it runs behind its five sockets, each with an instance
  on the run of \<open>Example_Run\<close> where it has hypotheses.
\<close>

section \<open>Handlers that cannot move an episode\<close>

definition same_states :: "store \<Rightarrow> store \<Rightarrow> bool" where
  "same_states s s' =
     (map fst (s_records s') = map fst (s_records s) \<and>
      (\<forall>i rec. map_of (s_records s) i = Some rec \<longrightarrow>
         (\<exists>rec'. map_of (s_records s') i = Some rec' \<and> r_state rec' = r_state rec)))"

definition quiet :: "store \<Rightarrow> (reply \<times> store) result \<Rightarrow> bool" where
  "quiet s m = (\<forall>r s'. m = Inr (r, s') \<longrightarrow> same_states s s')"

lemma same_states_refl [simp]: "same_states s s"
  by (simp add: same_states_def)

lemma same_states_trans: "same_states a b \<Longrightarrow> same_states b c \<Longrightarrow> same_states a c"
  unfolding same_states_def by metis

lemma quiet_error [simp]: "quiet s (Inl e)"
  by (simp add: quiet_def)

lemma quiet_same [simp]: "quiet s (Inr (r, s))"
  by (simp add: quiet_def)

lemma quiet_bind: "(\<And>y. m = Inr y \<Longrightarrow> quiet s (k y)) \<Longrightarrow> quiet s (rbind m k)"
  by (auto simp: quiet_def)

lemma quiet_once: "quiet s (k (str_of key)) \<Longrightarrow> quiet s (once s eid key k)"
  using once_Inr by (fastforce simp: quiet_def)

lemma quiet_append:
  assumes rec: "map_of (s_records s) (r_episode_id rec) = Some rec"
    and kind: "\<And>b. bdy \<noteq> State b" "\<And>b. bdy \<noteq> Opened b"
  shows "quiet s (append_row env s rec bdy pr sess key res)"
  unfolding quiet_def
proof (intro allI impI)
  fix r s'
  assume "append_row env s rec bdy pr sess key res = Inr (r, s')"
  then obtain bid aref where s': "s' = s\<lparr>s_rows := s_rows s @ [mk_row env rec bdy pr sess bid aref key res],
      s_records := dict_set (s_records s) (r_episode_id rec)
        (apply_entry rec (mk_row env rec bdy pr sess bid aref key res))\<rparr>"
    by (rule append_row_Inr)
  have "r_episode_id rec \<in> set (map fst (s_records s))" using rec by (force dest: map_of_SomeD)
  moreover have "r_state (apply_entry rec (mk_row env rec bdy pr sess bid aref key res)) = r_state rec"
    using kind by (simp add: apply_entry_state mk_row_def split: body.splits)
  ultimately show "same_states s s'" using rec by (auto simp: s' same_states_def keys_dict_set)
qed

lemma gate_record:
  "store_inv content s \<Longrightarrow> agent_gate env x op p s = Inr (cap, rec) \<Longrightarrow> map_of (s_records s) (r_episode_id rec) = Some rec"
  "store_inv content s \<Longrightarrow> record_of s v = Inr rec \<Longrightarrow> map_of (s_records s) (r_episode_id rec) = Some rec"
  using agent_gate_Inr(3) store_invD(2) by (auto simp: record_of_Inr) metis

lemma agent_handlers_quiet:
  assumes inv: "store_inv content s"
  shows "quiet s (append_hypothesis env x p s)" "quiet s (append_hypothesis_status env x p s)"
    "quiet s (append_recommendation env x p s)" "quiet s (append_no_action env x p s)"
    "quiet s (append_verdict env x p s)" "quiet s (append_report env x p s)" "quiet s (agent_read env x p s)"
  unfolding append_hypothesis_def append_hypothesis_status_def append_recommendation_def append_no_action_def
    append_verdict_def append_report_def agent_read_def Let_def
  by (auto intro!: quiet_once quiet_bind quiet_append dest!: gate_record [OF inv] split: jv.splits option.splits)

lemma append_observation_quiet:
  assumes inv: "store_inv content s" shows "quiet s (append_observation env x p s)"
  unfolding append_observation_def append_signal_as_def Let_def
  by (auto intro!: quiet_once quiet_bind quiet_append dest!: gate_record [OF inv])

definition AGENT_SOCKETS :: "string list" where
  "AGENT_SOCKETS = [''store-agent'', ''store-agent-report'', ''store-observe'']"

lemma agent_endpoint_quiet:
  assumes "store_inv content s" "ep \<in> set (endpoints uids env)" "ep_name ep \<in> set AGENT_SOCKETS"
    "map_of (ep_methods ep) m = Some fn"
  shows "quiet s (fn x p s)"
  using assms(2-4) agent_handlers_quiet [OF assms(1)] append_observation_quiet [OF assms(1)]
  by (auto simp: endpoints_def AGENT_SOCKETS_def split: if_splits)

lemma agent_calls_quiet:
  assumes "calls ep x s s'" "store_inv content s" "live_ok cd rp content env" "ep \<in> set (endpoints uids env)"
    "x_principal x = ep_principal ep" "ep_name ep \<in> set AGENT_SOCKETS"
  shows "same_states s s'"
  using assms
proof (induction rule: calls.induct)
  case (calls_step m fn p st r st' st'')
  have "same_states st st'"
    using agent_endpoint_quiet [OF calls_step.prems(1,3,5) calls_step.hyps(1)] calls_step.hyps(2)
    by (auto simp: quiet_def)
  moreover have "store_inv content st'"
    using live.endpoint_logs [OF calls_step.prems(2,3) calls_step.hyps(1) calls_step.prems(4)] calls_step.hyps(2)
      calls_step.prems(1) by (auto intro: log_step_inv dest: logsD)
  ultimately show ?case using calls_step by (blast intro: same_states_trans)
qed simp

section \<open>Replay\<close>

definition later :: "store \<Rightarrow> store \<Rightarrow> bool" where
  "later s s' = ((\<exists>ws. s_rows s' = s_rows s @ ws) \<and> (\<forall>i rec. map_of (s_records s) i = Some rec \<longrightarrow>
     (\<exists>rec'. map_of (s_records s') i = Some rec' \<and> r_episode_id rec' = r_episode_id rec)))"

lemma find_append: "find P (xs @ ys) = (case find P xs of None \<Rightarrow> find P ys | Some x \<Rightarrow> Some x)"
  by (induction xs) auto

lemma find_row_later: "find_row s eid key = Some w \<Longrightarrow> later s s' \<Longrightarrow> find_row s' eid key = Some w"
  by (auto simp: later_def find_row_def find_append)

lemma record_of_later:
  "record_of s v = Inr rec \<Longrightarrow> later s s' \<Longrightarrow> \<exists>rec'. record_of s' v = Inr rec' \<and> r_episode_id rec' = r_episode_id rec"
  by (fastforce simp: record_of_Inr later_def)

text \<open>A successful write leaves a row that answers the same key with the same result.\<close>

lemma append_row_replay:
  assumes "append_row env s rec bdy pr sess key res = Inr (r, s')"
  shows "\<exists>w. find_row s' (r_episode_id rec) key = Some w \<and> r = RJson (w_result w)"
proof -
  from assms obtain bid aref where a: "r = RJson res" "key \<notin> w_idem_key ` set (rows_of s (r_episode_id rec))"
    "s' = s\<lparr>s_rows := s_rows s @ [mk_row env rec bdy pr sess bid aref key res],
      s_records := dict_set (s_records s) (r_episode_id rec)
        (apply_entry rec (mk_row env rec bdy pr sess bid aref key res))\<rparr>"
    by (rule append_row_Inr)
  from a(2) have "find_row s (r_episode_id rec) key = None" by (simp add: find_row_None)
  with a(1,3) show ?thesis by (simp add: find_row_def find_append mk_row_def)
qed

lemma once_replay:
  assumes "once s eid key k = Inr (r, s')"
    and k: "k (str_of key) = Inr (r, s') \<Longrightarrow> \<exists>w. find_row s' eid (str_of key) = Some w \<and> r = RJson (w_result w)"
    and "later s' s''"
  shows "once s'' eid key k' = Inr (r, s'')"
proof -
  from once_Inr(2) [OF assms(1)] k obtain w where "find_row s' eid (str_of key) = Some w" "r = RJson (w_result w)"
    by blast
  moreover have "nonempty key \<and> \<not> 200 < length (str_of key)"
    using assms(1) by (auto simp: once_def idem_def split: if_splits)
  ultimately show ?thesis
    using find_row_later [OF _ assms(3)] by (simp add: once_def idem_def rbind_simps)
qed

lemma simple_replay:
  assumes "simple env x p bdy s = Inr (r, s')" "later s s'" "later s' s''"
  shows "simple env' x' p bdy' s'' = Inr (r, s'')"
proof -
  from assms(1) obtain rec where rec: "record_of s (pget p ''episode_id'') = Inr rec"
    and o: "once s (r_episode_id rec) (pget p ''idem_key'') (\<lambda>key. append_row env s rec bdy (x_principal x)
      (pget p ''session_id'') key (JObj [(''ok'', JBool True), (''revision'', JInt (int (r_revision rec) + 1))])) = Inr (r, s')"
    by (auto simp: simple_def)
  obtain rec1 where r1: "record_of s' (pget p ''episode_id'') = Inr rec1" "r_episode_id rec1 = r_episode_id rec"
    using record_of_later [OF rec assms(2)] by blast
  obtain rec2 where r2: "record_of s'' (pget p ''episode_id'') = Inr rec2" "r_episode_id rec2 = r_episode_id rec"
    using record_of_later [OF r1(1) assms(3)] r1(2) by auto
  show ?thesis
    unfolding simple_def r2(1) rbind_simps r2(2) by (rule once_replay [OF o append_row_replay assms(3)])
qed

text \<open>Log steps and restarts go to later stores.\<close>

lemma later_refl: "later s s" by (simp add: later_def)

lemma later_trans: "later a b \<Longrightarrow> later b c \<Longrightarrow> later a c"
  unfolding later_def by (metis append_assoc)

lemma log_step_later: "log_step content s s' \<Longrightarrow> store_inv content s \<Longrightarrow> later s s'"
  using log_step_append log_step_record unfolding later_def by (metis apply_entry_frame(2))

lemma store_step_later:
  assumes "store_step (live_ok cd rp content) s s'" "store_inv content s"
  shows "later s s'"
proof -
  have steps: "later a b \<and> store_inv content b" if "(log_step content)\<^sup>*\<^sup>* a b" "store_inv content a" for a b
    using that by (induction rule: rtranclp_induct) (auto intro: later_refl later_trans log_step_later log_step_inv)
  from live.store_step_logs [OF assms(1)] show ?thesis
    using steps assms(2) rebuild_records [OF assms(2)] by (auto simp: later_def)
qed

lemma steps_later:
  assumes "(store_step (live_ok cd rp content))\<^sup>*\<^sup>* s s'" "reachable (live_ok cd rp content) s"
  shows "later s s' \<and> reachable (live_ok cd rp content) s'"
  using assms
proof (induction rule: rtranclp_induct)
  case (step b c)
  then show ?case
    using store_step_later live.reachable_inv later_trans reach_step by blast
qed (simp add: later_refl)

text \<open>A control call is a step.\<close>

lemma logs_later:
  assumes "reachable (live_ok cd rp content) s" "\<And>content. logs content s m" "m = Inr (r, s')"
  shows "later s s'"
  using log_step_later live.reachable_inv [OF assms(1)] assms(2,3) by (blast dest: logsD)

section \<open>Theorems\<close>

text \<open>C1: in every reachable state of the store the in-memory records are exactly what
\<^verbatim>\<open>_rebuild\<close> computes from the rows of the log, so a restart changes nothing a reader can see.\<close>

theorem records_are_fold_of_log:
  assumes "reachable (live_ok cd rp content) s"
  shows "map_of (rebuild (s_rows s)) = map_of (s_records s)"
  by (rule rebuild_records [OF live.reachable_inv [OF assms]])

theorem records_are_fold_of_log_witness:
  "map_of (rebuild (s_rows ex_s6)) = map_of (s_records ex_s6) \<and> length (s_rows ex_s6) = 6"
  using records_are_fold_of_log [OF ex_reach6] by (simp add: ex_s6_def)

text \<open>The log is append-only: whatever a connection, a late verification write or a restart
does, the rows written before stay where they are.\<close>

lemma log_is_append_only:
  assumes "store_step (live_ok cd rp content) s s'"
  shows "\<exists>ws. s_rows s' = s_rows s @ ws"
  using live.store_step_logs [OF assms] log_steps_append by auto

text \<open>The entries of an episode carry the revisions 1, 2, ..., n without gap or repetition,
the record's revision is n, no idempotency key is used twice, and every entry carries the bundle
the episode was bound to when it was opened.\<close>

lemma revisions_contiguous:
  assumes "reachable (live_ok cd rp content) s" "map_of (s_records s) i = Some rec"
  shows "map e_rev (rows_of s i) = [1..<Suc (length (rows_of s i))] \<and> r_revision rec = length (rows_of s i) \<and>
    distinct (map w_idem_key (rows_of s i)) \<and> (\<forall>w \<in> set (rows_of s i). r_bundle_id rec = Some (e_bundle_id w))"
  using live_record(1) [OF assms] episode_revs episode_revision episode_keys episode_bundle by fastforce

text \<open>An append under a fresh idempotency key never fails on a uniqueness constraint of the
\<^verbatim>\<open>entries\<close> table: with a hashable session id and the audit sequencer up it succeeds, writes one row
with the next revision and returns the given result.\<close>

lemma append_succeeds:
  assumes "reachable (live_ok cd rp content) s" "map_of (s_records s) i = Some rec"
    and "find_row s i key = None" "hashable sess" "se_audit env \<noteq> AuditFails"
  shows "\<exists>w s'. append_row env s rec bdy pr sess key res = Inr (RJson res, s') \<and> s_rows s' = s_rows s @ [w] \<and>
    e_episode_id w = i \<and> e_rev w = Suc (r_revision rec) \<and> map_of (s_records s') i = Some (apply_entry rec w)"
proof -
  note ep = live_record [OF assms(1,2)]
  obtain bid where bid: "r_bundle_id rec = Some bid" using episode_bundle [OF ep(1)] by blast
  have "e_rev w \<noteq> Suc (r_revision rec)" if "w \<in> set (s_rows s)" "e_episode_id w = i" for w
  proof -
    have "e_rev w \<in> set (map e_rev (rows_of s i))" using that by (simp add: rows_of_def)
    then show ?thesis using episode_revs [OF ep(1)] episode_revision [OF ep(1)] by auto
  qed
  moreover have "w_idem_key w \<noteq> key" if "w \<in> set (s_rows s)" "e_episode_id w = i" for w
    using assms(3) that by (auto simp: find_row_None rows_of_def)
  ultimately have "\<not> list_ex (\<lambda>r. e_episode_id r = i \<and> (e_rev r = Suc (r_revision rec) \<or> w_idem_key r = key)) (s_rows s)"
    by (auto simp: list_ex_iff)
  with assms(4,5) bid ep(2) show ?thesis
    by (cases "se_audit env") (simp_all add: append_row_def rbind_simps mk_row_def Let_def)
qed

text \<open>C3: the state history of every episode is a path of the transition table: it starts with
the opening by the controller, every later change is one the table allows the recorded principal,
each change starts where the previous one ended, and the last one ends in the record's state.\<close>

theorem state_history_is_path:
  assumes "reachable (live_ok cd rp content) s" "map_of (s_records s) i = Some rec"
  shows "path_ok None (r_state_history rec) \<and> last_state None (r_state_history rec) = r_state rec"
  by (rule episode_history [OF live_record(1) [OF assms]])

theorem state_history_is_path_witness: "path_ok None (r_state_history ex_r6) \<and> r_state ex_r6 = Some ''recommending''"
proof -
  have "map_of (s_records ex_s6) ''e1'' = Some ex_r6" by (simp add: ex_s6_def)
  from state_history_is_path [OF ex_reach6 this] show ?thesis
    by (simp add: ex_r6_def apply_entry_state ex_w6_def ex_row_def ex_r5_sel)
qed

text \<open>C2: only the verifier resolves an episode, and only one that waits for the operator.\<close>

theorem only_verifier_resolves:
  assumes "reachable (live_ok cd rp content) s" "map_of (s_records s) i = Some rec"
    and "c \<in> set (r_state_history rec)" "sh_to c = ''resolved''"
  shows "sh_by c = ''verifier'' \<and> sh_from c = Some ''awaiting_operator''"
  using path_resolved [OF _ assms(3,4)] episode_history [OF live_record(1) [OF assms(1,2)]] by blast

theorem only_verifier_resolves_witness:
  "\<exists>c. c \<in> set (r_state_history ex_v5) \<and> sh_to c = ''resolved'' \<and> sh_by c = ''verifier'' \<and> sh_from c = Some ''awaiting_operator''"
proof -
  have rec: "map_of (s_records ex_u5) ''e1'' = Some ex_v5" by (simp add: ex_u5_def ex_run_def)
  obtain c where c: "c \<in> set (r_state_history ex_v5)" "sh_to c = ''resolved''"
  proof
    show "\<lparr>sh_t = rfc3339 10, sh_ts = 10, sh_from = Some ''awaiting_operator'', sh_to = ''resolved'',
        sh_by = ''verifier'', sh_rev = 5, sh_reason = JNull\<rparr> \<in> set (r_state_history ex_v5)"
      by (simp add: ex_v5_def apply_entry_history ex_y5_def ex_row_def ex_state_by_def)
  qed simp
  from only_verifier_resolves [OF ex_reach_u5 rec c] c show ?thesis by blast
qed

text \<open>C4: terminal states absorb: no step of the store changes the state of an episode that is
resolved or handed off.\<close>

theorem terminal_absorbing:
  assumes "reachable (live_ok cd rp content) s" "store_step (live_ok cd rp content) s s'"
    and "map_of (s_records s) i = Some rec" "terminal rec"
  shows "\<exists>rec'. map_of (s_records s') i = Some rec' \<and> r_state rec' = r_state rec"
proof -
  note inv = live.reachable_inv [OF assms(1)]
  have steps: "store_inv content b \<and> (\<exists>rec'. map_of (s_records b) i = Some rec' \<and> r_state rec' = r_state rec)"
    if "(log_step content)\<^sup>*\<^sup>* s b" for b
    using that
  proof (induction rule: rtranclp_induct)
    case base
    then show ?case using inv assms(3) by blast
  next
    case (step b c)
    then obtain r where r: "map_of (s_records b) i = Some r" "r_state r = r_state rec" by blast
    with assms(4) have "terminal r" by (simp add: terminal_def)
    with log_step_terminal [OF step.hyps(2) _ r(1)] log_step_inv [OF step.hyps(2)] step.IH r(2) show ?case by auto
  qed
  from live.store_step_logs [OF assms(2)] show ?thesis
    using steps rebuild_records [OF inv] assms(3) by auto
qed

theorem terminal_absorbing_witness: "\<exists>rec'. map_of (s_records ex_h3) ''e1'' = Some rec' \<and> r_state rec' = Some ''handed_off''"
proof -
  have "store_step (live_ok ex_codec ex_rp ex_content) ex_h2 ex_h3"
    by (rule step_late_verification [OF ex_vf_check _ ex_vf_write]) (simp add: ex_ctx_def)
  moreover have "map_of (s_records ex_h2) ''e1'' = Some ex_q2" "terminal ex_q2"
    by (simp_all add: ex_h2_def terminal_iff ex_q2_sel)
  ultimately show ?thesis using terminal_absorbing [OF ex_reach_h2] ex_q2_sel(1) by metis
qed

text \<open>C5: transitions are compare-and-set: of two \<^verbatim>\<open>set_state\<close> calls computed from the same
revision of an episode, whoever makes them, the second never writes (it is refused, or it is a
replay of a recorded call).\<close>

theorem set_state_no_lost_update:
  assumes "reachable (live_ok cd rp content) s"
    and "set_state env x p s = Inr (r, s')" "s' \<noteq> s"
    and "set_state env2 x2 p2 s' = Inr (r2, s2)"
    and "pget p2 ''episode_id'' = pget p ''episode_id''"
    and "pget p2 ''expected_revision'' = pget p ''expected_revision''"
  shows "s2 = s'"
proof -
  obtain rec where rec: "record_of s (pget p ''episode_id'') = Inr rec"
    "s' = s \<or> py_eq (pget p ''expected_revision'') (JInt (int (r_revision rec))) \<and>
       (\<exists>w. e_rev w = Suc (r_revision rec) \<and>
          s' = s\<lparr>s_rows := s_rows s @ [w], s_records := dict_set (s_records s) (r_episode_id rec) (apply_entry rec w)\<rparr>)"
    by (rule set_state_write [OF assms(2)])
  then obtain w where exp: "py_eq (pget p ''expected_revision'') (JInt (int (r_revision rec)))"
    and w: "e_rev w = Suc (r_revision rec)" and
    s': "s' = s\<lparr>s_rows := s_rows s @ [w], s_records := dict_set (s_records s) (r_episode_id rec) (apply_entry rec w)\<rparr>"
    using assms(3) by blast
  obtain i where "pget p ''episode_id'' = JStr i" "map_of (s_records s) i = Some rec"
    using rec(1) by (auto simp: record_of_Inr)
  with store_invD(2) [OF live.reachable_inv [OF assms(1)]] s' have
    "record_of s' (pget p2 ''episode_id'') = Inr (apply_entry rec w)"
    using assms(5) by (simp add: record_of_def)
  moreover obtain rec2 where "record_of s' (pget p2 ''episode_id'') = Inr rec2"
    "s2 = s' \<or> py_eq (pget p2 ''expected_revision'') (JInt (int (r_revision rec2)))"
    by (rule set_state_write [OF assms(4)]) auto
  ultimately have "s2 = s' \<or> py_eq (pget p ''expected_revision'') (JInt (int (Suc (r_revision rec))))"
    using w assms(6) by auto
  with exp show ?thesis by (cases "pget p ''expected_revision''") auto
qed

theorem set_state_no_lost_update_witness:
  "\<exists>r2. set_state ex_env (ex_ctx ''store-control'' ''controller'') (ex_state_p ''handed_off'' 1) ex_h2 = Inr (r2, ex_h2)"
proof -
  have ne: "ex_h2 \<noteq> ex_s1" by (simp add: ex_h2_def ex_s1_def)
  have "\<exists>r2 s2. set_state ex_env (ex_ctx ''store-control'' ''controller'') (ex_state_p ''handed_off'' 1) ex_h2 = Inr (r2, s2)"
    by (simp add: set_state_def set_state_key_def ex_state_p_def str_eval int_str_def ex_store_eval ex_h2_def ex_q2_sel ex_w1_def
        ex_t2_def ex_state_row_def)
  then obtain r2 s2 where r2: "set_state ex_env (ex_ctx ''store-control'' ''controller'') (ex_state_p ''handed_off'' 1) ex_h2 = Inr (r2, s2)"
    by blast
  from set_state_no_lost_update [OF ex_reach1 ex_hand_off_ok ne r2 refl refl] r2 show ?thesis by blast
qed

lemma set_state_replay_later:
  assumes "set_state env x p s = Inr (r, s')" "later s s'" "later s' s''" "se_repr env' = se_repr env"
  shows "set_state env' x' p s'' = Inr (r, s'')"
proof -
  have key': "set_state_key env' p = set_state_key env p" using assms(4) by (simp add: set_state_key_def)
  obtain rec where rec: "record_of s (pget p ''episode_id'') = Inr rec"
    and key: "nonempty (set_state_key env p)" "length (str_of (set_state_key env p)) \<le> 200"
    and w: "\<exists>w. find_row s' (r_episode_id rec) (str_of (set_state_key env p)) = Some w \<and> r = RJson (w_result w)"
    by (rule set_state_Inr [OF assms(1)]) (use append_row_replay in blast)
  obtain rec1 where r1: "record_of s' (pget p ''episode_id'') = Inr rec1" "r_episode_id rec1 = r_episode_id rec"
    using record_of_later [OF rec assms(2)] by blast
  obtain rec2 where r2: "record_of s'' (pget p ''episode_id'') = Inr rec2" "r_episode_id rec2 = r_episode_id rec"
    using record_of_later [OF r1(1) assms(3)] r1(2) by auto
  from w obtain w where "find_row s'' (r_episode_id rec) (str_of (set_state_key env p)) = Some w" "r = RJson (w_result w)"
    using find_row_later [OF _ assms(3)] by blast
  with key r2 show ?thesis by (simp add: set_state_def rbind_simps Let_def once_def idem_def key')
qed

text \<open>A retried transition is harmless: once \<^verbatim>\<open>set_state\<close> has returned, the same request, from
whatever caller and at any later time (after other calls and restarts, also when the episode is
terminal), returns the recorded result and changes nothing.\<close>

lemma set_state_replay:
  assumes "reachable (live_ok cd rp content) s" "set_state env x p s = Inr (r, s')"
    and "(store_step (live_ok cd rp content))\<^sup>*\<^sup>* s' s''" "reachable (live_ok cd rp content) s'"
    and "se_repr env' = se_repr env"
  shows "set_state env' x' p s'' = Inr (r, s'')"
  using set_state_replay_later [OF assms(2) logs_later [OF assms(1) set_state_logs assms(2)] _ assms(5)]
    steps_later [OF assms(3,4)] by blast

text \<open>C7: evidence is real: every recommendation, every no-action report and every status set on a
hypothesis names at least one signal, and only signals collected in that episode; every
recommendation answers a hypothesis of the episode; every rank is at least one.\<close>

theorem evidence_exists:
  assumes "reachable (live_ok cd rp content) s" "map_of (s_records s) i = Some rec"
  shows "evidence_ok rec"
  by (rule episode_evidence [OF live_record(1) [OF assms]])

theorem evidence_exists_witness: "evidence_ok ex_r6 \<and> map rc_evidence_refs (r_recommendations ex_r6) = [[''s1'']]"
proof -
  have "map_of (s_records ex_s6) ''e1'' = Some ex_r6" by (simp add: ex_s6_def)
  from evidence_exists [OF ex_reach6 this] show ?thesis
    by (simp add: ex_r6_def apply_entry_recommendations ex_w6_def ex_row_def ex_rec_def ex_r5_sel recommendation_b.defs)
qed

text \<open>Identifiers are unambiguous: signals, hypotheses, recommendations and no-action reports are
numbered 1, 2, ... without repetition, a session has at most one planner artefact and at most one
verdict, and within a session no two hypotheses have the same rank.\<close>

lemma identifiers_unique:
  assumes "reachable (live_ok cd rp content) s" "map_of (s_records s) i = Some rec"
  shows "ids_ok rec \<and> distinct (map g_id (r_signals rec)) \<and> distinct (map h_id (r_hypotheses rec)) \<and>
    distinct (map rc_id (r_recommendations rec)) \<and> distinct (map na_id (r_no_action rec)) \<and> sessions_ok rec"
  using episode_ids [OF live_record(1) [OF assms]] episode_sessions [OF live_record(1) [OF assms]]
  unfolding ids_ok_def by (blast intro: numbered_distinct)

text \<open>C8: while the consensus mode of an episode is unknown, every recommendation in it uses a
planner skill of the bound bundle that is marked as applying to any mode.\<close>

theorem no_mode_specific_action_under_unknown:
  assumes "reachable (live_ok cd rp content) s" "map_of (s_records s) i = Some rec"
    and "r_consensus_mode rec = Some ''unknown''" "r \<in> set (r_recommendations rec)"
  shows "\<exists>bid sk. r_bundle_id rec = Some bid \<and> map_of (content bid) (rc_skill r) = Some sk \<and>
    ''change_planner'' \<in> set (sk_roles sk) \<and> sk_modes sk = JStr ''any''"
  using episode_skills [OF live_record(1) [OF assms(1,2)]] assms(3,4) mode_ok_unknown
  unfolding skill_ok_def by fastforce

theorem no_mode_specific_action_under_unknown_witness:
  "\<exists>r bid sk. r \<in> set (r_recommendations ex_r6) \<and> r_bundle_id ex_r6 = Some bid \<and>
     map_of (ex_content bid) (rc_skill r) = Some sk \<and> sk_modes sk = JStr ''any''"
proof -
  have rec: "map_of (s_records ex_s6) ''e1'' = Some ex_r6" by (simp add: ex_s6_def)
  have mode: "r_consensus_mode ex_r6 = Some ''unknown''"
    by (simp add: ex_r6_def apply_entry_binding ex_w6_def ex_row_def ex_r5_sel)
  obtain r where r: "r \<in> set (r_recommendations ex_r6)"
    by (auto simp: ex_r6_def apply_entry_recommendations ex_w6_def ex_row_def)
  from no_mode_specific_action_under_unknown [OF ex_reach6 rec mode r] r show ?thesis by blast
qed



text \<open>What the Judge may see of a record.\<close>

definition judge_visible :: "erec \<Rightarrow> _" where
  "judge_visible rec =
     (r_episode_id rec, r_class rec, r_trigger rec, r_state rec, r_consensus_mode rec,
      r_consensus_mode_evidence rec, r_signals rec, map_option target_of (under_judgement rec),
      r_verifications rec, r_recovery_observations rec)"

lemma judged_skill:
  "(case a of Some (ARec r) \<Rightarrow> Some (skill_view sk (rc_skill r)) | _ \<Rightarrow> None) =
   (case map_option target_of a of Some (TRec b t) \<Rightarrow> Some (skill_view sk (rc_skill b)) | _ \<Rightarrow> None)"
  by (auto simp: recommendation_b.truncate_def split: option.split artefact.split)

lemma judge_view_visible:
  assumes "judge_visible rec = judge_visible rec'" shows "judge_view_of rec sk = judge_view_of rec' sk"
proof -
  have "map_option target_of (under_judgement rec) = map_option target_of (under_judgement rec')"
    using assms by (simp add: judge_visible_def)
  with assms show ?thesis unfolding judge_view_of_def judged_skill by (simp add: judge_visible_def)
qed

text \<open>C9: the Judge is isolated: what \<^verbatim>\<open>read_episode\<close> returns to a caller with a Judge token depends
only on the raw signals, the trigger, the consensus mode, the artefact under judgement without its
session and revision, and the verifier's records. Hypotheses, other artefacts, verdicts, reports,
costs, steps, annotations and the history cannot influence it.\<close>

theorem judge_read_isolated:
  assumes "se_gate env (pget p ''token'') (pget p ''episode_id'') = Inr cap" "cap_role cap = ''proposal_judge''"
    and "record_of s (pget p ''episode_id'') = Inr rec" "record_of s' (pget p ''episode_id'') = Inr rec'"
    and "judge_visible rec = judge_visible rec'" "r_bundle_id rec = r_bundle_id rec'"
  shows "map_sum id fst (agent_read env x p s) = map_sum id fst (agent_read env x p s')"
proof -
  note view = judge_view_visible [OF assms(5)]
  have gate: "agent_gate env x ''read_episode'' p t = (if x_principal x \<notin> set [''episode_broker'', ''report_broker''] then Inl (RpcError ''forbidden'')
      else if Some (cap_bundle_id cap) \<noteq> r_bundle_id q then Inl (RpcError ''bundle_refused'') else Inr (cap, q))"
    if "record_of t (pget p ''episode_id'') = Inr q" for t q
    using that assms(1) by (simp add: agent_gate_def rbind_simps AGENT_OPS_def)
  show ?thesis
    unfolding agent_read_def gate [OF assms(3)] gate [OF assms(4)] assms(6)
    using assms(2,6) by (auto simp: rbind_simps VIEW_BY_ROLE_def view_for_def view rbind_def split: option.splits sum.splits)
qed

theorem judge_read_isolated_witness:
  "map_sum id fst (agent_read ex_env (ex_ctx ''store-agent'' ''episode_broker'') [(''token'', ex_token 2), (''episode_id'', JStr ''e1'')] ex_s3) =
   map_sum id fst (agent_read ex_env (ex_ctx ''store-agent'' ''episode_broker'') [(''token'', ex_token 2), (''episode_id'', JStr ''e1'')] ex_s4)"
proof (rule judge_read_isolated)
  have "se_gate ex_env (ex_token 2) (JStr ''e1'') = Inr (ex_cap 2)" unfolding ex_env_def live_env_sel by code_simp
  then show "se_gate ex_env (pget [(''token'', ex_token 2), (''episode_id'', JStr ''e1'')] ''token'')
      (pget [(''token'', ex_token 2), (''episode_id'', JStr ''e1'')] ''episode_id'') = Inr (ex_cap 2)" by (simp add: pget_def)
  show "cap_role (ex_cap 2) = ''proposal_judge''" by (simp add: ex_cap_def ROLES_def)
  show "record_of ex_s3 (pget [(''token'', ex_token 2), (''episode_id'', JStr ''e1'')] ''episode_id'') = Inr ex_r3"
    "record_of ex_s4 (pget [(''token'', ex_token 2), (''episode_id'', JStr ''e1'')] ''episode_id'') = Inr ex_r4"
    by (simp_all add: pget_def record_of_def ex_s3_def ex_s4_def)
  show "judge_visible ex_r3 = judge_visible ex_r4" "r_bundle_id ex_r3 = r_bundle_id ex_r4"
    by (simp_all add: ex_r4_def ex_w4_def ex_row_def judge_visible_def apply_entry_def under_judgement_def)
qed

text \<open>No agent can move an episode: whatever requests arrive on the sockets of the episode
broker, the report broker and the observer broker, and from whatever uid, no episode is opened and
none changes its state.\<close>

lemma agent_sockets_cannot_move_episodes:
  assumes "reachable (live_ok cd rp content) s" "live_ok cd rp content env"
    and "ep \<in> set (endpoints uids env)" "ep_name ep \<in> set AGENT_SOCKETS" "serve ep uid pid ls s = (rs, s')"
  shows "same_states s s'"
proof (cases "uid \<in> set (ep_allowed_uids ep)")
  case True
  let ?x = "\<lparr>x_endpoint = ep_name ep, x_principal = ep_principal ep, x_uid = uid, x_pid = pid\<rparr>"
  have "s' = snd (serve_lines ep ?x ls s)" using assms(5) True by (simp add: serve_def)
  then have "calls ep ?x s s'" using serve_lines_calls by metis
  then show ?thesis
    by (rule agent_calls_quiet [OF _ live.reachable_inv [OF assms(1)] assms(2,3) _ assms(4)]) simp
qed (use assms(5) in \<open>simp add: serve_def\<close>)



text \<open>Revoking a bundle stops the agents bound to it: from then on no agent call for an episode
bound to that bundle passes the gate, whatever token it carries, and no further activation or
revocation brings the bundle back.\<close>

lemma revoked_bundle_stops_agents:
  assumes "b \<in> set (rg_revoked rg)" "r_bundle_id rec = Some b"
  shows "agent_gate (live_env cd rp rg g t ts u au rpr) x op p s \<noteq> Inr (cap, rec) \<and>
    b \<in> set (rg_revoked (revoke b' rg)) \<and>
    (\<forall>rg'. activate rp t b' by rg = Inr rg' \<longrightarrow> b' \<noteq> b \<and> b \<in> set (rg_revoked rg'))"
proof (intro conjI allI impI)
  show "agent_gate (live_env cd rp rg g t ts u au rpr) x op p s \<noteq> Inr (cap, rec)"
  proof
    assume "agent_gate (live_env cd rp rg g t ts u au rpr) x op p s = Inr (cap, rec)"
    note g = agent_gate_Inr(2,4) [OF this]
    from check_Inr(5) [OF g(1) [unfolded live_env_sel]] g(2) assms show False
      by (auto simp: verify_reason_def verify_ok)
  qed
  show "b \<in> set (rg_revoked (revoke b' rg))" using assms(1) by (simp add: revoke_def)
  fix rg'
  assume "activate rp t b' by rg = Inr rg'"
  then show "b' \<noteq> b" "b \<in> set (rg_revoked rg')"
    using assms(1) by (auto simp: verify_ok elim!: activate_ok)
qed

text \<open>A race of the code: \<^verbatim>\<open>append_verification\<close> checks that the episode is not terminal, releases the
lock and writes. A transition in between leaves a verification on a terminal episode, which the
check is there to prevent.\<close>

lemma verification_can_land_on_terminal_episode:
  "\<exists>s0 s s' rec' p x env r. ex_reachable s0 \<and> append_verification_check p s0 = Inr () \<and>
     store_step (live_ok ex_codec ex_rp ex_content) s0 s \<and>
     append_verification_write env x p s = Inr (r, s') \<and> x_principal x = ''verifier'' \<and>
     map_of (s_records s') ''e1'' = Some rec' \<and> terminal rec' \<and> length (r_verifications rec') = 1"
proof -
  let ?ep = "endpoints ex_uids ex_env ! 2"
  have ep: "?ep \<in> set (endpoints ex_uids ex_env)" by (simp add: endpoints_def)
  have sv: "serve ?ep 1000 1 [(1, Some (JObj [(''id'', JNull), (''method'', JStr ''set_state''),
      (''params'', JObj (ex_state_p ''handed_off'' 1))]))] ex_s1 =
      ([Result JNull (RJson (JObj [(''revision'', JInt 2), (''state'', JStr ''handed_off'')]))], ex_h2)"
    using ex_hand_off_ok by (intro serve_one [where fn = "set_state ex_env"]) (simp_all add: ex_call_eval ex_uids_def ex_ctx_def)
  have step: "store_step (live_ok ex_codec ex_rp ex_content) ex_s1 ex_h2"
    using ex_env_ok ep sv by (rule step_serve)
  have rec: "map_of (s_records ex_h3) ''e1'' = Some ex_q3" "terminal ex_q3"
    by (simp_all add: ex_h3_def ex_h2_def terminal_iff ex_q3_def apply_entry_state ex_t3_def ex_row_def ex_q2_sel)
  have "r_verifications ex_q2 = []"
    by (simp add: ex_q2_def ex_t2_def ex_state_row_def ex_row_def apply_entry_def ex_r1_def ex_w1_def empty_record_def)
  then have "length (r_verifications ex_q3) = 1" by (simp add: ex_q3_def ex_t3_def ex_row_def apply_entry_def)
  with rec step ex_reach1 ex_vf_check ex_vf_write show ?thesis
    by (intro exI conjI) (assumption | simp add: ex_ctx_def)+
qed

end
