(* ===== verification/Prog.thy ===== *)
theory Prog
  imports Prelude
begin

text \<open>
  Programs that talk to other processes. The controller, the verifier, the sentinel and the
  brokers are sequences of calls on sockets, clocks and files whose answers are not theirs to
  choose: another process may have changed the world between two calls. Such a program is a
  tree: it returns, it raises, or it issues a request and continues with whatever the answer
  is, a value or an exception. A theorem about all runs of the tree then holds under every
  interleaving with the rest of the system.

  \<open>attempt\<close> is the Python \<^verbatim>\<open>try\<close> statement reduced to a value; \<open>catch\<close> and \<open>finally_do\<close>
  are built from it.
\<close>

section \<open>The program type\<close>

datatype ('q, 'r, 'a) prog =
    Ret 'a
  | Raise exn
  | Call 'q "'r result \<Rightarrow> ('q, 'r, 'a) prog"

primrec pbind :: "('q, 'r, 'a) prog \<Rightarrow> ('a \<Rightarrow> ('q, 'r, 'b) prog) \<Rightarrow> ('q, 'r, 'b) prog" where
  "pbind (Ret x) f = f x"
| "pbind (Raise e) f = Raise e"
| "pbind (Call q k) f = Call q (\<lambda>r. pbind (k r) f)"

primrec attempt :: "('q, 'r, 'a) prog \<Rightarrow> ('q, 'r, 'a result) prog" where
  "attempt (Ret x) = Ret (Inr x)"
| "attempt (Raise e) = Ret (Inl e)"
| "attempt (Call q k) = Call q (\<lambda>r. attempt (k r))"

fun lift :: "'a result \<Rightarrow> ('q, 'r, 'a) prog" where
  "lift (Inr x) = Ret x"
| "lift (Inl e) = Raise e"

definition catch :: "('q, 'r, 'a) prog \<Rightarrow> (exn \<Rightarrow> ('q, 'r, 'a) prog) \<Rightarrow> ('q, 'r, 'a) prog" where
  "catch p h = pbind (attempt p) (\<lambda>r. case r of Inl e \<Rightarrow> h e | Inr x \<Rightarrow> Ret x)"

text \<open>\<^verbatim>\<open>try: p finally: f\<close>: an exception of the clean-up replaces that of the body.\<close>

definition finally_do :: "('q, 'r, 'a) prog \<Rightarrow> ('q, 'r, unit) prog \<Rightarrow> ('q, 'r, 'a) prog" where
  "finally_do p f = pbind (attempt p) (\<lambda>r. pbind f (\<lambda>_. lift r))"

fun is_rpc :: "exn \<Rightarrow> bool" where
  "is_rpc (RpcError _) = True"
| "is_rpc (PyError _) = False"

text \<open>\<^verbatim>\<open>try: p except RpcError: pass\<close>, with a value to continue with.\<close>

definition swallow_rpc :: "('q, 'r, 'a) prog \<Rightarrow> 'a \<Rightarrow> ('q, 'r, 'a) prog" where
  "swallow_rpc p x = catch p (\<lambda>e. if is_rpc e then Ret x else Raise e)"

fun for_each :: "('b \<Rightarrow> ('q, 'r, unit) prog) \<Rightarrow> 'b list \<Rightarrow> ('q, 'r, unit) prog" where
  "for_each f [] = Ret ()"
| "for_each f (x # xs) = pbind (f x) (\<lambda>_. for_each f xs)"

text \<open>A loop that carries a state from one element to the next.\<close>

fun fold_prog :: "('b \<Rightarrow> 's \<Rightarrow> ('q, 'r, 's) prog) \<Rightarrow> 'b list \<Rightarrow> 's \<Rightarrow> ('q, 'r, 's) prog" where
  "fold_prog f [] s = Ret s"
| "fold_prog f (x # xs) s = pbind (f x s) (\<lambda>s'. fold_prog f xs s')"

section \<open>Runs\<close>

type_synonym ('q, 'r) trace = "('q \<times> 'r result) list"

inductive runs :: "('q, 'r, 'a) prog \<Rightarrow> ('q, 'r) trace \<Rightarrow> 'a result \<Rightarrow> bool" where
  runs_Ret: "runs (Ret x) [] (Inr x)"
| runs_Raise: "runs (Raise e) [] (Inl e)"
| runs_Call: "runs (k r) tr res \<Longrightarrow> runs (Call q k) ((q, r) # tr) res"

inductive_simps runs_simps [simp]:
  "runs (Ret x) tr res" "runs (Raise e) tr res" "runs (Call q k) tr res"

text \<open>An executable run: the answers are taken from a function of the position and the request.\<close>

primrec exec :: "('q, 'r, 'a) prog \<Rightarrow> (nat \<Rightarrow> 'q \<Rightarrow> 'r result) \<Rightarrow> nat \<Rightarrow> ('q, 'r) trace \<times> 'a result" where
  "exec (Ret x) w n = ([], Inr x)"
| "exec (Raise e) w n = ([], Inl e)"
| "exec (Call q k) w n = (let r = w n q; (tr, res) = exec (k r) w (Suc n) in ((q, r) # tr, res))"

lemma exec_runs: "exec p w n = (tr, res) \<Longrightarrow> runs p tr res"
  by (induction p arbitrary: n tr res) (auto simp: Let_def split: prod.splits)

lemma exec_pbind:
  "exec (pbind p f) w n =
     (case exec p w n of (tr, Inl e) \<Rightarrow> (tr, Inl e)
      | (tr, Inr x) \<Rightarrow> (case exec (f x) w (n + length tr) of (tr', res) \<Rightarrow> (tr @ tr', res)))"
  by (induction p arbitrary: n) (auto simp: Let_def split: prod.splits sum.splits)

lemma exec_attempt: "exec (attempt p) w n = (case exec p w n of (tr, r) \<Rightarrow> (tr, Inr r))"
  by (induction p arbitrary: n) (auto simp: Let_def split: prod.splits)

lemma exec_lift: "exec (lift r) w n = ([], r)"
  by (cases r) auto

lemmas exec_rules = exec_pbind exec_attempt exec_lift

lemma runs_pbind:
  "runs (pbind p f) tr res \<longleftrightarrow>
     (\<exists>e. res = Inl e \<and> runs p tr (Inl e)) \<or>
     (\<exists>x t1 t2. tr = t1 @ t2 \<and> runs p t1 (Inr x) \<and> runs (f x) t2 res)"
proof (induction p arbitrary: tr)
  case (Call q k)
  show ?case
  proof
    assume "runs (pbind (Call q k) f) tr res"
    then obtain r t where t: "tr = (q, r) # t" "runs (pbind (k r) f) t res" by auto
    from Call [OF rangeI] t(2) consider
        (err) e where "res = Inl e" "runs (k r) t (Inl e)"
      | (ok) x t1 t2 where "t = t1 @ t2" "runs (k r) t1 (Inr x)" "runs (f x) t2 res"
      by blast
    then show "(\<exists>e. res = Inl e \<and> runs (Call q k) tr (Inl e)) \<or>
       (\<exists>x t1 t2. tr = t1 @ t2 \<and> runs (Call q k) t1 (Inr x) \<and> runs (f x) t2 res)"
    proof cases
      case err
      with t(1) show ?thesis by auto
    next
      case ok
      then have "tr = ((q, r) # t1) @ t2" "runs (Call q k) ((q, r) # t1) (Inr x)" using t(1) by auto
      with ok(3) show ?thesis by blast
    qed
  next
    assume "(\<exists>e. res = Inl e \<and> runs (Call q k) tr (Inl e)) \<or>
       (\<exists>x t1 t2. tr = t1 @ t2 \<and> runs (Call q k) t1 (Inr x) \<and> runs (f x) t2 res)"
    then show "runs (pbind (Call q k) f) tr res" using Call [OF rangeI] by auto
  qed
qed auto

lemma pbindE:
  assumes "runs (pbind p f) tr res"
  obtains (err) e where "res = Inl e" "runs p tr (Inl e)"
    | (ok) x t1 t2 where "tr = t1 @ t2" "runs p t1 (Inr x)" "runs (f x) t2 res"
  using assms unfolding runs_pbind by blast

lemma pbind_prefix:
  assumes "runs (pbind p f) tr res"
  obtains t1 t2 r where "tr = t1 @ t2" "runs p t1 r"
  using assms by (rule pbindE) (metis append_Nil2)+

lemma runs_attempt: "runs (attempt p) tr res \<longleftrightarrow> (\<exists>r. res = Inr r \<and> runs p tr r)"
  by (induction p arbitrary: tr) auto

lemma runs_lift [simp]: "runs (lift r) tr res \<longleftrightarrow> tr = [] \<and> res = r"
  by (cases r) auto

section \<open>Weakest preconditions over all runs\<close>

text \<open>
  \<open>wp p Q h\<close>: whatever the answers, the run of \<open>p\<close> after the history \<open>h\<close> ends with a result and
  a history that satisfy \<open>Q\<close>. A program tree is finite along every branch, so every run ends.
\<close>

primrec wp :: "('q, 'r, 'a) prog \<Rightarrow> ('a result \<Rightarrow> ('q, 'r) trace \<Rightarrow> bool) \<Rightarrow> ('q, 'r) trace \<Rightarrow> bool" where
  "wp (Ret x) Q h = Q (Inr x) h"
| "wp (Raise e) Q h = Q (Inl e) h"
| "wp (Call q k) Q h = (\<forall>r. wp (k r) Q (h @ [(q, r)]))"

lemma wp_iff_runs: "wp p Q h \<longleftrightarrow> (\<forall>tr res. runs p tr res \<longrightarrow> Q res (h @ tr))"
proof (induction p arbitrary: h)
  case (Call q k)
  then show ?case by (auto simp: rangeI)
qed auto

lemma wp_runsD: "wp p Q [] \<Longrightarrow> runs p tr res \<Longrightarrow> Q res tr"
  by (auto simp: wp_iff_runs)

lemma wp_mono: "wp p Q h \<Longrightarrow> (\<And>r h'. Q r h' \<Longrightarrow> Q' r h') \<Longrightarrow> wp p Q' h"
  by (auto simp: wp_iff_runs)

lemma wp_cong: "(\<And>r h'. Q r h' = Q' r h') \<Longrightarrow> wp p Q h = wp p Q' h"
  by (induction p arbitrary: h) simp_all

lemma wp_conj: "wp p (\<lambda>r h. Q r h \<and> Q' r h) h \<longleftrightarrow> wp p Q h \<and> wp p Q' h"
  by (auto simp: wp_iff_runs)

lemma wp_pbind [simp]:
  "wp (pbind p f) Q h =
     wp p (\<lambda>r h'. case r of Inl e \<Rightarrow> Q (Inl e) h' | Inr x \<Rightarrow> wp (f x) Q h') h"
  by (induction p arbitrary: h) simp_all

lemma wp_attempt [simp]: "wp (attempt p) Q h = wp p (\<lambda>r h'. Q (Inr r) h') h"
  by (induction p arbitrary: h) simp_all

lemma wp_lift [simp]: "wp (lift r) Q h = Q r h"
  by (cases r) simp_all

lemma wp_catch [simp]:
  "wp (catch p g) Q h =
     wp p (\<lambda>r h'. case r of Inl e \<Rightarrow> wp (g e) Q h' | Inr x \<Rightarrow> Q (Inr x) h') h"
  by (induction p arbitrary: h) (simp_all add: catch_def)

lemma wp_finally [simp]:
  "wp (finally_do p f) Q h =
     wp p (\<lambda>r h'. wp f (\<lambda>r' h''. case r' of Inl e \<Rightarrow> Q (Inl e) h'' | Inr _ \<Rightarrow> Q r h'') h') h"
  by (induction p arbitrary: h) (auto simp: finally_do_def intro!: wp_cong split: sum.splits)

lemma wp_swallow [simp]:
  "wp (swallow_rpc p x) Q h =
     wp p (\<lambda>r h'. case r of Inl e \<Rightarrow> Q (if is_rpc e then Inr x else Inl e) h' | Inr y \<Rightarrow> Q (Inr y) h') h"
  by (induction p arbitrary: h) (simp_all add: swallow_rpc_def)

section \<open>Properties of every request\<close>

text \<open>
  \<open>every P p\<close>: each request of each run of \<open>p\<close> satisfies \<open>P\<close>, whatever has been answered before.
\<close>

primrec every :: "('q \<Rightarrow> bool) \<Rightarrow> ('q, 'r, 'a) prog \<Rightarrow> bool" where
  "every P (Ret x) = True"
| "every P (Raise e) = True"
| "every P (Call q k) = (P q \<and> (\<forall>r. every P (k r)))"

lemma every_runs: "every P p \<Longrightarrow> runs p tr res \<Longrightarrow> (q, r) \<in> set tr \<Longrightarrow> P q"
  by (rotate_tac 1, induction arbitrary: q r rule: runs.induct) auto

lemma every_pbind: "every P p \<Longrightarrow> (\<And>x. every P (f x)) \<Longrightarrow> every P (pbind p f)"
  by (induction p) auto

lemma every_attempt [simp]: "every P (attempt p) = every P p"
  by (induction p) auto

lemma every_lift [simp]: "every P (lift r)"
  by (cases r) auto

lemma every_catch: "every P p \<Longrightarrow> (\<And>e. every P (g e)) \<Longrightarrow> every P (catch p g)"
  unfolding catch_def by (rule every_pbind) (auto split: sum.splits)

lemma every_swallow: "every P p \<Longrightarrow> every P (swallow_rpc p x)"
  unfolding swallow_rpc_def by (rule every_catch) auto

lemma every_for_each: "(\<And>x. x \<in> set xs \<Longrightarrow> every P (f x)) \<Longrightarrow> every P (for_each f xs)"
  by (induction xs) (auto intro!: every_pbind)

lemma every_fold: "(\<And>x s. x \<in> set xs \<Longrightarrow> every P (f x s)) \<Longrightarrow> every P (fold_prog f xs s)"
  by (induction xs arbitrary: s) (auto intro!: every_pbind)

lemmas every_intros = every_pbind every_catch every_swallow every_for_each every_fold

section \<open>Requests that no normal run leaves out\<close>

definition covers :: "'q set \<Rightarrow> ('q, 'r, 'a) prog \<Rightarrow> bool" where
  "covers S p = (\<forall>tr x. runs p tr (Inr x) \<longrightarrow> S \<subseteq> fst ` set tr)"

lemma covers_pbind: "covers S p \<Longrightarrow> (\<And>x. covers T (f x)) \<Longrightarrow> covers (S \<union> T) (pbind p f)"
  unfolding covers_def by (fastforce simp: runs_pbind)

lemma covers_first: "covers S p \<Longrightarrow> covers S (pbind p f)"
  unfolding covers_def by (fastforce simp: runs_pbind)

lemma covers_then: "(\<And>x. covers S (f x)) \<Longrightarrow> covers S (pbind p f)"
  unfolding covers_def by (fastforce simp: runs_pbind)

lemma covers_empty [simp]: "covers {} p"
  by (simp add: covers_def)

lemma covers_runsD: "covers S p \<Longrightarrow> runs p tr (Inr x) \<Longrightarrow> S \<subseteq> fst ` set tr"
  by (auto simp: covers_def)

lemma covers_fold:
  "(\<And>x s. x \<in> set xs \<Longrightarrow> covers {g x} (f x s)) \<Longrightarrow> covers (g ` set xs) (fold_prog f xs s)"
proof (induction xs arbitrary: s)
  case (Cons x xs)
  have "covers ({g x} \<union> g ` set xs) (pbind (f x s) (\<lambda>s'. fold_prog f xs s'))"
    using Cons by (intro covers_pbind) auto
  then show ?case by simp
qed simp

lemma covers_for_each:
  "(\<And>x. x \<in> set xs \<Longrightarrow> covers {g x} (f x)) \<Longrightarrow> covers (g ` set xs) (for_each f xs)"
proof (induction xs)
  case (Cons x xs)
  have "covers ({g x} \<union> g ` set xs) (pbind (f x) (\<lambda>_. for_each f xs))"
    using Cons by (intro covers_pbind) auto
  then show ?case by simp
qed simp

section \<open>Histories in which every request is justified by what came before\<close>

definition sound :: "(('q, 'r) trace \<Rightarrow> 'q \<Rightarrow> bool) \<Rightarrow> ('q, 'r) trace \<Rightarrow> bool" where
  "sound ok h = (\<forall>i < length h. ok (take i h) (fst (h ! i)))"

lemma sound_Nil [simp]: "sound ok []"
  by (simp add: sound_def)

lemma sound_snoc [simp]: "sound ok (h @ [x]) \<longleftrightarrow> sound ok h \<and> ok h (fst x)"
  by (auto simp: sound_def nth_append less_Suc_eq)

lemma sound_snoc2 [simp]: "sound ok (h @ [x, y]) \<longleftrightarrow> sound ok h \<and> ok h (fst x) \<and> ok (h @ [x]) (fst y)"
  using sound_snoc [of ok "h @ [x]" y] by simp

lemma sound_split: "sound ok (t1 @ (q, r) # t2) \<Longrightarrow> ok t1 q"
  unfolding sound_def by (drule spec [of _ "length t1"]) (simp add: nth_append)

text \<open>A program whose requests need no justification extends the history soundly.\<close>

lemma wp_extends: "wp p (\<lambda>_ h'. \<exists>t. h' = h @ t) h"
  by (simp add: wp_iff_runs)

lemma wp_sound_from:
  assumes "every (\<lambda>q. \<forall>t. ok (h @ t) q) p" "sound ok h"
    and "\<And>res t. sound ok (h @ t) \<Longrightarrow> runs p t res \<Longrightarrow> Q res (h @ t)"
  shows "wp p Q h"
proof -
  have "sound ok (h @ t) \<Longrightarrow> wp p (\<lambda>_. sound ok) (h @ t)" for t
    using assms(1)
  proof (induction p arbitrary: t)
    case (Call q k)
    have "wp (k r) (\<lambda>_. sound ok) (h @ t @ [(q, r)])" for r
      using Call.prems by (intro Call.IH) (auto simp flip: append_assoc)
    then show ?case by simp
  qed auto
  then have "wp p (\<lambda>_. sound ok) h" using assms(2) by (metis append_Nil2)
  then show ?thesis using assms(3) unfolding wp_iff_runs by blast
qed

lemma wp_quiet:
  assumes "every (\<lambda>q. \<forall>h. ok h q) p" "sound ok h"
    and "\<And>res t. sound ok (h @ t) \<Longrightarrow> Q res (h @ t)"
  shows "wp p Q h"
proof -
  have "every (\<lambda>q. \<forall>t. ok (h @ t) q) p" using assms(1) by (induction p) auto
  then show ?thesis by (rule wp_sound_from) (use assms in auto)
qed

lemma every_mono: "every P p \<Longrightarrow> (\<And>q. P q \<Longrightarrow> Q q) \<Longrightarrow> every Q p"
  by (induction p) auto

section \<open>Requests with typed answers\<close>

text \<open>
  A request whose answer is read at one type; an answer of another shape is a \<^verbatim>\<open>TypeError\<close>.
\<close>

definition TypeError :: exn where "TypeError = PyError ''TypeError''"

definition ask :: "'q \<Rightarrow> ('r \<Rightarrow> 'a option) \<Rightarrow> ('q, 'r, 'a) prog" where
  "ask q f = Call q (\<lambda>r. lift (rbind r (\<lambda>x. case f x of None \<Rightarrow> Inl TypeError | Some y \<Rightarrow> Inr y)))"

lemma wp_ask [simp]:
  "wp (ask q f) Q h =
     ((\<forall>e. Q (Inl e) (h @ [(q, Inl e)])) \<and>
      (\<forall>x. Q (case f x of None \<Rightarrow> Inl TypeError | Some y \<Rightarrow> Inr y) (h @ [(q, Inr x)])))"
  by (auto simp: ask_def rbind_def split: sum.splits option.splits)

lemma every_ask [simp]: "every P (ask q f) = P q"
  by (simp add: ask_def)

lemma runs_ask:
  "runs (ask q f) tr res \<longleftrightarrow>
     (\<exists>r. tr = [(q, r)] \<and> res = rbind r (\<lambda>x. case f x of None \<Rightarrow> Inl TypeError | Some y \<Rightarrow> Inr y))"
  by (auto simp: ask_def)

lemma runs_ask_Inr: "runs (ask q f) t (Inr x) \<longleftrightarrow> (\<exists>y. t = [(q, Inr y)] \<and> f y = Some x)"
proof
  assume "runs (ask q f) t (Inr x)"
  then obtain r where r: "t = [(q, r)]" "rbind r (\<lambda>y. case f y of None \<Rightarrow> Inl TypeError | Some z \<Rightarrow> Inr z) = Inr x"
    unfolding runs_ask by metis
  then show "\<exists>y. t = [(q, Inr y)] \<and> f y = Some x" by (cases r) (auto simp: rbind_def split: option.splits)
qed (auto simp: runs_ask rbind_def)

lemma exec_ask:
  "exec (ask q f) w n = ([(q, w n q)], rbind (w n q) (\<lambda>x. case f x of None \<Rightarrow> Inl TypeError | Some y \<Rightarrow> Inr y))"
  by (simp add: ask_def exec_lift Let_def)

lemma covers_ask [simp]: "covers {q} (ask q f)"
  by (auto simp: covers_def runs_ask)

lemma covers_attempt_ask [simp]: "covers {q} (attempt (ask q f))"
  by (auto simp: covers_def runs_attempt runs_ask)

section \<open>Programs that keep a history sound\<close>

text \<open>
  \<open>keeps A ok p\<close>: after any sound history that contains the exchanges \<open>A\<close>, every request of \<open>p\<close> is
  justified. The set grows along a program: what follows a request may rely on its answer.
\<close>

definition keeps :: "('q \<times> 'r result) set \<Rightarrow> (('q, 'r) trace \<Rightarrow> 'q \<Rightarrow> bool) \<Rightarrow> ('q, 'r, 'a) prog \<Rightarrow> bool" where
  "keeps A ok p = (\<forall>h. sound ok h \<and> A \<subseteq> set h \<longrightarrow> wp p (\<lambda>_. sound ok) h)"

lemma keepsD: "keeps A ok p \<Longrightarrow> sound ok h \<Longrightarrow> A \<subseteq> set h \<Longrightarrow> wp p (\<lambda>_. sound ok) h"
  by (simp add: keeps_def)

lemma keeps_runs: "keeps {} ok p \<Longrightarrow> runs p tr res \<Longrightarrow> sound ok tr"
  by (metis empty_subsetI keepsD sound_Nil wp_runsD)

lemma keeps_simps [simp]: "keeps A ok (Ret x)" "keeps A ok (Raise e)" "keeps A ok (lift r)"
  by (simp_all add: keeps_def)

lemma keeps_quiet: "every (\<lambda>q. \<forall>h. ok h q) p \<Longrightarrow> keeps A ok p"
  unfolding keeps_def by (auto intro: wp_quiet)

lemma keeps_extends:
  assumes "keeps A ok p" "sound ok h" "A \<subseteq> set h"
  shows "wp p (\<lambda>_ h'. sound ok h' \<and> A \<subseteq> set h') h"
  using keepsD [OF assms] assms(3) by (auto simp: wp_iff_runs)

lemma keeps_pbind:
  assumes "keeps A ok p" "\<And>x. keeps A ok (f x)"
  shows "keeps A ok (pbind p f)"
  unfolding keeps_def wp_pbind
proof (intro allI impI)
  fix h
  assume "sound ok h \<and> A \<subseteq> set h"
  then have "wp p (\<lambda>_ h'. sound ok h' \<and> A \<subseteq> set h') h" using keeps_extends [OF assms(1)] by blast
  then show "wp p (\<lambda>r h'. case r of Inl e \<Rightarrow> sound ok h' | Inr x \<Rightarrow> wp (f x) (\<lambda>_. sound ok) h') h"
    by (rule wp_mono) (auto split: sum.splits intro: keepsD [OF assms(2)])
qed

lemma keeps_ask:
  assumes "\<And>h. A \<subseteq> set h \<Longrightarrow> ok h q" "\<And>y x. g y = Some x \<Longrightarrow> keeps (insert (q, Inr y) A) ok (f x)"
  shows "keeps A ok (pbind (ask q g) f)"
  unfolding keeps_def wp_pbind wp_ask
  using assms by (auto split: option.splits intro!: keepsD [OF assms(2)])

lemma keeps_lift: "(\<And>x. r = Inr x \<Longrightarrow> keeps A ok (f x)) \<Longrightarrow> keeps A ok (pbind (lift r) f)"
  by (cases r) simp_all

lemma keeps_attempt [simp]: "keeps A ok (attempt p) = keeps A ok p"
  by (simp add: keeps_def)

lemma keeps_catch: "keeps A ok p \<Longrightarrow> (\<And>e. keeps A ok (g e)) \<Longrightarrow> keeps A ok (catch p g)"
  unfolding catch_def by (rule keeps_pbind) (auto split: sum.splits)

lemma keeps_swallow: "keeps A ok p \<Longrightarrow> keeps A ok (swallow_rpc p x)"
  unfolding swallow_rpc_def by (rule keeps_catch) auto

lemma keeps_for_each: "(\<And>x. x \<in> set xs \<Longrightarrow> keeps A ok (f x)) \<Longrightarrow> keeps A ok (for_each f xs)"
  by (induction xs) (auto intro!: keeps_pbind)

text \<open>What follows may rely on any exchange of the runs of the program before it.\<close>

lemma keeps_pbind_run:
  assumes "keeps A ok p" "\<And>t x. runs p t (Inr x) \<Longrightarrow> keeps (A \<union> set t) ok (f x)"
  shows "keeps A ok (pbind p f)"
  unfolding keeps_def wp_pbind
proof (intro allI impI)
  fix h
  assume h: "sound ok h \<and> A \<subseteq> set h"
  have "wp p (\<lambda>r h'. sound ok h' \<and> (\<exists>t. h' = h @ t \<and> runs p t r)) h"
    using assms(1) h by (auto simp: keeps_def wp_iff_runs)
  then show "wp p (\<lambda>r h'. case r of Inl e \<Rightarrow> sound ok h' | Inr x \<Rightarrow> wp (f x) (\<lambda>_. sound ok) h') h"
  proof (rule wp_mono)
    fix r h'
    assume "sound ok h' \<and> (\<exists>t. h' = h @ t \<and> runs p t r)"
    with h show "case r of Inl e \<Rightarrow> sound ok h' | Inr x \<Rightarrow> wp (f x) (\<lambda>_. sound ok) h'"
      by (auto split: sum.splits intro!: keepsD [OF assms(2)])
  qed
qed

lemmas keeps_intros = keeps_pbind keeps_catch keeps_swallow keeps_for_each

end
