(* ===== verification/Bundle_View.thy ===== *)
theory Bundle_View
  imports Registry
begin

text \<open>
  The accessors of \<^verbatim>\<open>class Bundle\<close> in \<^verbatim>\<open>valops/bundle/registry.py\<close>: a verified bundle directory read
  through its YAML documents. A document is a JSON value; subscripting a missing key is the
  Python \<^verbatim>\<open>KeyError\<close>, subscripting something that is no mapping the \<^verbatim>\<open>TypeError\<close>.
\<close>

section \<open>Subscripts and conversions\<close>

fun getitem :: "jv \<Rightarrow> string \<Rightarrow> jv result" where
  "getitem (JObj d) k = (case map_of d k of None \<Rightarrow> Inl (PyError ''KeyError'') | Some v \<Rightarrow> Inr v)"
| "getitem _ k = Inl (PyError ''TypeError'')"

text \<open>\<^verbatim>\<open>v.get(k)\<close> on a value that may be no mapping.\<close>

fun attr_get :: "jv \<Rightarrow> string \<Rightarrow> jv result" where
  "attr_get (JObj d) k = Inr (pget d k)"
| "attr_get _ k = Inl (PyError ''AttributeError'')"

text \<open>
  \<^verbatim>\<open>int(v)\<close> and \<^verbatim>\<open>float(v)\<close>. The bundle's parameters are numbers (the register checks that they
  are), so the conversion of a text is not read: a text is the \<^verbatim>\<open>ValueError\<close>.
\<close>

definition trunc :: "rat \<Rightarrow> int" where
  "trunc x = (if x < 0 then - \<lfloor>- x\<rfloor> else \<lfloor>x\<rfloor>)"

fun py_int :: "jv \<Rightarrow> int result" where
  "py_int (JBool b) = Inr (if b then 1 else 0)"
| "py_int (JInt i) = Inr i"
| "py_int (JFloat r) = Inr (trunc r)"
| "py_int (JStr s) = Inl (PyError ''ValueError'')"
| "py_int _ = Inl (PyError ''TypeError'')"

fun py_float :: "jv \<Rightarrow> rat result" where
  "py_float (JBool b) = Inr (if b then 1 else 0)"
| "py_float (JInt i) = Inr (of_int i)"
| "py_float (JFloat r) = Inr r"
| "py_float (JStr s) = Inl (PyError ''ValueError'')"
| "py_float _ = Inl (PyError ''TypeError'')"

definition as_str :: "jv \<Rightarrow> string result" where
  "as_str v = (case v of JStr s \<Rightarrow> Inr s | _ \<Rightarrow> Inl (PyError ''TypeError''))"

text \<open>Using a value as a dictionary: \<^verbatim>\<open>.items()\<close>, \<^verbatim>\<open>.get\<close>.\<close>

definition as_dict :: "jv \<Rightarrow> params result" where
  "as_dict v = (case v of JObj d \<Rightarrow> Inr d | _ \<Rightarrow> Inl (PyError ''AttributeError''))"

section \<open>The accessors\<close>

record policy_bundle =
  bn_id :: string
  bn_y :: "string \<Rightarrow> jv result"

definition bundle_at :: "reg_params \<Rightarrow> string \<Rightarrow> files \<Rightarrow> policy_bundle" where
  "bundle_at rp bid d = \<lparr>bn_id = bid, bn_y = bundle_y rp d\<rparr>"

definition thresholds :: "policy_bundle \<Rightarrow> jv result" where
  "thresholds b = rbind (bn_y b ''thresholds.yaml'') (\<lambda>v. getitem v ''parameters'')"

definition threshold :: "policy_bundle \<Rightarrow> string \<Rightarrow> jv result" where
  "threshold b pid = rbind (thresholds b) (\<lambda>v. getitem v pid)"

definition deployment :: "policy_bundle \<Rightarrow> params result" where
  "deployment b = rbind (bn_y b ''deployment.yaml'') as_dict"

definition param :: "policy_bundle \<Rightarrow> string \<Rightarrow> string option \<Rightarrow> string option \<Rightarrow> jv result" where
  "param b pid key conf = rbind (threshold b pid) (\<lambda>v. param_value v key conf)"

definition prompt_path :: "string \<Rightarrow> bool \<Rightarrow> string" where
  "prompt_path role inlined = ''prompts/'' @ role @ (if inlined then ''.inlined.md'' else ''.md'')"

definition configuration_for :: "policy_bundle \<Rightarrow> string \<Rightarrow> (string \<times> jv) result" where
  "configuration_for b role =
     rbind (bn_y b ''providers.yaml'') (\<lambda>prov.
       rbind (getitem prov ''roles'') (\<lambda>rs.
         rbind (getitem rs role) (\<lambda>n.
           rbind (as_str n) (\<lambda>name.
             rbind (getitem prov ''configurations'') (\<lambda>cs.
               rbind (getitem cs name) (\<lambda>conf. Inr (name, conf)))))))"

definition threshold_int :: "policy_bundle \<Rightarrow> string \<Rightarrow> int result" where
  "threshold_int b pid = rbind (threshold b pid) py_int"

definition threshold_float :: "policy_bundle \<Rightarrow> string \<Rightarrow> rat result" where
  "threshold_float b pid = rbind (threshold b pid) py_float"

text \<open>\<^verbatim>\<open>registry.load(bundle_id)\<close> as the accessor object it returns.\<close>

definition load_bundle :: "reg_params \<Rightarrow> registry \<Rightarrow> string \<Rightarrow> policy_bundle result" where
  "load_bundle rp rg bid = rbind (load rp rg bid) (\<lambda>d. Inr (bundle_at rp bid d))"

lemma load_bundle_id: "load_bundle rp rg bid = Inr b \<Longrightarrow> bn_id b = bid"
  by (auto simp: load_bundle_def bundle_at_def)

end
