(* ===== verification/Command_Table.thy ===== *)
theory Command_Table
  imports Bundle_View
begin

text \<open>
  \<^verbatim>\<open>valops/observer/table.py\<close> and \<^verbatim>\<open>valops/observer/validate.py\<close>: the loader that accepts or refuses a
  command table, the validation of the arguments of a request and the assembly of the argument
  vector that the observer daemon executes without a shell. The keys of a YAML mapping are
  strings; a key of another type is outside the model.
\<close>

section \<open>Tokens\<close>

definition TableError :: exn where "TableError = PyError ''TableError''"
definition ArgError :: exn where "ArgError = PyError ''ArgError''"

definition READ_ONLY_EXEC :: "(string \<times> string list) list" where
  "READ_ONLY_EXEC =
     [(''solana'', [''catchup'', ''balance'', ''leader-schedule'', ''epoch-info'', ''slot'', ''cluster-version'', ''validators'', ''feature'']),
      (''agave-validator'', [''monitor''])]"

definition BUILTINS :: "string list" where
  "BUILTINS = [''host_metrics'', ''host_hygiene'', ''consensus_state_files'', ''rpc_latency'', ''log_tail'', ''running_version'']"

definition STATE_CHANGING :: "string list" where
  "STATE_CHANGING =
     [''exit'', ''set-identity'', ''authorized-voter'', ''set-log-filter'', ''set-public-address'', ''repair-whitelist'',
      ''staked-nodes-overrides'', ''wait-for-restart-window'', ''transfer'', ''pay'', ''airdrop'', ''deploy'', ''program'',
      ''withdraw-stake'', ''withdraw-from-vote-account'', ''delegate-stake'', ''deactivate-stake'', ''split-stake'',
      ''merge-stake'', ''create-stake-account'', ''create-vote-account'', ''close-vote-account'', ''vote-authorize-voter'',
      ''vote-authorize-withdrawer'', ''vote-update-validator'', ''vote-update-commission'', ''stake-authorize'',
      ''redelegate-stake'', ''rm'', ''mv'', ''cp'', ''dd'', ''kill'', ''pkill'', ''killall'', ''systemctl'', ''service'', ''reboot'',
      ''shutdown'', ''restart'', ''stop'', ''start'', ''sudo'', ''su'', ''chmod'', ''chown'', ''tee'', ''truncate'', ''curl'', ''wget'',
      ''sh'', ''bash'', ''python'', ''python3'', ''--no-snapshot-fetch'', ''--snapshot'', ''download'']"

definition PLACEHOLDERS :: "string list" where
  "PLACEHOLDERS = [''ledger'', ''logfile'', ''identity_pubkey'', ''rpc_url'', ''epoch'', ''lines'']"

definition ARG_TYPES :: "string list" where
  "ARG_TYPES = [''int'', ''pubkey'']"

text \<open>The characters of \<^verbatim>\<open>_META\<close>, and \<^verbatim>\<open>_META.search\<close>.\<close>

definition META :: "char list" where
  "META = [CHR '';'', CHR ''|'', CHR ''&'', CHR ''$'', CHR 0x60, CHR ''<'', CHR ''>'', CHR ''('', CHR '')'', CHR ''{'', CHR ''}'',
     CHR ''*'', CHR ''?'', CHR ''!'', CHR 0x5C, CHR 0x0A, CHR 0x0D, CHR 0x27, CHR 0x22, CHR ''~'']"

definition has_meta :: "string \<Rightarrow> bool" where
  "has_meta s = list_ex (\<lambda>c. c \<in> set META) s"

text \<open>
  A regular expression that ends in \<^verbatim>\<open>$\<close> also matches before a newline at the very end of the text.
\<close>

definition chomp :: "string \<Rightarrow> string" where
  "chomp s = (if s \<noteq> [] \<and> last s = CHR 0x0A then butlast s else s)"

definition is_lower :: "char \<Rightarrow> bool" where
  "is_lower c = (let n = of_char c :: nat in 97 \<le> n \<and> n \<le> 122)"

definition is_upper :: "char \<Rightarrow> bool" where
  "is_upper c = (let n = of_char c :: nat in 65 \<le> n \<and> n \<le> 90)"

definition is_dec :: "char \<Rightarrow> bool" where
  "is_dec c = (let n = of_char c :: nat in 48 \<le> n \<and> n \<le> 57)"

text \<open>\<^verbatim>\<open>_PLACEHOLDER.match(tok)\<close>: the name between the braces.\<close>

definition placeholder :: "string \<Rightarrow> string option" where
  "placeholder tok =
     (let s = chomp tok; k = butlast (tl s) in
      if s \<noteq> [] \<and> hd s = CHR ''{'' \<and> last s = CHR ''}'' \<and> k \<noteq> [] \<and> list_all (\<lambda>c. is_lower c \<or> c = CHR ''_'') k
      then Some k else None)"

text \<open>\<^verbatim>\<open>str.lower\<close> on the code points below 256.\<close>

definition lower :: "string \<Rightarrow> string" where
  "lower s = map (\<lambda>c. let n = of_char c :: nat in
     if is_upper c \<or> (192 \<le> n \<and> n \<le> 222 \<and> n \<noteq> 215) then char_of (n + 32) else c) s"

text \<open>\<^verbatim>\<open>re.fullmatch(r"[a-z][a-z0-9_]{1,40}", cid)\<close>.\<close>

definition command_id_ok :: "string \<Rightarrow> bool" where
  "command_id_ok cid =
     (case cid of
        [] \<Rightarrow> False
      | c # cs \<Rightarrow> is_lower c \<and> 1 \<le> length cs \<and> length cs \<le> 40 \<and>
                  list_all (\<lambda>d. is_lower d \<or> is_dec d \<or> d = CHR ''_'') cs)"

section \<open>The table\<close>

record arg_spec =
  as_type :: string
  as_min :: jv
  as_max :: jv
  as_required :: bool

record command =
  cm_id :: string
  cm_kind :: string
  cm_argv :: "string list"
  cm_optional_argv :: "(string \<times> string list) list"
  cm_args :: "(string \<times> arg_spec) list"
  cm_parser :: jv
  cm_timeout_s :: rat
  cm_output_cap_bytes :: int
  cm_timeout_is_sample :: bool
  cm_rpc_backed :: bool

record command_table =
  ct_version :: int
  ct_commands :: "(string \<times> command) list"

fun check_tokens :: "jv list \<Rightarrow> string list result" where
  "check_tokens [] = Inr []"
| "check_tokens (t # ts) =
     (case t of
        JStr tok \<Rightarrow>
          if tok = [] then Inl TableError
          else rbind (case placeholder tok of
                        Some k \<Rightarrow> if k \<notin> set PLACEHOLDERS then Inl TableError else Inr tok
                      | None \<Rightarrow> if has_meta tok then Inl TableError
                                else if lower tok \<in> set STATE_CHANGING then Inl TableError else Inr tok)
                 (\<lambda>tok. rbind (check_tokens ts) (\<lambda>toks. Inr (tok # toks)))
      | _ \<Rightarrow> Inl TableError)"

text \<open>\<^verbatim>\<open>list(v)\<close>: a text is the list of its characters, a mapping the list of its keys.\<close>

fun py_list :: "jv \<Rightarrow> jv list result" where
  "py_list (JArr xs) = Inr xs"
| "py_list (JStr s) = Inr (map (\<lambda>c. JStr [c]) s)"
| "py_list (JObj d) = Inr (map (\<lambda>(k, _). JStr k) d)"
| "py_list _ = Inl (PyError ''TypeError'')"

definition py_list_or_empty :: "jv \<Rightarrow> jv list result" where
  "py_list_or_empty v = (if \<not> truthy v then Inr [] else py_list v)"

text \<open>The first token that is neither an option nor a placeholder; \<^verbatim>\<open>startswith\<close> on anything but a text raises.\<close>

fun subcommand :: "jv list \<Rightarrow> string option result" where
  "subcommand [] = Inr None"
| "subcommand (JStr t # ts) =
     (if starts_with ''-'' t \<or> placeholder t \<noteq> None then subcommand ts else Inr (Some t))"
| "subcommand (_ # ts) = Inl (PyError ''AttributeError'')"

definition exec_pair :: "jv list \<Rightarrow> unit result" where
  "exec_pair argv =
     (case argv of
        [] \<Rightarrow> Inl TableError
      | exe # rest \<Rightarrow>
          if \<not> hashable exe then Inl (PyError ''TypeError'')
          else (case (case exe of JStr e \<Rightarrow> map_of READ_ONLY_EXEC e | _ \<Rightarrow> None) of
                  None \<Rightarrow> Inl TableError
                | Some subs \<Rightarrow>
                    rbind (subcommand rest) (\<lambda>sub.
                      case sub of None \<Rightarrow> Inl TableError
                      | Some s \<Rightarrow> if s \<in> set subs then Inr () else Inl TableError)))"

fun load_args :: "params \<Rightarrow> (string \<times> arg_spec) list result" where
  "load_args [] = Inr []"
| "load_args ((aname, a) # rest) =
     (if aname \<notin> set PLACEHOLDERS then Inl TableError
      else rbind (attr_get a ''type'') (\<lambda>ty.
        if \<not> hashable ty then Inl (PyError ''TypeError'')
        else if \<not> (is_str ty \<and> str_of ty \<in> set ARG_TYPES) then Inl TableError
        else rbind (attr_get a ''min'') (\<lambda>mn.
        rbind (attr_get a ''max'') (\<lambda>mx.
        rbind (attr_get a ''required'') (\<lambda>rq.
        rbind (load_args rest) (\<lambda>args.
          Inr ((aname, \<lparr>as_type = str_of ty, as_min = mn, as_max = mx, as_required = truthy rq\<rparr>) # args)))))))"

fun load_optional :: "(string \<times> arg_spec) list \<Rightarrow> params \<Rightarrow> (string \<times> string list) list result" where
  "load_optional args [] = Inr []"
| "load_optional args ((aname, toks) # rest) =
     (if aname \<notin> fst ` set args then Inl TableError
      else rbind (rbind (py_list toks) check_tokens) (\<lambda>ts.
        rbind (load_optional args rest) (\<lambda>opt. Inr ((aname, ts) # opt))))"

definition load_entry :: "string \<Rightarrow> params \<Rightarrow> command result" where
  "load_entry cid e =
     (if pget e ''read_only'' \<noteq> JBool True then Inl TableError
      else rbind (rbind (as_dict_or_empty (pget e ''args'')) load_args) (\<lambda>args.
        if pget e ''kind'' = JStr ''exec'' then
          rbind (py_list_or_empty (pget e ''argv'')) (\<lambda>argv.
          rbind (exec_pair argv) (\<lambda>_.
          rbind (check_tokens argv) (\<lambda>toks.
          rbind (rbind (as_dict_or_empty (pget e ''optional_argv'')) (load_optional args)) (\<lambda>opt.
          rbind (py_float (pget_default e ''timeout_s'' (JInt 15))) (\<lambda>timeout.
          rbind (py_int (pget_default e ''output_cap_bytes'' (JInt 16384))) (\<lambda>cap.
            Inr \<lparr>cm_id = cid, cm_kind = ''exec'', cm_argv = toks, cm_optional_argv = opt, cm_args = args,
                 cm_parser = pget e ''parser'', cm_timeout_s = timeout, cm_output_cap_bytes = cap,
                 cm_timeout_is_sample = truthy (pget_default e ''timeout_is_sample'' (JBool False)),
                 cm_rpc_backed = truthy (pget_default e ''rpc_backed'' (JBool False))\<rparr>))))))
        else if pget e ''kind'' = JStr ''builtin'' then
          if cid \<notin> set BUILTINS then Inl TableError
          else rbind (py_float (pget_default e ''timeout_s'' (JInt 10))) (\<lambda>timeout.
          rbind (py_int (pget_default e ''output_cap_bytes'' (JInt 16384))) (\<lambda>cap.
            Inr \<lparr>cm_id = cid, cm_kind = ''builtin'', cm_argv = [], cm_optional_argv = [], cm_args = args,
                 cm_parser = JNull, cm_timeout_s = timeout, cm_output_cap_bytes = cap, cm_timeout_is_sample = False,
                 cm_rpc_backed = truthy (pget_default e ''rpc_backed'' (JBool False))\<rparr>))
        else if pget e ''kind'' = JStr ''unavailable'' then
          Inr \<lparr>cm_id = cid, cm_kind = ''unavailable'', cm_argv = [], cm_optional_argv = [], cm_args = [],
               cm_parser = JNull, cm_timeout_s = 15, cm_output_cap_bytes = 16384, cm_timeout_is_sample = False,
               cm_rpc_backed = False\<rparr>
        else Inl TableError))"

fun load_entries :: "params \<Rightarrow> (string \<times> command) list result" where
  "load_entries [] = Inr []"
| "load_entries ((cid, e) # rest) =
     rbind (if command_id_ok cid then as_dict e else Inl TableError) (\<lambda>d.
     rbind (load_entry cid d) (\<lambda>cmd.
     rbind (load_entries rest) (\<lambda>cmds. Inr ((cid, cmd) # cmds))))"

definition load_table_data :: "jv \<Rightarrow> command_table result" where
  "load_table_data data =
     (case data of
        JObj d \<Rightarrow>
          (case pget d ''commands'' of
             JObj cs \<Rightarrow>
               rbind (load_entries cs) (\<lambda>cmds.
                 rbind (py_int (pget_default d ''version'' (JInt 1))) (\<lambda>v. Inr \<lparr>ct_version = v, ct_commands = cmds\<rparr>))
           | _ \<Rightarrow> Inl TableError)
      | _ \<Rightarrow> Inl TableError)"

section \<open>Arguments\<close>

text \<open>\<^verbatim>\<open>BASE58.match\<close>: 32 to 44 characters of the base58 alphabet.\<close>

definition is_base58 :: "char \<Rightarrow> bool" where
  "is_base58 c = ((is_dec c \<and> c \<noteq> CHR ''0'') \<or> (is_upper c \<and> c \<noteq> CHR ''I'' \<and> c \<noteq> CHR ''O'') \<or> (is_lower c \<and> c \<noteq> CHR ''l''))"

definition base58_match :: "string \<Rightarrow> bool" where
  "base58_match s = (32 \<le> length (chomp s) \<and> length (chomp s) \<le> 44 \<and> list_all is_base58 (chomp s))"

text \<open>\<^verbatim>\<open>v < bound\<close> for an integer and a bound of the table.\<close>

definition out_of_bounds :: "int \<Rightarrow> jv \<Rightarrow> jv \<Rightarrow> bool result" where
  "out_of_bounds v mn mx =
     rbind (if mn = JNull then Inr False else case num_of mn of None \<Rightarrow> Inl (PyError ''TypeError'') | Some b \<Rightarrow> Inr (of_int v < b)) (\<lambda>low.
       if low then Inr True
       else if mx = JNull then Inr False
       else case num_of mx of None \<Rightarrow> Inl (PyError ''TypeError'') | Some b \<Rightarrow> Inr (of_int v > b))"

definition check_arg :: "arg_spec \<Rightarrow> jv \<Rightarrow> jv result" where
  "check_arg spec v =
     (if as_type spec = ''int'' then
        (case v of
           JInt i \<Rightarrow> rbind (out_of_bounds i (as_min spec) (as_max spec)) (\<lambda>bad. if bad then Inl ArgError else Inr v)
         | _ \<Rightarrow> Inl ArgError)
      else if as_type spec = ''pubkey'' then
        (case v of JStr s \<Rightarrow> if base58_match s then Inr v else Inl ArgError | _ \<Rightarrow> Inl ArgError)
      else Inr v)"

fun check_args :: "(string \<times> arg_spec) list \<Rightarrow> params \<Rightarrow> params result" where
  "check_args [] args = Inr []"
| "check_args ((name, spec) # specs) args =
     (case map_of args name of
        None \<Rightarrow> if as_required spec then Inl ArgError else check_args specs args
      | Some v \<Rightarrow>
          rbind (check_arg spec v) (\<lambda>v'.
            rbind (check_args specs args) (\<lambda>out. Inr ((name, v') # out))))"

definition validate_args :: "command \<Rightarrow> jv \<Rightarrow> params result" where
  "validate_args cmd args =
     rbind (case args of JNull \<Rightarrow> Inr [] | JObj d \<Rightarrow> Inr d | _ \<Rightarrow> Inl ArgError) (\<lambda>d.
       if list_ex (\<lambda>(k, _). k \<notin> fst ` set (cm_args cmd)) d then Inl ArgError
       else check_args (cm_args cmd) d)"

text \<open>
  The daemon-local configuration maps a name to its text; \<open>other\<close> is the text of a value that is
  neither an integer nor a string.
\<close>

definition fill :: "(jv \<Rightarrow> string) \<Rightarrow> params \<Rightarrow> (string \<times> string) list \<Rightarrow> string \<Rightarrow> string result" where
  "fill other args local tok =
     (case placeholder tok of
        None \<Rightarrow> Inr tok
      | Some key \<Rightarrow>
          (case map_of args key of
             Some v \<Rightarrow> Inr (py_str other v)
           | None \<Rightarrow> (case map_of local key of Some s \<Rightarrow> Inr s | None \<Rightarrow> Inl ArgError)))"

fun fill_all :: "(jv \<Rightarrow> string) \<Rightarrow> params \<Rightarrow> (string \<times> string) list \<Rightarrow> string list \<Rightarrow> string list result" where
  "fill_all other args local [] = Inr []"
| "fill_all other args local (t # ts) =
     rbind (fill other args local t) (\<lambda>s. rbind (fill_all other args local ts) (\<lambda>ss. Inr (s # ss)))"

text \<open>The tokens of a call, before the placeholders are filled.\<close>

definition call_tokens :: "command \<Rightarrow> params \<Rightarrow> string list" where
  "call_tokens cmd args = cm_argv cmd @ concat (map snd (filter (\<lambda>(name, _). has_key args name) (cm_optional_argv cmd)))"

definition assemble_argv :: "(jv \<Rightarrow> string) \<Rightarrow> command \<Rightarrow> params \<Rightarrow> (string \<times> string) list \<Rightarrow> string list result" where
  "assemble_argv other cmd args local = fill_all other args local (call_tokens cmd args)"

end
