(* ===== verification/Lifecycle_Theorems.thy ===== *)
theory Lifecycle_Theorems
  imports Store_Theorems Brokers
begin

text \<open>
  The life of an episode is finite, and the schemas of the tools are what the store's handlers
  need of their arguments.
\<close>

section \<open>The length of a history\<close>

text \<open>The distance of a state from the end of an episode; only the Judge's FAIL goes back.\<close>

definition distance :: "string option \<Rightarrow> nat" where
  "distance st =
     (case st of
        None \<Rightarrow> 7
      | Some x \<Rightarrow>
          if x = ''open'' then 6 else if x = ''diagnosing'' then 5 else if x = ''recommending'' then 4 else if x = ''judging'' then 3
          else if x = ''reporting'' then 2 else if x = ''awaiting_operator'' then 1 else 0)"

definition is_retry :: "state_change \<Rightarrow> bool" where
  "is_retry c = (sh_from c = Some ''judging'' \<and> sh_to c = ''recommending'')"

lemma distance_simps [simp]: "distance (Some ''judging'') = 3" "distance (Some ''recommending'') = 4" "distance None = 7" "distance (Some ''open'') = 6"
  by (simp_all add: distance_def)

lemma table_distance:
  "list_all (\<lambda>(f, t). distance (Some t) < distance (Some f) \<or> f = ''judging'' \<and> t = ''recommending'') (CONTROLLER @ VERIFIER)"
  by code_simp

lemma allowed_distance:
  assumes "allowed pr f t"
  shows "distance (Some t) < distance (Some f) \<or> f = ''judging'' \<and> t = ''recommending''"
proof -
  have "(f, t) \<in> set (CONTROLLER @ VERIFIER)" using assms by (auto simp: allowed_def split: if_splits)
  with table_distance show ?thesis by (auto simp: list_all_iff simp del: set_append)
qed

lemma path_length:
  "path_ok frm cs \<Longrightarrow> length cs + distance (last_state frm cs) \<le> distance frm + 2 * length (filter is_retry cs)"
proof (induction cs arbitrary: frm)
  case (Cons c cs)
  have step: "Suc (distance (Some (sh_to c))) \<le> distance frm + (if is_retry c then 2 else 0)"
  proof (cases frm)
    case None
    then show ?thesis using Cons.prems by simp
  next
    case (Some f)
    then have "allowed (sh_by c) f (sh_to c)" "sh_from c = Some f" using Cons.prems by simp_all
    with allowed_distance [OF this(1)] show ?thesis by (auto simp: Some is_retry_def)
  qed
  have "last_state frm (c # cs) = last_state (Some (sh_to c)) cs" by (simp add: last_state_def)
  then show ?case using Cons.IH [of "Some (sh_to c)"] Cons.prems step by (auto split: if_splits)
qed (simp add: last_state_def)

text \<open>C31: an episode comes to an end. In every reachable state of the store the history of an episode has at most
seven entries plus two for each time the Judge's verdict sent it back to recommending, whatever
requests the sockets received: apart from these retries, which the controller bounds by P-09, no
sequence of transitions can go on for ever.\<close>

theorem episode_life_bounded:
  assumes "reachable (live_ok cd rp content) s" "map_of (s_records s) i = Some rec"
  shows "length (r_state_history rec) \<le> 7 + 2 * length (filter is_retry (r_state_history rec))"
proof -
  have "path_ok None (r_state_history rec)" using episode_history [OF live_record(1) [OF assms]] by simp
  from path_length [OF this] show ?thesis by simp
qed

theorem episode_life_bounded_witness:
  "length (r_state_history ex_r6) \<le> 7 + 2 * length (filter is_retry (r_state_history ex_r6))"
proof -
  have "map_of (s_records ex_s6) ''e1'' = Some ex_r6" by (simp add: ex_s6_def)
  from episode_life_bounded [OF ex_reach6 this] show ?thesis .
qed

section \<open>Calls with validated arguments\<close>

text \<open>The writes of the episode broker whose arguments go to a handler that reads no bundle.\<close>

definition typed_calls :: "(string \<times> store_handler \<times> (jv \<Rightarrow> jv)) list" where
  "typed_calls =
     [(''add_hypothesis'', append_hypothesis, \<lambda>a. JObj [(''hypothesis'', a)]),
      (''set_hypothesis_status'', append_hypothesis_status, \<lambda>a. a),
      (''report_no_action'', append_no_action, \<lambda>a. a),
      (''submit_verdict'', append_verdict, \<lambda>a. a)]"

lemma append_row_rpc:
  assumes "reachable (live_ok cd rp content) s" "map_of (s_records s) i = Some rec" "find_row s i key = None" "hashable sess"
    and "append_row env s rec bdy pr sess key res = Inl err"
  shows "is_rpc err"
proof (cases "se_audit env = AuditFails")
  case True
  then show ?thesis using assms(5) by (auto simp: append_row_def rbind_def)
next
  case False
  from append_succeeds [OF assms(1-4) this, of bdy pr res] show ?thesis using assms(5) by auto
qed

lemma once_Inl:
  assumes "once s eid key k = Inl err"
  shows "is_rpc err \<or> find_row s eid (str_of key) = None \<and> k (str_of key) = Inl err"
  using assms by (auto simp: once_def idem_def rbind_def split: if_splits option.splits)

lemma agent_gate_typed:
  assumes "se_gate env (pget p ''token'') (pget p ''episode_id'') = Inr cap" "pget p ''episode_id'' = JStr e"
  shows "agent_gate env x op p s = Inl err \<Longrightarrow> is_rpc err"
    and "agent_gate env x op p s = Inr (cap', rec) \<Longrightarrow> map_of (s_records s) e = Some rec"
  using assms by (auto simp: agent_gate_def record_of_def rbind_def split: if_splits option.splits)

lemma handler_typed:
  assumes "reachable (live_ok cd rp content) s" "se_gate env (pget p ''token'') (pget p ''episode_id'') = Inr cap" "pget p ''episode_id'' = JStr e"
    and "rbind (agent_gate env x op p s) (\<lambda>(cap, rec). once s (r_episode_id rec) (pget p ''idem_key'') (k cap rec)) = Inl err"
    and "\<And>cap' rec key. map_of (s_records s) e = Some rec \<Longrightarrow> find_row s e key = None \<Longrightarrow> k cap' rec key = Inl err \<Longrightarrow> is_rpc err"
  shows "is_rpc err"
proof (cases "agent_gate env x op p s")
  case (Inl e)
  then show ?thesis using agent_gate_typed(1) [OF assms(2, 3) Inl] assms(4) by (simp add: rbind_def)
next
  case (Inr y)
  obtain cap' rec where y: "y = (cap', rec)" by (cases y)
  have rec: "map_of (s_records s) e = Some rec" using agent_gate_typed(2) [OF assms(2, 3)] Inr y by blast
  have "once s e (pget p ''idem_key'') (k cap' rec) = Inl err"
    using assms(4) live_record(2) [OF assms(1) rec] by (simp add: Inr y rbind_def)
  from once_Inl [OF this] show ?thesis using assms(5) [OF rec] by blast
qed

lemma refs_exist_typed:
  assumes "validate v REFS1_SCHEMA" "refs_exist rec v = Inl err"
  shows "is_rpc err"
proof -
  obtain rs where v: "v = JArr rs" "\<forall>r \<in> set rs. \<exists>t. r = JStr t \<and> re_search REF_PATTERN t" using assms(1) by (auto simp: REFS1_SCHEMA_def)
  then have "\<not> list_ex (\<lambda>r. \<not> hashable r) rs" by (fastforce simp: list_ex_iff)
  with assms(2) show ?thesis by (auto simp: refs_exist_def v(1) split: if_splits)
qed

lemma hypothesis_typed:
  assumes "reachable (live_ok cd rp content) s" "se_gate env (pget p ''token'') (pget p ''episode_id'') = Inr cap" "pget p ''episode_id'' = JStr e"
    and "validate (pget p ''hypothesis'') HYPOTHESIS_SCHEMA" "append_hypothesis env x p s = Inl err"
  shows "is_rpc err"
proof -
  obtain h where h: "pget p ''hypothesis'' = JObj h" using assms(4) by (auto simp: HYPOTHESIS_SCHEMA_def)
  then have d: "as_dict_or_empty (pget p ''hypothesis'') = Inr h" by (auto simp: as_dict_or_empty_def)
  show ?thesis
    using assms(5) unfolding append_hypothesis_def
  proof (rule handler_typed [OF assms(1-3)])
    fix cap' rec key
    assume r: "map_of (s_records s) e = Some rec" "find_row s e key = None"
    note row = append_row_rpc [OF assms(1) r, of "JStr _", simplified]
    assume "rbind (as_dict_or_empty (pget p ''hypothesis'')) (\<lambda>h.
           if \<not> list_all (\<lambda>f. nonempty (pget h f)) [''claim'', ''test'', ''expected_evidence'']
           then Inl (RpcError ''contract'')
           else case pget h ''rank'' of
               JInt rank \<Rightarrow>
                 if rank < 1 then Inl (RpcError ''contract'')
                 else if list_ex (\<lambda>y. h_step_session y = cap_session_id cap' \<and> h_rank y = rank) (r_hypotheses rec)
                 then Inl (RpcError ''contract'')
                 else let hid = next_id (r_hypotheses rec) ''h'' in
                   append_row env s rec
                     (Hypothesis \<lparr>h_id = hid, h_step_session = cap_session_id cap', h_rank = rank,
                        h_claim = str_of (pget h ''claim''), h_test = str_of (pget h ''test''),
                        h_expected_evidence = str_of (pget h ''expected_evidence'')\<rparr>)
                     (agent_principal cap') (JStr (cap_session_id cap')) key
                     (JObj [(''hypothesis_id'', JStr hid)])
             | _ \<Rightarrow> Inl (RpcError ''contract'')) = Inl err"
    then show "is_rpc err" using row by (auto simp: d rbind_def Let_def split: if_splits jv.splits)
  qed
qed

lemma status_typed:
  assumes "reachable (live_ok cd rp content) s" "se_gate env (pget p ''token'') (pget p ''episode_id'') = Inr cap" "pget p ''episode_id'' = JStr e"
    and "hashable (pget p ''hypothesis_id'')" "validate (pget p ''evidence_refs'') REFS1_SCHEMA" "append_hypothesis_status env x p s = Inl err"
  shows "is_rpc err"
  using assms(6) unfolding append_hypothesis_status_def
proof (rule handler_typed [OF assms(1-3)])
  fix cap' rec key
  assume r: "map_of (s_records s) e = Some rec" "find_row s e key = None"
  note row = append_row_rpc [OF assms(1) r, of "JStr _", simplified]
  assume "(let hid = pget p ''hypothesis_id''; status = pget p ''status'' in
         if \<not> hashable hid then Inl (PyError ''TypeError'')
         else if hid \<notin> set (map (\<lambda>h. JStr (h_id h)) (r_hypotheses rec)) then Inl (RpcError ''contract'')
         else if status \<notin> set [JStr ''supported'', JStr ''refuted''] then Inl (RpcError ''contract'')
         else rbind (refs_exist rec (pget p ''evidence_refs'')) (\<lambda>refs.
           append_row env s rec
             (Hypothesis_status \<lparr>hs_hypothesis_id = str_of hid, hs_status = str_of status,
                hs_evidence_refs = refs\<rparr>)
             (agent_principal cap') (JStr (cap_session_id cap')) key ok_reply)) = Inl err"
  then show "is_rpc err" using row assms(4) refs_exist_typed [OF assms(5), of rec]
    unfolding Let_def by (cases "refs_exist rec (pget p ''evidence_refs'')") (auto simp: rbind_def split: if_splits)
qed

lemma no_action_typed:
  assumes "reachable (live_ok cd rp content) s" "se_gate env (pget p ''token'') (pget p ''episode_id'') = Inr cap" "pget p ''episode_id'' = JStr e"
    and "validate (pget p ''evidence_refs'') REFS1_SCHEMA" "append_no_action env x p s = Inl err"
  shows "is_rpc err"
  using assms(5) unfolding append_no_action_def
proof (rule handler_typed [OF assms(1-3)])
  fix cap' rec key
  assume r: "map_of (s_records s) e = Some rec" "find_row s e key = None"
  note row = append_row_rpc [OF assms(1) r, of "JStr _", simplified]
  assume "(if planner_done rec cap' then Inl (RpcError ''contract'')
         else if \<not> nonempty (pget p ''reason'') then Inl (RpcError ''contract'')
         else rbind (refs_exist rec (pget p ''evidence_refs'')) (\<lambda>refs.
           let nid = next_id (r_no_action rec) ''n'' in
           append_row env s rec
             (No_action \<lparr>na_id = nid, na_reason = str_of (pget p ''reason''), na_evidence_refs = refs\<rparr>)
             (agent_principal cap') (JStr (cap_session_id cap')) key
             (JObj [(''no_action_id'', JStr nid)]))) = Inl err"
  then show "is_rpc err" using row refs_exist_typed [OF assms(4), of rec]
    unfolding Let_def by (cases "refs_exist rec (pget p ''evidence_refs'')") (auto simp: rbind_def split: if_splits)
qed

lemma verdict_typed:
  assumes "reachable (live_ok cd rp content) s" "se_gate env (pget p ''token'') (pget p ''episode_id'') = Inr cap" "pget p ''episode_id'' = JStr e"
    and "append_verdict env x p s = Inl err"
  shows "is_rpc err"
  using assms(4) unfolding append_verdict_def
proof (rule handler_typed [OF assms(1-3)])
  fix cap' rec key
  assume r: "map_of (s_records s) e = Some rec" "find_row s e key = None"
  note row = append_row_rpc [OF assms(1) r, of "JStr _", simplified]
  assume "(if list_ex (\<lambda>v. v_session_id v = JStr (cap_session_id cap')) (r_verdicts rec)
         then Inl (RpcError ''contract'')
         else case under_judgement rec of
             None \<Rightarrow> Inl (RpcError ''contract'')
           | Some target \<Rightarrow>
               if pget p ''target_id'' \<noteq> JStr (artefact_id target) then Inl (RpcError ''contract'')
               else if pget p ''result'' \<notin> set [JStr ''PASS'', JStr ''FAIL''] then Inl (RpcError ''contract'')
               else (case pget p ''checks'' of
                       JArr checks \<Rightarrow>
                         if checks = [] \<or> \<not> validate (JArr checks) CHECKS_SCHEMA
                         then Inl (RpcError ''contract'')
                         else append_row env s rec
                           (Verdict \<lparr>v_target_id = artefact_id target, v_result = str_of (pget p ''result''),
                              v_checks = checks\<rparr>)
                           (agent_principal cap') (JStr (cap_session_id cap')) key ok_reply
                     | _ \<Rightarrow> Inl (RpcError ''contract''))) = Inl err"
  then show "is_rpc err" using row by (auto split: if_splits option.splits jv.splits)
qed


definition ex_status_args :: params where
  "ex_status_args = [(''hypothesis_id'', JStr ''h1''), (''status'', JStr ''supported''), (''evidence_refs'', JArr [JStr ''s1''])]"

definition ex_status_p :: params where
  "ex_status_p = [(''token'', ex_token 0), (''episode_id'', JStr ''e1''), (''idem_key'', JStr ''k9'')] @ ex_status_args"

lemma ex_status_valid: "validate (JObj ex_status_args) STATUS_SCHEMA"
  by code_simp

lemma ex_status_refused:
  "append_hypothesis_status ex_env (ex_ctx ''store-agent'' ''episode_broker'') ex_status_p ex_s3 = Inl (RpcError ''contract'')"
proof -
  have g: "agent_gate ex_env (ex_ctx ''store-agent'' ''episode_broker'') ''append_hypothesis_status'' ex_status_p ex_s3 = Inr (ex_cap 0, ex_r3)"
    using ex_gate by (simp add: agent_gate_def ex_ctx_def ex_status_p_def str_eval rbind_simps record_of_def ex_s3_def
      ex_r3_sel ex_cap_sel AGENT_OPS_def tool_def role_defs)
  show ?thesis unfolding append_hypothesis_status_def g
    by (simp add: ex_status_p_def ex_status_args_def str_eval ex_store_eval ex_r3_sel ex_s1_def ex_s2_def ex_s3_def
      ex_w1_def ex_w2_def ex_w3_def ex_state_row_def)
qed


end
