(* ===== verification/Params.thy ===== *)
theory Params
  imports Prelude
begin

text \<open>
  \<^verbatim>\<open>valops/bundle/params.py\<close>: the parameter register and the thresholds generated from it. Values are
  YAML values, read as JSON values; a mapping is an ordered list of pairs.
\<close>

section \<open>Bounds\<close>

text \<open>\<^verbatim>\<open>_walk_nulls\<close>: the dotted paths of the unset values; lists are not searched.\<close>

fun walk_nulls :: "jv \<Rightarrow> string \<Rightarrow> string list" and walk_nulls_items :: "params \<Rightarrow> string \<Rightarrow> string list" where
  "walk_nulls JNull path = [path]"
| "walk_nulls (JObj d) path = walk_nulls_items d path"
| "walk_nulls v path = []"
| "walk_nulls_items [] path = []"
| "walk_nulls_items ((k, v) # d) path = walk_nulls v (path @ ''.'' @ k) @ walk_nulls_items d path"

text \<open>
  The bounds that \<^verbatim>\<open>_check_bounds\<close> is called with: nothing, a numeric range (a mapping that has
  one of \<^verbatim>\<open>min\<close>, \<^verbatim>\<open>max\<close>, \<^verbatim>\<open>eq\<close>), bounds per key, or another value, which is ignored. The bounds of
  a range are numbers.
\<close>

datatype bnds =
    NoBounds
  | Range "rat option" "rat option" "rat option"
  | PerKey "(string \<times> bnds) list"

fun bounds_of :: "jv \<Rightarrow> bnds result" and bounds_of_items :: "params \<Rightarrow> (string \<times> bnds) list result" where
  "bounds_of (JObj d) =
     (if has_key d ''min'' \<or> has_key d ''max'' \<or> has_key d ''eq'' then
        (if list_all (\<lambda>k. has_key d k \<longrightarrow> num_of (pget d k) \<noteq> None) [''min'', ''max'', ''eq'']
         then Inr (Range (num_of (pget d ''min'')) (num_of (pget d ''max'')) (num_of (pget d ''eq'')))
         else Inl (PyError ''TypeError''))
      else rbind (bounds_of_items d) (\<lambda>bs. Inr (PerKey bs)))"
| "bounds_of v = Inr NoBounds"
| "bounds_of_items [] = Inr []"
| "bounds_of_items ((k, v) # d) =
     rbind (bounds_of v) (\<lambda>b. rbind (bounds_of_items d) (\<lambda>bs. Inr ((k, b) # bs)))"

definition in_range :: "rat option \<Rightarrow> rat option \<Rightarrow> rat option \<Rightarrow> rat \<Rightarrow> bool" where
  "in_range mn mx eq v =
     ((case mn of None \<Rightarrow> True | Some m \<Rightarrow> m \<le> v) \<and> (case mx of None \<Rightarrow> True | Some m \<Rightarrow> v \<le> m) \<and>
      (case eq of None \<Rightarrow> True | Some m \<Rightarrow> v = m))"

text \<open>A numeric value: an integer or a float, no boolean.\<close>

fun numeric :: "jv \<Rightarrow> rat option" where
  "numeric (JInt i) = Some (of_int i)"
| "numeric (JFloat r) = Some r"
| "numeric _ = None"

text \<open>
  The range case of \<^verbatim>\<open>_check_bounds\<close>: the value, or each value of a mapping, recursively, must be
  numeric and inside the range.
\<close>

fun check_range :: "rat option \<Rightarrow> rat option \<Rightarrow> rat option \<Rightarrow> jv \<Rightarrow> bool"
and check_range_vals :: "rat option \<Rightarrow> rat option \<Rightarrow> rat option \<Rightarrow> params \<Rightarrow> bool" where
  "check_range mn mx eq (JObj d) = check_range_vals mn mx eq d"
| "check_range mn mx eq v = (case numeric v of None \<Rightarrow> False | Some r \<Rightarrow> in_range mn mx eq r)"
| "check_range_vals mn mx eq [] = True"
| "check_range_vals mn mx eq ((k, v) # d) = (check_range mn mx eq v \<and> check_range_vals mn mx eq d)"

text \<open>\<^verbatim>\<open>_check_bounds\<close>: \<^term>\<open>True\<close> when it returns, \<^term>\<open>False\<close> for \<^verbatim>\<open>RegisterError\<close>.\<close>

fun check_bounds :: "bnds \<Rightarrow> jv \<Rightarrow> bool" and check_bounds_keys :: "(string \<times> bnds) list \<Rightarrow> params \<Rightarrow> bool" where
  "check_bounds NoBounds v = True"
| "check_bounds (Range mn mx eq) v = check_range mn mx eq v"
| "check_bounds (PerKey bs) v = (case v of JObj d \<Rightarrow> check_bounds_keys bs d | _ \<Rightarrow> False)"
| "check_bounds_keys [] d = True"
| "check_bounds_keys ((k, b) # bs) d =
     (case map_of d k of None \<Rightarrow> False | Some v \<Rightarrow> check_bounds b v \<and> check_bounds_keys bs d)"

section \<open>Thresholds\<close>

definition RegisterError :: exn where "RegisterError = PyError ''RegisterError''"

text \<open>\<^verbatim>\<open>f"P-{i:02d}" for i in range(1, 32)\<close>\<close>

definition PARAM_IDS :: "string list" where
  "PARAM_IDS = map (\<lambda>i. ''P-'' @ (if i < 10 then ''0'' else []) @ nat_str i) [1..<32]"

definition row_of :: "jv \<Rightarrow> params result" where
  "row_of v = (case v of JObj d \<Rightarrow> Inr d | _ \<Rightarrow> Inl (PyError ''AttributeError''))"

fun bundled_rows :: "params \<Rightarrow> params result" where
  "bundled_rows [] = Inr []"
| "bundled_rows ((pid, rowv) # rest) =
     rbind (row_of rowv) (\<lambda>row.
       let v = pget row ''value''; nb = truthy (pget row ''not_bundled'') in
       if walk_nulls v pid \<noteq> [] \<and> \<not> nb then Inl RegisterError
       else rbind (bounds_of (pget row ''bounds'')) (\<lambda>b.
         if \<not> check_bounds b v then Inl RegisterError
         else rbind (bundled_rows rest) (\<lambda>out. Inr (if nb then out else (pid, v) # out))))"

text \<open>\<^verbatim>\<open>out[k]\<close> compared as a number: a missing key or a value that does not compare raises.\<close>

definition num_at :: "params \<Rightarrow> string \<Rightarrow> rat result" where
  "num_at out k =
     (case map_of out k of None \<Rightarrow> Inl (PyError ''KeyError'')
      | Some v \<Rightarrow> (case num_of v of None \<Rightarrow> Inl (PyError ''TypeError'') | Some r \<Rightarrow> Inr r))"

definition field_at :: "params \<Rightarrow> string \<Rightarrow> string \<Rightarrow> jv result" where
  "field_at out k f =
     (case map_of out k of
        None \<Rightarrow> Inl (PyError ''KeyError'')
      | Some (JObj d) \<Rightarrow> (case map_of d f of None \<Rightarrow> Inl (PyError ''KeyError'') | Some v \<Rightarrow> Inr v)
      | Some _ \<Rightarrow> Inl (PyError ''TypeError''))"

definition cross_rules :: "params \<Rightarrow> unit result" where
  "cross_rules out =
     rbind (num_at out ''P-10'') (\<lambda>p10. rbind (num_at out ''P-11'') (\<lambda>p11.
       if p11 < p10 then Inl RegisterError
       else rbind (num_at out ''P-19'') (\<lambda>p19. rbind (num_at out ''P-18'') (\<lambda>p18.
         if p19 < 2 * p18 then Inl RegisterError
         else rbind (field_at out ''P-14'' ''concurrency'') (\<lambda>conc.
           if \<not> py_eq conc (JInt 1) then Inl RegisterError
           else rbind (field_at out ''P-26'' ''rpo_min'') (\<lambda>rpo.
             case num_of rpo of
               None \<Rightarrow> Inl (PyError ''TypeError'')
             | Some r \<Rightarrow> if p18 < r then Inl RegisterError else Inr ()))))))"

definition generate_thresholds :: "params \<Rightarrow> params result" where
  "generate_thresholds register =
     rbind (as_dict_or_empty (pget register ''parameters'')) (\<lambda>ps.
       if list_ex (\<lambda>p. \<not> has_key ps p) PARAM_IDS then Inl RegisterError
       else rbind (bundled_rows ps) (\<lambda>out.
         rbind (cross_rules out) (\<lambda>_.
           Inr [(''register_version'', pget register ''register_version''), (''parameters'', JObj out)])))"

section \<open>What the generator guarantees\<close>

text \<open>The values at the leaves of a mapping.\<close>

fun leaves :: "jv \<Rightarrow> jv list" and leaves_items :: "params \<Rightarrow> jv list" where
  "leaves (JObj d) = leaves_items d"
| "leaves v = [v]"
| "leaves_items [] = []"
| "leaves_items ((k, v) # d) = leaves v @ leaves_items d"

lemma check_range_leaves:
  "check_range mn mx eq v \<longleftrightarrow> list_all (\<lambda>l. \<exists>r. numeric l = Some r \<and> in_range mn mx eq r) (leaves v)"
  "check_range_vals mn mx eq d \<longleftrightarrow> list_all (\<lambda>l. \<exists>r. numeric l = Some r \<and> in_range mn mx eq r) (leaves_items d)"
  by (induction v and d rule: leaves_leaves_items.induct) (auto split: option.splits)

lemma walk_nulls_leaves:
  "walk_nulls v path = [] \<longleftrightarrow> JNull \<notin> set (leaves v)"
  "walk_nulls_items d path = [] \<longleftrightarrow> JNull \<notin> set (leaves_items d)"
  by (induction v path and d path rule: walk_nulls_walk_nulls_items.induct) auto

lemma bundled_rows_Inr:
  assumes "bundled_rows ps = Inr out" "(pid, v) \<in> set out"
  shows "\<exists>row b. (pid, JObj row) \<in> set ps \<and> pget row ''value'' = v \<and> \<not> truthy (pget row ''not_bundled'') \<and>
    walk_nulls v pid = [] \<and> bounds_of (pget row ''bounds'') = Inr b \<and> check_bounds b v"
  using assms
proof (induction ps arbitrary: out)
  case (Cons qr rest)
  obtain q rowv where qr: "qr = (q, rowv)" by (cases qr)
  obtain row b out' where row: "rowv = JObj row"
    and b: "bounds_of (pget row ''bounds'') = Inr b" "check_bounds b (pget row ''value'')"
    and n: "truthy (pget row ''not_bundled'') \<or> walk_nulls (pget row ''value'') q = []"
    and out': "bundled_rows rest = Inr out'"
    and out: "out = (if truthy (pget row ''not_bundled'') then out' else (q, pget row ''value'') # out')"
    using Cons.prems(1) qr by (auto simp: row_of_def Let_def split: jv.splits)
  show ?case
  proof (cases "(pid, v) \<in> set out'")
    case True
    have "\<exists>row b. (pid, JObj row) \<in> set rest \<and> pget row ''value'' = v \<and> \<not> truthy (pget row ''not_bundled'') \<and>
      walk_nulls v pid = [] \<and> bounds_of (pget row ''bounds'') = Inr b \<and> check_bounds b v"
      by (rule Cons.IH [OF out' True])
    then show ?thesis by auto
  next
    case False
    with out Cons.prems(2) have "\<not> truthy (pget row ''not_bundled'')" "pid = q" "v = pget row ''value''"
      by (auto split: if_splits)
    with qr row b n show ?thesis by auto
  qed
qed simp

lemma cross_rules_Inr:
  assumes "cross_rules out = Inr u"
  obtains p10 p11 p18 p19 rpo conc where "num_at out ''P-10'' = Inr p10" "num_at out ''P-11'' = Inr p11" "p10 \<le> p11"
    "num_at out ''P-18'' = Inr p18" "num_at out ''P-19'' = Inr p19" "2 * p18 \<le> p19"
    "field_at out ''P-14'' ''concurrency'' = Inr conc" "py_eq conc (JInt 1)"
    "\<exists>v. field_at out ''P-26'' ''rpo_min'' = Inr v \<and> num_of v = Some rpo" "rpo \<le> p18"
  using assms by (auto simp: cross_rules_def split: option.splits)

text \<open>A bundle's thresholds come only from a complete register: every parameter P-01 to P-31 is
present; every generated value is set at each leaf and inside the bounds of its row; the token
lifetime P-10 does not exceed the step timeout P-11, the maximal anchor lag P-19 is at least twice
the anchor interval P-18, the concurrency of P-14 is one and the recovery point of P-26 does not
exceed P-18.\<close>

lemma thresholds_within_bounds:
  assumes "generate_thresholds register = Inr th"
  shows "\<exists>ps out p10 p11 p18 p19 rpo conc.
    as_dict_or_empty (pget register ''parameters'') = Inr ps \<and> pget th ''parameters'' = JObj out \<and>
    (\<forall>pid \<in> set PARAM_IDS. has_key ps pid) \<and>
    (\<forall>pid v. (pid, v) \<in> set out \<longrightarrow> JNull \<notin> set (leaves v) \<and>
       (\<exists>row b. (pid, JObj row) \<in> set ps \<and> pget row ''value'' = v \<and> bounds_of (pget row ''bounds'') = Inr b \<and> check_bounds b v)) \<and>
    num_at out ''P-10'' = Inr p10 \<and> num_at out ''P-11'' = Inr p11 \<and> p10 \<le> p11 \<and>
    num_at out ''P-18'' = Inr p18 \<and> num_at out ''P-19'' = Inr p19 \<and> 2 * p18 \<le> p19 \<and>
    field_at out ''P-14'' ''concurrency'' = Inr conc \<and> py_eq conc (JInt 1) \<and>
    (\<exists>v. field_at out ''P-26'' ''rpo_min'' = Inr v \<and> num_of v = Some rpo) \<and> rpo \<le> p18"
proof -
  from assms obtain ps out where ps: "as_dict_or_empty (pget register ''parameters'') = Inr ps"
    and all: "\<not> list_ex (\<lambda>p. \<not> has_key ps p) PARAM_IDS" and out: "bundled_rows ps = Inr out"
    and cr: "cross_rules out = Inr ()" and th: "th = [(''register_version'', pget register ''register_version''), (''parameters'', JObj out)]"
    by (auto simp: generate_thresholds_def)
  have vals: "JNull \<notin> set (leaves v) \<and>
      (\<exists>row b. (pid, JObj row) \<in> set ps \<and> pget row ''value'' = v \<and> bounds_of (pget row ''bounds'') = Inr b \<and> check_bounds b v)"
    if "(pid, v) \<in> set out" for pid v
    using bundled_rows_Inr [OF out that] walk_nulls_leaves(1) by blast
  from all have "\<forall>pid \<in> set PARAM_IDS. has_key ps pid" by (auto simp: list_ex_iff)
  moreover have "pget th ''parameters'' = JObj out" by (simp add: th pget_def)
  moreover obtain p10 p11 p18 p19 rpo conc where "num_at out ''P-10'' = Inr p10" "num_at out ''P-11'' = Inr p11" "p10 \<le> p11"
    "num_at out ''P-18'' = Inr p18" "num_at out ''P-19'' = Inr p19" "2 * p18 \<le> p19"
    "field_at out ''P-14'' ''concurrency'' = Inr conc" "py_eq conc (JInt 1)"
    "\<exists>v. field_at out ''P-26'' ''rpo_min'' = Inr v \<and> num_of v = Some rpo" "rpo \<le> p18"
    by (rule cross_rules_Inr [OF cr])
  ultimately show ?thesis using ps vals by blast
qed

text \<open>A register for the instance: every parameter is 2 with bounds 1 to 5, except the two mappings.\<close>

definition ex_register :: params where
  "ex_register = [(''parameters'', JObj (map (\<lambda>p. (p, JObj
     [(''value'', if p = ''P-14'' then JObj [(''concurrency'', JInt 1)] else if p = ''P-26'' then JObj [(''rpo_min'', JInt 1)]
                  else if p = ''P-19'' then JInt 5 else JInt 2),
      (''bounds'', JObj [(''min'', JInt 1), (''max'', JInt 5)])])) PARAM_IDS))]"

end
