(* ===== verification/Registry_Theorems.thy ===== *)
theory Registry_Theorems
  imports Example_Run
begin

text \<open>
  Theorems about capability tokens and the bundle registry, with instances on the registry and the
  codec of \<open>Example_Run\<close>.
\<close>

section \<open>Tokens\<close>

lemma minted_parts:
  assumes "mint cd t nonce e r sid b ttl = Inr tok"
    and bytes: "\<And>v. \<forall>x \<in> set (cd_dumps cd v). x < 256" "\<And>m. \<forall>x \<in> set (cd_sign cd m). x < 256"
  obtains cap where "r \<in> set ROLES"
    "cap = \<lparr>cap_episode_id = e, cap_role = r, cap_session_id = sid, cap_bundle_id = b, cap_exp = t + ttl,
            cap_nonce = nonce, cap_iat = t, cap_v = 1\<rparr>"
    "tok = b64u (cd_dumps cd (cap_json cap)) @ ''.'' @ b64u (cd_sign cd (cd_dumps cd (cap_json cap)))"
    "count_list tok (CHR ''.'') = 1"
    "b64u_dec (takeWhile (\<lambda>c. c \<noteq> CHR ''.'') tok) = Some (cd_dumps cd (cap_json cap))"
    "b64u_dec (tl (dropWhile (\<lambda>c. c \<noteq> CHR ''.'') tok)) = Some (cd_sign cd (cd_dumps cd (cap_json cap)))"
proof -
  let ?cap = "\<lparr>cap_episode_id = e, cap_role = r, cap_session_id = sid, cap_bundle_id = b, cap_exp = t + ttl,
            cap_nonce = nonce, cap_iat = t, cap_v = 1\<rparr>"
  let ?body = "cd_dumps cd (cap_json ?cap)"
  have tok: "tok = b64u ?body @ ''.'' @ b64u (cd_sign cd ?body)" and r: "r \<in> set ROLES"
    using assms(1) by (auto simp: mint_def Let_def)
  note sp = split_at_dot [OF b64u_no_dot [of ?body] b64u_no_dot [of "cd_sign cd ?body"]]
  have dot: "count_list tok (CHR ''.'') = 1" unfolding tok by (rule sp(1))
  have d1: "b64u_dec (takeWhile (\<lambda>c. c \<noteq> CHR ''.'') tok) = Some ?body"
    unfolding tok sp(2) by (rule b64u_dec_b64u [OF bytes(1)])
  have d2: "b64u_dec (tl (dropWhile (\<lambda>c. c \<noteq> CHR ''.'') tok)) = Some (cd_sign cd ?body)"
    unfolding tok sp(3) by (rule b64u_dec_b64u [OF bytes(2)])
  show ?thesis by (rule that [OF r refl tok dot d1 d2])
qed

text \<open>A minted token works exactly as long as it should: the gate accepts it for its episode and
role, with the capability it was minted for, until it expires while its session is not revoked and
its bundle verifies; after expiry it is refused as expired, after the revocation of its session as
revoked, and for another episode or role as forbidden.\<close>

lemma mint_check:
  assumes "mint cd t nonce e r sid b ttl = Inr tok"
    and bytes: "\<And>v. \<forall>x \<in> set (cd_dumps cd v). x < 256" "\<And>m. \<forall>x \<in> set (cd_sign cd m). x < 256"
    and sig: "\<And>m. cd_verify cd (cd_sign cd m) m"
    and codec: "cd_loads cd (cd_dumps cd (cap_json cap)) = Some (cap_json cap)"
    and cap: "cap = \<lparr>cap_episode_id = e, cap_role = r, cap_session_id = sid, cap_bundle_id = b, cap_exp = t + ttl,
            cap_nonce = nonce, cap_iat = t, cap_v = 1\<rparr>"
    and ok: "bundle_ok b = Inr None"
  shows "check cd bundle_ok g now (JStr tok) eid role =
    (if t + ttl < now then Inl (RpcError ''token_expired'')
     else if sid \<in> set (tg_revoked g) then Inl (RpcError ''token_revoked'')
     else if eid \<noteq> JNull \<and> eid \<noteq> JStr e \<or> role \<noteq> JNull \<and> role \<noteq> JStr r then Inl (RpcError ''forbidden'')
     else Inr cap)"
proof -
  obtain c where c: "c = cap" and dot: "count_list tok (CHR ''.'') = 1"
    and dec: "b64u_dec (takeWhile (\<lambda>c. c \<noteq> CHR ''.'') tok) = Some (cd_dumps cd (cap_json c))"
    "b64u_dec (tl (dropWhile (\<lambda>c. c \<noteq> CHR ''.'') tok)) = Some (cd_sign cd (cd_dumps cd (cap_json c)))"
    by (rule minted_parts [OF assms(1) bytes]) (simp add: cap)
  have bind: "Option.bind (cd_loads cd (cd_dumps cd (cap_json c))) cap_of_json = Some cap"
    using codec c by simp
  show ?thesis
    using dot ok bind
    by (simp add: check_def dec sig cap rbind_simps Let_def)
qed

section \<open>Bundles\<close>


definition ex_resigned :: registry where
  "ex_resigned = ex_registry\<lparr>rg_dirs := [(ex_bid, [(''skills/index.yaml'', [1]), (SIG, [5]),
     (MANIFEST, compute_manifest (rp_sha ex_rp) [(''skills/index.yaml'', [1])])])]\<rparr>"


text \<open>The manifest does not escape file names: a name that contains a newline can stand for two
lines, so two directories with different files have the same manifest, the same bundle id and the
same valid signature.\<close>

lemma manifest_newline_ambiguous:
  "\<exists>sha d d'. hex_hash sha \<and> content_files d \<noteq> content_files d' \<and> length (content_files d) = 2 \<and>
     length (content_files d') = 1 \<and> compute_manifest sha d = compute_manifest sha d'"
proof -
  let ?sha = "\<lambda>b. ''0'' :: string"
  let ?d = "[(''a'', [1]), (''b'', [2])] :: files"
  let ?d' = "[(''a'' @ [CHR 0x0A] @ ''0  b'', [1])] :: files"
  have "hex_hash ?sha" by (simp add: hex_hash_def hex_digits_def)
  moreover have "content_files ?d = ?d" "content_files ?d' = ?d'" by (simp_all add: content_files_def MANIFEST_def SIG_def)
  moreover have "compute_manifest ?sha ?d = compute_manifest ?sha ?d'"
    by (simp add: compute_manifest_def content_files_def MANIFEST_def SIG_def manifest_line_def)
  ultimately show ?thesis by (intro exI [of _ ?sha] exI [of _ ?d] exI [of _ ?d']) simp
qed

text \<open>\<^verbatim>\<open>rollback\<close> is exact: after the activation of a bundle it makes the bundle that was active
before it active again, provided that one still verifies and is signed by an active key; a bundle
is only ever activated when it verifies at that moment.\<close>

lemma rollback_restores:
  assumes "activate rp t b by rg = Inr rg'" "rg_active rg = Some a" "a \<noteq> []"
    and "activate rp t2 a by2 rg' = Inr rg''"
  shows "rollback rp t2 by2 rg' = Inr (a, rg'') \<and> rg_active rg'' = Some a \<and> verify rp rg b = Inr None \<and>
    map ac_active (rg_history rg'') = map ac_active (rg_history rg) @ [b, a]"
proof -
  obtain key where v: "verify rp rg b = Inr None" and
    rg': "rg' = rg\<lparr>rg_active := Some b, rg_history := rg_history rg @
       [\<lparr>ac_ts = t, ac_active = b, ac_previous = rg_active rg, ac_by = by\<rparr>]\<rparr>"
    by (rule activate_ok [OF assms(1)])
  obtain key2 where rg'': "rg'' = rg'\<lparr>rg_active := Some a, rg_history := rg_history rg' @
       [\<lparr>ac_ts = t2, ac_active = a, ac_previous = rg_active rg', ac_by = by2\<rparr>]\<rparr>"
    by (rule activate_ok [OF assms(4)])
  have "rollback rp t2 by2 rg' = Inr (a, rg'')"
    using assms(2-4) by (simp add: rollback_def rg' rbind_simps)
  then show ?thesis using v by (simp add: rg'' rg')
qed

definition ex_active_registry :: registry where
  "ex_active_registry = ex_registry\<lparr>rg_active := Some ex_bid\<rparr>"

text \<open>\<^verbatim>\<open>superseded_at\<close> dates the drain of a bundle: while nothing else has been activated since its
first activation it reports nothing; it reports the time of the first later activation of another
bundle, and later activations do not change that answer.\<close>

lemma superseded_at_first_other:
  assumes "b \<notin> ac_active ` set before" "r \<noteq> []" "\<forall>x \<in> set r. ac_active x = b" "ac_active o1 \<noteq> b"
  shows "superseded_at (rg\<lparr>rg_history := before @ r\<rparr>) b = None \<and>
    superseded_at (rg\<lparr>rg_history := before @ r @ o1 # after\<rparr>) b = Some (ac_ts o1)"
proof -
  have fresh: "superseded_from False b before = None"
    using assms(1) by (induction before) auto
  have own: "superseded_from s b r = None" for s
    using assms(3) by (induction r arbitrary: s) auto
  have seen: "b \<in> ac_active ` set r" using assms(2,3) by (cases r) auto
  show ?thesis
    using assms(4) seen by (simp add: superseded_at_def superseded_from_append fresh own)
qed

end
