(* ===== verification/Hash_Chain.thy ===== *)
theory Hash_Chain
  imports Prelude
begin

text \<open>
  The interface of a hash chain: entries that name the hash of the entry before them. The audit sequencer, the
  daemon of the validator host and the evaluation ledgers keep one each, with their own entries and their
  own conditions on the position; they provide the operation that makes the next entry, and share what follows from
  its law.
\<close>

locale hash_chain =
  fixes hash :: "'e \<Rightarrow> 'h"
    and prev_of :: "'e \<Rightarrow> 'h option"
    and fits :: "nat \<Rightarrow> 'e \<Rightarrow> bool"
    and genesis :: 'h
    and next_entry :: "'x \<Rightarrow> nat \<Rightarrow> 'h \<Rightarrow> 'e"
    and valid :: "'x \<Rightarrow> bool"
  assumes next_links: "valid x \<Longrightarrow> prev_of (next_entry x n h) = Some h"
    and next_fits: "valid x \<Longrightarrow> fits n (next_entry x n h)"
begin

definition head :: "'e list \<Rightarrow> 'h" where
  "head es = (if es = [] then genesis else hash (last es))"

definition chained :: "'e list \<Rightarrow> bool" where
  "chained es = (\<forall>i < length es. prev_of (es ! i) = Some (head (take i es)) \<and> fits i (es ! i))"

definition collision :: bool where
  "collision = (\<exists>e e'. e \<noteq> e' \<and> hash e = hash e')"

lemma head_Nil [simp]: "head [] = genesis"
  by (simp add: head_def)

lemma head_snoc [simp]: "head (es @ [e]) = hash e"
  by (simp add: head_def)

lemma chained_Nil [simp]: "chained []"
  by (simp add: chained_def)

lemma chained_snoc [simp]:
  "chained (es @ [e]) \<longleftrightarrow> chained es \<and> prev_of e = Some (head es) \<and> fits (length es) e"
  by (auto simp: chained_def nth_append less_Suc_eq)

lemma chained_take: "chained es \<Longrightarrow> chained (take k es)"
  by (auto simp: chained_def)

text \<open>What the provider appends continues the chain.\<close>

lemma chained_next: "chained es \<Longrightarrow> valid x \<Longrightarrow> chained (es @ [next_entry x (length es) (head es)])"
  by (simp add: next_links next_fits)

definition extend :: "'x list \<Rightarrow> 'e list" where
  "extend xs = foldl (\<lambda>es x. es @ [next_entry x (length es) (head es)]) [] xs"

lemma extend_snoc: "extend (xs @ [x]) = extend xs @ [next_entry x (length (extend xs)) (head (extend xs))]"
  by (simp add: extend_def)

lemma chained_extend: "list_all valid xs \<Longrightarrow> chained (extend xs)"
proof (induction xs rule: rev_induct)
  case Nil
  show ?case by (simp add: extend_def)
next
  case (snoc x xs)
  then show ?case by (simp add: extend_snoc next_links next_fits)
qed

text \<open>The head determines a chain of known length, up to a collision of the hash.\<close>

lemma determined:
  assumes "chained es" "chained fs" "length es = length fs" "head es = head fs"
  shows "es = fs \<or> collision"
  using assms
proof (induction es arbitrary: fs rule: rev_induct)
  case (snoc e es)
  from snoc.prems(3) obtain f fs' where fs: "fs = fs' @ [f]" by (cases fs rule: rev_cases) auto
  have h: "hash e = hash f" using snoc.prems(4) fs by simp
  show ?case
  proof (cases "e = f")
    case True
    with snoc.prems fs have "chained es" "chained fs'" "length es = length fs'" "head es = head fs'" by auto
    with snoc.IH fs True show ?thesis by auto
  next
    case False
    with h show ?thesis by (auto simp: collision_def)
  qed
qed simp

lemma prefix_determined:
  assumes "chained es" "chained fs" "k \<le> length es" "k \<le> length fs" "head (take k es) = head (take k fs)"
  shows "take k es = take k fs \<or> collision"
  using determined [OF chained_take [OF assms(1)] chained_take [OF assms(2)], of k k] assms(3-5) by simp

text \<open>The last entry determines the chain even when its length is not known, unless some entry hashes to the genesis value.\<close>

lemma last_determined:
  assumes "chained es" "chained fs" "es \<noteq> []" "fs \<noteq> []" "last es = last fs"
  shows "es = fs \<or> collision \<or> (\<exists>e. hash e = genesis)"
proof -
  have "es = fs \<or> collision \<or> (\<exists>e. hash e = genesis)" if "chained es" "chained fs" "head es = head fs" for es fs
    using that
  proof (induction es arbitrary: fs rule: rev_induct)
    case Nil
    then show ?case by (cases fs rule: rev_cases) auto
  next
    case (snoc e es)
    show ?case
    proof (cases fs rule: rev_cases)
      case Nil
      with snoc.prems(3) show ?thesis by auto
    next
      case (snoc fs' f)
      show ?thesis
      proof (cases "e = f")
        case True
        with snoc.prems snoc have "chained es" "chained fs'" "head es = head fs'" by auto
        with snoc.IH snoc True show ?thesis by auto
      next
        case False
        with snoc.prems(3) snoc show ?thesis by (auto simp: collision_def)
      qed
    qed
  qed
  then show ?thesis using assms by (simp add: head_def)
qed

end

end
