(* ===== verification/Sequencer.thy ===== *)
theory Sequencer
  imports Canonical Hash_Chain
begin

text \<open>
  \<^verbatim>\<open>valops/audit/sequencer.py\<close>: the hash chain of the ops host. SHA-256, canonical JSON text and
  the signing keys are parameters (\<open>audit_codec\<close>). A line of the chain file is the JSON value
  it holds. The sequencer's lock makes one append one atomic step; \<^verbatim>\<open>anchor_now\<close>, which reads the
  head under the lock and appends later, is split at that point.
\<close>

section \<open>Entries and anchors\<close>

record audit_codec =
  au_canonical :: "jv \<Rightarrow> bytes"
  au_sha :: "bytes \<Rightarrow> string"
  au_sign :: "bytes \<Rightarrow> bytes"
  au_key_id :: string
  au_daemon_verify :: "(bytes \<Rightarrow> bytes \<Rightarrow> bool) option"

definition GENESIS :: string where "GENESIS = replicate 64 (CHR ''0'')"

definition EVENTS :: "string list" where
  "EVENTS =
     [''tool_call'', ''tool_result'', ''tool_denied'', ''state_change'', ''integrity_fail'', ''alert'', ''observe_request'',
      ''observe_result'', ''observe_checkpoint'', ''verification'', ''anchor'', ''store_write'', ''model_request'',
      ''model_refusal'', ''token_minted'', ''token_revoked'', ''step'', ''bundle'', ''hook'', ''sentinel'']"

definition MAX_PAYLOAD :: nat where "MAX_PAYLOAD = 8 * 1024 * 1024"

definition entry_hash :: "audit_codec \<Rightarrow> jv \<Rightarrow> string" where
  "entry_hash ac e = au_sha ac (au_canonical ac e)"

record anchor =
  an_head :: string
  an_seq :: int
  an_ts_ms :: int
  an_key :: string
  an_sig :: string

definition anchor_body :: "audit_codec \<Rightarrow> anchor \<Rightarrow> bytes" where
  "anchor_body ac a = au_canonical ac (JObj
     [(''chain_head'', JStr (an_head a)), (''key_id'', JStr (an_key a)), (''seq'', JInt (an_seq a)),
      (''ts_ms'', JInt (an_ts_ms a))])"

section \<open>The sequencer\<close>

record sequencer =
  sq_lines :: "jv list" \<comment> \<open>the chain file\<close>
  sq_payloads :: "(string \<times> bytes) list" \<comment> \<open>the payload directory\<close>
  sq_anchors :: "anchor list" \<comment> \<open>the external anchor store\<close>
  sq_seq :: int
  sq_head :: string
  sq_last_anchor_ts :: "jv option"
  sq_daemon_last :: "(jv \<times> jv) option" \<comment> \<open>\<^verbatim>\<open>seq\<close> and \<^verbatim>\<open>head\<close>\<close>
  sq_integrity_error :: "nat option" \<comment> \<open>the broken line\<close>

definition entry_json :: "int \<Rightarrow> rat \<Rightarrow> string \<Rightarrow> string \<Rightarrow> string \<Rightarrow> jv \<Rightarrow> params \<Rightarrow> string option \<Rightarrow> jv" where
  "entry_json seq ts prev actor event eid data ref = JObj
     [(''actor'', JStr actor), (''data'', JObj data), (''episode_id'', eid), (''event'', JStr event),
      (''payload_ref'', case ref of None \<Rightarrow> JNull | Some r \<Rightarrow> JStr r), (''prev'', JStr prev), (''seq'', JInt seq),
      (''ts'', JFloat ts)]"

record receipt =
  rt_seq :: int
  rt_hash :: string
  rt_payload_ref :: "string option"

text \<open>\<^verbatim>\<open>_append\<close> at the clock reading \<open>t\<close>.\<close>

definition seq_append ::
  "audit_codec \<Rightarrow> rat \<Rightarrow> string \<Rightarrow> string \<Rightarrow> jv \<Rightarrow> params \<Rightarrow> string option \<Rightarrow> sequencer \<Rightarrow> receipt \<times> sequencer" where
  "seq_append ac t actor event eid data ref s =
     (let e = entry_json (sq_seq s + 1) t (sq_head s) actor event eid data ref in
      (\<lparr>rt_seq = sq_seq s + 1, rt_hash = entry_hash ac e, rt_payload_ref = ref\<rparr>,
       s\<lparr>sq_lines := sq_lines s @ [e], sq_seq := sq_seq s + 1, sq_head := entry_hash ac e\<rparr>))"

definition store_payload :: "audit_codec \<Rightarrow> bytes \<Rightarrow> sequencer \<Rightarrow> (string \<times> sequencer) result" where
  "store_payload ac raw s =
     (if MAX_PAYLOAD < length raw then Inl (RpcError ''too_large'')
      else let h = au_sha ac raw in
        Inr (''sha256:'' @ h,
             if map_of (sq_payloads s) h = None then s\<lparr>sq_payloads := sq_payloads s @ [(h, raw)]\<rparr> else s))"

text \<open>\<^verbatim>\<open>base64.b64decode\<close>: characters outside the standard alphabet are skipped.\<close>

definition b64decode :: "jv \<Rightarrow> bytes result" where
  "b64decode v =
     (case v of
        JStr s \<Rightarrow>
          if list_all (\<lambda>c. (of_char c :: nat) < 128) s
          then (case a2b_base64 0 0 0 (filter (\<lambda>c. c \<noteq> CHR ''-'' \<and> c \<noteq> CHR ''_'') s) of
                  None \<Rightarrow> Inl (PyError ''Error'') | Some bs \<Rightarrow> Inr bs)
          else Inl (PyError ''ValueError'')
      | _ \<Rightarrow> Inl (PyError ''TypeError''))"

definition submit_payload :: "audit_codec \<Rightarrow> params \<Rightarrow> sequencer \<Rightarrow> (string option \<times> sequencer) result" where
  "submit_payload ac p s =
     (if pget p ''payload_b64'' \<noteq> JNull
      then rbind (b64decode (pget p ''payload_b64'')) (\<lambda>raw.
             rbind (store_payload ac raw s) (\<lambda>(ref, s'). Inr (Some ref, s')))
      else if pget p ''payload_json'' \<noteq> JNull
      then rbind (store_payload ac (au_canonical ac (pget p ''payload_json'')) s) (\<lambda>(ref, s'). Inr (Some ref, s'))
      else Inr (None, s))"

definition submit :: "audit_codec \<Rightarrow> rat \<Rightarrow> string \<Rightarrow> params \<Rightarrow> sequencer \<Rightarrow> (receipt \<times> sequencer) result" where
  "submit ac t actor p s =
     (if \<not> hashable (pget p ''event'') then Inl (PyError ''TypeError'')
      else if pget p ''event'' \<notin> JStr ` set EVENTS then Inl (RpcError ''invalid'')
      else case (if truthy (pget p ''data'') then pget p ''data'' else JObj []) of
          JObj data \<Rightarrow>
            rbind (submit_payload ac p s) (\<lambda>(ref, s').
              Inr (seq_append ac t actor (str_of (pget p ''event'')) (pget p ''episode_id'') data ref s'))
        | _ \<Rightarrow> Inl (RpcError ''invalid''))"

text \<open>
  \<^verbatim>\<open>anchor_now\<close>: the anchor names the head that was read; \<^verbatim>\<open>put\<close> may raise, and then nothing is
  recorded.
\<close>

definition signed_anchor :: "audit_codec \<Rightarrow> rat \<Rightarrow> int \<Rightarrow> string \<Rightarrow> anchor" where
  "signed_anchor ac t seq head =
     (let a = \<lparr>an_head = head, an_seq = seq, an_ts_ms = \<lfloor>t * 1000\<rfloor>, an_key = au_key_id ac, an_sig = []\<rparr> in
      a\<lparr>an_sig := b64u (au_sign ac (anchor_body ac a))\<rparr>)"

definition anchor_write ::
  "audit_codec \<Rightarrow> rat \<Rightarrow> bool \<Rightarrow> int \<Rightarrow> string \<Rightarrow> sequencer \<Rightarrow> (anchor \<times> sequencer) result" where
  "anchor_write ac t put_ok seq head s =
     (if \<not> put_ok then Inl (PyError ''OSError'')
      else let a = signed_anchor ac t seq head;
               s1 = s\<lparr>sq_anchors := sq_anchors s @ [a], sq_last_anchor_ts := Some (JFloat t)\<rparr>
           in Inr (a, snd (seq_append ac t ''audit_sequencer'' ''anchor'' JNull
                         [(''anchored_seq'', JInt seq), (''chain_head'', JStr head)] None s1)))"

definition anchor_now :: "audit_codec \<Rightarrow> rat \<Rightarrow> bool \<Rightarrow> sequencer \<Rightarrow> (anchor \<times> sequencer) result" where
  "anchor_now ac t put_ok s = anchor_write ac t put_ok (sq_seq s) (sq_head s) s"

section \<open>Checkpoints of the observer daemon\<close>

definition CKPT_FIELDS :: "string list" where
  "CKPT_FIELDS = [''seq'', ''head'', ''ts'', ''since_seq'', ''since_head'']"

definition ckpt_body :: "audit_codec \<Rightarrow> params \<Rightarrow> bytes" where
  "ckpt_body ac ck = au_canonical ac (JObj (map (\<lambda>k. (k, pget ck k)) CKPT_FIELDS))"

text \<open>\<^verbatim>\<open>ckpt["seq"] < last["seq"]\<close>: numbers compare, anything else raises.\<close>

definition num_less :: "jv \<Rightarrow> jv \<Rightarrow> bool result" where
  "num_less a b = (case (num_of a, num_of b) of (Some x, Some y) \<Rightarrow> Inr (x < y) | _ \<Rightarrow> Inl (PyError ''TypeError''))"

definition dget :: "params \<Rightarrow> string \<Rightarrow> jv result" where
  "dget d k = (case map_of d k of None \<Rightarrow> Inl (PyError ''KeyError'') | Some v \<Rightarrow> Inr v)"

definition ckpt_problem :: "(jv \<times> jv) option \<Rightarrow> params \<Rightarrow> string option result" where
  "ckpt_problem prior ck =
     (case prior of
        None \<Rightarrow> Inr None
      | Some (lseq, lhead) \<Rightarrow>
          rbind (dget ck ''seq'') (\<lambda>sq. rbind (num_less sq lseq) (\<lambda>lt.
            if lt then Inr (Some ''daemon chain truncated'')
            else if \<not> py_eq (pget ck ''since_seq'') lseq \<or> \<not> py_eq (pget ck ''since_head'') lhead
            then Inr (Some ''daemon chain rewritten'')
            else Inr None)))"

text \<open>
  \<^verbatim>\<open>record_daemon_checkpoint\<close>. The two appends of a refused checkpoint stay in the chain although the
  call raises, so the result carries the new state with the error.
\<close>

definition record_daemon_checkpoint ::
  "audit_codec \<Rightarrow> rat \<Rightarrow> string \<Rightarrow> params \<Rightarrow> sequencer \<Rightarrow> receipt result \<times> sequencer" where
  "record_daemon_checkpoint ac t actor ck s =
     (case au_daemon_verify ac of
        None \<Rightarrow> (Inl (RpcError ''unavailable''), s)
      | Some vf \<Rightarrow>
          (case pget_default ck ''sig'' (JStr []) of
             JStr g \<Rightarrow>
               (case b64u_dec g of
                  None \<Rightarrow> (Inl (PyError ''Error''), s)
                | Some raw \<Rightarrow>
                    if \<not> vf raw (ckpt_body ac ck)
                    then (Inl (RpcError ''integrity''), snd (seq_append ac t actor ''integrity_fail'' JNull
                            [(''what'', JStr ''daemon checkpoint signature invalid'')] None s))
                    else (case rbind (ckpt_problem (sq_daemon_last s) ck) (\<lambda>problem.
                                rbind (dget ck ''seq'') (\<lambda>sq. rbind (dget ck ''head'') (\<lambda>hh. Inr (problem, sq, hh)))) of
                            Inl e \<Rightarrow> (Inl e, s)
                          | Inr (problem, sq, hh) \<Rightarrow>
                              (let data = [(''seq'', sq), (''head'', hh), (''accepted'', JBool (problem = None))] in
                               case problem of
                                 Some pr \<Rightarrow>
                                   (Inl (RpcError ''integrity''),
                                    snd (seq_append ac t actor ''observe_checkpoint'' JNull (data @ [(''problem'', JStr pr)]) None
                                      (snd (seq_append ac t actor ''integrity_fail'' JNull [(''what'', JStr pr)] None s))))
                               | None \<Rightarrow>
                                   (let (r, s') = seq_append ac t actor ''observe_checkpoint'' JNull data None
                                          (s\<lparr>sq_daemon_last := Some (sq, hh)\<rparr>)
                                    in (Inr r, s')))))
           | _ \<Rightarrow> (Inl (PyError ''TypeError''), s)))"

section \<open>Loading\<close>

text \<open>
  \<^verbatim>\<open>_load\<close> on the lines of the file. A line that is no object, or lacks a field that is read, raises
  and the sequencer does not start; a \<^verbatim>\<open>seq\<close> that is no integer is refused here (the code fails at
  the next append).
\<close>

definition load_event :: "params \<Rightarrow> sequencer \<Rightarrow> sequencer result" where
  "load_event d s =
     rbind (dget d ''event'') (\<lambda>ev.
       if ev = JStr ''anchor'' then rbind (dget d ''ts'') (\<lambda>ts. Inr (s\<lparr>sq_last_anchor_ts := Some ts\<rparr>))
       else if ev = JStr ''observe_checkpoint'' then
         rbind (dget d ''data'') (\<lambda>dv.
           case dv of
             JObj data \<Rightarrow>
               if truthy (pget data ''accepted'')
               then rbind (dget data ''seq'') (\<lambda>q. rbind (dget data ''head'') (\<lambda>h.
                      Inr (s\<lparr>sq_daemon_last := Some (q, h)\<rparr>)))
               else Inr s
           | _ \<Rightarrow> Inl (PyError ''AttributeError''))
       else Inr s)"

definition load_line :: "audit_codec \<Rightarrow> nat \<Rightarrow> jv \<Rightarrow> sequencer \<Rightarrow> sequencer result" where
  "load_line ac n e s =
     (case e of
        JObj d \<Rightarrow>
          rbind (dget d ''prev'') (\<lambda>prev. rbind (dget d ''seq'') (\<lambda>sq.
            case sq of
              JInt i \<Rightarrow>
                load_event d
                  ((if prev \<noteq> JStr (sq_head s) \<or> i \<noteq> int n then s\<lparr>sq_integrity_error := Some n\<rparr> else s)
                    \<lparr>sq_head := entry_hash ac e, sq_seq := i\<rparr>)
            | _ \<Rightarrow> Inl (PyError ''TypeError'')))
      | _ \<Rightarrow> Inl (PyError ''TypeError''))"

fun load_lines :: "audit_codec \<Rightarrow> nat \<Rightarrow> jv list \<Rightarrow> sequencer \<Rightarrow> sequencer result" where
  "load_lines ac n [] s = Inr s"
| "load_lines ac n (e # es) s = rbind (load_line ac n e s) (load_lines ac (Suc n) es)"

definition empty_sequencer :: "jv list \<Rightarrow> (string \<times> bytes) list \<Rightarrow> anchor list \<Rightarrow> sequencer" where
  "empty_sequencer lines payloads anchors =
     \<lparr>sq_lines = lines, sq_payloads = payloads, sq_anchors = anchors, sq_seq = 0, sq_head = GENESIS,
      sq_last_anchor_ts = None, sq_daemon_last = None, sq_integrity_error = None\<rparr>"

definition load_sequencer :: "audit_codec \<Rightarrow> sequencer \<Rightarrow> sequencer result" where
  "load_sequencer ac s =
     load_lines ac 1 (sq_lines s) (empty_sequencer (sq_lines s) (sq_payloads s) (sq_anchors s))"

section \<open>Verification of the chain\<close>

datatype chain_error =
    Unparseable nat
  | Seq_mismatch nat
  | Prev_broken nat
  | Anchor_signature int
  | Anchor_truncation int
  | Anchor_rewrite int

text \<open>The walk over the lines: \<^term>\<open>None\<close> is a line that does not parse. The hashes are in order.\<close>

fun walk :: "audit_codec \<Rightarrow> nat \<Rightarrow> string \<Rightarrow> jv option list \<Rightarrow> (chain_error list \<times> string list) result" where
  "walk ac n prev [] = Inr ([], [])"
| "walk ac n prev (None # ls) = Inr ([Unparseable n], [])"
| "walk ac n prev (Some e # ls) =
     (case e of
        JObj d \<Rightarrow>
          rbind (walk ac (Suc n) (entry_hash ac e) ls) (\<lambda>(errs, hs).
            Inr ((if py_eq (pget d ''seq'') (JInt (int n)) then [] else [Seq_mismatch n]) @
                 (if pget d ''prev'' = JStr prev then [] else [Prev_broken n]) @ errs, entry_hash ac e # hs))
      | _ \<Rightarrow> Inl (PyError ''AttributeError''))"

type_synonym anchor_keys = "(string \<times> (bytes \<Rightarrow> bytes \<Rightarrow> bool)) list"

definition anchor_sig_ok :: "audit_codec \<Rightarrow> anchor_keys \<Rightarrow> anchor \<Rightarrow> bool result" where
  "anchor_sig_ok ac keys a =
     (case map_of keys (an_key a) of
        None \<Rightarrow> Inr False
      | Some vf \<Rightarrow> (case b64u_dec (an_sig a) of None \<Rightarrow> Inl (PyError ''Error'')
                    | Some raw \<Rightarrow> Inr (vf raw (anchor_body ac a))))"

fun check_anchors :: "audit_codec \<Rightarrow> anchor_keys \<Rightarrow> string list \<Rightarrow> anchor list \<Rightarrow> chain_error list result" where
  "check_anchors ac keys hs [] = Inr []"
| "check_anchors ac keys hs (a # as) =
     rbind (anchor_sig_ok ac keys a) (\<lambda>ok. rbind (check_anchors ac keys hs as) (\<lambda>errs.
       Inr ((if \<not> ok then [Anchor_signature (an_seq a)]
             else if an_seq a = 0 then []
             else if int (length hs) < an_seq a then [Anchor_truncation (an_seq a)]
             else if 0 < an_seq a \<and> hs ! nat (an_seq a - 1) = an_head a then []
             else [Anchor_rewrite (an_seq a)]) @ errs)))"

record chain_report =
  ch_entries :: nat
  ch_head :: string
  ch_errors :: "chain_error list"
  ch_newest_anchor_seq :: "int option"

fun newest_anchor :: "audit_codec \<Rightarrow> anchor_keys \<Rightarrow> int option \<Rightarrow> anchor list \<Rightarrow> int option" where
  "newest_anchor ac keys acc [] = acc"
| "newest_anchor ac keys acc (a # as) =
     newest_anchor ac keys (if anchor_sig_ok ac keys a = Inr True \<and> an_seq a \<noteq> 0 then Some (an_seq a) else acc) as"

definition verify_chain :: "audit_codec \<Rightarrow> anchor_keys \<Rightarrow> anchor list \<Rightarrow> jv option list \<Rightarrow> chain_report result" where
  "verify_chain ac keys anchors ls =
     rbind (walk ac 1 GENESIS ls) (\<lambda>(errs, hs).
       rbind (check_anchors ac keys hs (sort_key an_seq anchors)) (\<lambda>aerrs.
         Inr \<lparr>ch_entries = length hs, ch_head = (if hs = [] then GENESIS else last hs), ch_errors = errs @ aerrs,
              ch_newest_anchor_seq = newest_anchor ac keys None (sort_key an_seq anchors)\<rparr>))"

section \<open>Chain facts\<close>

text \<open>A chain of lines whose links and numbers fit, from the hash before it.\<close>

fun linked :: "audit_codec \<Rightarrow> nat \<Rightarrow> string \<Rightarrow> jv list \<Rightarrow> bool" where
  "linked ac n prev [] = True"
| "linked ac n prev (e # es) =
     ((\<exists>d. e = JObj d \<and> pget d ''prev'' = JStr prev \<and> py_eq (pget d ''seq'') (JInt (int n))) \<and>
      linked ac (Suc n) (entry_hash ac e) es)"

fun head_of :: "audit_codec \<Rightarrow> string \<Rightarrow> jv list \<Rightarrow> string" where
  "head_of ac prev [] = prev"
| "head_of ac prev (e # es) = head_of ac (entry_hash ac e) es"

lemma head_of_snoc [simp]: "head_of ac prev (es @ [e]) = entry_hash ac e"
  by (induction es arbitrary: prev) auto

lemma linked_snoc:
  "linked ac n prev (es @ [e]) \<longleftrightarrow> linked ac n prev es \<and>
     (\<exists>d. e = JObj d \<and> pget d ''prev'' = JStr (head_of ac prev es) \<and> py_eq (pget d ''seq'') (JInt (int (n + length es))))"
  by (induction es arbitrary: n prev) (auto simp: add.assoc)

lemma walk_linked:
  "walk ac n prev ls = Inr ([], hs) \<Longrightarrow> \<exists>es. ls = map Some es \<and> linked ac n prev es \<and> hs = map (entry_hash ac) es"
proof (induction ac n prev ls arbitrary: hs rule: walk.induct)
  case (3 ac n prev e ls)
  from "3.prems" obtain d hs' where e: "e = JObj d" and w: "walk ac (Suc n) (entry_hash ac e) ls = Inr ([], hs')"
    and d: "py_eq (pget d ''seq'') (JInt (int n))" "pget d ''prev'' = JStr prev" and hs: "hs = entry_hash ac e # hs'"
    by (auto split: jv.splits if_splits)
  from "3.IH" [OF e w] obtain es where "ls = map Some es" "linked ac (Suc n) (entry_hash ac e) es" "hs' = map (entry_hash ac) es"
    by blast
  with e d hs show ?case by (intro exI [of _ "e # es"]) auto
qed auto

lemma walk_complete: "linked ac n prev es \<Longrightarrow> walk ac n prev (map Some es) = Inr ([], map (entry_hash ac) es)"
  by (induction es arbitrary: n prev) (auto simp: rbind_simps)

definition hash_collision :: "audit_codec \<Rightarrow> bool" where
  "hash_collision ac = (\<exists>x y. x \<noteq> y \<and> entry_hash ac x = entry_hash ac y)"

text \<open>The chain file is a hash chain whose entries carry their number.\<close>

fun json_prev :: "jv \<Rightarrow> string option" where
  "json_prev (JObj d) = (case pget d ''prev'' of JStr h \<Rightarrow> Some h | _ \<Rightarrow> None)"
| "json_prev _ = None"

fun json_fits :: "nat \<Rightarrow> jv \<Rightarrow> bool" where
  "json_fits n (JObj d) = py_eq (pget d ''seq'') (JInt (int (Suc n)))"
| "json_fits n _ = False"

type_synonym submission = "rat \<times> string \<times> string \<times> jv \<times> params \<times> string option"

fun next_json :: "submission \<Rightarrow> nat \<Rightarrow> string \<Rightarrow> jv" where
  "next_json (t, actor, event, eid, data, ref) n h = entry_json (int (Suc n)) t h actor event eid data ref"

interpretation chain: hash_chain "entry_hash ac" json_prev json_fits GENESIS next_json "\<lambda>_. True" for ac
  by unfold_locales (auto simp: entry_json_def pget_def)

lemma head_of_chain: "head_of ac GENESIS es = chain.head ac es"
  by (cases es rule: rev_cases) simp_all

lemma linked_chain: "linked ac 1 GENESIS es \<longleftrightarrow> chain.chained ac es"
  by (induction es rule: rev_induct) (auto simp: linked_snoc head_of_chain split: jv.splits elim!: json_prev.elims)

section \<open>Runs of the sequencer\<close>

text \<open>
  Calls on the sockets, an anchor of a head that was read at any earlier time, and restarts.
\<close>

inductive seq_step :: "audit_codec \<Rightarrow> sequencer \<Rightarrow> sequencer \<Rightarrow> bool" for ac where
  step_submit: "submit ac t actor p s = Inr (r, s') \<Longrightarrow> seq_step ac s s'"
| step_anchor: "k \<le> length (sq_lines s) \<Longrightarrow>
     anchor_write ac t ok (int k) (head_of ac GENESIS (take k (sq_lines s))) s = Inr (a, s') \<Longrightarrow> seq_step ac s s'"
| step_checkpoint: "record_daemon_checkpoint ac t actor ck s = (r, s') \<Longrightarrow> seq_step ac s s'"
| step_load: "load_sequencer ac s = Inr s' \<Longrightarrow> seq_step ac s s'"

definition anchor_good :: "audit_codec \<Rightarrow> jv list \<Rightarrow> anchor \<Rightarrow> bool" where
  "anchor_good ac es a =
     (0 \<le> an_seq a \<and> nat (an_seq a) \<le> length es \<and> an_head a = head_of ac GENESIS (take (nat (an_seq a)) es) \<and>
      an_key a = au_key_id ac \<and> an_sig a = b64u (au_sign ac (anchor_body ac a)))"

definition seq_inv :: "audit_codec \<Rightarrow> sequencer \<Rightarrow> bool" where
  "seq_inv ac s =
     (sq_seq s = int (length (sq_lines s)) \<and> sq_head s = head_of ac GENESIS (sq_lines s) \<and>
      linked ac 1 GENESIS (sq_lines s) \<and> list_all (anchor_good ac (sq_lines s)) (sq_anchors s) \<and>
      sq_integrity_error s = None \<and> list_all (\<lambda>e. \<exists>d i. e = JObj d \<and> map_of d ''seq'' = Some (JInt i)) (sq_lines s))"

lemma seq_append_eff:
  "sq_lines (snd (seq_append ac t actor event eid data ref s)) =
     sq_lines s @ [entry_json (sq_seq s + 1) t (sq_head s) actor event eid data ref]"
  "sq_anchors (snd (seq_append ac t actor event eid data ref s)) = sq_anchors s"
  "sq_payloads (snd (seq_append ac t actor event eid data ref s)) = sq_payloads s"
  "fst (seq_append ac t actor event eid data ref s) =
     \<lparr>rt_seq = sq_seq s + 1, rt_hash = sq_head (snd (seq_append ac t actor event eid data ref s)), rt_payload_ref = ref\<rparr>"
  by (simp_all add: seq_append_def Let_def)

lemma anchor_good_snoc: "anchor_good ac es a \<Longrightarrow> anchor_good ac (es @ [e]) a"
  by (simp add: anchor_good_def)

lemma seq_append_inv:
  assumes "seq_inv ac s" shows "seq_inv ac (snd (seq_append ac t actor event eid data ref s))"
proof -
  have "list_all (anchor_good ac (sq_lines s @ [e])) (sq_anchors s)" for e
    using assms anchor_good_snoc by (auto simp: seq_inv_def list_all_iff)
  with assms show ?thesis
    by (simp add: seq_inv_def seq_append_def Let_def linked_snoc entry_json_def pget_def)
qed

lemma seq_inv_frame [simp]:
  "seq_inv ac (s\<lparr>sq_payloads := ps\<rparr>) = seq_inv ac s" "seq_inv ac (s\<lparr>sq_daemon_last := d\<rparr>) = seq_inv ac s"
  "seq_inv ac (s\<lparr>sq_last_anchor_ts := l\<rparr>) = seq_inv ac s"
  by (simp_all add: seq_inv_def)

lemma submit_payload_eff:
  assumes "submit_payload ac p s = Inr (ref, s')" shows "\<exists>ps. s' = s\<lparr>sq_payloads := ps\<rparr>"
proof -
  have st: "\<exists>ps. s1 = s\<lparr>sq_payloads := ps\<rparr>" if "store_payload ac raw s = Inr (h, s1)" for raw h s1
    using that by (auto simp: store_payload_def Let_def split: if_splits intro: exI [of _ "sq_payloads s"])
  show ?thesis
  proof (cases "pget p ''payload_b64'' = JNull \<and> pget p ''payload_json'' = JNull")
    case True
    with assms have "s' = s\<lparr>sq_payloads := sq_payloads s\<rparr>" by (simp add: submit_payload_def)
    then show ?thesis ..
  next
    case False
    with assms st show ?thesis by (auto simp: submit_payload_def split: if_splits)
  qed
qed

lemma submit_eff:
  assumes "submit ac t actor p s = Inr (r, s')"
  obtains ps ref data where "pget p ''event'' \<in> JStr ` set EVENTS"
    "seq_append ac t actor (str_of (pget p ''event'')) (pget p ''episode_id'') data ref (s\<lparr>sq_payloads := ps\<rparr>) = (r, s')"
proof -
  from assms obtain data ref s1 where ev: "pget p ''event'' \<in> JStr ` set EVENTS"
    and pl: "submit_payload ac p s = Inr (ref, s1)"
    and r: "seq_append ac t actor (str_of (pget p ''event'')) (pget p ''episode_id'') data ref s1 = (r, s')"
    by (auto simp: submit_def split: jv.splits if_splits)
  from submit_payload_eff [OF pl] r that ev show ?thesis by blast
qed

lemma signed_anchor_good:
  "k \<le> length es \<Longrightarrow> anchor_good ac es (signed_anchor ac t (int k) (head_of ac GENESIS (take k es)))"
  by (simp add: anchor_good_def signed_anchor_def Let_def anchor_body_def)

lemma anchor_write_inv:
  assumes "seq_inv ac s" "k \<le> length (sq_lines s)"
    "anchor_write ac t ok (int k) (head_of ac GENESIS (take k (sq_lines s))) s = Inr (a, s')"
  shows "seq_inv ac s'"
proof -
  let ?a = "signed_anchor ac t (int k) (head_of ac GENESIS (take k (sq_lines s)))"
  have "seq_inv ac (s\<lparr>sq_anchors := sq_anchors s @ [?a], sq_last_anchor_ts := Some (JFloat t)\<rparr>)"
    using assms(1) signed_anchor_good [OF assms(2)] by (simp add: seq_inv_def)
  from seq_append_inv [OF this] assms(3) show ?thesis by (auto simp: anchor_write_def Let_def split: if_splits)
qed

text \<open>Whatever a checkpoint call answers, it has appended zero, one or two entries.\<close>

lemma record_daemon_checkpoint_cases:
  assumes "record_daemon_checkpoint ac t actor ck s = (r, s')"
  shows "s' = s \<or> (\<exists>ev data. s' = snd (seq_append ac t actor ev JNull data None s)) \<or>
    (\<exists>ev data ev' data'. s' = snd (seq_append ac t actor ev' JNull data' None (snd (seq_append ac t actor ev JNull data None s)))) \<or>
    (\<exists>ev data d. s' = snd (seq_append ac t actor ev JNull data None (s\<lparr>sq_daemon_last := d\<rparr>)))"
  using assms
  by (simp add: record_daemon_checkpoint_def Let_def case_prod_beta split: option.splits jv.splits if_splits sum.splits) blast+

lemma record_daemon_checkpoint_inv:
  assumes "seq_inv ac s" "record_daemon_checkpoint ac t actor ck s = (r, s')"
  shows "seq_inv ac s'"
  using record_daemon_checkpoint_cases [OF assms(2)] seq_append_inv assms(1) by (metis seq_inv_frame(2))

text \<open>Loading a linked chain, when it succeeds, recovers the sequence number and the head.\<close>

lemma load_event_eff:
  assumes "load_event d s = Inr s'" shows "\<exists>l dl. s' = s\<lparr>sq_last_anchor_ts := l, sq_daemon_last := dl\<rparr>"
proof -
  have "s' = s \<or> (\<exists>l. s' = s\<lparr>sq_last_anchor_ts := l\<rparr>) \<or> (\<exists>dl. s' = s\<lparr>sq_daemon_last := dl\<rparr>)"
    using assms by (cases "dget d ''event''"; cases "dget d ''data''") (auto simp: load_event_def rbind_simps(2) split: if_splits jv.splits)
  moreover have "s = s\<lparr>sq_last_anchor_ts := sq_last_anchor_ts s, sq_daemon_last := sq_daemon_last s\<rparr>"
    "s\<lparr>sq_last_anchor_ts := l\<rparr> = s\<lparr>sq_last_anchor_ts := l, sq_daemon_last := sq_daemon_last s\<rparr>"
    "s\<lparr>sq_daemon_last := dl\<rparr> = s\<lparr>sq_last_anchor_ts := sq_last_anchor_ts s, sq_daemon_last := dl\<rparr>" for l dl
    by simp_all
  ultimately show ?thesis by metis
qed

lemma load_line_eff:
  assumes "load_line ac n (JObj d) s = Inr s'" "pget d ''prev'' = JStr (sq_head s)" "map_of d ''seq'' = Some (JInt (int n))"
  shows "sq_seq s' = int n" "sq_head s' = entry_hash ac (JObj d)" "sq_integrity_error s' = sq_integrity_error s"
    "sq_lines s' = sq_lines s" "sq_anchors s' = sq_anchors s"
proof -
  have prev: "map_of d ''prev'' = Some (JStr (sq_head s))" using assms(2) by (auto simp: pget_def split: option.splits)
  have "load_event d (s\<lparr>sq_head := entry_hash ac (JObj d), sq_seq := int n\<rparr>) = Inr s'"
    using assms(1) by (simp add: load_line_def dget_def prev assms(3) rbind_simps)
  from load_event_eff [OF this] show "sq_seq s' = int n" "sq_head s' = entry_hash ac (JObj d)"
    "sq_integrity_error s' = sq_integrity_error s" "sq_lines s' = sq_lines s" "sq_anchors s' = sq_anchors s"
    by auto
qed

lemma load_lines_eff:
  assumes "load_lines ac n es s = Inr s'" "linked ac n (sq_head s) es"
    "list_all (\<lambda>e. \<exists>d i. e = JObj d \<and> map_of d ''seq'' = Some (JInt i)) es" "sq_seq s = int n - 1"
  shows "sq_seq s' = int n - 1 + int (length es) \<and> sq_head s' = head_of ac (sq_head s) es \<and>
    sq_integrity_error s' = sq_integrity_error s \<and> sq_lines s' = sq_lines s \<and> sq_anchors s' = sq_anchors s"
  using assms
proof (induction es arbitrary: n s)
  case (Cons e es)
  then obtain d where e: "e = JObj d" "pget d ''prev'' = JStr (sq_head s)" "map_of d ''seq'' = Some (JInt (int n))"
    by (auto simp: pget_def)
  from Cons.prems(1) obtain s1 where s1: "load_line ac n e s = Inr s1" "load_lines ac (Suc n) es s1 = Inr s'" by auto
  note eff = load_line_eff [OF s1(1) [unfolded e(1)] e(2,3)]
  have "linked ac (Suc n) (sq_head s1) es" using Cons.prems(2) eff(2) e(1) by simp
  from Cons.IH [OF s1(2) this] Cons.prems(3) eff show ?case by (simp add: e(1))
qed simp

lemma load_sequencer_inv:
  assumes "seq_inv ac s" "load_sequencer ac s = Inr s'" shows "seq_inv ac s'"
  using load_lines_eff [OF assms(2) [unfolded load_sequencer_def]] assms(1)
  by (simp add: seq_inv_def empty_sequencer_def)

lemma seq_step_inv: "seq_step ac s s' \<Longrightarrow> seq_inv ac s \<Longrightarrow> seq_inv ac s'"
proof (induction rule: seq_step.induct)
  case (step_submit t actor p s r s')
  from step_submit(1) show ?case
    by (rule submit_eff) (metis seq_append_inv seq_inv_frame(1) snd_conv step_submit(2))
next
  case (step_anchor k s t ok a s')
  then show ?case using anchor_write_inv by blast
next
  case (step_checkpoint t actor ck s r s')
  then show ?case using record_daemon_checkpoint_inv by blast
next
  case (step_load s s')
  then show ?case using load_sequencer_inv by blast
qed

abbreviation fresh_sequencer :: sequencer where "fresh_sequencer \<equiv> empty_sequencer [] [] []"

lemma seq_run_inv: "(seq_step ac)\<^sup>*\<^sup>* fresh_sequencer s \<Longrightarrow> seq_inv ac s"
proof (induction rule: rtranclp_induct)
  case base
  show ?case by (simp add: seq_inv_def empty_sequencer_def)
qed (rule seq_step_inv)

end
