(* ===== verification/Audit_Client.thy ===== *)
theory Audit_Client
  imports Sequencer
begin

text \<open>
  \<^verbatim>\<open>valops/audit/client.py\<close>: the submitting side, with its buffer, and \<^verbatim>\<open>valops/observer/chain.py\<close>: the
  hash chain of the validator host. The server a client talks to is a function of its state; an
  outage is the error \<open>unavailable\<close>.
\<close>

section \<open>The buffering client\<close>

type_synonym 'st server = "'st \<Rightarrow> params \<Rightarrow> (jv \<times> 'st) result"

record client =
  cl_q :: "params list"
  cl_dropped :: nat
  cl_buffer :: bool
  cl_max :: nat

definition client_params :: "string \<Rightarrow> jv \<Rightarrow> params option \<Rightarrow> (bytes + jv) option \<Rightarrow> (bytes \<Rightarrow> string) \<Rightarrow> params" where
  "client_params event eid data payload b64 =
     [(''event'', JStr event), (''episode_id'', eid), (''data'', JObj (case data of None \<Rightarrow> [] | Some d \<Rightarrow> d))] @
     (case payload of None \<Rightarrow> []
      | Some (Inl raw) \<Rightarrow> [(''payload_b64'', JStr (b64 raw))]
      | Some (Inr v) \<Rightarrow> if v = JNull then [] else [(''payload_json'', v)])"

text \<open>\<^verbatim>\<open>flush\<close>: the queue is sent in order; the first failure ends it with the rest still queued.\<close>

fun flush :: "'st server \<Rightarrow> params list \<Rightarrow> 'st \<Rightarrow> unit result \<times> params list \<times> 'st" where
  "flush srv [] st = (Inr (), [], st)"
| "flush srv (p # ps) st =
     (case srv st p of Inl e \<Rightarrow> (Inl e, p # ps, st) | Inr (_, st') \<Rightarrow> flush srv ps st')"

text \<open>A full \<^verbatim>\<open>deque(maxlen=...)\<close> loses its oldest element on \<^verbatim>\<open>append\<close>.\<close>

definition deque_append :: "nat \<Rightarrow> params list \<Rightarrow> params \<Rightarrow> params list" where
  "deque_append n q p = (let q' = q @ [p] in drop (length q' - n) q')"

definition client_submit :: "'st server \<Rightarrow> params \<Rightarrow> client \<Rightarrow> 'st \<Rightarrow> jv result \<times> client \<times> 'st" where
  "client_submit srv p c st =
     (let (r, q, st1) = flush srv (cl_q c) st;
          r' = rbind r (\<lambda>_. srv st1 p)
      in case r' of
           Inr (v, st2) \<Rightarrow> (Inr v, c\<lparr>cl_q := q\<rparr>, st2)
         | Inl e \<Rightarrow>
             if \<not> cl_buffer c \<or> e \<noteq> RpcError ''unavailable'' then (Inl e, c\<lparr>cl_q := q\<rparr>, st1)
             else let q' = deque_append (cl_max c) q p in
               (Inr (JObj [(''pending'', JBool True), (''queued'', JInt (int (length q')))]),
                c\<lparr>cl_q := q', cl_dropped := cl_dropped c + (if length q = cl_max c then 1 else 0)\<rparr>, st1))"

definition client_ref :: "jv \<Rightarrow> string" where
  "client_ref v =
     (case v of
        JObj d \<Rightarrow> (case map_of d ''seq'' of Some (JInt i) \<Rightarrow> ''audit:'' @ int_str i | _ \<Rightarrow> ''audit:pending'')
      | _ \<Rightarrow> ''audit:pending'')"

section \<open>Order of the buffered entries\<close>

lemma flush_order:
  assumes "\<And>st p v st'. srv st p = Inr (v, st') \<Longrightarrow> lg st' = lg st @ [p]"
    and "flush srv q st = (r, q', st')"
  shows "lg st' @ q' = lg st @ q \<and> length q' \<le> length q"
  using assms(2)
proof (induction q arbitrary: st)
  case (Cons p ps)
  show ?case
  proof (cases "srv st p")
    case (Inl e)
    with Cons.prems show ?thesis by simp
  next
    case (Inr a)
    obtain v st1 where a: "a = (v, st1)" by (cases a)
    with Inr Cons.prems have "flush srv ps st1 = (r, q', st')" by simp
    from Cons.IH [OF this] assms(1) [OF Inr [unfolded a]] show ?thesis by simp
  qed
qed simp

lemma flush_ok: "flush srv q st = (Inr u, q', st') \<Longrightarrow> q' = []"
proof (induction q arbitrary: st)
  case (Cons p ps)
  then show ?case by (cases "srv st p") auto
qed simp

lemma flush_error:
  assumes "\<And>st p e. srv st p = Inl e \<Longrightarrow> P e" shows "flush srv q st = (Inl e, q', st') \<Longrightarrow> P e"
proof (induction q arbitrary: st)
  case (Cons p ps)
  then show ?case using assms by (cases "srv st p") auto
qed simp

section \<open>The chain of the validator host\<close>

record local_chain =
  lc_lines :: "jv list"
  lc_hashes :: "(int \<times> string) list"
  lc_seq :: int

definition empty_local_chain :: local_chain where
  "empty_local_chain = \<lparr>lc_lines = [], lc_hashes = [(0, GENESIS)], lc_seq = 0\<rparr>"

text \<open>\<^verbatim>\<open>{"seq": ..., "ts": ..., "prev": ..., **data}\<close>\<close>

definition local_entry :: "int \<Rightarrow> rat \<Rightarrow> string \<Rightarrow> params \<Rightarrow> jv" where
  "local_entry seq t prev data =
     JObj (foldl (\<lambda>d (k, v). dict_set d k v) [(''seq'', JInt seq), (''ts'', JFloat t), (''prev'', JStr prev)] data)"

definition local_append :: "audit_codec \<Rightarrow> rat \<Rightarrow> params \<Rightarrow> local_chain \<Rightarrow> local_chain result" where
  "local_append ac t data c =
     (case map_of (lc_hashes c) (lc_seq c) of
        None \<Rightarrow> Inl (PyError ''KeyError'')
      | Some prev \<Rightarrow>
          (let e = local_entry (lc_seq c + 1) t prev data in
           Inr (c\<lparr>lc_lines := lc_lines c @ [e], lc_seq := lc_seq c + 1,
                  lc_hashes := dict_set (lc_hashes c) (lc_seq c + 1) (entry_hash ac e)\<rparr>)))"

definition local_checkpoint :: "audit_codec \<Rightarrow> rat \<Rightarrow> int option \<Rightarrow> local_chain \<Rightarrow> params result" where
  "local_checkpoint ac t since_seq c =
     (let since = (case since_seq of Some i \<Rightarrow> if 0 \<le> i \<and> i \<le> lc_seq c then Some i else None | None \<Rightarrow> None) in
      case map_of (lc_hashes c) (lc_seq c) of
        None \<Rightarrow> Inl (PyError ''KeyError'')
      | Some h \<Rightarrow>
          (let ck = [(''seq'', JInt (lc_seq c)), (''head'', JStr h), (''ts'', JFloat t),
                     (''since_seq'', case since of None \<Rightarrow> JNull | Some i \<Rightarrow> JInt i),
                     (''since_head'', case Option.bind since (map_of (lc_hashes c)) of None \<Rightarrow> JNull | Some g \<Rightarrow> JStr g)]
           in Inr (ck @ [(''sig'', JStr (b64u (au_sign ac (ckpt_body ac ck))))])))"

fun load_local :: "audit_codec \<Rightarrow> nat \<Rightarrow> string \<Rightarrow> jv list \<Rightarrow> (int \<times> string) list \<Rightarrow> (int \<times> string) list result" where
  "load_local ac n prev [] hs = Inr hs"
| "load_local ac n prev (e # es) hs =
     (case e of
        JObj d \<Rightarrow>
          rbind (dget d ''prev'') (\<lambda>p. rbind (dget d ''seq'') (\<lambda>q.
            if p \<noteq> JStr prev \<or> \<not> py_eq q (JInt (int n)) then Inl (PyError ''RuntimeError'')
            else load_local ac (Suc n) (entry_hash ac e) es (dict_set hs (int n) (entry_hash ac e))))
      | _ \<Rightarrow> Inl (PyError ''TypeError''))"

text \<open>The hashes are those of the lines.\<close>

definition local_inv :: "audit_codec \<Rightarrow> local_chain \<Rightarrow> bool" where
  "local_inv ac c =
     (lc_seq c = int (length (lc_lines c)) \<and>
      (\<forall>i. map_of (lc_hashes c) i =
         (if 0 \<le> i \<and> i \<le> lc_seq c then Some (head_of ac GENESIS (take (nat i) (lc_lines c))) else None)))"

lemma local_append_inv:
  assumes "local_inv ac c" "local_append ac t data c = Inr c'" shows "local_inv ac c'"
proof -
  let ?n = "length (lc_lines c)"
  obtain e where c': "c' = c\<lparr>lc_lines := lc_lines c @ [e], lc_seq := lc_seq c + 1,
      lc_hashes := dict_set (lc_hashes c) (lc_seq c + 1) (entry_hash ac e)\<rparr>"
    using assms(2) by (auto simp: local_append_def Let_def split: option.splits)
  have q: "lc_seq c = int ?n" using assms(1) by (simp add: local_inv_def)
  have "map_of (lc_hashes c') i =
      (if 0 \<le> i \<and> i \<le> int ?n + 1 then Some (head_of ac GENESIS (take (nat i) (lc_lines c @ [e]))) else None)" for i
  proof (cases "i = int ?n + 1")
    case True
    then have "nat i = Suc ?n" by simp
    with True q show ?thesis by (simp add: c')
  next
    case False
    then show ?thesis using assms(1) q by (auto simp: c' local_inv_def)
  qed
  with q show ?thesis by (simp add: local_inv_def c')
qed

text \<open>
  The daemon's entries form a hash chain too: the data of an entry may not bring its own number or link, which
  \<open>local_entry\<close> would take over.
\<close>

fun next_local :: "rat \<times> params \<Rightarrow> nat \<Rightarrow> string \<Rightarrow> jv" where
  "next_local (t, data) n h = local_entry (int (Suc n)) t h data"

definition own_data :: "rat \<times> params \<Rightarrow> bool" where
  "own_data x = (''seq'' \<notin> fst ` set (snd x) \<and> ''prev'' \<notin> fst ` set (snd x))"

lemma foldl_dict_set_other:
  "k \<notin> fst ` set data \<Longrightarrow> map_of (foldl (\<lambda>d (k, v). dict_set d k v) d data) k = map_of d k"
  by (induction data arbitrary: d) auto

interpretation daemon_chain: hash_chain "entry_hash ac" json_prev json_fits GENESIS next_local own_data for ac
  by unfold_locales (auto simp: own_data_def local_entry_def pget_def foldl_dict_set_other)

text \<open>An append of the daemon continues its chain, and a chain that was continued so can be loaded.\<close>

lemma local_append_chained:
  assumes "local_inv ac c" "daemon_chain.chained ac (lc_lines c)" "own_data (t, data)" "local_append ac t data c = Inr c'"
  shows "daemon_chain.chained ac (lc_lines c')"
proof -
  have h: "map_of (lc_hashes c) (lc_seq c) = Some (daemon_chain.head ac (lc_lines c))" and q: "lc_seq c + 1 = int (Suc (length (lc_lines c)))"
    using assms(1) by (simp_all add: local_inv_def head_of_chain chain.head_def daemon_chain.head_def)
  have "lc_lines c' = lc_lines c @ [next_local (t, data) (length (lc_lines c)) (daemon_chain.head ac (lc_lines c))]"
    using assms(4) by (auto simp: local_append_def h q Let_def)
  with daemon_chain.chained_next [OF assms(2,3)] show ?thesis by simp
qed

lemma load_local_linked:
  "linked ac n prev es \<Longrightarrow> list_all (\<lambda>e. \<exists>d. e = JObj d \<and> map_of d ''prev'' \<noteq> None \<and> map_of d ''seq'' \<noteq> None) es \<Longrightarrow>
     \<exists>hs'. load_local ac n prev es hs = Inr hs'"
  by (induction es arbitrary: n prev hs) (auto simp: dget_def rbind_simps pget_def)

end
