(* ===== verification/Audit_Theorems.thy ===== *)
theory Audit_Theorems
  imports Audit_Client
begin

text \<open>
  Theorems about the audit chain, its anchors, the checkpoints of the validator host and the
  buffering client.
\<close>

section \<open>Anchors and links\<close>

lemma head_of_take:
  assumes "0 < k" "k \<le> length es" shows "head_of ac g (take k es) = map (entry_hash ac) es ! (k - 1)"
proof -
  obtain j where j: "k = Suc j" using assms(1) by (cases k) auto
  then show ?thesis using assms(2) by (simp add: take_Suc_conv_app_nth)
qed

lemma check_anchors_good:
  assumes "list_all (anchor_good ac es) as" "map_of keys (au_key_id ac) = Some vf" "\<And>m. vf (au_sign ac m) m"
    and "\<And>m. \<forall>x \<in> set (au_sign ac m). x < 256"
  shows "check_anchors ac keys (map (entry_hash ac) es) as = Inr []"
  using assms(1)
proof (induction as)
  case (Cons a as)
  then have a: "anchor_good ac es a" by simp
  have sig: "anchor_sig_ok ac keys a = Inr True"
    using a assms(2-4) b64u_dec_b64u by (auto simp: anchor_good_def anchor_sig_ok_def)
  have "an_seq a = 0 \<or> 0 < an_seq a \<and> \<not> int (length es) < an_seq a \<and> map (entry_hash ac) es ! nat (an_seq a - 1) = an_head a"
    using a head_of_take [of "nat (an_seq a)" es ac GENESIS] by (auto simp: anchor_good_def nat_diff_distrib)
  with Cons sig show ?case by (auto simp: rbind_simps)
qed simp

lemma check_anchors_none:
  assumes "check_anchors ac keys hs as = Inr []" "a \<in> set as"
  shows "an_seq a = 0 \<or> 0 < an_seq a \<and> an_seq a \<le> int (length hs) \<and> hs ! nat (an_seq a - 1) = an_head a"
  using assms by (induction as) (auto split: if_splits)

text \<open>C12: the chain the sequencer writes always verifies: after any sequence of submissions, anchors,
checkpoints and restarts, \<^verbatim>\<open>verify_chain\<close> on the chain file and on all anchors that were put finds no
error and reports the sequencer's own length and head.\<close>

theorem chain_always_verifies:
  assumes "(seq_step ac)\<^sup>*\<^sup>* fresh_sequencer s"
    and "map_of keys (au_key_id ac) = Some vf" "\<And>m. vf (au_sign ac m) m" "\<And>m. \<forall>x \<in> set (au_sign ac m). x < 256"
  shows "\<exists>rep. verify_chain ac keys (sq_anchors s) (map Some (sq_lines s)) = Inr rep \<and> ch_errors rep = [] \<and>
    ch_entries rep = length (sq_lines s) \<and> ch_head rep = sq_head s \<and> sq_seq s = int (length (sq_lines s))"
proof -
  note inv = seq_run_inv [OF assms(1)]
  have w: "walk ac 1 GENESIS (map Some (sq_lines s)) = Inr ([], map (entry_hash ac) (sq_lines s))"
    using inv by (intro walk_complete) (simp add: seq_inv_def)
  have "list_all (anchor_good ac (sq_lines s)) (sort_key an_seq (sq_anchors s))"
    using inv by (simp add: seq_inv_def list_all_iff)
  from check_anchors_good [OF this assms(2-4)]
  have c: "check_anchors ac keys (map (entry_hash ac) (sq_lines s)) (sort_key an_seq (sq_anchors s)) = Inr []" .
  have "sq_head s = (if sq_lines s = [] then GENESIS else last (map (entry_hash ac) (sq_lines s)))"
    using inv by (cases "sq_lines s" rule: rev_cases) (simp_all add: seq_inv_def)
  moreover have "verify_chain ac keys (sq_anchors s) (map Some (sq_lines s)) =
      Inr \<lparr>ch_entries = length (map (entry_hash ac) (sq_lines s)),
        ch_head = (if map (entry_hash ac) (sq_lines s) = [] then GENESIS else last (map (entry_hash ac) (sq_lines s))),
        ch_errors = [] @ [], ch_newest_anchor_seq = newest_anchor ac keys None (sort_key an_seq (sq_anchors s))\<rparr>"
    unfolding verify_chain_def w rbind_simps prod.case c ..
  ultimately show ?thesis using inv by (simp add: seq_inv_def)
qed

text \<open>C13: the chain is tamper-evident up to its anchors: whatever lines are presented later, if
\<^verbatim>\<open>verify_chain\<close> reports no error on them together with an anchor the sequencer has put, then they
begin with exactly the entries that anchor covered, or two JSON values with the same entry hash are
at hand. Truncation, rewriting and reordering of anchored history are thus detected.\<close>

theorem anchored_history_tamper_evident:
  assumes "(seq_step ac)\<^sup>*\<^sup>* fresh_sequencer s" "a \<in> set (sq_anchors s)"
    and "a \<in> set anchors" "verify_chain ac keys anchors ls = Inr rep" "ch_errors rep = []"
  shows "(\<exists>es. ls = map Some es \<and> take (nat (an_seq a)) es = take (nat (an_seq a)) (sq_lines s) \<and>
    nat (an_seq a) \<le> length es) \<or> hash_collision ac"
proof -
  note inv = seq_run_inv [OF assms(1)]
  let ?k = "nat (an_seq a)"
  from assms(2) inv have a: "anchor_good ac (sq_lines s) a" by (auto simp: seq_inv_def list_all_iff)
  from assms(4,5) obtain hs where w: "walk ac 1 GENESIS ls = Inr ([], hs)"
    and c: "check_anchors ac keys hs (sort_key an_seq anchors) = Inr []"
    by (auto simp: verify_chain_def)
  from walk_linked [OF w] obtain es where es: "ls = map Some es" "linked ac 1 GENESIS es" "hs = map (entry_hash ac) es"
    by blast
  from check_anchors_none [OF c, of a] assms(3) have k: "?k \<le> length es"
    and h: "?k = 0 \<or> hs ! (?k - 1) = an_head a"
    by (auto simp: es(3) nat_diff_distrib)
  have "chain.head ac (take ?k es) = chain.head ac (take ?k (sq_lines s))"
    using a h k head_of_take [of ?k es ac GENESIS] by (cases "?k = 0") (auto simp: anchor_good_def es(3) simp flip: head_of_chain)
  moreover have "chain.chained ac es" "chain.chained ac (sq_lines s)"
    using es(2) inv by (simp_all only: seq_inv_def linked_chain)
  moreover have "?k \<le> length (sq_lines s)" using a by (simp add: anchor_good_def)
  ultimately have "take ?k es = take ?k (sq_lines s) \<or> hash_collision ac"
    using chain.prefix_determined [of ac es "sq_lines s" ?k] k by (auto simp: hash_collision_def chain.collision_def)
  with es(1) k show ?thesis by blast
qed

text \<open>The sequencer stamps the actor: a submission appends exactly one entry whose actor is the
principal of the socket it arrived on, whatever the request says, whose number is the next one and
whose link is the previous head; the receipt names that number and the hash of that entry, and a
payload reference is the content address of a stored payload.\<close>

lemma submit_stamps_actor:
  assumes "submit ac t actor p s = Inr (r, s')"
  shows "\<exists>data ref. sq_lines s' = sq_lines s @
      [entry_json (sq_seq s + 1) t (sq_head s) actor (str_of (pget p ''event'')) (pget p ''episode_id'') data ref] \<and>
    sq_head s' = entry_hash ac (last (sq_lines s')) \<and> sq_seq s' = sq_seq s + 1 \<and>
    rt_seq r = sq_seq s' \<and> rt_hash r = sq_head s' \<and> rt_payload_ref r = ref \<and>
    submit ac t actor (filter (\<lambda>(k, v). k \<noteq> ''actor'') p) s = Inr (r, s')"
proof -
  have drop: "pget (filter (\<lambda>(k, v). k \<noteq> ''actor'') p) f = pget p f" if "f \<noteq> ''actor''" for f
    using that by (induction p) (auto simp: pget_def)
  have fields: "pget (filter (\<lambda>(k, v). k \<noteq> ''actor'') p) ''event'' = pget p ''event''"
    "pget (filter (\<lambda>(k, v). k \<noteq> ''actor'') p) ''data'' = pget p ''data''"
    "pget (filter (\<lambda>(k, v). k \<noteq> ''actor'') p) ''episode_id'' = pget p ''episode_id''"
    "pget (filter (\<lambda>(k, v). k \<noteq> ''actor'') p) ''payload_b64'' = pget p ''payload_b64''"
    "pget (filter (\<lambda>(k, v). k \<noteq> ''actor'') p) ''payload_json'' = pget p ''payload_json''"
    by (simp_all add: drop)
  have "submit ac t actor (filter (\<lambda>(k, v). k \<noteq> ''actor'') p) s = Inr (r, s')"
    using assms unfolding submit_def submit_payload_def fields .
  moreover from assms obtain ps ref data where
    "seq_append ac t actor (str_of (pget p ''event'')) (pget p ''episode_id'') data ref (s\<lparr>sq_payloads := ps\<rparr>) = (r, s')"
    by (rule submit_eff)
  ultimately show ?thesis by (auto simp: seq_append_def Let_def)
qed

section \<open>Forged checkpoints\<close>

definition ex_ac :: audit_codec where
  "ex_ac = \<lparr>au_canonical = (\<lambda>_. [1]), au_sha = (\<lambda>_. ''h''), au_sign = (\<lambda>_. [7]), au_key_id = ''k'',
     au_daemon_verify = Some (\<lambda>sig _. sig = [7])\<rparr>"

definition ex_forged :: params where
  "ex_forged = [(''event'', JStr ''observe_checkpoint''), (''data'', JObj [(''accepted'', JBool True)])]"

text \<open>The sequencer reads back what any client wrote: an entry with event \<^verbatim>\<open>observe_checkpoint\<close> and
data \<^verbatim>\<open>{"accepted": true}\<close>, which every principal may submit, makes the next start of the sequencer
fail, and one with a sequence number and a head replaces the recorded daemon checkpoint.\<close>

lemma submitted_checkpoint_breaks_restart:
  "\<exists>r s'. submit ex_ac 1 ''report_broker'' ex_forged fresh_sequencer = Inr (r, s') \<and>
     load_sequencer ex_ac s' = Inl (PyError ''KeyError'') \<and>
   (\<exists>r2 s2 s3. submit ex_ac 1 ''report_broker''
        [(''event'', JStr ''observe_checkpoint''),
         (''data'', JObj [(''accepted'', JBool True), (''seq'', JInt 9), (''head'', JStr ''x'')])] fresh_sequencer = Inr (r2, s2) \<and>
      sq_daemon_last s2 = None \<and> load_sequencer ex_ac s2 = Inr s3 \<and> sq_daemon_last s3 = Some (JInt 9, JStr ''x''))"
  by (simp add: submit_def ex_forged_def pget_def EVENTS_def submit_payload_def rbind_simps seq_append_def Let_def
      empty_sequencer_def load_sequencer_def load_line_def load_event_def dget_def entry_json_def ex_ac_def)

section \<open>Instances\<close>

definition ex_sq1 :: sequencer where
  "ex_sq1 = snd (seq_append ex_ac 1 ''controller'' ''step'' (JStr ''e1'') [] None fresh_sequencer)"

definition ex_sq2 :: sequencer where
  "ex_sq2 = snd (case anchor_now ex_ac 2 True ex_sq1 of Inr x \<Rightarrow> x | Inl _ \<Rightarrow> undefined)"

lemma ex_sq1_submit: "submit ex_ac 1 ''controller'' [(''event'', JStr ''step''), (''episode_id'', JStr ''e1'')] fresh_sequencer =
    Inr (\<lparr>rt_seq = 1, rt_hash = ''h'', rt_payload_ref = None\<rparr>, ex_sq1)"
  by (simp add: submit_def pget_def EVENTS_def submit_payload_def rbind_simps ex_sq1_def seq_append_def Let_def
      empty_sequencer_def entry_hash_def ex_ac_def)

lemma ex_sq2_anchor: "anchor_write ex_ac 2 True (int 1) (head_of ex_ac GENESIS (take 1 (sq_lines ex_sq1))) ex_sq1 =
    Inr (signed_anchor ex_ac 2 1 ''h'', ex_sq2)"
  by (simp add: ex_sq2_def anchor_now_def anchor_write_def Let_def ex_sq1_def seq_append_def empty_sequencer_def
      entry_hash_def ex_ac_def)

lemma ex_sq2_run: "(seq_step ex_ac)\<^sup>*\<^sup>* fresh_sequencer ex_sq2"
proof -
  have "seq_step ex_ac fresh_sequencer ex_sq1" by (rule step_submit [OF ex_sq1_submit])
  moreover have "seq_step ex_ac ex_sq1 ex_sq2"
    by (rule step_anchor [OF _ ex_sq2_anchor]) (simp add: ex_sq1_def seq_append_def Let_def empty_sequencer_def)
  ultimately show ?thesis by (simp add: converse_rtranclp_into_rtranclp)
qed

definition ex_keys :: anchor_keys where "ex_keys = [(''k'', \<lambda>sig _. sig = [7])]"

theorem chain_always_verifies_witness:
  "\<exists>rep. verify_chain ex_ac ex_keys (sq_anchors ex_sq2) (map Some (sq_lines ex_sq2)) = Inr rep \<and> ch_errors rep = [] \<and>
     ch_entries rep = 2"
proof -
  have "length (sq_lines ex_sq2) = 2"
    by (simp add: ex_sq2_def anchor_now_def anchor_write_def Let_def ex_sq1_def seq_append_def empty_sequencer_def)
  moreover have "\<exists>rep. verify_chain ex_ac ex_keys (sq_anchors ex_sq2) (map Some (sq_lines ex_sq2)) = Inr rep \<and> ch_errors rep = [] \<and>
     ch_entries rep = length (sq_lines ex_sq2) \<and> ch_head rep = sq_head ex_sq2 \<and> sq_seq ex_sq2 = int (length (sq_lines ex_sq2))"
    by (rule chain_always_verifies [OF ex_sq2_run, where vf = "\<lambda>sig _. sig = [7]"]) (simp_all add: ex_keys_def ex_ac_def)
  ultimately show ?thesis by auto
qed

theorem anchored_history_tamper_evident_witness:
  "(\<exists>es. map Some (sq_lines ex_sq2) = map Some es \<and> take 1 es = take 1 (sq_lines ex_sq2)) \<or> hash_collision ex_ac"
proof -
  let ?a = "signed_anchor ex_ac 2 1 ''h''"
  have a: "?a \<in> set (sq_anchors ex_sq2)"
    by (simp add: ex_sq2_def anchor_now_def anchor_write_def Let_def ex_sq1_def seq_append_def empty_sequencer_def
        entry_hash_def ex_ac_def)
  have "\<exists>rep. verify_chain ex_ac ex_keys (sq_anchors ex_sq2) (map Some (sq_lines ex_sq2)) = Inr rep \<and> ch_errors rep = []"
    by (simp add: ex_sq2_def anchor_now_def anchor_write_def Let_def ex_sq1_def seq_append_def empty_sequencer_def
        entry_hash_def ex_ac_def verify_chain_def rbind_simps entry_json_def pget_def signed_anchor_def anchor_sig_ok_def
        ex_keys_def b64u_dec_b64u)
  then obtain rep where "verify_chain ex_ac ex_keys (sq_anchors ex_sq2) (map Some (sq_lines ex_sq2)) = Inr rep" "ch_errors rep = []"
    by blast
  from anchored_history_tamper_evident [OF ex_sq2_run a a this] show ?thesis by (simp add: signed_anchor_def Let_def)
qed

section \<open>Checkpoints\<close>

text \<open>Checkpoints catch truncation and rewriting of the validator host's chain: a signed checkpoint
of that chain, taken against the sequence number last recorded, is accepted exactly when the chain
still has the recorded hash at that number; otherwise the call fails with \<open>integrity\<close>, the failure
is written to the ops-host chain, and the recorded checkpoint stays, so the alarm cannot be cleared
by asking again.\<close>

lemma daemon_checkpoint_detects_rewrite:
  assumes "local_inv dac c" "au_canonical dac = au_canonical ac" "au_sha dac = au_sha ac"
    and "local_checkpoint dac t (Some q) c = Inr ck" "0 \<le> q" "sq_daemon_last s = Some (JInt q, JStr h)"
    and "au_daemon_verify ac = Some vf" "\<And>m. vf (au_sign dac m) m" "\<And>m. \<forall>x \<in> set (au_sign dac m). x < 256"
  shows "if q \<le> lc_seq c \<and> head_of ac GENESIS (take (nat q) (lc_lines c)) = h
    then \<exists>r s'. record_daemon_checkpoint ac t' actor ck s = (Inr r, s') \<and>
           sq_daemon_last s' = Some (JInt (lc_seq c), JStr (head_of ac GENESIS (lc_lines c)))
    else \<exists>s' pr rest. record_daemon_checkpoint ac t' actor ck s = (Inl (RpcError ''integrity''), s') \<and>
           sq_daemon_last s' = sq_daemon_last s \<and>
           sq_lines s' = sq_lines s @ entry_json (sq_seq s + 1) t' (sq_head s) actor ''integrity_fail'' JNull [(''what'', JStr pr)] None # rest"
proof -
  have hash: "entry_hash dac = entry_hash ac" using assms(2,3) by (simp add: entry_hash_def fun_eq_iff)
  have ho: "head_of dac g es = head_of ac g es" for g es
    by (induction es arbitrary: g) (simp_all add: hash)
  have seq: "lc_seq c = int (length (lc_lines c))" using assms(1) by (simp add: local_inv_def)
  have hs: "map_of (lc_hashes c) i = (if 0 \<le> i \<and> i \<le> lc_seq c then Some (head_of ac GENESIS (take (nat i) (lc_lines c))) else None)" for i
    using assms(1) ho by (simp add: local_inv_def)
  let ?sq = "if q \<le> lc_seq c then JInt q else JNull"
  let ?sh = "if q \<le> lc_seq c then JStr (head_of ac GENESIS (take (nat q) (lc_lines c))) else JNull"
  let ?b = "[(''seq'', JInt (lc_seq c)), (''head'', JStr (head_of ac GENESIS (lc_lines c))), (''ts'', JFloat t),
      (''since_seq'', ?sq), (''since_head'', ?sh)]"
  have ck: "ck = ?b @ [(''sig'', JStr (b64u (au_sign dac (ckpt_body dac ?b))))]"
    using assms(4,5) seq by (auto simp: local_checkpoint_def Let_def hs split: if_splits)
  have body: "ckpt_body ac ck = ckpt_body dac ?b"
    using assms(2) by (simp add: ck ckpt_body_def CKPT_FIELDS_def pget_def)
  have sig: "pget_default ck ''sig'' (JStr []) = JStr (b64u (au_sign dac (ckpt_body dac ?b)))"
    by (simp add: ck pget_default_def)
  have fields: "dget ck ''seq'' = Inr (JInt (lc_seq c))" "dget ck ''head'' = Inr (JStr (head_of ac GENESIS (lc_lines c)))"
    "pget ck ''since_seq'' = ?sq" "pget ck ''since_head'' = ?sh"
    by (simp_all add: ck dget_def pget_def)
  have dec: "b64u_dec (b64u (au_sign dac m)) = Some (au_sign dac m)" for m by (rule b64u_dec_b64u [OF assms(9)])
  have prob: "ckpt_problem (sq_daemon_last s) ck =
      Inr (if lc_seq c < q then Some ''daemon chain truncated''
           else if head_of ac GENESIS (take (nat q) (lc_lines c)) \<noteq> h then Some ''daemon chain rewritten'' else None)"
    by (simp add: ckpt_problem_def assms(6) fields rbind_simps num_less_def)
  have rec: "record_daemon_checkpoint ac t' actor ck s =
     (let problem = (if lc_seq c < q then Some ''daemon chain truncated''
           else if head_of ac GENESIS (take (nat q) (lc_lines c)) \<noteq> h then Some ''daemon chain rewritten'' else None);
          data = [(''seq'', JInt (lc_seq c)), (''head'', JStr (head_of ac GENESIS (lc_lines c))), (''accepted'', JBool (problem = None))] in
      case problem of
        Some pr \<Rightarrow> (Inl (RpcError ''integrity''), snd (seq_append ac t' actor ''observe_checkpoint'' JNull (data @ [(''problem'', JStr pr)]) None
                      (snd (seq_append ac t' actor ''integrity_fail'' JNull [(''what'', JStr pr)] None s))))
      | None \<Rightarrow> (let (r, s') = seq_append ac t' actor ''observe_checkpoint'' JNull data None
                   (s\<lparr>sq_daemon_last := Some (JInt (lc_seq c), JStr (head_of ac GENESIS (lc_lines c)))\<rparr>) in (Inr r, s')))"
    unfolding record_daemon_checkpoint_def assms(7) option.case sig jv.case dec body prob fields rbind_simps
    using assms(8) by (simp add: Let_def)
  show ?thesis
    unfolding rec by (auto simp: Let_def seq_append_def)
qed

text \<open>A chain that was cut back to its beginning, against a recorded checkpoint at number five.\<close>

definition ex_ckpt :: params where
  "ex_ckpt = (case local_checkpoint ex_ac 3 (Some 5) empty_local_chain of Inr ck \<Rightarrow> ck | Inl _ \<Rightarrow> [])"

section \<open>The buffering client\<close>

text \<open>A buffering client keeps the order and loses nothing below its capacity: while the sequencer
answers or is unavailable, what the sequencer has accepted followed by the client's queue is, after
a submission, what it was before followed by the new entry; nothing is dropped and the caller gets
an answer.\<close>

lemma buffered_submit_in_order:
  fixes lg :: "'st \<Rightarrow> params list"
  assumes srv: "\<And>st p v st'. srv st p = Inr (v, st') \<Longrightarrow> lg st' = lg st @ [p]"
    and down: "\<And>st p e. srv st p = Inl e \<Longrightarrow> e = RpcError ''unavailable''"
    and "cl_buffer c" "length (cl_q c) < cl_max c" "client_submit srv p c st = (r, c', st')"
  shows "lg st' @ cl_q c' = lg st @ cl_q c @ [p] \<and> cl_dropped c' = cl_dropped c \<and> (\<exists>v. r = Inr v)"
proof -
  obtain r1 q1 st1 where f: "flush srv (cl_q c) st = (r1, q1, st1)" by (metis prod_cases3)
  have fo: "lg st1 @ q1 = lg st @ cl_q c \<and> length q1 \<le> length (cl_q c)"
    by (rule flush_order [OF _ f]) (rule srv)
  have len: "length q1 < cl_max c" using fo assms(4) by simp
  show ?thesis
  proof (cases r1)
    case (Inl e)
    have "e = RpcError ''unavailable''"
      by (rule flush_error [OF _ f [unfolded Inl]]) (rule down)
    with Inl f assms(3,5) len fo show ?thesis
      by (auto simp: client_submit_def rbind_simps Let_def deque_append_def)
  next
    case (Inr u)
    with f have q1: "q1 = []" using flush_ok by metis
    show ?thesis
    proof (cases "srv st1 p")
      case (Inl e)
      with down [OF this] Inr f assms(3,5) len fo q1 show ?thesis
        by (auto simp: client_submit_def rbind_simps Let_def deque_append_def)
    next
      case (Inr a)
      obtain v st2 where a: "a = (v, st2)" by (cases a)
      with Inr \<open>r1 = Inr u\<close> f assms(5) have "c' = c\<lparr>cl_q := q1\<rparr>" "st' = st2" "r = Inr v"
        by (auto simp: client_submit_def rbind_simps)
      with srv [OF Inr [unfolded a]] fo q1 show ?thesis by simp
    qed
  qed
qed

text \<open>A server that accepts until it goes down.\<close>

definition ex_server :: "(params list \<times> bool) server" where
  "ex_server st p = (if snd st then Inr (JNull, (fst st @ [p], True)) else Inl (RpcError ''unavailable''))"

text \<open>An entry that the sequencer refuses blocks the buffer: while such an entry is first in the
queue, every later submission fails with the same error and leaves the queue as it is, so nothing
is recorded any more although the sequencer is up.\<close>

lemma refused_entry_blocks_buffer:
  assumes "cl_q c = bad # rest" "srv st bad = Inl e" "e \<noteq> RpcError ''unavailable''"
  shows "client_submit srv p c st = (Inl e, c, st)"
  using assms by (simp add: client_submit_def rbind_simps)

end
