(* ===== verification/Artefacts.thy ===== *)
theory Artefacts
  imports Fold Tools Bundle_View
begin

text \<open>
  \<^verbatim>\<open>valops/controller/artefacts.py\<close>: what the controller checks in the episode record after a step,
  the cross-check against the worker's structured output, and the assertion that the Judge's
  input is free of planner and diagnostician prose. A set of identifiers is a list without
  regard to order.
\<close>

section \<open>Validation of a step\<close>

record validation =
  vl_ok :: bool
  vl_reason :: string

definition vl_pass :: validation where "vl_pass = \<lparr>vl_ok = True, vl_reason = []\<rparr>"

definition vl_fail :: "string \<Rightarrow> validation" where "vl_fail reason = \<lparr>vl_ok = False, vl_reason = reason\<rparr>"

datatype stored =
    S_none
  | S_ids "string list"
  | S_id string
  | S_verdict verdict
  | S_ref string

text \<open>\<^verbatim>\<open>repr\<close> of a list of integers.\<close>

fun repr_ints :: "int list \<Rightarrow> string" where
  "repr_ints [] = []"
| "repr_ints [i] = int_str i"
| "repr_ints (i # is) = int_str i @ '', '' @ repr_ints is"

definition contract_ok :: "hypothesis \<Rightarrow> bool" where
  "contract_ok h = (strip (h_claim h) \<noteq> [] \<and> strip (h_test h) \<noteq> [] \<and> strip (h_expected_evidence h) \<noteq> [])"

definition validate_diagnostician :: "erec \<Rightarrow> string \<Rightarrow> validation \<times> stored" where
  "validate_diagnostician rec session =
     (let hs = filter (\<lambda>h. h_step_session h = session) (r_hypotheses rec) in
      if hs = [] then (vl_fail ''missing artefact: no hypothesis written in this step'', S_ids [])
      else case find (\<lambda>h. \<not> contract_ok h) hs of
          Some h \<Rightarrow> (vl_fail (''hypothesis '' @ h_id h @ '' lacks a contract field''), S_ids [])
        | None \<Rightarrow>
            let ranks = sort (map h_rank hs) in
            if ranks \<noteq> map int [1..<length hs + 1] then
              (vl_fail (''ranks must be 1..'' @ nat_str (length hs) @ '' with no gaps, got ['' @ repr_ints ranks @ '']''),
               S_ids [])
            else (vl_pass, S_ids (map h_id hs)))"

definition validate_planner :: "erec \<Rightarrow> string \<Rightarrow> validation \<times> stored" where
  "validate_planner rec session =
     (let rs = filter (\<lambda>r. rc_session_id r = JStr session) (r_recommendations rec);
          ns = filter (\<lambda>n. na_session_id n = JStr session) (r_no_action rec) in
      if length rs + length ns \<noteq> 1 then
        (vl_fail (''expected exactly one recommendation or no-action record, got '' @ nat_str (length rs + length ns)),
         S_none)
      else let (refs, ident) =
             (case rs of r # _ \<Rightarrow> (rc_evidence_refs r, rc_id r)
              | [] \<Rightarrow> (case ns of n # _ \<Rightarrow> (na_evidence_refs n, na_id n) | [] \<Rightarrow> ([], []))) in
        if refs = [] then (vl_fail ''artefact has no evidence references'', S_none)
        else (vl_pass, S_id ident))"

definition validate_judge :: "erec \<Rightarrow> string \<Rightarrow> validation \<times> stored" where
  "validate_judge rec session =
     (case filter (\<lambda>v. v_session_id v = JStr session) (r_verdicts rec) of
        [v] \<Rightarrow>
          if v_result v \<notin> {''PASS'', ''FAIL''} \<or> v_checks v = []
          then (vl_fail ''verdict without a non-empty checks list'', S_none)
          else (vl_pass, S_verdict v)
      | _ \<Rightarrow> (vl_fail ''missing verdict (absence of a verdict is not consent)'', S_none))"

definition validate_reporter :: "erec \<Rightarrow> string \<Rightarrow> string \<Rightarrow> params list \<Rightarrow> validation \<times> stored" where
  "validate_reporter rec session kind alerts =
     (let rs = filter (\<lambda>r. rp_session_id r = JStr session \<and> rp_kind r = kind) (r_reports rec) in
      if rs = [] then (vl_fail (''missing '' @ kind @ '' report ref''), S_none)
      else if \<not> list_ex (\<lambda>a. pget a ''session_id'' = JStr session \<and> pget a ''kind'' = JStr kind \<and>
                              truthy (pget a ''ack'')) alerts
      then (vl_fail (kind @ '' alert not dispatched/acknowledged by the sink''), S_none)
      else (vl_pass, S_ref (rp_ref (last rs))))"

text \<open>
  \<^verbatim>\<open>cross_check\<close>: a structured output that disagrees with the record is a failed step. An output
  that passed its schema has the fields; a role without a schema is the \<^verbatim>\<open>KeyError\<close>.
\<close>

definition agrees :: "string \<Rightarrow> params \<Rightarrow> stored \<Rightarrow> bool" where
  "agrees role d st =
     (if role = DIAG then
        (case (pget d ''hypothesis_ids'', st) of
           (JArr xs, S_ids ids) \<Rightarrow> set xs = set (map JStr ids) | _ \<Rightarrow> False)
      else if role = PLAN then (case st of S_id i \<Rightarrow> pget d ''artefact_id'' = JStr i | _ \<Rightarrow> False)
      else if role = JUDGE then
        (case st of S_verdict v \<Rightarrow> pget d ''result'' = JStr (v_result v) \<and>
                                    pget d ''target_id'' = JStr (v_target_id v) | _ \<Rightarrow> False)
      else if role = REPORT then (case st of S_ref f \<Rightarrow> pget d ''report_ref'' = JStr f | _ \<Rightarrow> False)
      else True)"

definition disagreement :: "string \<Rightarrow> string" where
  "disagreement role =
     (if role = DIAG then ''structured output disagrees with stored hypotheses''
      else if role = PLAN then ''structured output disagrees with stored artefact''
      else if role = JUDGE then ''structured verdict disagrees with stored verdict''
      else ''structured report ref disagrees with stored report'')"

definition cross_check :: "string \<Rightarrow> params option \<Rightarrow> stored \<Rightarrow> validation result" where
  "cross_check role structured st =
     (case structured of
        None \<Rightarrow> Inr vl_pass
      | Some d \<Rightarrow>
          (case ARTEFACT_SCHEMA role of
             None \<Rightarrow> Inl (PyError ''KeyError'')
           | Some sch \<Rightarrow>
               Inr (if \<not> is_valid (JObj d) sch then vl_fail ''structured output does not match its schema''
                    else if \<not> agrees role d st then vl_fail (disagreement role)
                    else vl_pass)))"

section \<open>Judge isolation\<close>

text \<open>
  \<^verbatim>\<open>json.dumps\<close> with its default separators and \<^verbatim>\<open>ensure_ascii\<close>: the text of a string with quotes,
  backslashes and control characters escaped. The rendering of a float is a parameter.
\<close>

definition json_char :: "char \<Rightarrow> string" where
  "json_char c =
     (let n = of_char c :: nat in
      if n = 34 \<or> n = 92 then [CHR 0x5C, c]
      else if n = 10 then [CHR 0x5C, CHR ''n''] else if n = 13 then [CHR 0x5C, CHR ''r'']
      else if n = 9 then [CHR 0x5C, CHR ''t''] else if n = 12 then [CHR 0x5C, CHR ''f'']
      else if n = 8 then [CHR 0x5C, CHR ''b'']
      else if n < 32 \<or> 127 \<le> n
      then [CHR 0x5C, CHR ''u'', CHR ''0'', CHR ''0'', hex_digits ! (n div 16), hex_digits ! (n mod 16)]
      else [c])"

definition json_str :: "string \<Rightarrow> string" where
  "json_str s = [CHR 0x22] @ concat (map json_char s) @ [CHR 0x22]"

fun join_comma :: "string list \<Rightarrow> string" where
  "join_comma [] = []"
| "join_comma [x] = x"
| "join_comma (x # xs) = x @ '', '' @ join_comma xs"

fun json_dumps :: "(rat \<Rightarrow> string) \<Rightarrow> jv \<Rightarrow> string" where
  "json_dumps fl JNull = ''null''"
| "json_dumps fl (JBool b) = (if b then ''true'' else ''false'')"
| "json_dumps fl (JInt i) = int_str i"
| "json_dumps fl (JFloat r) = fl r"
| "json_dumps fl (JStr s) = json_str s"
| "json_dumps fl (JArr xs) = ''['' @ join_comma (map (json_dumps fl) xs) @ '']''"
| "json_dumps fl (JObj d) =
     ''{'' @ join_comma (map (\<lambda>(k, v). json_str k @ '': '' @ json_dumps fl v) d) @ ''}''"

definition FORBIDDEN_KEYS :: "string list" where
  "FORBIDDEN_KEYS = [''hypotheses'', ''verdicts'', ''reports'', ''no_action'', ''recommendations'', ''steps'', ''cost'']"

text \<open>\<^verbatim>\<open>len(note) >= 12 and note in blob\<close> for a note that is truthy.\<close>

fun note_in :: "jv \<Rightarrow> string \<Rightarrow> bool result" where
  "note_in (JStr s) blob = Inr (12 \<le> length s \<and> substring s blob)"
| "note_in (JArr xs) blob = (if 12 \<le> length xs then Inl (PyError ''TypeError'') else Inr False)"
| "note_in (JObj d) blob = (if 12 \<le> length d then Inl (PyError ''TypeError'') else Inr False)"
| "note_in _ blob = Inl (PyError ''TypeError'')"

definition AssertionError :: exn where "AssertionError = PyError ''AssertionError''"

fun notes_clean :: "jv list \<Rightarrow> string \<Rightarrow> unit result" where
  "notes_clean [] blob = Inr ()"
| "notes_clean (c # cs) blob =
     rbind (attr_get c ''note'') (\<lambda>v.
       rbind (if truthy v then note_in v blob else Inr False) (\<lambda>found.
         if found then Inl AssertionError else notes_clean cs blob))"

definition prose_in :: "hypothesis \<Rightarrow> string \<Rightarrow> bool" where
  "prose_in h blob = list_ex (\<lambda>f. 12 \<le> length f \<and> substring f blob) [h_claim h, h_test h, h_expected_evidence h]"

definition judge_blob :: "(rat \<Rightarrow> string) \<Rightarrow> params \<Rightarrow> string" where
  "judge_blob fl view = json_dumps fl (JObj (filter (\<lambda>(k, _). k \<noteq> ''under_judgement'') view))"

definition assert_judge_isolated :: "(rat \<Rightarrow> string) \<Rightarrow> params \<Rightarrow> erec \<Rightarrow> unit result" where
  "assert_judge_isolated fl view rec =
     (if list_ex (\<lambda>k. has_key view k) FORBIDDEN_KEYS then Inl AssertionError
      else let blob = judge_blob fl view in
        if list_ex (\<lambda>h. prose_in h blob) (r_hypotheses rec) then Inl AssertionError
        else notes_clean (concat (map v_checks (r_verdicts rec))) blob)"

section \<open>Facts\<close>

lemma validate_diagnostician_ok:
  assumes "validate_diagnostician rec session = (v, st)" "vl_ok v"
  defines "hs \<equiv> filter (\<lambda>h. h_step_session h = session) (r_hypotheses rec)"
  shows "hs \<noteq> []" and "list_all contract_ok hs" and "sort (map h_rank hs) = map int [1..<length hs + 1]"
    and "st = S_ids (map h_id hs)"
proof -
  have f: "find (\<lambda>h. \<not> contract_ok h) hs = None" and n: "hs \<noteq> []"
    and r: "sort (map h_rank hs) = map int [1..<length hs + 1]" and s: "st = S_ids (map h_id hs)"
    using assms by (auto simp: validate_diagnostician_def Let_def vl_fail_def vl_pass_def
        split: if_splits option.splits)
  show "hs \<noteq> []" "st = S_ids (map h_id hs)" "sort (map h_rank hs) = map int [1..<length hs + 1]" by fact+
  show "list_all contract_ok hs" using f by (auto simp: find_None_iff list_all_iff)
qed

lemma validate_planner_ok:
  assumes "validate_planner rec session = (v, st)" "vl_ok v"
  shows "(\<exists>r. filter (\<lambda>r. rc_session_id r = JStr session) (r_recommendations rec) = [r] \<and>
            filter (\<lambda>n. na_session_id n = JStr session) (r_no_action rec) = [] \<and>
            rc_evidence_refs r \<noteq> [] \<and> st = S_id (rc_id r)) \<or>
         (\<exists>n. filter (\<lambda>r. rc_session_id r = JStr session) (r_recommendations rec) = [] \<and>
            filter (\<lambda>n. na_session_id n = JStr session) (r_no_action rec) = [n] \<and>
            na_evidence_refs n \<noteq> [] \<and> st = S_id (na_id n))"
proof -
  let ?rs = "filter (\<lambda>r. rc_session_id r = JStr session) (r_recommendations rec)"
  let ?ns = "filter (\<lambda>n. na_session_id n = JStr session) (r_no_action rec)"
  have one: "length ?rs + length ?ns = 1"
    using assms by (auto simp: validate_planner_def Let_def vl_fail_def split: if_splits)
  then have "(\<exists>r. ?rs = [r] \<and> ?ns = []) \<or> (\<exists>n. ?rs = [] \<and> ?ns = [n])"
    by (cases ?rs; cases ?ns) auto
  with assms show ?thesis
    by (auto simp: validate_planner_def Let_def vl_fail_def vl_pass_def split: if_splits)
qed

lemma validate_judge_ok:
  "validate_judge rec session = (v, st) \<Longrightarrow> vl_ok v \<Longrightarrow>
   \<exists>w. filter (\<lambda>v. v_session_id v = JStr session) (r_verdicts rec) = [w] \<and> st = S_verdict w \<and>
       v_result w \<in> {''PASS'', ''FAIL''} \<and> v_checks w \<noteq> []"
  by (auto simp: validate_judge_def vl_fail_def vl_pass_def split: list.splits if_splits)

lemma validate_reporter_ok:
  "validate_reporter rec session kind alerts = (v, st) \<Longrightarrow> vl_ok v \<Longrightarrow>
   (\<exists>r \<in> set (r_reports rec). rp_session_id r = JStr session \<and> rp_kind r = kind \<and> st = S_ref (rp_ref r)) \<and>
   (\<exists>a \<in> set alerts. pget a ''session_id'' = JStr session \<and> pget a ''kind'' = JStr kind \<and> truthy (pget a ''ack''))"
  by (fastforce simp: validate_reporter_def Let_def vl_fail_def vl_pass_def list_ex_iff
      dest!: last_in_set split: if_splits)

lemma isolated_ok:
  "assert_judge_isolated fl view rec = Inr () \<Longrightarrow>
   (\<forall>k \<in> set FORBIDDEN_KEYS. \<not> has_key view k) \<and>
   (\<forall>h \<in> set (r_hypotheses rec). \<not> prose_in h (judge_blob fl view))"
  by (auto simp: assert_judge_isolated_def Let_def list_ex_iff split: if_splits)

end
