(* ===== verification/Controller_Effects.thy ===== *)
theory Controller_Effects
  imports Artefacts Prog
begin

text \<open>
  The calls that the controller process makes (\<^verbatim>\<open>ControllerDeps\<close> in \<^verbatim>\<open>valops/controller/runner.py\<close>):
  the store's control socket, the audit sequencer, the bundle registry, the report broker, the
  admin sockets of the brokers, the model broker, the sandbox launcher, the observe-only flag
  file, the clock and the source of session identifiers. An answer of the wrong kind is the
  \<^verbatim>\<open>TypeError\<close> that using it would raise.
\<close>

section \<open>Data exchanged\<close>

text \<open>The meter that the model broker's \<^verbatim>\<open>close_session\<close> returns; of a refusal the cause is read.\<close>

record meter =
  mt_usd :: rat
  mt_requests :: int
  mt_input_tokens :: int
  mt_output_tokens :: int
  mt_refusals :: "string list"

record launch_result =
  lr_exit_code :: "int option"
  lr_timed_out :: bool
  lr_structured_output :: "params option"
  lr_stderr :: bytes

record step_spec =
  ss_role :: string
  ss_episode_id :: string
  ss_session_id :: string
  ss_token :: string
  ss_kind :: string
  ss_state :: "string option"
  ss_inlined :: bool
  ss_conf_name :: string
  ss_conf :: jv
  ss_tools :: "string list"
  ss_max_turns :: int
  ss_max_budget_usd :: rat
  ss_tool_states :: "(string \<times> string list) list"
  ss_input_view :: params
  ss_development :: bool
  ss_timeout_s :: rat

section \<open>Requests and answers\<close>

datatype creq =
    Uuid4
  | Clock
  | Read_record string
  | Read_view string string
  | Set_state string string nat string string \<comment> \<open>episode, target, expected revision, reason, key\<close>
  | Append_cost string string rat int string string "int \<times> int" string
  | Append_step string string string string string "string option" string string
  | List_episodes
  | Audit_submit string "string option" params "bytes option"
  | System_alert string string string "string option" "string option"
  | Alerts_for string string
  | Verify_bundle string
  | Load_bundle string
  | Superseded_at string
  | Active_bundle
  | Flag_get
  | Flag_set string
  | Audit_status
  | Ping string
  | Launcher_preflight
  | Open_session string string string string
  | Close_session string
  | Revoke_session string string
  | Read_prompt string string
  | Build_home string step_spec string jv
  | Remove_home string
  | Launch jv string string string rat
  | Verify_chain

datatype cresp =
    P_unit
  | P_str string
  | P_time rat
  | P_record erec
  | P_view params
  | P_episodes "(string \<times> string option) list"
  | P_alerts "params list"
  | P_reason "reason option"
  | P_bundle policy_bundle
  | P_opt_time "rat option"
  | P_opt_str "string option"
  | P_status params
  | P_meter meter
  | P_launch launch_result
  | P_chain bool "string list"

fun un_unit :: "cresp \<Rightarrow> unit option" where "un_unit x = Some ()"
fun un_str :: "cresp \<Rightarrow> string option" where "un_str (P_str s) = Some s" | "un_str _ = None"
fun un_time :: "cresp \<Rightarrow> rat option" where "un_time (P_time t) = Some t" | "un_time _ = None"
fun un_record :: "cresp \<Rightarrow> erec option" where "un_record (P_record r) = Some r" | "un_record _ = None"
fun un_view :: "cresp \<Rightarrow> params option" where "un_view (P_view v) = Some v" | "un_view _ = None"
fun un_episodes :: "cresp \<Rightarrow> (string \<times> string option) list option" where
  "un_episodes (P_episodes es) = Some es" | "un_episodes _ = None"
fun un_alerts :: "cresp \<Rightarrow> params list option" where
  "un_alerts (P_alerts as) = Some as" | "un_alerts _ = None"
fun un_reason :: "cresp \<Rightarrow> reason option option" where
  "un_reason (P_reason r) = Some r" | "un_reason _ = None"
fun un_bundle :: "cresp \<Rightarrow> policy_bundle option" where
  "un_bundle (P_bundle b) = Some b" | "un_bundle _ = None"
fun un_opt_time :: "cresp \<Rightarrow> rat option option" where
  "un_opt_time (P_opt_time t) = Some t" | "un_opt_time _ = None"
fun un_opt_str :: "cresp \<Rightarrow> string option option" where
  "un_opt_str (P_opt_str s) = Some s" | "un_opt_str _ = None"
fun un_status :: "cresp \<Rightarrow> params option" where
  "un_status (P_status p) = Some p" | "un_status _ = None"
fun un_meter :: "cresp \<Rightarrow> meter option" where
  "un_meter (P_meter m) = Some m" | "un_meter _ = None"
fun un_launch :: "cresp \<Rightarrow> launch_result option" where
  "un_launch (P_launch l) = Some l" | "un_launch _ = None"
fun un_chain :: "cresp \<Rightarrow> (bool \<times> string list) option" where
  "un_chain (P_chain ok es) = Some (ok, es)" | "un_chain _ = None"

type_synonym 'a control = "(creq, cresp, 'a) prog"

lemma exec_swallow_unit:
  "w n q = Inr x \<Longrightarrow> exec (swallow_rpc (ask q un_unit) ()) w n = ([(q, Inr x)], Inr ())"
  by (simp add: swallow_rpc_def catch_def exec_rules exec_ask rbind_def)

section \<open>Rendering\<close>

record cdeps =
  cx_codec :: codec \<comment> \<open>the token signer\<close>
  cx_admins :: "string list" \<comment> \<open>the brokers with an admin socket\<close>
  cx_float :: "rat \<Rightarrow> string" \<comment> \<open>the text of a float\<close>
  cx_chain :: bool \<comment> \<open>chain file and anchor store are configured\<close>
  cx_development :: bool

definition str_jv :: "cdeps \<Rightarrow> jv \<Rightarrow> string" where
  "str_jv d v = py_str (json_dumps (cx_float d)) v"

fun opt_text :: "string option \<Rightarrow> string" where
  "opt_text None = ''None''"
| "opt_text (Some s) = s"

end
