(* ===== verification/Preflight.thy ===== *)
theory Preflight
  imports Controller_Effects
begin

text \<open>
  \<^verbatim>\<open>valops/controller/preflight.py\<close>: the degradation tiers and the persisted observe-only flag.
  The flag file is absent, holds a reason, or exists without a readable reason (a write cut
  short leaves such a file: \<^verbatim>\<open>write_text\<close> truncates before it writes).
\<close>

section \<open>The observe-only flag\<close>

datatype flag_file = Absent | Written string | Torn

fun flag_set :: "string \<Rightarrow> flag_file \<Rightarrow> flag_file" where
  "flag_set reason Absent = Written reason"
| "flag_set reason f = f"

fun flag_get :: "flag_file \<Rightarrow> string option" where
  "flag_get (Written reason) = Some reason"
| "flag_get _ = None"

fun flag_clear :: "flag_file \<Rightarrow> flag_file" where
  "flag_clear f = Absent"

section \<open>The checks\<close>

record preflight =
  pf_observe_only :: "string list"
  pf_no_llm :: "string list"
  pf_warnings :: "string list"

definition llm_allowed :: "preflight \<Rightarrow> bool" where
  "llm_allowed pf = (pf_observe_only pf = [] \<and> pf_no_llm pf = [])"

definition empty_preflight :: preflight where
  "empty_preflight = \<lparr>pf_observe_only = [], pf_no_llm = [], pf_warnings = []\<rparr>"

definition add_observe_only :: "string \<Rightarrow> preflight \<Rightarrow> preflight" where
  "add_observe_only s pf = pf\<lparr>pf_observe_only := pf_observe_only pf @ [s]\<rparr>"

definition add_no_llm :: "string \<Rightarrow> preflight \<Rightarrow> preflight" where
  "add_no_llm s pf = pf\<lparr>pf_no_llm := pf_no_llm pf @ [s]\<rparr>"

definition add_warning :: "string \<Rightarrow> preflight \<Rightarrow> preflight" where
  "add_warning s pf = pf\<lparr>pf_warnings := pf_warnings pf @ [s]\<rparr>"

text \<open>\<^verbatim>\<open>if active\<close>: a missing or empty pointer file counts as no active bundle.\<close>

definition given :: "string option \<Rightarrow> bool" where
  "given s = (s \<noteq> None \<and> s \<noteq> Some [])"

definition flag_part :: "preflight control" where
  "flag_part = pbind (ask Flag_get un_opt_str) (\<lambda>reason.
     Ret (if given reason then add_observe_only (''observe-only: '' @ opt_text reason) empty_preflight else empty_preflight))"

definition bundle_part :: "preflight \<Rightarrow> preflight control" where
  "bundle_part pf = pbind (ask Active_bundle un_opt_str) (\<lambda>active.
     if \<not> given active then Ret (add_observe_only ''no active bundle'' pf)
     else pbind (ask (Verify_bundle (opt_text active)) un_reason) (\<lambda>r.
       Ret (case r of None \<Rightarrow> pf
            | Some why \<Rightarrow> add_observe_only (''active bundle fails verification: '' @ reason_text why) pf)))"

text \<open>The lag is a number or absent; comparing anything else raises.\<close>

definition lag_part :: "cdeps \<Rightarrow> rat \<Rightarrow> rat \<Rightarrow> jv \<Rightarrow> preflight \<Rightarrow> preflight result" where
  "lag_part d interval_s max_lag_s lag pf =
     (if lag = JNull then
        Inr (add_no_llm (''anchor lag Nones above P-19 ('' @ int_str (trunc max_lag_s) @ ''s)'') pf)
      else case num_of lag of
          None \<Rightarrow> Inl TypeError
        | Some l \<Rightarrow>
            Inr (if l > max_lag_s then
                   add_no_llm (''anchor lag '' @ int_str (trunc l) @ ''s above P-19 ('' @ int_str (trunc max_lag_s) @ ''s)'') pf
                 else if l > interval_s * (3 / 2) then
                   add_warning (''anchor lag '' @ int_str (trunc l) @ ''s above P-18'') pf
                 else pf))"

definition status_part :: "cdeps \<Rightarrow> rat \<Rightarrow> rat \<Rightarrow> preflight \<Rightarrow> preflight control" where
  "status_part d interval_s max_lag_s pf =
     pbind (attempt (ask Audit_status un_status)) (\<lambda>r.
       case r of
         Inl (RpcError code) \<Rightarrow> Ret (add_no_llm (''audit sequencer unavailable: '' @ code) pf)
       | Inl e \<Rightarrow> Raise e
       | Inr st \<Rightarrow>
           lift (let err = pget st ''integrity_error'';
                     pf' = (if truthy err then add_observe_only (''audit chain: '' @ str_jv d err) pf else pf)
                 in lag_part d interval_s max_lag_s (pget st ''anchor_lag_s'') pf'))"

definition ping_part :: "string \<Rightarrow> preflight \<Rightarrow> preflight control" where
  "ping_part name pf =
     pbind (attempt (ask (Ping name) un_unit)) (\<lambda>r.
       case r of
         Inl (RpcError code) \<Rightarrow> Ret (add_no_llm (name @ '' unavailable: '' @ code) pf)
       | Inl e \<Rightarrow> Raise e
       | Inr _ \<Rightarrow> Ret pf)"

definition launcher_part :: "preflight \<Rightarrow> preflight control" where
  "launcher_part pf = pbind (ask Launcher_preflight un_opt_str) (\<lambda>why.
     Ret (if given why then add_no_llm (''sandbox backend unavailable: '' @ opt_text why) pf else pf))"

definition run_preflight :: "cdeps \<Rightarrow> string list \<Rightarrow> rat \<Rightarrow> rat \<Rightarrow> preflight control" where
  "run_preflight d brokers interval_s max_lag_s =
     pbind flag_part (\<lambda>pf.
     pbind (bundle_part pf) (\<lambda>pf.
     pbind (status_part d interval_s max_lag_s pf) (\<lambda>pf.
     pbind (fold_prog ping_part brokers pf) launcher_part)))"

section \<open>Facts\<close>

lemma flag_persists: "flag_get f = Some r \<Longrightarrow> flag_get (flag_set r' f) = Some r"
  by (cases f) auto

lemma allowed_frame [simp]:
  "llm_allowed (add_observe_only s pf) = False"
  "llm_allowed (add_no_llm s pf) = False"
  "llm_allowed (add_warning s pf) = llm_allowed pf"
  by (auto simp: llm_allowed_def add_observe_only_def add_no_llm_def add_warning_def)

text \<open>
  What a preflight that allows a model step has seen: no flag, an active bundle that verifies, an
  audit chain without error within the lag limit, every broker answering, a working sandbox.
\<close>

definition healthy_answer :: "rat \<Rightarrow> creq \<Rightarrow> cresp result \<Rightarrow> bool" where
  "healthy_answer max_lag_s q r =
     (case (q, r) of
        (Flag_get, Inr (P_opt_str s)) \<Rightarrow> \<not> given s
      | (Active_bundle, Inr (P_opt_str s)) \<Rightarrow> given s
      | (Verify_bundle _, Inr (P_reason s)) \<Rightarrow> s = None
      | (Audit_status, Inr (P_status st)) \<Rightarrow>
          \<not> truthy (pget st ''integrity_error'') \<and>
          (\<exists>l. num_of (pget st ''anchor_lag_s'') = Some l \<and> l \<le> max_lag_s)
      | (Ping _, Inr _) \<Rightarrow> True
      | (Launcher_preflight, Inr (P_opt_str s)) \<Rightarrow> \<not> given s
      | _ \<Rightarrow> False)"

definition all_healthy :: "rat \<Rightarrow> (creq, cresp) trace \<Rightarrow> bool" where
  "all_healthy m h = list_all (\<lambda>(q, r). healthy_answer m q r) h"

lemma all_healthy_append [simp]: "all_healthy m (h @ h') = (all_healthy m h \<and> all_healthy m h')"
  by (simp add: all_healthy_def)

lemma all_healthy_Cons [simp]: "all_healthy m ((q, r) # h) = (healthy_answer m q r \<and> all_healthy m h)"
  by (simp add: all_healthy_def)

lemma all_healthy_Nil [simp]: "all_healthy m []"
  by (simp add: all_healthy_def)

definition pf_sound :: "rat \<Rightarrow> preflight result \<Rightarrow> (creq, cresp) trace \<Rightarrow> bool" where
  "pf_sound m res h = (case res of Inl _ \<Rightarrow> True | Inr pf \<Rightarrow> llm_allowed pf \<longrightarrow> all_healthy m h)"

lemma flag_part_sound: "wp flag_part (pf_sound m) []"
  by (auto simp: flag_part_def pf_sound_def healthy_answer_def split: option.splits elim!: un_opt_str.elims)

lemma bundle_part_sound:
  "llm_allowed pf \<longrightarrow> all_healthy m h \<Longrightarrow> wp (bundle_part pf) (pf_sound m) h"
  by (auto simp: bundle_part_def pf_sound_def healthy_answer_def
      split: option.splits elim!: un_opt_str.elims un_reason.elims)

lemma status_part_sound:
  assumes "llm_allowed pf \<longrightarrow> all_healthy m h"
  shows "wp (status_part d i m pf) (pf_sound m) h"
proof -
  have lag: "lag_part d i m lag p = Inr p' \<Longrightarrow> llm_allowed p' \<Longrightarrow>
      llm_allowed p \<and> (\<exists>l. num_of lag = Some l \<and> l \<le> m)" for lag p p'
    by (auto simp: lag_part_def split: option.splits if_splits)
  show ?thesis
    using assms
    by (auto simp: status_part_def pf_sound_def healthy_answer_def Let_def TypeError_def
        split: option.splits sum.splits exn.splits elim!: un_status.elims dest!: lag)
qed

lemma ping_part_sound:
  "llm_allowed pf \<longrightarrow> all_healthy m h \<Longrightarrow> wp (ping_part n pf) (pf_sound m) h"
  by (auto simp: ping_part_def pf_sound_def healthy_answer_def split: option.splits exn.splits)

lemma pf_seq:
  assumes "wp p (pf_sound m) h"
    and "\<And>pf h'. (llm_allowed pf \<longrightarrow> all_healthy m h') \<Longrightarrow> wp (f pf) (pf_sound m) h'"
  shows "wp (pbind p f) (pf_sound m) h"
proof -
  have step: "case r of Inl e \<Rightarrow> pf_sound m (Inl e) h' | Inr x \<Rightarrow> wp (f x) (pf_sound m) h'"
    if "pf_sound m r h'" for r h'
    using that by (cases r) (auto simp: pf_sound_def [of m "Inr _"] pf_sound_def [of m "Inl _"] intro: assms(2))
  show ?thesis by (simp, rule wp_mono [OF assms(1)]) (rule step)
qed

lemma pings_sound:
  "llm_allowed pf \<longrightarrow> all_healthy m h \<Longrightarrow> wp (fold_prog ping_part ns pf) (pf_sound m) h"
proof (induction ns arbitrary: pf h)
  case (Cons n ns)
  show ?case
    by (simp add: pf_seq [OF ping_part_sound [OF Cons.prems] Cons.IH, simplified])
qed (simp add: pf_sound_def)

lemma launcher_part_sound:
  "llm_allowed pf \<longrightarrow> all_healthy m h \<Longrightarrow> wp (launcher_part pf) (pf_sound m) h"
  by (auto simp: launcher_part_def pf_sound_def healthy_answer_def split: option.splits elim!: un_opt_str.elims)

lemma run_preflight_sound: "wp (run_preflight d brokers i m) (pf_sound m) []"
  unfolding run_preflight_def
  by (intro pf_seq flag_part_sound bundle_part_sound status_part_sound pings_sound launcher_part_sound)

text \<open>A preflight that returns has made all of its checks, each broker included.\<close>

lemma run_preflight_covers:
  "covers ({Flag_get} \<union> ({Active_bundle} \<union> ({Audit_status} \<union> (Ping ` set ns \<union> {Launcher_preflight}))))
     (run_preflight d ns i m)"
  unfolding run_preflight_def
  by (intro covers_pbind covers_fold;
      simp add: flag_part_def bundle_part_def status_part_def ping_part_def launcher_part_def covers_first)

end
