(* ===== verification/Runner.thy ===== *)
theory Runner
  imports Preflight Transitions
begin

text \<open>
  \<^verbatim>\<open>valops/controller/runner.py\<close>: the episode runner. Every method is a program over the requests
  of \<^verbatim>\<open>ControllerDeps\<close>; the runner's own state is the set of degradation alerts already raised. The
  text of an exception message is left out of the reasons that quote one; logging is left out.
\<close>

definition LIMIT_CAUSES :: "string list" where
  "LIMIT_CAUSES = [''limit_requests'', ''limit_input_tokens'', ''limit_output_or_usd'']"

record step_outcome =
  so_ok :: bool
  so_reason :: string
  so_limit_hit :: bool
  so_meter :: "meter option"

definition outcome :: "bool \<Rightarrow> string \<Rightarrow> step_outcome" where
  "outcome ok reason = \<lparr>so_ok = ok, so_reason = reason, so_limit_hit = False, so_meter = None\<rparr>"

section \<open>Alerts, audit and store helpers\<close>

definition alert :: "string \<Rightarrow> string \<Rightarrow> string \<Rightarrow> string option \<Rightarrow> string option \<Rightarrow> unit control" where
  "alert severity title txt eid dedupe = swallow_rpc (ask (System_alert severity title txt eid dedupe) un_unit) ()"

definition audit :: "string \<Rightarrow> string option \<Rightarrow> params \<Rightarrow> bytes option \<Rightarrow> unit control" where
  "audit event eid data payload = swallow_rpc (ask (Audit_submit event eid data payload) un_unit) ()"

definition read_rec :: "string \<Rightarrow> erec control" where
  "read_rec eid = ask (Read_record eid) un_record"

definition jopt :: "string option \<Rightarrow> jv" where
  "jopt s = (case s of None \<Rightarrow> JNull | Some x \<Rightarrow> JStr x)"

definition transition :: "erec \<Rightarrow> string \<Rightarrow> string \<Rightarrow> bool control" where
  "transition rec to reason =
     pbind (attempt (ask (Set_state (r_episode_id rec) to (r_revision rec) reason
              (''state:'' @ nat_str (r_revision rec) @ '':'' @ to)) un_unit)) (\<lambda>r.
       case r of
         Inl e \<Rightarrow> if e = RpcError ''conflict'' then Ret False else Raise e
       | Inr _ \<Rightarrow> pbind (audit ''state_change'' (Some (r_episode_id rec))
             [(''from'', jopt (r_state rec)), (''to'', JStr to), (''reason'', JStr reason)] None) (\<lambda>_. Ret True))"

definition trigger_check :: "erec \<Rightarrow> jv result" where
  "trigger_check rec = (case r_trigger rec of None \<Rightarrow> Inl TypeError | Some t \<Rightarrow> getitem (JObj t) ''check'')"

definition hand_off :: "cdeps \<Rightarrow> erec \<Rightarrow> string \<Rightarrow> string \<Rightarrow> unit control" where
  "hand_off d rec reason severity =
     pbind (transition rec ''handed_off'' reason) (\<lambda>moved.
       if \<not> moved then Ret ()
       else pbind (lift (trigger_check rec)) (\<lambda>chk.
         alert severity (''Episode handed off: '' @ take 120 reason)
           (''Episode '' @ r_episode_id rec @ '' ('' @ opt_text (r_class rec) @ ''/'' @ str_jv d chk @
            '') handed to the operator. No action is taken by the system. Reason: '' @ reason)
           (Some (r_episode_id rec)) (Some (''handoff:'' @ r_episode_id rec))))"

section \<open>Preflight\<close>

record runner =
  rn_alerted :: "string list"
  rn_last_preflight :: "preflight option"

definition before_colon :: "string \<Rightarrow> string" where
  "before_colon r = takeWhile (\<lambda>c. c \<noteq> CHR '':'') r"

definition degraded_alert :: "preflight \<Rightarrow> string \<Rightarrow> string list \<Rightarrow> string list control" where
  "degraded_alert pf r alerted =
     (let key = ''pf:'' @ before_colon r in
      if key \<in> set alerted then Ret alerted
      else pbind (alert (if r \<in> set (pf_observe_only pf) then ''critical'' else ''high'')
                    (''Degraded: '' @ take 120 r) r None None) (\<lambda>_. Ret (key # alerted)))"

definition warning_alert :: "string \<Rightarrow> string list \<Rightarrow> string list control" where
  "warning_alert r alerted =
     (if ''pf:lag'' \<in> set alerted then Ret alerted
      else pbind (alert ''warning'' r r None None) (\<lambda>_. Ret (''pf:lag'' # alerted)))"

definition anchor_limits :: "(rat \<times> rat) control" where
  "anchor_limits =
     pbind (ask Active_bundle un_opt_str) (\<lambda>active.
       if \<not> given active then Ret (900, 3600)
       else pbind (ask (Verify_bundle (opt_text active)) un_reason) (\<lambda>r.
         if r \<noteq> None then Ret (900, 3600)
         else pbind (ask (Load_bundle (opt_text active)) un_bundle) (\<lambda>b.
           pbind (lift (rbind (threshold b ''P-18'') py_float)) (\<lambda>p18.
             pbind (lift (rbind (threshold b ''P-19'') py_float)) (\<lambda>p19. Ret (p18 * 60, p19 * 60))))))"

definition flag_reasons :: "preflight \<Rightarrow> string list" where
  "flag_reasons pf = filter (\<lambda>r. substring ''fails verification'' r \<or> substring ''audit chain'' r) (pf_observe_only pf)"

definition preflight_tick :: "cdeps \<Rightarrow> runner \<Rightarrow> (preflight \<times> runner) control" where
  "preflight_tick d rn =
     pbind anchor_limits (\<lambda>(interval_s, max_lag_s).
     pbind (run_preflight d (''model_broker'' # cx_admins d) interval_s max_lag_s) (\<lambda>pf.
     pbind (for_each (\<lambda>r. ask (Flag_set r) un_unit) (flag_reasons pf)) (\<lambda>_.
     pbind (fold_prog (degraded_alert pf) (pf_observe_only pf @ pf_no_llm pf) (rn_alerted rn)) (\<lambda>al.
     pbind (fold_prog warning_alert (pf_warnings pf) al) (\<lambda>al.
       let al' = (if llm_allowed pf then filter (\<lambda>k. \<not> starts_with ''pf:'' k) al else al)
       in Ret (pf, rn\<lparr>rn_alerted := al', rn_last_preflight := Some pf\<rparr>))))))"

fun join_with :: "string \<Rightarrow> string list \<Rightarrow> string" where
  "join_with sep [] = []"
| "join_with sep [x] = x"
| "join_with sep (x # xs) = x @ sep @ join_with sep xs"

definition verify_chain_now :: "cdeps \<Rightarrow> unit control" where
  "verify_chain_now d =
     (if \<not> cx_chain d then Ret ()
      else pbind (ask Verify_chain un_chain) (\<lambda>(ok, errors).
        if ok then Ret ()
        else pbind (ask (Flag_set (''chain verification failed: '' @ join_with ''; '' (take 3 errors))) un_unit) (\<lambda>_.
          alert ''critical'' ''Audit chain verification FAILED (RB-10)'' (join_with [CHR 0x0A] (take 20 errors)) None None)))"

section \<open>Step execution\<close>

definition input_view :: "cdeps \<Rightarrow> erec \<Rightarrow> string \<Rightarrow> params control" where
  "input_view d rec role =
     (if role = JUDGE then
        pbind (ask (Read_view (r_episode_id rec) ''judge'') un_view) (\<lambda>view.
          pbind (lift (assert_judge_isolated (cx_float d) view rec)) (\<lambda>_. Ret view))
      else ask (Read_view (r_episode_id rec) ''full'') un_view)"

definition skills_inlined :: "policy_bundle \<Rightarrow> jv \<Rightarrow> bool result" where
  "skills_inlined b adapter =
     (if adapter \<noteq> JStr ''claude_sdk'' then Inr True
      else rbind (deployment b) (\<lambda>dep. Inr (truthy (pget_default dep ''skills_inline'' (JBool True)))))"

definition tool_states :: "string list \<Rightarrow> (string \<times> string list) list" where
  "tool_states ts = map (\<lambda>t. (t, case TOOLS_BY_NAME t of None \<Rightarrow> [] | Some s \<Rightarrow> t_states s)) ts"

definition make_spec ::
  "cdeps \<Rightarrow> erec \<Rightarrow> string \<Rightarrow> policy_bundle \<Rightarrow> string \<Rightarrow> string \<Rightarrow> string \<Rightarrow> string \<times> jv \<Rightarrow> params \<Rightarrow> step_spec result" where
  "make_spec d rec role b kind session token nc view =
     rbind (getitem (snd nc) ''adapter'') (\<lambda>adapter.
     rbind (skills_inlined b adapter) (\<lambda>inlined.
     rbind (case TOOLS_BY_ROLE role of None \<Rightarrow> Inl (PyError ''KeyError'') | Some ts \<Rightarrow> Inr ts) (\<lambda>ts.
     rbind (rbind (param b ''P-05'' (Some role) (Some (fst nc))) py_int) (\<lambda>turns.
     rbind (rbind (param b ''P-06'' (Some role) (Some (fst nc))) py_float) (\<lambda>usd.
     rbind (threshold_float b ''P-11'') (\<lambda>p11.
       Inr \<lparr>ss_role = role, ss_episode_id = r_episode_id rec, ss_session_id = session, ss_token = token,
            ss_kind = kind, ss_state = r_state rec, ss_inlined = inlined, ss_conf_name = fst nc, ss_conf = snd nc,
            ss_tools = ts, ss_max_turns = turns, ss_max_budget_usd = usd, ss_tool_states = tool_states ts,
            ss_input_view = view, ss_development = cx_development d, ss_timeout_s = max 30 (p11 - 20)\<rparr>))))))"

text \<open>The work between opening the model session and the built home directory.\<close>

definition prepare ::
  "cdeps \<Rightarrow> erec \<Rightarrow> string \<Rightarrow> policy_bundle \<Rightarrow> string \<Rightarrow> string \<Rightarrow> string \<Rightarrow> string \<times> jv \<Rightarrow> jv control" where
  "prepare d rec role b kind session token nc =
     pbind (input_view d rec role) (\<lambda>view.
     pbind (lift (make_spec d rec role b kind session token nc view)) (\<lambda>spec.
     pbind (lift (getitem (snd nc) ''adapter'')) (\<lambda>adapter.
     pbind (ask (Read_prompt (bn_id b) (prompt_path role (ss_inlined spec))) un_str) (\<lambda>prompt.
     pbind (ask (Build_home session spec prompt adapter) un_unit) (\<lambda>_. Ret adapter)))))"

definition launch ::
  "string \<Rightarrow> string \<Rightarrow> policy_bundle \<Rightarrow> string \<Rightarrow> jv \<Rightarrow> string \<Rightarrow> (step_outcome + launch_result) control" where
  "launch eid role b session adapter socket =
     pbind (lift (threshold_float b ''P-11'')) (\<lambda>p11.
     pbind (attempt (ask (Launch adapter session (bn_id b) socket p11) un_launch)) (\<lambda>r.
       case r of
         Inl e \<Rightarrow> if e = PyError ''SandboxUnavailable'' then Ret (Inl (outcome False ''sandbox unavailable: '')) else Raise e
       | Inr res \<Rightarrow>
           pbind (audit ''step'' (Some eid)
             [(''role'', JStr role), (''session_id'', JStr session),
              (''exit'', case lr_exit_code res of None \<Rightarrow> JNull | Some i \<Rightarrow> JInt i),
              (''timed_out'', JBool (lr_timed_out res))]
             (if lr_stderr res = [] then None else Some (lr_stderr res))) (\<lambda>_. Ret (Inr res))))"

text \<open>
  The \<^verbatim>\<open>try\<close> body. It yields what the \<^verbatim>\<open>finally\<close> clause and the code after it look at: the model
  session (\<^term>\<open>None\<close> while the variable is unbound), whether the home exists, and either an
  exception in flight, an early outcome or the launch result.
\<close>

record step_run =
  sr_session :: "string option option"
  sr_home :: bool
  sr_end :: "(step_outcome + launch_result) result"

definition open_refused :: "string \<Rightarrow> step_outcome" where
  "open_refused code = (outcome False (''model broker refused session: '' @ code @ '' ''))
     \<lparr>so_limit_hit := code \<in> {''provider_unapproved'', ''not_admitted'', ''no_key''}\<rparr>"

definition step_body ::
  "cdeps \<Rightarrow> erec \<Rightarrow> string \<Rightarrow> policy_bundle \<Rightarrow> string \<Rightarrow> string \<Rightarrow> string \<Rightarrow> string \<times> jv \<Rightarrow> step_run control" where
  "step_body d rec role b kind session token nc =
     pbind (attempt (ask (Open_session session (r_episode_id rec) role (bn_id b)) un_str)) (\<lambda>ms.
       case ms of
         Inl (RpcError code) \<Rightarrow> Ret \<lparr>sr_session = Some None, sr_home = False, sr_end = Inr (Inl (open_refused code))\<rparr>
       | Inl e \<Rightarrow> Ret \<lparr>sr_session = None, sr_home = False, sr_end = Inl e\<rparr>
       | Inr socket \<Rightarrow>
           pbind (attempt (prepare d rec role b kind session token nc)) (\<lambda>pr.
             case pr of
               Inl e \<Rightarrow> Ret \<lparr>sr_session = Some (Some socket), sr_home = False, sr_end = Inl e\<rparr>
             | Inr adapter \<Rightarrow>
                 pbind (attempt (launch (r_episode_id rec) role b session adapter socket)) (\<lambda>l.
                   Ret \<lparr>sr_session = Some (Some socket), sr_home = True, sr_end = l\<rparr>)))"

definition revoke_all :: "cdeps \<Rightarrow> string \<Rightarrow> unit control" where
  "revoke_all d session = for_each (\<lambda>name. swallow_rpc (ask (Revoke_session name session) un_unit) ()) (cx_admins d)"

definition close_meter :: "string \<Rightarrow> string option option \<Rightarrow> meter option control" where
  "close_meter session ms =
     (case ms of
        None \<Rightarrow> Raise (PyError ''UnboundLocalError'')
      | Some None \<Rightarrow> Ret None
      | Some (Some _) \<Rightarrow> swallow_rpc (pbind (ask (Close_session session) un_meter) (\<lambda>m. Ret (Some m))) None)"

definition record_cost :: "string \<Rightarrow> string \<Rightarrow> string \<Rightarrow> string \<Rightarrow> meter option \<Rightarrow> unit control" where
  "record_cost eid role session conf m =
     (case m of
        None \<Rightarrow> Ret ()
      | Some mt \<Rightarrow> swallow_rpc (ask (Append_cost eid role (mt_usd mt) (mt_requests mt) session conf
            (mt_input_tokens mt, mt_output_tokens mt) (''cost:'' @ session)) un_unit) ())"

text \<open>The \<^verbatim>\<open>finally\<close> clause; it yields the meter.\<close>

definition step_cleanup :: "cdeps \<Rightarrow> string \<Rightarrow> string \<Rightarrow> string \<Rightarrow> string \<Rightarrow> step_run \<Rightarrow> meter option control" where
  "step_cleanup d eid role session conf sr =
     pbind (revoke_all d session) (\<lambda>_.
     pbind (close_meter session (sr_session sr)) (\<lambda>m.
     pbind (audit ''token_revoked'' (Some eid) [(''session_id'', JStr session)] None) (\<lambda>_.
     pbind (record_cost eid role session conf m) (\<lambda>_.
     pbind (if sr_home sr then ask (Remove_home session) un_unit else Ret ()) (\<lambda>_. Ret m)))))"

definition validate_step :: "string \<Rightarrow> string \<Rightarrow> string \<Rightarrow> string \<Rightarrow> params option \<Rightarrow> step_outcome control" where
  "validate_step role eid session kind structured =
     pbind (read_rec eid) (\<lambda>rec.
     pbind (if role = DIAG then Ret (validate_diagnostician rec session)
            else if role = PLAN then Ret (validate_planner rec session)
            else if role = JUDGE then Ret (validate_judge rec session)
            else pbind (ask (Alerts_for eid session) un_alerts) (\<lambda>alerts.
              Ret (validate_reporter rec session kind alerts))) (\<lambda>(v, st).
       if \<not> vl_ok v then Ret (outcome False (vl_reason v))
       else pbind (lift (cross_check role structured st)) (\<lambda>c. Ret (outcome (vl_ok c) (vl_reason c)))))"

definition step_result ::
  "cdeps \<Rightarrow> string \<Rightarrow> string \<Rightarrow> policy_bundle \<Rightarrow> string \<Rightarrow> string \<Rightarrow> meter option \<Rightarrow>
   step_outcome + launch_result \<Rightarrow> step_outcome control" where
  "step_result d eid role b session kind m fin =
     pbind (case fin of
        Inl early \<Rightarrow> Ret early
      | Inr res \<Rightarrow>
          if lr_timed_out res then
            pbind (lift (threshold b ''P-11'')) (\<lambda>p11.
              Ret ((outcome False (''step exceeded P-11 ('' @ str_jv d p11 @ ''s); process tree killed''))\<lparr>so_meter := m\<rparr>))
          else pbind (validate_step role eid session kind (lr_structured_output res)) (\<lambda>v. Ret (v\<lparr>so_meter := m\<rparr>))) (\<lambda>out.
       let limit_hit = (case m of None \<Rightarrow> False | Some mt \<Rightarrow> list_ex (\<lambda>c. c \<in> set LIMIT_CAUSES) (mt_refusals mt)) in
       Ret (if limit_hit \<and> \<not> so_ok out
            then out\<lparr>so_limit_hit := True, so_reason := so_reason out @ ''; model-broker budget/limit reached''\<rparr>
            else out))"

definition run_step :: "cdeps \<Rightarrow> erec \<Rightarrow> string \<Rightarrow> policy_bundle \<Rightarrow> string \<Rightarrow> step_outcome control" where
  "run_step d rec role b kind =
     (let eid = r_episode_id rec in
     pbind (ask Uuid4 un_str) (\<lambda>session.
     pbind (lift (configuration_for b role)) (\<lambda>nc.
     pbind (lift (threshold_float b ''P-10'')) (\<lambda>ttl.
     pbind (ask Clock un_time) (\<lambda>t.
     pbind (ask Uuid4 un_str) (\<lambda>nonce.
     pbind (lift (mint (cx_codec d) t nonce eid role session (bn_id b) ttl)) (\<lambda>token.
     pbind (audit ''token_minted'' (Some eid)
        [(''role'', JStr role), (''session_id'', JStr session), (''ttl_s'', JFloat ttl), (''configuration'', JStr (fst nc))] None) (\<lambda>_.
     pbind (step_body d rec role b kind session token nc) (\<lambda>sr.
     pbind (step_cleanup d eid role session (fst nc) sr) (\<lambda>m.
     pbind (lift (sr_end sr)) (\<lambda>fin.
     pbind (step_result d eid role b session kind m fin) (\<lambda>out.
     pbind (ask (Append_step eid role session (if so_ok out then ''ok'' else ''failed'') (so_reason out)
              (r_state rec) (fst nc) (''step:'' @ session)) un_unit) (\<lambda>_. Ret out)))))))))))))"

section \<open>The state machine\<close>

definition failures_in_state :: "erec \<Rightarrow> string \<Rightarrow> step list result" where
  "failures_in_state rec role =
     (if r_state_history rec = [] then Inl (PyError ''IndexError'')
      else Inr (filter (\<lambda>s. st_role s = role \<and> st_outcome s = ''failed'' \<and> sh_ts (last (r_state_history rec)) \<le> st_ts s)
                  (r_steps rec)))"

definition after_failure :: "cdeps \<Rightarrow> erec \<Rightarrow> string \<Rightarrow> step_outcome \<Rightarrow> policy_bundle \<Rightarrow> unit control" where
  "after_failure d rec0 role out b =
     pbind (read_rec (r_episode_id rec0)) (\<lambda>rec.
       if so_limit_hit out then hand_off d rec (role @ '': not retryable - '' @ so_reason out) ''high''
       else pbind (lift (failures_in_state rec role)) (\<lambda>fails.
         pbind (lift (threshold_int b ''P-08'')) (\<lambda>p08.
           if int (length fails) > p08
           then hand_off d rec (role @ '': step failed '' @ nat_str (length fails) @ ''x; last: '' @ so_reason out) ''high''
           else Ret ())))"

definition bundle_of :: "erec \<Rightarrow> string result" where
  "bundle_of rec = (case r_bundle_id rec of None \<Rightarrow> Inl TypeError | Some b \<Rightarrow> Inr b)"

definition bundle_problem :: "cdeps \<Rightarrow> erec \<Rightarrow> bool control" where
  "bundle_problem d rec =
     pbind (lift (bundle_of rec)) (\<lambda>bid.
     pbind (ask (Verify_bundle bid) un_reason) (\<lambda>r.
       case r of
         Some why \<Rightarrow>
           if substring ''revoked'' (reason_text why)
           then pbind (hand_off d rec (''bound bundle revoked (RB-4): '' @ reason_text why) ''critical'') (\<lambda>_. Ret True)
           else pbind (ask (Flag_set (''bound bundle '' @ take 12 bid @ '' fails verification: '' @ reason_text why)) un_unit) (\<lambda>_.
             pbind (alert ''critical'' ''Bundle integrity failure: observe-only (RB-3)'' (reason_text why)
                      (Some (r_episode_id rec)) (Some (''integrity:'' @ bid))) (\<lambda>_. Ret True))
       | None \<Rightarrow>
           pbind (ask (Superseded_at bid) un_opt_time) (\<lambda>superseded.
             case superseded of
               None \<Rightarrow> Ret False
             | Some since \<Rightarrow>
                 if r_state rec \<in> {Some ''resolved'', Some ''handed_off''} then Ret False
                 else pbind (ask (Load_bundle bid) un_bundle) (\<lambda>b.
                   pbind (ask Clock un_time) (\<lambda>t.
                     pbind (lift (threshold_float b ''P-12'')) (\<lambda>p12.
                       if t - since > p12 * 3600
                       then pbind (hand_off d rec ''bundle drain deadline exceeded (P-12)'' ''high'') (\<lambda>_. Ret True)
                       else Ret False))))))"

definition role_for :: "string \<Rightarrow> string option" where
  "role_for state = map_of
     [(''diagnosing'', DIAG), (''recommending'', PLAN), (''judging'', JUDGE), (''reporting'', REPORT)] state"

definition refuted_all :: "erec \<Rightarrow> bool" where
  "refuted_all rec = list_all (\<lambda>h. h_status h = ''refuted'')
     (filter (\<lambda>h. Some (h_step_session h) = map_option h_step_session (top_hypothesis rec)) (r_hypotheses rec))"

fun failing_checks :: "jv list \<Rightarrow> string list result" where
  "failing_checks [] = Inr []"
| "failing_checks (c # cs) =
     rbind (getitem c ''result'') (\<lambda>r.
       rbind (if r = JStr ''fail'' then rbind (rbind (getitem c ''check'') as_str) (\<lambda>k. Inr [k]) else Inr []) (\<lambda>k.
         rbind (failing_checks cs) (\<lambda>ks. Inr (k @ ks))))"

fun fail_reasons :: "verdict list \<Rightarrow> string list result" where
  "fail_reasons [] = Inr []"
| "fail_reasons (v # vs) =
     rbind (failing_checks (v_checks v)) (\<lambda>ks.
       rbind (fail_reasons vs) (\<lambda>rs. Inr ((v_target_id v @ '': '' @ join_with '', '' ks) # rs)))"

definition after_judging :: "cdeps \<Rightarrow> erec \<Rightarrow> policy_bundle \<Rightarrow> unit control" where
  "after_judging d rec b =
     (if r_verdicts rec = [] then Raise (PyError ''IndexError'')
      else if v_result (last (r_verdicts rec)) = ''PASS''
      then pbind (transition rec ''reporting'' ''Judge PASS'') (\<lambda>_. Ret ())
      else let fails = filter (\<lambda>v. v_result v = ''FAIL'') (r_verdicts rec) in
        pbind (lift (threshold b ''P-09'')) (\<lambda>p09v.
        pbind (lift (py_int p09v)) (\<lambda>p09.
          if int (length fails) \<le> p09
          then pbind (transition rec ''recommending''
                 (''Judge FAIL '' @ nat_str (length fails) @ ''/'' @ str_jv d p09v)) (\<lambda>_. Ret ())
          else pbind (lift (fail_reasons fails)) (\<lambda>rs.
            hand_off d rec (''Judge FAIL retries exhausted (R-3). FAIL reasons: '' @ join_with ''; '' rs) ''high''))))"

definition after_diagnosing :: "erec \<Rightarrow> unit control" where
  "after_diagnosing rec =
     pbind (if r_recovery_observations rec \<noteq> [] then transition rec ''reporting'' ''recovery observed''
            else if refuted_all rec then transition rec ''reporting'' ''all hypotheses refuted''
            else transition rec ''recommending'' ''hypotheses validated'') (\<lambda>_. Ret ())"

definition closure :: "cdeps \<Rightarrow> erec \<Rightarrow> policy_bundle \<Rightarrow> preflight \<Rightarrow> unit control" where
  "closure d rec b pf =
     (if list_ex (\<lambda>r. rp_kind r = ''closure'') (r_reports rec) then Ret ()
      else let fails = filter (\<lambda>s. st_role s = REPORT \<and> st_state s = JStr ''resolved'' \<and> st_outcome s = ''failed'') (r_steps rec) in
        pbind (lift (threshold_int b ''P-08'')) (\<lambda>p08.
          if int (length fails) > p08
          then alert ''warning'' ''Closure report could not be produced'' (''episode '' @ r_episode_id rec)
                 (Some (r_episode_id rec)) (Some (''closure-failed:'' @ r_episode_id rec))
          else if \<not> llm_allowed pf then Ret ()
          else pbind (run_step d rec REPORT b ''closure'') (\<lambda>_. Ret ())))"

definition after_success :: "cdeps \<Rightarrow> string \<Rightarrow> string \<Rightarrow> policy_bundle \<Rightarrow> unit control" where
  "after_success d state eid b =
     pbind (read_rec eid) (\<lambda>rec.
       if state = ''diagnosing'' then after_diagnosing rec
       else if state = ''recommending'' then pbind (transition rec ''judging'' ''artefact validated'') (\<lambda>_. Ret ())
       else if state = ''judging'' then after_judging d rec b
       else if state = ''reporting''
       then pbind (transition rec ''awaiting_operator'' ''report written and alert dispatched'') (\<lambda>_. Ret ())
       else Ret ())"

definition step_and_move :: "cdeps \<Rightarrow> erec \<Rightarrow> string \<Rightarrow> string \<Rightarrow> policy_bundle \<Rightarrow> unit control" where
  "step_and_move d rec state eid b =
     (case role_for state of
        None \<Rightarrow> Raise (PyError ''KeyError'')
      | Some role \<Rightarrow>
          pbind (attempt (run_step d rec role b ''incident'')) (\<lambda>r.
            case r of
              Inl e \<Rightarrow>
                if e = AssertionError
                then pbind (read_rec eid) (\<lambda>rec'. hand_off d rec' ''judge isolation check failed: '' ''critical'')
                else Raise e
            | Inr out \<Rightarrow> if so_ok out then after_success d state eid b else after_failure d rec role out b))"

text \<open>What follows in \<^verbatim>\<open>advance\<close> once the bound bundle has no problem.\<close>

definition advance_bound :: "cdeps \<Rightarrow> string \<Rightarrow> preflight \<Rightarrow> erec \<Rightarrow> unit control" where
  "advance_bound d eid pf rec =
     pbind (lift (bundle_of rec)) (\<lambda>bid.
     pbind (ask (Load_bundle bid) un_bundle) (\<lambda>b.
       if r_state rec = Some ''resolved'' then closure d rec b pf
       else if \<not> llm_allowed pf then Ret ()
       else if r_state rec = Some ''open''
       then pbind (transition rec ''diagnosing'' ''bundle verified; LLM path available'') (\<lambda>_. Ret ())
       else case r_state rec of
           None \<Rightarrow> Raise (PyError ''KeyError'')
         | Some state \<Rightarrow> step_and_move d rec state eid b))"

definition advance :: "cdeps \<Rightarrow> string \<Rightarrow> preflight \<Rightarrow> unit control" where
  "advance d eid pf =
     pbind (read_rec eid) (\<lambda>rec.
       if r_state rec \<in> {Some ''handed_off'', Some ''awaiting_operator''} then Ret ()
       else pbind (bundle_problem d rec) (\<lambda>problem.
         if problem then Ret () else advance_bound d eid pf rec))"

definition exn_name :: "exn \<Rightarrow> string" where
  "exn_name e = (case e of RpcError _ \<Rightarrow> ''RpcError'' | PyError n \<Rightarrow> n)"

definition recover :: "cdeps \<Rightarrow> string \<Rightarrow> exn \<Rightarrow> unit control" where
  "recover d eid e =
     (case e of
        RpcError code \<Rightarrow>
          if code \<in> {''unavailable'', ''audit_unavailable''} then Ret ()
          else swallow_rpc (pbind (read_rec eid) (\<lambda>rec. hand_off d rec (''controller error: '' @ code @ '' '') ''high'')) ()
      | PyError n \<Rightarrow>
          swallow_rpc (pbind (read_rec eid) (\<lambda>rec. hand_off d rec (''controller exception: '' @ n) ''high'')) ())"

definition tick :: "cdeps \<Rightarrow> runner \<Rightarrow> runner control" where
  "tick d rn =
     pbind (preflight_tick d rn) (\<lambda>(pf, rn').
     pbind (attempt (ask List_episodes un_episodes)) (\<lambda>r.
       case r of
         Inl e \<Rightarrow>
           if is_rpc e then pbind (alert ''high'' ''Episode store unavailable (RB-7)'' [] None None) (\<lambda>_. Ret rn')
           else Raise e
       | Inr eps \<Rightarrow>
           pbind (for_each (\<lambda>(eid, st). if st = Some ''handed_off'' then Ret ()
                    else catch (advance d eid pf) (recover d eid)) eps) (\<lambda>_. Ret rn')))"

text \<open>One round of \<^verbatim>\<open>loop\<close>; the state is the runner and the time of the last chain verification.\<close>

definition loop_round :: "cdeps \<Rightarrow> rat \<Rightarrow> runner \<Rightarrow> rat \<Rightarrow> (runner \<times> rat) control" where
  "loop_round d chain_verify_every_s rn last_verify =
     pbind (ask Clock un_time) (\<lambda>t.
     pbind (if t - last_verify > chain_verify_every_s
            then pbind (attempt (verify_chain_now d)) (\<lambda>_. ask Clock un_time)
            else Ret last_verify) (\<lambda>last_verify'.
     pbind (tick d rn) (\<lambda>rn'. Ret (rn', last_verify'))))"

end
