(* ===== verification/Runner_Props.thy ===== *)
theory Runner_Props
  imports Runner
begin

text \<open>
  Properties of all runs of the episode runner: which transitions it asks for and on what
  grounds, that no model step starts in a degraded tier, that a step's token is revoked at every
  broker, and that an exception ends in a hand-off request.
\<close>

section \<open>The abstract decision of the controller\<close>

text \<open>
  From which state, on which record, the controller may ask for which next state; \<open>retries\<close> is the
  number of FAIL verdicts after which it still asks for another recommendation.
\<close>

definition decision :: "int \<Rightarrow> string \<Rightarrow> erec \<Rightarrow> string \<Rightarrow> bool" where
  "decision retries state rec to =
     (state = ''open'' \<and> to = ''diagnosing'' \<or>
      state = ''diagnosing'' \<and> to = ''reporting'' \<and> (r_recovery_observations rec \<noteq> [] \<or> refuted_all rec) \<or>
      state = ''diagnosing'' \<and> to = ''recommending'' \<and> r_recovery_observations rec = [] \<and> \<not> refuted_all rec \<or>
      state = ''recommending'' \<and> to = ''judging'' \<or>
      state = ''judging'' \<and> r_verdicts rec \<noteq> [] \<and>
        (if v_result (last (r_verdicts rec)) = ''PASS'' then to = ''reporting''
         else to = ''recommending'' \<and> int (length (filter (\<lambda>v. v_result v = ''FAIL'') (r_verdicts rec))) \<le> retries) \<or>
      state = ''reporting'' \<and> to = ''awaiting_operator'')"

lemma decision_allowed: "decision retries state rec to \<Longrightarrow> allowed ''controller'' state to"
  by (auto simp: decision_def allowed_def CONTROLLER_def split: if_splits)

text \<open>
  The grounds of a transition request: it names a record read before, with that record's
  revision, and either hands the episode off or follows the decision for the state read first,
  under a preflight that allows model steps and with the bound bundle verified and loaded.
\<close>

fun is_read :: "creq \<Rightarrow> bool" where
  "is_read (Read_record _) = True"
| "is_read _ = False"

definition last_record :: "(creq, cresp) trace \<Rightarrow> erec \<Rightarrow> bool" where
  "last_record h rec = (\<exists>e. find (is_read \<circ> fst) (rev h) = Some (Read_record e, Inr (P_record rec)))"

definition first_record :: "string \<Rightarrow> (creq, cresp) trace \<Rightarrow> erec \<Rightarrow> bool" where
  "first_record eid h rec = (\<exists>t'. h = (Read_record eid, Inr (P_record rec)) # t')"

definition grounds :: "string \<Rightarrow> preflight \<Rightarrow> (creq, cresp) trace \<Rightarrow> creq \<Rightarrow> bool" where
  "grounds eid pf h q =
     (case q of
        Set_state e to n why key \<Rightarrow>
          \<exists>rec. last_record h rec \<and> e = r_episode_id rec \<and> n = r_revision rec \<and>
            (to = ''handed_off'' \<or>
             llm_allowed pf \<and>
             (\<exists>rec0 state bid b. first_record eid h rec0 \<and> r_state rec0 = Some state \<and>
                r_bundle_id rec0 = Some bid \<and> (Verify_bundle bid, Inr (P_reason None)) \<in> set h \<and>
                (Load_bundle bid, Inr (P_bundle b)) \<in> set h \<and>
                (\<exists>retries. decision retries state rec to \<and>
                   (state = ''judging'' \<longrightarrow> to = ''recommending'' \<longrightarrow> threshold_int b ''P-09'' = Inr retries))))
      | _ \<Rightarrow> True)"

lemma first_record_extend: "first_record eid h rec \<Longrightarrow> first_record eid (h @ t) rec"
  by (auto simp: first_record_def)

lemma last_record_snoc:
  "\<not> is_read q \<Longrightarrow> last_record h rec \<Longrightarrow> last_record (h @ [(q, r)]) rec"
  by (simp add: last_record_def)

lemma last_record_read: "last_record (h @ [(Read_record e, Inr (P_record rec))]) rec"
  by (simp add: last_record_def)

lemma last_record_unique: "last_record h rec \<Longrightarrow> last_record h rec' \<Longrightarrow> rec' = rec"
  by (auto simp: last_record_def)

lemma last_record_quiet:
  assumes "every (\<lambda>q. \<not> is_read q) p" "last_record h rec"
  shows "wp p (\<lambda>_ h'. last_record h' rec) h"
  using assms by (induction p arbitrary: h) (auto intro: last_record_snoc)

section \<open>Requests without a transition\<close>

fun no_set :: "creq \<Rightarrow> bool" where
  "no_set (Set_state _ _ _ _ _) = False"
| "no_set _ = True"

lemma no_set_grounds: "no_set q \<Longrightarrow> grounds eid pf h q"
  by (cases q) (simp_all add: grounds_def)

lemma quiet_grounds: "every no_set p \<Longrightarrow> every (\<lambda>q. \<forall>h. grounds eid pf h q) p"
  by (induction p) (auto intro: no_set_grounds)

lemmas wp_no_set = wp_quiet [OF quiet_grounds]

lemma alert_no_set [simp]: "every no_set (alert sv ti tx e de)"
  by (simp add: alert_def every_swallow)

lemma audit_no_set [simp]: "every no_set (audit ev e da pl)"
  by (simp add: audit_def every_swallow)

lemma step_body_no_set: "every no_set (step_body d rec role b kind session token nc)"
  unfolding step_body_def prepare_def input_view_def launch_def
  by (auto intro!: every_pbind split: sum.splits exn.splits)

lemma step_cleanup_no_set: "every no_set (step_cleanup d eid role session conf sr)"
  unfolding step_cleanup_def revoke_all_def close_meter_def record_cost_def
  by (auto intro!: every_intros split: option.splits)

lemma step_result_no_set: "every no_set (step_result d eid role b session kind m fin)"
  unfolding step_result_def validate_step_def read_rec_def
  by (auto intro!: every_pbind split: sum.splits prod.splits simp: Let_def)

lemma run_step_no_set: "every no_set (run_step d rec role b kind)"
  unfolding run_step_def Let_def
  by (auto intro!: every_pbind step_body_no_set step_cleanup_no_set step_result_no_set)

section \<open>Transitions\<close>

abbreviation justified :: "string \<Rightarrow> preflight \<Rightarrow> 'a result \<Rightarrow> (creq, cresp) trace \<Rightarrow> bool" where
  "justified eid pf \<equiv> (\<lambda>_. sound (grounds eid pf))"

lemma transition_justified:
  assumes "sound (grounds eid pf) h"
    and "\<And>key. grounds eid pf h (Set_state (r_episode_id rec) to (r_revision rec) why key)"
  shows "wp (transition rec to why) (justified eid pf) h"
  using assms by (auto simp: transition_def audit_def no_set_grounds split: option.splits)

lemma hand_off_justified:
  assumes "sound (grounds eid pf) h" "last_record h rec"
  shows "wp (hand_off d rec why sev) (justified eid pf) h"
proof -
  have "grounds eid pf h (Set_state (r_episode_id rec) ''handed_off'' (r_revision rec) why key)" for key
    using assms(2) by (auto simp: grounds_def)
  then have "wp (transition rec ''handed_off'' why) (justified eid pf) h"
    by (intro transition_justified assms(1))
  then show ?thesis
    unfolding hand_off_def
    by (simp only: wp_pbind, elim wp_mono)
       (auto split: sum.splits simp: alert_def no_set_grounds)
qed

definition ready :: "string \<Rightarrow> preflight \<Rightarrow> (creq, cresp) trace \<Rightarrow> string \<Rightarrow> policy_bundle \<Rightarrow> bool" where
  "ready eid pf h state b =
     (llm_allowed pf \<and>
      (\<exists>rec0 bid. first_record eid h rec0 \<and> r_state rec0 = Some state \<and> r_bundle_id rec0 = Some bid \<and>
         (Verify_bundle bid, Inr (P_reason None)) \<in> set h \<and> (Load_bundle bid, Inr (P_bundle b)) \<in> set h))"

lemma ready_extend: "ready eid pf h state b \<Longrightarrow> ready eid pf (h @ t) state b"
  by (auto simp: ready_def intro: first_record_extend)

lemma decision_grounds:
  assumes "ready eid pf h state b" "last_record h rec" "decision retries state rec to"
    and "state = ''judging'' \<Longrightarrow> to = ''recommending'' \<Longrightarrow> threshold_int b ''P-09'' = Inr retries"
  shows "grounds eid pf h (Set_state (r_episode_id rec) to (r_revision rec) why key)"
  using assms unfolding grounds_def ready_def by (simp, blast)

lemma move_justified:
  assumes "sound (grounds eid pf) h" "ready eid pf h state b" "last_record h rec" "decision retries state rec to"
    and "state = ''judging'' \<Longrightarrow> to = ''recommending'' \<Longrightarrow> threshold_int b ''P-09'' = Inr retries"
  shows "wp (transition rec to why) (justified eid pf) h"
  using assms by (intro transition_justified decision_grounds)

lemma wp_ignore: "wp (pbind p (\<lambda>_. Ret ())) (justified eid pf) h = wp p (justified eid pf) h"
  by (simp, rule wp_cong, rename_tac r h', case_tac r) auto

lemma after_diagnosing_justified:
  assumes "sound (grounds eid pf) h" "ready eid pf h ''diagnosing'' b" "last_record h rec"
  shows "wp (after_diagnosing rec) (justified eid pf) h"
  unfolding after_diagnosing_def wp_ignore
  using assms by (auto intro!: move_justified [where retries = 0] simp: decision_def)

lemma after_judging_justified:
  assumes "sound (grounds eid pf) h" "ready eid pf h ''judging'' b" "last_record h rec"
  shows "wp (after_judging d rec b) (justified eid pf) h"
proof -
  let ?fails = "filter (\<lambda>v. v_result v = ''FAIL'') (r_verdicts rec)"
  have pass: "wp (transition rec ''reporting'' ''Judge PASS'') (justified eid pf) h"
    if "r_verdicts rec \<noteq> []" "v_result (last (r_verdicts rec)) = ''PASS''"
    using that assms by (intro move_justified [where retries = 0]) (auto simp: decision_def)
  have again: "wp (transition rec ''recommending'' why) (justified eid pf) h"
    if "r_verdicts rec \<noteq> []" "v_result (last (r_verdicts rec)) \<noteq> ''PASS''"
      "threshold b ''P-09'' = Inr v" "py_int v = Inr retries" "int (length ?fails) \<le> retries" for why v retries
    using that assms
    by (intro move_justified [where retries = retries and b = b]) (auto simp: decision_def threshold_int_def)
  show ?thesis
    unfolding after_judging_def Let_def wp_ignore
    using assms(1) pass again hand_off_justified [OF assms(1,3)]
    by (auto split: sum.splits simp del: wp_pbind simp: wp_ignore wp_pbind [of "lift _"])
qed

lemma wp_read:
  assumes "\<And>rec. wp (f rec) Q (h @ [(Read_record e, Inr (P_record rec))])"
    and "\<And>x r. Q (Inl x) (h @ [(Read_record e, r)])"
  shows "wp (pbind (read_rec e) f) Q h"
  using assms by (auto simp: read_rec_def split: option.splits elim!: un_record.elims)

lemma after_success_justified:
  assumes "sound (grounds eid pf) h" "ready eid pf h state b"
  shows "wp (after_success d state eid b) (justified eid pf) h"
  unfolding after_success_def
proof (rule wp_read)
  fix rec
  let ?h = "h @ [(Read_record eid, Inr (P_record rec))]"
  have s: "sound (grounds eid pf) ?h" using assms(1) by (simp add: no_set_grounds)
  have r: "ready eid pf ?h state b" by (rule ready_extend [OF assms(2)])
  have l: "last_record ?h rec" by (rule last_record_read)
  have move: "wp (pbind (transition rec to why) (\<lambda>_. Ret ())) (justified eid pf) ?h"
    if "state = ''recommending'' \<and> to = ''judging'' \<or> state = ''reporting'' \<and> to = ''awaiting_operator''" for to why
    unfolding wp_ignore using that by (intro move_justified [OF s r l, where retries = 0]) (auto simp: decision_def)
  have judging: "wp (after_judging d rec b) (justified eid pf) ?h" if "state = ''judging''"
    using r that by (intro after_judging_justified [OF s _ l]) simp
  show "wp (if state = ''diagnosing'' then after_diagnosing rec
       else if state = ''recommending'' then pbind (transition rec ''judging'' ''artefact validated'') (\<lambda>_. Ret ())
       else if state = ''judging'' then after_judging d rec b
       else if state = ''reporting''
       then pbind (transition rec ''awaiting_operator'' ''report written and alert dispatched'') (\<lambda>_. Ret ())
       else Ret ()) (justified eid pf) ?h"
  proof (split if_split, intro conjI impI)
    assume "state = ''diagnosing''"
    then show "wp (after_diagnosing rec) (justified eid pf) ?h" using r by (intro after_diagnosing_justified [OF s _ l]) simp
  next
    show "wp (if state = ''recommending'' then pbind (transition rec ''judging'' ''artefact validated'') (\<lambda>_. Ret ())
       else if state = ''judging'' then after_judging d rec b
       else if state = ''reporting''
       then pbind (transition rec ''awaiting_operator'' ''report written and alert dispatched'') (\<lambda>_. Ret ())
       else Ret ()) (justified eid pf) ?h"
      using s by (simp del: wp_pbind add: move judging split: if_split)
  qed
qed (use assms in \<open>simp add: no_set_grounds\<close>)

lemma read_hand_off_justified:
  assumes "sound (grounds eid pf) h"
  shows "wp (pbind (read_rec e) (\<lambda>rec. hand_off d rec why sev)) (justified eid pf) h"
  by (rule wp_read; use assms in \<open>simp add: no_set_grounds hand_off_justified last_record_read\<close>)

lemma after_failure_justified:
  assumes "sound (grounds eid pf) h"
  shows "wp (after_failure d rec0 role out b) (justified eid pf) h"
  unfolding after_failure_def
proof (rule wp_read)
  fix rec
  let ?h = "h @ [(Read_record (r_episode_id rec0), Inr (P_record rec))]"
  have s: "sound (grounds eid pf) ?h" using assms by (simp add: no_set_grounds)
  then show "wp (if so_limit_hit out then hand_off d rec (role @ '': not retryable - '' @ so_reason out) ''high''
       else pbind (lift (failures_in_state rec role)) (\<lambda>fails.
         pbind (lift (threshold_int b ''P-08'')) (\<lambda>p08.
           if int (length fails) > p08
           then hand_off d rec (role @ '': step failed '' @ nat_str (length fails) @ ''x; last: '' @ so_reason out) ''high''
           else Ret ()))) (justified eid pf) ?h"
    using hand_off_justified [OF s last_record_read] by (auto split: sum.splits)
qed (use assms in \<open>simp add: no_set_grounds\<close>)

lemma step_and_move_justified:
  assumes "sound (grounds eid pf) h" "ready eid pf h state b"
  shows "wp (step_and_move d rec state eid b) (justified eid pf) h"
proof (cases "role_for state")
  case None
  with assms show ?thesis by (simp add: step_and_move_def)
next
  case (Some role)
  have "wp (attempt (run_step d rec role b ''incident''))
     (\<lambda>r h'. case r of Inl e \<Rightarrow> justified eid pf (Inl e) h' | Inr x \<Rightarrow>
        wp (case x of Inl e \<Rightarrow>
                if e = AssertionError
                then pbind (read_rec eid) (\<lambda>rec'. hand_off d rec' ''judge isolation check failed: '' ''critical'')
                else Raise e
            | Inr out \<Rightarrow> if so_ok out then after_success d state eid b else after_failure d rec role out b)
          (justified eid pf) h') h"
    by (rule wp_no_set)
       (auto simp del: wp_pbind simp: run_step_no_set assms split: sum.splits
          intro!: read_hand_off_justified after_success_justified ready_extend after_failure_justified)
  then show ?thesis using Some by (simp add: step_and_move_def)
qed

section \<open>The bound bundle\<close>

lemma transition_no_read [simp]: "every (\<lambda>q. \<not> is_read q) (transition rec to why)"
  by (auto simp: transition_def audit_def intro!: every_intros split: sum.splits)

lemma hand_off_no_read [simp]: "every (\<lambda>q. \<not> is_read q) (hand_off d rec why sev)"
  by (auto simp: hand_off_def alert_def intro!: every_intros)

lemma bundle_problem_no_read: "every (\<lambda>q. \<not> is_read q) (bundle_problem d rec)"
  by (auto simp: bundle_problem_def alert_def intro!: every_intros split: option.splits)

lemma quiet_extend:
  assumes "sound (grounds eid pf) h" "last_record h rec" "list_all (\<lambda>x. no_set (fst x) \<and> \<not> is_read (fst x)) t"
  shows "sound (grounds eid pf) (h @ t)" "last_record (h @ t) rec"
  using assms(3)
proof (induction t rule: rev_induct)
  case (snoc x t)
  case 1
  with snoc show ?case using sound_snoc [of "grounds eid pf" "h @ t" x] by (simp add: no_set_grounds)
  case 2
  with snoc show ?case using last_record_snoc [of "fst x" "h @ t" rec "snd x"] by simp
qed (use assms in simp_all)

lemma bundle_problem_justified:
  assumes "sound (grounds eid pf) h" "last_record h rec"
  shows "wp (bundle_problem d rec) (justified eid pf) h"
proof (cases "bundle_of rec")
  case (Inl e)
  with assms show ?thesis by (simp add: bundle_problem_def)
next
  case (Inr bid)
  note quiet = quiet_extend [OF assms]
  have off: "wp (pbind (hand_off d rec why sev) (\<lambda>_. Ret x)) (justified eid pf) (h @ t)"
    if "list_all (\<lambda>x. no_set (fst x) \<and> \<not> is_read (fst x)) t" for why sev and x :: bool and t
    using hand_off_justified [OF quiet [OF that], of d why sev]
    by (auto elim!: wp_mono split: sum.splits)
  show ?thesis
    unfolding bundle_problem_def
    by (simp add: Inr alert_def quiet(1) off assms(1) no_set_grounds del: wp_pbind
        add: wp_pbind [of "ask _ _"] wp_pbind [of "lift _"] wp_pbind [of "swallow_rpc _ _"]
        split: option.splits sum.splits)
qed

lemma bundle_problem_verified:
  "wp (bundle_problem d rec) (\<lambda>res h'. res = Inr False \<longrightarrow>
     (\<exists>bid. r_bundle_id rec = Some bid \<and> (Verify_bundle bid, Inr (P_reason None)) \<in> set h')) h"
proof (cases "bundle_of rec")
  case (Inr bid)
  then have b: "r_bundle_id rec = Some bid" by (auto simp: bundle_of_def split: option.splits)
  have no: "wp (pbind p (\<lambda>_. Ret True)) (\<lambda>res h'. res = Inr False \<longrightarrow> R h') h" for p :: "unit control" and R h
    by (simp add: wp_iff_runs runs_pbind)
  show ?thesis
    unfolding bundle_problem_def
    by (auto simp: Inr b simp del: wp_pbind simp: wp_pbind [of "ask _ _"] wp_pbind [of "lift _"]
        split: option.splits sum.splits elim!: un_reason.elims intro!: no)
qed (simp add: bundle_problem_def)

section \<open>Advancing an episode\<close>

lemma closure_no_set: "every no_set (closure d rec b pf)"
  by (auto simp: closure_def Let_def intro!: every_pbind run_step_no_set)

lemma advance_bound_justified:
  assumes h: "sound (grounds eid pf) h" "first_record eid h rec" "last_record h rec"
    "r_bundle_id rec = Some bid" "(Verify_bundle bid, Inr (P_reason None)) \<in> set h"
  shows "wp (advance_bound d eid pf rec) (justified eid pf) h"
proof -
  let ?g = "\<lambda>b. h @ [(Load_bundle bid, Inr (P_bundle b))]"
  have s: "sound (grounds eid pf) (?g b)" for b using h(1) by (simp add: no_set_grounds)
  have l: "last_record (?g b) rec" for b using h(3) by (simp add: last_record_snoc)
  have ready: "ready eid pf (?g b) state b" if "llm_allowed pf" "r_state rec = Some state" for b state
    using that h by (auto simp: ready_def intro!: exI [of _ rec] exI [of _ bid] first_record_extend)
  have opn: "wp (transition rec ''diagnosing'' why) (justified eid pf) (?g b)"
    if "llm_allowed pf" "r_state rec = Some ''open''" for b why
    by (rule move_justified [OF s ready [OF that] l, where retries = 0]) (auto simp: decision_def)
  have clos: "wp (closure d rec b pf) (justified eid pf) (?g b)" for b
    by (rule wp_no_set [OF closure_no_set s])
  have "bundle_of rec = Inr bid" using h(4) by (simp add: bundle_of_def)
  then show ?thesis
    unfolding advance_bound_def
    using h(1) s opn clos step_and_move_justified [OF s ready]
    by (auto simp: no_set_grounds simp del: wp_pbind
        simp: wp_ignore wp_pbind [of "ask _ _"] wp_pbind [of "lift _"]
        split: option.splits elim!: un_bundle.elims)
qed

lemma advance_justified: "wp (advance d eid pf) (justified eid pf) []"
  unfolding advance_def
proof (rule wp_read)
  fix rec
  let ?h = "[] @ [(Read_record eid, Inr (P_record rec))]"
  have s: "sound (grounds eid pf) ?h" by (simp only: sound_snoc) (simp add: no_set_grounds)
  have l: "last_record ?h rec" by (rule last_record_read)
  have f: "first_record eid (?h @ t) rec" for t by (simp add: first_record_def)
  have bp: "wp (bundle_problem d rec) (\<lambda>res h'. (sound (grounds eid pf) h' \<and> (\<exists>t. h' = ?h @ t)) \<and> last_record h' rec \<and>
      (res = Inr False \<longrightarrow> (\<exists>bid. r_bundle_id rec = Some bid \<and> (Verify_bundle bid, Inr (P_reason None)) \<in> set h'))) ?h"
    unfolding wp_conj
    by (intro conjI bundle_problem_justified [OF s l] wp_extends last_record_quiet [OF bundle_problem_no_read l]
        bundle_problem_verified)
  have "wp (pbind (bundle_problem d rec) (\<lambda>problem. if problem then Ret () else advance_bound d eid pf rec))
      (justified eid pf) ?h"
    unfolding wp_pbind
    using f by (intro wp_mono [OF bp])
      (auto split: sum.splits intro!: advance_bound_justified simp del: append_Cons append_Nil)
  then show "wp (if r_state rec \<in> {Some ''handed_off'', Some ''awaiting_operator''} then Ret ()
       else pbind (bundle_problem d rec) (\<lambda>problem.
         if problem then Ret () else advance_bound d eid pf rec)) (justified eid pf) ?h"
    using s by simp
qed (simp add: no_set_grounds sound_def)

section \<open>No model step in a degraded tier\<close>

fun degraded_request :: "creq \<Rightarrow> bool" where
  "degraded_request (Launch _ _ _ _ _) = False"
| "degraded_request (Open_session _ _ _ _) = False"
| "degraded_request (Build_home _ _ _ _) = False"
| "degraded_request (Set_state _ to _ _ _) = (to = ''handed_off'')"
| "degraded_request _ = True"

lemma hand_off_degraded [simp]: "every degraded_request (hand_off d rec why sev)"
  by (auto simp: hand_off_def transition_def audit_def alert_def intro!: every_intros split: sum.splits)

lemma advance_degraded:
  assumes "\<not> llm_allowed pf"
  shows "every degraded_request (advance d eid pf)"
  using assms
  by (auto simp: advance_def advance_bound_def bundle_problem_def closure_def read_rec_def alert_def Let_def
      intro!: every_intros split: option.splits)

section \<open>Revocation at the end of a step\<close>

text \<open>Answers whose exceptions are those that the RPC client raises as \<^verbatim>\<open>RpcError\<close>.\<close>

definition rpc_errors_only :: "(creq, cresp) trace \<Rightarrow> bool" where
  "rpc_errors_only tr = list_all (\<lambda>(q, r). case r of Inl e \<Rightarrow> is_rpc e | Inr _ \<Rightarrow> True) tr"

lemma rpc_errors_append [simp]: "rpc_errors_only (a @ b) = (rpc_errors_only a \<and> rpc_errors_only b)"
  by (simp add: rpc_errors_only_def)

lemma swallow_unit_runs:
  assumes "runs (swallow_rpc (ask q un_unit) ()) tr res"
  shows "fst ` set tr = {q} \<and> (rpc_errors_only tr \<longrightarrow> res = Inr ())"
  by (rule wp_runsD [OF _ assms]) (auto simp: rpc_errors_only_def)

lemma revoke_all_runs:
  assumes "runs (for_each (\<lambda>name. swallow_rpc (ask (Revoke_session name sid) un_unit) ()) names) tr res" "rpc_errors_only tr"
  shows "res = Inr () \<and> (\<forall>n \<in> set names. Revoke_session n sid \<in> fst ` set tr)"
  using assms
proof (induction names arbitrary: tr)
  case (Cons n ns)
  from Cons.prems(1) have "runs (pbind (swallow_rpc (ask (Revoke_session n sid) un_unit) ())
      (\<lambda>_. for_each (\<lambda>name. swallow_rpc (ask (Revoke_session name sid) un_unit) ()) ns)) tr res"
    by (simp del: un_unit.simps)
  then show ?case
  proof (cases rule: pbindE)
    case err
    then show ?thesis using swallow_unit_runs [OF err(2)] Cons.prems(2) by simp
  next
    case ok
    then show ?thesis using swallow_unit_runs [OF ok(2)] Cons.IH [OF ok(3)] Cons.prems(2) by auto
  qed
qed auto

lemma cleanup_revokes:
  assumes "runs (step_cleanup d eid role sid conf sr) tr res" "rpc_errors_only tr"
  shows "\<forall>n \<in> set (cx_admins d). Revoke_session n sid \<in> fst ` set tr"
proof -
  from assms(1) obtain t1 t2 r1 where "tr = t1 @ t2" "runs (revoke_all d sid) t1 r1"
    unfolding step_cleanup_def by (rule pbind_prefix)
  with assms(2) revoke_all_runs [of sid "cx_admins d" t1 r1] show ?thesis
    by (auto simp: revoke_all_def)
qed

text \<open>A session that a request names as the step's own.\<close>

fun opens :: "string \<Rightarrow> creq \<Rightarrow> bool" where
  "opens sid (Open_session s _ _ _) = (s = sid)"
| "opens sid _ = False"

lemma body_opens: "every (\<lambda>q. opens s q \<longrightarrow> s = session) (step_body d rec role b kind session token nc)"
  unfolding step_body_def prepare_def input_view_def launch_def audit_def
  by (auto intro!: every_intros split: sum.splits exn.splits)

lemma cleanup_opens: "every (\<lambda>q. \<not> opens sid q) (step_cleanup d eid role session conf sr)"
  unfolding step_cleanup_def revoke_all_def close_meter_def record_cost_def audit_def
  by (auto intro!: every_intros split: option.splits)

lemma result_opens: "every (\<lambda>q. \<not> opens sid q) (step_result d eid role b session kind m fin)"
  unfolding step_result_def validate_step_def read_rec_def
  by (auto intro!: every_pbind split: sum.splits prod.splits simp: Let_def)

definition none_open :: "string \<Rightarrow> (creq, cresp) trace \<Rightarrow> bool" where
  "none_open sid h = (\<forall>x \<in> set h. \<not> opens sid (fst x))"

definition revoked_if_open :: "cdeps \<Rightarrow> string \<Rightarrow> 'a result \<Rightarrow> (creq, cresp) trace \<Rightarrow> bool" where
  "revoked_if_open d sid _ h =
     (\<not> none_open sid h \<longrightarrow> rpc_errors_only h \<longrightarrow> (\<forall>n \<in> set (cx_admins d). Revoke_session n sid \<in> fst ` set h))"

lemma before_open:
  assumes "none_open sid h" "every (\<lambda>q. \<not> opens sid q) p" "\<And>x h'. none_open sid h' \<Longrightarrow> wp (f x) (revoked_if_open d sid) h'"
  shows "wp (pbind p f) (revoked_if_open d sid) h"
proof -
  have "wp p (\<lambda>_. none_open sid) h"
    using assms(1) every_runs [OF assms(2)] by (fastforce simp: wp_iff_runs none_open_def)
  then show ?thesis
    unfolding wp_pbind by (rule wp_mono) (auto simp: revoked_if_open_def assms(3) split: sum.splits)
qed

lemma after_open:
  assumes "\<not> none_open sid h \<Longrightarrow> sid = session" "\<And>m. every (\<lambda>q. \<not> opens sid q) (f m)"
  shows "wp (pbind (step_cleanup d eid role session conf sr) f) (revoked_if_open d sid) h"
  unfolding wp_iff_runs
proof (intro allI impI)
  fix tr res
  assume run: "runs (pbind (step_cleanup d eid role session conf sr) f) tr res"
  from run obtain t1 t2 r where t: "tr = t1 @ t2" "runs (step_cleanup d eid role session conf sr) t1 r"
    by (rule pbind_prefix)
  show "revoked_if_open d sid res (h @ tr)"
  proof (cases "sid = session")
    case True
    with cleanup_revokes [OF t(2)] show ?thesis by (auto simp: revoked_if_open_def t(1))
  next
    case False
    with assms(1) have "none_open sid h" by blast
    moreover have "every (\<lambda>q. \<not> opens sid q) (pbind (step_cleanup d eid role session conf sr) f)"
      by (rule every_pbind [OF cleanup_opens assms(2)])
    ultimately show ?thesis using every_runs [OF _ run] by (fastforce simp: revoked_if_open_def none_open_def)
  qed
qed

lemma step_body_total: "wp (step_body d rec role b kind session token nc) (\<lambda>r _. \<exists>x. r = Inr x) h"
  by (auto simp: step_body_def wp_iff_runs [of "prepare _ _ _ _ _ _ _ _"] wp_iff_runs [of "launch _ _ _ _ _ _"]
      split: sum.splits exn.splits option.splits)

lemma run_step_revokes: "wp (run_step d rec role b kind) (revoked_if_open d sid) []"
proof -
  have body: "wp (pbind (step_body d rec role b kind session token nc) (\<lambda>sr.
      pbind (step_cleanup d eid role session conf sr) (\<lambda>m.
      pbind (lift (sr_end sr)) (\<lambda>fin.
      pbind (step_result d eid role b session kind m fin) (\<lambda>out.
      pbind (ask (Append_step eid role session (if so_ok out then ''ok'' else ''failed'') (so_reason out)
              (r_state rec) conf (''step:'' @ session)) un_unit) (\<lambda>_. Ret out)))))) (revoked_if_open d sid) h"
    if "none_open sid h" for h session token nc eid conf
  proof -
    have once: "sid = session" if "runs (step_body d rec role b kind session token nc) tr r" "\<not> none_open sid (h @ tr)" for tr r
      using that \<open>none_open sid h\<close> every_runs [OF body_opens [of sid session d rec role b kind token nc] that(1)]
      by (fastforce simp: none_open_def)
    have exn: "revoked_if_open d sid (Inl e) (h @ tr)"
      if "runs (step_body d rec role b kind session token nc) tr (Inl e)" for tr e
      using wp_runsD [OF step_body_total that] by simp
    show ?thesis
      unfolding wp_pbind [of "step_body _ _ _ _ _ _ _ _"] wp_iff_runs [of "step_body _ _ _ _ _ _ _ _"]
      by (auto split: sum.splits simp del: wp_pbind intro!: exn after_open once every_intros result_opens)
  qed
  have start: "none_open sid []" by (simp add: none_open_def)
  show ?thesis
    unfolding run_step_def Let_def
    by (intro before_open start body) (auto simp: audit_def intro!: every_intros)
qed

end
