(* ===== verification/Runner_Theorems.thy ===== *)
theory Runner_Theorems
  imports Runner_Props Example_Run
begin

text \<open>
  The properties of the controller, with their witnesses. The episode store enters through its
  model: a transition that the controller asks for on the grounds of a record takes effect only
  while that record is still the current one.
\<close>

section \<open>The record behind a transition\<close>

lemma steps_append:
  assumes "(store_step (live_ok cd rp content))\<^sup>*\<^sup>* s s'"
  shows "\<exists>ws. s_rows s' = s_rows s @ ws"
  using assms
proof (induction rule: rtranclp_induct)
  case (step s' s'')
  have "\<exists>ws. s_rows s'' = s_rows s' @ ws"
    using live.store_step_logs [OF step(2)] log_steps_append by auto
  with step.IH show ?case by auto
qed simp

lemma reachable_steps:
  "(store_step (live_ok cd rp content))\<^sup>*\<^sup>* s s' \<Longrightarrow> reachable (live_ok cd rp content) s \<Longrightarrow>
   reachable (live_ok cd rp content) s'"
  by (induction rule: rtranclp_induct) (auto intro: reachable.intros)

lemma same_revision_same_record:
  assumes "reachable (live_ok cd rp content) s" "(store_step (live_ok cd rp content))\<^sup>*\<^sup>* s s'"
    and "map_of (s_records s) i = Some rec" "map_of (s_records s') i = Some rec'" "r_revision rec' = r_revision rec"
  shows "rec' = rec"
proof -
  note e = live_record [OF assms(1,3)]
  note e' = live_record [OF reachable_steps [OF assms(2,1)] assms(4)]
  obtain ws where ws: "s_rows s' = s_rows s @ ws" using steps_append [OF assms(2)] by blast
  then have rows: "\<exists>ws. rows_of s' i = rows_of s i @ ws" by (simp add: rows_of_def)
  moreover have "length (rows_of s' i) = length (rows_of s i)"
    using episode_revision [OF e(1)] episode_revision [OF e'(1)] assms(5) by simp
  ultimately have "rows_of s' i = rows_of s i" by auto
  then show ?thesis using episode_fold [OF e(1)] episode_fold [OF e'(1)] e(2) e'(2) by simp
qed

section \<open>A run of the controller\<close>

text \<open>
  The controller advancing the episode of the example run while the Judge's session \<^verbatim>\<open>sess2\<close>
  submits its verdict: the store answers with the record after the verdict.
\<close>

definition ex_roles :: "jv \<Rightarrow> params" where
  "ex_roles v = [(''diagnostician'', v), (''change_planner'', v), (''proposal_judge'', v), (''reporter'', v)]"

definition ex_thresholds :: params where
  "ex_thresholds = [(''P-05'', JObj (ex_roles (JInt 5))), (''P-06'', JObj (ex_roles (JInt 1))), (''P-08'', JInt 1), (''P-09'', JInt 2),
     (''P-10'', JInt 60), (''P-11'', JInt 300), (''P-12'', JInt 4), (''P-18'', JInt 15), (''P-19'', JInt 60)]"

definition ex_yaml :: "string \<Rightarrow> jv result" where
  "ex_yaml f =
     (if f = ''thresholds.yaml'' then Inr (JObj [(''parameters'', JObj ex_thresholds)])
      else if f = ''providers.yaml'' then
        Inr (JObj [(''roles'', JObj (ex_roles (JStr ''c1''))),
                   (''configurations'', JObj [(''c1'', JObj [(''adapter'', JStr ''native'')])])])
      else if f = ''deployment.yaml'' then Inr (JObj [])
      else Inl (PyError ''FileNotFoundError''))"

definition ex_bundle :: policy_bundle where "ex_bundle = \<lparr>bn_id = ex_bid, bn_y = ex_yaml\<rparr>"

definition ex_deps :: cdeps where
  "ex_deps = \<lparr>cx_codec = ex_codec, cx_admins = [''episode_broker'', ''observer_broker''], cx_float = (\<lambda>_. []), cx_chain = False,
     cx_development = False\<rparr>"

definition ex_meter :: meter where
  "ex_meter = \<lparr>mt_usd = 1, mt_requests = 1, mt_input_tokens = 10, mt_output_tokens = 10, mt_refusals = []\<rparr>"

definition ex_answer :: "erec \<Rightarrow> nat \<Rightarrow> creq \<Rightarrow> cresp result" where
  "ex_answer rec n q =
     Inr (case q of
            Uuid4 \<Rightarrow> P_str ''sess2'' | Clock \<Rightarrow> P_time 20 | Read_record _ \<Rightarrow> P_record rec | Read_view _ _ \<Rightarrow> P_view []
          | Verify_bundle _ \<Rightarrow> P_reason None | Load_bundle _ \<Rightarrow> P_bundle ex_bundle | Superseded_at _ \<Rightarrow> P_opt_time None
          | Active_bundle \<Rightarrow> P_opt_str (Some ex_bid) | Flag_get \<Rightarrow> P_opt_str None | Launcher_preflight \<Rightarrow> P_opt_str None
          | Audit_status \<Rightarrow> P_status [(''anchor_lag_s'', JInt 5)]
          | Open_session _ _ _ _ \<Rightarrow> P_str ''/m.sock'' | Close_session _ \<Rightarrow> P_meter ex_meter | Read_prompt _ _ \<Rightarrow> P_str ''p''
          | Launch _ _ _ _ _ \<Rightarrow> P_launch \<lparr>lr_exit_code = Some 0, lr_timed_out = False, lr_structured_output = None, lr_stderr = []\<rparr>
          | _ \<Rightarrow> P_unit)"

lemma ex_bundle_eval:
  "configuration_for ex_bundle JUDGE = Inr (''c1'', JObj [(''adapter'', JStr ''native'')])"
  "threshold_float ex_bundle ''P-10'' = Inr 60" "threshold_float ex_bundle ''P-11'' = Inr 300"
  "param ex_bundle ''P-05'' (Some JUDGE) c = Inr (JInt 5)" "param ex_bundle ''P-06'' (Some JUDGE) c = Inr (JInt 1)"
  "bn_id ex_bundle = ex_bid"
  by (simp_all add: configuration_for_def ex_bundle_def ex_yaml_def ex_roles_def rbind_simps as_str_def role_defs threshold_float_def
      threshold_def thresholds_def ex_thresholds_def param_def param_value_def pget_def as_dict_or_empty_def split: option.splits)

lemma ex_spec:
  "\<exists>sp. make_spec d rec JUDGE ex_bundle kind session token (''c1'', JObj [(''adapter'', JStr ''native'')]) view = Inr sp"
  by (simp add: make_spec_def rbind_simps skills_inlined_def TOOLS_BY_ROLE_def ex_bundle_eval role_defs [symmetric])

lemma ex_mint: "\<exists>tok. mint cd t nonce eid JUDGE session bid ttl = Inr tok"
  by (simp add: mint_def Let_def JUDGE_def ROLES_def)

lemma ex_deps_sel: "cx_codec ex_deps = ex_codec" "cx_admins ex_deps = [''episode_broker'', ''observer_broker'']"
  "cx_chain ex_deps = False" "cx_development ex_deps = False"
  by (simp_all add: ex_deps_def)

lemma ex_run_step:
  assumes rec: "r_episode_id rec = ''e1''" "r_verdicts rec = [v]" "v_session_id v = JStr ''sess2''" "v_result v = ''PASS''"
    "v_checks v \<noteq> []" "r_hypotheses rec = [h]" "length (h_claim h) < 12" "length (h_test h) < 12" "length (h_expected_evidence h) < 12"
    "v_checks v = [JObj c]" "map_of c ''note'' = None"
  shows "\<exists>tr out. exec (run_step ex_deps rec JUDGE ex_bundle ''incident'') (ex_answer rec) n = (tr, Inr out) \<and> so_ok out"
proof -
  obtain sp where sp: "make_spec ex_deps rec JUDGE ex_bundle ''incident'' ''sess2'' tok (''c1'', JObj [(''adapter'', JStr ''native'')]) [] = Inr (sp tok)"
    for tok using ex_spec [of ex_deps rec "''incident''" "''sess2''" _ "[]"] by metis
  obtain tok where tok: "mint ex_codec 20 ''sess2'' ''e1'' JUDGE ''sess2'' ex_bid 60 = Inr tok"
    using ex_mint by blast
  have neq: "JUDGE \<noteq> DIAG" "JUDGE \<noteq> PLAN" by (simp_all add: role_defs)
  have iso: "assert_judge_isolated (cx_float ex_deps) [] rec = Inr ()"
    using rec by (simp add: assert_judge_isolated_def FORBIDDEN_KEYS_def has_key_def prose_in_def Let_def rbind_simps pget_def)
  have val: "validate_judge rec ''sess2'' = (vl_pass, S_verdict v)"
    using rec by (simp add: validate_judge_def)
  show ?thesis
    by (simp add: run_step_def step_body_def prepare_def input_view_def launch_def audit_def step_cleanup_def revoke_all_def
        close_meter_def record_cost_def step_result_def validate_step_def read_rec_def exec_rules exec_ask
        ex_answer_def ex_bundle_eval ex_deps_sel rec(1) tok sp iso val rbind_simps Let_def cross_check_def vl_pass_def outcome_def
        swallow_rpc_def catch_def ex_meter_def neq)
qed

lemma ex_hyps8: "\<exists>h. r_hypotheses ex_r8 = [h] \<and> length (h_claim h) < 12 \<and> length (h_test h) < 12 \<and> length (h_expected_evidence h) < 12"
  by (simp add: ex_r8_def ex_r7_def ex_r6_def ex_r5_def ex_r4_def ex_w8_def ex_w7_def ex_w6_def ex_w5_def ex_w4_def ex_hyp_def
      ex_state_row_def ex_state_by_def ex_row_def apply_entry_def ex_r3_sel hypothesis_b.defs)

lemma ex_advance:
  "\<exists>t1 t2. runs (advance ex_deps ''e1'' empty_preflight)
     ((Read_record ''e1'', Inr (P_record ex_r8)) # t1 @
      (Read_record ''e1'', Inr (P_record ex_r8)) #
      (Set_state ''e1'' ''reporting'' 8 ''Judge PASS'' ''state:8:reporting'', Inr P_unit) # t2) (Inr ())"
proof -
  obtain h where h: "r_hypotheses ex_r8 = [h]" "length (h_claim h) < 12" "length (h_test h) < 12" "length (h_expected_evidence h) < 12"
    using ex_hyps8 by blast
  note sel = ex_r8_sel
  have "\<exists>tr out. exec (run_step ex_deps ex_r8 JUDGE ex_bundle ''incident'') (ex_answer ex_r8) n = (tr, Inr out) \<and> so_ok out" for n
    by (rule ex_run_step [where h = h and c = "[(''check'', JStr ''evidence''), (''result'', JStr ''pass'')]"])
       (simp add: sel h verdict_b.defs ex_vd_def ex_checks_def)+
  then obtain tr out where st: "exec (run_step ex_deps ex_r8 JUDGE ex_bundle ''incident'') (ex_answer ex_r8) (Suc (Suc (Suc (Suc 0)))) = (tr, Inr out)" "so_ok out"
    by blast
  have role: "role_for ''judging'' = Some JUDGE" by (simp add: role_for_def)
  have "exec (advance ex_deps ''e1'' empty_preflight) (ex_answer ex_r8) 0 =
    ((Read_record ''e1'', Inr (P_record ex_r8)) # ((Verify_bundle ex_bid, Inr (P_reason None)) # (Superseded_at ex_bid, Inr (P_opt_time None)) #
      (Load_bundle ex_bid, Inr (P_bundle ex_bundle)) # tr) @
     (Read_record ''e1'', Inr (P_record ex_r8)) #
     (Set_state ''e1'' ''reporting'' 8 ''Judge PASS'' ''state:8:reporting'', Inr P_unit) #
     [(Audit_submit ''state_change'' (Some ''e1'') [(''from'', JStr ''judging''), (''to'', JStr ''reporting''), (''reason'', JStr ''Judge PASS'')] None,
       Inr P_unit)], Inr ())"
    using st
    by (simp add: advance_def advance_bound_def bundle_problem_def bundle_of_def step_and_move_def after_success_def after_judging_def
        transition_def audit_def read_rec_def exec_rules exec_ask ex_answer_def sel rbind_simps role Let_def llm_allowed_def
        empty_preflight_def swallow_rpc_def catch_def verdict_b.defs ex_vd_def jopt_def ex_nums2)
  from exec_runs [OF this] show ?thesis by blast
qed

section \<open>Transitions\<close>

text \<open>C14: the controller refines its decision table: in every run of \<^verbatim>\<open>advance\<close>, whatever the
other processes answer, a transition it asks for names the record it read last, with that
record's revision, and is either a hand-off or the decision for the state read first, taken
while the preflight allows model steps and after the bound bundle verified and was loaded. So a
judged episode goes to reporting only on a PASS as the last verdict, and back to recommending
only while the FAIL verdicts do not exceed P-09.\<close>

theorem transitions_follow_decision:
  assumes "runs (advance d eid pf) tr res" "tr = t1 @ (Set_state e to n why key, r) # t2"
  shows "\<exists>rec. last_record t1 rec \<and> e = r_episode_id rec \<and> n = r_revision rec \<and>
     (to = ''handed_off'' \<or>
      llm_allowed pf \<and>
      (\<exists>rec0 state bid b retries. first_record eid t1 rec0 \<and> r_state rec0 = Some state \<and> r_bundle_id rec0 = Some bid \<and>
         (Verify_bundle bid, Inr (P_reason None)) \<in> set t1 \<and> (Load_bundle bid, Inr (P_bundle b)) \<in> set t1 \<and>
         decision retries state rec to \<and>
         (state = ''judging'' \<and> to = ''recommending'' \<longrightarrow> threshold_int b ''P-09'' = Inr retries)))"
proof -
  have "sound (grounds eid pf) tr" using wp_runsD [OF advance_justified assms(1)] .
  then have "grounds eid pf t1 (Set_state e to n why key)" unfolding assms(2) by (rule sound_split)
  then show ?thesis unfolding grounds_def creq.case by blast
qed

theorem transitions_follow_decision_witness:
  "\<exists>tr t1 t2. runs (advance ex_deps ''e1'' empty_preflight) tr (Inr ()) \<and>
     tr = t1 @ (Set_state ''e1'' ''reporting'' 8 ''Judge PASS'' ''state:8:reporting'', Inr P_unit) # t2 \<and>
     (\<exists>rec. last_record t1 rec \<and> r_revision rec = 8)"
proof -
  obtain t1 t2 where run: "runs (advance ex_deps ''e1'' empty_preflight)
     ((Read_record ''e1'', Inr (P_record ex_r8)) # t1 @ (Read_record ''e1'', Inr (P_record ex_r8)) #
      (Set_state ''e1'' ''reporting'' 8 ''Judge PASS'' ''state:8:reporting'', Inr P_unit) # t2) (Inr ())"
    using ex_advance by blast
  let ?t = "(Read_record ''e1'', Inr (P_record ex_r8)) # t1 @ [(Read_record ''e1'', Inr (P_record ex_r8))]"
  let ?s = "(Set_state ''e1'' ''reporting'' 8 ''Judge PASS'' ''state:8:reporting'', Inr P_unit)"
  have run': "runs (advance ex_deps ''e1'' empty_preflight) (?t @ ?s # t2) (Inr ())" using run by simp
  from transitions_follow_decision [OF run' refl] have "\<exists>rec. last_record ?t rec \<and> r_revision rec = 8"
    by (elim exE conjE) (rule exI, rule conjI, assumption, erule sym)
  with run' show ?thesis by (elim exE conjE) (intro exI conjI, assumption, rule refl, assumption, assumption)
qed

lemma first_record_unique: "first_record eid h rec \<Longrightarrow> first_record eid h rec' \<Longrightarrow> rec' = rec"
  by (auto simp: first_record_def)

lemma decision_judging:
  "decision retries ''judging'' rec ''reporting'' \<Longrightarrow> r_verdicts rec \<noteq> [] \<and> v_result (last (r_verdicts rec)) = ''PASS''"
  by (auto simp: decision_def split: if_splits)

lemma grounds_judged:
  assumes "grounds eid pf h (Set_state e ''reporting'' n why key)" "first_record eid h rec0" "r_state rec0 = Some ''judging''"
    and "last_record h rec"
  shows "n = r_revision rec \<and> r_verdicts rec \<noteq> [] \<and> v_result (last (r_verdicts rec)) = ''PASS''"
proof -
  obtain rec1 where r1: "last_record h rec1" "n = r_revision rec1"
    and d: "\<exists>rec0 state retries. first_record eid h rec0 \<and> r_state rec0 = Some state \<and> decision retries state rec1 ''reporting''"
    using assms(1) unfolding grounds_def creq.case by auto
  have "rec1 = rec" using last_record_unique [OF assms(4) r1(1)] .
  moreover obtain rec2 state retries where d': "first_record eid h rec2" "r_state rec2 = Some state" "decision retries state rec1 ''reporting''"
    using d by auto
  moreover have "rec2 = rec0" using first_record_unique [OF assms(2) d'(1)] .
  ultimately show ?thesis using r1(2) assms(3) decision_judging by auto
qed

text \<open>C15: an episode enters reporting from judging only with a PASS. The controller decides on a
record that the store holds in some state; by the time the store applies the transition other
processes may have run, but the write takes effect only if the store's current record is still
the one the controller decided on, and its last verdict is PASS.\<close>

theorem reporting_requires_pass:
  assumes "reachable (live_ok cd rp content) s" "(store_step (live_ok cd rp content))\<^sup>*\<^sup>* s s'"
    and "runs (advance d eid pf) tr res" "tr = t1 @ (Set_state e ''reporting'' n why key, r) # t2"
    and "first_record eid t1 rec0" "r_state rec0 = Some ''judging''"
    and "last_record t1 rec" "map_of (s_records s) e = Some rec"
    and "pget p ''episode_id'' = JStr e" "pget p ''expected_revision'' = JInt (int n)"
    and "set_state env x p s' = Inr (rep, s'')" "s'' \<noteq> s'"
  shows "map_of (s_records s') e = Some rec \<and> r_verdicts rec \<noteq> [] \<and> v_result (last (r_verdicts rec)) = ''PASS''"
proof -
  have "sound (grounds eid pf) tr" using wp_runsD [OF advance_justified assms(3)] .
  then have "grounds eid pf t1 (Set_state e ''reporting'' n why key)" unfolding assms(4) by (rule sound_split)
  from grounds_judged [OF this assms(5-7)]
  have n: "n = r_revision rec" and pass: "r_verdicts rec \<noteq> [] \<and> v_result (last (r_verdicts rec)) = ''PASS''" by auto
  obtain rec' where r': "record_of s' (JStr e) = Inr rec'"
    "s'' = s' \<or> py_eq (JInt (int n)) (JInt (int (r_revision rec')))"
    using set_state_write [OF assms(11)] assms(9,10) by metis
  then have eq: "map_of (s_records s') e = Some rec'" "r_revision rec' = r_revision rec" using assms(12) n by (auto simp: record_of_Inr)
  then have "rec' = rec" by (intro same_revision_same_record [OF assms(1,2,8)])
  with eq(1) pass show ?thesis by blast
qed

theorem reporting_requires_pass_witness:
  "\<exists>tr t1 t2 why key. runs (advance ex_deps ''e1'' empty_preflight) tr (Inr ()) \<and>
     tr = t1 @ (Set_state ''e1'' ''reporting'' 8 why key, Inr P_unit) # t2 \<and>
     set_state ex_env (ex_ctx ''store-control'' ''controller'') (ex_state_p ''reporting'' 8) ex_s8 =
       Inr (RJson (JObj [(''revision'', JInt 9), (''state'', JStr ''reporting'')]), ex_s9) \<and>
     v_result (last (r_verdicts ex_r8)) = ''PASS''"
proof -
  obtain t1 t2 where run: "runs (advance ex_deps ''e1'' empty_preflight)
     ((Read_record ''e1'', Inr (P_record ex_r8)) # t1 @ (Read_record ''e1'', Inr (P_record ex_r8)) #
      (Set_state ''e1'' ''reporting'' 8 ''Judge PASS'' ''state:8:reporting'', Inr P_unit) # t2) (Inr ())"
    using ex_advance by blast
  let ?t = "(Read_record ''e1'', Inr (P_record ex_r8)) # t1 @ [(Read_record ''e1'', Inr (P_record ex_r8))]"
  let ?s = "(Set_state ''e1'' ''reporting'' 8 ''Judge PASS'' ''state:8:reporting'', Inr P_unit)"
  have run': "runs (advance ex_deps ''e1'' empty_preflight) (?t @ ?s # t2) (Inr ())" using run by simp
  have f: "first_record ''e1'' ?t ex_r8" by (simp add: first_record_def)
  have l: "last_record ?t ex_r8" using last_record_read [of "(Read_record ''e1'', Inr (P_record ex_r8)) # t1" "''e1''" ex_r8] by simp
  have m: "map_of (s_records ex_s8) ''e1'' = Some ex_r8" by (simp add: ex_s8_def ex_run_def)
  have p: "pget (ex_state_p ''reporting'' 8) ''episode_id'' = JStr ''e1''"
    "pget (ex_state_p ''reporting'' 8) ''expected_revision'' = JInt (int 8)"
    by (simp_all add: ex_state_p_def pget_def)
  have ne: "ex_s9 \<noteq> ex_s8" by (simp add: ex_s9_def ex_s8_def ex_run_def)
  have "v_result (last (r_verdicts ex_r8)) = ''PASS''"
    using reporting_requires_pass [OF ex_reach8 rtranclp.rtrancl_refl run' refl f ex_r8_sel(1) l m p ex_tr9 ne]
    by (elim conjE)
  with run' ex_tr9 show ?thesis by (intro exI conjI) (assumption, rule refl, assumption, assumption)
qed

text \<open>C16: while the preflight does not allow model steps (observe-only flag, unverified bundle, audit
chain broken or its anchor late, a broker or the sandbox down) the controller starts no model
step: \<^verbatim>\<open>advance\<close> opens no model session, builds no worker home, launches nothing, and asks for no
transition but a hand-off.\<close>

theorem no_model_step_when_degraded:
  assumes "runs (advance d eid pf) tr res" "\<not> llm_allowed pf"
  shows "list_all (\<lambda>(q, r). case q of Launch _ _ _ _ _ \<Rightarrow> False | Open_session _ _ _ _ \<Rightarrow> False | Build_home _ _ _ _ \<Rightarrow> False
           | Set_state _ to _ _ _ \<Rightarrow> to = ''handed_off'' | _ \<Rightarrow> True) tr"
proof -
  have "degraded_request q" if "(q, r) \<in> set tr" for q r
    using every_runs [OF advance_degraded [OF assms(2)] assms(1) that] .
  then have "\<forall>x \<in> set tr. degraded_request (fst x)" by auto
  then show ?thesis by (fastforce simp: list_all_iff split: creq.splits)
qed

theorem no_model_step_when_degraded_witness:
  "\<exists>tr. runs (advance ex_deps ''e1'' (add_no_llm ''observer_broker unavailable'' empty_preflight)) tr (Inr ()) \<and> length tr = 4 \<and>
     list_all (\<lambda>(q, r). case q of Launch _ _ _ _ _ \<Rightarrow> False | Open_session _ _ _ _ \<Rightarrow> False | Build_home _ _ _ _ \<Rightarrow> False
       | Set_state _ to _ _ _ \<Rightarrow> to = ''handed_off'' | _ \<Rightarrow> True) tr"
proof -
  have "\<exists>tr. exec (advance ex_deps ''e1'' (add_no_llm ''observer_broker unavailable'' empty_preflight)) (ex_answer ex_r8) 0 = (tr, Inr ()) \<and>
      length tr = 4"
    by (simp add: advance_def advance_bound_def bundle_problem_def bundle_of_def read_rec_def exec_rules exec_ask ex_answer_def
        ex_r8_sel rbind_simps Let_def)
  then obtain tr where tr: "runs (advance ex_deps ''e1'' (add_no_llm ''observer_broker unavailable'' empty_preflight)) tr (Inr ())"
    "length tr = 4" using exec_runs by blast
  have off: "\<not> llm_allowed (add_no_llm ''observer_broker unavailable'' empty_preflight)" by simp
  show ?thesis using tr no_model_step_when_degraded [OF tr(1) off] by (intro exI conjI)
qed


definition ex_refusing :: "nat \<Rightarrow> creq \<Rightarrow> cresp result" where
  "ex_refusing n q = (case q of Open_session _ _ _ _ \<Rightarrow> Inl (RpcError ''no_key'') | _ \<Rightarrow> ex_answer ex_r8 n q)"


text \<open>A broker that times out cancels the rest of the clean-up. The RPC client raises the socket's
\<^verbatim>\<open>TimeoutError\<close> as it is, the clean-up catches only \<^verbatim>\<open>RpcError\<close>: when the first broker's revocation
times out, no other broker is asked, the model session stays open and its cost is not recorded.\<close>

lemma timeout_skips_revocation:
  assumes "cx_admins d = n # ns"
  shows "runs (step_cleanup d eid role sid conf sr) [(Revoke_session n sid, Inl (PyError ''TimeoutError''))]
           (Inl (PyError ''TimeoutError''))"
  by (rule exec_runs [where w = "\<lambda>_ _. Inl (PyError ''TimeoutError'')" and n = 0])
     (simp add: step_cleanup_def revoke_all_def assms exec_rules exec_ask swallow_rpc_def catch_def rbind_simps)

section \<open>Preflight\<close>

text \<open>A preflight that allows model steps has made every check and every answer was healthy: no
observe-only flag, an active bundle that verifies, an audit chain without error whose newest
anchor is at most P-19 old, every broker answering its ping, the sandbox available.\<close>

lemma preflight_checks_everything:
  assumes "runs (run_preflight d ns interval_s max_lag_s) tr (Inr pf)" "llm_allowed pf"
  shows "{Flag_get, Active_bundle, Audit_status, Launcher_preflight} \<union> Ping ` set ns \<subseteq> fst ` set tr \<and>
    list_all (\<lambda>(q, r). healthy_answer max_lag_s q r) tr"
proof
  show "{Flag_get, Active_bundle, Audit_status, Launcher_preflight} \<union> Ping ` set ns \<subseteq> fst ` set tr"
    using covers_runsD [OF run_preflight_covers assms(1)] by auto
  show "list_all (\<lambda>(q, r). healthy_answer max_lag_s q r) tr"
    using wp_runsD [OF run_preflight_sound assms(1)] assms(2) by (simp add: pf_sound_def all_healthy_def)
qed

end
