(* ===== verification/Artefact_Theorems.thy ===== *)
theory Artefact_Theorems
  imports Artefacts
begin

text \<open>
  The reach of the Judge-isolation check: the JSON text of a view holds no raw newline, whatever
  the view, so prose with a newline is never found in it.
\<close>

lemma nat_str_newline: "CHR 0x0A \<notin> set (nat_str n)"
proof (induction n rule: nat_str.induct)
  case (1 n)
  have "char_of (48 + m) \<noteq> (CHR 0x0A :: char)" if "m < 10" for m :: nat
  proof
    assume "char_of (48 + m) = (CHR 0x0A :: char)"
    then have "of_char (char_of (48 + m) :: char) = (10 :: nat)" by simp
    with that show False by (simp add: of_char_of)
  qed
  with 1 show ?case by (subst nat_str.simps) (auto dest: sym)
qed

lemma json_char_newline: "CHR 0x0A \<notin> set (json_char c)"
proof
  assume a: "CHR 0x0A \<in> set (json_char c)"
  have h: "hex_digits ! n \<noteq> CHR 0x0A" if "n < 16" for n
    using that nth_mem [of n hex_digits] by (auto simp: hex_digits_def)
  have n: "of_char c div 16 < (16 :: nat)"
    using nat_of_char_less_256 [of c] by (intro less_mult_imp_div_less) simp
  show False using a h [of "of_char c div 16"] h [of "of_char c mod 16"] n
    by (auto simp: json_char_def Let_def split: if_splits)
qed

lemma json_str_newline: "CHR 0x0A \<notin> set (json_str s)"
  using json_char_newline by (auto simp: json_str_def)

lemma join_comma_set: "set (join_comma xs) \<subseteq> (\<Union>x \<in> set xs. set x) \<union> {CHR '','', CHR '' ''}"
  by (induction xs rule: join_comma.induct) auto

lemma json_dumps_newline:
  assumes "\<forall>x. CHR 0x0A \<notin> set (fl x)"
  shows "CHR 0x0A \<notin> set (json_dumps fl v)"
proof (induction v)
  case (JArr xs)
  then show ?case using join_comma_set [of "map (json_dumps fl) xs"] by auto
next
  case (JObj d)
  let ?f = "\<lambda>(k, v). json_str k @ '': '' @ json_dumps fl v"
  have "CHR 0x0A \<notin> set (?f kv)" if "kv \<in> set d" for kv
  proof (cases kv)
    case (Pair k v)
    with JObj that have "CHR 0x0A \<notin> set (json_dumps fl v)" by (metis snds.intros snd_conv)
    with Pair json_str_newline show ?thesis by simp
  qed
  then have "CHR 0x0A \<notin> set (join_comma (map ?f d))" using join_comma_set [of "map ?f d"] by auto
  then show ?case by simp
qed (use assms nat_str_newline json_str_newline in \<open>simp_all add: int_str_def\<close>)

lemma starts_with_chars: "starts_with a b \<Longrightarrow> set a \<subseteq> set b"
  by (induction a b rule: starts_with.induct) (auto split: list.splits)

lemma substring_chars: "substring a b \<Longrightarrow> set a \<subseteq> set b"
  by (induction a b rule: substring.induct) (force dest: starts_with_chars)+

lemma prose_newline:
  assumes "CHR 0x0A \<notin> set blob" "\<forall>f \<in> {h_claim h, h_test h, h_expected_evidence h}. CHR 0x0A \<in> set f"
  shows "\<not> prose_in h blob"
  using assms substring_chars [of _ blob] by (auto simp: prose_in_def)

text \<open>The Judge-isolation check does not find prose that JSON escapes. It looks for the raw text of
a hypothesis in the JSON text of the view, where a newline is written as an escape: a hypothesis
whose claim, test and expected evidence each contain a newline passes the check against every view
without forbidden keys, also one that holds the claim verbatim.\<close>

lemma escaped_prose_evades_isolation:
  assumes "\<forall>x. CHR 0x0A \<notin> set (fl x)" "\<forall>k \<in> set FORBIDDEN_KEYS. \<not> has_key view k" "r_verdicts rec = []"
    and "\<forall>h \<in> set (r_hypotheses rec). \<forall>f \<in> {h_claim h, h_test h, h_expected_evidence h}. CHR 0x0A \<in> set f"
  shows "assert_judge_isolated fl view rec = Inr ()"
proof -
  have "\<not> prose_in h (judge_blob fl view)" if "h \<in> set (r_hypotheses rec)" for h
    using assms(4) that by (intro prose_newline) (auto simp: judge_blob_def json_dumps_newline [OF assms(1)] simp del: json_dumps.simps)
  then show ?thesis using assms(2,3)
    by (auto simp: assert_judge_isolated_def Let_def list_ex_iff)
qed

definition ex_prose :: string where "ex_prose = ''disk'' @ [CHR 0x0A] @ ''latency''"

definition ex_prose_rec :: erec where
  "ex_prose_rec = (empty_record ''e1'')\<lparr>r_hypotheses := [\<lparr>h_id = ''h1'', h_step_session = ''s'', h_rank = 1, h_claim = ex_prose, h_test = ex_prose,
     h_expected_evidence = ex_prose, h_status = ''open'', h_evidence_refs = [], h_t = [], h_status_history = []\<rparr>]\<rparr>"

end
