(* ===== verification/Table_Theorems.thy ===== *)
theory Table_Theorems
  imports Command_Table
begin

text \<open>
  What an accepted command table lets the daemon execute, and where the read-only check falls
  short of its documentation.
\<close>

section \<open>Tokens of an accepted table\<close>

definition safe_token :: "string \<Rightarrow> bool" where
  "safe_token t =
     (t \<noteq> [] \<and> (case placeholder t of
                 Some k \<Rightarrow> k \<in> set PLACEHOLDERS
               | None \<Rightarrow> \<not> has_meta t \<and> lower t \<notin> set STATE_CHANGING))"

definition first_word :: "string list \<Rightarrow> string option" where
  "first_word ts = find (\<lambda>t. \<not> starts_with ''-'' t \<and> placeholder t = None) ts"

lemma check_tokens_Inr:
  "check_tokens ts = Inr toks \<Longrightarrow> ts = map JStr toks \<and> list_all safe_token toks"
  by (induction ts arbitrary: toks)
     (auto simp: rbind_def safe_token_def split: jv.splits if_splits sum.splits option.splits)

lemma subcommand_words: "subcommand (map JStr ts) = Inr (first_word ts)"
  by (induction ts) (auto simp: first_word_def)

lemma exec_pair_Inr:
  assumes "exec_pair (map JStr ts) = Inr ()"
  obtains exe rest subs sub where "ts = exe # rest" "map_of READ_ONLY_EXEC exe = Some subs"
    "first_word rest = Some sub" "sub \<in> set subs"
  using assms by (cases ts) (auto simp: exec_pair_def subcommand_words rbind_def split: option.splits if_splits)

lemma load_optional_Inr:
  "load_optional args d = Inr opt \<Longrightarrow> list_all (\<lambda>(_, ts). list_all safe_token ts) opt"
  by (induction d arbitrary: opt)
     (auto simp: rbind_def dest!: check_tokens_Inr split: if_splits sum.splits)

definition read_only_command :: "command \<Rightarrow> bool" where
  "read_only_command cmd =
     ((\<exists>exe rest subs sub. cm_argv cmd = exe # rest \<and> map_of READ_ONLY_EXEC exe = Some subs \<and>
         first_word rest = Some sub \<and> sub \<in> set subs) \<and>
      list_all safe_token (cm_argv cmd) \<and> list_all (\<lambda>(_, ts). list_all safe_token ts) (cm_optional_argv cmd))"

lemma load_entry_exec:
  assumes "load_entry cid e = Inr cmd" "cm_kind cmd = ''exec''"
  shows "read_only_command cmd"
proof -
  from assms obtain args argv opt toks where l: "exec_pair argv = Inr ()" "check_tokens argv = Inr toks" "cm_argv cmd = toks"
    "load_optional args opt = Inr (cm_optional_argv cmd)"
    by (auto simp: load_entry_def rbind_def split: if_splits sum.splits)
  have t: "argv = map JStr toks" "list_all safe_token toks" using check_tokens_Inr [OF l(2)] by auto
  with l(1) have "exec_pair (map JStr toks) = Inr ()" by simp
  then obtain exe rest subs sub where "toks = exe # rest" "map_of READ_ONLY_EXEC exe = Some subs"
    "first_word rest = Some sub" "sub \<in> set subs"
    by (rule exec_pair_Inr)
  then show ?thesis using t(2) l(3) load_optional_Inr [OF l(4)] by (auto simp: read_only_command_def)
qed

lemma load_entries_Inr:
  "load_entries cs = Inr cmds \<Longrightarrow> (cid, cmd) \<in> set cmds \<Longrightarrow> command_id_ok cid \<and> (\<exists>e. load_entry cid e = Inr cmd)"
  by (induction cs arbitrary: cmds) (fastforce simp: rbind_def split: if_splits sum.splits)+

lemma load_table_Inr:
  "load_table_data data = Inr ct \<Longrightarrow> (cid, cmd) \<in> set (ct_commands ct) \<Longrightarrow>
   command_id_ok cid \<and> (\<exists>e. load_entry cid e = Inr cmd)"
  by (auto simp: load_table_data_def rbind_def split: jv.splits sum.splits dest!: load_entries_Inr)

section \<open>The argument vector\<close>

lemma fill_all_Inr:
  "fill_all other args local ts = Inr argv \<Longrightarrow> list_all2 (\<lambda>t s. fill other args local t = Inr s) ts argv"
  by (induction ts arbitrary: argv) (auto simp: rbind_def split: sum.splits)

text \<open>A value that passes the argument specification.\<close>

definition arg_ok :: "arg_spec \<Rightarrow> jv \<Rightarrow> bool" where
  "arg_ok spec v =
     (case v of
        JInt i \<Rightarrow> as_type spec = ''int'' \<and> (\<forall>b. num_of (as_min spec) = Some b \<longrightarrow> b \<le> of_int i) \<and>
                  (\<forall>b. num_of (as_max spec) = Some b \<longrightarrow> of_int i \<le> b)
      | JStr s \<Rightarrow> as_type spec = ''pubkey'' \<and> base58_match s
      | _ \<Rightarrow> False)"

lemma check_arg_Inr: "check_arg spec v = Inr v' \<Longrightarrow> as_type spec \<in> set ARG_TYPES \<Longrightarrow> v' = v \<and> arg_ok spec v"
  by (auto simp: check_arg_def arg_ok_def ARG_TYPES_def out_of_bounds_def rbind_def
      split: jv.splits if_splits sum.splits option.splits)

lemma check_args_Inr:
  assumes "check_args specs args = Inr out" "list_all (\<lambda>(_, sp). as_type sp \<in> set ARG_TYPES) specs" "map_of out k = Some v"
  shows "\<exists>sp. (k, sp) \<in> set specs \<and> arg_ok sp v"
  using assms
proof (induction specs arbitrary: out)
  case (Cons s specs)
  obtain name spec where s: "s = (name, spec)" by (cases s)
  show ?case
    using Cons s by (auto simp: rbind_def split: option.splits if_splits sum.splits dest!: check_arg_Inr)
qed simp

lemma load_args_Inr: "load_args d = Inr args \<Longrightarrow> list_all (\<lambda>(_, sp). as_type sp \<in> set ARG_TYPES) args"
  by (induction d arbitrary: args) (auto simp: rbind_def split: if_splits sum.splits)

lemma load_entry_args:
  "load_entry cid e = Inr cmd \<Longrightarrow> list_all (\<lambda>(_, sp). as_type sp \<in> set ARG_TYPES) (cm_args cmd)"
  by (auto simp: load_entry_def rbind_def split: if_splits sum.splits dest!: load_args_Inr)

lemma validate_args_Inr:
  assumes "validate_args cmd a = Inr args" "list_all (\<lambda>(_, sp). as_type sp \<in> set ARG_TYPES) (cm_args cmd)" "map_of args k = Some v"
  shows "\<exists>sp. (k, sp) \<in> set (cm_args cmd) \<and> arg_ok sp v"
  using assms by (auto simp: validate_args_def rbind_def split: sum.splits if_splits intro: check_args_Inr)

lemma list_all2_mono_in: "list_all2 P xs ys \<Longrightarrow> (\<And>x y. x \<in> set xs \<Longrightarrow> P x y \<Longrightarrow> Q x y) \<Longrightarrow> list_all2 Q xs ys"
  by (induction rule: list_all2_induct) auto

text \<open>How a token of the executed vector comes from a token of the table.\<close>

definition filled_from ::
  "(jv \<Rightarrow> string) \<Rightarrow> command \<Rightarrow> params \<Rightarrow> (string \<times> string) list \<Rightarrow> string \<Rightarrow> string \<Rightarrow> bool" where
  "filled_from other cmd args local t s =
     (safe_token t \<and>
      (case placeholder t of
         None \<Rightarrow> s = t
       | Some k \<Rightarrow> (\<exists>v sp. map_of args k = Some v \<and> (k, sp) \<in> set (cm_args cmd) \<and> arg_ok sp v \<and> s = py_str other v) \<or>
                   map_of args k = None \<and> map_of local k = Some s))"

lemma fill_filled:
  assumes "load_entry cid e = Inr cmd" "validate_args cmd a = Inr args" "safe_token t" "fill other args local t = Inr s"
  shows "filled_from other cmd args local t s"
  using assms(3,4) validate_args_Inr [OF assms(2) load_entry_args [OF assms(1)]]
  by (fastforce simp: filled_from_def fill_def split: option.splits)

lemma call_tokens_safe: "read_only_command cmd \<Longrightarrow> t \<in> set (call_tokens cmd args) \<Longrightarrow> safe_token t"
  by (fastforce simp: read_only_command_def call_tokens_def list_all_iff)

lemma exe_no_placeholder: "map_of READ_ONLY_EXEC exe = Some subs \<Longrightarrow> placeholder exe = None"
  by (auto simp: READ_ONLY_EXEC_def placeholder_def chomp_def Let_def split: if_splits)


definition ex_entry :: jv where
  "ex_entry = JObj [(''kind'', JStr ''exec''), (''read_only'', JBool True),
     (''argv'', JArr [JStr ''solana'', JStr ''leader-schedule'', JStr ''--url'', JStr ''{rpc_url}'']),
     (''optional_argv'', JObj [(''epoch'', JArr [JStr ''--epoch'', JStr ''{epoch}''])]),
     (''args'', JObj [(''epoch'', JObj [(''type'', JStr ''int''), (''min'', JInt 0), (''max'', JInt 100000)])])]"

definition ex_table :: jv where
  "ex_table = JObj [(''version'', JInt 1), (''commands'', JObj [(''leader_schedule_self'', ex_entry)])]"

definition ex_leader_cmd :: command where
  "ex_leader_cmd = \<lparr>cm_id = ''leader_schedule_self'', cm_kind = ''exec'',
     cm_argv = [''solana'', ''leader-schedule'', ''--url'', ''{rpc_url}''], cm_optional_argv = [(''epoch'', [''--epoch'', ''{epoch}''])],
     cm_args = [(''epoch'', \<lparr>as_type = ''int'', as_min = JInt 0, as_max = JInt 100000, as_required = False\<rparr>)],
     cm_parser = JNull, cm_timeout_s = 15, cm_output_cap_bytes = 16384, cm_timeout_is_sample = False, cm_rpc_backed = False\<rparr>"

lemma ex_table_loads: "load_table_data ex_table = Inr \<lparr>ct_version = 1, ct_commands = [(''leader_schedule_self'', ex_leader_cmd)]\<rparr>"
  unfolding ex_table_def ex_entry_def ex_leader_cmd_def by code_simp

lemma ex_leader_args: "validate_args ex_leader_cmd (JObj [(''epoch'', JInt 7)]) = Inr [(''epoch'', JInt 7)]"
  unfolding ex_leader_cmd_def by code_simp

lemma ex_leader_argv:
  "assemble_argv (\<lambda>_. []) ex_leader_cmd [(''epoch'', JInt 7)] [(''rpc_url'', ''http://h'')] =
     Inr [''solana'', ''leader-schedule'', ''--url'', ''http://h'', ''--epoch'', ''7'']"
  unfolding ex_leader_cmd_def by code_simp


text \<open>The read-only check takes the value of an option for the subcommand. The loader accepts
\<^verbatim>\<open>solana --url slot create-nonce-account key 1\<close>, where \<^verbatim>\<open>slot\<close> is the value of \<^verbatim>\<open>--url\<close> and the command that
runs is \<^verbatim>\<open>create-nonce-account\<close>, which is not in the allowlist; it also accepts
\<^verbatim>\<open>solana feature activate key\<close>, which submits a transaction.\<close>

lemma option_value_taken_as_subcommand:
  "\<exists>ct. load_table_data (JObj [(''commands'', JObj [
       (''bad_one'', JObj [(''kind'', JStr ''exec''), (''read_only'', JBool True),
          (''argv'', JArr (map JStr [''solana'', ''--url'', ''slot'', ''create-nonce-account'', ''key'', ''1'']))]),
       (''bad_two'', JObj [(''kind'', JStr ''exec''), (''read_only'', JBool True),
          (''argv'', JArr (map JStr [''solana'', ''feature'', ''activate'', ''key'']))])])]) = Inr ct \<and>
     map (cm_argv \<circ> snd) (ct_commands ct) =
       [[''solana'', ''--url'', ''slot'', ''create-nonce-account'', ''key'', ''1''], [''solana'', ''feature'', ''activate'', ''key'']]"
  by (rule exI [where x = "\<lparr>ct_version = 1, ct_commands =
       [(''bad_one'', \<lparr>cm_id = ''bad_one'', cm_kind = ''exec'',
           cm_argv = [''solana'', ''--url'', ''slot'', ''create-nonce-account'', ''key'', ''1''], cm_optional_argv = [], cm_args = [],
           cm_parser = JNull, cm_timeout_s = 15, cm_output_cap_bytes = 16384, cm_timeout_is_sample = False, cm_rpc_backed = False\<rparr>),
        (''bad_two'', \<lparr>cm_id = ''bad_two'', cm_kind = ''exec'', cm_argv = [''solana'', ''feature'', ''activate'', ''key''],
           cm_optional_argv = [], cm_args = [], cm_parser = JNull, cm_timeout_s = 15, cm_output_cap_bytes = 16384,
           cm_timeout_is_sample = False, cm_rpc_backed = False\<rparr>)]\<rparr>"]) code_simp

end
