(* ===== verification/Observer_Daemon.thy ===== *)
theory Observer_Daemon
  imports Command_Table Prog
begin

text \<open>
  \<^verbatim>\<open>valops/observer/daemon.py\<close>: the circuit breaker, the rate limiter, the capped reader of a child
  process and the handling of one observation. The handler is a program over the requests that
  touch shared state or the outside: the clocks, the breaker, the rate limiter, the lock of a
  command, the builtins, the child process, the output parsers, the redaction and the local chain.
\<close>

section \<open>Circuit breaker\<close>

record breaker =
  br_threshold_ms :: rat
  br_recover :: int
  br_open :: bool
  br_good :: int
  br_trips :: nat
  br_opened_at :: "rat option"

definition new_breaker :: "rat \<Rightarrow> int \<Rightarrow> breaker" where
  "new_breaker thr recov =
     \<lparr>br_threshold_ms = thr, br_recover = recov, br_open = False, br_good = 0, br_trips = 0, br_opened_at = None\<rparr>"

definition sample_bad :: "rat \<Rightarrow> rat \<times> bool \<Rightarrow> bool" where
  "sample_bad thr s = (\<not> snd s \<or> fst s > thr)"

definition sample :: "rat \<Rightarrow> rat \<times> bool \<Rightarrow> breaker \<Rightarrow> breaker" where
  "sample t s b =
     (if sample_bad (br_threshold_ms b) s then
        (if br_open b then b else b\<lparr>br_open := True, br_opened_at := Some t, br_trips := br_trips b + 1\<rparr>)\<lparr>br_good := 0\<rparr>
      else if br_open b then
        (let b' = b\<lparr>br_good := br_good b + 1\<rparr> in
         if br_good b' \<ge> br_recover b' then b'\<lparr>br_open := False, br_opened_at := None\<rparr> else b')
      else b)"

definition breaker_state :: "breaker \<Rightarrow> params" where
  "breaker_state b =
     [(''open'', JBool (br_open b)), (''trips'', JInt (int (br_trips b))),
      (''opened_at'', case br_opened_at b of None \<Rightarrow> JNull | Some t \<Rightarrow> JFloat t), (''threshold_ms'', JFloat (br_threshold_ms b))]"

section \<open>Rate limiter\<close>

text \<open>The deque of the times of the calls let through, oldest first.\<close>

definition expire :: "rat \<Rightarrow> rat list \<Rightarrow> rat list" where
  "expire t q = dropWhile (\<lambda>x. t - x > 60) q"

definition rate_ok :: "int \<Rightarrow> rat \<Rightarrow> rat list \<Rightarrow> bool \<times> rat list" where
  "rate_ok rate t q =
     (let q = expire t q in if int (length q) \<ge> rate then (False, q) else (True, q @ [t]))"

section \<open>Reader\<close>

text \<open>\<^verbatim>\<open>data[:limit]\<close> and \<^verbatim>\<open>cap\<close> of \<^verbatim>\<open>valops/observer/redact.py\<close>.\<close>

definition slice_to :: "int \<Rightarrow> 'a list \<Rightarrow> 'a list" where
  "slice_to n xs = take (nat (if n < 0 then int (length xs) + n else n)) xs"

definition cap :: "'a list \<Rightarrow> int \<Rightarrow> 'a list \<times> bool" where
  "cap data limit = (if int (length data) > limit then (slice_to limit data, True) else (data, False))"

text \<open>The reader thread: one step per chunk read.\<close>

definition read_chunk :: "int \<Rightarrow> 'a list \<Rightarrow> 'a list \<times> bool \<Rightarrow> 'a list \<times> bool" where
  "read_chunk limit chunk s = (if int (length (fst s)) < limit then (fst s @ chunk, snd s) else (fst s, True))"

definition reader :: "int \<Rightarrow> 'a list list \<Rightarrow> 'a list \<times> bool" where
  "reader limit chunks = fold (read_chunk limit) chunks ([], False)"

text \<open>How the child ended: with a return code, or killed at the time-out.\<close>

datatype proc_end = Exited int | Timeout_expired

definition proc_status :: "command \<Rightarrow> proc_end \<Rightarrow> string" where
  "proc_status cmd e =
     (case e of
        Exited rc \<Rightarrow> if rc = 0 then ''ok'' else ''error''
      | Timeout_expired \<Rightarrow> if cm_timeout_is_sample cmd then ''ok'' else ''timeout'')"

definition exec_result :: "command \<Rightarrow> proc_end \<Rightarrow> 'a list list \<Rightarrow> string \<times> 'a list \<times> bool" where
  "exec_result cmd e chunks =
     (let (buf, over) = reader (cm_output_cap_bytes cmd) chunks;
          (data, truncated) = cap buf (cm_output_cap_bytes cmd)
      in (proc_status cmd e, data, truncated \<or> over))"

section \<open>Requests of the handler\<close>

datatype oreq =
    Monotonic
  | Wall_clock
  | Breaker_get
  | Breaker_sample rat bool
  | Rate_ok string
  | Try_lock string
  | Release string
  | Run_builtin string params
  | Spawn "string list" rat
  | Parse string string
  | Redact string
  | Chain_append params

datatype oresp =
    O_unit
  | O_time rat
  | O_breaker breaker
  | O_bool bool
  | O_builtin string params
  | O_proc proc_end "bytes list"
  | O_parsed params
  | O_redacted "string list" string nat
  | O_seq int

fun o_unit :: "oresp \<Rightarrow> unit option" where "o_unit _ = Some ()"
fun o_time :: "oresp \<Rightarrow> rat option" where "o_time (O_time t) = Some t" | "o_time _ = None"
fun o_breaker :: "oresp \<Rightarrow> breaker option" where "o_breaker (O_breaker b) = Some b" | "o_breaker _ = None"
fun o_bool :: "oresp \<Rightarrow> bool option" where "o_bool (O_bool b) = Some b" | "o_bool _ = None"
fun o_builtin :: "oresp \<Rightarrow> (string \<times> params) option" where
  "o_builtin (O_builtin t s) = Some (t, s)" | "o_builtin _ = None"
fun o_proc :: "oresp \<Rightarrow> (proc_end \<times> bytes list) option" where
  "o_proc (O_proc e cs) = Some (e, cs)" | "o_proc _ = None"
fun o_parsed :: "oresp \<Rightarrow> params option" where "o_parsed (O_parsed s) = Some s" | "o_parsed _ = None"
fun o_redacted :: "oresp \<Rightarrow> (string list \<times> string \<times> nat) option" where
  "o_redacted (O_redacted f t n) = Some (f, t, n)" | "o_redacted _ = None"
fun o_seq :: "oresp \<Rightarrow> int option" where "o_seq (O_seq n) = Some n" | "o_seq _ = None"

type_synonym 'a observing = "(oreq, oresp, 'a) prog"

text \<open>
  The daemon's configuration, with the text operations of the library that the handler calls:
  UTF-8 (decoding puts a replacement character, which lies outside the model's characters, for
  what is no UTF-8), SHA-256, rounding to a tenth, the text of a value, and which parsers exist.
\<close>

record odeps =
  od_table :: command_table
  od_local :: "(string \<times> string) list"
  od_encode :: "string \<Rightarrow> bytes"
  od_decode :: "bytes \<Rightarrow> string"
  od_sha256 :: "bytes \<Rightarrow> string"
  od_round :: "rat \<Rightarrow> rat"
  od_other :: "jv \<Rightarrow> string"
  od_parsers :: "string list"

section \<open>An observation\<close>

definition finish ::
  "odeps \<Rightarrow> jv \<Rightarrow> jv \<Rightarrow> rat \<Rightarrow> string \<Rightarrow> params \<Rightarrow> string \<Rightarrow> bool \<Rightarrow> rat \<Rightarrow> params observing" where
  "finish d cid rid collected status structured txt truncated t0 =
     pbind (ask (Redact txt) o_redacted) (\<lambda>(flags, red, n).
     pbind (ask Monotonic o_time) (\<lambda>t1.
     pbind (lift (Inr (JFloat (od_round d ((t1 - t0) * 1000))))) (\<lambda>elapsed.
     pbind (ask (Chain_append [(''request_id'', rid), (''command_id'', cid), (''status'', JStr status),
        (''output_hash'', JStr (od_sha256 d (od_encode d red))), (''elapsed_ms'', elapsed)]) o_seq) (\<lambda>seq.
       Ret [(''command_id'', cid), (''request_id'', rid), (''collected_at'', JFloat collected), (''status'', JStr status),
            (''structured'', JObj structured), (''output'', JStr red), (''truncated'', JBool truncated),
            (''flags'', JArr (map JStr flags)), (''redactions'', JInt (int n)), (''elapsed_ms'', elapsed),
            (''audit_ref'', JStr (''daemon:'' @ int_str seq))]))))"

text \<open>
  What is collected under the lock: either a finished report (an \<^verbatim>\<open>OSError\<close> or one of its
  subclasses is reported) or status, structured data, text and truncation.
\<close>

definition OS_ERRORS :: "string list" where
  "OS_ERRORS =
     [''OSError'', ''BlockingIOError'', ''ChildProcessError'', ''ConnectionError'', ''BrokenPipeError'', ''ConnectionAbortedError'',
      ''ConnectionRefusedError'', ''ConnectionResetError'', ''FileExistsError'', ''FileNotFoundError'', ''InterruptedError'',
      ''IsADirectoryError'', ''NotADirectoryError'', ''PermissionError'', ''ProcessLookupError'', ''TimeoutError'', ''URLError'',
      ''HTTPError'']"

definition os_error :: "exn \<Rightarrow> bool" where
  "os_error e = (case e of PyError n \<Rightarrow> n \<in> set OS_ERRORS
                 | RpcError _ \<Rightarrow> False)"

fun exn_class :: "exn \<Rightarrow> string" where
  "exn_class (PyError n) = n"
| "exn_class (RpcError c) = ''RpcError''"

definition collect_builtin ::
  "odeps \<Rightarrow> command \<Rightarrow> params \<Rightarrow> (string + (string \<times> params \<times> string \<times> bool)) observing" where
  "collect_builtin d cmd vargs =
     pbind (attempt (ask (Run_builtin (cm_id cmd) vargs) o_builtin)) (\<lambda>r.
       case r of
         Inl e \<Rightarrow> if os_error e then Ret (Inl (exn_class e)) else Raise e
       | Inr (txt, structured) \<Rightarrow>
           let (raw, truncated) = cap (od_encode d txt) (cm_output_cap_bytes cmd);
               txt' = od_decode d raw
           in if cm_id cmd = ''rpc_latency'' then
                pbind (lift (rbind (getitem (JObj structured) ''latency_ms'')
                               (\<lambda>v. case num_of v of None \<Rightarrow> Inl TypeError | Some n \<Rightarrow> Inr n))) (\<lambda>latency.
                pbind (lift (getitem (JObj structured) ''healthy'')) (\<lambda>healthy.
                pbind (ask (Breaker_sample latency (truthy healthy)) o_unit) (\<lambda>_.
                pbind (ask Breaker_get o_breaker) (\<lambda>b.
                  Ret (Inr (''ok'', dict_set structured ''breaker'' (JObj (breaker_state b)), txt', truncated))))))
              else Ret (Inr (''ok'', structured, txt', truncated)))"

definition collect_exec ::
  "odeps \<Rightarrow> command \<Rightarrow> params \<Rightarrow> (string + (string \<times> params \<times> string \<times> bool)) observing" where
  "collect_exec d cmd vargs =
     pbind (lift (assemble_argv (od_other d) cmd vargs (od_local d))) (\<lambda>argv.
     pbind (attempt (ask (Spawn argv (cm_timeout_s cmd)) o_proc)) (\<lambda>r.
       case r of
         Inl e \<Rightarrow> if os_error e then Ret (Inl (exn_class e)) else Raise e
       | Inr (e, chunks) \<Rightarrow>
           let (status, raw, truncated) = exec_result cmd e chunks; txt = od_decode d raw;
               parser = (case cm_parser cmd of JStr p \<Rightarrow> p | _ \<Rightarrow> [])
           in if parser \<in> set (od_parsers d) \<and> status = ''ok''
              then pbind (ask (Parse parser txt) o_parsed) (\<lambda>structured. Ret (Inr (status, structured, txt, truncated)))
              else Ret (Inr (status, [(''parsed'', JBool False)], txt, truncated))))"

definition collect ::
  "odeps \<Rightarrow> command \<Rightarrow> params \<Rightarrow> (string + (string \<times> params \<times> string \<times> bool)) observing" where
  "collect d cmd vargs = (if cm_kind cmd = ''builtin'' then collect_builtin d cmd vargs else collect_exec d cmd vargs)"

text \<open>The part under the lock: \<^verbatim>\<open>try ... finally: lock.release()\<close>, with the error report inside the \<^verbatim>\<open>try\<close>.\<close>

definition locked ::
  "odeps \<Rightarrow> jv \<Rightarrow> jv \<Rightarrow> rat \<Rightarrow> rat \<Rightarrow> command \<Rightarrow> params \<Rightarrow> (params + (string \<times> params \<times> string \<times> bool)) observing" where
  "locked d cid rid collected t0 cmd vargs =
     finally_do
       (pbind (collect d cmd vargs) (\<lambda>r.
          case r of
            Inl err \<Rightarrow> pbind (finish d cid rid collected ''error'' [(''error'', JStr err)] [] False t0) (\<lambda>rep. Ret (Inl rep))
          | Inr x \<Rightarrow> Ret (Inr x)))
       (ask (Release (cm_id cmd)) o_unit)"

definition run_command ::
  "odeps \<Rightarrow> jv \<Rightarrow> jv \<Rightarrow> rat \<Rightarrow> rat \<Rightarrow> command \<Rightarrow> params \<Rightarrow> params observing" where
  "run_command d cid rid collected t0 cmd vargs =
     pbind (ask (Rate_ok (cm_id cmd)) o_bool) (\<lambda>ok.
       if \<not> ok then finish d cid rid collected ''rate_limited'' [] [] False t0
       else pbind (ask (Try_lock (cm_id cmd)) o_bool) (\<lambda>got.
         if \<not> got then finish d cid rid collected ''busy'' [] [] False t0
         else pbind (locked d cid rid collected t0 cmd vargs) (\<lambda>r.
           case r of
             Inl rep \<Rightarrow> Ret rep
           | Inr (status, structured, txt, truncated) \<Rightarrow> finish d cid rid collected status structured txt truncated t0)))"

definition observe_command ::
  "odeps \<Rightarrow> jv \<Rightarrow> jv \<Rightarrow> jv \<Rightarrow> rat \<Rightarrow> rat \<Rightarrow> command \<Rightarrow> params observing" where
  "observe_command d cid args rid collected t0 cmd =
     (case validate_args cmd args of
        Inl e \<Rightarrow> if e = ArgError then finish d cid rid collected ''rejected'' [(''error'', JStr ''bad arguments'')] [] False t0 else Raise e
      | Inr vargs \<Rightarrow>
          if cm_kind cmd = ''unavailable''
          then finish d cid rid collected ''unavailable'' [(''reason'', JStr ''query not verified against a primary source [U]'')] [] False t0
          else if cm_rpc_backed cmd
          then pbind (ask Breaker_get o_breaker) (\<lambda>b.
            if br_open b then finish d cid rid collected ''suspended'' [(''breaker'', JObj (breaker_state b))] [] False t0
            else run_command d cid rid collected t0 cmd vargs)
          else run_command d cid rid collected t0 cmd vargs)"

definition observe :: "odeps \<Rightarrow> jv \<Rightarrow> jv \<Rightarrow> jv \<Rightarrow> params observing" where
  "observe d cid args rid =
     pbind (ask Monotonic o_time) (\<lambda>t0.
     pbind (ask Wall_clock o_time) (\<lambda>collected.
       case (case cid of JStr s \<Rightarrow> map_of (ct_commands (od_table d)) s | _ \<Rightarrow> None) of
         None \<Rightarrow> finish d cid rid collected ''rejected'' [(''error'', JStr ''unknown command_id'')] [] False t0
       | Some cmd \<Rightarrow> observe_command d cid args rid collected t0 cmd))"

end
