(* ===== verification/Observer_Theorems.thy ===== *)
theory Observer_Theorems
  imports Observer_Daemon Table_Theorems
begin

text \<open>
  The observer daemon: the breaker against its specification by the sample history, the bound of
  the rate limiter over every minute, the capped reader against the cap of the whole output, and
  the guards of an execution in every run of the handler.
\<close>

section \<open>Breaker\<close>

text \<open>The number of good samples since the last bad one.\<close>

definition good_run :: "rat \<Rightarrow> (rat \<times> bool) list \<Rightarrow> nat" where
  "good_run thr ss = length (takeWhile (\<lambda>s. \<not> sample_bad thr s) (rev ss))"

definition samples :: "rat \<Rightarrow> int \<Rightarrow> (rat \<times> rat \<times> bool) list \<Rightarrow> breaker" where
  "samples thr recov ts = fold (\<lambda>(t, s). sample t s) ts (new_breaker thr recov)"

lemma samples_params: "br_threshold_ms (samples thr recov ts) = thr \<and> br_recover (samples thr recov ts) = recov"
  by (induction ts rule: rev_induct)
     (auto simp: samples_def new_breaker_def sample_def Let_def split: prod.splits)

lemma good_run_snoc [simp]:
  "good_run thr (ss @ [s]) = (if sample_bad thr s then 0 else Suc (good_run thr ss))"
  by (simp add: good_run_def)

lemma breaker_specification:
  "br_open (samples thr recov ts) \<longleftrightarrow>
     list_ex (sample_bad thr) (map snd ts) \<and> int (good_run thr (map snd ts)) < max 1 recov"
  "br_open (samples thr recov ts) \<Longrightarrow> br_good (samples thr recov ts) = int (good_run thr (map snd ts))"
proof (induction ts rule: rev_induct)
  case (snoc x ts)
  obtain t s where x: "x = (t, s)" by (cases x)
  have st: "samples thr recov (ts @ [x]) = sample t s (samples thr recov ts)" by (simp add: samples_def x)
  note p = samples_params [of thr recov ts]
  {
    case 1
    show ?case using snoc p unfolding st by (auto simp: sample_def x Let_def)
  next
    case 2
    then show ?case using snoc p unfolding st by (auto simp: sample_def x Let_def split: if_splits)
  }
qed (simp_all add: samples_def new_breaker_def)

section \<open>Rate limiter\<close>

text \<open>The calls at the times \<open>ts\<close> in order: the times let through and the deque.\<close>

definition rate_call :: "int \<Rightarrow> rat \<Rightarrow> rat list \<times> rat list \<Rightarrow> rat list \<times> rat list" where
  "rate_call rate t s = (case rate_ok rate t (snd s) of (ok, q) \<Rightarrow> (if ok then fst s @ [t] else fst s, q))"

definition rate_calls :: "int \<Rightarrow> rat list \<Rightarrow> rat list \<times> rat list" where
  "rate_calls rate ts = fold (rate_call rate) ts ([], [])"

definition in_window :: "rat \<Rightarrow> rat \<Rightarrow> bool" where
  "in_window a x = (a \<le> x \<and> x \<le> a + 60)"

lemma sorted_filter': "sorted q \<Longrightarrow> sorted (filter P q)"
  using sorted_filter [of "\<lambda>x. x"] by simp

lemma expire_sorted: "sorted q \<Longrightarrow> expire t q = filter (\<lambda>x. \<not> t - x > 60) q"
proof (induction q)
  case (Cons a q)
  show ?case
  proof (cases "t - a > 60")
    case False
    with Cons.prems have "filter (\<lambda>x. \<not> t - x > 60) (a # q) = a # q" by (fastforce simp: filter_id_conv)
    with False show ?thesis by (simp add: expire_def)
  qed (use Cons in \<open>simp add: expire_def\<close>)
qed (simp add: expire_def)

lemma expire_expire: "sorted q \<Longrightarrow> t' \<le> t \<Longrightarrow> expire t (expire t' q) = expire t q"
  by (auto simp: expire_sorted sorted_filter' intro!: filter_cong)

definition rate_inv :: "int \<Rightarrow> rat \<Rightarrow> rat list \<times> rat list \<Rightarrow> bool" where
  "rate_inv rate t s =
     (sorted (fst s) \<and> (\<forall>x \<in> set (fst s). x \<le> t) \<and> snd s = expire t (fst s) \<and>
      (\<forall>a. int (length (filter (in_window a) (fst s))) \<le> max 0 rate))"

lemma length_filter_le: "(\<And>x. x \<in> set xs \<Longrightarrow> P x \<Longrightarrow> Q x) \<Longrightarrow> length (filter P xs) \<le> length (filter Q xs)"
  by (induction xs) (auto simp: le_SucI)

lemma rate_call_inv:
  assumes inv: "rate_inv rate t' s" and le: "t' \<le> t"
  shows "rate_inv rate t (rate_call rate t s)"
proof -
  let ?q = "expire t (fst s)"
  have q: "expire t (snd s) = ?q" using inv le by (simp add: rate_inv_def expire_expire)
  have le': "\<forall>x \<in> set (fst s). x \<le> t" using inv le by (auto simp: rate_inv_def)
  have srt: "sorted (fst s)" and win: "\<And>a. int (length (filter (in_window a) (fst s))) \<le> max 0 rate"
    using inv by (auto simp: rate_inv_def)
  show ?thesis
  proof (cases "int (length ?q) \<ge> rate")
    case True
    then show ?thesis using q srt le' win by (simp add: rate_inv_def rate_call_def rate_ok_def)
  next
    case False
    have srt': "sorted (fst s @ [t])" using srt le' by (simp add: sorted_append)
    have ex: "expire t (fst s @ [t]) = ?q @ [t]" using srt srt' by (simp add: expire_sorted)
    have "int (length (filter (in_window a) (fst s @ [t]))) \<le> max 0 rate" for a
    proof (cases "in_window a t")
      case True
      have "length (filter (in_window a) (fst s)) \<le> length ?q"
        unfolding expire_sorted [OF srt] using True by (intro length_filter_le) (auto simp: in_window_def)
      with False True show ?thesis by simp
    qed (use win in simp)
    then show ?thesis using False q srt' ex le' by (simp add: rate_inv_def rate_call_def rate_ok_def)
  qed
qed

lemma rate_calls_inv: "sorted ts \<Longrightarrow> rate_inv rate (if ts = [] then 0 else last ts) (rate_calls rate ts)"
proof (induction ts rule: rev_induct)
  case (snoc t ts)
  then have "rate_inv rate (if ts = [] then t else last ts) (rate_calls rate ts)"
    by (cases "ts = []") (simp_all add: sorted_append rate_calls_def rate_inv_def expire_def)
  moreover have "(if ts = [] then t else last ts) \<le> t" using snoc.prems by (auto simp: sorted_append)
  ultimately show ?case by (auto simp: rate_calls_def intro: rate_call_inv)
qed (simp add: rate_calls_def rate_inv_def expire_def)

text \<open>C20: the rate limiter lets at most \<^verbatim>\<open>rate_per_min\<close> calls of a command through in every window of 60
seconds, wherever the window starts, for calls at times of the monotonic clock.\<close>

theorem rate_limit_every_minute:
  assumes "sorted ts"
  shows "int (length (filter (in_window a) (fst (rate_calls rate ts)))) \<le> max 0 rate"
  using rate_calls_inv [OF assms, of rate] by (simp add: rate_inv_def)

theorem rate_limit_every_minute_witness:
  "int (length (filter (in_window 0) (fst (rate_calls 2 [0, 10, 20, 65, 70])))) \<le> 2 \<and>
   fst (rate_calls 2 [0, 10, 20, 65, 70]) = [0, 10, 65]"
proof
  have "sorted [0, 10, 20, 65, 70 :: rat]" by simp
  from rate_limit_every_minute [OF this, of 0 2]
  show "int (length (filter (in_window 0) (fst (rate_calls 2 [0, 10, 20, 65, 70])))) \<le> 2" by simp
  show "fst (rate_calls 2 [0, 10, 20, 65, 70]) = [0, 10, 65]"
    by (simp add: rate_calls_def rate_call_def rate_ok_def expire_def Let_def)
qed

section \<open>Reader\<close>

lemma reader_over: "limit \<le> int (length b) \<Longrightarrow> fold (read_chunk limit) chunks (b, ov) = (b, ov \<or> chunks \<noteq> [])"
  by (induction chunks arbitrary: ov) (auto simp: read_chunk_def)

lemma reader_prefix:
  assumes "list_all (\<lambda>c. c \<noteq> []) chunks" "0 \<le> limit" "fold (read_chunk limit) chunks (buf, False) = (b, over)" "cap b limit = (d, t)"
  shows "cap (buf @ concat chunks) limit = (d, t \<or> over)"
  using assms
proof (induction chunks arbitrary: buf)
  case (Cons c cs)
  show ?case
  proof (cases "int (length buf) < limit")
    case True
    then have "fold (read_chunk limit) cs (buf @ c, False) = (b, over)" using Cons.prems(3)
      by (simp add: read_chunk_def [of limit c])
    with Cons.IH [of "buf @ c"] Cons.prems show ?thesis by simp
  next
    case False
    then have "read_chunk limit c (buf, False) = (buf, True)" by (simp add: read_chunk_def)
    with False Cons.prems(3) have "b = buf" "over" by (simp_all add: reader_over)
    moreover obtain x xs where "c = x # xs" using Cons.prems by (cases c) auto
    ultimately show ?thesis using False Cons.prems(2,4) by (auto simp: cap_def slice_to_def split: if_splits)
  qed
qed simp



section \<open>The guards of an execution\<close>

definition admitted :: "command \<Rightarrow> (oreq, oresp) trace \<Rightarrow> bool" where
  "admitted cmd h =
     ((Rate_ok (cm_id cmd), Inr (O_bool True)) \<in> set h \<and> (Try_lock (cm_id cmd), Inr (O_bool True)) \<in> set h \<and>
      Release (cm_id cmd) \<notin> fst ` set h \<and>
      (cm_rpc_backed cmd \<longrightarrow> (\<exists>b. (Breaker_get, Inr (O_breaker b)) \<in> set h \<and> \<not> br_open b)))"

definition requested :: "odeps \<Rightarrow> jv \<Rightarrow> jv \<Rightarrow> command \<Rightarrow> params \<Rightarrow> bool" where
  "requested d cid args cmd vargs =
     (\<exists>name. cid = JStr name \<and> map_of (ct_commands (od_table d)) name = Some cmd \<and> validate_args cmd args = Inr vargs \<and>
             cm_kind cmd \<noteq> ''unavailable'')"

fun guard :: "odeps \<Rightarrow> jv \<Rightarrow> jv \<Rightarrow> (oreq, oresp) trace \<Rightarrow> oreq \<Rightarrow> bool" where
  "guard d cid args h (Spawn argv tmo) =
     (\<exists>cmd vargs. requested d cid args cmd vargs \<and> admitted cmd h \<and> cm_kind cmd \<noteq> ''builtin'' \<and>
        assemble_argv (od_other d) cmd vargs (od_local d) = Inr argv \<and> tmo = cm_timeout_s cmd)"
| "guard d cid args h (Run_builtin b vargs) =
     (\<exists>cmd. requested d cid args cmd vargs \<and> admitted cmd h \<and> cm_kind cmd = ''builtin'' \<and> b = cm_id cmd)"
| "guard d cid args h q = True"

text \<open>Requests that need no guard and take no lock.\<close>

fun neutral :: "oreq \<Rightarrow> bool" where
  "neutral (Spawn _ _) = False"
| "neutral (Run_builtin _ _) = False"
| "neutral (Try_lock _) = False"
| "neutral _ = True"

text \<open>Every lock taken has been released, that of \<open>pending\<close> excepted.\<close>

definition released :: "string option \<Rightarrow> (oreq, oresp) trace \<Rightarrow> bool" where
  "released pending h = (\<forall>i. (Try_lock i, Inr (O_bool True)) \<in> set h \<longrightarrow> Some i = pending \<or> Release i \<in> fst ` set h)"

definition well_guarded :: "odeps \<Rightarrow> jv \<Rightarrow> jv \<Rightarrow> string option \<Rightarrow> (oreq, oresp) trace \<Rightarrow> bool" where
  "well_guarded d cid args pending h = (sound (guard d cid args) h \<and> released pending h)"

lemma released_snoc: "released p h \<Longrightarrow> (\<And>i. q \<noteq> Try_lock i) \<Longrightarrow> released p (h @ [(q, r)])"
  by (auto simp: released_def)

lemma well_guarded_snoc:
  "well_guarded d cid args pe h \<Longrightarrow> guard d cid args h q \<Longrightarrow> (\<And>i. q \<noteq> Try_lock i) \<Longrightarrow> well_guarded d cid args pe (h @ [(q, r)])"
  by (simp add: well_guarded_def released_snoc)

lemma neutral_guard: "neutral q \<Longrightarrow> guard d cid args h q \<and> (\<forall>i. q \<noteq> Try_lock i)"
  by (cases q) auto

lemma wp_neutral:
  "every neutral p \<Longrightarrow> well_guarded d cid args pe h \<Longrightarrow> wp p (\<lambda>_. well_guarded d cid args pe) h"
proof (induction p arbitrary: h)
  case (Call q k)
  have "well_guarded d cid args pe (h @ [(q, r)])" for r
    using Call.prems neutral_guard [of q] by (simp add: well_guarded_snoc)
  with Call show ?case by simp
qed simp_all

lemma finish_neutral [simp]: "every neutral (finish d cid rid col st str txt tru t0)"
  unfolding finish_def by (intro every_pbind) (auto intro!: every_pbind)

lemma wp_seq_guarded:
  assumes "wp p (\<lambda>_. well_guarded d cid args pe) h"
    and "\<And>x h'. well_guarded d cid args pe h' \<Longrightarrow> wp (f x) (\<lambda>_. well_guarded d cid args pe) h'"
  shows "wp (pbind p f) (\<lambda>_. well_guarded d cid args pe) h"
  unfolding wp_pbind by (rule wp_mono [OF assms(1)]) (auto intro!: assms(2) split: sum.splits)

lemma wp_attempt_guarded:
  "well_guarded d cid args pe h \<Longrightarrow> guard d cid args h q \<Longrightarrow> (\<And>i. q \<noteq> Try_lock i) \<Longrightarrow>
   wp (attempt (ask q f)) (\<lambda>_. well_guarded d cid args pe) h"
  by (simp add: well_guarded_snoc)

lemma collect_guarded:
  assumes "requested d cid args cmd vargs" "admitted cmd h" "well_guarded d cid args (Some (cm_id cmd)) h"
  shows "wp (collect d cmd vargs) (\<lambda>_. well_guarded d cid args (Some (cm_id cmd))) h"
proof (cases "cm_kind cmd = ''builtin''")
  case True
  have "wp (collect_builtin d cmd vargs) (\<lambda>_. well_guarded d cid args (Some (cm_id cmd))) h"
    unfolding collect_builtin_def
    by (rule wp_seq_guarded, rule wp_attempt_guarded [OF assms(3)])
       (use assms(1,2) True in \<open>auto split: sum.splits prod.splits simp: Let_def simp del: wp_pbind wp_ask
          intro!: wp_neutral every_intros\<close>)
  with True show ?thesis by (simp add: collect_def)
next
  case False
  have "wp (collect_exec d cmd vargs) (\<lambda>_. well_guarded d cid args (Some (cm_id cmd))) h"
  proof (cases "assemble_argv (od_other d) cmd vargs (od_local d)")
    case (Inl e)
    then show ?thesis using assms(3) by (simp add: collect_exec_def)
  next
    case (Inr argv)
    have g: "guard d cid args h (Spawn argv (cm_timeout_s cmd))" using assms(1,2) False Inr by auto
    show ?thesis
      unfolding collect_exec_def Inr lift.simps pbind.simps
      by (rule wp_seq_guarded, rule wp_attempt_guarded [OF assms(3) g])
         (auto split: sum.splits prod.splits simp: Let_def simp del: wp_pbind wp_ask intro!: wp_neutral every_intros)
  qed
  with False show ?thesis by (simp add: collect_def)
qed

lemma locked_guarded:
  assumes "requested d cid args cmd vargs" "admitted cmd h" "well_guarded d cid args (Some (cm_id cmd)) h"
  shows "wp (locked d cid' rid col t0 cmd vargs) (\<lambda>_. well_guarded d cid args None) h"
proof -
  have rel: "well_guarded d cid args None (h' @ [(Release (cm_id cmd), r)])" if "well_guarded d cid args (Some (cm_id cmd)) h'" for h' r
    using that by (auto simp: well_guarded_def released_def)
  have "wp (pbind (collect d cmd vargs) (\<lambda>r.
          case r of
            Inl err \<Rightarrow> pbind (finish d cid' rid col ''error'' [(''error'', JStr err)] [] False t0) (\<lambda>rep. Ret (Inl rep))
          | Inr x \<Rightarrow> Ret (Inr x))) (\<lambda>_. well_guarded d cid args (Some (cm_id cmd))) h"
    by (rule wp_seq_guarded [OF collect_guarded [OF assms]])
       (auto split: sum.splits simp del: wp_pbind intro!: wp_neutral every_pbind)
  then show ?thesis
    unfolding locked_def wp_finally by (rule wp_mono) (auto intro: rel split: sum.splits)
qed

lemma run_command_guarded:
  assumes "requested d cid args cmd vargs" "well_guarded d cid args None h" "Release (cm_id cmd) \<notin> fst ` set h"
    and "cm_rpc_backed cmd \<Longrightarrow> \<exists>b. (Breaker_get, Inr (O_breaker b)) \<in> set h \<and> \<not> br_open b"
  shows "wp (run_command d cid' rid col t0 cmd vargs) (\<lambda>_. well_guarded d cid args None) h"
proof -
  let ?h1 = "\<lambda>r. h @ [(Rate_ok (cm_id cmd), r)]" 
  let ?h2 = "\<lambda>r r'. h @ [(Rate_ok (cm_id cmd), r), (Try_lock (cm_id cmd), r')]"
  have w1: "well_guarded d cid args None (?h1 r)" for r using assms(2) by (simp add: well_guarded_snoc)
  have w2: "well_guarded d cid args None (?h2 r r')" if "r' \<noteq> Inr (O_bool True)" for r r'
    using that assms(2) by (auto simp: well_guarded_def released_def)
  have w3: "well_guarded d cid args (Some (cm_id cmd)) (?h2 r r')" for r r'
    using assms(2) by (auto simp: well_guarded_def released_def)
  have adm: "admitted cmd (?h2 (Inr (O_bool True)) (Inr (O_bool True)))"
    using assms(3,4) by (auto simp: admitted_def)
  have lck: "wp (pbind (locked d cid' rid col t0 cmd vargs) (\<lambda>r. case r of
        Inl rep \<Rightarrow> Ret rep
      | Inr (status, structured, txt, truncated) \<Rightarrow> finish d cid' rid col status structured txt truncated t0))
     (\<lambda>_. well_guarded d cid args None) (?h2 (Inr (O_bool True)) (Inr (O_bool True)))"
    by (rule wp_seq_guarded [OF locked_guarded [OF assms(1) adm w3]])
       (auto split: sum.splits prod.splits simp del: wp_pbind intro!: wp_neutral)
  show ?thesis
    unfolding run_command_def
    by (auto simp: wp_pbind [of "ask _ _"] w1 w2 lck simp del: wp_pbind intro: wp_neutral elim!: o_bool.elims split: option.splits)
qed

lemma observe_guarded: "wp (observe d cid args rid) (\<lambda>_. well_guarded d cid args None) []"
proof -
  let ?h = "\<lambda>a b. [(Monotonic, a), (Wall_clock, b)]"
  have w: "well_guarded d cid args None (?h a b)" "well_guarded d cid args None [(Monotonic, a)]"
    "well_guarded d cid args None (?h a b @ [(Breaker_get, c)])" for a b c
    by (auto simp: well_guarded_def released_def sound_def less_Suc_eq)
  have cmd: "wp (observe_command d cid args rid col t0 cmd) (\<lambda>_. well_guarded d cid args None) (?h a b)"
    if "cid = JStr name" "map_of (ct_commands (od_table d)) name = Some cmd" for name cmd col t0 a b
  proof -
    have run: "wp (run_command d cid rid col t0 cmd vargs) (\<lambda>_. well_guarded d cid args None) (?h a b @ t)"
      if "validate_args cmd args = Inr vargs" "cm_kind cmd \<noteq> ''unavailable''"
        "t = [] \<and> \<not> cm_rpc_backed cmd \<or> (\<exists>br. t = [(Breaker_get, Inr (O_breaker br))] \<and> \<not> br_open br)" for vargs t
      using that w \<open>cid = JStr name\<close> \<open>map_of _ _ = _\<close> by (intro run_command_guarded) (auto simp: requested_def)
    show ?thesis
      using w run [of _ "[]"] run [of _ "[(Breaker_get, Inr (O_breaker br))]" for br]
      by (auto simp: observe_command_def wp_pbind [of "ask _ _"] simp del: wp_pbind intro: wp_neutral
          elim!: o_breaker.elims split: sum.splits option.splits)
  qed
  let ?cmd = "case cid of JStr s \<Rightarrow> map_of (ct_commands (od_table d)) s | _ \<Rightarrow> None"
  have body: "wp (case ?cmd of
         None \<Rightarrow> finish d cid rid col ''rejected'' [(''error'', JStr ''unknown command_id'')] [] False t0
       | Some cmd \<Rightarrow> observe_command d cid args rid col t0 cmd) (\<lambda>_. well_guarded d cid args None) (?h a b)" for col t0 a b
  proof (cases ?cmd)
    case None
    then show ?thesis using w(1) by (simp add: wp_neutral)
  next
    case (Some c)
    moreover from Some obtain name where "cid = JStr name" "map_of (ct_commands (od_table d)) name = Some c"
      by (auto split: jv.splits)
    ultimately show ?thesis using cmd by simp
  qed
  show ?thesis
    unfolding observe_def by (auto simp: wp_pbind [of "ask _ _"] w body simp del: wp_pbind split: option.splits)
qed


definition ex_odeps :: odeps where
  "ex_odeps = \<lparr>od_table = \<lparr>ct_version = 1, ct_commands = [(''leader_schedule_self'', ex_leader_cmd)]\<rparr>,
     od_local = [(''rpc_url'', ''http://h'')], od_encode = map of_char, od_decode = map char_of, od_sha256 = (\<lambda>_. ''00''),
     od_round = (\<lambda>x. x), od_other = (\<lambda>_. []), od_parsers = []\<rparr>"

definition ex_oanswer :: "nat \<Rightarrow> oreq \<Rightarrow> oresp result" where
  "ex_oanswer n q =
     Inr (case q of Monotonic \<Rightarrow> O_time 1 | Wall_clock \<Rightarrow> O_time 2 | Breaker_get \<Rightarrow> O_breaker (new_breaker 100 5) | Rate_ok _ \<Rightarrow> O_bool True
          | Try_lock _ \<Rightarrow> O_bool True | Spawn _ _ \<Rightarrow> O_proc (Exited 0) [[104, 105]] | Redact t \<Rightarrow> O_redacted [] t 0
          | Chain_append _ \<Rightarrow> O_seq 1 | _ \<Rightarrow> O_unit)"

definition ex_argv :: "string list" where
  "ex_argv = [''solana'', ''leader-schedule'', ''--url'', ''http://h'', ''--epoch'', ''7'']"

lemma ex_leader_sel: "cm_kind ex_leader_cmd = ''exec''" "cm_rpc_backed ex_leader_cmd = False" "cm_id ex_leader_cmd = ''leader_schedule_self''"
  "cm_timeout_s ex_leader_cmd = 15" "cm_parser ex_leader_cmd = JNull"
  by (simp_all add: ex_leader_cmd_def)


end
