(* ===== verification/Providers.thy ===== *)
theory Providers
  imports Command_Table
begin

text \<open>
  \<^verbatim>\<open>valops/brokers/providers.py\<close>: the path allowlist, the requested model, the clamp of the output cap,
  the usage read from a response, and the headers. JSON parsing and UTF-8 are parameters.
\<close>

section \<open>Text\<close>

text \<open>\<^verbatim>\<open>int(s)\<close> on a text: whitespace around, a sign, digits with single underscores between them.\<close>

fun digits_value :: "int \<Rightarrow> string \<Rightarrow> int option" where
  "digits_value acc [] = Some acc"
| "digits_value acc (c # cs) =
     (if is_dec c then digits_value (acc * 10 + (of_char c - 48)) cs
      else if c = CHR ''_'' \<and> cs \<noteq> [] \<and> is_dec (hd cs) then digits_value acc cs
      else None)"

definition int_text :: "string \<Rightarrow> int option" where
  "int_text s =
     (case strip s of
        [] \<Rightarrow> None
      | c # cs \<Rightarrow>
          if c = CHR ''-'' \<or> c = CHR ''+''
          then (if cs \<noteq> [] \<and> is_dec (hd cs) then map_option (\<lambda>n. if c = CHR ''-'' then - n else n) (digits_value 0 cs) else None)
          else if is_dec c then digits_value 0 (c # cs) else None)"

fun to_int :: "jv \<Rightarrow> int result" where
  "to_int (JStr s) = (case int_text s of None \<Rightarrow> Inl (PyError ''ValueError'') | Some n \<Rightarrow> Inr n)"
| "to_int v = py_int v"

definition int_or :: "jv \<Rightarrow> int \<Rightarrow> int result" where
  "int_or v n = (if truthy v then to_int v else Inr n)"

definition ends_with :: "string \<Rightarrow> string \<Rightarrow> bool" where
  "ends_with suffix s = starts_with (rev suffix) (rev s)"

section \<open>Paths and models\<close>

definition path_char :: "char \<Rightarrow> bool" where
  "path_char c = (is_lower c \<or> is_upper c \<or> is_dec c \<or> c \<in> {CHR ''.'', CHR ''-'', CHR ''_''})"

text \<open>The match of a path: the first group, empty where the expression has none.\<close>

definition google_match :: "string \<Rightarrow> string option" where
  "google_match path =
     (let s = chomp path; pre = ''/v1beta/models/''; r = drop (length pre) s; name = takeWhile path_char r; t = dropWhile path_char r in
      if starts_with pre s \<and> name \<noteq> [] \<and> (t = '':generateContent'' \<or> t = '':streamGenerateContent'') then Some name else None)"

definition path_ok :: "string \<Rightarrow> string \<Rightarrow> string option result" where
  "path_ok provider path =
     (if provider = ''anthropic'' then Inr (if chomp path = ''/v1/messages'' then Some [] else None)
      else if provider = ''openai''
      then Inr (if chomp path = ''/v1/chat/completions'' \<or> chomp path = ''/v1/responses'' then Some [] else None)
      else if provider = ''google'' then Inr (google_match path)
      else Inl (PyError ''KeyError''))"

definition requested_model :: "string \<Rightarrow> string \<Rightarrow> params \<Rightarrow> string option" where
  "requested_model provider m body =
     (if provider = ''google'' then Some m
      else case pget body ''model'' of JStr s \<Rightarrow> Some s | _ \<Rightarrow> None)"

definition is_stream :: "string \<Rightarrow> string \<Rightarrow> params \<Rightarrow> bool" where
  "is_stream provider path body =
     (if provider = ''google'' then ends_with '':streamGenerateContent'' path else truthy (pget body ''stream''))"

section \<open>The output cap\<close>

definition clamp_key :: "params \<Rightarrow> string \<Rightarrow> int \<Rightarrow> (int \<times> params) result" where
  "clamp_key body key remaining =
     rbind (int_or (pget body key) remaining) (\<lambda>n.
       let c = min n remaining in Inr (c, dict_set body key (JInt c)))"

definition openai_chat_key :: "params \<Rightarrow> string" where
  "openai_chat_key body = (if has_key body ''max_tokens'' then ''max_tokens'' else ''max_completion_tokens'')"

definition include_usage :: "params \<Rightarrow> params result" where
  "include_usage body =
     (if truthy (pget body ''stream'')
      then rbind (as_dict_or_empty (pget body ''stream_options'')) (\<lambda>so.
             Inr (dict_set body ''stream_options'' (JObj (dict_set so ''include_usage'' (JBool True)))))
      else Inr body)"

definition clamp_output :: "string \<Rightarrow> string \<Rightarrow> params \<Rightarrow> int \<Rightarrow> (int \<times> params) result" where
  "clamp_output provider path body remaining =
     (if provider = ''anthropic'' then clamp_key body ''max_tokens'' remaining
      else if provider = ''openai'' then
        if ends_with ''/responses'' path then clamp_key body ''max_output_tokens'' remaining
        else rbind (clamp_key body (openai_chat_key body) remaining) (\<lambda>(c, body').
               rbind (include_usage body') (\<lambda>body''. Inr (c, body'')))
      else rbind (as_dict (pget_default body ''generationConfig'' (JObj []))) (\<lambda>gc.
             rbind (clamp_key gc ''maxOutputTokens'' remaining) (\<lambda>(c, gc').
               Inr (c, dict_set body ''generationConfig'' (JObj gc')))))"

section \<open>Usage\<close>

fun sum_ints :: "params \<Rightarrow> string list \<Rightarrow> int result" where
  "sum_ints u [] = Inr 0"
| "sum_ints u (k # ks) = rbind (int_or (pget u k) 0) (\<lambda>n. rbind (sum_ints u ks) (\<lambda>m. Inr (n + m)))"

definition INPUT_KEYS :: "string list" where
  "INPUT_KEYS = [''input_tokens'', ''cache_creation_input_tokens'', ''cache_read_input_tokens'']"

text \<open>\<^verbatim>\<open>obj.get("usage") or (obj.get(outer) or {}).get("usage")\<close>\<close>

definition usage_field :: "params \<Rightarrow> string \<Rightarrow> jv result" where
  "usage_field obj outer =
     (if truthy (pget obj ''usage'') then Inr (pget obj ''usage'')
      else rbind (as_dict_or_empty (pget obj outer)) (\<lambda>d. Inr (pget d ''usage'')))"

definition usage_from_json :: "string \<Rightarrow> jv \<Rightarrow> (int \<times> int) option result" where
  "usage_from_json provider v =
     (case v of
        JObj obj \<Rightarrow>
          if provider = ''anthropic'' then
            rbind (usage_field obj ''message'') (\<lambda>uv.
              case uv of
                JObj u \<Rightarrow>
                  if has_key u ''input_tokens'' \<or> has_key u ''output_tokens''
                  then rbind (sum_ints u INPUT_KEYS) (\<lambda>i. rbind (int_or (pget u ''output_tokens'') 0) (\<lambda>out. Inr (Some (i, out))))
                  else Inr None
              | _ \<Rightarrow> Inr None)
          else if provider = ''openai'' then
            rbind (usage_field obj ''response'') (\<lambda>uv.
              case uv of
                JObj u \<Rightarrow>
                  let i = pget_default u ''prompt_tokens'' (pget u ''input_tokens'');
                      out = pget_default u ''completion_tokens'' (pget u ''output_tokens'')
                  in if i \<noteq> JNull \<or> out \<noteq> JNull
                     then rbind (int_or i 0) (\<lambda>a. rbind (int_or out 0) (\<lambda>b. Inr (Some (a, b))))
                     else Inr None
              | _ \<Rightarrow> Inr None)
          else
            (case pget obj ''usageMetadata'' of
               JObj u \<Rightarrow>
                 rbind (int_or (pget u ''promptTokenCount'') 0) (\<lambda>i.
                 rbind (int_or (pget u ''candidatesTokenCount'') 0) (\<lambda>c.
                 rbind (int_or (pget u ''thoughtsTokenCount'') 0) (\<lambda>t. Inr (Some (i, c + t)))))
             | _ \<Rightarrow> Inr None)
      | _ \<Rightarrow> Inr None)"

text \<open>\<^verbatim>\<open>str.splitlines\<close> on the code points below 256; a carriage return and a newline end one line.\<close>

definition line_end :: "char \<Rightarrow> bool" where
  "line_end c = (let n = of_char c :: nat in (10 \<le> n \<and> n \<le> 13) \<or> (28 \<le> n \<and> n \<le> 30) \<or> n = 133)"

fun split_lines :: "string \<Rightarrow> string \<Rightarrow> string list" where
  "split_lines acc [] = (if acc = [] then [] else [rev acc])"
| "split_lines acc (c # cs) =
     (if line_end c then
        rev acc # (case cs of [] \<Rightarrow> [] | d # ds \<Rightarrow> if c = CHR 0x0D \<and> d = CHR 0x0A then split_lines [] ds else split_lines [] (d # ds))
      else split_lines (c # acc) cs)"

definition data_lines :: "string \<Rightarrow> string list" where
  "data_lines txt = map (\<lambda>l. strip (drop 5 l)) (filter (starts_with ''data:'') (split_lines [] txt))"

text \<open>The running totals of a stream: input and output, \<^term>\<open>None\<close> while unset.\<close>

type_synonym totals = "int option \<times> int option"

definition anthropic_event :: "jv \<Rightarrow> totals \<Rightarrow> totals result" where
  "anthropic_event v t =
     rbind (as_dict v) (\<lambda>obj.
       if pget obj ''type'' = JStr ''message_start'' then
         rbind (as_dict_or_empty (pget obj ''message'')) (\<lambda>msg.
         rbind (as_dict_or_empty (pget msg ''usage'')) (\<lambda>u.
         rbind (sum_ints u INPUT_KEYS) (\<lambda>i. Inr (Some i, snd t))))
       else if pget obj ''type'' = JStr ''message_delta'' then
         (case pget obj ''usage'' of
            JObj u \<Rightarrow>
              rbind (int_or (pget u ''output_tokens'') 0) (\<lambda>out.
                if truthy (pget u ''input_tokens'')
                then rbind (to_int (pget u ''input_tokens'')) (\<lambda>i. Inr (Some i, Some out))
                else Inr (fst t, Some out))
          | _ \<Rightarrow> Inr t)
       else Inr t)"

definition stream_event :: "string \<Rightarrow> jv \<Rightarrow> totals \<Rightarrow> totals result" where
  "stream_event provider v t =
     (if provider = ''anthropic'' then anthropic_event v t
      else rbind (usage_from_json provider v) (\<lambda>u. Inr (case u of None \<Rightarrow> t | Some (i, out) \<Rightarrow> (Some i, Some out))))"

fun stream_events :: "string \<Rightarrow> jv option list \<Rightarrow> totals \<Rightarrow> totals result" where
  "stream_events provider [] t = Inr t"
| "stream_events provider (d # ds) t =
     (case d of
        None \<Rightarrow> stream_events provider ds t
      | Some v \<Rightarrow> rbind (stream_event provider v t) (stream_events provider ds))"

text \<open>Without \<^verbatim>\<open>data:\<close> lines a Gemini response is one JSON array; dumping and parsing an element again gives the element.\<close>

definition stream_datas :: "(string \<Rightarrow> jv option) \<Rightarrow> string \<Rightarrow> string \<Rightarrow> jv option list option" where
  "stream_datas loads provider txt =
     (if data_lines txt = [] \<and> provider = ''google''
      then (case loads txt of
              None \<Rightarrow> None
            | Some (JArr xs) \<Rightarrow> Some (map Some xs)
            | Some v \<Rightarrow> Some [Some v])
      else Some (map loads (data_lines txt)))"

definition usage_from_stream :: "(string \<Rightarrow> jv option) \<Rightarrow> string \<Rightarrow> string \<Rightarrow> (int \<times> int) option result" where
  "usage_from_stream loads provider txt =
     (case stream_datas loads provider txt of
        None \<Rightarrow> Inr None
      | Some ds \<Rightarrow>
          rbind (stream_events provider ds (None, None)) (\<lambda>(inp, out).
            Inr (if inp = None \<and> out = None then None
                 else Some (case inp of None \<Rightarrow> 0 | Some i \<Rightarrow> i, case out of None \<Rightarrow> 0 | Some j \<Rightarrow> j))))"

section \<open>Headers and errors\<close>

definition FORWARD_HEADERS :: "string \<Rightarrow> string list option" where
  "FORWARD_HEADERS provider = map_of
     [(''anthropic'', [''content-type'', ''accept'', ''anthropic-version'', ''anthropic-beta'']),
      (''openai'', [''content-type'', ''accept'', ''openai-beta'']),
      (''google'', [''content-type'', ''accept''])] provider"

definition CREDENTIAL_HEADERS :: "string list" where
  "CREDENTIAL_HEADERS = [''authorization'', ''x-api-key'', ''x-goog-api-key'', ''api-key'', ''cookie'', ''proxy-authorization'']"

definition auth_headers :: "string \<Rightarrow> string \<Rightarrow> (string \<times> string) list" where
  "auth_headers provider key =
     (if provider = ''anthropic'' then [(''x-api-key'', key)]
      else if provider = ''openai'' then [(''authorization'', ''Bearer '' @ key)]
      else [(''x-goog-api-key'', key)])"

definition error_body :: "string \<Rightarrow> int \<Rightarrow> string \<Rightarrow> jv" where
  "error_body provider status message =
     (if provider = ''anthropic'' then
        JObj [(''type'', JStr ''error''),
              (''error'', JObj [(''type'', JStr (case map_of [(400, ''invalid_request_error''), (403, ''permission_error''),
                                                              (429, ''rate_limit_error'')] status of
                                                   None \<Rightarrow> ''api_error'' | Some t \<Rightarrow> t)),
                                (''message'', JStr message)])]
      else if provider = ''openai'' then
        JObj [(''error'', JObj [(''message'', JStr message), (''type'', JStr ''invalid_request_error''),
                                (''code'', JStr ''valops_broker_refusal'')])]
      else
        JObj [(''error'', JObj [(''code'', JInt status), (''message'', JStr message),
                                (''status'', JStr (case map_of [(400, ''INVALID_ARGUMENT''), (403, ''PERMISSION_DENIED''),
                                                                (429, ''RESOURCE_EXHAUSTED'')] status of
                                                     None \<Rightarrow> ''INTERNAL'' | Some t \<Rightarrow> t))])])"

section \<open>Facts\<close>

lemma clamp_key_Inr:
  "clamp_key body key remaining = Inr (c, body') \<Longrightarrow>
   c \<le> remaining \<and> body' = dict_set body key (JInt c)"
  by (auto simp: clamp_key_def rbind_def Let_def split: sum.splits)

text \<open>The keys a clamp may change.\<close>

definition CLAMPED :: "string list" where
  "CLAMPED = [''max_tokens'', ''max_output_tokens'', ''max_completion_tokens'', ''stream_options'', ''generationConfig'']"

lemma clamp_output_Inr:
  assumes "clamp_output provider path body remaining = Inr (c, body')"
  shows "c \<le> remaining" and "k \<notin> set CLAMPED \<Longrightarrow> map_of body' k = map_of body k"
proof -
  have key: "openai_chat_key body \<in> {''max_tokens'', ''max_completion_tokens''}" by (simp add: openai_chat_key_def)
  show "c \<le> remaining"
    using assms by (auto simp: clamp_output_def rbind_def split: if_splits sum.splits prod.splits dest!: clamp_key_Inr)
  show "map_of body' k = map_of body k" if "k \<notin> set CLAMPED"
    using assms that key
    by (auto simp: clamp_output_def rbind_def include_usage_def CLAMPED_def map_of_dict_set
        split: if_splits sum.splits prod.splits dest!: clamp_key_Inr)
qed

end
