(* ===== verification/Model_Broker.thy ===== *)
theory Model_Broker
  imports Providers
begin

text \<open>
  \<^verbatim>\<open>valops/brokers/model_broker.py\<close>: sessions, the admission of a request under the session's limits,
  the request forwarded upstream, metering. A request is handled in two atomic parts, the limits
  and the metering (each holds the session's lock); between them the upstream answers. Sockets,
  TLS and the copying of the answer to the worker are not modelled.
\<close>

definition MAX_REQUEST :: int where "MAX_REQUEST = 4 * 1024 * 1024"
definition MAX_RESPONSE :: int where "MAX_RESPONSE = 8 * 1024 * 1024"

section \<open>Sessions\<close>

record session =
  se_session_id :: string
  se_episode_id :: string
  se_role :: string
  se_bundle_id :: string
  se_configuration :: string
  se_provider :: string
  se_model :: string
  se_upstream :: string
  se_price_in :: rat
  se_price_out :: rat
  se_max_requests :: int
  se_max_input_tokens :: int
  se_max_output_tokens :: int
  se_max_usd :: rat
  se_socket_path :: string
  se_requests :: int
  se_input_tokens :: int
  se_output_tokens :: int
  se_usd :: rat
  se_refusals :: "(string \<times> rat) list" \<comment> \<open>cause and time\<close>
  se_upstream_errors :: int

record mparams =
  mp_loads :: "bytes \<Rightarrow> jv option" \<comment> \<open>\<^verbatim>\<open>json.loads\<close>; None is the ValueError\<close>
  mp_loads_text :: "string \<Rightarrow> jv option"
  mp_dumps :: "jv \<Rightarrow> bytes"
  mp_decode :: "bytes \<Rightarrow> string"
  mp_round6 :: "rat \<Rightarrow> rat"
  mp_url_path :: "string \<Rightarrow> string" \<comment> \<open>\<^verbatim>\<open>urlparse(u).path\<close>\<close>
  mp_reg :: reg_params

definition session_meter :: "mparams \<Rightarrow> session \<Rightarrow> params" where
  "session_meter mp s =
     [(''session_id'', JStr (se_session_id s)), (''configuration'', JStr (se_configuration s)), (''provider'', JStr (se_provider s)),
      (''model'', JStr (se_model s)), (''requests'', JInt (se_requests s)), (''input_tokens'', JInt (se_input_tokens s)),
      (''output_tokens'', JInt (se_output_tokens s)), (''usd'', JFloat (mp_round6 mp (se_usd s))),
      (''refusals'', JArr (map (\<lambda>(c, t). JObj [(''cause'', JStr c), (''t'', JFloat t)]) (se_refusals s))),
      (''upstream_errors'', JInt (se_upstream_errors s)),
      (''limits'', JObj [(''requests'', JInt (se_max_requests s)), (''input_tokens'', JInt (se_max_input_tokens s)),
                         (''output_tokens'', JInt (se_max_output_tokens s)), (''usd'', JFloat (se_max_usd s))])]"

record broker =
  mb_dir :: string
  mb_keys :: "(string \<times> string) list"
  mb_approved :: "string list"
  mb_allow_insecure :: bool
  mb_development :: bool
  mb_sessions :: "(string \<times> session) list"
  mb_closed :: "(string \<times> params) list"

section \<open>Admin operations\<close>

definition check_provider :: "broker \<Rightarrow> jv \<Rightarrow> string result" where
  "check_provider mb v =
     (case v of
        JStr p \<Rightarrow> if p \<in> set (mb_approved mb) then Inr p else Inl (RpcError ''provider_unapproved'')
      | _ \<Rightarrow> if hashable v then Inl (RpcError ''provider_unapproved'') else Inl (PyError ''TypeError''))"

definition check_admission :: "broker \<Rightarrow> params \<Rightarrow> unit result" where
  "check_admission mb conf =
     (if pget conf ''admission'' \<notin> {JStr ''admitted'', JStr ''native_only''} \<and> \<not> mb_development mb
      then Inl (RpcError ''not_admitted'') else Inr ())"

definition check_upstream :: "broker \<Rightarrow> policy_bundle \<Rightarrow> string \<Rightarrow> string result" where
  "check_upstream mb b provider =
     rbind (rbind (bn_y b ''providers.yaml'') as_dict) (\<lambda>prov.
     rbind (as_dict_or_empty (pget prov ''endpoints'')) (\<lambda>eps.
       let up = pget eps provider in
       if \<not> truthy up then Inl (RpcError ''invalid'')
       else case up of
           JStr u \<Rightarrow> if \<not> starts_with ''https://'' u \<and> \<not> mb_allow_insecure mb then Inl (RpcError ''invalid'') else Inr u
         | _ \<Rightarrow> Inl (PyError ''AttributeError'')))"

definition new_session ::
  "broker \<Rightarrow> policy_bundle \<Rightarrow> string \<Rightarrow> string \<Rightarrow> string \<Rightarrow> string \<Rightarrow> string \<Rightarrow> jv \<Rightarrow> string \<Rightarrow> session result" where
  "new_session mb b sid eid role conf_name provider conf upstream =
     rbind (rbind (getitem conf ''model'') as_str) (\<lambda>model.
     rbind (rbind (rbind (bn_y b ''pricing.yaml'') (\<lambda>v. getitem v provider)) (\<lambda>v. getitem v model)) (\<lambda>price.
     rbind (param b ''P-30'' None (Some conf_name)) (\<lambda>lim.
     rbind (rbind (getitem price ''input_per_mtok'') py_float) (\<lambda>pin.
     rbind (rbind (getitem price ''output_per_mtok'') py_float) (\<lambda>pout.
     rbind (rbind (param b ''P-05'' (Some role) (Some conf_name)) py_int) (\<lambda>reqs.
     rbind (rbind (rbind (getitem lim ''input_tokens'') (\<lambda>v. getitem v role)) py_int) (\<lambda>tin.
     rbind (rbind (rbind (getitem lim ''output_tokens'') (\<lambda>v. getitem v role)) py_int) (\<lambda>tout.
     rbind (rbind (param b ''P-06'' (Some role) (Some conf_name)) py_float) (\<lambda>usd.
       Inr \<lparr>se_session_id = sid, se_episode_id = eid, se_role = role, se_bundle_id = bn_id b, se_configuration = conf_name,
            se_provider = provider, se_model = model, se_upstream = upstream, se_price_in = pin / 1000000,
            se_price_out = pout / 1000000, se_max_requests = reqs, se_max_input_tokens = tin, se_max_output_tokens = tout,
            se_max_usd = usd, se_socket_path = mb_dir mb @ ''/'' @ sid @ ''.sock'', se_requests = 0, se_input_tokens = 0,
            se_output_tokens = 0, se_usd = 0, se_refusals = [], se_upstream_errors = 0\<rparr>)))))))))"

definition open_session :: "mparams \<Rightarrow> registry \<Rightarrow> params \<Rightarrow> broker \<Rightarrow> (params \<times> broker) result" where
  "open_session mp rg p mb =
     (let text = (\<lambda>k. case pget p k of JStr s \<Rightarrow> s | _ \<Rightarrow> []) in
      if text ''session_id'' = [] \<or> text ''episode_id'' = [] \<or> text ''role'' = [] \<or> text ''bundle_id'' = []
      then Inl (RpcError ''invalid'')
      else
        rbind (load_bundle (mp_reg mp) rg (text ''bundle_id'')) (\<lambda>b.
        rbind (configuration_for b (text ''role'')) (\<lambda>(conf_name, conf).
        rbind (getitem conf ''provider'') (\<lambda>pv.
        rbind (check_provider mb pv) (\<lambda>provider.
        rbind (as_dict conf) (\<lambda>cd.
        rbind (check_admission mb cd) (\<lambda>_.
        if provider \<notin> fst ` set (mb_keys mb) then Inl (RpcError ''no_key'')
        else
          rbind (check_upstream mb b provider) (\<lambda>upstream.
          rbind (new_session mb b (text ''session_id'') (text ''episode_id'') (text ''role'') conf_name provider conf upstream) (\<lambda>s.
            let sid = text ''session_id'' in
            if sid \<in> fst ` set (mb_sessions mb) \<or> sid \<in> fst ` set (mb_closed mb) then Inl (RpcError ''conflict'')
            else Inr ([(''socket_path'', JStr (se_socket_path s)), (''provider'', JStr provider), (''model'', JStr (se_model s)),
                       (''configuration'', JStr conf_name)],
                      mb\<lparr>mb_sessions := dict_set (mb_sessions mb) sid s\<rparr>))))))))))"

definition close_session :: "mparams \<Rightarrow> string \<Rightarrow> broker \<Rightarrow> (params \<times> broker) result" where
  "close_session mp sid mb =
     (case map_of (mb_closed mb) sid of
        Some m \<Rightarrow> Inr (m, mb)
      | None \<Rightarrow>
          (case map_of (mb_sessions mb) sid of
             None \<Rightarrow> Inl (RpcError ''not_found'')
           | Some s \<Rightarrow>
               let m = session_meter mp s in
               Inr (m, mb\<lparr>mb_sessions := filter (\<lambda>(k, _). k \<noteq> sid) (mb_sessions mb), mb_closed := dict_set (mb_closed mb) sid m\<rparr>)))"

definition meter_of :: "mparams \<Rightarrow> string \<Rightarrow> broker \<Rightarrow> params result" where
  "meter_of mp sid mb =
     (case map_of (mb_sessions mb) sid of
        Some s \<Rightarrow> Inr (session_meter mp s)
      | None \<Rightarrow> (case map_of (mb_closed mb) sid of Some m \<Rightarrow> Inr m | None \<Rightarrow> Inl (RpcError ''not_found'')))"

section \<open>Admission of a request\<close>

record mrequest =
  rq_path :: string
  rq_content_length :: "string option"
  rq_raw :: bytes
  rq_headers :: "(string \<times> string) list"

datatype refusal = Refusal int string \<comment> \<open>status and cause\<close>

text \<open>How the handler stops before forwarding: refused, or with an exception nobody catches.\<close>

datatype stop = Refused refusal | Failed exn

type_synonym 'a admitting = "stop + 'a"

definition abind :: "'a admitting \<Rightarrow> ('a \<Rightarrow> 'b admitting) \<Rightarrow> 'b admitting" where
  "abind m k = (case m of Inl e \<Rightarrow> Inl e | Inr x \<Rightarrow> k x)"

definition refuse_if :: "bool \<Rightarrow> int \<Rightarrow> string \<Rightarrow> unit admitting" where
  "refuse_if b status cause = (if b then Inl (Refused (Refusal status cause)) else Inr ())"

definition raising :: "'a result \<Rightarrow> 'a admitting" where
  "raising r = (case r of Inl e \<Rightarrow> Inl (Failed e) | Inr x \<Rightarrow> Inr x)"

text \<open>\<^verbatim>\<open>h.path.partition("?")[0].lstrip("/").partition("/")\<close>: the provider segment and the rest.\<close>

definition split_path :: "string \<Rightarrow> string \<times> string" where
  "split_path path =
     (let p = dropWhile (\<lambda>c. c = CHR ''/'') (takeWhile (\<lambda>c. c \<noteq> CHR ''?'') path);
          seg = takeWhile (\<lambda>c. c \<noteq> CHR ''/'') p
      in (seg, ''/'' @ drop (length seg + 1) p))"

definition content_length :: "mrequest \<Rightarrow> int result" where
  "content_length rq =
     (case rq_content_length rq of
        None \<Rightarrow> Inr 0
      | Some s \<Rightarrow> if s = [] then Inr 0 else case int_text s of None \<Rightarrow> Inl (PyError ''ValueError'') | Some n \<Rightarrow> Inr n)"

text \<open>Steps 2 and 3, before the lock: size, route, path, JSON, model. The result is the path and the body.\<close>

definition route :: "mparams \<Rightarrow> session \<Rightarrow> mrequest \<Rightarrow> (string \<times> params) admitting" where
  "route mp s rq =
     abind (raising (content_length rq)) (\<lambda>n.
     abind (refuse_if (n \<le> 0 \<or> n > MAX_REQUEST) 400 ''size'') (\<lambda>_.
     let (seg, rest) = split_path (rq_path rq) in
     abind (refuse_if (seg \<noteq> se_provider s) 403 ''provider'') (\<lambda>_.
     abind (raising (path_ok (se_provider s) rest)) (\<lambda>m.
     abind (refuse_if (m = None) 403 ''path'') (\<lambda>_.
     case mp_loads mp (rq_raw rq) of
       Some (JObj body) \<Rightarrow>
         abind (refuse_if (requested_model (se_provider s) (case m of None \<Rightarrow> [] | Some g \<Rightarrow> g) body \<noteq> Some (se_model s)) 403 ''model'')
           (\<lambda>_. Inr (rest, body))
     | _ \<Rightarrow> Inl (Refused (Refusal 400 ''json'')))))))"

definition estimate :: "bytes \<Rightarrow> int" where
  "estimate raw = max 1 (int (length raw div 4))"

definition remaining_output :: "session \<Rightarrow> int \<Rightarrow> int" where
  "remaining_output s est =
     (let r = se_max_output_tokens s - se_output_tokens s;
          usd_left = se_max_usd s - se_usd s - of_int est * se_price_in s
      in if se_price_out s > 0 then min r (trunc (usd_left / se_price_out s)) else r)"

text \<open>Step 4, under the lock: the estimate, the output cap, the body to forward; the request is counted.\<close>

definition limits :: "session \<Rightarrow> string \<Rightarrow> params \<Rightarrow> bytes \<Rightarrow> ((int \<times> int \<times> params) \<times> session) admitting" where
  "limits s rest body raw =
     abind (refuse_if (se_requests s \<ge> se_max_requests s) 429 ''limit_requests'') (\<lambda>_.
     let est = estimate raw in
     abind (refuse_if (se_input_tokens s + est > se_max_input_tokens s) 429 ''limit_input_tokens'') (\<lambda>_.
     let remaining = remaining_output s est in
     abind (refuse_if (remaining < 1) 429 ''limit_output_or_usd'') (\<lambda>_.
     abind (raising (clamp_output (se_provider s) rest body remaining)) (\<lambda>(clamp, body').
       Inr ((est, clamp, body'), s\<lparr>se_requests := se_requests s + 1\<rparr>)))))"

section \<open>Forwarding\<close>

definition forward_headers :: "session \<Rightarrow> string \<Rightarrow> (string \<times> string) list \<Rightarrow> bytes \<Rightarrow> (string \<times> string) list result" where
  "forward_headers s key hs body =
     (case FORWARD_HEADERS (se_provider s) of
        None \<Rightarrow> Inl (PyError ''KeyError'')
      | Some allow \<Rightarrow>
          let h0 = fold (\<lambda>(k, v) d. if lower k \<in> set allow then dict_set d (lower k) v else d) hs [];
              h1 = fold (\<lambda>(k, v) d. dict_set d k v) (auth_headers (se_provider s) key) h0;
              h2 = (if se_provider s = ''anthropic'' \<and> ''anthropic-version'' \<notin> fst ` set h1
                    then dict_set h1 ''anthropic-version'' ''2023-06-01'' else h1)
          in Inr (dict_set (dict_set h2 ''content-type'' ''application/json'') ''content-length'' (nat_str (length body))))"

definition rstrip_slash :: "string \<Rightarrow> string" where
  "rstrip_slash s = rev (dropWhile (\<lambda>c. c = CHR ''/'') (rev s))"

definition forward_path :: "mparams \<Rightarrow> session \<Rightarrow> string \<Rightarrow> bool \<Rightarrow> string" where
  "forward_path mp s rest stream =
     rstrip_slash (mp_url_path mp (se_upstream s)) @ rest @ (if se_provider s = ''google'' \<and> stream then ''?alt=sse'' else [])"

text \<open>What the upstream sends: a response in chunks, or a failure after some of it.\<close>

datatype upstream = Response int "bytes list" | Broken "bytes list"

definition capture :: "bytes \<Rightarrow> bytes \<Rightarrow> bytes" where
  "capture chunk buf = (if int (length buf) < MAX_RESPONSE then buf @ chunk else buf)"

definition forward_result :: "bool \<Rightarrow> upstream \<Rightarrow> int \<times> bytes" where
  "forward_result stream u =
     (case u of
        Broken cs \<Rightarrow> (0, fold capture cs [])
      | Response status cs \<Rightarrow>
          (status, if stream \<and> 200 \<le> status \<and> status < 300 then fold capture cs []
                   else take (nat MAX_RESPONSE) (concat cs)))"

section \<open>Metering\<close>

definition usage_of :: "mparams \<Rightarrow> session \<Rightarrow> bool \<Rightarrow> int \<Rightarrow> int \<Rightarrow> int \<Rightarrow> bytes \<Rightarrow> (int \<times> int) result" where
  "usage_of mp s stream est clamp status resp =
     rbind (if stream then usage_from_stream (mp_loads_text mp) (se_provider s) (mp_decode mp resp)
            else case mp_loads mp resp of None \<Rightarrow> Inr None | Some v \<Rightarrow> usage_from_json (se_provider s) v) (\<lambda>u.
       Inr (case u of
              Some x \<Rightarrow> x
            | None \<Rightarrow> if 200 \<le> status \<and> status < 300 then (est, clamp) else (0, 0)))"

text \<open>Step 8, under the lock.\<close>

definition settle :: "int \<times> int \<Rightarrow> int \<Rightarrow> session \<Rightarrow> session" where
  "settle u status s =
     s\<lparr>se_input_tokens := se_input_tokens s + fst u, se_output_tokens := se_output_tokens s + snd u,
       se_usd := se_usd s + of_int (fst u) * se_price_in s + of_int (snd u) * se_price_out s,
       se_upstream_errors := se_upstream_errors s + (if status \<ge> 500 \<or> status = 0 then 1 else 0)\<rparr>"

definition refuse :: "refusal \<Rightarrow> rat \<Rightarrow> session \<Rightarrow> session" where
  "refuse r t s = (case r of Refusal status cause \<Rightarrow> s\<lparr>se_refusals := se_refusals s @ [(cause, t)]\<rparr>)"

text \<open>
  One request handled alone: the session after it, and what was sent upstream (path, headers,
  body) if anything. \<open>up\<close> is the upstream's answer to what it is sent.
\<close>

type_synonym sent = "string \<times> (string \<times> string) list \<times> bytes"

definition handle ::
  "mparams \<Rightarrow> string \<Rightarrow> (sent \<Rightarrow> upstream) \<Rightarrow> rat \<Rightarrow> mrequest \<Rightarrow> session \<Rightarrow> exn option \<times> sent option \<times> session" where
  "handle mp key up t rq s =
     (case abind (route mp s rq) (\<lambda>(rest, body).
             abind (limits s rest body (rq_raw rq)) (\<lambda>((est, clamp, body'), s').
               Inr (rest, est, clamp, body', s'))) of
        Inl (Refused r) \<Rightarrow> (None, None, refuse r t s)
      | Inl (Failed e) \<Rightarrow> (Some e, None, s)
      | Inr (rest, est, clamp, body', s') \<Rightarrow>
          let stream = is_stream (se_provider s) rest body'; out = mp_dumps mp (JObj body') in
          (case forward_headers s key (rq_headers rq) out of
             Inl e \<Rightarrow> (Some e, None, s')
           | Inr hs \<Rightarrow>
               let snt = (forward_path mp s rest stream, hs, out); (status, resp) = forward_result stream (up snt) in
               (case usage_of mp s stream est clamp status resp of
                  Inl e \<Rightarrow> (Some e, Some snt, s')
                | Inr u \<Rightarrow> (None, Some snt, settle u status s'))))"

section \<open>Requests in flight\<close>

text \<open>
  The server is threaded: admissions and settlements of different requests interleave. A state is
  the session with the requests in flight, each with its estimate and its cap.
\<close>

inductive mb_step :: "session \<times> (int \<times> int) list \<Rightarrow> session \<times> (int \<times> int) list \<Rightarrow> bool" where
  admit: "limits s rest body raw = Inr ((est, clamp, body'), s') \<Longrightarrow> mb_step (s, fs) (s', (est, clamp) # fs)"
| refused: "mb_step (s, fs) (refuse r t s, fs)"
| settled: "mb_step (s, fs @ f # gs) (settle u status s, fs @ gs)"
| lost: "mb_step (s, fs @ f # gs) (s, fs @ gs)"

inductive_cases mb_stepE: "mb_step (s, fs) (s', fs')"

end
