(* ===== verification/Model_Broker_Theorems.thy ===== *)
theory Model_Broker_Theorems
  imports Model_Broker Example_Run
begin

text \<open>
  The model broker: limits of a session handled one request at a time and with requests in
  flight, and what reaches the upstream.
\<close>

section \<open>Admission\<close>

lemma abind_Inr: "abind m k = Inr y \<longleftrightarrow> (\<exists>x. m = Inr x \<and> k x = Inr y)"
  by (auto simp: abind_def split: sum.splits)

lemma refuse_if_Inr [simp]: "refuse_if b st c = Inr x \<longleftrightarrow> \<not> b"
  by (simp add: refuse_if_def)

lemma raising_Inr [simp]: "raising r = Inr x \<longleftrightarrow> r = Inr x"
  by (auto simp: raising_def split: sum.splits)

lemmas admit_simps = abind_Inr Let_def

lemma limits_Inr:
  assumes "limits s rest body raw = Inr ((est, clamp, body'), s')"
  shows "est = estimate raw" "se_requests s < se_max_requests s" "se_input_tokens s + est \<le> se_max_input_tokens s"
    "1 \<le> remaining_output s est" "clamp \<le> remaining_output s est" "s' = s\<lparr>se_requests := se_requests s + 1\<rparr>"
    "clamp_output (se_provider s) rest body (remaining_output s est) = Inr (clamp, body')"
  using assms by (auto simp: limits_def admit_simps dest: clamp_output_Inr(1))

lemma remaining_output_le: "remaining_output s est \<le> se_max_output_tokens s - se_output_tokens s"
  by (simp add: remaining_output_def Let_def)

lemma trunc_le: "1 \<le> trunc x \<Longrightarrow> of_int (trunc x) \<le> x"
proof -
  assume a: "1 \<le> trunc x"
  have "0 \<le> x"
  proof (rule ccontr)
    assume "\<not> 0 \<le> x"
    then have "0 \<le> \<lfloor>- x\<rfloor>" by (simp add: le_floor_iff)
    with a \<open>\<not> 0 \<le> x\<close> show False by (simp add: trunc_def)
  qed
  then show ?thesis by (simp add: trunc_def)
qed

text \<open>What an admitted request may cost at most.\<close>

lemma remaining_usd:
  assumes "0 < se_price_out s" "1 \<le> remaining_output s est"
  shows "se_usd s + of_int est * se_price_in s + of_int (remaining_output s est) * se_price_out s \<le> se_max_usd s"
proof -
  let ?left = "se_max_usd s - se_usd s - of_int est * se_price_in s"
  have r: "remaining_output s est \<le> trunc (?left / se_price_out s)" using assms(1) by (simp add: remaining_output_def Let_def)
  then have "of_int (trunc (?left / se_price_out s)) \<le> ?left / se_price_out s" using assms(2) by (intro trunc_le) simp
  moreover have "of_int (remaining_output s est) \<le> (of_int (trunc (?left / se_price_out s)) :: rat)" using r by simp
  ultimately have "of_int (remaining_output s est) \<le> ?left / se_price_out s" by linarith
  then show ?thesis using assms(1) by (simp add: pos_le_divide_eq)
qed

section \<open>One request at a time\<close>

definition within_limits :: "session \<Rightarrow> bool" where
  "within_limits s =
     (se_requests s \<le> se_max_requests s \<and> se_input_tokens s \<le> se_max_input_tokens s \<and>
      se_output_tokens s \<le> se_max_output_tokens s \<and> se_usd s \<le> se_max_usd s)"

text \<open>
  The provider keeps to its side: the usage read from its answer has at most the estimated input
  tokens and at most the output tokens that the forwarded body allows.
\<close>

definition honours :: "mparams \<Rightarrow> session \<Rightarrow> mrequest \<Rightarrow> (sent \<Rightarrow> upstream) \<Rightarrow> bool" where
  "honours mp s rq up =
     (\<forall>rest body est clamp body' s' snt status resp u.
        route mp s rq = Inr (rest, body) \<longrightarrow> limits s rest body (rq_raw rq) = Inr ((est, clamp, body'), s') \<longrightarrow>
        forward_result (is_stream (se_provider s) rest body') (up snt) = (status, resp) \<longrightarrow>
        usage_of mp s (is_stream (se_provider s) rest body') est clamp status resp = Inr u \<longrightarrow> fst u \<le> est \<and> snd u \<le> clamp)"

lemma handle_cases:
  assumes "handle mp key up t rq s = (e, snt, s')"
  obtains (stopped) r where "snt = None" "s' = refuse r t s \<or> s' = s"
  | (counted) rest body est clamp body' where "route mp s rq = Inr (rest, body)"
      "limits s rest body (rq_raw rq) = Inr ((est, clamp, body'), s\<lparr>se_requests := se_requests s + 1\<rparr>)"
      "s' = s\<lparr>se_requests := se_requests s + 1\<rparr>"
  | (metered) rest body est clamp body' hs status resp u where "route mp s rq = Inr (rest, body)"
      "limits s rest body (rq_raw rq) = Inr ((est, clamp, body'), s\<lparr>se_requests := se_requests s + 1\<rparr>)"
      "forward_result (is_stream (se_provider s) rest body') (up (forward_path mp s rest (is_stream (se_provider s) rest body'), hs,
         mp_dumps mp (JObj body'))) = (status, resp)"
      "usage_of mp s (is_stream (se_provider s) rest body') est clamp status resp = Inr u"
      "s' = settle u status (s\<lparr>se_requests := se_requests s + 1\<rparr>)"
proof (cases "abind (route mp s rq) (\<lambda>(rest, body). abind (limits s rest body (rq_raw rq)) (\<lambda>((est, clamp, body'), s').
    Inr (rest, est, clamp, body', s')))")
  case (Inl st)
  then show ?thesis using assms by (cases st) (auto simp: handle_def intro: stopped)
next
  case (Inr x)
  then obtain rest body est clamp body' s1 where x: "x = (rest, est, clamp, body', s1)" and r: "route mp s rq = Inr (rest, body)"
    and l: "limits s rest body (rq_raw rq) = Inr ((est, clamp, body'), s1)"
    by (auto simp: abind_Inr split: prod.splits)
  have s1: "s1 = s\<lparr>se_requests := se_requests s + 1\<rparr>" using limits_Inr [OF l] by simp
  show ?thesis
    using assms Inr counted [OF r l [unfolded s1]] metered [OF r l [unfolded s1]]
    by (auto simp: handle_def x s1 Let_def split: sum.splits prod.splits)
qed

lemma settle_within:
  assumes "limits s rest body raw = Inr ((est, clamp, body'), s')" "within_limits s" "0 < se_price_out s" "0 \<le> se_price_in s"
    and "fst u \<le> est" "snd u \<le> clamp"
  shows "within_limits (settle u status s')"
proof -
  note l = limits_Inr [OF assms(1)]
  have c: "of_int (snd u) \<le> (of_int (remaining_output s est) :: rat)" using assms(6) l(5) by (simp only: of_int_le_iff)
  have "of_int (fst u) * se_price_in s \<le> of_int est * se_price_in s"
    using assms(4,5) by (intro mult_right_mono) simp_all
  moreover have "of_int (snd u) * se_price_out s \<le> of_int (remaining_output s est) * se_price_out s"
    using assms(3) c by (intro mult_right_mono) simp_all
  moreover note remaining_usd [OF assms(3) l(4)]
  ultimately have usd: "se_usd s + of_int (fst u) * se_price_in s + of_int (snd u) * se_price_out s \<le> se_max_usd s" by linarith
  have "se_output_tokens s + snd u \<le> se_max_output_tokens s" using assms(6) l(5) remaining_output_le [of s est] by linarith
  then show ?thesis using assms(2,5) l(2,3,6) usd by (simp add: within_limits_def settle_def)
qed

lemma handle_within:
  assumes "handle mp key up t rq s = (e, snt, s')" "within_limits s" "0 < se_price_out s" "0 \<le> se_price_in s" "honours mp s rq up"
  shows "within_limits s' \<and> se_price_out s' = se_price_out s \<and> se_price_in s' = se_price_in s"
  using assms(1)
proof (cases rule: handle_cases)
  case (stopped r)
  then show ?thesis using assms(2) by (cases r) (auto simp: refuse_def within_limits_def)
next
  case (counted rest body est clamp body')
  then show ?thesis using assms(2) limits_Inr(2) [OF counted(2)] by (simp add: within_limits_def)
next
  case (metered rest body est clamp body' hs status resp u)
  have "fst u \<le> est \<and> snd u \<le> clamp" using assms(5) metered(1-4) unfolding honours_def by blast
  then show ?thesis using settle_within [OF metered(2) assms(2-4)] metered(5) by (simp add: settle_def)
qed

fun handle_all :: "mparams \<Rightarrow> string \<Rightarrow> (rat \<times> mrequest \<times> (sent \<Rightarrow> upstream)) list \<Rightarrow> session \<Rightarrow> session" where
  "handle_all mp key [] s = s"
| "handle_all mp key ((t, rq, up) # xs) s = handle_all mp key xs (snd (snd (handle mp key up t rq s)))"

fun all_honoured :: "mparams \<Rightarrow> string \<Rightarrow> (rat \<times> mrequest \<times> (sent \<Rightarrow> upstream)) list \<Rightarrow> session \<Rightarrow> bool" where
  "all_honoured mp key [] s = True"
| "all_honoured mp key ((t, rq, up) # xs) s =
     (honours mp s rq up \<and> all_honoured mp key xs (snd (snd (handle mp key up t rq s))))"


definition ex_session :: session where
  "ex_session = \<lparr>se_session_id = ''s1'', se_episode_id = ''e1'', se_role = ''diagnostician'', se_bundle_id = ''b'', se_configuration = ''c1'',
     se_provider = ''anthropic'', se_model = ''m'', se_upstream = ''https://api'', se_price_in = 1 / 100, se_price_out = 1 / 10,
     se_max_requests = 3, se_max_input_tokens = 100, se_max_output_tokens = 50, se_max_usd = 100, se_socket_path = ''/s'',
     se_requests = 0, se_input_tokens = 0, se_output_tokens = 0, se_usd = 0, se_refusals = [], se_upstream_errors = 0\<rparr>"

definition ex_mp :: mparams where
  "ex_mp = \<lparr>mp_loads = (\<lambda>_. Some (JObj [(''model'', JStr ''m'')])), mp_loads_text = (\<lambda>_. None), mp_dumps = (\<lambda>_. [1, 2]),
     mp_decode = (\<lambda>_. []), mp_round6 = (\<lambda>x. x), mp_url_path = (\<lambda>_. []), mp_reg = ex_rp\<rparr>"

definition ex_rq :: mrequest where
  "ex_rq = \<lparr>rq_path = ''/anthropic/v1/messages'', rq_content_length = Some ''40'', rq_raw = replicate 40 0,
     rq_headers = [(''X-Api-Key'', ''stolen''), (''Accept'', ''*/*'')]\<rparr>"

lemma ex_route: "route ex_mp ex_session ex_rq = Inr (''/v1/messages'', [(''model'', JStr ''m'')])"
  unfolding ex_mp_def ex_session_def ex_rq_def by code_simp

lemma ex_limits: "limits ex_session ''/v1/messages'' [(''model'', JStr ''m'')] (rq_raw ex_rq) =
    Inr ((10, 50, [(''model'', JStr ''m''), (''max_tokens'', JInt 50)]), ex_session\<lparr>se_requests := 1\<rparr>)"
  unfolding ex_session_def ex_rq_def by code_simp

lemma ex_mp_sel: "se_provider ex_session = ''anthropic''" "mp_loads ex_mp x = Some (JObj [(''model'', JStr ''m'')])"
  by (simp_all add: ex_session_def ex_mp_def)

lemma ex_honours: "honours ex_mp ex_session ex_rq (\<lambda>_. Response 200 [[1]])"
  by (auto simp: honours_def ex_route ex_limits is_stream_def ex_mp_sel pget_def forward_result_def usage_of_def
      usage_from_json_def usage_field_def rbind_simps as_dict_or_empty_def)


section \<open>Requests in flight\<close>

text \<open>The number of requests is counted at admission, so it holds for every interleaving.\<close>

lemma request_limit_under_concurrency:
  assumes "mb_step\<^sup>*\<^sup>* (s, fs) (s', fs')" "se_requests s \<le> se_max_requests s"
  shows "se_requests s' \<le> se_max_requests s'"
  using assms
proof (induction "(s', fs')" arbitrary: s' fs' rule: rtranclp_induct)
  case (step y)
  obtain s1 fs1 where y: "y = (s1, fs1)" by (cases y)
  have "se_requests s1 \<le> se_max_requests s1" using step y by blast
  with step(2) [unfolded y] show ?case
  proof (cases rule: mb_step.cases)
    case admit
    then show ?thesis using limits_Inr(2,6) [OF admit(2)] by simp
  qed (auto simp: refuse_def settle_def split: refusal.splits)
qed auto

text \<open>Requests in flight overspend. Tokens are metered only when the upstream has answered, and the
server is threaded: while one request that was granted the whole remaining output is in flight, a
second one passes the limits with the same grant. When both answers keep to their caps, the
session has used its output limit plus that grant once more.\<close>

lemma in_flight_requests_overspend:
  assumes "limits s rest body raw = Inr ((est, clamp, body'), s1)" "clamp = se_max_output_tokens s - se_output_tokens s"
    and "se_requests s + 1 < se_max_requests s"
  shows "\<exists>s2. limits s1 rest body raw = Inr ((est, clamp, body'), s2) \<and> 1 \<le> clamp \<and>
    mb_step\<^sup>*\<^sup>* (s, []) (settle (est, clamp) 200 (settle (est, clamp) 200 s2), []) \<and>
    se_output_tokens (settle (est, clamp) 200 (settle (est, clamp) 200 s2)) = se_max_output_tokens s + clamp"
proof -
  note l = limits_Inr [OF assms(1)]
  let ?s2 = "s1\<lparr>se_requests := se_requests s1 + 1\<rparr>"
  have eq: "remaining_output s1 est = remaining_output s est" "se_provider s1 = se_provider s"
    by (simp_all add: remaining_output_def l(6) Let_def)
  have l2: "limits s1 rest body raw = Inr ((est, clamp, body'), ?s2)"
    using l assms(3) eq by (simp add: limits_def abind_def refuse_if_def raising_def Let_def)
  have "mb_step (s, []) (s1, [(est, clamp)])" by (rule mb_step.admit [OF assms(1)])
  moreover have "mb_step (s1, [(est, clamp)]) (?s2, [(est, clamp), (est, clamp)])" by (rule mb_step.admit [OF l2])
  moreover have "mb_step (?s2, [(est, clamp), (est, clamp)]) (settle (est, clamp) 200 ?s2, [(est, clamp)])"
    using mb_step.settled [of ?s2 "[]" "(est, clamp)" "[(est, clamp)]"] by simp
  moreover have "mb_step (settle (est, clamp) 200 ?s2, [(est, clamp)]) (settle (est, clamp) 200 (settle (est, clamp) 200 ?s2), [])"
    using mb_step.settled [of _ "[]" "(est, clamp)" "[]"] by simp
  ultimately have "mb_step\<^sup>*\<^sup>* (s, []) (settle (est, clamp) 200 (settle (est, clamp) 200 ?s2), [])"
    by (meson converse_rtranclp_into_rtranclp rtranclp.rtrancl_refl)
  moreover have "1 \<le> clamp" using l(4) remaining_output_le [of s est] assms(2) by linarith
  moreover have "se_output_tokens (settle (est, clamp) 200 (settle (est, clamp) 200 ?s2)) = se_max_output_tokens s + clamp"
    using assms(2) by (simp add: settle_def l(6))
  ultimately show ?thesis using l2 by blast
qed

section \<open>What reaches the upstream\<close>

lemma fold_forward_keys:
  "map_of (fold (\<lambda>(k, v) d. if lower k \<in> set allow then dict_set d (lower k) v else d) hs d) k = Some v \<Longrightarrow>
   k \<in> set allow \<or> map_of d k = Some v"
  by (induction hs arbitrary: d) (fastforce split: if_splits)+

lemma forward_credentials:
  assumes "forward_headers s key hs body = Inr out" "k \<in> set CREDENTIAL_HEADERS" "map_of out k = Some v"
  shows "(k, v) \<in> set (auth_headers (se_provider s) key)"
proof -
  obtain allow where al: "FORWARD_HEADERS (se_provider s) = Some allow" using assms(1) by (auto simp: forward_headers_def split: option.splits)
  let ?h0 = "fold (\<lambda>(k, v) d. if lower k \<in> set allow then dict_set d (lower k) v else d) hs []"
  have k: "k \<notin> set allow" "k \<noteq> ''anthropic-version''" "k \<noteq> ''content-type''" "k \<noteq> ''content-length''"
    using assms(2) al by (auto simp: CREDENTIAL_HEADERS_def FORWARD_HEADERS_def split: if_splits)
  have "map_of ?h0 k = None" using fold_forward_keys [of allow hs "[]" k] k(1) by (cases "map_of ?h0 k") auto
  then show ?thesis
    using assms(1,3) k by (auto simp: forward_headers_def al auth_headers_def Let_def split: if_splits)
qed

lemma route_Inr:
  assumes "route mp s rq = Inr (rest, body)"
  shows "\<exists>g. fst (split_path (rq_path rq)) = se_provider s \<and> Providers.path_ok (se_provider s) rest = Inr (Some g) \<and>
    mp_loads mp (rq_raw rq) = Some (JObj body) \<and> requested_model (se_provider s) g body = Some (se_model s)"
proof -
  obtain seg r where sp: "split_path (rq_path rq) = (seg, r)" by fastforce
  from assms obtain g where g: "seg = se_provider s" "Providers.path_ok (se_provider s) r = Inr (Some g)"
    and body: "(case mp_loads mp (rq_raw rq) of
       Some (JObj body) \<Rightarrow> abind (refuse_if (requested_model (se_provider s) (case Some g of None \<Rightarrow> [] | Some g \<Rightarrow> g) body \<noteq> Some (se_model s)) 403 ''model'')
         (\<lambda>_. Inr (r, body))
     | _ \<Rightarrow> Inl (Refused (Refusal 400 ''json''))) = Inr (rest, body)"
    by (auto simp: route_def sp admit_simps)
  show ?thesis
  proof (cases "mp_loads mp (rq_raw rq)")
    case None
    with body show ?thesis by simp
  next
    case (Some v)
    with body g sp show ?thesis by (cases v) (auto simp: admit_simps)
  qed
qed


lemma ex_handle:
  "\<exists>e path hs out s'. handle ex_mp ''key'' (\<lambda>_. Response 200 [[1]]) 0 ex_rq ex_session = (e, Some (path, hs, out), s') \<and>
     map_of hs ''x-api-key'' = Some ''key''"
proof -
  have hs: "\<exists>hs. forward_headers ex_session ''key'' (rq_headers ex_rq) [1, 2] = Inr hs \<and> map_of hs ''x-api-key'' = Some ''key''"
    by (simp add: forward_headers_def FORWARD_HEADERS_def ex_session_def auth_headers_def Let_def)
  then obtain hs where hs: "forward_headers ex_session ''key'' (rq_headers ex_rq) [1, 2] = Inr hs" "map_of hs ''x-api-key'' = Some ''key''" by blast
  have d: "mp_dumps ex_mp v = [1, 2]" for v by (simp add: ex_mp_def)
  show ?thesis
    using hs by (simp add: handle_def ex_route ex_limits abind_def d Let_def split: prod.splits sum.splits)
qed


end
