(* ===== verification/Broker_Theorems.thy ===== *)
theory Broker_Theorems
  imports Brokers Store
begin

text \<open>
  The worker-facing brokers: the quota bound, the end of a revoked session, and the conditions
  under which a broker calls the store.
\<close>

section \<open>Quota\<close>

fun takes :: "string \<times> string \<Rightarrow> int \<Rightarrow> nat \<Rightarrow> quota \<Rightarrow> quota result" where
  "takes key limit 0 q = Inr q"
| "takes key limit (Suc n) q = rbind (take_quota key limit q) (takes key limit n)"

lemma takes_bound:
  assumes "takes key limit n q = Inr q'"
  shows "n = 0 \<or> int n + (case map_of q key of None \<Rightarrow> 0 | Some m \<Rightarrow> m) \<le> limit"
  using assms
proof (induction n arbitrary: q)
  case (Suc n)
  let ?m = "case map_of q key of None \<Rightarrow> 0 | Some m \<Rightarrow> m"
  from Suc.prems have "?m < limit" "takes key limit n (dict_set q key (?m + 1)) = Inr q'"
    by (auto simp: take_quota_def rbind_def Let_def split: if_splits)
  with Suc.IH [OF this(2)] show ?case by auto
qed simp

text \<open>A token of a revoked session is refused from then on, whatever else it says.\<close>

lemma revoked_session_refused:
  assumes "revoke_request p g = Inr (rep, g')" "pget p ''session_id'' = JStr sid" "check cd ok g' t token eid role = Inr cap"
  shows "cap_session_id cap \<noteq> sid"
  using assms
  by (auto simp: revoke_request_def revoke_session_def check_def Let_def rbind_def
      split: if_splits jv.splits option.splits sum.splits)

section \<open>Calls to the store\<close>

text \<open>
  What a call to the store rests on: the gate accepted the caller's token for the episode it
  named, and the call carries that token and the episode of the token. A write also rests on a tool
  of that operation which the role may use, arguments that fit its schema, a unit of the
  session's quota and an audit record of the arguments.
\<close>

definition write_grounds :: "params \<Rightarrow> capability \<Rightarrow> (breq, bresp) trace \<Rightarrow> string \<Rightarrow> bool" where
  "write_grounds p cap h op =
     (\<exists>tn ts limit data r r'. AGENT_OPS op = Some tn \<and> tool_allowed (cap_role cap) tn \<and> TOOLS_BY_NAME tn = Some ts \<and>
        validate (args_of p) (t_schema ts) \<and> (Quota_take (cap_session_id cap) ''writes'' limit, Inr r) \<in> set h \<and>
        (Audit_event ''tool_call'' (Some cap) data (Some (args_of p)), Inr r') \<in> set h)"

fun call_grounds :: "params \<Rightarrow> (breq, bresp) trace \<Rightarrow> breq \<Rightarrow> bool" where
  "call_grounds p h (Store_call op cp) =
     (\<exists>cap. (Gate_check (pget p ''token'') (pget p ''episode_id''), Inr (B_cap cap)) \<in> set h \<and>
        pget cp ''token'' = pget p ''token'' \<and> pget cp ''episode_id'' = JStr (cap_episode_id cap) \<and>
        (op = ''read_episode'' \<or> write_grounds p cap h op))"
| "call_grounds p h q = True"

fun no_store :: "breq \<Rightarrow> bool" where
  "no_store (Store_call _ _) = False"
| "no_store q = True"

lemma no_store_grounds: "no_store q \<Longrightarrow> call_grounds p h q"
  by (cases q) auto

definition gate_passed :: "params \<Rightarrow> capability \<Rightarrow> (breq, bresp) trace \<Rightarrow> bool" where
  "gate_passed p cap h = ((Gate_check (pget p ''token'') (pget p ''episode_id''), Inr (B_cap cap)) \<in> set h)"

lemma gate_passed_extend: "gate_passed p cap h \<Longrightarrow> gate_passed p cap (h @ t)"
  by (simp add: gate_passed_def)

lemma getitem_Inr: "getitem (JObj p) k = Inr v \<longleftrightarrow> map_of p k = Some v"
  by (auto split: option.splits)

lemma wp_quiet_call:
  assumes "every no_store q" "sound (call_grounds p) h" "\<And>res t. sound (call_grounds p) (h @ t) \<Longrightarrow> Q res (h @ t)"
  shows "wp q Q h"
proof (rule wp_quiet [where ok = "call_grounds p"])
  show "sound (call_grounds p) h" "\<And>res t. sound (call_grounds p) (h @ t) \<Longrightarrow> Q res (h @ t)" by (fact assms)+
  show "every (\<lambda>q. \<forall>h. call_grounds p h q) q"
    using assms(1) by (induction q) (auto intro: no_store_grounds)
qed

lemma baudit_no_store [simp]: "every no_store (baudit ev cap data pl)"
  by (simp add: baudit_def)

lemma quota_of_no_store [simp]: "every no_store (quota_of cap)"
  by (auto simp: quota_of_def intro!: every_pbind)

lemma authorize_sound:
  assumes "sound (call_grounds p) h"
  shows "wp (authorize p tn) (\<lambda>res h'. sound (call_grounds p) h' \<and>
     (\<forall>cap args. res = Inr (cap, args) \<longrightarrow> gate_passed p cap h' \<and> args = args_of p \<and> tool_allowed (cap_role cap) tn \<and>
        (\<exists>ts. TOOLS_BY_NAME tn = Some ts \<and> validate (args_of p) (t_schema ts)))) h"
  using assms
  by (auto simp: authorize_def baudit_def gate_passed_def split: option.splits elim!: b_cap.elims)

lemma call_params_Inr:
  "call_params [(''token'', tok), (''episode_id'', e), (''idem_key'', i)] v = Inr cp \<Longrightarrow>
   pget cp ''token'' = tok \<and> pget cp ''episode_id'' = e"
  by (auto simp: call_params_def pget_def split: jv.splits if_splits)

lemma audited_call_sound:
  assumes "sound (call_grounds p) h" "gate_passed p cap h" "write_grounds p cap h op"
    and "rbind (getitem (JObj p) ''token'') (\<lambda>tok. call_params [(''token'', tok), (''episode_id'', JStr (cap_episode_id cap)),
           (''idem_key'', i)] v) = Inr cp"
  shows "wp (audited_call cap tn op cp) (\<lambda>_. sound (call_grounds p)) h"
proof -
  obtain tok where tok: "getitem (JObj p) ''token'' = Inr tok" and cp: "call_params [(''token'', tok),
      (''episode_id'', JStr (cap_episode_id cap)), (''idem_key'', i)] v = Inr cp"
    using assms(4) by (auto simp: rbind_def split: sum.splits)
  have "pget p ''token'' = tok" using tok by (simp only: getitem_Inr) (simp add: pget_def)
  then have "call_grounds p h (Store_call op cp)"
    using call_params_Inr [OF cp] assms(2,3) by (auto simp: gate_passed_def)
  then show ?thesis using assms(1)
    by (auto simp: audited_call_def baudit_def simp del: call_grounds.simps(1) split: sum.splits exn.splits option.splits)
qed

lemma forward_write_sound:
  assumes h: "sound (call_grounds p) h" "gate_passed p cap h" "tool_allowed (cap_role cap) tn" "TOOLS_BY_NAME tn = Some ts"
      "validate (args_of p) (t_schema ts)" "(Quota_take (cap_session_id cap) ''writes'' limit, Inr r) \<in> set h"
    and op: "AGENT_OPS op = Some tn"
  shows "wp (forward_write p tn op build cap (args_of p)) (\<lambda>_. sound (call_grounds p)) h"
proof (cases "\<exists>ik. pget p ''idem_key'' = JStr ik \<and> idem_ok ik")
  case True
  then obtain ik where ik: "pget p ''idem_key'' = JStr ik" "idem_ok ik" by blast
  let ?cp = "rbind (getitem (JObj p) ''token'') (\<lambda>tok. call_params [(''token'', tok), (''episode_id'', JStr (cap_episode_id cap)),
     (''idem_key'', JStr (cap_session_id cap @ '':'' @ ik))] (build (args_of p)))"
  have w: "write_grounds p cap (h @ [(Audit_event ''tool_call'' (Some cap) data (Some (args_of p)), Inr x)]) op" for data x
    using op h(3-6) unfolding write_grounds_def by fastforce
  have c: "wp (audited_call cap tn op cp) (\<lambda>_. sound (call_grounds p))
      (h @ [(Audit_event ''tool_call'' (Some cap) data (Some (args_of p)), Inr x)])" if "?cp = Inr cp" for cp data x
    using h(1,2) by (intro audited_call_sound [OF _ _ w that]) (simp_all add: gate_passed_extend)
  show ?thesis
    using h(1) c
    by (auto simp: forward_write_def ik baudit_def [of "''tool_call''"] wp_pbind [of "ask _ _"] wp_pbind [of "lift _"] simp del: wp_pbind
        split: option.splits sum.splits)
next
  case False
  then show ?thesis using h(1) by (auto simp: forward_write_def split: jv.splits)
qed

lemma broker_write_sound:
  assumes "AGENT_OPS op = Some tn"
  shows "wp (broker_write p tn op build) (\<lambda>_. sound (call_grounds p)) []"
proof -
  have q: "wp (pbind (quota_of cap) (\<lambda>limit. pbind (ask (Quota_take (cap_session_id cap) ''writes'' limit) b_unit)
       (\<lambda>_. forward_write p tn op build cap (args_of p)))) (\<lambda>_. sound (call_grounds p)) h"
    if h: "sound (call_grounds p) h" "gate_passed p cap h" "tool_allowed (cap_role cap) tn" "TOOLS_BY_NAME tn = Some ts"
      "validate (args_of p) (t_schema ts)" for cap ts h
    unfolding wp_pbind
  proof (rule wp_quiet_call [OF quota_of_no_store h(1)], goal_cases)
    case (1 res t)
    show ?case
    proof (cases res)
      case (Inr limit)
      have "wp (forward_write p tn op build cap (args_of p)) (\<lambda>_. sound (call_grounds p))
          (h @ t @ [(Quota_take (cap_session_id cap) ''writes'' limit, Inr x)])" for x
        using 1 h(2-5) by (intro forward_write_sound [OF _ _ _ _ _ _ assms]) (auto simp: gate_passed_extend simp flip: append_assoc)
      moreover have "sound (call_grounds p) (h @ t @ [(Quota_take (cap_session_id cap) ''writes'' limit, y)])" for y
        using sound_snoc [of "call_grounds p" "h @ t"] 1 by simp
      ultimately show ?thesis using Inr by auto
    qed (use 1 in simp)
  qed
  show ?thesis
    unfolding broker_write_def wp_pbind [of "authorize _ _"]
    by (rule wp_mono [OF authorize_sound]) (auto split: sum.splits simp del: wp_pbind intro: q)
qed

lemma store_read_sound:
  assumes "sound (call_grounds p) h" "gate_passed p cap h"
  shows "wp (store_read p cap) (\<lambda>_. sound (call_grounds p)) h"
  using assms
  by (cases "map_of p ''token''") (auto simp: store_read_def gate_passed_def pget_def)

lemma wp_then_quiet:
  assumes "wp q (\<lambda>_. sound (call_grounds p)) h" "\<And>x. every no_store (f x)"
  shows "wp (pbind q f) (\<lambda>_. sound (call_grounds p)) h"
proof -
  have "wp (f x) (\<lambda>_. sound (call_grounds p)) h'" if "sound (call_grounds p) h'" for x h'
    using assms(2) that by (rule wp_quiet_call)
  then show ?thesis unfolding wp_pbind by (intro wp_mono [OF assms(1)]) (auto split: sum.splits)
qed

lemma authorized_read_sound:
  assumes "\<And>cap x. every no_store (f cap x)"
  shows "wp (pbind (authorize p tn) (\<lambda>(cap, _). pbind (pbind (store_read p cap) (\<lambda>v. lift (as_dict v))) (f cap)))
     (\<lambda>_. sound (call_grounds p)) []"
proof -
  have "wp (pbind (pbind (store_read p cap) (\<lambda>v. lift (as_dict v))) (f cap)) (\<lambda>_. sound (call_grounds p)) h"
    if "sound (call_grounds p) h" "gate_passed p cap h" for cap h
    using assms by (intro wp_then_quiet store_read_sound that) simp_all
  then show ?thesis
    unfolding wp_pbind [of "authorize _ _"]
    by (intro wp_mono [OF authorize_sound]) (auto split: sum.splits simp del: wp_pbind)
qed

lemma read_episode_sound: "wp (read_episode p) (\<lambda>_. sound (call_grounds p)) []"
proof -
  have q: "wp (pbind (quota_of cap) (\<lambda>limit. pbind (ask (Quota_take (cap_session_id cap) ''reads'' limit) b_unit) (\<lambda>_. store_read p cap)))
      (\<lambda>_. sound (call_grounds p)) h" if h: "sound (call_grounds p) h" "gate_passed p cap h" for cap h
    unfolding wp_pbind
  proof (rule wp_quiet_call [OF quota_of_no_store h(1)], goal_cases)
    case (1 res t)
    have s: "sound (call_grounds p) (h @ t @ [(Quota_take (cap_session_id cap) ''reads'' limit, y)])" for limit y
      using sound_snoc [of "call_grounds p" "h @ t"] 1 by simp
    have "wp (store_read p cap) (\<lambda>_. sound (call_grounds p)) (h @ t @ [(Quota_take (cap_session_id cap) ''reads'' limit, y)])" for limit y
      using h(2) by (intro store_read_sound s gate_passed_extend)
    with s 1 show ?case by (cases res) auto
  qed
  have one: "sound (call_grounds p) [(Gate_check a b, y)]" for a b y by (simp add: sound_def)
  show ?thesis
    unfolding read_episode_def wp_pbind [of "ask _ _"]
    by (auto simp del: wp_pbind intro!: q simp: gate_passed_def one elim!: b_cap.elims split: option.splits)
qed

lemma episode_methods_sound:
  assumes "(m, fn) \<in> set (episode_methods sec other)"
  shows "wp (fn p) (\<lambda>_. sound (call_grounds p)) []"
proof -
  have w: "wp (add_hypothesis p) (\<lambda>_. sound (call_grounds p)) []" "wp (set_hypothesis_status p) (\<lambda>_. sound (call_grounds p)) []"
    "wp (propose_recommendation p) (\<lambda>_. sound (call_grounds p)) []" "wp (report_no_action p) (\<lambda>_. sound (call_grounds p)) []"
    "wp (submit_verdict p) (\<lambda>_. sound (call_grounds p)) []"
    unfolding add_hypothesis_def set_hypothesis_status_def propose_recommendation_def report_no_action_def submit_verdict_def
    by (rule broker_write_sound, simp add: AGENT_OPS_def)+
  have r: "wp (get_verification_result p) (\<lambda>_. sound (call_grounds p)) []" "wp (draft_failover_runbook sec p) (\<lambda>_. sound (call_grounds p)) []"
    unfolding get_verification_result_def draft_failover_runbook_def
    by (rule authorized_read_sound; auto simp: Let_def intro!: every_pbind)+
  have n: "every no_store (audit_note other p)"
    by (auto simp: audit_note_def Let_def intro!: every_pbind)
  have "wp (audit_note other p) (\<lambda>_. sound (call_grounds p)) []" by (rule wp_quiet_call [OF n]) simp_all
  with w r read_episode_sound assms show ?thesis by (auto simp: episode_methods_def)
qed


definition ex_bcap :: capability where
  "ex_bcap = \<lparr>cap_episode_id = ''e1'', cap_role = ''diagnostician'', cap_session_id = ''s1'', cap_bundle_id = ''b'', cap_exp = 9,
     cap_nonce = ''n'', cap_iat = 1, cap_v = 1\<rparr>"

definition ex_policy :: policy_bundle where
  "ex_policy = \<lparr>bn_id = ''b'', bn_y = (\<lambda>_. Inr (JObj [(''parameters'', JObj [(''P-05'', JObj [(''diagnostician'', JInt 6)])])]))\<rparr>"

definition ex_hargs :: jv where
  "ex_hargs = JObj [(''rank'', JInt 1), (''claim'', JStr ''behind''), (''test'', JStr ''catchup''), (''expected_evidence'', JStr ''slots'')]"

definition ex_bp :: params where
  "ex_bp = [(''token'', JStr ''t''), (''episode_id'', JStr ''e1''), (''idem_key'', JStr ''abcdefgh1''), (''args'', ex_hargs)]"

definition ex_banswer :: "nat \<Rightarrow> breq \<Rightarrow> bresp result" where
  "ex_banswer n q = Inr (case q of Gate_check _ _ \<Rightarrow> B_cap ex_bcap | Load_policy _ \<Rightarrow> B_bundle ex_policy | Audit_event _ _ _ _ \<Rightarrow> B_ref ''r''
     | Store_call _ _ \<Rightarrow> B_json (JObj []) | _ \<Rightarrow> B_unit)"

lemma ex_allowed: "tool_allowed ''diagnostician'' ''add_hypothesis''"
  by (simp add: tool_allowed_def TOOLS_BY_ROLE_def tool_table)

lemma ex_hargs_valid: "validate ex_hargs HYPOTHESIS_SCHEMA"
  unfolding ex_hargs_def by code_simp

lemma ex_hargs_truthy: "truthy ex_hargs"
  by (simp add: ex_hargs_def)

lemma ex_idem_ok: "idem_ok ''abcdefgh1''" by code_simp


end
