(* ===== verification/Report_Broker.thy ===== *)
theory Report_Broker
  imports Brokers
begin

text \<open>
  \<^verbatim>\<open>valops/brokers/report_broker.py\<close>: reports, alerts, acknowledgement and escalation. The state is the
  dictionary of alerts, the append-only log it is loaded from, the send times of the rate cap and
  the stored reports. The sink and the audit client answer or raise; an exception leaves the
  state as it is at that point.
\<close>

definition MAX_ALERTS_PER_HOUR :: nat where "MAX_ALERTS_PER_HOUR = 60"

record rbroker =
  rb_alerts :: "(string \<times> params) list"
  rb_log :: "jv list"
  rb_sent_times :: "rat list"
  rb_reports :: "(string \<times> bytes) list"

record renv =
  re_sink :: "string \<Rightarrow> params \<Rightarrow> string result"
  re_audit :: "params \<Rightarrow> unit result"
  re_development :: bool
  re_ack_window_s :: rat

definition update_all :: "params \<Rightarrow> params \<Rightarrow> params" where
  "update_all d upd = fold (\<lambda>(k, v) d. dict_set d k v) upd d"

section \<open>Persistence\<close>

definition ev_sent :: "params \<Rightarrow> jv" where
  "ev_sent a = JObj [(''ev'', JStr ''sent''), (''alert'', JObj a)]"

definition ev_update :: "string \<Rightarrow> params \<Rightarrow> jv" where
  "ev_update aid upd = JObj [(''ev'', JStr ''update''), (''alert_id'', JStr aid), (''update'', JObj upd)]"

definition load_alert_event :: "jv \<Rightarrow> (string \<times> params) list \<Rightarrow> (string \<times> params) list result" where
  "load_alert_event ev as =
     rbind (getitem ev ''ev'') (\<lambda>k.
       if k = JStr ''sent'' then
         rbind (rbind (getitem ev ''alert'') as_dict) (\<lambda>a.
         rbind (rbind (getitem (JObj a) ''alert_id'') as_str) (\<lambda>aid. Inr (dict_set as aid a)))
       else
         rbind (rbind (getitem ev ''alert_id'') as_str) (\<lambda>aid.
           case map_of as aid of
             None \<Rightarrow> Inr as
           | Some a \<Rightarrow> rbind (rbind (getitem ev ''update'') as_dict) (\<lambda>upd. Inr (dict_set as aid (update_all a upd)))))"

fun load_alert_events :: "jv list \<Rightarrow> (string \<times> params) list \<Rightarrow> (string \<times> params) list result" where
  "load_alert_events [] as = Inr as"
| "load_alert_events (ev # evs) as = rbind (load_alert_event ev as) (load_alert_events evs)"

definition load_alerts :: "jv list \<Rightarrow> (string \<times> params) list result" where
  "load_alerts lines = load_alert_events lines []"

section \<open>Dispatch\<close>

definition stamp :: "renv \<Rightarrow> string \<Rightarrow> rat \<Rightarrow> params \<Rightarrow> string \<times> params" where
  "stamp env uuid t alert =
     (let aid = (if truthy (pget alert ''alert_id'') then str_of (pget alert ''alert_id'') else uuid)
      in (aid, dict_set (dict_set (dict_set alert ''alert_id'' (JStr aid)) ''sent_ts'' (JFloat t)) ''development'' (JBool (re_development env))))"

text \<open>\<open>t\<close> and \<open>t'\<close> are the clock readings of the rate cap and of the alert.\<close>

definition dispatch_alert ::
  "renv \<Rightarrow> rat \<Rightarrow> rat \<Rightarrow> string \<Rightarrow> params \<Rightarrow> rbroker \<Rightarrow> params result \<times> rbroker" where
  "dispatch_alert env t t' uuid alert s =
     (let recent = filter (\<lambda>x. t - x < 3600) (rb_sent_times s) in
      if length recent \<ge> MAX_ALERTS_PER_HOUR \<and> pget alert ''severity'' \<noteq> JStr ''critical'' then
        (rbind (re_audit env [(''what'', JStr ''alert rate cap reached; alert suppressed''), (''title'', pget alert ''title'')])
           (\<lambda>_. Inl (RpcError ''rate_limited'')), s\<lparr>rb_sent_times := recent\<rparr>)
      else
        let s1 = s\<lparr>rb_sent_times := recent @ [t]\<rparr>; (aid, a) = stamp env uuid t' alert in
        (case re_sink env ''primary'' a of
           Inl _ \<Rightarrow> (Inl (RpcError ''alert_failed''), s1)
         | Inr ack \<Rightarrow>
             let a' = update_all (dict_set a ''ack'' (JStr ack)) [(''acked'', JBool False), (''resent'', JBool False), (''escalated'', JBool False)];
                 s2 = s1\<lparr>rb_alerts := dict_set (rb_alerts s1) aid a', rb_log := rb_log s1 @ [ev_sent a']\<rparr>
             in (rbind (re_audit env [(''alert_id'', JStr aid), (''episode_id'', pget a' ''episode_id''), (''kind'', pget a' ''kind''),
                   (''severity'', pget a' ''severity'')]) (\<lambda>_. Inr a'), s2)))"

section \<open>Worker socket\<close>

text \<open>The content-addressed report and the parameters of the store call; \<open>h\<close> is the SHA-256 of the body.\<close>

definition write_incident_report ::
  "string \<Rightarrow> bytes \<Rightarrow> jv \<Rightarrow> capability \<Rightarrow> params \<Rightarrow> rbroker \<Rightarrow> (string \<times> params) \<times> rbroker" where
  "write_incident_report h body token cap args s =
     (let path = h @ ''.md''; ref = ''report:sha256:'' @ h;
          s' = (if path \<in> fst ` set (rb_reports s) then s else s\<lparr>rb_reports := rb_reports s @ [(path, body)]\<rparr>)
      in ((ref, [(''token'', token), (''episode_id'', JStr (cap_episode_id cap)), (''kind'', pget args ''kind''), (''ref'', JStr ref),
                 (''idem_key'', JStr (cap_session_id cap @ '':report:'' @ str_of (pget args ''kind'') @ '':'' @ take 16 h))]), s'))"

text \<open>The last of the artefacts with the greatest revision in the order of \<^verbatim>\<open>max\<close>: the first of them.\<close>

fun max_rev :: "jv list \<Rightarrow> (int \<times> jv) option \<Rightarrow> jv option result" where
  "max_rev [] best = Inr (map_option snd best)"
| "max_rev (x # xs) best =
     rbind (rbind (getitem x ''rev'') py_int) (\<lambda>n.
       max_rev xs (case best of None \<Rightarrow> Some (n, x) | Some (m, y) \<Rightarrow> if n > m then Some (n, x) else Some (m, y)))"

fun failed_checks :: "jv list \<Rightarrow> string list result" where
  "failed_checks [] = Inr []"
| "failed_checks (c # cs) =
     rbind (getitem c ''result'') (\<lambda>r.
       if r = JStr ''fail'' then rbind (rbind (getitem c ''check'') as_str) (\<lambda>k. rbind (failed_checks cs) (\<lambda>ks. Inr (k # ks)))
       else failed_checks cs)"

fun join_texts :: "string \<Rightarrow> string list \<Rightarrow> string" where
  "join_texts sep [] = []"
| "join_texts sep [x] = x"
| "join_texts sep (x # xs) = x @ sep @ join_texts sep xs"

definition as_list :: "jv \<Rightarrow> jv list result" where
  "as_list v = (case v of JArr xs \<Rightarrow> Inr xs | _ \<Rightarrow> Inl (PyError ''TypeError''))"

definition recommendation_text :: "(jv \<Rightarrow> string) \<Rightarrow> params \<Rightarrow> jv result" where
  "recommendation_text other rec =
     rbind (rbind (getitem (JObj rec) ''recommendations'') as_list) (\<lambda>rs.
     rbind (rbind (getitem (JObj rec) ''no_action'') as_list) (\<lambda>ns.
     rbind (max_rev (rs @ ns) None) (\<lambda>best.
       case best of
         None \<Rightarrow> Inr (JStr ''none'')
       | Some x \<Rightarrow>
           rbind (getitem x ''id'') (\<lambda>ident. rbind (as_dict x) (\<lambda>d.
             Inr (JStr (py_str other ident @ '': '' @
               (if truthy (pget d ''action_text'') then str_of (pget d ''action_text'')
                else ''NO ACTION - '' @ py_str other (pget d ''reason''))))))))) "

definition verdict_text :: "(jv \<Rightarrow> string) \<Rightarrow> params \<Rightarrow> jv result" where
  "verdict_text other rec =
     rbind (rbind (getitem (JObj rec) ''verdicts'') as_list) (\<lambda>vs.
       if vs = [] then Inr (JStr ''none'')
       else
         let v = last vs in
         rbind (rbind (rbind (getitem v ''checks'') as_list) failed_checks) (\<lambda>fails.
         rbind (getitem v ''result'') (\<lambda>r.
         rbind (getitem v ''target_id'') (\<lambda>target.
           Inr (JStr (py_str other r @ '' on '' @ py_str other target @
             (if fails = [] then [] else '' (failed: '' @ join_texts '', '' fails @ '')'')))))))"

definition fault_class :: "policy_bundle \<Rightarrow> params \<Rightarrow> jv result" where
  "fault_class b trig =
     rbind (rbind (bn_y b ''fault_classes.yaml'') as_dict) (\<lambda>fc.
     rbind (as_dict_or_empty (pget fc ''by_check'')) (\<lambda>by.
       let c = (case pget trig ''check'' of JStr k \<Rightarrow> pget by k | _ \<Rightarrow> JNull) in
       Inr (if truthy c then c else JStr ''outside supported classes'')))"

definition top_text :: "(jv \<Rightarrow> string) \<Rightarrow> params \<Rightarrow> jv result" where
  "top_text other rec =
     (let top = pget rec ''top_hypothesis'' in
      if \<not> truthy top then Inr (JStr ''no hypothesis'')
      else rbind (getitem top ''rank'') (\<lambda>rank. rbind (getitem top ''claim'') (\<lambda>claim.
             Inr (JStr (''rank '' @ py_str other rank @ '': '' @ py_str other claim)))))"

definition compose ::
  "(jv \<Rightarrow> string) \<Rightarrow> params \<Rightarrow> string \<Rightarrow> string \<Rightarrow> string \<Rightarrow> policy_bundle \<Rightarrow> params result" where
  "compose other rec kind summary report_ref b =
     rbind (rbind (getitem (JObj rec) ''trigger'') as_dict_or_empty) (\<lambda>trig.
     rbind (fault_class b trig) (\<lambda>fc.
     rbind (recommendation_text other rec) (\<lambda>rtxt.
     rbind (verdict_text other rec) (\<lambda>verdict.
     rbind (top_text other rec) (\<lambda>top.
     rbind (getitem (JObj rec) ''episode_id'') (\<lambda>eid.
     rbind (getitem (JObj rec) ''class'') (\<lambda>cls.
     rbind (getitem (JObj rec) ''state'') (\<lambda>state.
     rbind (getitem (JObj rec) ''consensus_mode'') (\<lambda>mode.
       Inr [(''kind'', JStr kind), (''episode_id'', eid), (''severity'', pget_default trig ''severity'' (JStr ''unknown'')),
            (''title'', JStr ((if kind = ''closure'' then ''Closure'' else ''Incident'') @ '': '' @ py_str other cls @ '' / '' @
                py_str other (pget trig ''check''))),
            (''fault_class'', fc), (''top_hypothesis'', top), (''recommendation'', rtxt), (''judge_verdict'', verdict),
            (''report'', JStr report_ref), (''summary'', JStr (take 1500 summary)), (''state'', state), (''consensus_mode'', mode),
            (''opened_ts'', pget rec ''opened_ts''), (''needs_ack'', JBool (kind = ''incident''))])))))))))"

definition same_alert :: "capability \<Rightarrow> string \<Rightarrow> params \<Rightarrow> bool" where
  "same_alert cap kind a = (pget a ''session_id'' = JStr (cap_session_id cap) \<and> pget a ''kind'' = JStr kind)"

fun last_report :: "string \<Rightarrow> jv list \<Rightarrow> jv option result" where
  "last_report kind [] = Inr None"
| "last_report kind (r # rs) =
     rbind (getitem r ''kind'') (\<lambda>k.
       rbind (last_report kind rs) (\<lambda>l. Inr (case l of Some x \<Rightarrow> Some x | None \<Rightarrow> if k = JStr kind then Some r else None)))"

text \<open>\<^verbatim>\<open>send_alert\<close> for an authorised call: \<open>rec\<close> is the store's answer to the read, \<open>b\<close> the bound bundle.\<close>

definition send_alert ::
  "renv \<Rightarrow> (jv \<Rightarrow> string) \<Rightarrow> rat \<Rightarrow> rat \<Rightarrow> string \<Rightarrow> capability \<Rightarrow> string \<Rightarrow> string \<Rightarrow> params result \<Rightarrow> policy_bundle result \<Rightarrow>
   rbroker \<Rightarrow> jv result \<times> rbroker" where
  "send_alert env other t t' uuid cap kind summary read_rec load_b s =
     (case find (\<lambda>(_, a). same_alert cap kind a) (rb_alerts s) of
        Some (_, a) \<Rightarrow>
          (rbind (getitem (JObj a) ''alert_id'') (\<lambda>i. rbind (getitem (JObj a) ''ack'') (\<lambda>k.
             Inr (JObj [(''alert_id'', i), (''ack'', k), (''duplicate'', JBool True)]))), s)
      | None \<Rightarrow>
          (case rbind read_rec (\<lambda>rec.
                  rbind (rbind (rbind (getitem (JObj rec) ''reports'') as_list) (last_report kind)) (\<lambda>rp.
                    case rp of
                      None \<Rightarrow> Inl (RpcError ''contract'')
                    | Some r \<Rightarrow>
                        rbind (rbind (getitem r ''ref'') as_str) (\<lambda>ref.
                        rbind load_b (\<lambda>b. compose other rec kind summary ref b)))) of
             Inl e \<Rightarrow> (Inl e, s)
           | Inr alert \<Rightarrow>
               (case dispatch_alert env t t' uuid (dict_set alert ''session_id'' (JStr (cap_session_id cap))) s of
                  (Inl e, s') \<Rightarrow> (Inl e, s')
                | (Inr a, s') \<Rightarrow> (Inr (JObj [(''alert_id'', pget a ''alert_id''), (''ack'', pget a ''ack'')]), s'))))"

section \<open>System and operator sockets\<close>

definition SEVERITIES :: "jv list" where
  "SEVERITIES = [JStr ''info'', JStr ''warning'', JStr ''high'', JStr ''critical'']"

definition system_alert ::
  "renv \<Rightarrow> (jv \<Rightarrow> string) \<Rightarrow> rat \<Rightarrow> rat \<Rightarrow> string \<Rightarrow> string \<Rightarrow> params \<Rightarrow> rbroker \<Rightarrow> jv result \<times> rbroker" where
  "system_alert env other t t' uuid who p s =
     (let sev = pget p ''severity''; dedupe = pget p ''dedupe_key'' in
      if sev \<notin> set SEVERITIES then (Inl (RpcError ''invalid''), s)
      else
        let alert = [(''kind'', JStr ''system''), (''severity'', sev),
                     (''title'', JStr (take 200 (py_str other (pget_default p ''title'' (JStr []))))),
                     (''text'', JStr (take 4000 (py_str other (pget_default p ''text'' (JStr []))))),
                     (''episode_id'', pget p ''episode_id''), (''source'', JStr who),
                     (''needs_ack'', JBool (sev \<in> {JStr ''high'', JStr ''critical''}))];
            dup = (if truthy dedupe then find (\<lambda>(_, a). py_eq (pget a ''dedupe_key'') dedupe) (rb_alerts s) else None)
        in (case dup of
              Some (_, a) \<Rightarrow> (rbind (getitem (JObj a) ''alert_id'') (\<lambda>i. Inr (JObj [(''alert_id'', i), (''duplicate'', JBool True)])), s)
            | None \<Rightarrow>
                (case dispatch_alert env t t' uuid (if truthy dedupe then alert @ [(''dedupe_key'', dedupe)] else alert) s of
                   (Inl e, s') \<Rightarrow> (Inl e, s')
                 | (Inr a, s') \<Rightarrow> (Inr (JObj [(''alert_id'', pget a ''alert_id''), (''ack'', pget a ''ack'')]), s'))))"

definition alerts_for :: "params \<Rightarrow> rbroker \<Rightarrow> params list" where
  "alerts_for p s =
     filter (\<lambda>a. py_eq (pget a ''episode_id'') (pget p ''episode_id'') \<and>
                 (pget p ''session_id'' = JNull \<or> py_eq (pget a ''session_id'') (pget p ''session_id''))) (map snd (rb_alerts s))"

definition log_update :: "string \<Rightarrow> params \<Rightarrow> rbroker \<Rightarrow> rbroker" where
  "log_update aid upd s =
     (case map_of (rb_alerts s) aid of
        None \<Rightarrow> s
      | Some a \<Rightarrow> s\<lparr>rb_alerts := dict_set (rb_alerts s) aid (update_all a upd), rb_log := rb_log s @ [ev_update aid upd]\<rparr>)"

definition ack :: "renv \<Rightarrow> rat \<Rightarrow> string \<Rightarrow> jv \<Rightarrow> rbroker \<Rightarrow> jv result \<times> rbroker" where
  "ack env t who aid s =
     (case (case aid of JStr i \<Rightarrow> Option.bind (map_of (rb_alerts s) i) (\<lambda>_. Some i) | _ \<Rightarrow> None) of
        None \<Rightarrow> (if hashable aid then Inl (RpcError ''not_found'') else Inl (PyError ''TypeError''), s)
      | Some i \<Rightarrow>
          (rbind (re_audit env [(''alert_id'', aid), (''acked'', JBool True)]) (\<lambda>_. Inr (JObj [(''ok'', JBool True)])),
           log_update i [(''acked'', JBool True), (''acked_ts'', JFloat t), (''acked_by'', JStr who)] s))"

section \<open>Escalation\<close>

definition retitled :: "string \<Rightarrow> params \<Rightarrow> params" where
  "retitled prefix a = dict_set a ''title'' (JStr (prefix @ str_of (pget_default a ''title'' (JStr []))))"

text \<open>What a tick decides for one alert: nothing, a re-send or an escalation, with target and update.\<close>

definition due :: "rat \<Rightarrow> rat \<Rightarrow> params \<Rightarrow> (string \<times> string \<times> params) option result" where
  "due w t a =
     (if \<not> truthy (pget a ''needs_ack'') \<or> truthy (pget a ''acked'') \<or> truthy (pget a ''escalated'') then Inr None
      else
        rbind (rbind (getitem (JObj a) ''sent_ts'') py_float) (\<lambda>sent.
        rbind (getitem (JObj a) ''resent'') (\<lambda>resent.
          if \<not> truthy resent \<and> t - sent > w
          then Inr (Some (''primary'', ''RE-SENT (unacknowledged): '', [(''resent'', JBool True), (''resent_ts'', JFloat t)]))
          else if truthy resent
          then rbind (py_float (pget_default a ''resent_ts'' (JFloat t))) (\<lambda>r.
                 Inr (if t - r > w
                      then Some (''backup'', ''ESCALATED to backup operator: '', [(''escalated'', JBool True), (''escalated_ts'', JFloat t)])
                      else None))
          else Inr None)))"

text \<open>One alert of a tick: the sends made and an exception that ends the tick.\<close>

definition escalate_one ::
  "renv \<Rightarrow> rat \<Rightarrow> params \<Rightarrow> rbroker \<Rightarrow> (string \<times> params) list \<times> unit result \<times> rbroker" where
  "escalate_one env t a s =
     (case due (re_ack_window_s env) t a of
        Inl e \<Rightarrow> ([], Inl e, s)
      | Inr None \<Rightarrow> ([], Inr (), s)
      | Inr (Some (target, prefix, upd)) \<Rightarrow>
          let msg = retitled prefix a in
          (case re_sink env target msg of
             Inl _ \<Rightarrow> ([], Inr (), s)
           | Inr _ \<Rightarrow>
               let aid = str_of (pget a ''alert_id'') in
               ([(target, msg)],
                re_audit env ((''alert_id'', JStr aid) # filter (\<lambda>(_, v). case v of JBool _ \<Rightarrow> True | _ \<Rightarrow> False) upd),
                log_update aid upd s)))"

fun escalate_alerts ::
  "renv \<Rightarrow> rat \<Rightarrow> params list \<Rightarrow> rbroker \<Rightarrow> (string \<times> params) list \<times> unit result \<times> rbroker" where
  "escalate_alerts env t [] s = ([], Inr (), s)"
| "escalate_alerts env t (a # as) s =
     (case escalate_one env t a s of
        (m, Inl e, s') \<Rightarrow> (m, Inl e, s')
      | (m, Inr _, s') \<Rightarrow> (case escalate_alerts env t as s' of (m', r, s'') \<Rightarrow> (m @ m', r, s'')))"

definition escalate_tick :: "renv \<Rightarrow> rat \<Rightarrow> rbroker \<Rightarrow> (string \<times> params) list \<times> unit result \<times> rbroker" where
  "escalate_tick env t s = escalate_alerts env t (map snd (rb_alerts s)) s"

end
