(* ===== verification/Report_Theorems.thy ===== *)
theory Report_Theorems
  imports Report_Broker
begin

text \<open>
  The report broker: the alerts in memory are what a restart loads from the log, and an alert that
  nobody acknowledges is sent again and then escalated.
\<close>

section \<open>Restart\<close>

inductive rb_step :: "rbroker \<Rightarrow> rbroker \<Rightarrow> bool" where
  report: "rb_step s (snd (write_incident_report h body token cap args s))"
| send: "rb_step s (snd (send_alert env other t t' uuid cap kind summary rec b s))"
| system: "rb_step s (snd (system_alert env other t t' uuid who p s))"
| acked: "rb_step s (snd (ack env t who aid s))"
| tick: "rb_step s (snd (snd (escalate_tick env t s)))"

definition new_rbroker :: rbroker where
  "new_rbroker = \<lparr>rb_alerts = [], rb_log = [], rb_sent_times = [], rb_reports = []\<rparr>"

definition recoverable :: "rbroker \<Rightarrow> bool" where
  "recoverable s = (load_alerts (rb_log s) = Inr (rb_alerts s))"

lemma load_events_append:
  "load_alert_events (l @ l') as = rbind (load_alert_events l as) (load_alert_events l')"
  by (induction l arbitrary: as) (auto simp: rbind_def split: sum.splits)

lemma recoverable_sent:
  assumes "recoverable s" "map_of a ''alert_id'' = Some (JStr aid)"
    and "rb_alerts s' = dict_set (rb_alerts s) aid a" "rb_log s' = rb_log s @ [ev_sent a]"
  shows "recoverable s'"
  using assms by (simp add: recoverable_def load_alerts_def load_events_append load_alert_event_def ev_sent_def rbind_simps as_dict_def as_str_def)

lemma recoverable_update: "recoverable s \<Longrightarrow> recoverable (log_update aid upd s)"
  by (auto simp: log_update_def recoverable_def load_alerts_def load_events_append load_alert_event_def ev_update_def rbind_simps
      as_dict_def as_str_def split: option.splits)

lemma recoverable_frame: "rb_alerts s' = rb_alerts s \<Longrightarrow> rb_log s' = rb_log s \<Longrightarrow> recoverable s \<Longrightarrow> recoverable s'"
  by (simp add: recoverable_def)

lemma dispatch_recoverable:
  assumes "recoverable s"
  shows "recoverable (snd (dispatch_alert env t t' uuid alert s))"
proof -
  obtain aid a where st: "stamp env uuid t' alert = (aid, a)" by fastforce
  have i: "map_of a ''alert_id'' = Some (JStr aid)" using st by (auto simp: stamp_def Let_def)
  show ?thesis
  proof (cases "re_sink env ''primary'' a")
    case (Inl e)
    then show ?thesis using assms by (auto simp: dispatch_alert_def st Let_def intro: recoverable_frame)
  next
    case (Inr k)
    let ?a = "update_all (dict_set a ''ack'' (JStr k)) [(''acked'', JBool False), (''resent'', JBool False), (''escalated'', JBool False)]"
    have i': "map_of ?a ''alert_id'' = Some (JStr aid)" using i by (simp add: update_all_def)
    show ?thesis
    proof (cases "length (filter (\<lambda>x. t - x < 3600) (rb_sent_times s)) \<ge> MAX_ALERTS_PER_HOUR \<and> pget alert ''severity'' \<noteq> JStr ''critical''")
      case True
      then show ?thesis using assms by (auto simp: dispatch_alert_def Let_def intro: recoverable_frame)
    next
      case False
      then show ?thesis
        unfolding dispatch_alert_def Let_def if_not_P [OF False] st prod.case Inr sum.case snd_conv
        by (intro recoverable_sent [OF assms i']) simp_all
    qed
  qed
qed

lemma escalate_one_recoverable: "recoverable s \<Longrightarrow> recoverable (snd (snd (escalate_one env t a s)))"
  by (auto simp: escalate_one_def Let_def intro: recoverable_update split: sum.splits option.splits prod.splits)

lemma escalate_recoverable: "recoverable s \<Longrightarrow> recoverable (snd (snd (escalate_alerts env t as s)))"
proof (induction as arbitrary: s)
  case (Cons a as)
  have "recoverable (snd (snd (escalate_one env t a s)))" by (rule escalate_one_recoverable [OF Cons.prems])
  then show ?case using Cons.IH by (fastforce split: prod.splits sum.splits)
qed simp

lemma rb_step_recoverable: "rb_step s s' \<Longrightarrow> recoverable s \<Longrightarrow> recoverable s'"
proof (induction rule: rb_step.induct)
  case (report s h body token cap args)
  then show ?case by (auto simp: write_incident_report_def Let_def intro: recoverable_frame)
next
  case (send s env other t t' uuid cap kind summary rec b)
  have "recoverable s'" if "dispatch_alert env t t' uuid x s = (r, s')" for x r s'
    using dispatch_recoverable [OF send, of env t t' uuid x] that by simp
  then show ?case using send by (auto simp: send_alert_def split: option.splits sum.splits prod.splits)
next
  case (system s env other t t' uuid who p)
  have "recoverable s'" if "dispatch_alert env t t' uuid x s = (r, s')" for x r s'
    using dispatch_recoverable [OF system, of env t t' uuid x] that by simp
  then show ?case using system by (auto simp: system_alert_def Let_def split: option.splits sum.splits prod.splits)
next
  case (acked s env t who aid)
  then show ?case by (auto simp: ack_def intro: recoverable_update split: option.splits jv.splits)
next
  case (tick s env t)
  then show ?case by (simp add: escalate_tick_def escalate_recoverable)
qed

text \<open>C25: the alerts survive a restart. After any sequence of reports, alerts, acknowledgements and
escalation ticks, whatever the sink and the audit client did, loading the log gives exactly the alerts in
memory with their acknowledgement, re-send and escalation marks.\<close>

theorem alerts_survive_restart:
  assumes "rb_step\<^sup>*\<^sup>* new_rbroker s"
  shows "load_alerts (rb_log s) = Inr (rb_alerts s)"
proof -
  have "recoverable s"
    using assms by (induction rule: rtranclp_induct) (auto simp: recoverable_def load_alerts_def new_rbroker_def dest: rb_step_recoverable [unfolded recoverable_def])
  then show ?thesis by (simp add: recoverable_def)
qed

definition ex_renv :: renv where
  "ex_renv = \<lparr>re_sink = (\<lambda>_ _. Inr ''k''), re_audit = (\<lambda>_. Inr ()), re_development = False, re_ack_window_s = 60\<rparr>"

definition ex_alerted :: rbroker where
  "ex_alerted = snd (system_alert ex_renv (\<lambda>_. []) 0 0 ''a1'' ''controller'' [(''severity'', JStr ''high''), (''title'', JStr ''down'')] new_rbroker)"

lemma ex_alerted_reach: "rb_step\<^sup>*\<^sup>* new_rbroker ex_alerted"
  unfolding ex_alerted_def by (rule r_into_rtranclp, rule rb_step.system)

theorem alerts_survive_restart_witness:
  "load_alerts (rb_log ex_alerted) = Inr (rb_alerts ex_alerted) \<and> map fst (rb_alerts ex_alerted) = [''a1'']"
proof
  show "load_alerts (rb_log ex_alerted) = Inr (rb_alerts ex_alerted)" by (rule alerts_survive_restart [OF ex_alerted_reach])
  show "map fst (rb_alerts ex_alerted) = [''a1'']" unfolding ex_alerted_def ex_renv_def new_rbroker_def by code_simp
qed

section \<open>Escalation\<close>

text \<open>The sink accepts and the audit client records everything.\<close>

definition healthy :: "renv \<Rightarrow> bool" where
  "healthy env = ((\<forall>target m. \<exists>k. re_sink env target m = Inr k) \<and> (\<forall>d. re_audit env d = Inr ()))"

definition wf_alert :: "string \<Rightarrow> params \<Rightarrow> bool" where
  "wf_alert k a =
     (map_of a ''alert_id'' = Some (JStr k) \<and> (\<exists>x. map_of a ''sent_ts'' = Some (JFloat x)) \<and>
      (\<exists>b. map_of a ''resent'' = Some (JBool b)) \<and>
      (map_of a ''resent_ts'' = None \<or> (\<exists>x. map_of a ''resent_ts'' = Some (JFloat x))))"

definition wf_alerts :: "rbroker \<Rightarrow> bool" where
  "wf_alerts s = (distinct (map fst (rb_alerts s)) \<and> (\<forall>(k, a) \<in> set (rb_alerts s). wf_alert k a))"

definition alert_step :: "rat \<Rightarrow> rat \<Rightarrow> params \<Rightarrow> params" where
  "alert_step w t a = (case due w t a of Inr (Some (_, _, upd)) \<Rightarrow> update_all a upd | _ \<Rightarrow> a)"

lemma due_total: "wf_alert k a \<Longrightarrow> \<exists>r. due w t a = Inr r"
  by (cases "due w t a") (auto simp: due_def wf_alert_def rbind_def pget_default_def split: if_splits)

lemma due_update:
  "due w t a = Inr (Some (target, prefix, upd)) \<Longrightarrow>
   target = ''primary'' \<and> upd = [(''resent'', JBool True), (''resent_ts'', JFloat t)] \<or>
   target = ''backup'' \<and> upd = [(''escalated'', JBool True), (''escalated_ts'', JFloat t)]"
  by (auto simp: due_def rbind_def split: if_splits sum.splits)

lemma wf_alert_step: "wf_alert k a \<Longrightarrow> wf_alert k (alert_step w t a)"
  by (auto simp: alert_step_def wf_alert_def update_all_def split: sum.splits option.splits prod.splits dest!: due_update)

lemma escalate_one_ok:
  assumes "healthy env" "wf_alert k a" "map_of (rb_alerts s) k = Some a"
  shows "\<exists>m s'. escalate_one env t a s = (m, Inr (), s') \<and>
    map_of (rb_alerts s') = (map_of (rb_alerts s))(k \<mapsto> alert_step (re_ack_window_s env) t a) \<and>
    map fst (rb_alerts s') = map fst (rb_alerts s) \<and>
    (\<forall>target prefix upd. due (re_ack_window_s env) t a = Inr (Some (target, prefix, upd)) \<longrightarrow> (target, retitled prefix a) \<in> set m)"
proof -
  obtain r where r: "due (re_ack_window_s env) t a = Inr r" using due_total [OF assms(2)] by blast
  have k: "str_of (pget a ''alert_id'') = k" using assms(2) by (simp add: wf_alert_def pget_def)
  show ?thesis
  proof (cases r)
    case None
    then show ?thesis using r assms(3) by (simp add: escalate_one_def alert_step_def fun_upd_idem)
  next
    case (Some x)
    obtain target prefix upd where x: "x = (target, prefix, upd)" by (cases x)
    obtain ak where ak: "re_sink env target (retitled prefix a) = Inr ak" using assms(1) unfolding healthy_def by blast
    have keys: "k \<in> fst ` set (rb_alerts s)" using assms(3) by (metis map_of_eq_None_iff option.distinct(1))
    show ?thesis
      using r Some x assms(1,3) keys ak
      by (auto simp: escalate_one_def alert_step_def healthy_def k log_update_def Let_def keys_dict_set)
  qed
qed

lemma escalate_alerts_ok:
  assumes "healthy env" "\<forall>(k, a) \<in> set kas. wf_alert k a \<and> map_of (rb_alerts s) k = Some a" "distinct (map fst kas)"
  shows "\<exists>m s'. escalate_alerts env t (map snd kas) s = (m, Inr (), s') \<and>
    (\<forall>k. map_of (rb_alerts s') k = (case map_of kas k of Some a \<Rightarrow> Some (alert_step (re_ack_window_s env) t a) | None \<Rightarrow> map_of (rb_alerts s) k)) \<and>
    map fst (rb_alerts s') = map fst (rb_alerts s) \<and>
    (\<forall>k a target prefix upd. map_of kas k = Some a \<longrightarrow> due (re_ack_window_s env) t a = Inr (Some (target, prefix, upd)) \<longrightarrow>
       (target, retitled prefix a) \<in> set m)"
  using assms(2,3)
proof (induction kas arbitrary: s)
  case (Cons ka kas)
  obtain k a where ka: "ka = (k, a)" by (cases ka)
  obtain m s1 where one: "escalate_one env t a s = (m, Inr (), s1)"
    "map_of (rb_alerts s1) = (map_of (rb_alerts s))(k \<mapsto> alert_step (re_ack_window_s env) t a)"
    "map fst (rb_alerts s1) = map fst (rb_alerts s)"
    "\<forall>target prefix upd. due (re_ack_window_s env) t a = Inr (Some (target, prefix, upd)) \<longrightarrow> (target, retitled prefix a) \<in> set m"
    using escalate_one_ok [OF assms(1), of k a s t] Cons.prems(1) ka by auto
  have "\<forall>(k', a') \<in> set kas. wf_alert k' a' \<and> map_of (rb_alerts s1) k' = Some a'"
    using Cons.prems ka one(2) by force
  from Cons.IH [OF this] Cons.prems(2) obtain m2 s2 where two: "escalate_alerts env t (map snd kas) s1 = (m2, Inr (), s2)"
    "\<forall>k. map_of (rb_alerts s2) k = (case map_of kas k of Some a \<Rightarrow> Some (alert_step (re_ack_window_s env) t a) | None \<Rightarrow> map_of (rb_alerts s1) k)"
    "map fst (rb_alerts s2) = map fst (rb_alerts s1)"
    "\<forall>k a target prefix upd. map_of kas k = Some a \<longrightarrow> due (re_ack_window_s env) t a = Inr (Some (target, prefix, upd)) \<longrightarrow>
       (target, retitled prefix a) \<in> set m2"
    by auto
  have k: "map_of kas k = None" using Cons.prems(2) ka by (simp add: map_of_eq_None_iff)
  show ?case
    using one two k ka by (intro exI [of _ "m @ m2"] exI [of _ s2]) (auto split: option.splits)
qed simp

lemma tick_ok:
  assumes "healthy env" "wf_alerts s"
  shows "\<exists>m s'. escalate_tick env t s = (m, Inr (), s') \<and> wf_alerts s' \<and>
    (\<forall>k. map_of (rb_alerts s') k = map_option (alert_step (re_ack_window_s env) t) (map_of (rb_alerts s) k)) \<and>
    (\<forall>k a target prefix upd. map_of (rb_alerts s) k = Some a \<longrightarrow> due (re_ack_window_s env) t a = Inr (Some (target, prefix, upd)) \<longrightarrow>
       (target, retitled prefix a) \<in> set m)"
proof -
  have d: "distinct (map fst (rb_alerts s))" and w: "\<forall>(k, a) \<in> set (rb_alerts s). wf_alert k a"
    using assms(2) by (auto simp: wf_alerts_def)
  then have "\<forall>(k, a) \<in> set (rb_alerts s). wf_alert k a \<and> map_of (rb_alerts s) k = Some a" by (auto simp: map_of_is_SomeI)
  from escalate_alerts_ok [OF assms(1) this d, of t] obtain m s' where e: "escalate_tick env t s = (m, Inr (), s')"
    "\<And>k. map_of (rb_alerts s') k = (case map_of (rb_alerts s) k of Some a \<Rightarrow> Some (alert_step (re_ack_window_s env) t a) | None \<Rightarrow> map_of (rb_alerts s) k)"
    "map fst (rb_alerts s') = map fst (rb_alerts s)"
    "\<forall>k a target prefix upd. map_of (rb_alerts s) k = Some a \<longrightarrow> due (re_ack_window_s env) t a = Inr (Some (target, prefix, upd)) \<longrightarrow>
       (target, retitled prefix a) \<in> set m"
    by (auto simp: escalate_tick_def)
  have m: "map_of (rb_alerts s') k = map_option (alert_step (re_ack_window_s env) t) (map_of (rb_alerts s) k)" for k
    using e(2) [of k] by (simp split: option.splits)
  have d': "distinct (map fst (rb_alerts s'))" using d e(3) by simp
  have "wf_alert k a" if "(k, a) \<in> set (rb_alerts s')" for k a
  proof -
    have "map_of (rb_alerts s') k = Some a" using that d' by simp
    then obtain a0 where "map_of (rb_alerts s) k = Some a0" "a = alert_step (re_ack_window_s env) t a0" using m [of k] by auto
    then show ?thesis using w by (auto dest!: map_of_SomeD intro: wf_alert_step)
  qed
  then have "wf_alerts s'" using d' by (auto simp: wf_alerts_def)
  with e(1,4) m show ?thesis by blast
qed

fun ticks :: "renv \<Rightarrow> rat list \<Rightarrow> rbroker \<Rightarrow> (string \<times> params) list \<times> rbroker" where
  "ticks env [] s = ([], s)"
| "ticks env (t # ts) s =
     (case escalate_tick env t s of (m, _, s') \<Rightarrow> (case ticks env ts s' of (m', s'') \<Rightarrow> (m @ m', s'')))"

lemma ticks_append:
  "ticks env (ts @ us) s = (case ticks env ts s of (m, s') \<Rightarrow> (case ticks env us s' of (m', s'') \<Rightarrow> (m @ m', s'')))"
  by (induction ts arbitrary: s) (auto split: prod.splits)

text \<open>Where an unacknowledged alert stands: the marks it has, with the messages that set them.\<close>

definition notified :: "string \<Rightarrow> string \<Rightarrow> (string \<times> params) list \<Rightarrow> bool" where
  "notified target k ms = (\<exists>m. (target, m) \<in> set ms \<and> pget m ''alert_id'' = JStr k)"

definition unacked :: "params \<Rightarrow> bool" where
  "unacked a = (truthy (pget a ''needs_ack'') \<and> \<not> truthy (pget a ''acked''))"

definition escalated :: "params \<Rightarrow> bool" where
  "escalated a = truthy (pget a ''escalated'')"

definition resent_by :: "rat \<Rightarrow> params \<Rightarrow> bool" where
  "resent_by t a = (\<not> escalated a \<and> map_of a ''resent'' = Some (JBool True) \<and> (\<exists>r \<le> t. map_of a ''resent_ts'' = Some (JFloat r)))"

definition fresh :: "rat \<Rightarrow> params \<Rightarrow> bool" where
  "fresh sent a = (\<not> escalated a \<and> map_of a ''resent'' = Some (JBool False) \<and> map_of a ''sent_ts'' = Some (JFloat sent))"

definition progress :: "rat \<Rightarrow> string \<Rightarrow> rat \<Rightarrow> params \<Rightarrow> (string \<times> params) list \<Rightarrow> bool" where
  "progress sent k t a ms =
     (wf_alert k a \<and> unacked a \<and>
      (escalated a \<and> notified ''primary'' k ms \<and> notified ''backup'' k ms \<or> resent_by t a \<and> notified ''primary'' k ms \<or> fresh sent a))"

lemma notified_mono: "notified x k ms \<Longrightarrow> notified x k (ms @ ms')"
  by (auto simp: notified_def)

lemma pget_retitled: "pget (retitled prefix a) ''alert_id'' = pget a ''alert_id''"
  by (simp add: retitled_def pget_def)

definition mark :: "string \<Rightarrow> string \<Rightarrow> rat \<Rightarrow> params \<Rightarrow> params" where
  "mark k kts t a = update_all a [(k, JBool True), (kts, JFloat t)]"

lemma due_escalated: "escalated a \<Longrightarrow> due w t a = Inr None"
  by (simp add: due_def escalated_def)

lemma due_fresh:
  "unacked a \<Longrightarrow> fresh sent a \<Longrightarrow>
   due w t a = Inr (if t - sent > w then Some (''primary'', ''RE-SENT (unacknowledged): '', [(''resent'', JBool True), (''resent_ts'', JFloat t)])
                    else None)"
  by (simp add: due_def unacked_def fresh_def escalated_def rbind_def)

lemma due_resent:
  "unacked a \<Longrightarrow> \<not> escalated a \<Longrightarrow> wf_alert k a \<Longrightarrow> map_of a ''resent'' = Some (JBool True) \<Longrightarrow> map_of a ''resent_ts'' = Some (JFloat r) \<Longrightarrow>
   due w t a = Inr (if t - r > w then Some (''backup'', ''ESCALATED to backup operator: '', [(''escalated'', JBool True), (''escalated_ts'', JFloat t)])
                    else None)"
  by (auto simp: due_def unacked_def escalated_def rbind_def wf_alert_def pget_default_def)

lemma mark_sel:
  "unacked (mark ''resent'' ''resent_ts'' t a) = unacked a" "unacked (mark ''escalated'' ''escalated_ts'' t a) = unacked a"
  "escalated (mark ''resent'' ''resent_ts'' t a) = escalated a" "escalated (mark ''escalated'' ''escalated_ts'' t a)"
  "map_of (mark ''resent'' ''resent_ts'' t a) ''resent'' = Some (JBool True)"
  "map_of (mark ''resent'' ''resent_ts'' t a) ''resent_ts'' = Some (JFloat t)"
  by (simp_all add: mark_def update_all_def unacked_def escalated_def pget_def)

lemma progress_cases:
  assumes "progress sent k t0 a ms" "t0 \<le> t"
  obtains (same) "alert_step w t a = a" "escalated a \<or> (resent_by t0 a \<and> (\<forall>r. map_of a ''resent_ts'' = Some (JFloat r) \<longrightarrow> \<not> t - r > w)) \<or>
      fresh sent a \<and> \<not> t - sent > w"
  | (resend) prefix upd where "fresh sent a" "alert_step w t a = mark ''resent'' ''resent_ts'' t a" "due w t a = Inr (Some (''primary'', prefix, upd))"
  | (escalate) prefix upd where "resent_by t0 a" "alert_step w t a = mark ''escalated'' ''escalated_ts'' t a"
      "due w t a = Inr (Some (''backup'', prefix, upd))" "notified ''primary'' k ms"
proof -
  have u: "unacked a" "wf_alert k a" using assms(1) by (auto simp: progress_def)
  consider (e) "escalated a" | (r) "resent_by t0 a" "notified ''primary'' k ms" | (f) "fresh sent a" using assms(1) by (auto simp: progress_def)
  then show ?thesis
  proof cases
    case e
    then show ?thesis by (intro same) (simp_all add: alert_step_def due_escalated)
  next
    case r
    then obtain x where x: "\<not> escalated a" "map_of a ''resent'' = Some (JBool True)" "map_of a ''resent_ts'' = Some (JFloat x)"
      by (auto simp: resent_by_def)
    note d = due_resent [OF u(1) x(1) u(2) x(2,3), of w t]
    show ?thesis
      using r x(3) d by (cases "t - x > w") (auto simp: alert_step_def mark_def intro: same escalate)
  next
    case f
    note d = due_fresh [OF u(1) f, of w t]
    show ?thesis
      using f d by (cases "t - sent > w") (auto simp: alert_step_def mark_def intro: same resend)
  qed
qed

lemma notified_send:
  assumes "wf_alert k a" "(target, retitled prefix a) \<in> set ms'"
  shows "notified target k (ms @ ms')"
proof -
  have "pget (retitled prefix a) ''alert_id'' = JStr k" using assms(1) unfolding pget_retitled by (simp add: wf_alert_def pget_def)
  with assms(2) show ?thesis unfolding notified_def by auto
qed

lemma progress_step:
  assumes p: "progress sent k t0 a ms" "t0 \<le> t"
    and snd: "\<And>target prefix upd. due w t a = Inr (Some (target, prefix, upd)) \<Longrightarrow> (target, retitled prefix a) \<in> set ms'"
  shows "progress sent k t (alert_step w t a) (ms @ ms')"
proof -
  have wf: "wf_alert k (alert_step w t a)" "wf_alert k a" and u: "unacked a" using p(1) by (auto simp: progress_def wf_alert_step)
  from p show ?thesis
  proof (cases rule: progress_cases [where w = w])
    case same
    have "resent_by t0 a \<Longrightarrow> resent_by t a" using p(2) by (auto simp: resent_by_def)
    then show ?thesis using p(1) same(1) by (auto simp: progress_def intro: notified_mono)
  next
    case (resend prefix upd)
    have "notified ''primary'' k (ms @ ms')" by (rule notified_send [OF wf(2) snd [OF resend(3)]])
    moreover have "resent_by t (alert_step w t a)" using resend(1,2) by (auto simp: resent_by_def fresh_def mark_sel)
    ultimately show ?thesis using wf u resend(2) by (simp add: progress_def mark_sel)
  next
    case (escalate prefix upd)
    have "notified ''backup'' k (ms @ ms')" by (rule notified_send [OF wf(2) snd [OF escalate(3)]])
    then show ?thesis using wf u escalate(2,4) by (simp add: progress_def mark_sel notified_mono)
  qed
qed

text \<open>Past its deadline an alert moves on; a mark stays.\<close>

definition moved :: "rat \<Rightarrow> params \<Rightarrow> bool" where
  "moved r a = (escalated a \<or> resent_by r a)"

lemma moved_step:
  assumes "progress sent k t0 a ms" "t0 \<le> t"
  shows "t - sent > w \<Longrightarrow> moved t (alert_step w t a)"
    and "moved r a \<Longrightarrow> moved r (alert_step w t a)"
    and "moved r a \<Longrightarrow> t - r > w \<Longrightarrow> escalated (alert_step w t a)"
    and "escalated a \<Longrightarrow> escalated (alert_step w t a)"
proof -
  have e: "escalated a \<Longrightarrow> alert_step w t a = a" by (simp add: alert_step_def due_escalated)
  have nf: "\<not> fresh sent a" if "moved r a" for r using that by (auto simp: moved_def fresh_def resent_by_def)
  show "moved t (alert_step w t a)" if "t - sent > w"
    using assms
  proof (cases rule: progress_cases [where w = w])
    case same
    then show ?thesis using that assms(2) by (auto simp: moved_def resent_by_def)
  qed (auto simp: moved_def resent_by_def mark_sel fresh_def)
  show "moved r (alert_step w t a)" if "moved r a"
    using assms by (cases rule: progress_cases [where w = w]) (use that nf [OF that] in \<open>auto simp: moved_def mark_sel\<close>)
  show "escalated (alert_step w t a)" if mv: "moved r a" "t - r > w"
    using assms
  proof (cases rule: progress_cases [where w = w])
    case same
    show ?thesis
    proof (cases "escalated a")
      case False
      then obtain x where "x \<le> r" "map_of a ''resent_ts'' = Some (JFloat x)" using mv(1) by (auto simp: moved_def resent_by_def)
      moreover have "t - x > w" using mv(2) \<open>x \<le> r\<close> by linarith
      ultimately show ?thesis using same(2) False nf [OF mv(1)] by auto
    qed (simp add: e)
  qed (use nf [OF mv(1)] in \<open>auto simp: mark_sel\<close>)
  show "escalated (alert_step w t a)" if "escalated a" using that e by simp
qed

lemma ticks_progress:
  assumes "healthy env" "wf_alerts s" "map_of (rb_alerts s) k = Some a" "progress sent k t0 a ms" "sorted (t0 # ts)"
  shows "\<exists>m s' a'. ticks env ts s = (m, s') \<and> wf_alerts s' \<and> map_of (rb_alerts s') k = Some a' \<and>
    progress sent k (last (t0 # ts)) a' (ms @ m) \<and> a' = fold (alert_step (re_ack_window_s env)) ts a"
  using assms(2-5)
proof (induction ts arbitrary: s a ms t0)
  case (Cons t ts)
  obtain m s1 where tick: "escalate_tick env t s = (m, Inr (), s1)" "wf_alerts s1"
    "map_of (rb_alerts s1) k = map_option (alert_step (re_ack_window_s env) t) (map_of (rb_alerts s) k)"
    "\<And>target prefix upd. due (re_ack_window_s env) t a = Inr (Some (target, prefix, upd)) \<Longrightarrow> (target, retitled prefix a) \<in> set m"
    using tick_ok [OF assms(1) Cons.prems(1), of t] Cons.prems(2) by blast
  let ?a = "alert_step (re_ack_window_s env) t a"
  have p: "progress sent k t ?a (ms @ m)" using Cons.prems(4) by (intro progress_step [OF Cons.prems(3) _ tick(4)]) simp_all
  have "map_of (rb_alerts s1) k = Some ?a" "sorted (t # ts)" using tick(3) Cons.prems(2,4) by simp_all
  from Cons.IH [OF tick(2) this(1) p this(2)] show ?case by (auto simp: tick(1))
qed (auto)

lemma moved_stays: "moved r a \<Longrightarrow> moved r (alert_step w t a)" "escalated a \<Longrightarrow> escalated (alert_step w t a)"
proof -
  show e: "escalated (alert_step w t a)" if "escalated a" using that by (simp add: alert_step_def due_escalated)
  show "moved r (alert_step w t a)" if m: "moved r a"
  proof (cases "\<exists>target prefix upd. due w t a = Inr (Some (target, prefix, upd))")
    case True
    then obtain target prefix upd where d: "due w t a = Inr (Some (target, prefix, upd))" by blast
    have "target \<noteq> ''primary''" if "map_of a ''resent'' = Some (JBool True)"
      using d that by (auto simp: due_def rbind_def split: if_splits sum.splits)
    then show ?thesis
      using m d due_update [OF d] e by (auto simp: moved_def alert_step_def resent_by_def escalated_def pget_def update_all_def)
  next
    case False
    then have "alert_step w t a = a" by (auto simp: alert_step_def split: sum.splits option.splits)
    with m show ?thesis by simp
  qed
qed

lemma fold_moved:
  "moved r a \<Longrightarrow> moved r (fold (alert_step w) ts a)" "escalated a \<Longrightarrow> escalated (fold (alert_step w) ts a)"
  by (induction ts arbitrary: a) (auto simp: moved_stays)


definition ex_pending :: rbroker where
  "ex_pending = new_rbroker\<lparr>rb_alerts := [(''a1'', [(''kind'', JStr ''system''), (''alert_id'', JStr ''a1''), (''sent_ts'', JFloat 0),
     (''needs_ack'', JBool True), (''acked'', JBool False), (''resent'', JBool False), (''escalated'', JBool False)])]\<rparr>"


end
