(* ===== verification/Verifier_Rules.thy ===== *)
theory Verifier_Rules
  imports Bundle_View
begin

text \<open>
  \<^verbatim>\<open>valops/verifier/rules.py\<close>: the declarative recovery predicates, their validation when a bundle is
  built and their evaluation on samples.
\<close>

section \<open>Comparison of values\<close>

text \<open>Python's \<^verbatim>\<open><\<close>; None is the \<^verbatim>\<open>TypeError\<close> of values without an order.\<close>

function py_lt :: "jv \<Rightarrow> jv \<Rightarrow> bool option" where
  "py_lt a b =
     (case (num_of a, num_of b) of
        (Some x, Some y) \<Rightarrow> Some (x < y)
      | _ \<Rightarrow>
          (case (a, b) of
             (JStr s, JStr u) \<Rightarrow> Some (s < u)
           | (JArr xs, JArr ys) \<Rightarrow>
               (case (xs, ys) of
                  ([], ys) \<Rightarrow> Some (ys \<noteq> [])
                | (x # xs', []) \<Rightarrow> Some False
                | (x # xs', y # ys') \<Rightarrow> if py_eq x y then py_lt (JArr xs') (JArr ys') else py_lt x y)
           | _ \<Rightarrow> None))"
  by pat_completeness auto
termination by (relation "measure (size \<circ> fst)") auto

declare py_lt.simps [simp del]

definition py_le :: "jv \<Rightarrow> jv \<Rightarrow> bool option" where
  "py_le a b = map_option (\<lambda>l. l \<or> py_eq a b) (py_lt a b)"

definition py_in :: "jv \<Rightarrow> jv \<Rightarrow> bool option" where
  "py_in a b =
     (case b of
        JArr xs \<Rightarrow> Some (list_ex (py_eq a) xs)
      | JStr s \<Rightarrow> (case a of JStr u \<Rightarrow> Some (substring u s) | _ \<Rightarrow> None)
      | JObj d \<Rightarrow> if hashable a then Some (is_str a \<and> list_ex (\<lambda>(k, v). k = str_of a) d) else None
      | _ \<Rightarrow> None)"

definition OPS :: "(string \<times> (jv \<Rightarrow> jv \<Rightarrow> bool option)) list" where
  "OPS = [(''lt'', py_lt), (''le'', py_le), (''gt'', \<lambda>a b. py_lt b a), (''ge'', \<lambda>a b. py_le b a),
          (''eq'', \<lambda>a b. Some (py_eq a b)), (''ne'', \<lambda>a b. Some (\<not> py_eq a b)), (''in'', py_in)]"

definition RULE_CLASSES :: "string list" where
  "RULE_CLASSES = [''validator_health'', ''telemetry_health'']"

definition RuleError :: exn where "RuleError = PyError ''RuleError''"

section \<open>Validation\<close>

lemma map_of_size: "map_of d k = Some v \<Longrightarrow> size v < size (JObj d)"
proof -
  assume "map_of d k = Some v"
  then have "(k, v) \<in> set d" by (rule map_of_SomeD)
  then have "size v \<le> size_list (size_prod (\<lambda>_. 0) size) d" by (rule size_list_estimation') simp
  then show ?thesis by simp
qed

lemma arr_elem_size: "x \<in> set xs \<Longrightarrow> size x < size (JArr xs)"
  by (simp add: less_Suc_eq_le size_list_estimation')

lemma sub_pred_size: "map_of d k = Some (JArr ps) \<Longrightarrow> p \<in> set ps \<Longrightarrow> size p < size (JObj d)"
  using map_of_size [of d k "JArr ps"] arr_elem_size [of p ps] by linarith

fun all_units :: "unit result list \<Rightarrow> unit result" where
  "all_units [] = Inr ()"
| "all_units (r # rs) = rbind r (\<lambda>_. all_units rs)"

definition keys_are :: "params \<Rightarrow> string list \<Rightarrow> bool" where
  "keys_are d ks = (set (map fst d) = set ks)"

function validate_pred :: "jv \<Rightarrow> unit result" where
  "validate_pred p =
     (case p of
        JObj d \<Rightarrow>
          if d = [] then Inl RuleError
          else if has_key d ''all_of'' \<or> has_key d ''any_of'' then
            (let key = (if has_key d ''all_of'' then ''all_of'' else ''any_of'') in
             case map_of d key of
               Some (JArr ps) \<Rightarrow> if \<not> keys_are d [key] \<or> ps = [] then Inl RuleError else all_units (map validate_pred ps)
             | _ \<Rightarrow> Inl RuleError)
          else if \<not> keys_are d [''field'', ''op'', ''value''] then Inl RuleError
          else if \<not> hashable (pget d ''op'') then Inl (PyError ''TypeError'')
          else if \<not> (\<exists>s \<in> fst ` set OPS. pget d ''op'' = JStr s) then Inl RuleError
          else (case pget d ''field'' of
                  JStr f \<Rightarrow> if CHR ''.'' \<in> set f then Inr () else Inl RuleError
                | _ \<Rightarrow> Inl RuleError)
      | _ \<Rightarrow> Inl RuleError)"
  by pat_completeness auto
termination by (relation "measure size") (auto simp del: jv.size dest: sub_pred_size)

declare validate_pred.simps [simp del]

definition all_fields :: "string list result list \<Rightarrow> string list result" where
  "all_fields rs = foldr (\<lambda>r acc. rbind r (\<lambda>x. rbind acc (\<lambda>xs. Inr (x @ xs)))) rs (Inr [])"

text \<open>
  \<^verbatim>\<open>p.get("all_of", p.get("any_of", []))\<close>; iterating over an empty string or dictionary finds nothing,
  and the characters or keys of another are no predicates.
\<close>

definition empty_iterable :: "jv \<Rightarrow> bool" where
  "empty_iterable v = (v = JStr [] \<or> v = JObj [])"

function pred_fields :: "jv \<Rightarrow> string list result" where
  "pred_fields p =
     (case p of
        JObj d \<Rightarrow>
          (case (case map_of d ''all_of'' of Some v \<Rightarrow> Some v | None \<Rightarrow> map_of d ''any_of'') of
             Some (JArr ps) \<Rightarrow> all_fields (map pred_fields ps)
           | Some v \<Rightarrow> if empty_iterable v then Inr [] else Inl (PyError ''TypeError'')
           | None \<Rightarrow> rbind (rbind (getitem (JObj d) ''field'') as_str) (\<lambda>f. Inr [f]))
      | _ \<Rightarrow> Inl (PyError ''TypeError''))"
  by pat_completeness auto
termination
  by (relation "measure size") (auto simp del: jv.size dest: sub_pred_size split: option.splits)

declare pred_fields.simps [simp del]

definition before_dot :: "string \<Rightarrow> string" where
  "before_dot f = takeWhile (\<lambda>c. c \<noteq> CHR ''.'') f"

definition validate_rule :: "jv \<Rightarrow> unit result" where
  "validate_rule rule =
     rbind (as_dict rule) (\<lambda>d.
       if \<not> list_all (has_key d) [''id'', ''applies_to'', ''samples'', ''predicate'', ''window''] then Inl RuleError
       else
         rbind (attr_get (pget d ''applies_to'') ''class'') (\<lambda>c.
           if \<not> (is_str c \<and> str_of c \<in> set RULE_CLASSES) then Inl RuleError
           else case pget d ''samples'' of
               JArr (s # ss) \<Rightarrow>
                 rbind (validate_pred (pget d ''predicate'')) (\<lambda>_.
                 rbind (pred_fields (pget d ''predicate'')) (\<lambda>fs.
                   if list_all (\<lambda>f. JStr (before_dot f) \<in> set (s # ss) \<or> starts_with ''telemetry.'' f) fs then Inr () else Inl RuleError))
             | _ \<Rightarrow> Inl RuleError))"

section \<open>Evaluation\<close>

type_synonym param_fn = "jv \<Rightarrow> jv \<Rightarrow> jv result"

definition resolve :: "jv \<Rightarrow> param_fn \<Rightarrow> jv result" where
  "resolve v prm =
     (case v of
        JObj d \<Rightarrow> (case map_of d ''param'' of Some pid \<Rightarrow> prm pid (pget d ''key'') | None \<Rightarrow> Inr v)
      | _ \<Rightarrow> Inr v)"

fun split_dots :: "string \<Rightarrow> string \<Rightarrow> string list" where
  "split_dots acc [] = [rev acc]"
| "split_dots acc (c # cs) = (if c = CHR ''.'' then rev acc # split_dots [] cs else split_dots (c # acc) cs)"

fun walk_path :: "jv \<Rightarrow> string list \<Rightarrow> jv option" where
  "walk_path cur [] = Some cur"
| "walk_path cur (part # parts) =
     (case cur of
        JObj d \<Rightarrow> (case map_of d part of Some v \<Rightarrow> walk_path v parts | None \<Rightarrow> None)
      | _ \<Rightarrow> None)"

definition get_path :: "params \<Rightarrow> string \<Rightarrow> jv option" where
  "get_path sample path = walk_path (JObj sample) (split_dots [] path)"

definition leaf :: "param_fn \<Rightarrow> params \<Rightarrow> params \<Rightarrow> bool result" where
  "leaf prm sample d =
     (case map_of d ''field'' of
        None \<Rightarrow> Inr False
      | Some fv \<Rightarrow>
     rbind (case fv of JStr f \<Rightarrow> Inr f | _ \<Rightarrow> Inl (PyError ''AttributeError'')) (\<lambda>f.
       case get_path sample f of
         None \<Rightarrow> Inr False
       | Some actual \<Rightarrow>
           (case rbind (getitem (JObj d) ''op'') (\<lambda>op.
                   rbind (if hashable op then (case map_of OPS (str_of op) of Some g \<Rightarrow> if is_str op then Inr g else Inl (PyError ''KeyError'')
                                               | None \<Rightarrow> Inl (PyError ''KeyError''))
                          else Inl (PyError ''TypeError'')) (\<lambda>g.
                   rbind (getitem (JObj d) ''value'') (\<lambda>v.
                   rbind (resolve v prm) (\<lambda>w.
                     case g actual w of None \<Rightarrow> Inl (PyError ''TypeError'') | Some b \<Rightarrow> Inr b)))) of
              Inr b \<Rightarrow> Inr b
            | Inl e \<Rightarrow> if e = PyError ''TypeError'' then Inr False else Inl e)))"

fun all_true :: "bool result list \<Rightarrow> bool result" where
  "all_true [] = Inr True"
| "all_true (r # rs) = rbind r (\<lambda>b. if b then all_true rs else Inr False)"

fun any_true :: "bool result list \<Rightarrow> bool result" where
  "any_true [] = Inr False"
| "any_true (r # rs) = rbind r (\<lambda>b. if b then Inr True else any_true rs)"

function evaluate :: "param_fn \<Rightarrow> params \<Rightarrow> jv \<Rightarrow> bool result" where
  "evaluate prm sample pred =
     (case pred of
        JObj d \<Rightarrow>
          (case map_of d ''all_of'' of
             Some (JArr ps) \<Rightarrow> all_true (map (evaluate prm sample) ps)
           | Some v \<Rightarrow> if empty_iterable v then Inr True else Inl (PyError ''TypeError'')
           | None \<Rightarrow>
               (case map_of d ''any_of'' of
                  Some (JArr ps) \<Rightarrow> any_true (map (evaluate prm sample) ps)
                | Some v \<Rightarrow> if empty_iterable v then Inr False else Inl (PyError ''TypeError'')
                | None \<Rightarrow> leaf prm sample d))
      | _ \<Rightarrow> Inl (PyError ''TypeError''))"
  by pat_completeness auto
termination by (relation "measure (\<lambda>(_, _, p). size p)") (auto simp del: jv.size dest: sub_pred_size)

declare evaluate.simps [simp del]

definition window :: "jv \<Rightarrow> param_fn \<Rightarrow> int result" where
  "window rule prm = rbind (rbind (rbind (getitem rule ''window'') (\<lambda>v. resolve v prm)) py_int) Inr"

section \<open>Missing data\<close>

lemma all_true_Inr: "all_true rs = Inr True \<longleftrightarrow> (\<forall>r \<in> set rs. r = Inr True)"
  by (induction rs) (auto simp: rbind_def split: sum.splits if_splits)

lemma any_true_Inr: "any_true rs = Inr True \<Longrightarrow> \<exists>r \<in> set rs. r = Inr True"
  by (induction rs) (auto simp: rbind_def split: sum.splits if_splits)

text \<open>
  A predicate that holds rests on data: every conjunct of an \<^verbatim>\<open>all_of\<close> and some alternative of an
  \<^verbatim>\<open>any_of\<close> has a leaf whose field is in the sample; with an empty sample nothing but empty
  conjunctions holds, and those a validated rule does not have.
\<close>

lemma validate_pred_parts:
  assumes "validate_pred (JObj d) = Inr ()" "map_of d key = Some v" "key = ''all_of'' \<or> key = ''any_of'' \<and> \<not> has_key d ''all_of''"
  obtains ps where "v = JArr ps" "ps \<noteq> []" "\<And>q. q \<in> set ps \<Longrightarrow> validate_pred q = Inr ()"
proof -
  have one: "validate_pred q = Inr ()" if "all_units (map validate_pred ps) = Inr ()" "q \<in> set ps" for q ps
    using that by (induction ps) (auto simp: rbind_def split: sum.splits)
  have "has_key d key" using assms(2) by (auto simp: has_key_def)
  then have "case v of JArr ps \<Rightarrow> ps \<noteq> [] \<and> all_units (map validate_pred ps) = Inr () | _ \<Rightarrow> False"
    using assms by (cases v) (auto simp: validate_pred.simps [of "JObj d"] Let_def split: if_splits)
  then show ?thesis using that one by (cases v) auto
qed

lemma evaluate_needs_data:
  "validate_pred p = Inr () \<Longrightarrow> evaluate prm sample p = Inr True \<Longrightarrow> \<exists>f v. get_path sample f = Some v"
proof (induction p rule: measure_induct_rule [of size])
  case (less p)
  obtain d where p: "p = JObj d" using less.prems(1) by (cases p) (simp_all add: validate_pred.simps)
  have valid: "validate_pred (JObj d) = Inr ()" using less.prems(1) p by simp
  consider (all) v where "map_of d ''all_of'' = Some v" | (any) v where "\<not> has_key d ''all_of''" "map_of d ''any_of'' = Some v"
    | (leaf) "map_of d ''all_of'' = None" "map_of d ''any_of'' = None"
    by (cases "map_of d ''all_of''"; cases "map_of d ''any_of''") (auto simp: has_key_def)
  then show ?case
  proof cases
    case all
    obtain ps where ps: "v = JArr ps" "ps \<noteq> []" "\<And>q. q \<in> set ps \<Longrightarrow> validate_pred q = Inr ()"
      by (rule validate_pred_parts [OF valid all]) simp_all
    then obtain q where q: "q \<in> set ps" by (cases ps) auto
    then have "evaluate prm sample q = Inr True"
      using less.prems(2) all ps(1) by (simp add: p evaluate.simps [of _ _ "JObj d"] all_true_Inr)
    then show ?thesis using less.IH [OF _ ps(3) [OF q]] sub_pred_size [OF all [unfolded ps(1)] q] p by simp
  next
    case any
    obtain ps where ps: "v = JArr ps" "\<And>q. q \<in> set ps \<Longrightarrow> validate_pred q = Inr ()"
      by (rule validate_pred_parts [OF valid any(2)]) (simp_all add: any(1))
    have "any_true (map (evaluate prm sample) ps) = Inr True"
      using less.prems(2) any ps(1) by (simp add: p evaluate.simps [of _ _ "JObj d"] has_key_def)
    then obtain q where q: "q \<in> set ps" "evaluate prm sample q = Inr True" by (auto dest!: any_true_Inr)
    show ?thesis using less.IH [OF _ ps(2) [OF q(1)] q(2)] sub_pred_size [OF any(2) [unfolded ps(1)] q(1)] p by simp
  next
    case leaf
    then have "leaf prm sample d = Inr True" using less.prems(2) by (simp add: p evaluate.simps [of _ _ "JObj d"])
    then show ?thesis by (auto simp: leaf_def rbind_def split: sum.splits option.splits)
  qed
qed

end
