(* ===== verification/Consensus.thy ===== *)
theory Consensus
  imports Providers Verifier_Rules
begin

text \<open>
  \<^verbatim>\<open>valops/consensus.py\<close>: the declared consensus mode checked against the running version, the
  cluster feature state and the consensus state files. A sample is the JSON value that the
  observer broker returned, or \<^verbatim>\<open>None\<close>; what an input implies is a mode or \<^verbatim>\<open>None\<close>.
\<close>

section \<open>The version\<close>

fun ints_of :: "string list \<Rightarrow> int list result" where
  "ints_of [] = Inr []"
| "ints_of (x # xs) =
     rbind (case int_text x of None \<Rightarrow> Inl (PyError ''ValueError'') | Some n \<Rightarrow> Inr n) (\<lambda>n.
     rbind (ints_of xs) (\<lambda>ns. Inr (n # ns)))"

definition vtuple :: "jv \<Rightarrow> int list result" where
  "vtuple v = (case v of JStr s \<Rightarrow> ints_of (split_dots [] s) | _ \<Rightarrow> Inl (PyError ''AttributeError''))"

text \<open>\<^verbatim>\<open>_vtuple(r[k]) if r.get(k) else default\<close>; tuples are compared lexicographically.\<close>

definition version_bound :: "jv \<Rightarrow> string \<Rightarrow> int list \<Rightarrow> int list result" where
  "version_bound r k dflt = rbind (attr_get r k) (\<lambda>v. if truthy v then vtuple v else Inr dflt)"

fun modes_for :: "int list \<Rightarrow> params \<Rightarrow> string list result" where
  "modes_for v [] = Inr []"
| "modes_for v ((mode, r) # support) =
     rbind (version_bound r ''min'' [0]) (\<lambda>lo.
     rbind (version_bound r ''max'' [10 ^ 9]) (\<lambda>hi.
     rbind (modes_for v support) (\<lambda>ms.
       Inr (if lo \<le> v \<and> v \<le> hi then mode # ms else ms))))"

definition version_mode :: "jv \<Rightarrow> jv \<Rightarrow> jv result" where
  "version_mode version support =
     (if \<not> truthy version then Inr JNull
      else case vtuple version of
          Inl e \<Rightarrow> if e = PyError ''ValueError'' then Inr JNull else Inl e
        | Inr v \<Rightarrow>
            rbind (as_dict_or_empty support) (\<lambda>d.
            rbind (modes_for v d) (\<lambda>ms.
              Inr (case ms of [m] \<Rightarrow> JStr m | _ \<Rightarrow> JNull))))"

section \<open>Files and feature state\<close>

definition files_mode :: "jv \<Rightarrow> jv result" where
  "files_mode files =
     (if \<not> truthy files then Inr JNull
      else
        rbind (attr_get files ''status'') (\<lambda>st.
        if st \<noteq> JNull \<and> st \<noteq> JStr ''ok'' then Inr JNull
        else
          rbind (attr_get files ''structured'') (\<lambda>x.
          let s = (if truthy x then x else files) in
          rbind (attr_get s ''tower'') (\<lambda>t.
          rbind (attr_get s ''vote_history'') (\<lambda>h.
            Inr (if truthy t \<and> \<not> truthy h then JStr ''tower''
                 else if truthy h \<and> \<not> truthy t then JStr ''alpenglow''
                 else JNull))))))"

text \<open>\<^verbatim>\<open>(v or {}).get(k)\<close>\<close>

definition or_empty_get :: "jv \<Rightarrow> string \<Rightarrow> jv result" where
  "or_empty_get v k = rbind (as_dict_or_empty v) (\<lambda>d. Inr (pget d k))"

definition feature_mode :: "jv \<Rightarrow> jv result" where
  "feature_mode feature =
     (if \<not> truthy feature then Inr JNull
      else
        rbind (attr_get feature ''status'') (\<lambda>st.
        if st \<noteq> JStr ''ok'' then Inr JNull
        else rbind (attr_get feature ''structured'') (\<lambda>x. or_empty_get x ''mode'')))"

section \<open>The decision\<close>

record observed =
  ob_version :: jv
  ob_feature :: jv
  ob_files :: jv

definition observed_list :: "observed \<Rightarrow> (string \<times> jv) list" where
  "observed_list ob = [(''feature_state'', ob_feature ob), (''files'', ob_files ob), (''version'', ob_version ob)]"

definition disagreeing :: "jv \<Rightarrow> observed \<Rightarrow> string list" where
  "disagreeing declared ob = map fst (filter (\<lambda>(k, v). \<not> py_eq v declared) (observed_list ob))"

definition evidence_of :: "jv \<Rightarrow> jv \<Rightarrow> jv \<Rightarrow> jv \<Rightarrow> observed \<Rightarrow> params" where
  "evidence_of declared ver fstatus files ob =
     [(''declared'', declared),
      (''version'', JObj [(''running'', ver), (''implies'', ob_version ob)]),
      (''feature_state'', JObj [(''status'', fstatus), (''implies'', ob_feature ob)]),
      (''files'', JObj [(''observed'', files), (''implies'', ob_files ob)])]"

definition determine :: "jv \<Rightarrow> jv \<Rightarrow> jv \<Rightarrow> jv \<Rightarrow> jv \<Rightarrow> (jv \<times> params) result" where
  "determine declared running_version feature_state state_files support =
     rbind (rbind (or_empty_get running_version ''structured'') (\<lambda>s. or_empty_get s ''version'')) (\<lambda>ver.
     rbind (version_mode ver support) (\<lambda>vm.
     rbind (feature_mode feature_state) (\<lambda>fm.
     rbind (files_mode state_files) (\<lambda>sm.
     rbind (as_dict_or_empty feature_state) (\<lambda>fd.
     rbind (or_empty_get state_files ''structured'') (\<lambda>fo.
       let ob = \<lparr>ob_version = vm, ob_feature = fm, ob_files = sm\<rparr>;
           ev = evidence_of declared ver (pget_default fd ''status'' (JStr ''unavailable'')) fo ob;
           bad = disagreeing declared ob;
           mode = (if bad = [] then declared else JStr ''unknown'') in
       Inr (mode, ev @ [(''result'', mode)] @
         (if bad = [] then [] else [(''disagreeing_inputs'', JArr (map JStr bad))]))))))))"

section \<open>What an agreed mode rests on\<close>

definition supported_only :: "jv \<Rightarrow> jv \<Rightarrow> string \<Rightarrow> bool" where
  "supported_only version support m =
     (\<exists>v d. vtuple version = Inr v \<and> as_dict_or_empty support = Inr d \<and> modes_for v d = Inr [m])"

lemma version_mode_Some:
  assumes "version_mode version support = Inr (JStr m)"
  shows "supported_only version support m"
  using assms by (auto simp: version_mode_def supported_only_def rbind_def split: if_splits sum.splits list.splits)

lemma files_mode_Some:
  assumes "files_mode files = Inr (JStr m)"
  shows "\<exists>d s. files = JObj d \<and> (s = d \<or> pget d ''structured'' = JObj s) \<and> (pget d ''status'' = JNull \<or> pget d ''status'' = JStr ''ok'') \<and>
    (m = ''tower'' \<and> truthy (pget s ''tower'') \<and> \<not> truthy (pget s ''vote_history'') \<or>
     m = ''alpenglow'' \<and> truthy (pget s ''vote_history'') \<and> \<not> truthy (pget s ''tower''))"
proof -
  obtain d where d: "files = JObj d" using assms by (cases files) (auto simp: files_mode_def split: if_splits)
  define x where "x = (if truthy (pget d ''structured'') then pget d ''structured'' else JObj d)"
  have st: "pget d ''status'' = JNull \<or> pget d ''status'' = JStr ''ok''"
    using assms unfolding files_mode_def d by (simp split: if_splits)
  have x: "rbind (attr_get x ''tower'') (\<lambda>t. rbind (attr_get x ''vote_history'') (\<lambda>h.
      Inr (if truthy t \<and> \<not> truthy h then JStr ''tower'' else if truthy h \<and> \<not> truthy t then JStr ''alpenglow'' else JNull))) = Inr (JStr m)"
    using assms st unfolding files_mode_def d x_def Let_def by (simp add: rbind_def split: if_splits)
  then obtain s where s: "x = JObj s" by (cases x) simp_all
  have "m = ''tower'' \<and> truthy (pget s ''tower'') \<and> \<not> truthy (pget s ''vote_history'') \<or>
     m = ''alpenglow'' \<and> truthy (pget s ''vote_history'') \<and> \<not> truthy (pget s ''tower'')"
    using x by (simp add: s split: if_splits)
  moreover have "s = d \<or> pget d ''structured'' = JObj s" using s by (simp add: x_def split: if_splits)
  ultimately show ?thesis using d st by blast
qed

lemma feature_mode_Some:
  assumes "feature_mode feature = Inr (JStr m)"
  shows "\<exists>d s. feature = JObj d \<and> pget d ''status'' = JStr ''ok'' \<and> pget d ''structured'' = JObj s \<and> pget s ''mode'' = JStr m"
proof -
  obtain d where d: "feature = JObj d" using assms by (cases feature) (auto simp: feature_mode_def split: if_splits)
  then show ?thesis
    using assms
    by (auto simp: feature_mode_def rbind_def or_empty_get_def as_dict_or_empty_def pget_def split: if_splits jv.splits sum.splits option.splits)
qed

lemma py_eq_JStr: "py_eq v (JStr s) \<longleftrightarrow> v = JStr s"
  by (cases v) auto

end
