(* ===== verification/Sentinel_Checks.thy ===== *)
theory Sentinel_Checks
  imports Consensus
begin

text \<open>
  \<^verbatim>\<open>valops/sentinel/checks.py\<close>: the rules that turn samples into findings. The parameter \<open>txt\<close> is
  the text of a value in an f-string. The counter of consecutive breaches is passed along; it
  keeps its new value when a later rule raises.
\<close>

section \<open>Findings and counters\<close>

record finding =
  fi_cls :: string
  fi_check :: string
  fi_severity :: string
  fi_detail :: string
  fi_command_ids :: "string list"

definition health_finding :: "string \<Rightarrow> string \<Rightarrow> string \<Rightarrow> string list \<Rightarrow> finding" where
  "health_finding chk sev detail cids = \<lparr>fi_cls = ''validator_health'', fi_check = chk, fi_severity = sev, fi_detail = detail, fi_command_ids = cids\<rparr>"

definition telemetry_finding :: "string \<Rightarrow> string \<Rightarrow> string \<Rightarrow> finding" where
  "telemetry_finding chk sev detail = \<lparr>fi_cls = ''telemetry_health'', fi_check = chk, fi_severity = sev, fi_detail = detail, fi_command_ids = []\<rparr>"

definition ok_sample :: "jv \<Rightarrow> params option result" where
  "ok_sample s =
     (if \<not> truthy s then Inr None
      else
        rbind (attr_get s ''status'') (\<lambda>st.
        if st \<noteq> JStr ''ok'' then Inr None
        else
          rbind (attr_get s ''structured'') (\<lambda>x.
          rbind (as_dict_or_empty x) (\<lambda>d.
            Inr (if truthy (pget d ''parsed'') then Some d else None)))))"

type_synonym counter = "(string \<times> int) list"

definition count_of :: "counter \<Rightarrow> string \<Rightarrow> int" where
  "count_of c key = (case map_of c key of None \<Rightarrow> 0 | Some n \<Rightarrow> n)"

definition update :: "counter \<Rightarrow> string \<Rightarrow> bool \<Rightarrow> counter" where
  "update c key breached = dict_set c key (if breached then count_of c key + 1 else 0)"

section \<open>Comparison of numbers\<close>

text \<open>\<^verbatim>\<open>a < b\<close> with its \<^verbatim>\<open>TypeError\<close>.\<close>

definition py_less :: "jv \<Rightarrow> jv \<Rightarrow> bool result" where
  "py_less a b = (case py_lt a b of None \<Rightarrow> Inl (PyError ''TypeError'') | Some x \<Rightarrow> Inr x)"

definition as_num :: "jv \<Rightarrow> rat result" where
  "as_num v = (case num_of v of None \<Rightarrow> Inl (PyError ''TypeError'') | Some x \<Rightarrow> Inr x)"

text \<open>\<^verbatim>\<open>p["P-15"] * p["P-01"]\<close>, two numbers by the parameter register.\<close>

definition stale_after :: "jv \<Rightarrow> rat result" where
  "stale_after p = rbind (rbind (getitem p ''P-15'') as_num) (\<lambda>a. rbind (rbind (getitem p ''P-01'') as_num) (\<lambda>b. Inr (a * b)))"

definition when_some :: "params option \<Rightarrow> (params \<Rightarrow> finding list result) \<Rightarrow> finding list result" where
  "when_some m f = (case m of None \<Rightarrow> Inr [] | Some d \<Rightarrow> f d)"

section \<open>Validator health\<close>

definition unit_findings :: "(jv \<Rightarrow> string) \<Rightarrow> params \<Rightarrow> finding list" where
  "unit_findings txt hm =
     (if pget hm ''unit_active'' = JBool False
      then [health_finding ''unit_state'' ''high'' (''unit state '' @ txt (pget hm ''unit_state'')) [''host_metrics'']] else [])"

definition disk_findings :: "(jv \<Rightarrow> string) \<Rightarrow> jv \<Rightarrow> params \<Rightarrow> finding list result" where
  "disk_findings txt p hm =
     (let mf = pget hm ''min_free_pct'' in
      if num_of mf = None then Inr []
      else
        rbind (getitem p ''P-04'') (\<lambda>limit.
        rbind (py_less mf limit) (\<lambda>low.
          Inr (if low then [health_finding ''disk_headroom'' ''high'' (''min free '' @ txt mf @ ''% < '' @ txt limit @ ''%'') [''host_metrics'']] else []))))"

definition host_findings :: "(jv \<Rightarrow> string) \<Rightarrow> jv \<Rightarrow> params \<Rightarrow> finding list result" where
  "host_findings txt p samples =
     rbind (ok_sample (pget samples ''host_metrics'')) (\<lambda>m.
       when_some m (\<lambda>hm. rbind (disk_findings txt p hm) (\<lambda>fs. Inr (unit_findings txt hm @ fs))))"

definition delinquency_findings :: "(jv \<Rightarrow> string) \<Rightarrow> jv \<Rightarrow> jv \<Rightarrow> int \<Rightarrow> finding list result" where
  "delinquency_findings txt p behind n =
     rbind (getitem p ''P-03'') (\<lambda>q.
     rbind (getitem q ''samples'') (\<lambda>need.
     rbind (py_less (JInt n) need) (\<lambda>few.
       Inr (if few then []
            else [health_finding ''delinquency'' ''high'' (txt behind @ '' slots behind for '' @ txt (JInt n) @ '' samples'')
                    [''catchup'', ''validator_monitor'', ''host_metrics'']]))))"

definition catchup_findings :: "(jv \<Rightarrow> string) \<Rightarrow> jv \<Rightarrow> params \<Rightarrow> counter \<Rightarrow> finding list result \<times> counter" where
  "catchup_findings txt p samples c =
     (case ok_sample (pget samples ''catchup'') of
        Inl e \<Rightarrow> (Inl e, c)
      | Inr None \<Rightarrow> (Inr [], c)
      | Inr (Some cu) \<Rightarrow>
          (case rbind (getitem (JObj cu) ''slots_behind'') (\<lambda>behind.
                rbind (getitem p ''P-03'') (\<lambda>q.
                rbind (getitem q ''threshold'') (\<lambda>lim.
                rbind (py_less lim behind) (\<lambda>b. Inr (behind, b))))) of
             Inl e \<Rightarrow> (Inl e, c)
           | Inr (behind, breached) \<Rightarrow>
               (let c' = update c ''delinquency'' breached in
                (delinquency_findings txt p behind (count_of c' ''delinquency''), c'))))"

definition balance_findings :: "(jv \<Rightarrow> string) \<Rightarrow> jv \<Rightarrow> params \<Rightarrow> finding list result" where
  "balance_findings txt p samples =
     rbind (ok_sample (pget samples ''identity_balance'')) (\<lambda>m.
       when_some m (\<lambda>bal.
         rbind (getitem (JObj bal) ''balance_sol'') (\<lambda>sol.
         rbind (getitem p ''P-02'') (\<lambda>floor_sol.
         rbind (py_less sol floor_sol) (\<lambda>low.
           if \<not> low then Inr []
           else
             rbind (as_num floor_sol) (\<lambda>x.
             rbind (py_less sol (JFloat (x / 2))) (\<lambda>very.
               Inr [health_finding ''balance'' (if very then ''high'' else ''warning'')
                      (txt sol @ '' SOL < floor '' @ txt floor_sol) [''identity_balance'']])))))))"

definition version_findings :: "(jv \<Rightarrow> string) \<Rightarrow> policy_bundle \<Rightarrow> params \<Rightarrow> finding list result" where
  "version_findings txt b samples =
     rbind (ok_sample (pget samples ''running_version'')) (\<lambda>m.
     rbind (rbind (deployment b) (\<lambda>d. getitem (JObj d) ''expected_version'')) (\<lambda>expected.
       when_some m (\<lambda>rv. let v = pget rv ''version'' in
         Inr (if truthy v \<and> \<not> py_eq v expected
              then [health_finding ''version_drift'' ''warning'' (''running '' @ txt v @ '' != expected '' @ txt expected) [''running_version'']]
              else []))))"

definition validator_findings :: "(jv \<Rightarrow> string) \<Rightarrow> params \<Rightarrow> policy_bundle \<Rightarrow> counter \<Rightarrow> finding list result \<times> counter" where
  "validator_findings txt samples b c =
     (case rbind (thresholds b) (\<lambda>p. rbind (host_findings txt p samples) (\<lambda>fs. Inr (p, fs))) of
        Inl e \<Rightarrow> (Inl e, c)
      | Inr (p, f1) \<Rightarrow>
          (case catchup_findings txt p samples c of
             (Inl e, c') \<Rightarrow> (Inl e, c')
           | (Inr f2, c') \<Rightarrow>
               (rbind (balance_findings txt p samples) (\<lambda>f3.
                rbind (version_findings txt b samples) (\<lambda>f4. Inr (f1 @ f2 @ f3 @ f4))), c')))"

section \<open>Telemetry health\<close>

text \<open>The age of the watchtower heartbeat: a float that may be infinite.\<close>

datatype age = Finite rat | Infinite

fun older_than :: "age \<Rightarrow> rat \<Rightarrow> bool" where
  "older_than (Finite a) x = (a > x)"
| "older_than Infinite x = True"

fun age_int :: "age \<Rightarrow> int result" where
  "age_int (Finite a) = Inr (trunc a)"
| "age_int Infinite = Inl (PyError ''OverflowError'')"

text \<open>\<^verbatim>\<open>x or y\<close>\<close>

definition py_or :: "jv \<Rightarrow> jv \<Rightarrow> jv" where
  "py_or x y = (if truthy x then x else y)"

definition unreachable :: "params \<Rightarrow> params \<Rightarrow> bool result" where
  "unreachable telemetry probe =
     (if \<not> truthy (pget_default probe ''reachable'' (JBool False)) then Inr True
      else rbind (py_less (pget_default telemetry ''consecutive_unreachable'' (JInt 0)) (JInt 2)) (\<lambda>few. Inr (\<not> few)))"

definition slow_findings :: "(jv \<Rightarrow> string) \<Rightarrow> params \<Rightarrow> params \<Rightarrow> finding list result" where
  "slow_findings txt tcfg probe =
     (let lat = pget probe ''latency_ms'' in
      case num_of lat of
        None \<Rightarrow> Inr []
      | Some x \<Rightarrow>
          rbind (py_float (pget_default tcfg ''observer_latency_ms_max'' (JInt 5000))) (\<lambda>limit.
            Inr (if x > limit then [telemetry_finding ''observer_slow'' ''warning'' (''probe latency '' @ txt lat @ '' ms'')] else [])))"

fun stale_finding :: "(jv \<Rightarrow> string) \<Rightarrow> rat \<Rightarrow> params \<Rightarrow> finding list result" where
  "stale_finding txt limit [] = Inr []"
| "stale_finding txt limit ((cid, s) # rest) =
     (if cid = ''health'' then stale_finding txt limit rest
      else
        rbind (attr_get s ''age_s'') (\<lambda>a.
        if a = JNull then stale_finding txt limit rest
        else
          rbind (py_less (JFloat limit) a) (\<lambda>old.
          if old then Inr [telemetry_finding ''sample_stale'' ''high'' (cid @ '' newest sample '' @ txt a @ ''s old'')]
          else stale_finding txt limit rest)))"

fun error_finding :: "(jv \<Rightarrow> string) \<Rightarrow> params \<Rightarrow> params \<Rightarrow> finding list result" where
  "error_finding txt tcfg [] = Inr []"
| "error_finding txt tcfg ((cid, s) # rest) =
     rbind (attr_get s ''error_rate'') (\<lambda>r.
     rbind (py_float (pget_default tcfg ''error_rate_max'' (JFloat (1 / 2)))) (\<lambda>limit.
     rbind (py_less (JFloat limit) (py_or r (JInt 0))) (\<lambda>high.
       if high then Inr [telemetry_finding ''command_errors'' ''warning'' (cid @ '' error rate '' @ txt r)]
       else error_finding txt tcfg rest)))"

definition breaker_findings :: "(jv \<Rightarrow> string) \<Rightarrow> params \<Rightarrow> params \<Rightarrow> finding list result" where
  "breaker_findings txt telemetry probe =
     rbind (as_dict_or_empty (py_or (pget telemetry ''breaker'') (pget probe ''breaker''))) (\<lambda>br.
       Inr (if truthy (pget br ''open'')
            then [telemetry_finding ''rpc_breaker_open'' ''warning'' (''local-RPC breaker open (trips '' @ txt (pget br ''trips'') @ '')'')]
            else []))"

definition watchtower_findings :: "rat \<Rightarrow> age option \<Rightarrow> finding list result" where
  "watchtower_findings limit age =
     (case age of
        None \<Rightarrow> Inr []
      | Some a \<Rightarrow>
          if older_than a limit
          then rbind (age_int a) (\<lambda>n. Inr [telemetry_finding ''watchtower_silent'' ''warning'' (''no watchtower heartbeat for '' @ int_str n @ ''s'')])
          else Inr [])"

definition telemetry_findings :: "(jv \<Rightarrow> string) \<Rightarrow> params \<Rightarrow> params \<Rightarrow> policy_bundle \<Rightarrow> age option \<Rightarrow> finding list result" where
  "telemetry_findings txt telemetry probe b age =
     rbind (thresholds b) (\<lambda>p.
     rbind (stale_after p) (\<lambda>limit.
     rbind (deployment b) (\<lambda>dep.
     rbind (as_dict_or_empty (pget dep ''telemetry'')) (\<lambda>tcfg.
     rbind (unreachable telemetry probe) (\<lambda>gone.
     if gone
     then Inr [telemetry_finding ''observer_unreachable'' ''high''
                (take 200 (txt (py_or (pget probe ''error'') (pget telemetry ''last_unreachable_error''))))]
     else
       rbind (slow_findings txt tcfg probe) (\<lambda>f1.
       rbind (as_dict_or_empty (pget telemetry ''per_command'')) (\<lambda>per.
       rbind (stale_finding txt limit per) (\<lambda>f2.
       rbind (error_finding txt tcfg per) (\<lambda>f3.
       rbind (breaker_findings txt telemetry probe) (\<lambda>f4.
       rbind (watchtower_findings limit age) (\<lambda>f5.
         Inr (f1 @ f2 @ f3 @ f4 @ f5))))))))))))"

section \<open>Stale checks and summaries\<close>

fun stale_ids :: "rat \<Rightarrow> params \<Rightarrow> string list result" where
  "stale_ids limit [] = Inr []"
| "stale_ids limit ((cid, s) # rest) =
     (if cid = ''health'' then stale_ids limit rest
      else
        rbind (attr_get s ''age_s'') (\<lambda>a.
        rbind (if a = JNull then Inr True else py_less (JFloat limit) a) (\<lambda>old.
        rbind (stale_ids limit rest) (\<lambda>ids. Inr (if old then cid # ids else ids)))))"

definition stale_checks :: "params \<Rightarrow> policy_bundle \<Rightarrow> string list result" where
  "stale_checks telemetry b =
     rbind (rbind (thresholds b) stale_after) (\<lambda>limit.
     rbind (as_dict_or_empty (pget telemetry ''per_command'')) (\<lambda>per.
     rbind (stale_ids limit per) (\<lambda>ids. Inr (sort ids))))"

definition summarise :: "params \<Rightarrow> params" where
  "summarise s =
     map (\<lambda>k. (k, pget s k)) [''command_id'', ''status'', ''structured'', ''truncated'', ''collected_at'', ''flags'', ''audit_ref'']"

end
