(* ===== verification/Sentinel.thy ===== *)
theory Sentinel
  imports Sentinel_Checks Prog
begin

text \<open>
  \<^verbatim>\<open>valops/sentinel/scheduler.py\<close>: one round of the sentinel as a program over its calls on the bundle
  registry, the observer broker, the store, the report broker, the audit client, the clock and the
  heartbeat file. The counter of breaches and the set of annotated episodes are fields of the
  object; reading and writing them are requests too, so that an exception keeps what was written.
\<close>

section \<open>Requests\<close>

datatype sreq =
    S_active
  | S_load string
  | S_probe
  | S_sample string
  | S_telemetry
  | S_clock
  | S_mtime
  | S_uuid
  | S_counter_get
  | S_counter_set counter
  | S_open params
  | S_signal params
  | S_list params
  | S_annotate params
  | S_annotated jv string
  | S_mark_annotated jv string
  | S_alert params
  | S_audit params

datatype sresp =
    S_unit
  | S_name "string option"
  | S_bundle policy_bundle
  | S_dict params
  | S_dicts "params list"
  | S_num rat
  | S_text string
  | S_counter counter
  | S_bool bool

fun s_unit :: "sresp \<Rightarrow> unit option" where "s_unit _ = Some ()"
fun s_name :: "sresp \<Rightarrow> string option option" where "s_name (S_name x) = Some x" | "s_name _ = None"
fun s_bundle :: "sresp \<Rightarrow> policy_bundle option" where "s_bundle (S_bundle b) = Some b" | "s_bundle _ = None"
fun s_dict :: "sresp \<Rightarrow> params option" where "s_dict (S_dict d) = Some d" | "s_dict _ = None"
fun s_dicts :: "sresp \<Rightarrow> params list option" where "s_dicts (S_dicts d) = Some d" | "s_dicts _ = None"
fun s_num :: "sresp \<Rightarrow> rat option" where "s_num (S_num x) = Some x" | "s_num _ = None"
fun s_text :: "sresp \<Rightarrow> string option" where "s_text (S_text x) = Some x" | "s_text _ = None"
fun s_counter :: "sresp \<Rightarrow> counter option" where "s_counter (S_counter c) = Some c" | "s_counter _ = None"
fun s_bool :: "sresp \<Rightarrow> bool option" where "s_bool (S_bool b) = Some b" | "s_bool _ = None"

type_synonym 'a watching = "(sreq, sresp, 'a) prog"

text \<open>The text of a value and whether a heartbeat file is configured.\<close>

record sentinel =
  sn_txt :: "jv \<Rightarrow> string"
  sn_heartbeat :: bool

definition VALIDATOR_SAMPLES :: "string list" where
  "VALIDATOR_SAMPLES = [''host_metrics'', ''catchup'', ''identity_balance'', ''running_version'', ''rpc_latency'']"

definition MODE_SAMPLES :: "string list" where
  "MODE_SAMPLES = [''running_version'', ''cluster_feature_state'', ''consensus_state_files'']"

section \<open>Sampling\<close>

fun error_code_of :: "exn \<Rightarrow> string" where
  "error_code_of (RpcError c) = c"
| "error_code_of (PyError c) = c"

definition sentinel_sample :: "string \<Rightarrow> params watching" where
  "sentinel_sample cid =
     catch (ask (S_sample cid) s_dict) (\<lambda>e.
       if is_rpc e
       then Ret [(''command_id'', JStr cid), (''status'', JStr ''unreachable''), (''structured'', JObj [(''error'', JStr (error_code_of e))])]
       else Raise e)"

fun take_samples :: "string list \<Rightarrow> params watching" where
  "take_samples [] = Ret []"
| "take_samples (cid # cids) =
     pbind (sentinel_sample cid) (\<lambda>s. pbind (take_samples cids) (\<lambda>ss. Ret ((cid, JObj s) # ss)))"

definition watchtower_age :: "sentinel \<Rightarrow> age option watching" where
  "watchtower_age sn =
     (if \<not> sn_heartbeat sn then Ret None
      else
        catch
          (pbind (ask S_clock s_num) (\<lambda>t. pbind (ask S_mtime s_num) (\<lambda>m. Ret (Some (Finite (t - m))))))
          (\<lambda>e. if e = PyError ''FileNotFoundError'' then Ret (Some Infinite) else Raise e))"

section \<open>Opening an episode\<close>

definition mode_input :: "params \<Rightarrow> string \<Rightarrow> jv watching" where
  "mode_input samples cid =
     (let s = pget samples cid in
      if truthy s then Ret s else pbind (sentinel_sample cid) (\<lambda>d. Ret (JObj d)))"

definition mode_of :: "policy_bundle \<Rightarrow> params \<Rightarrow> (jv \<times> params) watching" where
  "mode_of b samples =
     pbind (mode_input samples ''running_version'') (\<lambda>rv.
     pbind (mode_input samples ''cluster_feature_state'') (\<lambda>fs.
     pbind (mode_input samples ''consensus_state_files'') (\<lambda>sf.
     pbind (lift (deployment b)) (\<lambda>dep.
     pbind (lift (getitem (JObj dep) ''declared_consensus_mode'')) (\<lambda>declared.
       lift (determine declared rv fs sf (pget dep ''mode_support'')))))))"

definition mode_for :: "finding \<Rightarrow> policy_bundle \<Rightarrow> params \<Rightarrow> (jv \<times> params) watching" where
  "mode_for f b samples =
     (if fi_cls f = ''validator_health'' then mode_of b samples
      else Ret (JStr ''unknown'', [(''note'', JStr ''not determined for telemetry-health episodes (observer impaired)'')]))"

definition open_params :: "sentinel \<Rightarrow> finding \<Rightarrow> policy_bundle \<Rightarrow> jv \<Rightarrow> jv \<Rightarrow> params \<Rightarrow> string \<Rightarrow> params" where
  "open_params sn f b vid mode evidence u =
     [(''class'', JStr (fi_cls f)),
      (''trigger'', JObj [(''source'', JStr ''sentinel''), (''check'', JStr (fi_check f)),
                          (''severity'', JStr (fi_severity f)), (''detail'', JStr (fi_detail f))]),
      (''validator_id'', vid), (''bundle_id'', JStr (bn_id b)), (''consensus_mode'', mode), (''consensus_mode_evidence'', JObj evidence),
      (''idem_key'', JStr (''open:'' @ fi_cls f @ '':'' @ fi_check f @ '':'' @ sn_txt sn vid @ '':'' @ u))]"

definition snaps_of :: "finding \<Rightarrow> params \<Rightarrow> params \<Rightarrow> jv list" where
  "snaps_of f samples telemetry =
     map (pget samples) (filter (has_key samples) (fi_command_ids f)) @
     (if fi_cls f = ''telemetry_health''
      then [JObj [(''command_id'', JStr ''telemetry_health''), (''status'', JStr ''ok''), (''structured'', JObj telemetry)]] else [])"

definition attach_signal :: "sentinel \<Rightarrow> jv \<Rightarrow> jv \<Rightarrow> unit watching" where
  "attach_signal sn eid s =
     pbind (lift (as_dict s)) (\<lambda>d.
     swallow_rpc
       (pbind (if truthy (pget d ''request_id'') then Ret (sn_txt sn (pget d ''request_id'')) else ask S_uuid s_text) (\<lambda>u.
        ask (S_signal [(''episode_id'', eid), (''snapshot'', JObj (summarise d)),
               (''idem_key'', JStr (''sig:'' @ sn_txt sn (pget d ''command_id'') @ '':'' @ u))]) s_unit)) ())"

definition sentinel_alert :: "string \<Rightarrow> string \<Rightarrow> string \<Rightarrow> jv \<Rightarrow> string \<Rightarrow> unit watching" where
  "sentinel_alert severity title text eid dedupe =
     swallow_rpc (ask (S_alert [(''severity'', JStr severity), (''title'', JStr title), (''text'', JStr text),
                               (''episode_id'', eid), (''dedupe_key'', JStr dedupe)]) s_unit) ()"

definition unknown_alert :: "sentinel \<Rightarrow> jv \<Rightarrow> params \<Rightarrow> unit watching" where
  "unknown_alert sn eid evidence =
     pbind (lift (as_str eid)) (\<lambda>e.
     sentinel_alert ''warning'' (''Consensus mode unknown for episode '' @ take 8 e)
       (''Inputs disagree: '' @ sn_txt sn (pget evidence ''disagreeing_inputs'') @ ''. Mode-specific recommendations are prohibited.'')
       eid (''mode-unknown:'' @ e))"

definition after_open :: "sentinel \<Rightarrow> finding \<Rightarrow> params \<Rightarrow> params \<Rightarrow> jv \<Rightarrow> params \<Rightarrow> params \<Rightarrow> unit watching" where
  "after_open sn f samples telemetry mode evidence res =
     pbind (lift (getitem (JObj res) ''episode_id'')) (\<lambda>eid.
     pbind (for_each (attach_signal sn eid) (snaps_of f samples telemetry)) (\<lambda>_.
     if \<not> truthy (pget res ''deduplicated'') \<and> mode = JStr ''unknown'' \<and> fi_cls f = ''validator_health''
     then unknown_alert sn eid evidence else Ret ()))"

definition open_finding :: "sentinel \<Rightarrow> policy_bundle \<Rightarrow> params \<Rightarrow> params \<Rightarrow> finding \<Rightarrow> params option watching" where
  "open_finding sn b samples telemetry f =
     pbind (mode_for f b samples) (\<lambda>(mode, evidence).
     pbind (lift (rbind (deployment b) (\<lambda>d. getitem (JObj d) ''validator_id''))) (\<lambda>vid.
     pbind (ask S_uuid s_text) (\<lambda>u.
     pbind (attempt (ask (S_open (open_params sn f b vid mode evidence u)) s_dict)) (\<lambda>r.
     case r of
       Inl e \<Rightarrow> if is_rpc e then Ret None else Raise e
     | Inr res \<Rightarrow> pbind (after_open sn f samples telemetry mode evidence res) (\<lambda>_. Ret (Some res))))))"

fun open_findings :: "sentinel \<Rightarrow> policy_bundle \<Rightarrow> params \<Rightarrow> params \<Rightarrow> finding list \<Rightarrow> params option list watching" where
  "open_findings sn b samples telemetry [] = Ret []"
| "open_findings sn b samples telemetry (f # fs) =
     pbind (open_finding sn b samples telemetry f) (\<lambda>o1.
     pbind (open_findings sn b samples telemetry fs) (\<lambda>os. Ret (o1 # os)))"

section \<open>Stale annotations\<close>

fun join_commas :: "string list \<Rightarrow> string" where
  "join_commas [] = []"
| "join_commas [x] = x"
| "join_commas (x # xs) = x @ '','' @ join_commas xs"

definition annotate_one :: "sentinel \<Rightarrow> string list \<Rightarrow> params \<Rightarrow> unit watching" where
  "annotate_one sn stale ep =
     pbind (lift (getitem (JObj ep) ''episode_id'')) (\<lambda>eid.
     pbind (ask (S_annotated eid (join_commas stale)) s_bool) (\<lambda>done.
     if done then Ret ()
     else
       swallow_rpc
         (pbind (ask S_uuid s_text) (\<lambda>u.
          pbind (ask (S_annotate [(''episode_id'', eid), (''kind'', JStr ''stale_signals''),
                   (''note'', JStr (''TH-3: samples stale for '' @ sn_txt sn (JArr (map JStr stale)) @ ''; recovery cannot be confirmed from stale data'')),
                   (''idem_key'', JStr (''stale:'' @ u))]) s_unit) (\<lambda>_.
          ask (S_mark_annotated eid (join_commas stale)) s_unit))) ()))"

definition annotate_stale :: "sentinel \<Rightarrow> params \<Rightarrow> policy_bundle \<Rightarrow> unit watching" where
  "annotate_stale sn telemetry b =
     pbind (lift (stale_checks telemetry b)) (\<lambda>stale.
     if stale = [] then Ret ()
     else
       pbind (attempt (ask (S_list [(''nonterminal_only'', JBool True), (''class'', JStr ''validator_health'')]) s_dicts)) (\<lambda>r.
       case r of
         Inl e \<Rightarrow> if is_rpc e then Ret () else Raise e
       | Inr eps \<Rightarrow> for_each (annotate_one sn stale) eps))"

section \<open>A round\<close>

definition probe_now :: "params watching" where
  "probe_now =
     catch (ask S_probe s_dict) (\<lambda>e.
       if is_rpc e then Ret [(''reachable'', JBool False), (''error'', JStr (''observer broker: '' @ error_code_of e))] else Raise e)"

definition telemetry_now :: "params watching" where
  "telemetry_now =
     catch (ask S_telemetry s_dict) (\<lambda>e. if is_rpc e then Ret [(''consecutive_unreachable'', JInt 99)] else Raise e)"

definition findings_now :: "sentinel \<Rightarrow> policy_bundle \<Rightarrow> params \<Rightarrow> params \<Rightarrow> params \<Rightarrow> finding list watching" where
  "findings_now sn b samples probe telemetry =
     pbind (ask S_counter_get s_counter) (\<lambda>c.
     let (r, c') = validator_findings (sn_txt sn) samples b c in
     pbind (ask (S_counter_set c') s_unit) (\<lambda>_.
     pbind (lift r) (\<lambda>f1.
     pbind (watchtower_age sn) (\<lambda>age.
     pbind (lift (telemetry_findings (sn_txt sn) telemetry probe b age)) (\<lambda>f2.
       Ret (f1 @ f2))))))"

definition act_on :: "sentinel \<Rightarrow> policy_bundle \<Rightarrow> params \<Rightarrow> params \<Rightarrow> params \<Rightarrow> finding list \<Rightarrow> params list watching" where
  "act_on sn b samples probe telemetry fs =
     pbind (open_findings sn b samples telemetry fs) (\<lambda>opened.
     pbind (annotate_stale sn telemetry b) (\<lambda>_.
     pbind (ask (S_audit [(''findings'', JArr (map (JStr \<circ> fi_check) fs)), (''reachable'', pget probe ''reachable'')]) s_unit) (\<lambda>_.
       Ret [d. Some d \<leftarrow> opened, d \<noteq> []])))"

definition sentinel_tick :: "sentinel \<Rightarrow> params list watching" where
  "sentinel_tick sn =
     pbind (ask S_active s_name) (\<lambda>active.
     case active of
       None \<Rightarrow> Ret []
     | Some bid \<Rightarrow>
         if bid = [] then Ret []
         else
           pbind (ask (S_load bid) s_bundle) (\<lambda>b.
           pbind probe_now (\<lambda>probe.
           pbind (if truthy (pget probe ''reachable'') then take_samples VALIDATOR_SAMPLES else Ret []) (\<lambda>samples.
           pbind telemetry_now (\<lambda>telemetry.
           pbind (findings_now sn b samples probe telemetry) (\<lambda>fs.
             act_on sn b samples probe telemetry fs))))))"

text \<open>
  One turn of \<^verbatim>\<open>loop\<close>: the interval to wait for; every exception of the round is logged and the
  loop goes on.
\<close>

definition next_interval :: "rat watching" where
  "next_interval =
     pbind (ask S_active s_name) (\<lambda>active.
     case active of
       None \<Rightarrow> Ret 60
     | Some bid \<Rightarrow>
         if bid = [] then Ret 60
         else pbind (ask (S_load bid) s_bundle) (\<lambda>b. lift (threshold_float b ''P-01'')))"

definition sentinel_round :: "sentinel \<Rightarrow> rat watching" where
  "sentinel_round sn =
     pbind (attempt next_interval) (\<lambda>r.
     case r of
       Inl e \<Rightarrow> Ret 60
     | Inr interval \<Rightarrow> pbind (attempt (sentinel_tick sn)) (\<lambda>_. Ret interval))"

end
