(* ===== verification/Sentinel_Theorems.thy ===== *)
theory Sentinel_Theorems
  imports Sentinel
begin

text \<open>
  What the sentinel opens episodes on: every validator-health episode rests on a sample that was
  answered and parsed, its consensus mode is named only when all inputs agree, and the round in which the
  watchtower heartbeat is missing.
\<close>

section \<open>Consensus mode\<close>

lemma determine_agreed:
  assumes "determine declared rv fs sf support = Inr (JStr m, ev)" "m \<noteq> ''unknown''"
  shows "declared = JStr m \<and> files_mode sf = Inr (JStr m) \<and> feature_mode fs = Inr (JStr m) \<and>
    (\<exists>s ver. or_empty_get rv ''structured'' = Inr s \<and> or_empty_get s ''version'' = Inr ver \<and> version_mode ver support = Inr (JStr m))"
proof -
  from assms(1) obtain s ver vm fm sm where
    ver: "or_empty_get rv ''structured'' = Inr s" "or_empty_get s ''version'' = Inr ver" "version_mode ver support = Inr vm"
    and rest: "feature_mode fs = Inr fm" "files_mode sf = Inr sm"
    and mode: "JStr m = (if disagreeing declared \<lparr>ob_version = vm, ob_feature = fm, ob_files = sm\<rparr> = [] then declared else JStr ''unknown'')"
    unfolding determine_def Let_def by auto
  from mode assms(2) have d: "declared = JStr m" "disagreeing declared \<lparr>ob_version = vm, ob_feature = fm, ob_files = sm\<rparr> = []"
    by (auto split: if_splits)
  then have "vm = JStr m" "fm = JStr m" "sm = JStr m"
    by (auto simp: disagreeing_def observed_list_def py_eq_JStr split: if_splits)
  with ver rest d show ?thesis by blast
qed

section \<open>Samples in the history\<close>

definition answered :: "(sreq, sresp) trace \<Rightarrow> string \<Rightarrow> params \<Rightarrow> bool" where
  "answered h cid s = ((S_sample cid, Inr (S_dict s)) \<in> set h)"

definition no_sample :: "string \<Rightarrow> string \<Rightarrow> params" where
  "no_sample cid c = [(''command_id'', JStr cid), (''status'', JStr ''unreachable''), (''structured'', JObj [(''error'', JStr c)])]"

definition sampled :: "(sreq, sresp) trace \<Rightarrow> string \<Rightarrow> jv \<Rightarrow> bool" where
  "sampled h cid v = (\<exists>s. v = JObj s \<and> (answered h cid s \<or> (\<exists>c. s = no_sample cid c)))"

definition samples_ok :: "(sreq, sresp) trace \<Rightarrow> params \<Rightarrow> bool" where
  "samples_ok h ss = (\<forall>cid v. map_of ss cid = Some v \<longrightarrow> sampled h cid v)"

lemma answered_append [simp, intro]: "answered h cid s \<Longrightarrow> answered (h @ t) cid s"
  by (simp add: answered_def)

lemma sampled_append [simp, intro]: "sampled h cid v \<Longrightarrow> sampled (h @ t) cid v"
  by (auto simp: sampled_def)

lemma samples_ok_append [simp, intro]: "samples_ok h ss \<Longrightarrow> samples_ok (h @ t) ss"
  by (auto simp: samples_ok_def)

lemma no_sample_parts [simp]:
  "pget (no_sample cid c) ''status'' = JStr ''unreachable''"
  "pget (no_sample cid c) ''structured'' = JObj [(''error'', JStr c)]"
  by (simp_all add: no_sample_def pget_def)

lemma ok_no_sample [simp]: "ok_sample (JObj (no_sample cid c)) = Inr None"
  by (simp add: ok_sample_def no_sample_def pget_def rbind_def)

lemma parsed_sample_answered:
  assumes "sampled h cid v" "ok_sample v = Inr (Some d)"
  obtains s where "answered h cid s" "ok_sample (JObj s) = Inr (Some d)"
  using assms by (auto simp: sampled_def)

section \<open>Requests that open an episode\<close>

fun no_open :: "sreq \<Rightarrow> bool" where
  "no_open (S_open p) = False"
| "no_open _ = True"

definition justified :: "((sreq, sresp) trace \<Rightarrow> params \<Rightarrow> bool) \<Rightarrow> (sreq, sresp) trace \<Rightarrow> sreq \<Rightarrow> bool" where
  "justified P h q = (\<forall>p. q = S_open p \<longrightarrow> P h p)"

lemma no_open_justified: "no_open q \<Longrightarrow> justified P h q"
  by (cases q) (simp_all add: justified_def)

lemma justified_open [simp]: "justified P h (S_open p) = P h p"
  by (simp add: justified_def)

lemma wp_no_open:
  assumes "every no_open p" "sound (justified P) h" "\<And>r t. sound (justified P) (h @ t) \<Longrightarrow> runs p t r \<Longrightarrow> Q r (h @ t)"
  shows "wp p Q h"
proof (rule wp_sound_from [OF _ assms(2)])
  show "every (\<lambda>q. \<forall>t. justified P (h @ t) q) p" by (rule every_mono [OF assms(1)]) (simp add: no_open_justified)
qed (rule assms(3))

lemma every_no_open [simp]:
  "every no_open (sentinel_sample cid)" "every no_open (watchtower_age sn)" "every no_open probe_now" "every no_open telemetry_now"
  "every no_open (sentinel_alert sev title text eid dk)"
  by (auto simp: sentinel_sample_def watchtower_age_def probe_now_def telemetry_now_def sentinel_alert_def intro!: every_intros)

lemma every_no_open_samples [simp]: "every no_open (take_samples cids)"
  by (induction cids) (auto intro!: every_intros)

lemma every_no_open_mode [simp]: "every no_open (mode_input ss cid)" "every no_open (mode_for f b ss)"
  by (auto simp: mode_input_def mode_for_def mode_of_def Let_def intro!: every_intros)

lemma every_no_open_after [simp]: "every no_open (after_open sn f ss te m ev res)"
  by (auto simp: after_open_def attach_signal_def unknown_alert_def intro!: every_intros)

lemma every_no_open_stale [simp]: "every no_open (annotate_stale sn te b)"
  by (auto simp: annotate_stale_def annotate_one_def intro!: every_intros split: sum.splits)

lemma every_no_open_findings [simp]: "every no_open (findings_now sn b ss pr te)"
  by (auto simp: findings_now_def Let_def intro!: every_intros split: prod.splits)

section \<open>What the parts return\<close>

lemma ask_dict_runs: "runs (ask q s_dict) t (Inr d) \<Longrightarrow> t = [(q, Inr (S_dict d))]"
proof -
  assume "runs (ask q s_dict) t (Inr d)"
  then obtain r where r: "t = [(q, r)]" "rbind r (\<lambda>x. case s_dict x of None \<Rightarrow> Inl TypeError | Some y \<Rightarrow> Inr y) = Inr d"
    unfolding runs_ask by metis
  then obtain x where "r = Inr x" "s_dict x = Some d" by (auto split: option.splits)
  with r(1) show ?thesis by (cases x) auto
qed

lemma sentinel_sample_runs:
  assumes "runs (sentinel_sample cid) t (Inr s)"
  shows "sampled (h @ t) cid (JObj s)"
proof -
  from assms obtain t1 r t2 where t: "t = t1 @ t2" "runs (ask (S_sample cid) s_dict) t1 r"
    "runs (case r of Inl e \<Rightarrow> if is_rpc e then Ret (no_sample cid (error_code_of e)) else Raise e | Inr x \<Rightarrow> Ret x) t2 (Inr s)"
    unfolding sentinel_sample_def catch_def no_sample_def runs_pbind runs_attempt by auto
  then show ?thesis
    by (cases r) (auto simp: sampled_def answered_def dest!: ask_dict_runs split: if_splits)
qed

lemma take_samples_runs: "runs (take_samples cids) t (Inr ss) \<Longrightarrow> samples_ok (h @ t) ss"
proof (induction cids arbitrary: t ss h)
  case Nil
  then show ?case by (simp add: samples_ok_def)
next
  case (Cons cid cids)
  then obtain s ss' t1 t2 where t: "t = t1 @ t2" "runs (sentinel_sample cid) t1 (Inr s)" "runs (take_samples cids) t2 (Inr ss')"
    "ss = (cid, JObj s) # ss'"
    by (auto simp: runs_pbind)
  have "sampled (h @ t) cid (JObj s)" using sentinel_sample_runs [OF t(2), of h] t(1) sampled_append [of "h @ t1"] by simp
  moreover have "samples_ok (h @ t) ss'" using Cons.IH [OF t(3), of "h @ t1"] t(1) by simp
  ultimately show ?case by (simp add: samples_ok_def t(4))
qed

lemma mode_input_runs:
  assumes "runs (mode_input ss cid) t (Inr v)" "samples_ok h ss"
  shows "sampled (h @ t) cid v"
proof (cases "truthy (pget ss cid)")
  case True
  then obtain v' where "map_of ss cid = Some v'" by (auto simp: pget_def split: option.splits)
  with True assms show ?thesis by (auto simp: mode_input_def samples_ok_def pget_def)
next
  case False
  with assms(1) show ?thesis by (auto simp: mode_input_def runs_pbind intro!: sentinel_sample_runs)
qed

definition mode_evidence :: "(sreq, sresp) trace \<Rightarrow> policy_bundle \<Rightarrow> string \<Rightarrow> bool" where
  "mode_evidence h b m =
     ((\<exists>dep. deployment b = Inr dep \<and> getitem (JObj dep) ''declared_consensus_mode'' = Inr (JStr m) \<and>
        (\<exists>s d. answered h ''running_version'' s \<and> pget s ''structured'' = JObj d \<and> supported_only (pget d ''version'') (pget dep ''mode_support'') m)) \<and>
      (\<exists>s d. answered h ''cluster_feature_state'' s \<and> pget s ''status'' = JStr ''ok'' \<and> pget s ''structured'' = JObj d \<and> pget d ''mode'' = JStr m) \<and>
      (\<exists>s. answered h ''consensus_state_files'' s \<and> files_mode (JObj s) = Inr (JStr m)))"

lemma mode_evidence_append [intro]: "mode_evidence h b m \<Longrightarrow> mode_evidence (h @ t) b m"
  unfolding mode_evidence_def by (blast intro: answered_append)

lemma agreed_mode_evidence:
  assumes "determine declared rv fs sf (pget dep ''mode_support'') = Inr (JStr m, ev)" "m \<noteq> ''unknown''"
    and "deployment b = Inr dep" "getitem (JObj dep) ''declared_consensus_mode'' = Inr declared"
    and "sampled h ''running_version'' rv" "sampled h ''cluster_feature_state'' fs" "sampled h ''consensus_state_files'' sf"
  shows "mode_evidence h b m"
proof -
  obtain s ver where v: "or_empty_get rv ''structured'' = Inr s" "or_empty_get s ''version'' = Inr ver" "version_mode ver (pget dep ''mode_support'') = Inr (JStr m)"
    and dm: "declared = JStr m" and fm: "feature_mode fs = Inr (JStr m)" and sm: "files_mode sf = Inr (JStr m)"
    using determine_agreed [OF assms(1, 2)] by blast
  obtain d1 d2 where f: "fs = JObj d1" "pget d1 ''status'' = JStr ''ok''" "pget d1 ''structured'' = JObj d2" "pget d2 ''mode'' = JStr m"
    using feature_mode_Some [OF fm] by blast
  then have a1: "answered h ''cluster_feature_state'' d1" using assms(6) by (auto simp: sampled_def)
  obtain d3 where d3: "sf = JObj d3" "pget d3 ''status'' = JNull \<or> pget d3 ''status'' = JStr ''ok''"
    using files_mode_Some [OF sm] by blast
  then have a2: "answered h ''consensus_state_files'' d3" using assms(7) by (auto simp: sampled_def)
  obtain d4 where d4: "rv = JObj d4" using assms(5) by (auto simp: sampled_def)
  have ver: "truthy ver" "supported_only ver (pget dep ''mode_support'') m"
    using v(3) version_mode_Some [OF v(3)] by (auto simp: version_mode_def split: if_splits)
  have s: "s = pget d4 ''structured''" using v(1) d4 by (auto simp: or_empty_get_def as_dict_or_empty_def pget_def split: if_splits)
  obtain d5 where d5: "s = JObj d5" "ver = pget d5 ''version''"
    using v(2) ver(1) by (auto simp: or_empty_get_def as_dict_or_empty_def pget_def split: if_splits jv.splits)
  have "answered h ''running_version'' d4"
    using assms(5) ver(1) d5 s by (auto simp: sampled_def d4 pget_def [of "[(''error'', _)]"])
  then show ?thesis unfolding mode_evidence_def
    using a1 f a2 sm d3(1) ver(2) s d5 assms(3, 4) dm by metis
qed

lemma mode_for_runs:
  assumes "runs (mode_for f b ss) t (Inr (JStr m, ev))" "samples_ok h ss" "m \<noteq> ''unknown''"
  shows "mode_evidence (h @ t) b m"
proof -
  from assms(1, 3) have "runs (mode_of b ss) t (Inr (JStr m, ev))" by (auto simp: mode_for_def split: if_splits)
  then obtain t1 t2 t3 rv fs sf declared dep where
    r: "runs (mode_input ss ''running_version'') t1 (Inr rv)" "runs (mode_input ss ''cluster_feature_state'') t2 (Inr fs)"
      "runs (mode_input ss ''consensus_state_files'') t3 (Inr sf)" "determine declared rv fs sf (pget dep ''mode_support'') = Inr (JStr m, ev)"
      "deployment b = Inr dep" "getitem (JObj dep) ''declared_consensus_mode'' = Inr declared"
    and t: "t = t1 @ t2 @ t3"
    by (auto simp: mode_of_def runs_pbind dest!: sym [of "Inr _"])
  have "sampled (h @ t) ''running_version'' rv"
    using mode_input_runs [OF r(1) assms(2)] sampled_append [of "h @ t1"] t by simp
  moreover have "sampled (h @ t) ''cluster_feature_state'' fs"
    using mode_input_runs [OF r(2), of "h @ t1"] sampled_append [of "h @ t1 @ t2"] assms(2) t by simp
  moreover have "sampled (h @ t) ''consensus_state_files'' sf"
    using mode_input_runs [OF r(3), of "h @ t1 @ t2"] assms(2) t by simp
  ultimately show ?thesis using agreed_mode_evidence [OF r(4) assms(3) r(5, 6)] by blast
qed

section \<open>Findings rest on parsed samples\<close>

lemma when_some_Inr:
  "when_some m g = Inr fs \<Longrightarrow> f \<in> set fs \<Longrightarrow> \<exists>d. m = Some d \<and> g d = Inr fs"
  by (cases m) (auto simp: when_some_def)

text \<open>The command whose sample a check reads, and what the check is about: the sample breaches the bundle's limit.\<close>

definition check_command :: "string \<Rightarrow> string" where
  "check_command chk =
     (if chk = ''delinquency'' then ''catchup'' else if chk = ''balance'' then ''identity_balance''
      else if chk = ''version_drift'' then ''running_version'' else ''host_metrics'')"

definition breaches :: "policy_bundle \<Rightarrow> string \<Rightarrow> params \<Rightarrow> bool" where
  "breaches b chk d =
     ((chk = ''unit_state'' \<and> pget d ''unit_active'' = JBool False) \<or>
      (chk = ''disk_headroom'' \<and> rbind (threshold b ''P-04'') (py_less (pget d ''min_free_pct'')) = Inr True) \<or>
      (chk = ''delinquency'' \<and> rbind (rbind (threshold b ''P-03'') (\<lambda>q. getitem q ''samples'')) (py_less (JInt 0)) = Inr False) \<or>
      (chk = ''delinquency'' \<and> rbind (rbind (threshold b ''P-03'') (\<lambda>q. getitem q ''threshold''))
                                  (\<lambda>lim. py_less lim (pget d ''slots_behind'')) = Inr True) \<or>
      (chk = ''balance'' \<and> rbind (threshold b ''P-02'') (py_less (pget d ''balance_sol'')) = Inr True) \<or>
      (chk = ''version_drift'' \<and> truthy (pget d ''version'') \<and>
         (\<exists>v. rbind (deployment b) (\<lambda>dep. getitem (JObj dep) ''expected_version'') = Inr v \<and> \<not> py_eq (pget d ''version'') v)))"

definition rests_on :: "policy_bundle \<Rightarrow> params \<Rightarrow> finding \<Rightarrow> bool" where
  "rests_on b samples f =
     (fi_cls f = ''validator_health'' \<and>
      (\<exists>d. ok_sample (pget samples (check_command (fi_check f))) = Inr (Some d) \<and> breaches b (fi_check f) d))"

lemma rests_onI:
  "f = health_finding chk sev detail cids \<Longrightarrow> ok_sample (pget ss (check_command chk)) = Inr (Some d) \<Longrightarrow> breaches b chk d \<Longrightarrow> rests_on b ss f"
  by (auto simp: rests_on_def health_finding_def)

lemma sample_rests:
  assumes "rbind (ok_sample (pget ss cid)) (\<lambda>m. when_some m g) = Inr fs" "f \<in> set fs"
    and "\<And>d. ok_sample (pget ss cid) = Inr (Some d) \<Longrightarrow> g d = Inr fs \<Longrightarrow> rests_on b ss f"
  shows "rests_on b ss f"
proof -
  obtain m where m: "ok_sample (pget ss cid) = Inr m" "when_some m g = Inr fs" using assms(1) by auto
  obtain d where "m = Some d" "g d = Inr fs" using when_some_Inr [OF m(2) assms(2)] by blast
  then show ?thesis using assms(3) m(1) by blast
qed

lemma host_rests:
  assumes "thresholds b = Inr p" "host_findings tx p ss = Inr fs" "f \<in> set fs"
  shows "rests_on b ss f"
  using assms(2, 3) unfolding host_findings_def
proof (rule sample_rests)
  fix d
  assume ok: "ok_sample (pget ss ''host_metrics'') = Inr (Some d)" and g: "rbind (disk_findings tx p d) (\<lambda>fs. Inr (unit_findings tx d @ fs)) = Inr fs"
  from g assms(3) obtain gs where "disk_findings tx p d = Inr gs" "f \<in> set gs \<or> f \<in> set (unit_findings tx d)" by auto
  then show "rests_on b ss f"
    using ok assms(1)
    by (auto simp: disk_findings_def unit_findings_def Let_def check_command_def breaches_def threshold_def split: if_splits intro!: rests_onI)
qed

lemma balance_rests:
  assumes "thresholds b = Inr p" "balance_findings tx p ss = Inr fs" "f \<in> set fs"
  shows "rests_on b ss f"
  using assms(2, 3) unfolding balance_findings_def
  by (rule sample_rests)
    (use assms(1, 3) in \<open>auto simp: check_command_def breaches_def threshold_def pget_def [of _ "''balance_sol''"] split: if_splits option.splits intro!: rests_onI\<close>)

lemma version_rests:
  assumes "version_findings tx b ss = Inr fs" "f \<in> set fs"
  shows "rests_on b ss f"
proof -
  let ?g = "\<lambda>w rv. let v = pget (rv :: params) ''version'' in Inr (if truthy v \<and> \<not> py_eq v w
       then [health_finding ''version_drift'' ''warning'' (''running '' @ tx v @ '' != expected '' @ tx w) [''running_version'']] else []) :: finding list result"
  from assms(1) obtain m w where m: "ok_sample (pget ss ''running_version'') = Inr m" "when_some m (?g w) = Inr fs"
      "rbind (deployment b) (\<lambda>d. getitem (JObj d) ''expected_version'') = Inr w"
    unfolding version_findings_def by (simp only: rbind_Inr) blast
  obtain d where d: "m = Some d" "?g w d = Inr fs"
    using when_some_Inr [OF m(2) assms(2)] by (elim exE conjE) (rule that)
  then have v: "truthy (pget d ''version'')" "\<not> py_eq (pget d ''version'') w"
      "f = health_finding ''version_drift'' ''warning'' (''running '' @ tx (pget d ''version'') @ '' != expected '' @ tx w) [''running_version'']"
    using assms(2) by (auto simp: Let_def split: if_splits)
  have "breaches b ''version_drift'' d" using v(1, 2) m(3) by (simp add: breaches_def del: rbind_Inr)
  then show ?thesis using v(3) m(1) d(1) by (intro rests_onI) (simp_all add: check_command_def)
qed

lemma catchup_rests:
  assumes "thresholds b = Inr p" "catchup_findings tx p ss c = (Inr fs, c')" "f \<in> set fs"
  shows "rests_on b ss f"
proof -
  obtain cu where cu: "ok_sample (pget ss ''catchup'') = Inr (Some cu)"
    using assms by (auto simp: catchup_findings_def split: sum.splits option.splits)
  from assms(2) obtain behind q lim breached where g: "getitem (JObj cu) ''slots_behind'' = Inr behind" "getitem p ''P-03'' = Inr q"
      "getitem q ''threshold'' = Inr lim" "py_less lim behind = Inr breached"
      "delinquency_findings tx p behind (count_of (update c ''delinquency'' breached) ''delinquency'') = Inr fs"
    unfolding catchup_findings_def cu by (auto simp: Let_def split: sum.splits prod.splits)
  have n: "count_of (update c ''delinquency'' breached) ''delinquency'' = 0" if "\<not> breached" using that by (simp add: count_of_def update_def)
  from g(2, 5) assms(3) obtain need sev detail cids where need: "getitem q ''samples'' = Inr need"
      "py_less (JInt (count_of (update c ''delinquency'' breached) ''delinquency'')) need = Inr False"
      "f = health_finding ''delinquency'' sev detail cids"
    by (auto simp: delinquency_findings_def split: if_splits)
  have "breaches b ''delinquency'' cu"
    using g need n assms(1) by (cases breached) (auto simp: breaches_def threshold_def pget_def split: option.splits)
  then show ?thesis using cu need(3) by (auto simp: check_command_def intro!: rests_onI)
qed

lemma validator_findings_parts:
  assumes "validator_findings tx ss b c = (Inr fs, c')"
  obtains p f1 f2 f3 f4 where "thresholds b = Inr p" "host_findings tx p ss = Inr f1" "catchup_findings tx p ss c = (Inr f2, c')"
    "balance_findings tx p ss = Inr f3" "version_findings tx b ss = Inr f4" "fs = f1 @ f2 @ f3 @ f4"
proof -
  from assms obtain p f1 where p: "rbind (thresholds b) (\<lambda>p. rbind (host_findings tx p ss) (\<lambda>fs. Inr (p, fs))) = Inr (p, f1)"
    unfolding validator_findings_def by (auto simp del: rbind_Inr split: sum.splits)
  then have "thresholds b = Inr p" "host_findings tx p ss = Inr f1" by auto
  moreover from assms obtain f2 c2 where c: "catchup_findings tx p ss c = (Inr f2, c2)"
    unfolding validator_findings_def p sum.case prod.case
    by (cases "catchup_findings tx p ss c"; cases "fst (catchup_findings tx p ss c)") auto
  moreover from assms obtain f3 f4 where "balance_findings tx p ss = Inr f3" "version_findings tx b ss = Inr f4" "fs = f1 @ f2 @ f3 @ f4" "c' = c2"
    unfolding validator_findings_def p sum.case prod.case c by auto
  ultimately show ?thesis using that by blast
qed

lemma validator_findings_rest:
  assumes "validator_findings tx ss b c = (Inr fs, c')" "f \<in> set fs"
  shows "rests_on b ss f"
proof (rule validator_findings_parts [OF assms(1)])
  fix p f1 f2 f3 f4
  assume h: "thresholds b = Inr p" "host_findings tx p ss = Inr f1" "catchup_findings tx p ss c = (Inr f2, c')"
    "balance_findings tx p ss = Inr f3" "version_findings tx b ss = Inr f4" "fs = f1 @ f2 @ f3 @ f4"
  consider "f \<in> set f1" | "f \<in> set f2" | "f \<in> set f3" | "f \<in> set f4" using assms(2) h(6) by auto
  then show "rests_on b ss f"
  proof cases
    case 1
    then show ?thesis by (rule host_rests [OF h(1, 2)])
  next
    case 2
    then show ?thesis by (rule catchup_rests [OF h(1, 3)])
  next
    case 3
    then show ?thesis by (rule balance_rests [OF h(1, 4)])
  next
    case 4
    then show ?thesis by (rule version_rests [OF h(5)])
  qed
qed

lemma telemetry_findings_cls:
  assumes "telemetry_findings tx te pr b age = Inr fs" "f \<in> set fs"
  shows "fi_cls f = ''telemetry_health''"
proof -
  have st: "stale_finding tx l per = Inr gs \<Longrightarrow> g \<in> set gs \<Longrightarrow> fi_cls g = ''telemetry_health''" for l per gs g
    by (induction tx l per rule: stale_finding.induct) (auto simp: telemetry_finding_def split: if_splits)
  have er: "error_finding tx tc per = Inr gs \<Longrightarrow> g \<in> set gs \<Longrightarrow> fi_cls g = ''telemetry_health''" for tc per gs g
    by (induction tx tc per rule: error_finding.induct) (auto simp: telemetry_finding_def split: if_splits)
  have sl: "slow_findings tx tc pr = Inr gs \<Longrightarrow> g \<in> set gs \<Longrightarrow> fi_cls g = ''telemetry_health''" for tc gs g
    by (auto simp: slow_findings_def Let_def telemetry_finding_def split: option.splits if_splits)
  have br: "breaker_findings tx te pr = Inr gs \<Longrightarrow> g \<in> set gs \<Longrightarrow> fi_cls g = ''telemetry_health''" for gs g
    by (auto simp: breaker_findings_def telemetry_finding_def split: if_splits)
  have wt: "watchtower_findings l age = Inr gs \<Longrightarrow> g \<in> set gs \<Longrightarrow> fi_cls g = ''telemetry_health''" for l gs g
    by (auto simp: watchtower_findings_def telemetry_finding_def split: option.splits if_splits)
  from assms show ?thesis
    unfolding telemetry_findings_def
    by (auto simp: telemetry_finding_def dest: st er sl br wt split: if_splits)
qed

section \<open>Every episode opened in a round\<close>

definition parsed_evidence :: "(sreq, sresp) trace \<Rightarrow> policy_bundle \<Rightarrow> string \<Rightarrow> bool" where
  "parsed_evidence h b chk = (\<exists>s d. answered h (check_command chk) s \<and> ok_sample (JObj s) = Inr (Some d) \<and> breaches b chk d)"

lemma parsed_evidence_append [simp, intro]: "parsed_evidence h b chk \<Longrightarrow> parsed_evidence (h @ t) b chk"
  unfolding parsed_evidence_def by (blast intro: answered_append)

definition loaded :: "(sreq, sresp) trace \<Rightarrow> policy_bundle \<Rightarrow> bool" where
  "loaded h b = (\<exists>bid. (S_load bid, Inr (S_bundle b)) \<in> set h)"

lemma loaded_append [simp, intro]: "loaded h b \<Longrightarrow> loaded (h @ t) b"
  by (auto simp: loaded_def)

definition check_of :: "params \<Rightarrow> string" where
  "check_of p = str_of (pget (case pget p ''trigger'' of JObj tr \<Rightarrow> tr | _ \<Rightarrow> []) ''check'')"

definition opens_ok :: "(sreq, sresp) trace \<Rightarrow> params \<Rightarrow> bool" where
  "opens_ok h p =
     (pget p ''class'' = JStr ''validator_health'' \<longrightarrow>
        (\<exists>b. loaded h b \<and> pget p ''bundle_id'' = JStr (bn_id b) \<and> parsed_evidence h b (check_of p) \<and>
             (\<forall>m. pget p ''consensus_mode'' = JStr m \<longrightarrow> m \<noteq> ''unknown'' \<longrightarrow> mode_evidence h b m)))"

abbreviation sound_open :: "(sreq, sresp) trace \<Rightarrow> bool" where
  "sound_open h \<equiv> sound (justified opens_ok) h"

lemma open_params_parts [simp]:
  "pget (open_params sn f b vid mode ev u) ''class'' = JStr (fi_cls f)"
  "pget (open_params sn f b vid mode ev u) ''consensus_mode'' = mode"
  "pget (open_params sn f b vid mode ev u) ''bundle_id'' = JStr (bn_id b)" "check_of (open_params sn f b vid mode ev u) = fi_check f"
  by (simp_all add: open_params_def pget_def check_of_def)

lemma rests_on_evidence: "rests_on b ss f \<Longrightarrow> samples_ok h ss \<Longrightarrow> parsed_evidence h b (fi_check f)"
proof -
  assume a: "rests_on b ss f" "samples_ok h ss"
  define cid where "cid = check_command (fi_check f)"
  obtain d where c: "ok_sample (pget ss cid) = Inr (Some d)" "breaches b (fi_check f) d" using a(1) by (auto simp: rests_on_def cid_def)
  then have "map_of ss cid = Some (pget ss cid)" by (auto simp: pget_def ok_sample_def split: option.splits)
  then have "sampled h cid (pget ss cid)" using a(2) by (simp add: samples_ok_def)
  then show ?thesis using c unfolding parsed_evidence_def cid_def by (blast elim: parsed_sample_answered)
qed

lemma wp_open_finding:
  assumes "sound_open h" "samples_ok h ss" "loaded h b" "fi_cls f = ''validator_health'' \<longrightarrow> parsed_evidence h b (fi_check f)"
  shows "wp (open_finding sn b ss te f) (\<lambda>_ h'. sound_open h' \<and> (\<exists>t. h' = h @ t)) h"
  unfolding open_finding_def wp_pbind
proof (rule wp_no_open [OF _ assms(1)])
  fix r t
  assume t: "sound_open (h @ t)" "runs (mode_for f b ss) t r"
  show "case r of Inl e \<Rightarrow> sound_open (h @ t) \<and> (\<exists>ta. h @ t = h @ ta)
    | Inr x \<Rightarrow> wp (case x of (mode, evidence) \<Rightarrow>
        pbind (lift (rbind (deployment b) (\<lambda>d. getitem (JObj d) ''validator_id''))) (\<lambda>vid.
        pbind (ask S_uuid s_text) (\<lambda>u.
        pbind (attempt (ask (S_open (open_params sn f b vid mode evidence u)) s_dict)) (\<lambda>r.
        case r of
          Inl e \<Rightarrow> if is_rpc e then Ret None else Raise e
        | Inr res \<Rightarrow> pbind (after_open sn f ss te mode evidence res) (\<lambda>_. Ret (Some res))))))
        (\<lambda>_ h'. sound_open h' \<and> (\<exists>t. h' = h @ t)) (h @ t)"
  proof (cases r)
    case (Inr x)
    obtain mode ev where x: "x = (mode, ev)" by (cases x)
    have ok: "opens_ok (h @ t @ t') (open_params sn f b vid mode ev u)" for t' vid u
      using assms(2-4) t(2) mode_for_runs [of f b ss t _ ev h] mode_evidence_append [of "h @ t" b]
      by (auto simp: opens_ok_def Inr x intro!: exI [of _ b])
    have "every (\<lambda>q. \<forall>t'. justified opens_ok ((h @ t) @ t') q) (after_open sn f ss te m e res)" for m e res
      by (rule every_mono [OF every_no_open_after]) (simp add: no_open_justified)
    with ok show ?thesis
      unfolding Inr x sum.case prod.case
      by (intro wp_sound_from [OF _ t(1)] every_intros) (auto simp: no_open_justified intro!: every_intros split: sum.splits)
  qed (use t in auto)
qed simp

lemma wp_open_findings:
  assumes "\<And>f. f \<in> set fs \<Longrightarrow> fi_cls f = ''validator_health'' \<Longrightarrow> parsed_evidence h b (fi_check f)" "loaded h b" "sound_open h" "samples_ok h ss"
  shows "wp (open_findings sn b ss te fs) (\<lambda>_ h'. sound_open h' \<and> (\<exists>t. h' = h @ t)) h"
  using assms
proof (induction fs arbitrary: h)
  case (Cons f fs)
  have "wp (open_finding sn b ss te f) (\<lambda>_ h'. sound_open h' \<and> (\<exists>t. h' = h @ t)) h"
    using Cons.prems by (intro wp_open_finding) auto
  then show ?case
    unfolding open_findings.simps wp_pbind
  proof (rule wp_mono)
    fix r h'
    assume h': "sound_open h' \<and> (\<exists>t. h' = h @ t)"
    then obtain t where t: "h' = h @ t" by blast
    have "wp (open_findings sn b ss te fs) (\<lambda>_ h''. sound_open h'' \<and> (\<exists>t. h'' = h' @ t)) h'"
      using h' Cons.prems by (intro Cons.IH) (auto simp: t)
    then have "wp (open_findings sn b ss te fs) (\<lambda>_ h''. sound_open h'' \<and> (\<exists>t. h'' = h @ t)) h'"
      by (rule wp_mono) (auto simp: t)
    then show "case r of Inl e \<Rightarrow> sound_open h' \<and> (\<exists>t. h' = h @ t)
      | Inr x \<Rightarrow> wp (open_findings sn b ss te fs) (\<lambda>r h'. case r of Inl e \<Rightarrow> sound_open h' \<and> (\<exists>t. h' = h @ t)
          | Inr xa \<Rightarrow> wp (Ret (x # xa)) (\<lambda>_ h'. sound_open h' \<and> (\<exists>t. h' = h @ t)) h') h'"
      using h' by (auto split: sum.splits elim: wp_mono)
  qed
qed auto

lemma findings_now_runs:
  assumes "runs (findings_now sn b ss pr te) t (Inr fs)" "f \<in> set fs" "fi_cls f = ''validator_health''"
  shows "rests_on b ss f"
proof -
  from assms(1) obtain c t' where c: "runs (let (r, c') = validator_findings (sn_txt sn) ss b c in
     pbind (ask (S_counter_set c') s_unit) (\<lambda>_.
     pbind (lift r) (\<lambda>f1.
     pbind (watchtower_age sn) (\<lambda>age.
     pbind (lift (telemetry_findings (sn_txt sn) te pr b age)) (\<lambda>f2. Ret (f1 @ f2)))))) t' (Inr fs)"
    unfolding findings_now_def runs_pbind [of "ask S_counter_get s_counter"] by blast
  obtain r c' where v: "validator_findings (sn_txt sn) ss b c = (r, c')" by (cases "validator_findings (sn_txt sn) ss b c")
  from c obtain f1 f2 age where "r = Inr f1" "Inr f2 = telemetry_findings (sn_txt sn) te pr b age" "fs = f1 @ f2"
    by (auto simp: v runs_pbind)
  with v have "validator_findings (sn_txt sn) ss b c = (Inr f1, c')" "telemetry_findings (sn_txt sn) te pr b age = Inr f2" "fs = f1 @ f2"
    by simp_all
  then show ?thesis using assms(2, 3) telemetry_findings_cls [of "sn_txt sn" te pr b age f2 f]
    by (auto intro: validator_findings_rest)
qed

lemma wp_act_on:
  assumes "\<And>f. f \<in> set fs \<Longrightarrow> fi_cls f = ''validator_health'' \<Longrightarrow> parsed_evidence h b (fi_check f)" "loaded h b" "sound_open h" "samples_ok h ss"
  shows "wp (act_on sn b ss pr te fs) (\<lambda>_. sound_open) h"
  unfolding act_on_def wp_pbind
proof (rule wp_mono [OF wp_open_findings [OF assms]])
  fix r h'
  assume "sound_open h' \<and> (\<exists>t. h' = h @ t)"
  then have "wp (pbind (annotate_stale sn te b) (\<lambda>_.
     pbind (ask (S_audit [(''findings'', JArr (map (JStr \<circ> fi_check) fs)), (''reachable'', pget pr ''reachable'')]) s_unit) (\<lambda>_.
       Ret ys))) (\<lambda>_. sound_open) h'" for ys
    by (intro wp_no_open every_intros) auto
  then show "case r of Inl e \<Rightarrow> sound_open h'
    | Inr x \<Rightarrow> wp (annotate_stale sn te b) (\<lambda>r h'. case r of Inl e \<Rightarrow> sound_open h'
        | Inr xa \<Rightarrow> wp (ask (S_audit [(''findings'', JArr (map (JStr \<circ> fi_check) fs)), (''reachable'', pget pr ''reachable'')]) s_unit)
            (\<lambda>r h'. case r of Inl e \<Rightarrow> sound_open h' | Inr xa \<Rightarrow> wp (Ret [d. Some d \<leftarrow> x, d \<noteq> []]) (\<lambda>_. sound_open) h') h') h'"
    using \<open>sound_open h' \<and> _\<close> by (cases r) (simp_all only: wp_pbind sum.case)
qed

lemma wp_then:
  assumes "every no_open p" "sound_open h" "\<And>x t. sound_open (h @ t) \<Longrightarrow> runs p t (Inr x) \<Longrightarrow> wp (f x) (\<lambda>_. sound_open) (h @ t)"
  shows "wp (pbind p f) (\<lambda>_. sound_open) h"
  unfolding wp_pbind
proof (rule wp_no_open [OF assms(1, 2)])
  fix r t
  assume "sound_open (h @ t)" "runs p t r"
  then show "case r of Inl e \<Rightarrow> sound_open (h @ t) | Inr x \<Rightarrow> wp (f x) (\<lambda>_. sound_open) (h @ t)"
    by (cases r) (simp_all add: assms(3))
qed

lemma wp_findings:
  assumes "sound_open h" "samples_ok h ss" "loaded h b"
  shows "wp (pbind (findings_now sn b ss pr te) (\<lambda>fs. act_on sn b ss pr te fs)) (\<lambda>_. sound_open) h"
proof (rule wp_then [OF _ assms(1)])
  fix fs t
  assume t: "sound_open (h @ t)" "runs (findings_now sn b ss pr te) t (Inr fs)"
  have "parsed_evidence (h @ t) b (fi_check f)" if "f \<in> set fs" "fi_cls f = ''validator_health''" for f
    using rests_on_evidence [OF findings_now_runs [OF t(2) that]] assms(2) by auto
  then show "wp (act_on sn b ss pr te fs) (\<lambda>_. sound_open) (h @ t)" using t(1) assms(2, 3) by (auto intro!: wp_act_on)
qed simp

lemma wp_sampled:
  assumes "sound_open h" "loaded h b"
  shows "wp (pbind (if c then take_samples VALIDATOR_SAMPLES else Ret []) (\<lambda>ss.
      pbind telemetry_now (\<lambda>te. pbind (findings_now sn b ss pr te) (\<lambda>fs. act_on sn b ss pr te fs)))) (\<lambda>_. sound_open) h"
proof (rule wp_then [OF _ assms(1)])
  fix ss t
  assume t: "sound_open (h @ t)" "runs (if c then take_samples VALIDATOR_SAMPLES else Ret []) t (Inr ss)"
  then have "samples_ok (h @ t) ss" by (auto simp: samples_ok_def intro: take_samples_runs [unfolded samples_ok_def, rule_format] split: if_splits)
  with t(1) assms(2) show "wp (pbind telemetry_now (\<lambda>te. pbind (findings_now sn b ss pr te) (\<lambda>fs. act_on sn b ss pr te fs))) (\<lambda>_. sound_open) (h @ t)"
    by (auto simp del: wp_pbind intro!: wp_then wp_findings)
qed simp

lemma load_runs: "runs (ask (S_load bid) s_bundle) t (Inr b) \<Longrightarrow> loaded ((h @ t) @ t') b"
  unfolding runs_ask_Inr loaded_def by (auto elim!: s_bundle.elims)

lemma wp_sentinel_tick: "wp (sentinel_tick sn) (\<lambda>_. sound_open) []"
  unfolding sentinel_tick_def
proof (rule wp_then)
  fix active t
  assume t: "sound_open ([] @ t)"
  show "wp (case active of None \<Rightarrow> Ret [] | Some bid \<Rightarrow>
         if bid = [] then Ret []
         else
           pbind (ask (S_load bid) s_bundle) (\<lambda>b.
           pbind probe_now (\<lambda>probe.
           pbind (if truthy (pget probe ''reachable'') then take_samples VALIDATOR_SAMPLES else Ret []) (\<lambda>samples.
           pbind telemetry_now (\<lambda>telemetry.
           pbind (findings_now sn b samples probe telemetry) (\<lambda>fs.
             act_on sn b samples probe telemetry fs)))))) (\<lambda>_. sound_open) ([] @ t)"
    using t by (cases active) (auto simp del: wp_pbind intro!: wp_then [of "ask _ _"] wp_then [of probe_now] wp_sampled load_runs)
qed simp_all

lemma opened_is_justified:
  assumes "runs (sentinel_tick sn) tr res" "tr = t1 @ (S_open p, r) # t2"
  shows "opens_ok t1 p"
  using wp_runsD [OF wp_sentinel_tick assms(1)] sound_split [of "justified opens_ok" t1 "S_open p" r t2] assms(2) by simp

text \<open>C29: missing data opens no validator-health episode. In every run of a round of the sentinel, whatever the
observer, the clock and the other processes answer, an episode of class \<^verbatim>\<open>validator_health\<close> is
opened only after the sample that its check reads was answered with status \<^verbatim>\<open>ok\<close> and parsed, and the values in it
breach the limit of the bundle that the round loaded and the episode is bound to.\<close>

theorem validator_episode_rests_on_sample:
  assumes "runs (sentinel_tick sn) tr res" "tr = t1 @ (S_open p, r) # t2" "pget p ''class'' = JStr ''validator_health''"
  shows "\<exists>b s d. loaded t1 b \<and> pget p ''bundle_id'' = JStr (bn_id b) \<and> answered t1 (check_command (check_of p)) s \<and>
    ok_sample (JObj s) = Inr (Some d) \<and> breaches b (check_of p) d"
  using opened_is_justified [OF assms(1, 2)] assms(3) unfolding opens_ok_def parsed_evidence_def by blast

text \<open>C30: the consensus mode is named only when every input agrees. An episode of class \<^verbatim>\<open>validator_health\<close>
is opened with a mode other than \<^verbatim>\<open>unknown\<close> only if the bundle that the round loaded declares that mode, after the
cluster feature state was answered with status \<^verbatim>\<open>ok\<close> and that mode, the state files were answered
and show the files of that mode and not of the other, and the running version was answered with a
version that the bundle's table supports for that mode alone.\<close>

theorem consensus_mode_needs_agreement:
  assumes "runs (sentinel_tick sn) tr res" "tr = t1 @ (S_open p, r) # t2" "pget p ''class'' = JStr ''validator_health''"
    and "pget p ''consensus_mode'' = JStr m" "m \<noteq> ''unknown''"
  shows "\<exists>b. loaded t1 b \<and> pget p ''bundle_id'' = JStr (bn_id b) \<and> mode_evidence t1 b m"
  using opened_is_justified [OF assms(1, 2)] assms(3-) unfolding opens_ok_def by blast

section \<open>An example round\<close>

definition ex_policy :: policy_bundle where
  "ex_policy = \<lparr>bn_id = ''b1'', bn_y = (\<lambda>f.
     if f = ''thresholds.yaml'' then Inr (JObj [(''parameters'', JObj [(''P-15'', JInt 3), (''P-01'', JInt 30)])])
     else Inr (JObj [(''expected_version'', JStr ''2.1''), (''validator_id'', JStr ''v''), (''declared_consensus_mode'', JStr ''tower''),
                     (''mode_support'', JObj [(''tower'', JObj [(''min'', JStr ''1.0''), (''max'', JStr ''2.9'')]),
                                              (''alpenglow'', JObj [(''min'', JStr ''3.0'')])])]))\<rparr>"

definition ex_ok :: "params \<Rightarrow> sresp" where
  "ex_ok st = S_dict [(''status'', JStr ''ok''), (''structured'', JObj st)]"

fun ex_samples :: "string \<Rightarrow> sresp result" where
  "ex_samples cid =
     (if cid = ''host_metrics'' then Inr (ex_ok [(''parsed'', JBool True), (''unit_active'', JBool False)])
      else if cid = ''running_version'' then Inr (ex_ok [(''parsed'', JBool True), (''version'', JStr ''2.1'')])
      else if cid = ''cluster_feature_state'' then Inr (ex_ok [(''mode'', JStr ''tower'')])
      else if cid = ''consensus_state_files'' then Inr (ex_ok [(''tower'', JBool True)])
      else Inl (RpcError ''unavailable''))"

fun ex_watch :: "sreq \<Rightarrow> sresp result" where
  "ex_watch S_active = Inr (S_name (Some ''b1''))"
| "ex_watch (S_load _) = Inr (S_bundle ex_policy)"
| "ex_watch S_probe = Inr (S_dict [(''reachable'', JBool True)])"
| "ex_watch (S_sample cid) = ex_samples cid"
| "ex_watch S_telemetry = Inr (S_dict [])"
| "ex_watch S_clock = Inr (S_num 100)"
| "ex_watch S_mtime = Inl (PyError ''FileNotFoundError'')"
| "ex_watch S_uuid = Inr (S_text ''u'')"
| "ex_watch S_counter_get = Inr (S_counter [])"
| "ex_watch (S_open _) = Inr (S_dict [(''episode_id'', JStr ''e1''), (''deduplicated'', JBool True)])"
| "ex_watch _ = Inr S_unit"

definition ex_sentinel :: "bool \<Rightarrow> sentinel" where
  "ex_sentinel hb = \<lparr>sn_txt = str_of, sn_heartbeat = hb\<rparr>"

definition ex_round :: "bool \<Rightarrow> (sreq, sresp) trace \<times> params list result" where
  "ex_round hb = exec (sentinel_tick (ex_sentinel hb)) (\<lambda>_. ex_watch) 0"

definition first_open :: "(sreq, sresp) trace \<Rightarrow> params option" where
  "first_open tr = (case dropWhile (no_open \<circ> fst) tr of (S_open p, _) # _ \<Rightarrow> Some p | _ \<Rightarrow> None)"

lemma ex_round_opens:
  "map_option (\<lambda>p. (pget p ''class'', pget p ''consensus_mode'')) (first_open (fst (ex_round False))) =
     Some (JStr ''validator_health'', JStr ''tower'')"
  by code_simp

lemma ex_round_split:
  obtains t1 p r t2 res where "runs (sentinel_tick (ex_sentinel False)) (t1 @ (S_open p, r) # t2) res"
    "pget p ''class'' = JStr ''validator_health''" "pget p ''consensus_mode'' = JStr ''tower''"
proof -
  obtain tr res where e: "ex_round False = (tr, res)" by (cases "ex_round False")
  then have r: "runs (sentinel_tick (ex_sentinel False)) tr res" by (auto simp: ex_round_def dest: exec_runs)
  obtain p where p: "first_open tr = Some p" "pget p ''class'' = JStr ''validator_health''" "pget p ''consensus_mode'' = JStr ''tower''"
    using ex_round_opens by (auto simp: e)
  then obtain r t2 where "dropWhile (no_open \<circ> fst) tr = (S_open p, r) # t2"
    by (auto simp: first_open_def split: list.splits sreq.splits)
  then have "tr = takeWhile (no_open \<circ> fst) tr @ (S_open p, r) # t2" by (metis takeWhile_dropWhile_id)
  then show ?thesis using that r p(2, 3) by metis
qed

theorem validator_episode_rests_on_sample_witness:
  "\<exists>t1 p r t2 res. runs (sentinel_tick (ex_sentinel False)) (t1 @ (S_open p, r) # t2) res \<and> pget p ''class'' = JStr ''validator_health'' \<and>
     (\<exists>b s d. loaded t1 b \<and> pget p ''bundle_id'' = JStr (bn_id b) \<and> answered t1 (check_command (check_of p)) s \<and>
        ok_sample (JObj s) = Inr (Some d) \<and> breaches b (check_of p) d)"
proof (rule ex_round_split)
  fix t1 p r t2 res
  assume a: "runs (sentinel_tick (ex_sentinel False)) (t1 @ (S_open p, r) # t2) res" "pget p ''class'' = JStr ''validator_health''"
  show ?thesis
    by (intro exI [of _ t1] exI [of _ p] exI [of _ r] exI [of _ t2] exI [of _ res] conjI a validator_episode_rests_on_sample [OF a(1) refl a(2)])
qed

theorem consensus_mode_needs_agreement_witness:
  "\<exists>t1 p r t2 res. runs (sentinel_tick (ex_sentinel False)) (t1 @ (S_open p, r) # t2) res \<and>
     pget p ''consensus_mode'' = JStr ''tower'' \<and> (\<exists>b. loaded t1 b \<and> pget p ''bundle_id'' = JStr (bn_id b) \<and> mode_evidence t1 b ''tower'')"
proof (rule ex_round_split)
  fix t1 p r t2 res
  assume a: "runs (sentinel_tick (ex_sentinel False)) (t1 @ (S_open p, r) # t2) res" "pget p ''class'' = JStr ''validator_health''"
    "pget p ''consensus_mode'' = JStr ''tower''"
  have "\<exists>b. loaded t1 b \<and> pget p ''bundle_id'' = JStr (bn_id b) \<and> mode_evidence t1 b ''tower''" by (rule consensus_mode_needs_agreement [OF a(1) refl a(2, 3)]) simp
  then show ?thesis
    by (intro exI [of _ t1] exI [of _ p] exI [of _ r] exI [of _ t2] exI [of _ res] conjI a)
qed

section \<open>A missing heartbeat file\<close>

lemma missing_heartbeat_raises:
  "telemetry_findings tx te pr b (Some Infinite) = Inr fs \<Longrightarrow> unreachable te pr = Inr True"
  by (auto simp: telemetry_findings_def watchtower_findings_def split: if_splits)

text \<open>The phase of a round in which a request is made.\<close>

fun phase :: "sreq \<Rightarrow> nat" where
  "phase S_probe = 1"
| "phase S_telemetry = 2"
| "phase S_mtime = 3"
| "phase (S_open _) = 4"
| "phase _ = 0"

lemma phase_0 [simp]:
  "every (\<lambda>q. phase q = 0) (sentinel_sample cid)" "every (\<lambda>q. phase q = 0) (take_samples cids)"
  by (induction cids) (auto simp: sentinel_sample_def intro!: every_intros)

lemma phase_probe: "every (\<lambda>q. phase q \<in> {0, 1}) probe_now"
  by (auto simp: probe_now_def intro!: every_intros)

lemma phase_telemetry: "every (\<lambda>q. phase q \<in> {0, 2}) telemetry_now"
  by (auto simp: telemetry_now_def intro!: every_intros)

lemma phase_findings: "every (\<lambda>q. phase q \<in> {0, 3}) (findings_now sn b ss pr te)"
  by (auto simp: findings_now_def watchtower_age_def Let_def intro!: every_intros split: prod.splits)

lemma phase_mode: "every (\<lambda>q. phase q = 0) (mode_for f b ss)"
  by (auto simp: mode_for_def mode_of_def mode_input_def Let_def intro!: every_intros)

lemma phase_after: "every (\<lambda>q. phase q = 0) (after_open sn f ss te m ev res)"
  by (auto simp: after_open_def attach_signal_def unknown_alert_def sentinel_alert_def intro!: every_intros)

lemma phase_act_open: "every (\<lambda>q. phase q \<in> {0, 4}) (open_findings sn b ss te fs)"
proof (induction fs)
  case (Cons f fs)
  have "every (\<lambda>q. phase q \<in> {0, 4}) (open_finding sn b ss te f)"
    unfolding open_finding_def
    by (auto intro!: every_pbind every_mono [OF phase_mode] every_mono [OF phase_after] split: sum.splits prod.splits)
  with Cons show ?case by (auto intro!: every_intros)
qed simp

lemma phase_act: "every (\<lambda>q. phase q \<in> {0, 4}) (act_on sn b ss pr te fs)"
  unfolding act_on_def
  by (intro every_pbind phase_act_open)
    (auto simp: annotate_stale_def annotate_one_def intro!: every_intros split: sum.splits)

lemma in_phase: "runs p t r \<Longrightarrow> every (\<lambda>q. phase q \<in> A) p \<Longrightarrow> (q, x) \<in> set t \<Longrightarrow> phase q \<in> A"
  using every_runs by fastforce

lemma findings_missing_heartbeat:
  assumes "runs (findings_now sn b ss pr te) t (Inr fs)" "(S_mtime, Inl (PyError ''FileNotFoundError'')) \<in> set t"
  shows "unreachable te pr = Inr True"
proof -
  from assms(1) obtain c t1 t' where c: "runs (let (r, c') = validator_findings (sn_txt sn) ss b c in
     pbind (ask (S_counter_set c') s_unit) (\<lambda>_.
     pbind (lift r) (\<lambda>f1.
     pbind (watchtower_age sn) (\<lambda>age.
     pbind (lift (telemetry_findings (sn_txt sn) te pr b age)) (\<lambda>f2. Ret (f1 @ f2)))))) t' (Inr fs)"
    "t = t1 @ t'" "runs (ask S_counter_get s_counter) t1 (Inr c)"
    unfolding findings_now_def runs_pbind [of "ask S_counter_get s_counter"] by blast
  obtain r c' where v: "validator_findings (sn_txt sn) ss b c = (r, c')" by (cases "validator_findings (sn_txt sn) ss b c")
  from c(1) obtain t2 t3 age f2 where w: "t' = t2 @ t3" "runs (ask (S_counter_set c') s_unit) t2 (Inr ())" "runs (watchtower_age sn) t3 (Inr age)"
    "Inr f2 = telemetry_findings (sn_txt sn) te pr b age"
    by (auto simp: v runs_pbind)
  have "(S_mtime, Inl (PyError ''FileNotFoundError'')) \<in> set t3"
    using assms(2) c(2, 3) w(1, 2) by (auto simp: runs_ask)
  then have "age = Some Infinite"
    using w(3) by (auto simp: watchtower_age_def catch_def runs_pbind runs_attempt runs_ask rbind_def [of "Inl _"] split: if_splits)
  then show ?thesis using w(4) missing_heartbeat_raises [of "sn_txt sn" te pr b f2] by simp
qed

definition gave_up :: "(sreq, sresp) trace \<Rightarrow> 'a result \<Rightarrow> bool" where
  "gave_up tr res = ((\<forall>q \<in> fst ` set tr. no_open q) \<and> (\<exists>e. res = Inl e))"

lemma quiet_then:
  assumes "runs (pbind p f) tr res" "every no_open p"
  obtains (stop) "gave_up tr res"
    | (go) x t1 t2 where "tr = t1 @ t2" "runs p t1 (Inr x)" "\<forall>q \<in> fst ` set t1. no_open q" "runs (f x) t2 res"
  using assms(1)
proof (cases rule: pbindE)
  case (err e)
  have "\<forall>q \<in> fst ` set tr. no_open q" using every_runs [OF assms(2) err(2)] by force
  then show ?thesis using stop err(1) by (simp add: gave_up_def)
next
  case (ok x t1 t2)
  have "\<forall>q \<in> fst ` set t1. no_open q" using every_runs [OF assms(2) ok(2)] by force
  then show ?thesis using go [OF ok(1, 2) _ ok(3)] by blast
qed

text \<open>A round that neither gives up before it has its findings nor has no active bundle.\<close>

definition complete_round :: "sentinel \<Rightarrow> (sreq, sresp) trace \<Rightarrow> params list result \<Rightarrow> bool" where
  "complete_round sn tr res =
     (\<exists>b t1 t2 t3 t4 t5 pr ss te fs. tr = t1 @ t2 @ t3 @ t4 @ t5 \<and>
        runs probe_now t1 (Inr pr) \<and> runs (if truthy (pget pr ''reachable'') then take_samples VALIDATOR_SAMPLES else Ret []) t2 (Inr ss) \<and>
        runs telemetry_now t3 (Inr te) \<and> runs (findings_now sn b ss pr te) t4 (Inr fs) \<and> runs (act_on sn b ss pr te fs) t5 res)"

lemma probed_runs:
  assumes "runs (pbind probe_now (\<lambda>probe.
           pbind (if truthy (pget probe ''reachable'') then take_samples VALIDATOR_SAMPLES else Ret []) (\<lambda>samples.
           pbind telemetry_now (\<lambda>telemetry.
           pbind (findings_now sn b samples probe telemetry) (\<lambda>fs.
             act_on sn b samples probe telemetry fs))))) tr res"
  shows "gave_up tr res \<or> complete_round sn tr res"
  using assms every_no_open(3)
proof (cases rule: quiet_then)
  case (go pr t1 u1)
  have "every no_open (if truthy (pget pr ''reachable'') then take_samples VALIDATOR_SAMPLES else Ret [])" by simp
  with go(4) show ?thesis
  proof (cases rule: quiet_then)
    case (go ss t2 u2)
    from go(4) every_no_open(4) show ?thesis
    proof (cases rule: quiet_then)
      case (go te t3 u3)
      from go(4) every_no_open_findings show ?thesis
      proof (cases rule: quiet_then)
        case (go fs t4 t5)
        have "tr = t1 @ t2 @ t3 @ t4 @ t5" using \<open>tr = t1 @ u1\<close> \<open>u1 = t2 @ u2\<close> \<open>u2 = t3 @ u3\<close> \<open>u3 = t4 @ t5\<close> by simp
        with \<open>runs probe_now t1 (Inr pr)\<close> \<open>runs (if _ then _ else _) t2 (Inr ss)\<close> \<open>runs telemetry_now t3 (Inr te)\<close> go(2, 4)
        show ?thesis unfolding complete_round_def by blast
      qed (use go \<open>tr = t1 @ u1\<close> \<open>u1 = t2 @ u2\<close> \<open>\<forall>q \<in> fst ` set t1. no_open q\<close> \<open>\<forall>q \<in> fst ` set t2. no_open q\<close> in \<open>auto simp: gave_up_def\<close>)
    qed (use go \<open>tr = t1 @ u1\<close> \<open>\<forall>q \<in> fst ` set t1. no_open q\<close> in \<open>auto simp: gave_up_def\<close>)
  qed (use go in \<open>auto simp: gave_up_def\<close>)
qed auto

lemma tick_runs:
  assumes "runs (sentinel_tick sn) tr res"
  shows "gave_up tr res \<or> (\<forall>q \<in> fst ` set tr. phase q = 0) \<or>
    (\<exists>t0 t. tr = t0 @ t \<and> (\<forall>q \<in> fst ` set t0. phase q = 0) \<and> complete_round sn t res)"
proof -
  have quiet: "every no_open (ask S_active s_name)" "every no_open (ask (S_load bid) s_bundle)" for bid by simp_all
  show ?thesis
    using assms [unfolded sentinel_tick_def] quiet(1)
  proof (cases rule: quiet_then)
    case (go act t1 u1)
    then have t1: "\<forall>q \<in> fst ` set t1. phase q = 0" by (auto simp: runs_ask)
    show ?thesis
    proof (cases act)
      case None
      then show ?thesis using go t1 by auto
    next
      case (Some bid)
      show ?thesis
      proof (cases "bid = []")
        case True
        then show ?thesis using go t1 Some by auto
      next
        case False
        with go(4) Some have "runs (pbind (ask (S_load bid) s_bundle) (\<lambda>b.
           pbind probe_now (\<lambda>probe.
           pbind (if truthy (pget probe ''reachable'') then take_samples VALIDATOR_SAMPLES else Ret []) (\<lambda>samples.
           pbind telemetry_now (\<lambda>telemetry.
           pbind (findings_now sn b samples probe telemetry) (\<lambda>fs.
             act_on sn b samples probe telemetry fs)))))) u1 res" by simp
        then show ?thesis using quiet(2)
        proof (cases rule: quiet_then)
          case (go b t2 u2)
          then have t2: "\<forall>q \<in> fst ` set t2. phase q = 0" by (auto simp: runs_ask)
          from probed_runs [OF go(4)] show ?thesis
          proof
            assume "complete_round sn u2 res"
            moreover have "tr = (t1 @ t2) @ u2" using \<open>tr = t1 @ u1\<close> go(1) by simp
            ultimately show ?thesis using t1 t2 by (metis Un_iff image_Un set_append)
          qed (use go \<open>tr = t1 @ u1\<close> \<open>\<forall>q \<in> fst ` set t1. no_open q\<close> in \<open>auto simp: gave_up_def\<close>)
        qed (use go in \<open>auto simp: gave_up_def\<close>)
      qed
    qed
  qed auto
qed

lemma catch_dict:
  assumes "runs (catch (ask q s_dict) g) t (Inr d)" "(q, Inr (S_dict p)) \<in> set t" "\<And>e u r. runs (g e) u r \<Longrightarrow> u = []"
  shows "d = p"
proof -
  from assms(1) obtain r t1 t2 where t: "t = t1 @ t2" "runs (ask q s_dict) t1 r" "runs (case r of Inl e \<Rightarrow> g e | Inr x \<Rightarrow> Ret x) t2 (Inr d)"
    by (auto simp: catch_def runs_pbind runs_attempt)
  have "t2 = []" using t(3) assms(3) by (cases r) auto
  then have "r = Inr p" using assms(2) t(1, 2) by (auto simp: runs_ask rbind_def)
  then show ?thesis using t(3) by simp
qed

lemma probe_answer: "runs probe_now t (Inr d) \<Longrightarrow> (S_probe, Inr (S_dict p)) \<in> set t \<Longrightarrow> d = p"
  unfolding probe_now_def by (erule (1) catch_dict) (auto split: if_splits)

lemma telemetry_answer: "runs telemetry_now t (Inr d) \<Longrightarrow> (S_telemetry, Inr (S_dict p)) \<in> set t \<Longrightarrow> d = p"
  unfolding telemetry_now_def by (erule (1) catch_dict) (auto split: if_splits)

text \<open>A missing heartbeat file silences the sentinel. When the watchtower heartbeat file does not exist, its age
is infinite, and the finding that reports it converts that age to an integer, which raises
\<^verbatim>\<open>OverflowError\<close>: in every such round with the observer reachable no episode is opened at all,
whatever the samples show, and the round ends with an exception.\<close>

lemma missing_heartbeat_silences_round:
  assumes "runs (sentinel_tick sn) tr res" "(S_mtime, Inl (PyError ''FileNotFoundError'')) \<in> set tr"
    and "(S_probe, Inr (S_dict p)) \<in> set tr" "truthy (pget p ''reachable'')"
    and "(S_telemetry, Inr (S_dict te)) \<in> set tr" "py_less (pget_default te ''consecutive_unreachable'' (JInt 0)) (JInt 2) = Inr True"
  shows "(\<exists>e. res = Inl e) \<and> S_open ps \<notin> fst ` set tr"
proof -
  have never: "\<not> complete_round sn t res" if t0: "tr = t0 @ t" "\<forall>q \<in> fst ` set t0. phase q = 0" for t0 t
  proof
    assume "complete_round sn t res"
    then obtain b t1 t2 t3 t4 t5 pr ss te' fs where t: "t = t1 @ t2 @ t3 @ t4 @ t5" "runs probe_now t1 (Inr pr)"
        "runs (if truthy (pget pr ''reachable'') then take_samples VALIDATOR_SAMPLES else Ret []) t2 (Inr ss)"
        "runs telemetry_now t3 (Inr te')" "runs (findings_now sn b ss pr te') t4 (Inr fs)" "runs (act_on sn b ss pr te' fs) t5 res"
      unfolding complete_round_def by blast
    have "every (\<lambda>q. phase q \<in> {0}) (if c then take_samples VALIDATOR_SAMPLES else Ret [])" for c by simp
    note ph = in_phase [OF t(2) phase_probe] in_phase [OF t(3) this] in_phase [OF t(4) phase_telemetry]
      in_phase [OF t(5) phase_findings] in_phase [OF t(6) phase_act]
    have split: "(q, x) \<in> set t1 \<or> (q, x) \<in> set t3 \<or> (q, x) \<in> set t4" if "(q, x) \<in> set tr" "phase q \<in> {1, 2, 3}" for q x
    proof -
      have "(q, x) \<notin> set t0" "(q, x) \<notin> set t2" "(q, x) \<notin> set t5"
        using that(2) t0(2) ph(2) [of q x] ph(5) [of q x] by (auto dest: bspec [OF _ image_eqI [of _ fst "(q, x)"]])
      with that(1) show ?thesis by (simp add: t0(1) t(1))
    qed
    have "(S_mtime, Inl (PyError ''FileNotFoundError'')) \<in> set t4" "(S_probe, Inr (S_dict p)) \<in> set t1" "(S_telemetry, Inr (S_dict te)) \<in> set t3"
      using split [OF assms(2)] ph(1) [of S_mtime] ph(3) [of S_mtime] split [OF assms(3)] ph(3, 4) [of S_probe]
        split [OF assms(5)] ph(1, 4) [of S_telemetry] by (simp_all, blast+)
    moreover from this have "pr = p" "te' = te"
      using probe_answer [OF t(2)] telemetry_answer [OF t(4)] by blast+
    ultimately have "unreachable te p = Inr True" using findings_missing_heartbeat [OF t(5)] by simp
    moreover have "truthy (pget_default p ''reachable'' (JBool False))"
      using assms(4) by (simp add: pget_default_def pget_def split: option.splits)
    ultimately show False using assms(6) by (simp add: unreachable_def)
  qed
  have "S_mtime \<in> fst ` set tr" by (rule image_eqI [OF _ assms(2)]) simp
  then have active: "\<not> (\<forall>q \<in> fst ` set tr. phase q = 0)" by (metis phase.simps(3) zero_neq_numeral)
  from tick_runs [OF assms(1)] have "gave_up tr res"
  proof (elim disjE exE conjE)
    fix t0 t
    assume "tr = t0 @ t" "\<forall>q \<in> fst ` set t0. phase q = 0" "complete_round sn t res"
    then show ?thesis using never by simp
  qed (use active in simp_all)
  then show ?thesis unfolding gave_up_def by (metis no_open.simps(1))
qed

fun heartbeat_event :: "sreq \<times> sresp result \<Rightarrow> bool" where
  "heartbeat_event (S_mtime, Inl (PyError e)) = (e = ''FileNotFoundError'')"
| "heartbeat_event _ = False"

fun probe_event :: "sreq \<times> sresp result \<Rightarrow> bool" where
  "probe_event (S_probe, Inr (S_dict d)) = (d = [(''reachable'', JBool True)])"
| "probe_event _ = False"

fun telemetry_event :: "sreq \<times> sresp result \<Rightarrow> bool" where
  "telemetry_event (S_telemetry, Inr (S_dict d)) = (d = [])"
| "telemetry_event _ = False"

lemma ex_round_events:
  "let tr = fst (ex_round True) in list_ex heartbeat_event tr \<and> list_ex probe_event tr \<and> list_ex telemetry_event tr"
  by code_simp

lemma ex_round_heartbeat:
  "(S_mtime, Inl (PyError ''FileNotFoundError'')) \<in> set (fst (ex_round True))"
  "(S_probe, Inr (S_dict [(''reachable'', JBool True)])) \<in> set (fst (ex_round True))"
  "(S_telemetry, Inr (S_dict [])) \<in> set (fst (ex_round True))"
  using ex_round_events unfolding Let_def list_ex_iff
  by (auto elim!: heartbeat_event.elims(2) probe_event.elims(2) telemetry_event.elims(2))

end
