(* ===== verification/Verifier.thy ===== *)
theory Verifier
  imports Sentinel_Checks Prog Store
begin

text \<open>
  \<^verbatim>\<open>valops/verifier/verifier.py\<close>: recovery confirmation as a program over the verifier's calls on the store, the
  observer and report brokers, the bundle registry and the clock. The streak counters and the two sets of
  episodes are fields of the object; their uses are requests, answered by \<open>counts_ok\<close> below the way the
  dictionary does. Sample ids are texts, and the structured part of a sample is a dictionary or empty.
\<close>

section \<open>Requests\<close>

datatype vreq =
    V_list
  | V_load string
  | V_rules string
  | V_probe
  | V_telemetry
  | V_sample string
  | V_now
  | V_uuid
  | V_count string jv bool \<comment> \<open>episode, rule, held\<close>
  | V_read string
  | V_verification string jv "params list" string
  | V_set_state string string nat string
  | V_recovery string jv string string
  | V_alert string string string string
  | V_escalated string
  | V_mark_escalated string
  | V_recovered string
  | V_mark_recovered string

datatype vresp =
    V_unit
  | V_eps "episode_summary list"
  | V_bundle policy_bundle
  | V_docs "jv list"
  | V_dict params
  | V_num rat
  | V_int int
  | V_text string
  | V_record erec
  | V_bool bool

fun v_unit :: "vresp \<Rightarrow> unit option" where "v_unit _ = Some ()"
fun v_eps :: "vresp \<Rightarrow> episode_summary list option" where "v_eps (V_eps x) = Some x" | "v_eps _ = None"
fun v_bundle :: "vresp \<Rightarrow> policy_bundle option" where "v_bundle (V_bundle x) = Some x" | "v_bundle _ = None"
fun v_docs :: "vresp \<Rightarrow> jv list option" where "v_docs (V_docs x) = Some x" | "v_docs _ = None"
fun v_dict :: "vresp \<Rightarrow> params option" where "v_dict (V_dict x) = Some x" | "v_dict _ = None"
fun v_num :: "vresp \<Rightarrow> rat option" where "v_num (V_num x) = Some x" | "v_num _ = None"
fun v_int :: "vresp \<Rightarrow> int option" where "v_int (V_int x) = Some x" | "v_int _ = None"
fun v_text :: "vresp \<Rightarrow> string option" where "v_text (V_text x) = Some x" | "v_text _ = None"
fun v_record :: "vresp \<Rightarrow> erec option" where "v_record (V_record x) = Some x" | "v_record _ = None"
fun v_bool :: "vresp \<Rightarrow> bool option" where "v_bool (V_bool x) = Some x" | "v_bool _ = None"

type_synonym 'a verifying = "(vreq, vresp, 'a) prog"

section \<open>Streaks\<close>

definition streak_update :: "(string \<times> jv \<Rightarrow> int) \<Rightarrow> string \<times> jv \<Rightarrow> bool \<Rightarrow> string \<times> jv \<Rightarrow> int" where
  "streak_update st key held = st(key := (if held then st key + 1 else 0))"

text \<open>The answers of a history that the dictionary of streaks, with that content at its start, gives.\<close>

fun counts_ok :: "(string \<times> jv \<Rightarrow> int) \<Rightarrow> (vreq, vresp) trace \<Rightarrow> bool" where
  "counts_ok st [] = True"
| "counts_ok st ((V_count e k held, r) # tr) =
     ((case r of Inr (V_int n) \<Rightarrow> n = streak_update st (e, k) held (e, k) | _ \<Rightarrow> False) \<and> counts_ok (streak_update st (e, k) held) tr)"
| "counts_ok st (_ # tr) = counts_ok st tr"

section \<open>Sampling\<close>

definition param_of :: "policy_bundle \<Rightarrow> param_fn" where
  "param_of b pid key =
     (case pid of
        JStr p \<Rightarrow>
          (case key of
             JNull \<Rightarrow> param b p None None
           | JStr k \<Rightarrow> param b p (Some k) None
           | _ \<Rightarrow> Inl (PyError ''KeyError''))
      | _ \<Rightarrow> Inl (PyError ''KeyError''))"

definition telemetry_sample :: "params \<Rightarrow> params \<Rightarrow> params result" where
  "telemetry_sample tel probe =
     rbind (as_dict_or_empty (py_or (pget tel ''breaker'') (pget probe ''breaker''))) (\<lambda>br.
       Inr (dict_set (dict_set (dict_set tel ''probe_reachable'' (JBool (truthy (pget probe ''reachable''))))
         ''probe_latency_ms'' (pget probe ''latency_ms'')) ''breaker_open'' (JBool (truthy (pget br ''open'')))))"

text \<open>One sample of a rule: the dictionary, or nothing when it is missing or stale.\<close>

definition sample_telemetry :: "params option verifying" where
  "sample_telemetry =
     swallow_rpc
       (pbind (ask V_probe v_dict) (\<lambda>probe.
        pbind (ask V_telemetry v_dict) (\<lambda>tel.
        pbind (lift (telemetry_sample tel probe)) (\<lambda>d. Ret (Some d))))) None"

definition structured_of :: "params \<Rightarrow> params result" where
  "structured_of r =
     (let x = pget r ''structured'' in
      if \<not> truthy x then Inr [] else case x of JObj d \<Rightarrow> Inr d | _ \<Rightarrow> Inl TypeError)"

definition sample_command :: "string \<Rightarrow> rat \<Rightarrow> params option verifying" where
  "sample_command cid max_age =
     pbind (attempt (ask (V_sample cid) v_dict)) (\<lambda>a.
     case a of
       Inl e \<Rightarrow> if is_rpc e then Ret None else Raise e
     | Inr r \<Rightarrow>
         if pget r ''status'' \<noteq> JStr ''ok'' then Ret None
         else
           pbind (ask V_now v_num) (\<lambda>t.
           pbind (lift (py_float (py_or (pget r ''collected_at'') (JInt 0)))) (\<lambda>c.
           if t - c > max_age then Ret None
           else pbind (lift (structured_of r)) (\<lambda>d. Ret (Some d)))))"

fun collect_samples :: "string list \<Rightarrow> rat \<Rightarrow> params \<Rightarrow> bool \<Rightarrow> (params \<times> bool) verifying" where
  "collect_samples [] max_age out fresh = Ret (out, fresh)"
| "collect_samples (cid # cids) max_age out fresh =
     pbind (if cid = ''telemetry'' then sample_telemetry else sample_command cid max_age) (\<lambda>s.
     case s of
       None \<Rightarrow> collect_samples cids max_age out False
     | Some d \<Rightarrow> collect_samples cids max_age (dict_set out cid (JObj d)) fresh)"

definition with_expected :: "policy_bundle \<Rightarrow> params \<Rightarrow> params result" where
  "with_expected b out =
     (case map_of out ''running_version'' of
        Some (JObj rv) \<Rightarrow>
          rbind (deployment b) (\<lambda>dep.
            Inr (dict_set out ''running_version''
              (JObj (dict_set rv ''version_matches_expected'' (JBool (py_eq (pget rv ''version'') (pget dep ''expected_version'')))))))
      | _ \<Rightarrow> Inr out)"

definition verifier_sample :: "string list \<Rightarrow> rat \<Rightarrow> policy_bundle \<Rightarrow> (params \<times> bool) verifying" where
  "verifier_sample cids max_age b =
     pbind (collect_samples cids max_age [] True) (\<lambda>(out, fresh).
     pbind (lift (with_expected b out)) (\<lambda>out'. Ret (out', fresh)))"

section \<open>Rules of an episode\<close>

definition episode_check :: "episode_summary \<Rightarrow> jv result" where
  "episode_check ep = (case es_trigger ep of None \<Rightarrow> Inl TypeError | Some tr \<Rightarrow> getitem (JObj tr) ''check'')"

definition rule_applies :: "episode_summary \<Rightarrow> jv \<Rightarrow> bool result" where
  "rule_applies ep r =
     rbind (getitem r ''applies_to'') (\<lambda>ap.
     rbind (getitem ap ''class'') (\<lambda>c.
     if \<not> py_eq c (case es_class ep of None \<Rightarrow> JNull | Some x \<Rightarrow> JStr x) then Inr False
     else
       rbind (episode_check ep) (\<lambda>chk.
       rbind (as_dict ap) (\<lambda>d.
         case py_in chk (pget_default d ''checks'' (JArr [chk])) of None \<Rightarrow> Inl TypeError | Some x \<Rightarrow> Inr x))))"

fun rules_for :: "episode_summary \<Rightarrow> jv list \<Rightarrow> jv list result" where
  "rules_for ep [] = Inr []"
| "rules_for ep (r # rs) =
     rbind (rule_applies ep r) (\<lambda>yes. rbind (rules_for ep rs) (\<lambda>rest. Inr (if yes then r # rest else rest)))"

fun str_list :: "jv list \<Rightarrow> string list result" where
  "str_list [] = Inr []"
| "str_list (x # xs) = rbind (as_str x) (\<lambda>s. rbind (str_list xs) (\<lambda>ss. Inr (s # ss)))"

definition rule_samples :: "jv \<Rightarrow> string list result" where
  "rule_samples r = rbind (getitem r ''samples'') (\<lambda>v. case v of JArr xs \<Rightarrow> str_list xs | _ \<Rightarrow> Inl TypeError)"

section \<open>Resolution and escalation\<close>

record verifier =
  vr_txt :: "jv \<Rightarrow> string" \<comment> \<open>the text of a value in an f-string\<close>

definition resolve_episode :: "verifier \<Rightarrow> string \<Rightarrow> jv \<Rightarrow> params \<Rightarrow> int \<Rightarrow> unit verifying" where
  "resolve_episode v eid rid sample n =
     pbind (ask (V_read eid) v_record) (\<lambda>rec.
     if r_state rec \<noteq> Some ''awaiting_operator'' then Ret ()
     else
       let stale = filter (\<lambda>a. an_kind a = JStr ''stale_signals'') (r_annotations rec) in
       pbind (ask (V_verification eid rid
                [[(''n'', JInt n), (''sample'', JObj sample), (''stale_annotations_seen'', JInt (int (length stale)))]]
                (''verif:'' @ eid @ '':'' @ vr_txt v rid @ '':'' @ nat_str (r_revision rec))) v_unit) (\<lambda>_.
       pbind (ask (V_read eid) v_record) (\<lambda>rec'.
       catch
         (ask (V_set_state eid ''resolved'' (r_revision rec')
                (vr_txt v rid @ '' held for '' @ int_str n @ '' consecutive fresh samples'')) v_unit)
         (\<lambda>e. if e = RpcError ''conflict'' then Ret () else Raise e))))"

definition since_of :: "erec \<Rightarrow> rat option" where
  "since_of rec = map_option sh_ts (find (\<lambda>c. sh_to c = ''awaiting_operator'') (rev (r_state_history rec)))"

definition maybe_escalate :: "episode_summary \<Rightarrow> policy_bundle \<Rightarrow> unit verifying" where
  "maybe_escalate ep b =
     (let eid = es_episode_id ep in
      if es_state ep \<noteq> Some ''awaiting_operator'' then Ret ()
      else
        pbind (ask (V_escalated eid) v_bool) (\<lambda>done.
        if done then Ret ()
        else
          pbind (ask (V_read eid) v_record) (\<lambda>rec.
          pbind (lift (rbind (param b ''P-17'' (Some ''deadline_min'') None) py_float)) (\<lambda>mins.
          case since_of rec of
            None \<Rightarrow> Ret ()
          | Some since \<Rightarrow>
              pbind (ask V_now v_num) (\<lambda>t.
              if t - since > mins * 60
              then swallow_rpc
                     (pbind (ask (V_alert ''high'' eid (''Recovery not confirmed within '' @ int_str \<lfloor>mins\<rfloor> @ '' min'')
                                 (''deadline:'' @ eid)) v_unit) (\<lambda>_. ask (V_mark_escalated eid) v_unit)) ()
              else Ret ())))))"

section \<open>An episode\<close>

definition note_recovery :: "verifier \<Rightarrow> episode_summary \<Rightarrow> jv \<Rightarrow> unit verifying" where
  "note_recovery v ep rid =
     (let eid = es_episode_id ep; off = (es_state ep = Some ''handed_off'') in
      pbind (ask V_uuid v_text) (\<lambda>u.
      pbind (ask (V_recovery eid rid
               (if off then ''observed after hand-off; not reopened'' else ''observed during analysis'')
               (''recov:'' @ eid @ '':'' @ vr_txt v rid @ '':'' @ u)) v_unit) (\<lambda>_.
      if off then ask (V_mark_recovered eid) v_unit else Ret ())))"

text \<open>What follows the evaluation of a rule; the result says whether \<^verbatim>\<open>check_episode\<close> returns.\<close>

definition after_count :: "verifier \<Rightarrow> episode_summary \<Rightarrow> jv \<Rightarrow> params \<Rightarrow> bool \<Rightarrow> int \<Rightarrow> int \<Rightarrow> bool verifying" where
  "after_count v ep rid sample held n w =
     (if \<not> held then Ret False
      else if es_state ep = Some ''awaiting_operator''
      then (if n \<ge> w then pbind (resolve_episode v (es_episode_id ep) rid sample n) (\<lambda>_. Ret True) else Ret False)
      else if n = 1 then pbind (note_recovery v ep rid) (\<lambda>_. Ret False)
      else Ret False)"

definition evaluate_rule :: "policy_bundle \<Rightarrow> jv \<Rightarrow> params \<Rightarrow> bool \<Rightarrow> bool result" where
  "evaluate_rule b rule sample fresh =
     (if \<not> fresh then Inr False else rbind (getitem rule ''predicate'') (evaluate (param_of b) sample))"

definition check_rule :: "verifier \<Rightarrow> episode_summary \<Rightarrow> policy_bundle \<Rightarrow> rat \<Rightarrow> jv \<Rightarrow> bool verifying" where
  "check_rule v ep b max_age rule =
     pbind (lift (getitem rule ''id'')) (\<lambda>rid.
     pbind (lift (rule_samples rule)) (\<lambda>cids.
     pbind (verifier_sample cids max_age b) (\<lambda>(sample, fresh).
     pbind (lift (evaluate_rule b rule sample fresh)) (\<lambda>held.
     pbind (ask (V_count (es_episode_id ep) rid held) v_int) (\<lambda>n.
     pbind (lift (window rule (param_of b))) (\<lambda>w.
       after_count v ep rid sample held n w))))))"

fun check_rules :: "verifier \<Rightarrow> episode_summary \<Rightarrow> policy_bundle \<Rightarrow> rat \<Rightarrow> jv list \<Rightarrow> bool verifying" where
  "check_rules v ep b max_age [] = Ret False"
| "check_rules v ep b max_age (rule # rules) =
     pbind (check_rule v ep b max_age rule) (\<lambda>returned. if returned then Ret True else check_rules v ep b max_age rules)"

definition check_episode :: "verifier \<Rightarrow> episode_summary \<Rightarrow> unit verifying" where
  "check_episode v ep =
     (case es_bundle_id ep of
        None \<Rightarrow> Raise (PyError ''BundleError'')
      | Some bid \<Rightarrow>
          pbind (ask (V_load bid) v_bundle) (\<lambda>b.
          pbind (lift (rbind (thresholds b) stale_after)) (\<lambda>max_age.
          pbind (ask (V_rules bid) v_docs) (\<lambda>docs.
          pbind (lift (rules_for ep docs)) (\<lambda>rules.
          pbind (check_rules v ep b max_age rules) (\<lambda>returned.
            if returned then Ret () else maybe_escalate ep b))))))"

section \<open>A round\<close>

definition visit_episode :: "verifier \<Rightarrow> episode_summary \<Rightarrow> unit verifying" where
  "visit_episode v ep =
     (if es_state ep = Some ''resolved'' then Ret ()
      else
        pbind (if es_state ep = Some ''handed_off'' then ask (V_recovered (es_episode_id ep)) v_bool else Ret False) (\<lambda>skip.
        if skip then Ret () else pbind (attempt (check_episode v ep)) (\<lambda>_. Ret ())))"

definition verifier_tick :: "verifier \<Rightarrow> unit verifying" where
  "verifier_tick v = pbind (ask V_list v_eps) (\<lambda>eps. for_each (visit_episode v) eps)"

definition verifier_round :: "verifier \<Rightarrow> unit verifying" where
  "verifier_round v = swallow_rpc (verifier_tick v) ()"

end
