(* ===== verification/Verifier_Theorems.thy ===== *)
theory Verifier_Theorems
  imports Verifier
begin

text \<open>
  When the verifier resolves an episode: only after as many consecutive held evaluations as the
  rule's window says, each on fresh samples, with the record read as awaiting the operator and the
  verification written first.
\<close>

section \<open>Streaks are runs of held evaluations\<close>

fun evaluation :: "string \<Rightarrow> jv \<Rightarrow> vreq \<times> vresp result \<Rightarrow> bool list" where
  "evaluation e k (V_count e' k' held, r) = (if e' = e \<and> k' = k then [held] else [])"
| "evaluation e k _ = []"

definition evals :: "string \<Rightarrow> jv \<Rightarrow> (vreq, vresp) trace \<Rightarrow> bool list" where
  "evals e k h = concat (map (evaluation e k) h)"

definition held_run :: "bool list \<Rightarrow> int" where
  "held_run bs = int (length (takeWhile id (rev bs)))"

lemma held_run_simps [simp]: "held_run [] = 0" "held_run (bs @ [b]) = (if b then held_run bs + 1 else 0)"
  by (simp_all add: held_run_def)

lemma evals_simps [simp]: "evals e k [] = []" "evals e k (h @ h') = evals e k h @ evals e k h'" "evals e k (x # h) = evaluation e k x @ evals e k h"
  by (simp_all add: evals_def)

fun streaks :: "(string \<times> jv \<Rightarrow> int) \<Rightarrow> (vreq, vresp) trace \<Rightarrow> string \<times> jv \<Rightarrow> int" where
  "streaks st [] = st"
| "streaks st ((V_count e k held, r) # tr) = streaks (streak_update st (e, k) held) tr"
| "streaks st (_ # tr) = streaks st tr"

lemma streaks_append [simp]: "streaks st (h @ h') = streaks (streaks st h) h'"
  by (induction st h rule: streaks.induct) simp_all

lemma counts_ok_append [simp]: "counts_ok st (h @ h') \<longleftrightarrow> counts_ok st h \<and> counts_ok (streaks st h) h'"
  by (induction st h rule: counts_ok.induct) simp_all

lemma streaks_held_run: "streaks (\<lambda>_. 0) h (e, k) = held_run (evals e k h)"
proof (induction h rule: rev_induct)
  case (snoc x h)
  obtain q r where x: "x = (q, r)" by (cases x)
  show ?case using snoc by (cases q) (auto simp: x streak_update_def)
qed simp

lemma count_is_held_run:
  assumes "counts_ok (\<lambda>_. 0) (h @ (V_count e k held, Inr (V_int n)) # h')"
  shows "n = held_run (evals e k (h @ [(V_count e k held, Inr (V_int n))]))"
proof -
  have "n = streaks (\<lambda>_. 0) (h @ [(V_count e k held, Inr (V_int n))]) (e, k)"
    using assms by (simp add: streak_update_def)
  then show ?thesis unfolding streaks_held_run .
qed

section \<open>Fresh samples\<close>

definition fresh_sample :: "(vreq, vresp) trace \<Rightarrow> rat \<Rightarrow> string \<Rightarrow> bool" where
  "fresh_sample h max_age cid =
     (\<exists>r t c. (V_sample cid, Inr (V_dict r)) \<in> set h \<and> pget r ''status'' = JStr ''ok'' \<and> (V_now, Inr (V_num t)) \<in> set h \<and>
        py_float (py_or (pget r ''collected_at'') (JInt 0)) = Inr c \<and> t - c \<le> max_age)"

lemma fresh_sample_mono: "fresh_sample h max_age cid \<Longrightarrow> set h \<subseteq> set h' \<Longrightarrow> fresh_sample h' max_age cid"
  unfolding fresh_sample_def by blast

lemma v_answers [simp]:
  "v_dict y = Some d \<longleftrightarrow> y = V_dict d" "v_num y = Some t \<longleftrightarrow> y = V_num t" "v_record y = Some rec \<longleftrightarrow> y = V_record rec"
  "v_int y = Some n \<longleftrightarrow> y = V_int n"
  by (cases y; simp)+

lemma sample_command_fresh:
  assumes "runs (sample_command cid max_age) t (Inr (Some d))"
  shows "fresh_sample t max_age cid"
proof -
  from assms obtain a t1 u where t: "t = t1 @ u" "runs (ask (V_sample cid) v_dict) t1 a"
    "runs (case a of
       Inl e \<Rightarrow> if is_rpc e then Ret None else Raise e
     | Inr r \<Rightarrow>
         if pget r ''status'' \<noteq> JStr ''ok'' then Ret None
         else
           pbind (ask V_now v_num) (\<lambda>t.
           pbind (lift (py_float (py_or (pget r ''collected_at'') (JInt 0)))) (\<lambda>c.
           if t - c > max_age then Ret None
           else pbind (lift (structured_of r)) (\<lambda>d. Ret (Some d))))) u (Inr (Some d))"
    unfolding sample_command_def runs_pbind [of "attempt _"] runs_attempt by auto
  then obtain r where r: "a = Inr r" by (cases a) (auto split: if_splits)
  with t(3) have ok: "pget r ''status'' = JStr ''ok''" by (auto split: if_splits)
  with t(3) r obtain x c where "u = [(V_now, Inr (V_num x))]" "py_float (py_or (pget r ''collected_at'') (JInt 0)) = Inr c" "\<not> x - c > max_age"
    by (auto simp: runs_pbind runs_ask_Inr split: if_splits dest: sym)
  moreover have "t1 = [(V_sample cid, Inr (V_dict r))]" using t(2) r by (simp add: runs_ask_Inr)
  ultimately show ?thesis using ok t(1) unfolding fresh_sample_def by (intro exI [of _ r] exI [of _ x] exI [of _ c]) simp
qed

lemma collect_samples_keep:
  "runs (collect_samples cids max_age out fresh) t (Inr (out', True)) \<Longrightarrow> fresh"
proof (induction cids arbitrary: out fresh t)
  case (Cons c cids)
  then obtain s t2 where "runs (case s of None \<Rightarrow> collect_samples cids max_age out False
      | Some d \<Rightarrow> collect_samples cids max_age (dict_set out c (JObj d)) fresh) t2 (Inr (out', True))"
    by (auto simp: runs_pbind)
  then show ?case using Cons.IH by (cases s) fastforce+
qed simp

lemma collect_samples_fresh:
  "runs (collect_samples cids max_age out fresh) t (Inr (out', True)) \<Longrightarrow> cid \<in> set cids \<Longrightarrow> cid \<noteq> ''telemetry'' \<Longrightarrow>
    fresh_sample t max_age cid"
proof (induction cids arbitrary: out fresh t)
  case (Cons c cids)
  from Cons.prems(1) obtain s t1 t2 where t: "t = t1 @ t2" "runs (if c = ''telemetry'' then sample_telemetry else sample_command c max_age) t1 (Inr s)"
    "runs (case s of None \<Rightarrow> collect_samples cids max_age out False | Some d \<Rightarrow> collect_samples cids max_age (dict_set out c (JObj d)) fresh) t2 (Inr (out', True))"
    by (auto simp: runs_pbind)
  have "s \<noteq> None" using t(3) collect_samples_keep [of cids max_age out False t2 out'] by (cases s) auto
  then obtain d where s: "s = Some d" by blast
  show ?case
  proof (cases "cid = c")
    case True
    then have "fresh_sample t1 max_age cid" using t(2) s Cons.prems(3) by (auto intro: sample_command_fresh)
    then show ?thesis by (rule fresh_sample_mono) (simp add: t(1))
  next
    case False
    then have "fresh_sample t2 max_age cid" using Cons.IH [of _ _ t2] t(3) s Cons.prems by auto
    then show ?thesis by (rule fresh_sample_mono) (simp add: t(1))
  qed
qed simp

section \<open>What justifies a count and a transition\<close>

text \<open>The rule is one of the bundle the listed episode is bound to, and the staleness limit is that bundle's.\<close>

definition bound_rule :: "(vreq, vresp) trace \<Rightarrow> string \<Rightarrow> jv \<Rightarrow> policy_bundle \<Rightarrow> rat \<Rightarrow> bool" where
  "bound_rule h e rule b max_age =
     (\<exists>eps ep bid docs rules. (V_list, Inr (V_eps eps)) \<in> set h \<and> ep \<in> set eps \<and> es_episode_id ep = e \<and> es_bundle_id ep = Some bid \<and>
        (V_load bid, Inr (V_bundle b)) \<in> set h \<and> (V_rules bid, Inr (V_docs docs)) \<in> set h \<and>
        rules_for ep docs = Inr rules \<and> rule \<in> set rules \<and> rbind (thresholds b) stale_after = Inr max_age)"

lemma bound_rule_mono: "bound_rule h e rule b max_age \<Longrightarrow> set h \<subseteq> set h' \<Longrightarrow> bound_rule h' e rule b max_age"
  unfolding bound_rule_def by blast

definition held_evidence :: "string \<Rightarrow> jv \<Rightarrow> (vreq, vresp) trace \<Rightarrow> bool" where
  "held_evidence e rid h =
     (\<exists>rule b max_age cids sample pred h0 h1. h = h0 @ h1 \<and> bound_rule h e rule b max_age \<and> getitem rule ''id'' = Inr rid \<and> rule_samples rule = Inr cids \<and>
        runs (verifier_sample cids max_age b) h1 (Inr (sample, True)) \<and>
        getitem rule ''predicate'' = Inr pred \<and> evaluate (param_of b) sample pred = Inr True)"

definition resolution_ok :: "string \<Rightarrow> nat \<Rightarrow> (vreq, vresp) trace \<Rightarrow> bool" where
  "resolution_ok e rev_no h =
     (\<exists>rid n w rule b max_age h0 rec smp key r rec'. bound_rule h e rule b max_age \<and>
        h = h0 @ [(V_count e rid True, Inr (V_int n)), (V_read e, Inr (V_record rec)), (V_verification e rid smp key, Inr r),
                  (V_read e, Inr (V_record rec'))] \<and>
        getitem rule ''id'' = Inr rid \<and> window rule (param_of b) = Inr w \<and> w \<le> n \<and>
        r_state rec = Some ''awaiting_operator'' \<and> r_revision rec' = rev_no)"

fun vok :: "(vreq, vresp) trace \<Rightarrow> vreq \<Rightarrow> bool" where
  "vok h (V_count e rid held) = (held \<longrightarrow> held_evidence e rid h)"
| "vok h (V_set_state e s rev_no reason) = (s = ''resolved'' \<and> resolution_ok e rev_no h)"
| "vok h _ = True"

lemma vok_quiet [simp]:
  "every (\<lambda>q. \<forall>h. vok h q) sample_telemetry" "every (\<lambda>q. \<forall>h. vok h q) (sample_command cid max_age)"
  "every (\<lambda>q. \<forall>h. vok h q) (maybe_escalate ep b)" "every (\<lambda>q. \<forall>h. vok h q) (note_recovery v ep rid)"
  by (auto simp: sample_telemetry_def sample_command_def maybe_escalate_def note_recovery_def Let_def
      intro!: every_intros split: sum.splits option.splits)

lemma vok_collect [simp]: "every (\<lambda>q. \<forall>h. vok h q) (collect_samples cids max_age out fresh)"
  by (induction cids arbitrary: out fresh) (auto intro!: every_pbind split: option.splits)

lemma vok_sample [simp]: "every (\<lambda>q. \<forall>h. vok h q) (verifier_sample cids max_age b)"
  by (auto simp: verifier_sample_def intro!: every_pbind)

lemma sound_snoc3 [simp]:
  "sound ok (h @ [x, y, z]) \<longleftrightarrow> sound ok h \<and> ok h (fst x) \<and> ok (h @ [x]) (fst y) \<and> ok (h @ [x, y]) (fst z)"
  using sound_snoc [of ok "h @ [x, y]" z] by simp

lemma sound_snoc4 [simp]:
  "sound ok (h @ [x, y, z, u]) \<longleftrightarrow> sound ok (h @ [x, y, z]) \<and> ok (h @ [x, y, z]) (fst u)"
  using sound_snoc [of ok "h @ [x, y, z]" u] by simp

lemma wp_resolve:
  assumes "sound vok h" "h = h0 @ [(V_count e rid True, Inr (V_int n))]" "getitem rule ''id'' = Inr rid" "window rule (param_of b) = Inr w" "w \<le> n"
    and "bound_rule h e rule b max_age"
  shows "wp (resolve_episode v e rid sample n) (\<lambda>_. sound vok) h"
proof -
  have "resolution_ok e (r_revision rec') (h @ [(V_read e, Inr (V_record rec)), (V_verification e rid smp key, Inr r), (V_read e, Inr (V_record rec'))])"
    if "r_state rec = Some ''awaiting_operator''" for rec smp key r rec'
    unfolding resolution_ok_def using assms(2-5) that
    by (intro exI conjI) (auto intro!: bound_rule_mono [OF assms(6)])
  then show ?thesis
    using assms(1) unfolding resolve_episode_def Let_def
    by (auto simp: split: option.splits)
qed

lemma wp_after_count:
  assumes "sound vok h" "h = h0 @ [(V_count (es_episode_id ep) rid held, Inr (V_int n))]" "getitem rule ''id'' = Inr rid"
    "window rule (param_of b) = Inr w" "bound_rule h (es_episode_id ep) rule b max_age"
  shows "wp (after_count v ep rid sample held n w) (\<lambda>_. sound vok) h"
proof (cases "held \<and> es_state ep = Some ''awaiting_operator'' \<and> w \<le> n")
  case True
  then have "wp (resolve_episode v (es_episode_id ep) rid sample n) (\<lambda>_. sound vok) h" using assms by (intro wp_resolve) auto
  then show ?thesis using True by (auto simp: after_count_def elim!: wp_mono split: sum.splits)
next
  case False
  then have "every (\<lambda>q. \<forall>h. vok h q) (after_count v ep rid sample held n w)"
    by (auto simp: after_count_def intro!: every_pbind)
  then show ?thesis using assms(1) by (rule wp_quiet)
qed

lemma keeps_check_rule:
  assumes "\<And>h. A \<subseteq> set h \<Longrightarrow> bound_rule h (es_episode_id ep) rule b max_age"
  shows "keeps A vok (check_rule v ep b max_age rule)"
  unfolding keeps_def
proof (intro allI impI, elim conjE)
  fix h
  assume s: "sound vok h" and A: "A \<subseteq> set h"
  have bound: "bound_rule (h @ t) (es_episode_id ep) rule b max_age" for t using A by (intro assms) auto
  have count: "wp (pbind (ask (V_count (es_episode_id ep) rid held) v_int) (\<lambda>n.
       pbind (lift (window rule (param_of b))) (\<lambda>w. after_count v ep rid sample held n w))) (\<lambda>_. sound vok) h'"
    if "sound vok h'" "bound_rule h' (es_episode_id ep) rule b max_age" "held \<longrightarrow> held_evidence (es_episode_id ep) rid h'" "getitem rule ''id'' = Inr rid" for h' rid held sample
  proof -
    have ext: "sound vok (h' @ [(V_count (es_episode_id ep) rid held, r)])" for r using that by simp
    note bnd = bound_rule_mono [OF that(2), of "h' @ [_]"]
    have after: "wp (pbind (lift (window rule (param_of b))) (\<lambda>w. after_count v ep rid sample held n w)) (\<lambda>_. sound vok)
        (h' @ [(V_count (es_episode_id ep) rid held, Inr (V_int n))])" for n
      by (cases "window rule (param_of b)") (simp_all add: ext wp_after_count [OF ext refl that(4) _ bnd] subset_eq del: sound_snoc)
    show ?thesis
      unfolding wp_pbind [of "ask _ _"] wp_ask
    proof (intro conjI allI)
      fix x
      show "case case v_int x of None \<Rightarrow> Inl TypeError | Some y \<Rightarrow> Inr y of
          Inl e \<Rightarrow> sound vok (h' @ [(V_count (es_episode_id ep) rid held, Inr x)])
        | Inr n \<Rightarrow> wp (pbind (lift (window rule (param_of b))) (\<lambda>w. after_count v ep rid sample held n w)) (\<lambda>_. sound vok)
            (h' @ [(V_count (es_episode_id ep) rid held, Inr x)])"
        by (cases "v_int x") (simp_all only: option.case sum.case ext v_answers v_int.simps after)
    qed (simp only: sum.case ext)
  qed
  have eval: "wp (pbind (lift (evaluate_rule b rule sample fresh)) (\<lambda>held.
       pbind (ask (V_count (es_episode_id ep) rid held) v_int) (\<lambda>n.
       pbind (lift (window rule (param_of b))) (\<lambda>w. after_count v ep rid sample held n w)))) (\<lambda>_. sound vok) (h @ t)"
    if t: "sound vok (h @ t)" "runs (verifier_sample cids max_age b) t (Inr (sample, fresh))" "getitem rule ''id'' = Inr rid"
      "rule_samples rule = Inr cids" for t sample fresh cids rid
  proof (cases "evaluate_rule b rule sample fresh")
    case (Inr held)
    have ev: "held \<longrightarrow> held_evidence (es_episode_id ep) rid (h @ t)"
    proof
      assume "held"
      then obtain pred where "fresh" "getitem rule ''predicate'' = Inr pred" "evaluate (param_of b) sample pred = Inr True"
        using Inr by (auto simp: evaluate_rule_def split: if_splits)
      then show "held_evidence (es_episode_id ep) rid (h @ t)" unfolding held_evidence_def using t(2-) bound [of t]
        by (intro exI [of _ rule] exI [of _ b] exI [of _ max_age] exI [of _ cids] exI [of _ sample] exI [of _ pred] exI [of _ h] exI [of _ t]) simp
    qed
    show ?thesis unfolding Inr lift.simps pbind.simps by (rule count [OF t(1) bound ev t(3)])
  qed (use t in simp)
  show "wp (check_rule v ep b max_age rule) (\<lambda>_. sound vok) h"
  proof (cases "\<exists>rid cids. getitem rule ''id'' = Inr rid \<and> rule_samples rule = Inr cids")
    case True
    then obtain rid cids where r: "getitem rule ''id'' = Inr rid" "rule_samples rule = Inr cids" by blast
    have "wp (pbind (verifier_sample cids max_age b) (\<lambda>(sample, fresh).
     pbind (lift (evaluate_rule b rule sample fresh)) (\<lambda>held.
     pbind (ask (V_count (es_episode_id ep) rid held) v_int) (\<lambda>n.
     pbind (lift (window rule (param_of b))) (\<lambda>w. after_count v ep rid sample held n w))))) (\<lambda>_. sound vok) h"
      unfolding wp_pbind [of "verifier_sample _ _ _"]
    proof (rule wp_sound_from [OF _ s])
      fix res t
      assume "sound vok (h @ t)" "runs (verifier_sample cids max_age b) t res"
      then show "case res of Inl e \<Rightarrow> sound vok (h @ t)
        | Inr x \<Rightarrow> wp (case x of (sample, fresh) \<Rightarrow>
             pbind (lift (evaluate_rule b rule sample fresh)) (\<lambda>held.
             pbind (ask (V_count (es_episode_id ep) rid held) v_int) (\<lambda>n.
             pbind (lift (window rule (param_of b))) (\<lambda>w. after_count v ep rid sample held n w)))) (\<lambda>_. sound vok) (h @ t)"
        by (cases res) (auto simp del: wp_pbind intro!: eval r)
    qed (rule every_mono [OF vok_sample], blast)
    then show ?thesis by (simp add: check_rule_def r)
  next
    case False
    then show ?thesis using s by (auto simp: check_rule_def split: sum.splits)
  qed
qed

lemma keeps_check_rules:
  "(\<And>h rule. A \<subseteq> set h \<Longrightarrow> rule \<in> set rules \<Longrightarrow> bound_rule h (es_episode_id ep) rule b max_age) \<Longrightarrow>
    keeps A vok (check_rules v ep b max_age rules)"
  by (induction rules) (auto intro!: keeps_pbind keeps_check_rule)

lemma v_answers2 [simp]:
  "v_eps y = Some eps \<longleftrightarrow> y = V_eps eps" "v_bundle y = Some b \<longleftrightarrow> y = V_bundle b" "v_docs y = Some ds \<longleftrightarrow> y = V_docs ds"
  by (cases y; simp)+

lemma keeps_check_episode:
  assumes "(V_list, Inr (V_eps eps)) \<in> A" "ep \<in> set eps"
  shows "keeps A vok (check_episode v ep)"
proof (cases "es_bundle_id ep")
  case (Some bid)
  have rules: "keeps (insert (V_rules bid, Inr (V_docs docs)) (insert (V_load bid, Inr (V_bundle b)) A)) vok (check_rules v ep b max_age rules)"
    if "rbind (thresholds b) stale_after = Inr max_age" "rules_for ep docs = Inr rules" for b max_age docs rules
    by (rule keeps_check_rules, unfold bound_rule_def, rule exI [of _ eps], rule exI [of _ ep]) (use assms Some that in auto)
  show ?thesis unfolding check_episode_def Some option.case
    by (intro keeps_ask keeps_lift) (auto intro!: keeps_pbind rules intro: keeps_quiet)
qed (simp add: check_episode_def)

lemma keeps_visit:
  "(V_list, Inr (V_eps eps)) \<in> A \<Longrightarrow> ep \<in> set eps \<Longrightarrow> keeps A vok (visit_episode v ep)"
  unfolding visit_episode_def
  by (auto intro!: keeps_pbind keeps_check_episode [of eps A ep v] intro: keeps_quiet)

lemma keeps_round: "keeps {} vok (verifier_round v)"
  unfolding verifier_round_def verifier_tick_def
  by (intro keeps_swallow keeps_ask keeps_for_each keeps_visit) auto

lemma verifier_sound: "runs (for_each (\<lambda>_. verifier_round v) rounds) tr res \<Longrightarrow> sound vok tr"
  by (erule keeps_runs [rotated]) (intro keeps_for_each keeps_round)

text \<open>C27: an episode is resolved only after a stable window. In every run of any number of rounds of the
verifier, whatever the store, the observer and the clock answer, the only transition asked for
is to \<^verbatim>\<open>resolved\<close>, and at that point the last evaluations, for the episode, of one of the rules
its bound bundle has for it, at least as many as the rule's window in that bundle says, all held without
interruption; the record was read in state \<^verbatim>\<open>awaiting_operator\<close>, the verification was recorded,
and the transition carries the revision of the record read after that.\<close>

theorem resolution_needs_stable_window:
  assumes "runs (for_each (\<lambda>_. verifier_round v) rounds) tr res" "counts_ok (\<lambda>_. 0) tr"
    and "tr = t1 @ (V_set_state e s rev_no reason, r) # t2"
  shows "s = ''resolved'' \<and>
    (\<exists>rid rule b max_age w rec smp key r' rec' t0. bound_rule t1 e rule b max_age \<and> getitem rule ''id'' = Inr rid \<and>
       window rule (param_of b) = Inr w \<and> w \<le> held_run (evals e rid t1) \<and>
       t1 = t0 @ [(V_read e, Inr (V_record rec)), (V_verification e rid smp key, Inr r'), (V_read e, Inr (V_record rec'))] \<and>
       r_state rec = Some ''awaiting_operator'' \<and> r_revision rec' = rev_no)"
proof -
  have "vok t1 (V_set_state e s rev_no reason)"
    using verifier_sound [OF assms(1)] unfolding assms(3) by (rule sound_split)
  then obtain rid n w rule b max_age h0 rec smp key r' rec' where s: "s = ''resolved''" and
    h: "t1 = h0 @ [(V_count e rid True, Inr (V_int n)), (V_read e, Inr (V_record rec)), (V_verification e rid smp key, Inr r'),
                  (V_read e, Inr (V_record rec'))]"
    and w: "getitem rule ''id'' = Inr rid" "window rule (param_of b) = Inr w" "w \<le> n"
      "r_state rec = Some ''awaiting_operator''" "r_revision rec' = rev_no" and b: "bound_rule t1 e rule b max_age"
    unfolding vok.simps resolution_ok_def by (elim conjE exE) (rule that)
  have "n = held_run (evals e rid (h0 @ [(V_count e rid True, Inr (V_int n))]))"
    by (rule count_is_held_run [where h' = "[]"]) (use assms(2) in \<open>simp add: assms(3) h\<close>)
  then have "w \<le> held_run (evals e rid t1)" using w(3) by (simp add: h)
  moreover have "t1 = (h0 @ [(V_count e rid True, Inr (V_int n))]) @
      [(V_read e, Inr (V_record rec)), (V_verification e rid smp key, Inr r'), (V_read e, Inr (V_record rec'))]" by (simp add: h)
  ultimately show ?thesis using s b w by blast
qed


section \<open>An example run\<close>

text \<open>An episode awaiting the operator and a rule with a window of two, over two rounds.\<close>

definition ex_rule :: jv where
  "ex_rule = JObj [(''id'', JStr ''r1''), (''applies_to'', JObj [(''class'', JStr ''validator_health'')]), (''samples'', JArr [JStr ''catchup'']),
     (''predicate'', JObj [(''field'', JStr ''catchup.slots_behind''), (''op'', JStr ''lt''), (''value'', JInt 50)]), (''window'', JInt 2)]"

definition ex_verifier_bundle :: policy_bundle where
  "ex_verifier_bundle = \<lparr>bn_id = ''b1'', bn_y = (\<lambda>f.
     if f = ''thresholds.yaml''
     then Inr (JObj [(''parameters'', JObj [(''P-15'', JInt 3), (''P-01'', JInt 30), (''P-17'', JObj [(''deadline_min'', JInt 60)])])])
     else Inr (JObj []))\<rparr>"

definition ex_awaiting :: erec where
  "ex_awaiting = (empty_record ''e1'')\<lparr>r_revision := 7, r_class := Some ''validator_health'', r_bundle_id := Some ''b1'',
     r_trigger := Some [(''check'', JStr ''delinquency'')], r_state := Some ''awaiting_operator''\<rparr>"

text \<open>The answer to the \<open>n\<close>th request; the only state is the count, which is 1 in the first round and 2 in the second.\<close>

fun ex_verifier_world :: "nat \<Rightarrow> vreq \<Rightarrow> vresp result" where
  "ex_verifier_world n V_list = Inr (V_eps [summary_of ex_awaiting])"
| "ex_verifier_world n (V_load _) = Inr (V_bundle ex_verifier_bundle)"
| "ex_verifier_world n (V_rules _) = Inr (V_docs [ex_rule])"
| "ex_verifier_world n (V_sample _) = Inr (V_dict [(''status'', JStr ''ok''), (''collected_at'', JInt 100), (''structured'', JObj [(''slots_behind'', JInt 3)])])"
| "ex_verifier_world n V_now = Inr (V_num 110)"
| "ex_verifier_world n (V_count _ _ _) = Inr (V_int (if n < 8 then 1 else 2))"
| "ex_verifier_world n (V_read _) = Inr (V_record ex_awaiting)"
| "ex_verifier_world n (V_escalated _) = Inr (V_bool False)"
| "ex_verifier_world n _ = Inr V_unit"

definition ex_verifier_run :: "(vreq, vresp) trace \<times> unit result" where
  "ex_verifier_run = exec (for_each (\<lambda>_. verifier_round \<lparr>vr_txt = str_of\<rparr>) [(), ()]) ex_verifier_world 0"

fun is_set_state :: "vreq \<Rightarrow> bool" where
  "is_set_state (V_set_state _ _ _ _) = True"
| "is_set_state _ = False"

fun is_count :: "vreq \<Rightarrow> bool" where
  "is_count (V_count _ _ _) = True"
| "is_count _ = False"

lemma ex_verifier_steps:
  "map fst (filter (\<lambda>x. is_set_state (fst x) \<or> is_count (fst x)) (fst ex_verifier_run)) =
     [V_count ''e1'' (JStr ''r1'') True, V_count ''e1'' (JStr ''r1'') True,
      V_set_state ''e1'' ''resolved'' 7 ''r1 held for 2 consecutive fresh samples'']"
  by code_simp

lemma ex_verifier_counts: "counts_ok (\<lambda>_. 0) (fst ex_verifier_run)"
  by code_simp

lemma ex_verifier_split:
  assumes "q \<in> set [V_count ''e1'' (JStr ''r1'') True, V_set_state ''e1'' ''resolved'' 7 ''r1 held for 2 consecutive fresh samples'']"
  obtains t1 r t2 where "fst ex_verifier_run = t1 @ (q, r) # t2"
    "runs (for_each (\<lambda>_. verifier_round \<lparr>vr_txt = str_of\<rparr>) [(), ()]) (t1 @ (q, r) # t2) (snd ex_verifier_run)"
proof -
  have run: "runs (for_each (\<lambda>_. verifier_round \<lparr>vr_txt = str_of\<rparr>) [(), ()]) (fst ex_verifier_run) (snd ex_verifier_run)"
    unfolding ex_verifier_run_def by (rule exec_runs) simp
  have "q \<in> set (map fst (filter (\<lambda>x. is_set_state (fst x) \<or> is_count (fst x)) (fst ex_verifier_run)))"
    unfolding ex_verifier_steps using assms by auto
  then obtain r where "(q, r) \<in> set (fst ex_verifier_run)" by auto
  then obtain t1 t2 where "fst ex_verifier_run = t1 @ (q, r) # t2" by (meson split_list)
  then show ?thesis using that run by metis
qed

theorem resolution_needs_stable_window_witness:
  "\<exists>t1 r t2 rid rule b max_age w.
     runs (for_each (\<lambda>_. verifier_round \<lparr>vr_txt = str_of\<rparr>) [(), ()])
       (t1 @ (V_set_state ''e1'' ''resolved'' 7 ''r1 held for 2 consecutive fresh samples'', r) # t2) (snd ex_verifier_run) \<and>
     bound_rule t1 ''e1'' rule b max_age \<and> getitem rule ''id'' = Inr rid \<and> window rule (param_of b) = Inr w \<and> w \<le> held_run (evals ''e1'' rid t1)"
proof (rule ex_verifier_split)
  fix t1 r t2
  assume t: "fst ex_verifier_run = t1 @ (V_set_state ''e1'' ''resolved'' 7 ''r1 held for 2 consecutive fresh samples'', r) # t2"
    and run: "runs (for_each (\<lambda>_. verifier_round \<lparr>vr_txt = str_of\<rparr>) [(), ()])
       (t1 @ (V_set_state ''e1'' ''resolved'' 7 ''r1 held for 2 consecutive fresh samples'', r) # t2) (snd ex_verifier_run)"
  obtain rid rule b max_age w where c: "bound_rule t1 ''e1'' rule b max_age" "getitem rule ''id'' = Inr rid" "window rule (param_of b) = Inr w" "w \<le> held_run (evals ''e1'' rid t1)"
    using resolution_needs_stable_window [OF run ex_verifier_counts [unfolded t] refl] by (elim conjE exE) (rule that)
  show ?thesis
    by (intro exI [of _ t1] exI [of _ r] exI [of _ t2] exI [of _ rid] exI [of _ rule] exI [of _ b] exI [of _ max_age] exI [of _ w] conjI run c)
qed simp


end
