(* ===== verification/Builder.thy ===== *)
theory Builder
  imports Params Registry Bundle_View Command_Table Verifier_Rules
begin

text \<open>
  \<^verbatim>\<open>valops/bundle/builder.py\<close>: from a source directory and the parameter register to a bundle directory.
  Directories are lists of files as in \<open>Registry\<close>. The YAML writer, the decoding and encoding of text
  files (with the newline translation of text mode), \<^verbatim>\<open>json.dumps\<close> and the signer are fields of \<open>builder\<close>.
  The keys of a mapping are texts.
\<close>

record builder =
  bu_rp :: reg_params
  bu_dump :: "params \<Rightarrow> bytes" \<comment> \<open>\<^verbatim>\<open>yaml.safe_dump\<close>\<close>
  bu_read :: "bytes \<Rightarrow> string result" \<comment> \<open>\<^verbatim>\<open>read_text\<close>\<close>
  bu_write :: "string \<Rightarrow> bytes" \<comment> \<open>\<^verbatim>\<open>write_text\<close>\<close>
  bu_json :: "jv \<Rightarrow> bytes" \<comment> \<open>\<^verbatim>\<open>json.dumps\<close>, encoded\<close>
  bu_str :: "jv \<Rightarrow> string" \<comment> \<open>\<^verbatim>\<open>str\<close> of floats and containers\<close>
  bu_signer :: "(bytes \<Rightarrow> bytes) option"
  bu_key_id :: string

section \<open>Files\<close>

text \<open>Paths compare by their components, as \<^verbatim>\<open>pathlib\<close> compares them.\<close>

fun path_parts :: "string \<Rightarrow> string list" where
  "path_parts [] = [[]]"
| "path_parts (c # cs) =
     (if c = CHR ''/'' then [] # path_parts cs
      else case path_parts cs of [] \<Rightarrow> [[c]] | p # ps \<Rightarrow> (c # p) # ps)"

definition put_file :: "files \<Rightarrow> string \<Rightarrow> bytes \<Rightarrow> files" where
  "put_file d rel bs = insort_key (path_parts \<circ> fst) (rel, bs) (filter (\<lambda>f. fst f \<noteq> rel) d)"

definition copy_files :: "files \<Rightarrow> files \<Rightarrow> files" where
  "copy_files src d = foldl (\<lambda>d (rel, bs). put_file d rel bs) d src"

definition is_file :: "files \<Rightarrow> string \<Rightarrow> bool" where
  "is_file d rel = (map_of d rel \<noteq> None)"

definition ends_with :: "string \<Rightarrow> string \<Rightarrow> bool" where
  "ends_with suf s = starts_with (rev suf) (rev s)"

text \<open>The files under a \<^verbatim>\<open>__pycache__\<close> directory or with a \<^verbatim>\<open>.pyc\<close> name.\<close>

definition is_junk :: "string \<Rightarrow> bool" where
  "is_junk rel = list_ex (\<lambda>p. p = ''__pycache__'' \<or> ends_with ''.pyc'' p) (path_parts rel)"

section \<open>Validation\<close>

definition BuildError :: exn where "BuildError = PyError ''BuildError''"

definition REQUIRED :: "string list" where
  "REQUIRED = [''command_table.yaml'', ''deployment.yaml'', ''providers.yaml'', ''pricing.yaml'',
               ''fault_classes.yaml'', ''judge_checklist.yaml'', ''skills/index.yaml'']"

definition ADAPTERS :: "string list" where "ADAPTERS = [''claude_sdk'', ''codex_cli'', ''antigravity_cli'', ''native'']"
definition PROVIDERS :: "string list" where "PROVIDERS = [''anthropic'', ''openai'', ''google'']"
definition ADMISSION :: "string list" where "ADMISSION = [''pending'', ''admitted'', ''native_only'', ''not_admitted'']"
definition CONSENSUS_MODES :: "string list" where "CONSENSUS_MODES = [''tower'', ''alpenglow'']"

text \<open>\<^verbatim>\<open>v in TUPLE\<close> for a tuple of texts.\<close>

definition one_of :: "jv \<Rightarrow> string list \<Rightarrow> bool" where
  "one_of v ks = (is_str v \<and> str_of v \<in> set ks)"

text \<open>\<^verbatim>\<open>for x in v\<close>: the elements of a list, the keys of a mapping, the characters of a text.\<close>

fun py_iter :: "jv \<Rightarrow> jv list result" where
  "py_iter (JArr xs) = Inr xs"
| "py_iter (JObj d) = Inr (map (JStr \<circ> fst) d)"
| "py_iter (JStr s) = Inr (map (\<lambda>c. JStr [c]) s)"
| "py_iter v = Inl (PyError ''TypeError'')"

text \<open>\<^verbatim>\<open>v.get(k)\<close> for a computed key: an unhashable key raises, another key that is no text is absent.\<close>

definition get_key :: "jv \<Rightarrow> jv \<Rightarrow> jv result" where
  "get_key v k =
     rbind (as_dict v) (\<lambda>d.
       if \<not> hashable k then Inl (PyError ''TypeError'') else Inr (if is_str k then pget d (str_of k) else JNull))"

definition or_empty :: "jv \<Rightarrow> jv" where
  "or_empty v = (if truthy v then v else JObj [])"

fun for_all :: "('a \<Rightarrow> unit result) \<Rightarrow> 'a list \<Rightarrow> unit result" where
  "for_all f [] = Inr ()"
| "for_all f (x # xs) = rbind (f x) (\<lambda>_. for_all f xs)"

definition require :: "bool \<Rightarrow> unit result" where
  "require b = (if b then Inr () else Inl BuildError)"

definition check_required :: "files \<Rightarrow> unit result" where
  "check_required d = for_all (\<lambda>rel. require (is_file d rel)) REQUIRED"

definition check_deployment :: "jv \<Rightarrow> unit result" where
  "check_deployment dep =
     rbind (as_dict dep) (\<lambda>p.
     rbind (require (py_eq (pget p ''client'') (JStr ''agave''))) (\<lambda>_.
     rbind (require (one_of (pget p ''declared_consensus_mode'') CONSENSUS_MODES)) (\<lambda>_.
     rbind (for_all (\<lambda>k. require (truthy (pget p k))) [''validator_id'', ''identity_pubkey'', ''expected_version'', ''cluster'']) (\<lambda>_.
       require (py_eq (pget p ''cluster'') (JStr ''testnet''))))))"

text \<open>The model and the runtime version are pinned: set, and no placeholder.\<close>

definition pinned :: "builder \<Rightarrow> params \<Rightarrow> bool result" where
  "pinned bu c =
     (if \<not> truthy (pget c ''model'') then Inr False
      else
        rbind (attr_get (or_empty (pget c ''runtime'')) ''version'') (\<lambda>v.
          Inr (truthy v \<and> \<not> substring ''REPLACE'' (py_str (bu_str bu) (pget c ''model'')) \<and>
               \<not> substring ''REPLACE'' (py_str (bu_str bu) v))))"

definition priced :: "jv \<Rightarrow> params \<Rightarrow> bool result" where
  "priced pricing c =
     rbind (get_key pricing (pget c ''provider'')) (\<lambda>p.
     rbind (get_key (or_empty p) (pget c ''model'')) (\<lambda>price.
       if \<not> truthy price then Inr False
       else
         rbind (as_dict price) (\<lambda>q. Inr (list_all (\<lambda>k. num_of (pget q k) \<noteq> None) [''input_per_mtok'', ''output_per_mtok'']))))"

definition check_configuration :: "builder \<Rightarrow> jv list \<Rightarrow> jv \<Rightarrow> string \<times> jv \<Rightarrow> unit result" where
  "check_configuration bu used pricing nc =
     rbind (as_dict (snd nc)) (\<lambda>c.
     rbind (require (one_of (pget c ''provider'') PROVIDERS)) (\<lambda>_.
     rbind (require (one_of (pget c ''adapter'') ADAPTERS)) (\<lambda>_.
     rbind (require (one_of (pget c ''admission'') ADMISSION)) (\<lambda>_.
       if JStr (fst nc) \<notin> set used then Inr ()
       else
         rbind (pinned bu c) (\<lambda>pin.
         rbind (require pin) (\<lambda>_.
         rbind (priced pricing c) require))))))"

definition check_roles :: "params \<Rightarrow> params \<Rightarrow> params \<Rightarrow> unit result" where
  "check_roles prov confs rs =
     rbind (for_all (\<lambda>r. require (is_str (pget rs r) \<and> has_key confs (str_of (pget rs r)))) ROLES) (\<lambda>_.
       require (length (remdups (map (pget rs) ROLES)) = 1 \<or> truthy (pget prov ''allow_mixed_configurations'')))"

definition check_providers :: "builder \<Rightarrow> params \<Rightarrow> jv \<Rightarrow> unit result" where
  "check_providers bu p pricing =
     rbind (as_dict (or_empty (pget p ''roles''))) (\<lambda>rs.
       if list_ex (\<lambda>(_, v). \<not> hashable v) rs then Inl (PyError ''TypeError'')
       else
         rbind (as_dict (or_empty (pget p ''configurations''))) (\<lambda>confs.
         rbind (for_all (check_configuration bu (map snd rs) (or_empty pricing)) confs) (\<lambda>_.
         rbind (check_roles p confs rs) (\<lambda>_.
         rbind (py_iter (or_empty (pget p ''endpoints''))) (\<lambda>es.
           for_all (\<lambda>e. require (one_of e PROVIDERS)) es)))))"

definition skill_path :: "string \<Rightarrow> string" where
  "skill_path name = ''skills/'' @ name @ ''/SKILL.md''"

definition modes_valid :: "jv \<Rightarrow> bool result" where
  "modes_valid modes =
     (if modes = JStr ''any'' then Inr True
      else case modes of
          JArr ms \<Rightarrow> if list_ex (\<lambda>m. \<not> hashable m) ms then Inl (PyError ''TypeError'') else Inr (list_all (\<lambda>m. one_of m CONSENSUS_MODES) ms)
        | _ \<Rightarrow> Inr False)"

definition check_skill :: "files \<Rightarrow> string \<times> jv \<Rightarrow> unit result" where
  "check_skill d ns =
     rbind (require (is_file d (skill_path (fst ns)))) (\<lambda>_.
     rbind (as_dict (snd ns)) (\<lambda>s.
     rbind (modes_valid (pget s ''modes'')) (\<lambda>ok.
     rbind (require ok) (\<lambda>_.
     rbind (py_iter (pget_default s ''roles'' (JArr []))) (\<lambda>rs.
       for_all (\<lambda>r. require (one_of r ROLES)) rs)))))"

definition skill_entries :: "jv \<Rightarrow> params result" where
  "skill_entries idx = rbind (as_dict (or_empty idx)) (\<lambda>i. as_dict (or_empty (pget i ''skills'')))"

text \<open>\<^verbatim>\<open>sorted((root / "verifier").glob("*.yaml"))\<close>, in the order of the directory listing.\<close>

definition rule_files :: "files \<Rightarrow> string list" where
  "rule_files d =
     filter (\<lambda>rel. starts_with ''verifier/'' rel \<and> CHR ''/'' \<notin> set (drop 9 rel) \<and> ends_with ''.yaml'' rel) (map fst d)"

definition validate_bundle :: "builder \<Rightarrow> files \<Rightarrow> unit result" where
  "validate_bundle bu d =
     (let y = bundle_y (bu_rp bu) d in
      rbind (check_required d) (\<lambda>_.
      rbind (rbind (y ''command_table.yaml'') load_table_data) (\<lambda>_.
      rbind (rbind (y ''deployment.yaml'') check_deployment) (\<lambda>_.
      rbind (rbind (y ''providers.yaml'') as_dict) (\<lambda>prov.
      rbind (y ''pricing.yaml'') (\<lambda>pricing.
      rbind (check_providers bu prov pricing) (\<lambda>_.
      rbind (rbind (y ''skills/index.yaml'') skill_entries) (\<lambda>skills.
      rbind (for_all (check_skill d) skills) (\<lambda>_.
      rbind (for_all (\<lambda>r. require (is_file d (prompt_path r False))) ROLES) (\<lambda>_.
        for_all (\<lambda>rel. rbind (y rel) validate_rule) (rule_files d)))))))))))"

section \<open>Inlined prompts\<close>

text \<open>\<^verbatim>\<open>r in v\<close> for the roles of a skill.\<close>

definition role_in :: "string \<Rightarrow> jv \<Rightarrow> bool result" where
  "role_in r v = (case py_in (JStr r) v of None \<Rightarrow> Inl (PyError ''TypeError'') | Some b \<Rightarrow> Inr b)"

definition read_file :: "builder \<Rightarrow> files \<Rightarrow> string \<Rightarrow> string result" where
  "read_file bu d rel = (case map_of d rel of None \<Rightarrow> Inl (PyError ''FileNotFoundError'') | Some bs \<Rightarrow> bu_read bu bs)"

definition NL :: string where "NL = [CHR 0x0A]"

fun skill_parts :: "builder \<Rightarrow> files \<Rightarrow> string \<Rightarrow> params \<Rightarrow> string result" where
  "skill_parts bu d r [] = Inr []"
| "skill_parts bu d r ((name, sv) # rest) =
     rbind (as_dict sv) (\<lambda>s.
     rbind (role_in r (pget_default s ''roles'' (JArr []))) (\<lambda>mine.
       if \<not> mine then skill_parts bu d r rest
       else
         rbind (read_file bu d (skill_path name)) (\<lambda>body.
         rbind (skill_parts bu d r rest) (\<lambda>more.
           Inr (NL @ NL @ ''---'' @ NL @ ''## Skill: '' @ name @ '' (modes: '' @ py_str (bu_str bu) (pget s ''modes'') @ '')'' @ NL @ NL
                @ body @ more)))))"

definition inline_role :: "builder \<Rightarrow> params \<Rightarrow> files \<Rightarrow> string \<Rightarrow> files result" where
  "inline_role bu skills d r =
     rbind (read_file bu d (prompt_path r False)) (\<lambda>prompt.
     rbind (skill_parts bu d r (sort_key fst skills)) (\<lambda>parts.
       Inr (put_file d (prompt_path r True) (bu_write bu (prompt @ parts)))))"

fun inline_roles :: "builder \<Rightarrow> params \<Rightarrow> string list \<Rightarrow> files \<Rightarrow> files result" where
  "inline_roles bu skills [] d = Inr d"
| "inline_roles bu skills (r # rs) d = rbind (inline_role bu skills d r) (inline_roles bu skills rs)"

definition inline_skills :: "builder \<Rightarrow> files \<Rightarrow> files result" where
  "inline_skills bu d =
     rbind (rbind (bundle_y (bu_rp bu) d ''skills/index.yaml'') skill_entries) (\<lambda>skills. inline_roles bu skills ROLES d)"

section \<open>Building\<close>

type_synonym dirs = "(string \<times> files) list"

definition stage_files :: "builder \<Rightarrow> files \<Rightarrow> files \<Rightarrow> params \<Rightarrow> files" where
  "stage_files bu src overlay th =
     put_file (filter (\<lambda>f. \<not> is_junk (fst f)) (copy_files overlay (copy_files src []))) ''thresholds.yaml'' (bu_dump bu th)"

definition sig_json :: "string \<Rightarrow> bytes \<Rightarrow> jv" where
  "sig_json kid sig = JObj [(''key_id'', JStr kid), (''sig'', JStr (b64u sig))]"

definition attach_signature :: "builder \<Rightarrow> bytes \<Rightarrow> files \<Rightarrow> files" where
  "attach_signature bu sig d = put_file d SIG (bu_json bu (sig_json (bu_key_id bu) sig))"

text \<open>What the stage is published as: an unsigned directory, or the bundle unless it is present already.\<close>

definition publish :: "builder \<Rightarrow> files \<Rightarrow> dirs \<Rightarrow> string \<times> dirs" where
  "publish bu stage out =
     (let manifest = compute_manifest (rp_sha (bu_rp bu)) stage;
          d = put_file stage MANIFEST manifest;
          bid = rp_sha (bu_rp bu) manifest
      in case bu_signer bu of
           None \<Rightarrow> (bid, dict_set out (''.unsigned-'' @ bid) d)
         | Some sign \<Rightarrow> (bid, if map_of out bid \<noteq> None then out else out @ [(bid, attach_signature bu (sign manifest) d)]))"

definition build :: "builder \<Rightarrow> files \<Rightarrow> params \<Rightarrow> files \<Rightarrow> dirs \<Rightarrow> (string \<times> dirs) result" where
  "build bu src register overlay out =
     rbind (generate_thresholds register) (\<lambda>th.
       let stage = stage_files bu src overlay th in
       rbind (validate_bundle bu stage) (\<lambda>_.
       rbind (inline_skills bu stage) (\<lambda>stage'. Inr (publish bu stage' out))))"

end
