(* ===== verification/Builder_Theorems.thy ===== *)
theory Builder_Theorems
  imports Builder
begin

text \<open>
  What a built bundle is: a directory that the registry verifies, and on which the accessors of the
  running system find what they read.
\<close>

lemma as_dict_Inr: "as_dict v = Inr d \<longleftrightarrow> v = JObj d"
  by (auto simp: as_dict_def split: jv.splits)

section \<open>Files\<close>

lemma map_of_insort_key:
  "fst x \<notin> fst ` set xs \<Longrightarrow> map_of (insort_key f x xs) = (map_of xs)(fst x \<mapsto> snd x)"
  by (induction xs) (auto simp: fun_eq_iff)

lemma map_of_put_file [simp]: "map_of (put_file d rel bs) = (map_of d)(rel \<mapsto> bs)"
proof -
  have "map_of (filter (\<lambda>f. fst f \<noteq> rel) d) k = (if k = rel then None else map_of d k)" for k
    by (induction d) auto
  then show ?thesis unfolding put_file_def by (subst map_of_insort_key) (auto simp: fun_eq_iff)
qed

lemma set_put_file: "set (put_file d rel bs) = insert (rel, bs) {f \<in> set d. fst f \<noteq> rel}"
  by (auto simp: put_file_def set_insort_key)

lemma content_put_file [simp]: "rel \<in> {MANIFEST, SIG} \<Longrightarrow> content_files (put_file d rel bs) = content_files d"
  unfolding content_files_def put_file_def
  by (subst filter_insort_triv) (auto intro!: filter_cong)

lemma compute_manifest_put_file [simp]:
  "rel \<in> {MANIFEST, SIG} \<Longrightarrow> compute_manifest sha (put_file d rel bs) = compute_manifest sha d"
  by (simp add: compute_manifest_def)

section \<open>A published bundle verifies\<close>

lemma build_parts:
  assumes "build bu src register overlay out = Inr (bid, out')"
  obtains th stage where "generate_thresholds register = Inr th" "validate_bundle bu (stage_files bu src overlay th) = Inr ()"
    "inline_skills bu (stage_files bu src overlay th) = Inr stage" "publish bu stage out = (bid, out')"
  using assms by (auto simp: build_def Let_def)

definition bundle_dir :: "builder \<Rightarrow> (bytes \<Rightarrow> bytes) \<Rightarrow> files \<Rightarrow> files" where
  "bundle_dir bu sign stage =
     (let m = compute_manifest (rp_sha (bu_rp bu)) stage in attach_signature bu (sign m) (put_file stage MANIFEST m))"

lemma publish_signed:
  assumes "publish bu stage out = (bid, out')" "bu_signer bu = Some sign" "map_of out bid = None"
  shows "bid = rp_sha (bu_rp bu) (compute_manifest (rp_sha (bu_rp bu)) stage)" "map_of out' bid = Some (bundle_dir bu sign stage)"
  using assms by (auto simp: publish_def Let_def bundle_dir_def map_add_def split: if_splits)

lemma bundle_dir_parts:
  "map_of (bundle_dir bu sign stage) MANIFEST = Some (compute_manifest (rp_sha (bu_rp bu)) stage)"
  "map_of (bundle_dir bu sign stage) SIG =
     Some (bu_json bu (sig_json (bu_key_id bu) (sign (compute_manifest (rp_sha (bu_rp bu)) stage))))"
  "compute_manifest sha (bundle_dir bu sign stage) = compute_manifest sha stage"
  "rel \<notin> {MANIFEST, SIG} \<Longrightarrow> map_of (bundle_dir bu sign stage) rel = map_of stage rel"
  by (simp_all add: bundle_dir_def attach_signature_def Let_def) (auto simp: MANIFEST_def SIG_def)

text \<open>C34: what the builder publishes, the registry accepts. A bundle that was built and signed, and was not in
the output directory before, verifies in every registry that reads this directory, knows the key id with a key
that accepts what the signer signs, and has not revoked the bundle, provided the hash yields hexadecimal
identifiers, the signature file reads back as written and signatures are bytes.\<close>

theorem built_bundle_verifies:
  assumes "build bu src register overlay out = Inr (bid, out')" "bu_signer bu = Some sign" "map_of out bid = None"
    and "rg_dirs rg = out'" "map_of (rg_keys rg) (bu_key_id bu) = Some key" "\<And>m. tk_verify key (sign m) m" "bid \<notin> set (rg_revoked rg)"
    and "\<And>m. well_formed_id (rp_sha (bu_rp bu) m)" "\<And>m. \<forall>b \<in> set (sign m). b < 256"
    and "\<And>kid sig. rp_loads (bu_rp bu) (bu_json bu (sig_json kid sig)) = Some (sig_json kid sig)"
  shows "verify (bu_rp bu) rg bid = Inr None"
proof -
  obtain th stage where p: "publish bu stage out = (bid, out')" using build_parts [OF assms(1)] .
  let ?m = "compute_manifest (rp_sha (bu_rp bu)) stage"
  have bid: "bid = rp_sha (bu_rp bu) ?m" and d: "map_of (rg_dirs rg) bid = Some (bundle_dir bu sign stage)"
    using publish_signed [OF p assms(2, 3)] assms(4) by auto
  have "well_formed_id bid" using assms(8) [of ?m] bid by simp
  moreover have "verify_integrity (bu_rp bu) rg bid = Inr None"
    using assms(5-7) assms(9) [of ?m]
    by (simp add: verify_integrity_def d sig_doc_def bundle_dir_parts assms(10) Let_def bid [symmetric])
      (simp add: sig_json_def pget_default_def b64u_dec_b64u)
  ultimately show ?thesis using assms(7) by (simp add: verify_def)
qed

section \<open>What the validation establishes\<close>

lemma for_all_Inr [simp]: "for_all f xs = Inr () \<longleftrightarrow> (\<forall>x \<in> set xs. f x = Inr ())"
  by (induction xs) auto

lemma require_Inr [simp]: "require b = Inr () \<longleftrightarrow> b"
  by (simp add: require_def)

definition usable_configuration :: "builder \<Rightarrow> jv \<Rightarrow> params \<Rightarrow> bool" where
  "usable_configuration bu pricing c =
     (one_of (pget c ''provider'') PROVIDERS \<and> one_of (pget c ''adapter'') ADAPTERS \<and> one_of (pget c ''admission'') ADMISSION \<and>
      pinned bu c = Inr True \<and> priced (or_empty pricing) c = Inr True)"

lemma check_providers_Inr:
  assumes "check_providers bu p pricing = Inr ()" "r \<in> set ROLES"
  shows "\<exists>rs name confs c. pget p ''roles'' = JObj rs \<and> map_of rs r = Some (JStr name) \<and> pget p ''configurations'' = JObj confs \<and>
    map_of confs name = Some (JObj c) \<and> usable_configuration bu pricing c"
proof -
  obtain rs confs where h: "as_dict (or_empty (pget p ''roles'')) = Inr rs" "as_dict (or_empty (pget p ''configurations'')) = Inr confs"
      "\<forall>nc \<in> set confs. check_configuration bu (map snd rs) (or_empty pricing) nc = Inr ()" "check_roles p confs rs = Inr ()"
    using assms(1) by (auto simp: check_providers_def)
  have "is_str (pget rs r)" "has_key confs (str_of (pget rs r))" using h(4) assms(2) by (auto simp: check_roles_def)
  then obtain name where name: "pget rs r = JStr name" "has_key confs name" by (cases "pget rs r") auto
  then have m: "map_of rs r = Some (JStr name)" by (auto simp: pget_def split: option.splits)
  obtain cv where cv: "map_of confs name = Some cv" using name(2) by (auto simp: has_key_def)
  then have "check_configuration bu (map snd rs) (or_empty pricing) (name, cv) = Inr ()" using h(3) map_of_SomeD by fastforce
  moreover have "JStr name \<in> set (map snd rs)" using map_of_SomeD [OF m] by force
  ultimately obtain c where c: "cv = JObj c" "usable_configuration bu pricing c"
    by (auto simp: check_configuration_def usable_configuration_def as_dict_def split: jv.splits)
  have "pget p ''roles'' = JObj rs" using h(1) m by (auto simp: as_dict_def or_empty_def split: if_splits jv.splits)
  moreover have "pget p ''configurations'' = JObj confs" using h(2) cv by (auto simp: as_dict_def or_empty_def split: if_splits jv.splits)
  ultimately show ?thesis using m cv c by blast
qed

definition usable_skill :: "files \<Rightarrow> string \<times> jv \<Rightarrow> bool" where
  "usable_skill d ns =
     (is_file d (skill_path (fst ns)) \<and> (\<exists>s. snd ns = JObj s \<and> modes_valid (pget s ''modes'') = Inr True))"

lemma check_skill_Inr: "check_skill d ns = Inr () \<Longrightarrow> usable_skill d ns"
  by (auto simp: check_skill_def usable_skill_def as_dict_def split: jv.splits)

definition inlined_paths :: "string set" where
  "inlined_paths = (\<lambda>r. prompt_path r True) ` set ROLES"

lemma inline_roles_Inr:
  "inline_roles bu skills rs d = Inr d' \<Longrightarrow> set rs \<subseteq> set ROLES \<Longrightarrow>
    (\<forall>rel. rel \<notin> inlined_paths \<longrightarrow> map_of d' rel = map_of d rel) \<and> (\<forall>r \<in> set rs. is_file d' (prompt_path r True)) \<and>
    (\<forall>rel. is_file d rel \<longrightarrow> is_file d' rel)"
proof (induction rs arbitrary: d)
  case (Cons r rs)
  obtain prompt parts where "inline_roles bu skills rs (put_file d (prompt_path r True) (bu_write bu (prompt @ parts))) = Inr d'"
    using Cons.prems(1) by (auto simp: inline_role_def)
  note IH = Cons.IH [OF this]
  show ?case using IH Cons.prems(2) by (auto simp: inlined_paths_def is_file_def)
qed simp

lemma inline_skills_Inr:
  assumes "inline_skills bu d = Inr d'"
  shows "rel \<notin> inlined_paths \<Longrightarrow> map_of d' rel = map_of d rel" "r \<in> set ROLES \<Longrightarrow> is_file d' (prompt_path r True)"
    "is_file d rel \<Longrightarrow> is_file d' rel"
  using assms inline_roles_Inr [of bu _ ROLES d d'] by (auto simp: inline_skills_def)

lemma inlined_other [simp]: "''command_table.yaml'' \<notin> inlined_paths" "''deployment.yaml'' \<notin> inlined_paths" "''providers.yaml'' \<notin> inlined_paths"
  "''pricing.yaml'' \<notin> inlined_paths" "''skills/index.yaml'' \<notin> inlined_paths" "''thresholds.yaml'' \<notin> inlined_paths"
  by (auto simp: inlined_paths_def prompt_path_def ROLES_def)

lemma inlined_rule: "starts_with ''verifier/'' rel \<Longrightarrow> rel \<notin> inlined_paths \<and> rel \<notin> {MANIFEST, SIG}"
  by (auto simp: inlined_paths_def prompt_path_def MANIFEST_def SIG_def)

section \<open>The bundle that the running system reads\<close>

lemma mem_rule_files:
  "rel \<in> set (rule_files d) \<longleftrightarrow>
     map_of d rel \<noteq> None \<and> starts_with ''verifier/'' rel \<and> CHR ''/'' \<notin> set (drop 9 rel) \<and> ends_with ''.yaml'' rel"
  by (auto simp: rule_files_def map_of_eq_None_iff)

lemma built_files:
  assumes "build bu src register overlay out = Inr (bid, out')" "bu_signer bu = Some sign" "map_of out bid = None" "map_of out' bid = Some d"
  obtains th stage where "generate_thresholds register = Inr th" "validate_bundle bu stage = Inr ()"
    "map_of stage ''thresholds.yaml'' = Some (bu_dump bu th)"
    "\<And>rel. rel \<notin> inlined_paths \<union> {MANIFEST, SIG} \<Longrightarrow> map_of d rel = map_of stage rel"
    "\<And>r. r \<in> set ROLES \<Longrightarrow> is_file d (prompt_path r True)" "\<And>rel. is_file stage rel \<Longrightarrow> is_file d rel"
proof -
  obtain th stage' where p: "generate_thresholds register = Inr th" "validate_bundle bu (stage_files bu src overlay th) = Inr ()"
    "inline_skills bu (stage_files bu src overlay th) = Inr stage'" "publish bu stage' out = (bid, out')"
    using build_parts [OF assms(1)] .
  have d: "d = bundle_dir bu sign stage'" using publish_signed [OF p(4) assms(2, 3)] assms(4) by simp
  have same: "map_of d rel = map_of (stage_files bu src overlay th) rel" if "rel \<notin> inlined_paths \<union> {MANIFEST, SIG}" for rel
    using that inline_skills_Inr(1) [OF p(3)] by (simp add: d bundle_dir_parts)
  have pres: "is_file d rel" if "is_file stage' rel" for rel
    using that bundle_dir_parts(1, 2) [of bu sign stage'] bundle_dir_parts(4) [of rel bu sign stage'] by (cases "rel \<in> {MANIFEST, SIG}") (auto simp: is_file_def d)
  show ?thesis
    by (rule that [OF p(1, 2)])
      (use same pres inline_skills_Inr(2, 3) [OF p(3)] in \<open>auto simp: stage_files_def\<close>)
qed


section \<open>An example build\<close>

text \<open>Every file is one byte; the YAML reader knows the documents by that byte.\<close>

definition bx_src :: files where
  "bx_src = [(''command_table.yaml'', [1]), (''deployment.yaml'', [2]), (''fault_classes.yaml'', [5]), (''judge_checklist.yaml'', [5]),
     (''pricing.yaml'', [4]), (''prompts/change_planner.md'', [8]), (''prompts/diagnostician.md'', [8]), (''prompts/proposal_judge.md'', [8]),
     (''prompts/reporter.md'', [8]), (''providers.yaml'', [3]), (''skills/index.yaml'', [7]), (''skills/restart/SKILL.md'', [9]),
     (''skills/__pycache__/x'', [9]), (''verifier/catchup.yaml'', [10])]"

definition bx_yaml :: "bytes \<Rightarrow> jv result" where
  "bx_yaml bs =
     (if bs = [1] then Inr (JObj [(''commands'', JObj [])])
      else if bs = [2] then Inr (JObj [(''client'', JStr ''agave''), (''declared_consensus_mode'', JStr ''tower''), (''validator_id'', JStr ''v1''),
        (''identity_pubkey'', JStr ''k''), (''expected_version'', JStr ''2.1''), (''cluster'', JStr ''testnet'')])
      else if bs = [3] then Inr (JObj [(''configurations'', JObj [(''main'', JObj [(''provider'', JStr ''anthropic''), (''adapter'', JStr ''native''),
          (''admission'', JStr ''admitted''), (''model'', JStr ''m-1''), (''runtime'', JObj [(''version'', JStr ''1.0'')])])]),
        (''roles'', JObj (map (\<lambda>r. (r, JStr ''main'')) ROLES))])
      else if bs = [4] then Inr (JObj [(''anthropic'', JObj [(''m-1'', JObj [(''input_per_mtok'', JInt 3), (''output_per_mtok'', JInt 15)])])])
      else if bs = [7] then Inr (JObj [(''skills'', JObj [(''restart'', JObj [(''modes'', JStr ''any''), (''roles'', JArr [JStr ''change_planner''])])])])
      else if bs = [10] then Inr (JObj [(''id'', JStr ''r1''), (''applies_to'', JObj [(''class'', JStr ''validator_health'')]),
        (''samples'', JArr [JStr ''catchup'']), (''window'', JInt 2),
        (''predicate'', JObj [(''field'', JStr ''catchup.slots_behind''), (''op'', JStr ''lt''), (''value'', JInt 50)])])
      else Inr JNull)"

fun bx_json :: "jv \<Rightarrow> bytes" where
  "bx_json (JObj [(_, JStr kid), (_, JStr sig)]) = length kid # map of_char kid @ map of_char sig"
| "bx_json _ = []"

fun bx_loads :: "bytes \<Rightarrow> jv option" where
  "bx_loads [] = None"
| "bx_loads (n # bs) = Some (JObj [(''key_id'', JStr (map char_of (take n bs))), (''sig'', JStr (map char_of (drop n bs)))])"

definition bx_builder :: builder where
  "bx_builder = \<lparr>bu_rp = \<lparr>rp_sha = (\<lambda>_. replicate 64 CHR ''a''), rp_loads = bx_loads, rp_yaml = bx_yaml\<rparr>,
     bu_dump = (\<lambda>_. [20]), bu_read = (\<lambda>bs. Inr (map char_of bs)), bu_write = map of_char, bu_json = bx_json, bu_str = (\<lambda>_. []),
     bu_signer = Some (\<lambda>_. [7]), bu_key_id = ''k1''\<rparr>"

lemma bx_json_reads_back: "rp_loads (bu_rp bx_builder) (bu_json bx_builder (sig_json kid sig)) = Some (sig_json kid sig)"
  by (simp add: bx_builder_def sig_json_def comp_def)

lemma bx_stage: "stage_files bx_builder bx_src [] th = stage_files bx_builder bx_src [] []"
  by (simp add: stage_files_def bx_builder_def)

lemma bx_valid: "validate_bundle bx_builder (stage_files bx_builder bx_src [] []) = Inr ()"
  by code_simp

lemma bx_inlined: "\<not> isl (inline_skills bx_builder (stage_files bx_builder bx_src [] []))"
  by code_simp

lemma bx_thresholds: "\<not> isl (generate_thresholds ex_register)"
  by code_simp

lemma bx_build: "\<exists>out'. build bx_builder bx_src ex_register [] [] = Inr (replicate 64 CHR ''a'', out')"
proof -
  obtain th where th: "generate_thresholds ex_register = Inr th" using bx_thresholds by (cases "generate_thresholds ex_register") auto
  obtain stage where st: "inline_skills bx_builder (stage_files bx_builder bx_src [] []) = Inr stage"
    using bx_inlined by (cases "inline_skills bx_builder (stage_files bx_builder bx_src [] [])") auto
  have "fst (publish bx_builder stage []) = replicate 64 CHR ''a''" by (simp add: publish_def Let_def bx_builder_def)
  then obtain out' where "publish bx_builder stage [] = (replicate 64 CHR ''a'', out')" by (metis prod.collapse)
  then show ?thesis by (simp add: build_def th bx_stage [of th] bx_valid st rbind_simps)
qed

definition bx_registry :: "dirs \<Rightarrow> registry" where
  "bx_registry out = \<lparr>rg_keys = [(''k1'', \<lparr>tk_verify = (\<lambda>sig _. sig = [7]), tk_status = ''active''\<rparr>)],
     rg_dirs = out, rg_revoked = [], rg_active = None, rg_history = []\<rparr>"

theorem built_bundle_verifies_witness:
  "\<exists>bid out'. build bx_builder bx_src ex_register [] [] = Inr (bid, out') \<and> verify (bu_rp bx_builder) (bx_registry out') bid = Inr None"
proof -
  obtain out' where b: "build bx_builder bx_src ex_register [] [] = Inr (replicate 64 CHR ''a'', out')" using bx_build by blast
  have "verify (bu_rp bx_builder) (bx_registry out') (replicate 64 CHR ''a'') = Inr None"
    by (rule built_bundle_verifies [OF b, where sign = "\<lambda>_. [7]" and key = "\<lparr>tk_verify = (\<lambda>sig _. sig = [7]), tk_status = ''active''\<rparr>"])
      (auto simp: bx_json_reads_back, auto simp: bx_builder_def bx_registry_def well_formed_id_def hex_digits_def list_all_iff)
  with b show ?thesis by blast
qed


end
