(* ===== verification/Policy_Gate.thy ===== *)
theory Policy_Gate
  imports Runner Brokers
begin

text \<open>
  \<^verbatim>\<open>valops/worker/hooks/policy_gate.py\<close>: the check that the worker makes of its own tool calls before it
  sends them. It is built from the step specification that the controller wrote into the worker's home, and reads
  the bundle through a read-only mount, given here as the files it finds there.
\<close>

definition MCP_PREFIX :: string where "MCP_PREFIX = ''mcp__valops__''"

text \<open>
  \<^verbatim>\<open>_bundle_ok\<close>: the files that the manifest lists are there and have the hashes it gives. A line
  without separator raises.
\<close>

fun lines_ok :: "(bytes \<Rightarrow> string) \<Rightarrow> files \<Rightarrow> string list \<Rightarrow> bool result" where
  "lines_ok sha d [] = Inr True"
| "lines_ok sha d (l # ls) =
     (if strip l = [] then lines_ok sha d ls
      else case split2 l of
          None \<Rightarrow> Inl (PyError ''ValueError'')
        | Some (h, rel) \<Rightarrow>
            (case map_of d rel of
               None \<Rightarrow> Inr False
             | Some bs \<Rightarrow> if sha bs \<noteq> h then Inr False else lines_ok sha d ls))"

definition bundle_ok :: "(bytes \<Rightarrow> string) \<Rightarrow> files \<Rightarrow> bool result" where
  "bundle_ok sha d =
     (case map_of d MANIFEST of
        None \<Rightarrow> Inr False
      | Some m \<Rightarrow>
          (case decode_utf8 m of
             None \<Rightarrow> Inl (PyError ''UnicodeDecodeError'')
           | Some ls \<Rightarrow> lines_ok sha d (splitlines ls)))"

record policy_gate =
  pg_role :: string
  pg_allowed :: "string list"
  pg_state :: "string option"
  pg_tool_states :: "(string \<times> string list) list"
  pg_max_calls :: int
  pg_calls :: int

definition new_gate :: "step_spec \<Rightarrow> policy_gate" where
  "new_gate spec =
     \<lparr>pg_role = ss_role spec, pg_allowed = ss_tools spec, pg_state = ss_state spec, pg_tool_states = ss_tool_states spec,
      pg_max_calls = ss_max_turns spec * 3, pg_calls = 0\<rparr>"

text \<open>The reasons of a denial; their text is left out.\<close>

datatype denial = Not_in_allowlist | Invalid_arguments | Quota_exhausted | Not_legal_in_state | Bundle_failed

definition bare_name :: "string \<Rightarrow> string" where
  "bare_name tn = (if starts_with MCP_PREFIX tn then drop (length MCP_PREFIX) tn else tn)"

definition legal_in :: "policy_gate \<Rightarrow> string \<Rightarrow> bool" where
  "legal_in g name = (pg_state g \<in> set (map Some (case map_of (pg_tool_states g) name of None \<Rightarrow> [] | Some ss \<Rightarrow> ss)))"

definition gate_check ::
  "(bytes \<Rightarrow> string) \<Rightarrow> files \<Rightarrow> string \<Rightarrow> jv \<Rightarrow> policy_gate \<Rightarrow> denial option result \<times> policy_gate" where
  "gate_check sha d tn args g =
     (let name = bare_name tn in
      if name \<notin> set (pg_allowed g) then (Inr (Some Not_in_allowlist), g)
      else case TOOLS_BY_NAME name of
          None \<Rightarrow> (Inl (PyError ''KeyError''), g)
        | Some ts \<Rightarrow>
            if \<not> validate (if truthy args then args else JObj []) (t_schema ts) then (Inr (Some Invalid_arguments), g)
            else
              (let g' = g\<lparr>pg_calls := pg_calls g + 1\<rparr> in
               if pg_calls g' > pg_max_calls g' then (Inr (Some Quota_exhausted), g')
               else if \<not> legal_in g' name then (Inr (Some Not_legal_in_state), g')
               else (rbind (bundle_ok sha d) (\<lambda>ok. Inr (if ok then None else Some Bundle_failed)), g')))"

text \<open>\<^verbatim>\<open>hook\<close>: the decision that the runtime reads; an exception leaves it to the runtime.\<close>

definition hook :: "(bytes \<Rightarrow> string) \<Rightarrow> files \<Rightarrow> params \<Rightarrow> policy_gate \<Rightarrow> bool result \<times> policy_gate" where
  "hook sha d input g =
     (let (r, g') = gate_check sha d (str_of (pget input ''tool_name'')) (pget input ''tool_input'') g in
      (rbind r (\<lambda>reason. Inr (reason = None)), g'))"

text \<open>The calls of a session, in order; the answers of the gate.\<close>

fun gate_calls ::
  "(bytes \<Rightarrow> string) \<Rightarrow> files \<Rightarrow> (string \<times> jv) list \<Rightarrow> policy_gate \<Rightarrow> denial option result list" where
  "gate_calls sha d [] g = []"
| "gate_calls sha d ((tn, args) # cs) g =
     (let (r, g') = gate_check sha d tn args g in r # gate_calls sha d cs g')"

end
