(* ===== verification/Policy_Theorems.thy ===== *)
theory Policy_Theorems
  imports Policy_Gate Runner_Theorems Broker_Theorems
begin

text \<open>
  The worker's own gate against the checks that count: the broker's role and schema check and the
  store's role and state check, for a worker started from the specification that the controller writes.
\<close>

lemma make_spec_gate:
  assumes "make_spec d rec role b kind session token nc view = Inr spec"
  shows "pg_role (new_gate spec) = role" "pg_state (new_gate spec) = r_state rec"
    "\<exists>ts. TOOLS_BY_ROLE role = Some ts \<and> pg_allowed (new_gate spec) = ts \<and> pg_tool_states (new_gate spec) = tool_states ts"
  using assms by (auto simp: make_spec_def new_gate_def split: option.splits)

lemma by_name_of_mem: "t \<in> set TOOLS \<Longrightarrow> TOOLS_BY_NAME (t_name t) = Some t"
  unfolding TOOLS_BY_NAME_def by (rule map_of_is_SomeI) (auto simp: tool_names_distinct comp_def)

lemma allowed_tool:
  assumes "tool_allowed role name"
  obtains ts where "TOOLS_BY_NAME name = Some ts" "role \<in> set (t_roles ts)"
  using assms by (auto simp: tool_allowed_iff by_name_of_mem)

lemma tool_states_lookup:
  "name \<in> set ts \<Longrightarrow> map_of (tool_states ts) name = Some (case TOOLS_BY_NAME name of None \<Rightarrow> [] | Some s \<Rightarrow> t_states s)"
  unfolding tool_states_def by (induction ts) auto

text \<open>The gate's verdict, for a gate that may have seen any number of calls.\<close>

lemma gate_check_spec:
  assumes "make_spec d rec role b kind session token nc view = Inr spec" "g = (new_gate spec)\<lparr>pg_calls := n\<rparr>" "name = bare_name tn"
  shows "fst (gate_check sha dir tn args g) =
    (if \<not> tool_allowed role name then Inr (Some Not_in_allowlist)
     else case TOOLS_BY_NAME name of
         None \<Rightarrow> Inl (PyError ''KeyError'')
       | Some ts \<Rightarrow>
           if \<not> validate (if truthy args then args else JObj []) (t_schema ts) then Inr (Some Invalid_arguments)
           else if n + 1 > ss_max_turns spec * 3 then Inr (Some Quota_exhausted)
           else if r_state rec \<notin> Some ` set (t_states ts) then Inr (Some Not_legal_in_state)
           else rbind (bundle_ok sha dir) (\<lambda>ok. Inr (if ok then None else Some Bundle_failed)))"
proof -
  obtain ts where ts: "TOOLS_BY_ROLE role = Some ts" "pg_allowed g = ts" "pg_tool_states g = tool_states ts"
    using make_spec_gate(3) [OF assms(1)] assms(2) by auto
  have g: "pg_state g = r_state rec" "pg_calls g = n" "pg_max_calls g = ss_max_turns spec * 3"
    using make_spec_gate(2) [OF assms(1)] by (simp_all add: assms(2) new_gate_def)
  have allowed: "name \<in> set (pg_allowed g) \<longleftrightarrow> tool_allowed role name" using ts by (simp add: tool_allowed_def)
  have legal: "legal_in g' name \<longleftrightarrow> r_state rec \<in> Some ` set (t_states t)"
    if "tool_allowed role name" "TOOLS_BY_NAME name = Some t" "g' = g\<lparr>pg_calls := k\<rparr>" for g' t k
    using that ts g tool_states_lookup [of name ts] by (auto simp: legal_in_def tool_allowed_def)
  show ?thesis
    unfolding gate_check_def Let_def assms(3) [symmetric]
    by (auto simp: allowed g legal split: option.splits)
qed

lemma authorize_runs:
  assumes "runs (authorize p name) tr res" "(Gate_check (pget p ''token'') (pget p ''episode_id''), Inr (B_cap cap)) \<in> set tr"
  shows "(\<exists>x. res = Inr x) \<longleftrightarrow>
     tool_allowed (cap_role cap) name \<and> (\<exists>ts. TOOLS_BY_NAME name = Some ts \<and> validate (args_of p) (t_schema ts))"
    and "res = Inr x \<Longrightarrow> x = (cap, args_of p)"
  using assms
  by (auto simp: authorize_def baudit_def runs_pbind runs_ask rbind_simps split: if_splits option.splits)

text \<open>A session passes at most the calls of its quota, whatever it asks for.\<close>

lemma gate_calls_bounded:
  "int (length (filter (\<lambda>r. r = Inr None) (gate_calls sha dir cs g))) \<le> max 0 (pg_max_calls g - pg_calls g)"
proof (induction cs arbitrary: g)
  case (Cons c cs)
  obtain tn args where c: "c = (tn, args)" by (cases c)
  obtain r g' where g': "gate_check sha dir tn args g = (r, g')" by (cases "gate_check sha dir tn args g")
  have "pg_max_calls g' = pg_max_calls g \<and> pg_calls g \<le> pg_calls g' \<and> (r = Inr None \<longrightarrow> pg_calls g' = pg_calls g + 1 \<and> pg_calls g' \<le> pg_max_calls g)"
    using g' by (auto simp: gate_check_def Let_def split: if_splits option.splits)
  then show ?case using Cons.IH [of g'] by (auto simp: c g')
qed simp

text \<open>C35: the worker's gate refuses nothing that the brokers accept on role and arguments, and passes nothing that they
refuse on role, arguments or state. For a worker started from the controller's specification: the broker authorises a call
with a token of the worker's role exactly when the gate does not deny it for the allowlist or the
arguments; and a call that passes the gate is authorised by the broker and passes the store's role and state check,
as long as the record and its bundle are those the step was started on.\<close>

theorem worker_gate_agrees:
  assumes "make_spec d rec role b kind session token nc view = Inr spec" "g = (new_gate spec)\<lparr>pg_calls := n\<rparr>" "name = bare_name tn"
    and "runs (authorize p name) tr res" "(Gate_check (pget p ''token'') (pget p ''episode_id''), Inr (B_cap cap)) \<in> set tr"
    and "cap_role cap = role" "pget p ''args'' = args"
  shows "((\<exists>x. res = Inr x) \<longleftrightarrow> fst (gate_check sha dir tn args g) \<notin> {Inr (Some Not_in_allowlist), Inr (Some Invalid_arguments)}) \<and>
    (fst (gate_check sha dir tn args g) = Inr None \<longrightarrow> res = Inr (cap, args_of p) \<and>
       (\<forall>op env x p' s. AGENT_OPS op = Some name \<and> x_principal x \<in> set [''episode_broker'', ''report_broker''] \<and>
          se_gate env (pget p' ''token'') (pget p' ''episode_id'') = Inr cap \<and> record_of s (pget p' ''episode_id'') = Inr rec \<and>
          r_bundle_id rec = Some (cap_bundle_id cap) \<longrightarrow> agent_gate env x op p' s = Inr (cap, rec)))"
proof -
  note gate = gate_check_spec [OF assms(1-3), of sha dir args]
  note auth = authorize_runs [OF assms(4, 5)]
  have args: "(if truthy args then args else JObj []) = args_of p" by (simp add: args_of_def assms(7))
  have known: "TOOLS_BY_NAME name \<noteq> None" if "tool_allowed role name" using that by (auto elim: allowed_tool)
  have "(\<exists>x. res = Inr x) \<longleftrightarrow> fst (gate_check sha dir tn args g) \<notin> {Inr (Some Not_in_allowlist), Inr (Some Invalid_arguments)}"
    unfolding gate args auth(1) assms(6) using known by (auto split: option.splits simp: rbind_def sum.case_eq_if)
  moreover have "agent_gate env x op p' s = Inr (cap, rec)"
    if "fst (gate_check sha dir tn args g) = Inr None" "AGENT_OPS op = Some name" "x_principal x \<in> set [''episode_broker'', ''report_broker'']"
      "se_gate env (pget p' ''token'') (pget p' ''episode_id'') = Inr cap" "record_of s (pget p' ''episode_id'') = Inr rec"
      "r_bundle_id rec = Some (cap_bundle_id cap)" for op env x p' s
  proof -
    from that(1) obtain ts where "tool_allowed role name" "TOOLS_BY_NAME name = Some ts" "r_state rec \<in> Some ` set (t_states ts)"
      unfolding gate by (auto split: if_splits option.splits)
    moreover from this(1, 2) have "role \<in> set (t_roles ts)" by (auto elim: allowed_tool)
    ultimately show ?thesis using that assms(6) by (auto simp: agent_gate_def rbind_simps)
  qed
  ultimately show ?thesis using auth(2) by fastforce
qed

definition ex_step_rec :: erec where
  "ex_step_rec = (empty_record ''e1'')\<lparr>r_state := Some ''diagnosing'', r_bundle_id := Some ex_bid\<rparr>"

definition ex_tool_name :: string where "ex_tool_name = ''mcp__valops__add_hypothesis''"

lemma ex_bare: "bare_name ex_tool_name = ''add_hypothesis''"
  by code_simp

lemma ex_bundle_diag:
  "param ex_bundle ''P-05'' (Some ''diagnostician'') c = Inr (JInt 5)" "param ex_bundle ''P-06'' (Some ''diagnostician'') c = Inr (JInt 1)"
  by (simp_all add: ex_bundle_def ex_yaml_def ex_roles_def rbind_simps threshold_def thresholds_def ex_thresholds_def param_def
      param_value_def pget_def as_dict_or_empty_def split: option.splits)

lemma ex_step_spec:
  "\<exists>spec. make_spec ex_deps ex_step_rec ''diagnostician'' ex_bundle ''incident'' ''s1'' ''t'' (''c1'', JObj [(''adapter'', JStr ''native'')]) [] = Inr spec \<and>
     ss_max_turns spec = 5"
  by (simp add: make_spec_def rbind_simps skills_inlined_def TOOLS_BY_ROLE_def ex_bundle_eval ex_bundle_diag DIAG_def)

lemma ex_authorize: "runs (authorize ex_bp ''add_hypothesis'')
    [(Gate_check (pget ex_bp ''token'') (pget ex_bp ''episode_id''), Inr (B_cap ex_bcap))] (Inr (ex_bcap, ex_hargs))"
  using ex_allowed ex_hargs_valid ex_hargs_truthy
  by (simp add: authorize_def ask_def rbind_simps ex_bcap_def tool_def args_of_def ex_bp_def pget_def)

theorem worker_gate_agrees_witness:
  "\<exists>spec res. fst (gate_check (\<lambda>_. []) [(MANIFEST, [])] ex_tool_name ex_hargs ((new_gate spec)\<lparr>pg_calls := 0\<rparr>)) = Inr None \<and>
     res = Inr (ex_bcap, args_of ex_bp)"
proof -
  obtain spec where spec: "make_spec ex_deps ex_step_rec ''diagnostician'' ex_bundle ''incident'' ''s1'' ''t''
      (''c1'', JObj [(''adapter'', JStr ''native'')]) [] = Inr spec" "ss_max_turns spec = 5" using ex_step_spec by blast
  have role: "cap_role ex_bcap = ''diagnostician''" by (simp add: ex_bcap_def)
  have args: "pget ex_bp ''args'' = ex_hargs" by (simp add: ex_bp_def pget_def)
  have pass: "fst (gate_check (\<lambda>_. []) [(MANIFEST, [])] ex_tool_name ex_hargs ((new_gate spec)\<lparr>pg_calls := 0\<rparr>)) = Inr None"
    using ex_allowed ex_hargs_valid ex_hargs_truthy spec(2)
    unfolding gate_check_spec [OF spec(1) refl refl] ex_bare
    by (simp add: tool_def ex_step_rec_def bundle_ok_def splitlines_def rbind_simps)
  note agree = worker_gate_agrees [OF spec(1) refl ex_bare [symmetric] ex_authorize _ role args, of "\<lambda>_. []" "[(MANIFEST, [])]"]
  then have "Inr (ex_bcap, ex_hargs) = (Inr (ex_bcap, args_of ex_bp) :: (capability \<times> jv) result)" using pass by simp
  then show ?thesis using pass by blast
qed

end
