(* ===== verification/Sandbox.thy ===== *)
theory Sandbox
  imports Controller_Effects Observer_Daemon
begin

text \<open>
  \<^verbatim>\<open>valops/sandbox/bwrap.py\<close> and the launcher of \<^verbatim>\<open>valops/controller/spawn.py\<close>: the argument vector
  of bubblewrap and the process that runs one worker in it.
  The launcher is a program over the calls it makes of the operating system; \<^verbatim>\<open>json.loads\<close> and the
  decoding of output with replacement characters are fields of \<open>launcher\<close>.
\<close>

section \<open>The sandbox command line\<close>

definition SandboxUnavailable :: exn where "SandboxUnavailable = PyError ''SandboxUnavailable''"

definition HOST_RO_DIRS :: "string list" where
  "HOST_RO_DIRS = [''/usr'', ''/lib'', ''/lib64'', ''/bin'', ''/sbin'', ''/etc/ssl'', ''/etc/ca-certificates'',
                   ''/etc/alternatives'', ''/etc/ld.so.cache'', ''/etc/localtime'']"

record rootfs_spec =
  rf_path :: "string option"
  rf_host_ro :: bool
  rf_extra_ro :: "(string \<times> string) list"

record sandbox_spec =
  sb_rootfs :: rootfs_spec
  sb_home :: string
  sb_bundle :: string
  sb_sockets :: "(string \<times> string) list"
  sb_scratch_mb :: int
  sb_env :: "(string \<times> string) list"

text \<open>\<^verbatim>\<open>{**d, **e}\<close>\<close>

definition dict_update :: "('k \<times> 'v) list \<Rightarrow> ('k \<times> 'v) list \<Rightarrow> ('k \<times> 'v) list" where
  "dict_update d e = foldl (\<lambda>d (k, v). dict_set d k v) d e"

definition rootfs_args :: "rootfs_spec \<Rightarrow> string list result" where
  "rootfs_args rf =
     (case rf_path rf of
        Some (c # cs) \<Rightarrow> Inr [''--ro-bind'', c # cs, ''/'']
      | _ \<Rightarrow> if rf_host_ro rf then Inr (concat (map (\<lambda>d. [''--ro-bind-try'', d, d]) HOST_RO_DIRS))
              else Inl SandboxUnavailable)"

definition sandbox_env :: "(string \<times> string) list \<Rightarrow> (string \<times> string) list" where
  "sandbox_env env =
     dict_update [(''HOME'', ''/home/valops''), (''PATH'', ''/usr/local/bin:/usr/bin:/bin''), (''LANG'', ''C.UTF-8'')] env"

definition scratch_args :: "int \<Rightarrow> string list" where
  "scratch_args mb = (if mb > 0 then [''--size'', int_str (mb * 1024 * 1024), ''--tmpfs'', ''/tmp''] else [])"

definition build_argv :: "string option \<Rightarrow> sandbox_spec \<Rightarrow> string list \<Rightarrow> string list result" where
  "build_argv bwrap sb command =
     (case bwrap of
        Some (c # cs) \<Rightarrow>
          rbind (rootfs_args (sb_rootfs sb)) (\<lambda>root.
            Inr ([c # cs, ''--unshare-all'', ''--die-with-parent'', ''--new-session'', ''--cap-drop'', ''ALL'', ''--clearenv'',
                  ''--hostname'', ''valops-worker'']
                 @ root
                 @ concat (map (\<lambda>(host, inside). [''--ro-bind'', host, inside]) (rf_extra_ro (sb_rootfs sb)))
                 @ [''--proc'', ''/proc'', ''--dev'', ''/dev'']
                 @ [''--ro-bind'', sb_home sb, ''/home/valops'', ''--ro-bind'', sb_bundle sb, ''/bundle'']
                 @ [''--dir'', ''/run/valops'']
                 @ concat (map (\<lambda>(host, inside). [''--bind'', host, inside]) (sb_sockets sb))
                 @ scratch_args (sb_scratch_mb sb)
                 @ concat (map (\<lambda>(k, v). [''--setenv'', k, v]) (sandbox_env (sb_env sb)))
                 @ [''--chdir'', ''/home/valops'', ''--''] @ command))
      | _ \<Rightarrow> Inl SandboxUnavailable)"

section \<open>The launcher\<close>

datatype spreq =
    Which_bwrap
  | Run_probe "string list"
  | Popen "string list" "(int \<times> int option) option" \<comment> \<open>argument vector; uid and gid to switch to\<close>
  | Communicate "rat option"
  | Killpg

datatype spans =
    A_path "string option"
  | A_code int
  | A_output int bytes bytes \<comment> \<open>return code, standard output, standard error\<close>
  | A_done

fun un_path :: "spans \<Rightarrow> string option option" where "un_path (A_path p) = Some p" | "un_path _ = None"
fun un_code :: "spans \<Rightarrow> int option" where "un_code (A_code c) = Some c" | "un_code _ = None"
fun un_output :: "spans \<Rightarrow> (int \<times> bytes \<times> bytes) option" where
  "un_output (A_output c out err) = Some (c, out, err)" | "un_output _ = None"
fun un_done :: "spans \<Rightarrow> unit option" where "un_done _ = Some ()"

type_synonym 'a spawn = "(spreq, spans, 'a) prog"

definition TimeoutExpired :: exn where "TimeoutExpired = PyError ''TimeoutExpired''"

text \<open>\<^verbatim>\<open>available\<close>, without the text of the reason.\<close>

definition probe_argv :: "string \<Rightarrow> string list" where
  "probe_argv bwrap = [bwrap, ''--unshare-all'', ''--die-with-parent'', ''--ro-bind'', ''/'', ''/'', ''true'']"

definition available :: "bool spawn" where
  "available =
     pbind (ask Which_bwrap un_path) (\<lambda>bwrap.
       case bwrap of
         Some (c # cs) \<Rightarrow>
           pbind (attempt (ask (Run_probe (probe_argv (c # cs))) un_code)) (\<lambda>r.
             case r of
               Inl e \<Rightarrow> if os_error e \<or> e = TimeoutExpired then Ret False else Raise e
             | Inr code \<Rightarrow> Ret (code = 0))
       | _ \<Rightarrow> Ret False)"

definition SOCKETS_INSIDE :: "(string \<times> string) list" where
  "SOCKETS_INSIDE =
     [(''episode'', ''/run/valops/episode.sock''), (''observer'', ''/run/valops/observer.sock''),
      (''report'', ''/run/valops/report.sock''), (''model'', ''/run/valops/model.sock'')]"

definition WORKER_PY :: string where "WORKER_PY = ''/usr/bin/python3''"

definition MCP_COMMAND :: "string list" where
  "MCP_COMMAND = [WORKER_PY, ''-m'', ''valops.worker.tools.mcp_server'', ''/home/valops/step.json'']"

definition WORKER_COMMAND :: "string list" where
  "WORKER_COMMAND = [WORKER_PY, ''-m'', ''valops.worker.main'', ''/home/valops/step.json'']"

definition MODEL_PORT :: int where "MODEL_PORT = 18080"

definition STDERR_CAP :: nat where "STDERR_CAP = 1024 * 1024"

record launcher =
  bl_rootfs :: "(string \<times> rootfs_spec) list"
  bl_uid :: "int option"
  bl_gid :: "int option"
  bl_scratch_mb :: "(string \<times> int) list"
  bl_python_path :: string
  bl_loads :: "string \<Rightarrow> jv option" \<comment> \<open>\<^verbatim>\<open>json.loads\<close>; \<^term>\<open>None\<close> is \<^verbatim>\<open>ValueError\<close>\<close>
  bl_decode :: "bytes \<Rightarrow> string"

fun bind_sockets :: "(string \<times> string) list \<Rightarrow> (string \<times> string) list \<Rightarrow> (string \<times> string) list result" where
  "bind_sockets [] acc = Inr acc"
| "bind_sockets ((k, host) # socks) acc =
     (case map_of SOCKETS_INSIDE k of
        None \<Rightarrow> Inl (PyError ''KeyError'')
      | Some inside \<Rightarrow> bind_sockets socks (dict_set acc host inside))"

definition step_sandbox ::
  "launcher \<Rightarrow> jv \<Rightarrow> string \<Rightarrow> string \<Rightarrow> (string \<times> string) list \<Rightarrow> sandbox_spec result" where
  "step_sandbox bl adapter home bundle socks =
     (if \<not> hashable adapter then Inl TypeError
      else case (if is_str adapter then map_of (bl_rootfs bl) (str_of adapter) else None) of
        None \<Rightarrow> Inl SandboxUnavailable
      | Some rf \<Rightarrow>
          rbind (bind_sockets socks []) (\<lambda>binds.
            Inr \<lparr>sb_rootfs = rf, sb_home = home, sb_bundle = bundle, sb_sockets = binds,
                 sb_scratch_mb = (case map_of (bl_scratch_mb bl) (str_of adapter) of None \<Rightarrow> 0 | Some mb \<Rightarrow> mb),
                 sb_env = [(''PYTHONPATH'', bl_python_path bl), (''PYTHONDONTWRITEBYTECODE'', ''1''),
                           (''VALOPS_PLACEHOLDER_KEY'', ''placeholder-not-a-secret'')]\<rparr>))"

fun last_json :: "(string \<Rightarrow> jv option) \<Rightarrow> string list \<Rightarrow> params option" where
  "last_json loads [] = None"
| "last_json loads (line # rest) =
     (case loads line of
        None \<Rightarrow> last_json loads rest
      | Some (JObj d) \<Rightarrow> (case pget d ''structured_output'' of JObj so \<Rightarrow> Some so | _ \<Rightarrow> None)
      | Some _ \<Rightarrow> None)"

definition last_json_line :: "launcher \<Rightarrow> bytes \<Rightarrow> params option" where
  "last_json_line bl out =
     (let ls = splitlines (strip (bl_decode bl out)) in last_json (bl_loads bl) (rev (drop (length ls - 3) ls)))"

definition launch_result_of :: "launcher \<Rightarrow> bool \<Rightarrow> int \<times> bytes \<times> bytes \<Rightarrow> launch_result" where
  "launch_result_of bl timed_out r =
     (case r of (code, out, err) \<Rightarrow>
        \<lparr>lr_exit_code = Some code, lr_timed_out = timed_out, lr_structured_output = last_json_line bl out,
         lr_stderr = take STDERR_CAP err\<rparr>)"

text \<open>\<^verbatim>\<open>communicate\<close> with the time limit, and the killing of the process tree when it passes.\<close>

definition await_worker :: "launcher \<Rightarrow> rat \<Rightarrow> launch_result spawn" where
  "await_worker bl timeout =
     pbind (attempt (ask (Communicate (Some timeout)) un_output)) (\<lambda>r.
       case r of
         Inr out \<Rightarrow> Ret (launch_result_of bl False out)
       | Inl e \<Rightarrow>
           if e \<noteq> TimeoutExpired then Raise e
           else
             pbind (catch (ask Killpg un_done) (\<lambda>e. if e = PyError ''ProcessLookupError'' then Ret () else Raise e)) (\<lambda>_.
             pbind (ask (Communicate None) un_output) (\<lambda>out. Ret (launch_result_of bl True out))))"

definition start_worker ::
  "launcher \<Rightarrow> jv \<Rightarrow> string \<Rightarrow> string \<Rightarrow> (string \<times> string) list \<Rightarrow> rat \<Rightarrow> launch_result spawn" where
  "start_worker bl adapter home bundle socks timeout =
     pbind (lift (step_sandbox bl adapter home bundle socks)) (\<lambda>sb.
     pbind (ask Which_bwrap un_path) (\<lambda>bwrap.
     pbind (lift (build_argv bwrap sb WORKER_COMMAND)) (\<lambda>argv.
     pbind (ask (Popen argv (map_option (\<lambda>u. (u, bl_gid bl)) (bl_uid bl))) un_done) (\<lambda>_.
       await_worker bl timeout))))"

definition launcher_run ::
  "launcher \<Rightarrow> jv \<Rightarrow> string \<Rightarrow> string \<Rightarrow> (string \<times> string) list \<Rightarrow> rat \<Rightarrow> launch_result spawn" where
  "launcher_run bl adapter home bundle socks timeout =
     pbind available (\<lambda>ok. if \<not> ok then Raise SandboxUnavailable else start_worker bl adapter home bundle socks timeout)"

definition launcher_preflight :: "bool spawn" where
  "launcher_preflight = available"

end
