(* ===== verification/Step_Home.thy ===== *)
theory Step_Home
  imports Sandbox Runner
begin

text \<open>
  The home directory that the controller writes for one step: \<^verbatim>\<open>build_home\<close> and \<^verbatim>\<open>remove_home\<close> of
  \<^verbatim>\<open>valops/controller/spawn.py\<close>, the specification that \<^verbatim>\<open>runner.py\<close> writes into it, and the generated
  configuration of the command-line runtimes. \<^verbatim>\<open>json.dumps\<close> is an argument (with and without indentation).
\<close>

section \<open>The specification of a step\<close>

definition spec_json :: "step_spec \<Rightarrow> params result" where
  "spec_json s =
     rbind (as_dict (ss_conf s)) (\<lambda>conf.
       Inr [(''role'', JStr (ss_role s)), (''episode_id'', JStr (ss_episode_id s)), (''session_id'', JStr (ss_session_id s)),
            (''token'', JStr (ss_token s)), (''kind'', JStr (ss_kind s)),
            (''state'', case ss_state s of None \<Rightarrow> JNull | Some st \<Rightarrow> JStr st), (''bundle_path'', JStr ''/bundle''),
            (''inlined_prompts'', JBool (ss_inlined s)),
            (''configuration'', JObj (dict_update [(''name'', JStr (ss_conf_name s))] conf)), (''model_port'', JInt MODEL_PORT),
            (''sockets'', JObj (map (\<lambda>(k, p). (k, JStr p)) SOCKETS_INSIDE)), (''tools'', JArr (map JStr (ss_tools s))),
            (''max_turns'', JInt (ss_max_turns s)), (''max_budget_usd'', JFloat (ss_max_budget_usd s)),
            (''tool_states'', JObj (map (\<lambda>(t, sts). (t, JArr (map JStr sts))) (ss_tool_states s))),
            (''input_view'', JObj (ss_input_view s)), (''development'', JBool (ss_development s)),
            (''timeout_s'', JFloat (ss_timeout_s s))])"

section \<open>Generated configuration\<close>

definition BACKSLASH :: char where "BACKSLASH = CHR 0x5C"
definition QUOTE :: char where "QUOTE = CHR 0x22"
definition NEWLINE :: char where "NEWLINE = CHR 0x0A"

definition replace_char :: "char \<Rightarrow> string \<Rightarrow> string \<Rightarrow> string" where
  "replace_char c new s = concat (map (\<lambda>d. if d = c then new else [d]) s)"

text \<open>\<^verbatim>\<open>_q\<close>: a basic string of TOML.\<close>

definition toml_quote :: "string \<Rightarrow> string" where
  "toml_quote s =
     [QUOTE] @ replace_char QUOTE [BACKSLASH, QUOTE] (replace_char BACKSLASH [BACKSLASH, BACKSLASH] s) @ [QUOTE]"

definition PLACEHOLDER_ENV :: string where "PLACEHOLDER_ENV = ''VALOPS_PLACEHOLDER_KEY''"

definition unlines :: "string list \<Rightarrow> string" where
  "unlines ls = concat (map (\<lambda>l. l @ [NEWLINE]) ls)"

definition config_toml :: "string \<Rightarrow> int \<Rightarrow> string list \<Rightarrow> string" where
  \<open>config_toml model port command = unlines
     [''# GENERATED by the valops controller from the bound bundle. Read-only at runtime.'',
      ''model = '' @ toml_quote model,
      ''model_provider = "valops"'',
      ''approval_policy = "never"            # non-interactive; no escalation path            [U] exact key'',
      ''sandbox_mode = "read-only"           # nested inside D11; must never degrade to none   [U] PC-5'',
      ''default_permissions = ":read-only"   # [E] S10'',
      ''check_for_update_on_startup = false  # PC-7                                           [U]'',
      [],
      ''[model_providers.valops]'',
      ''name = "valops-model-broker"'',
      ''base_url = "http://127.0.0.1:'' @ int_str port @ ''/openai/v1"   # the broker loopback is the only route  [E] S11'',
      ''env_key = "'' @ PLACEHOLDER_ENV @ ''"'',
      ''wire_api = "responses"'',
      [],
      ''[mcp_servers.valops]                  # the ONLY tool source (PC-6)                   [E] S12'',
      ''command = '' @ toml_quote (hd command),
      ''args = ['' @ join_comma (map toml_quote (tl command)) @ '']'',
      [],
      ''[tools]'',
      ''web_search = false                    # [U] exact key'',
      [],
      ''[analytics]'',
      ''enabled = false                       # PC-7                                           [U]'']\<close>

definition agents_md :: "string \<Rightarrow> string" where
  "agents_md prompt =
     unlines [''<!-- GENERATED from the bound policy bundle; no other instruction file is read -->''] @ prompt"

definition settings_json :: jv where
  "settings_json =
     JObj [(''permissions'', JObj [(''allow'', JArr [])]), (''telemetry'', JObj [(''enabled'', JBool False)]),
           (''autoUpdate'', JBool False)]"

definition mcp_config_json :: "string list \<Rightarrow> jv" where
  "mcp_config_json command =
     JObj [(''mcpServers'', JObj [(''valops'', JObj [(''command'', JStr (hd command)), (''args'', JArr (map JStr (tl command)))])])]"

section \<open>Building and removing a home\<close>

text \<open>The entries of a home by path; a file has a text, a directory has none.\<close>

record home_entry =
  he_path :: string
  he_text :: "string option"
  he_mode :: nat

type_synonym homes = "(string \<times> home_entry list) list"

text \<open>New files and directories have the modes that the process mask leaves, here those of mask 022.\<close>

definition new_dir :: "string \<Rightarrow> home_entry" where
  "new_dir p = \<lparr>he_path = p, he_text = None, he_mode = 7 * 64 + 5 * 8 + 5\<rparr>"

definition new_file :: "string \<Rightarrow> string \<Rightarrow> home_entry" where
  "new_file p t = \<lparr>he_path = p, he_text = Some t, he_mode = 6 * 64 + 4 * 8 + 4\<rparr>"

text \<open>The files of the command-line runtimes; the model name is read from the specification.\<close>

definition adapter_files :: "(jv \<Rightarrow> string) \<Rightarrow> params \<Rightarrow> string \<Rightarrow> jv \<Rightarrow> home_entry list result" where
  "adapter_files dumps2 spec prompt adapter =
     (if adapter = JStr ''codex_cli'' then
        rbind (getitem (pget spec ''configuration'') ''model'') (\<lambda>m.
          case m of
            JStr model \<Rightarrow> Inr [new_dir ''.codex'', new_file ''.codex/config.toml'' (config_toml model MODEL_PORT MCP_COMMAND),
                               new_file ''AGENTS.md'' (agents_md prompt)]
          | _ \<Rightarrow> Inl (PyError ''AttributeError''))
      else if adapter = JStr ''antigravity_cli'' then
        Inr [new_dir ''.gemini'', new_dir ''.gemini/antigravity-cli'',
             new_file ''.gemini/antigravity-cli/settings.json'' (dumps2 settings_json),
             new_file ''.gemini/antigravity-cli/mcp_config.json'' (dumps2 (mcp_config_json MCP_COMMAND))]
      else Inr [])"

definition protect :: "home_entry \<Rightarrow> home_entry" where
  "protect e = e\<lparr>he_mode := if he_text e = None then 5 * 64 + 5 * 8 else 4 * 64 + 4 * 8\<rparr>"

text \<open>An exception after the directory was made leaves it behind with what was written.\<close>

definition build_home ::
  "(jv \<Rightarrow> string) \<Rightarrow> (jv \<Rightarrow> string) \<Rightarrow> string \<Rightarrow> params \<Rightarrow> string \<Rightarrow> jv \<Rightarrow> homes \<Rightarrow> unit result \<times> homes" where
  "build_home dumps dumps2 session spec prompt adapter hs =
     (if map_of hs session \<noteq> None then (Inl (PyError ''FileExistsError''), hs)
      else
        (let root = new_dir []; step = new_file ''step.json'' (dumps (JObj spec)) in
         case adapter_files dumps2 spec prompt adapter of
           Inl e \<Rightarrow> (Inl e, dict_set hs session
                       (root # step # (if adapter = JStr ''codex_cli'' then [new_dir ''.codex''] else [])))
         | Inr fs \<Rightarrow> (Inr (), dict_set hs session (map protect (root # step # fs)))))"

text \<open>The mode of a home that is not there cannot be changed.\<close>

definition remove_home :: "string \<Rightarrow> homes \<Rightarrow> unit result \<times> homes" where
  "remove_home session hs =
     (if map_of hs session = None then (Inl (PyError ''FileNotFoundError''), hs)
      else (Inr (), filter (\<lambda>h. fst h \<noteq> session) hs))"

end
