(* ===== verification/Wiring.thy ===== *)
theory Wiring
  imports Store Builder Brokers Report_Broker Model_Broker Sequencer Runner Verifier Sentinel Step_Home
begin

text \<open>
  How the processes are put together: \<^verbatim>\<open>valops/config.py\<close> and \<^verbatim>\<open>valops/services.py\<close>, with the \<^verbatim>\<open>endpoints\<close> methods of
  the brokers and the sequencer. Every process serves Unix sockets, each with a principal, the uids it admits and
  its methods, and holds clients of other processes' sockets. A path is a list of components under its root, as
  \<^verbatim>\<open>pathlib\<close> keeps it.
\<close>

section \<open>Paths\<close>

type_synonym path = "string \<times> string list"

definition path_of :: "string \<Rightarrow> path" where
  "path_of s =
     (if starts_with ''//'' s \<and> \<not> starts_with ''///'' s then ''//'' else if starts_with ''/'' s then ''/'' else [],
      filter (\<lambda>p. p \<noteq> [] \<and> p \<noteq> ''.'') (path_parts s))"

fun join_slash :: "string list \<Rightarrow> string" where
  "join_slash [] = []"
| "join_slash [p] = p"
| "join_slash (p # ps) = p @ ''/'' @ join_slash ps"

definition path_str :: "path \<Rightarrow> string" where
  "path_str p = (if fst p = [] \<and> snd p = [] then ''.'' else fst p @ join_slash (snd p))"

definition path_div :: "path \<Rightarrow> string \<Rightarrow> path" where
  "path_div p s = (fst p, snd p @ [s])"

section \<open>Configuration\<close>

definition UID_CLASSES :: "string list" where
  "UID_CLASSES = [''controller'', ''worker'', ''verifier'', ''episode_broker'', ''observer_broker'', ''report_broker'', ''model_broker'',
              ''audit_sequencer'', ''store'', ''operator'']"

text \<open>The uids that a set of configured values contains: numbers are equal by value.\<close>

definition uid_values :: "jv list \<Rightarrow> int list" where
  "uid_values vs =
     concat (map (\<lambda>v. case num_of v of Some r \<Rightarrow> if r = of_int \<lfloor>r\<rfloor> then [\<lfloor>r\<rfloor>] else [] | None \<Rightarrow> []) vs)"

definition uid_set :: "jv \<Rightarrow> int list result" where
  "uid_set v =
     rbind (py_iter v) (\<lambda>vs. if list_ex (\<lambda>v. \<not> hashable v) vs then Inl TypeError else Inr (uid_values vs))"

fun class_uids :: "jv \<Rightarrow> string list \<Rightarrow> (string \<times> int list) list result" where
  "class_uids us [] = Inr []"
| "class_uids us (c # cs) =
     rbind (rbind (getitem us c) uid_set) (\<lambda>u. rbind (class_uids us cs) (\<lambda>rest. Inr ((c, u) # rest)))"

record config =
  cf_development :: bool
  cf_run :: path
  cf_state :: path
  cf_uids :: "(string \<times> int list) list"

text \<open>\<^verbatim>\<open>Path(v)\<close>\<close>

definition path_arg :: "jv \<Rightarrow> path result" where
  "path_arg v = (case v of JStr s \<Rightarrow> Inr (path_of s) | _ \<Rightarrow> Inl TypeError)"

definition load_config :: "int \<Rightarrow> params \<Rightarrow> config result" where
  "load_config me d =
     (let dev = truthy (pget_default d ''development'' (JBool False)) in
      rbind (path_arg (pget_default d ''runtime_dir'' (JStr ''/run/valops''))) (\<lambda>run.
      rbind (path_arg (pget_default d ''state_dir'' (JStr ''/var/lib/valops''))) (\<lambda>st.
      rbind (if truthy (pget d ''dev_single_uid'')
             then if \<not> dev then Inl (PyError ''ValueError'') else Inr (map (\<lambda>c. (c, [me])) UID_CLASSES)
             else rbind (getitem (JObj d) ''uids'') (\<lambda>us. class_uids us UID_CLASSES)) (\<lambda>uids.
        Inr \<lparr>cf_development = dev, cf_run = run, cf_state = st, cf_uids = uids\<rparr>))))"

definition uids_of :: "config \<Rightarrow> string \<Rightarrow> int list" where
  "uids_of cf c = (case map_of (cf_uids cf) c of None \<Rightarrow> [] | Some us \<Rightarrow> us)"

text \<open>\<^verbatim>\<open>Paths.store\<close>, \<^verbatim>\<open>Paths.audit\<close> and \<^verbatim>\<open>Paths.broker\<close>.\<close>

definition sock_name :: "string \<Rightarrow> string" where "sock_name n = n @ ''.sock''"

definition store_path :: "config \<Rightarrow> string \<Rightarrow> string" where
  "store_path cf n = path_str (path_div (path_div (cf_run cf) ''store'') (sock_name n))"

definition audit_path :: "config \<Rightarrow> string \<Rightarrow> string" where
  "audit_path cf n = path_str (path_div (path_div (cf_run cf) ''audit'') (sock_name n))"

definition broker_path :: "config \<Rightarrow> string \<Rightarrow> string \<Rightarrow> string" where
  "broker_path cf b n = path_str (path_div (path_div (cf_run cf) b) (sock_name n))"

definition run_dir :: "config \<Rightarrow> string \<Rightarrow> string" where
  "run_dir cf d = path_str (path_div (cf_run cf) d)"

section \<open>Sockets\<close>

record socket =
  so_path :: string
  so_name :: string
  so_principal :: string
  so_uids :: "int list"
  so_methods :: "string list"

definition in_dir :: "string \<Rightarrow> string \<Rightarrow> string" where
  "in_dir dir n = dir @ ''/'' @ sock_name n"

text \<open>The socket on which an endpoint of \<open>Rpc\<close> is served.\<close>

definition socket_of :: "string \<Rightarrow> ('st, 'r) endpoint \<Rightarrow> socket" where
  "socket_of path ep =
     \<lparr>so_path = path, so_name = ep_name ep, so_principal = ep_principal ep, so_uids = ep_allowed_uids ep,
      so_methods = map fst (ep_methods ep)\<rparr>"

definition store_sockets :: "string \<Rightarrow> (string \<Rightarrow> int list) \<Rightarrow> senv \<Rightarrow> socket list" where
  "store_sockets dir uids env =
     map2 (\<lambda>n. socket_of (in_dir dir n)) [''agent'', ''agent-report'', ''control'', ''verify'', ''observe''] (endpoints uids env)"

definition sequencer_sockets :: "string \<Rightarrow> (string \<times> int list) list \<Rightarrow> socket list" where
  "sequencer_sockets dir principals =
     map (\<lambda>(p, us). \<lparr>so_path = in_dir dir p, so_name = ''audit-'' @ p, so_principal = p, so_uids = us,
        so_methods = [''submit'', ''status''] @ (if p = ''observer_broker'' then [''record_daemon_checkpoint''] else [])
          @ (if p = ''controller'' then [''anchor_now''] else [])\<rparr>) principals"

definition admin_socket :: "string \<Rightarrow> string \<Rightarrow> int list \<Rightarrow> socket" where
  "admin_socket name path us =
     \<lparr>so_path = path, so_name = name @ ''-admin'', so_principal = ''controller'', so_uids = us, so_methods = [''revoke_session'', ''ping'']\<rparr>"

definition worker_socket :: "string \<Rightarrow> string \<Rightarrow> int list \<Rightarrow> string list \<Rightarrow> socket" where
  "worker_socket name dir us ms =
     \<lparr>so_path = in_dir dir ''worker'', so_name = name, so_principal = ''worker'', so_uids = us, so_methods = ms\<rparr>"

text \<open>The methods of the episode broker are those of its table in \<open>Brokers\<close>.\<close>

definition episode_broker_sockets :: "(string \<times> 'm) list \<Rightarrow> string \<Rightarrow> int list \<Rightarrow> int list \<Rightarrow> socket list" where
  "episode_broker_sockets ms dir worker controller =
     [worker_socket ''episode-broker'' dir worker (map fst ms), admin_socket ''episode-broker'' (in_dir dir ''admin'') controller]"

definition observer_broker_sockets :: "string \<Rightarrow> int list \<Rightarrow> int list \<Rightarrow> int list \<Rightarrow> socket list" where
  "observer_broker_sockets dir worker system controller =
     [worker_socket ''observer-broker'' dir worker (map t_name (filter (\<lambda>t. t_broker t = ''observer'') TOOLS)),
      \<lparr>so_path = in_dir dir ''system'', so_name = ''observer-broker-system'', so_principal = ''system'', so_uids = system,
       so_methods = [''sample'', ''telemetry'', ''probe'']\<rparr>,
      admin_socket ''observer-broker'' (in_dir dir ''admin'') controller]"

definition report_broker_sockets :: "string \<Rightarrow> int list \<Rightarrow> int list \<Rightarrow> int list \<Rightarrow> int list \<Rightarrow> socket list" where
  "report_broker_sockets dir worker system controller operator =
     [worker_socket ''report-broker'' dir worker [''write_incident_report'', ''send_alert''],
      \<lparr>so_path = in_dir dir ''system'', so_name = ''report-broker-system'', so_principal = ''system'', so_uids = system,
       so_methods = [''system_alert'', ''alerts_for'']\<rparr>,
      \<lparr>so_path = in_dir dir ''operator'', so_name = ''report-broker-operator'', so_principal = ''operator'', so_uids = operator,
       so_methods = [''ack'', ''list_alerts'']\<rparr>,
      admin_socket ''report-broker'' (in_dir dir ''admin'') controller]"

definition model_admin_socket :: "string \<Rightarrow> int list \<Rightarrow> socket" where
  "model_admin_socket path controller =
     \<lparr>so_path = path, so_name = ''model-broker-admin'', so_principal = ''controller'', so_uids = controller,
      so_methods = [''open_session'', ''close_session'', ''meter'', ''ping'']\<rparr>"

section \<open>Processes\<close>

text \<open>What the processes are built from besides the configuration: the store's environment and the texts of the episode broker.\<close>

record stack_env =
  sk_store :: senv
  sk_section :: "string \<Rightarrow> string \<Rightarrow> string option"
  sk_other :: "jv \<Rightarrow> string"

text \<open>\<^verbatim>\<open>a | b\<close> on sets of uids.\<close>

definition uid_union :: "int list \<Rightarrow> int list \<Rightarrow> int list" where
  "uid_union us vs = us @ filter (\<lambda>v. v \<notin> set us) vs"

definition SUBMITTERS :: "string list" where
  "SUBMITTERS = [''controller'', ''verifier'', ''store'', ''episode_broker'', ''observer_broker'', ''report_broker'', ''model_broker'']"

definition build_sequencer :: "config \<Rightarrow> socket list" where
  "build_sequencer cf = sequencer_sockets (run_dir cf ''audit'') (map (\<lambda>p. (p, uids_of cf p)) SUBMITTERS)"

definition build_store :: "config \<Rightarrow> stack_env \<Rightarrow> socket list" where
  "build_store cf sk = store_sockets (run_dir cf ''store'') (uids_of cf) (sk_store sk)"

definition build_episode_broker :: "config \<Rightarrow> stack_env \<Rightarrow> socket list" where
  "build_episode_broker cf sk =
     episode_broker_sockets (episode_methods (sk_section sk) (sk_other sk)) (run_dir cf ''episode-broker'')
       (uids_of cf ''worker'') (uids_of cf ''controller'')"

definition build_observer_broker :: "config \<Rightarrow> socket list" where
  "build_observer_broker cf =
     observer_broker_sockets (run_dir cf ''observer-broker'') (uids_of cf ''worker'')
       (uid_union (uids_of cf ''controller'') (uids_of cf ''verifier'')) (uids_of cf ''controller'')"

definition build_report_broker :: "config \<Rightarrow> socket list" where
  "build_report_broker cf =
     report_broker_sockets (run_dir cf ''report-broker'') (uids_of cf ''worker'')
       (uid_union (uids_of cf ''controller'') (uids_of cf ''verifier'')) (uids_of cf ''controller'') (uids_of cf ''operator'')"

definition build_model_broker :: "config \<Rightarrow> socket list" where
  "build_model_broker cf = [model_admin_socket (broker_path cf ''model-broker'' ''admin'') (uids_of cf ''controller'')]"

definition ORDER :: "string list" where
  "ORDER = [''sequencer'', ''store'', ''episode-broker'', ''observer-broker'', ''report-broker'', ''model-broker'', ''verifier'', ''controller'']"

definition builders :: "config \<Rightarrow> stack_env \<Rightarrow> (string \<times> socket list) list" where
  "builders cf sk =
     [(''sequencer'', build_sequencer cf), (''store'', build_store cf sk), (''episode-broker'', build_episode_broker cf sk),
      (''observer-broker'', build_observer_broker cf), (''report-broker'', build_report_broker cf),
      (''model-broker'', build_model_broker cf), (''controller'', []), (''verifier'', [])]"

text \<open>\<^verbatim>\<open>serve\<close>: the sockets of the processes that are started; an unknown name raises.\<close>

fun served_sockets :: "config \<Rightarrow> stack_env \<Rightarrow> string list \<Rightarrow> socket list result" where
  "served_sockets cf sk [] = Inr []"
| "served_sockets cf sk (n # ns) =
     (case map_of (builders cf sk) n of
        None \<Rightarrow> Inl (PyError ''KeyError'')
      | Some ss \<Rightarrow> rbind (served_sockets cf sk ns) (\<lambda>rest. Inr (ss @ rest)))"

section \<open>Clients\<close>

text \<open>The sockets that the clients of each process connect to.\<close>

definition controller_clients :: "config \<Rightarrow> (string \<times> string) list" where
  "controller_clients cf =
     [(''store'', store_path cf ''control''), (''audit'', audit_path cf ''controller''), (''report_sys'', broker_path cf ''report-broker'' ''system''),
      (''episode_broker'', broker_path cf ''episode-broker'' ''admin''), (''observer_broker'', broker_path cf ''observer-broker'' ''admin''),
      (''report_broker'', broker_path cf ''report-broker'' ''admin''), (''model_broker'', broker_path cf ''model-broker'' ''admin'')]"

definition ADMINS :: "string list" where
  "ADMINS = [''episode_broker'', ''observer_broker'', ''report_broker'']"

definition worker_sockets :: "config \<Rightarrow> (string \<times> string) list" where
  "worker_sockets cf =
     [(''episode'', broker_path cf ''episode-broker'' ''worker''), (''observer'', broker_path cf ''observer-broker'' ''worker''),
      (''report'', broker_path cf ''report-broker'' ''worker'')]"

definition sentinel_clients :: "config \<Rightarrow> (string \<times> string) list" where
  "sentinel_clients cf =
     [(''store'', store_path cf ''control''), (''observer'', broker_path cf ''observer-broker'' ''system''),
      (''report'', broker_path cf ''report-broker'' ''system''), (''audit'', audit_path cf ''controller'')]"

definition verifier_clients :: "config \<Rightarrow> (string \<times> string) list" where
  "verifier_clients cf =
     [(''store'', store_path cf ''verify''), (''observer'', broker_path cf ''observer-broker'' ''system''),
      (''report'', broker_path cf ''report-broker'' ''system'')]"

definition broker_clients :: "config \<Rightarrow> string \<Rightarrow> (string \<times> string) list" where
  "broker_clients cf b =
     (if b = ''episode_broker'' then [(''store'', store_path cf ''agent''), (''audit'', audit_path cf ''episode_broker'')]
      else if b = ''observer_broker'' then [(''store'', store_path cf ''observe''), (''audit'', audit_path cf ''observer_broker'')]
      else if b = ''report_broker'' then [(''store'', store_path cf ''agent-report''), (''audit'', audit_path cf ''report_broker'')]
      else [])"

text \<open>The client and the method behind each request of a process; the others are local.\<close>

fun controller_call :: "creq \<Rightarrow> (string \<times> string) option" where
  "controller_call (Read_record _) = Some (''store'', ''read_episode'')"
| "controller_call (Read_view _ _) = Some (''store'', ''read_episode'')"
| "controller_call (Set_state _ _ _ _ _) = Some (''store'', ''set_state'')"
| "controller_call (Append_cost _ _ _ _ _ _ _ _) = Some (''store'', ''append_cost'')"
| "controller_call (Append_step _ _ _ _ _ _ _ _) = Some (''store'', ''append_step'')"
| "controller_call List_episodes = Some (''store'', ''list_episodes'')"
| "controller_call (Audit_submit _ _ _ _) = Some (''audit'', ''submit'')"
| "controller_call Audit_status = Some (''audit'', ''status'')"
| "controller_call (System_alert _ _ _ _ _) = Some (''report_sys'', ''system_alert'')"
| "controller_call (Alerts_for _ _) = Some (''report_sys'', ''alerts_for'')"
| "controller_call (Ping n) = Some (n, ''ping'')"
| "controller_call (Open_session _ _ _ _) = Some (''model_broker'', ''open_session'')"
| "controller_call (Close_session _) = Some (''model_broker'', ''close_session'')"
| "controller_call (Revoke_session n _) = Some (n, ''revoke_session'')"
| "controller_call _ = None"

fun sentinel_call :: "sreq \<Rightarrow> (string \<times> string) option" where
  "sentinel_call S_probe = Some (''observer'', ''probe'')"
| "sentinel_call (S_sample _) = Some (''observer'', ''sample'')"
| "sentinel_call S_telemetry = Some (''observer'', ''telemetry'')"
| "sentinel_call (S_open _) = Some (''store'', ''open_episode'')"
| "sentinel_call (S_signal _) = Some (''store'', ''append_signal'')"
| "sentinel_call (S_list _) = Some (''store'', ''list_episodes'')"
| "sentinel_call (S_annotate _) = Some (''store'', ''annotate'')"
| "sentinel_call (S_alert _) = Some (''report'', ''system_alert'')"
| "sentinel_call (S_audit _) = Some (''audit'', ''submit'')"
| "sentinel_call _ = None"

fun verifier_call :: "vreq \<Rightarrow> (string \<times> string) option" where
  "verifier_call V_list = Some (''store'', ''list_episodes'')"
| "verifier_call V_probe = Some (''observer'', ''probe'')"
| "verifier_call V_telemetry = Some (''observer'', ''telemetry'')"
| "verifier_call (V_sample _) = Some (''observer'', ''sample'')"
| "verifier_call (V_read _) = Some (''store'', ''read_episode'')"
| "verifier_call (V_verification _ _ _ _) = Some (''store'', ''append_verification'')"
| "verifier_call (V_set_state _ _ _ _) = Some (''store'', ''set_state'')"
| "verifier_call (V_recovery _ _ _ _) = Some (''store'', ''append_recovery_observation'')"
| "verifier_call (V_alert _ _ _ _) = Some (''report'', ''system_alert'')"
| "verifier_call _ = None"

fun broker_call :: "breq \<Rightarrow> (string \<times> string) option" where
  "broker_call (Store_call m _) = Some (''store'', m)"
| "broker_call (Audit_event _ _ _ _) = Some (''audit'', ''submit'')"
| "broker_call Sequencer_status = Some (''audit'', ''status'')"
| "broker_call (Record_checkpoint _) = Some (''audit'', ''record_daemon_checkpoint'')"
| "broker_call _ = None"

section \<open>Root file systems and approvals\<close>

text \<open>The root file systems that \<^verbatim>\<open>controller_deps\<close> configures; the host's own only in development.\<close>

definition host_rootfs :: "string \<Rightarrow> (string \<times> string) list \<Rightarrow> rootfs_spec" where
  "host_rootfs pkg extra = \<lparr>rf_path = None, rf_host_ro = True, rf_extra_ro = dict_update [(pkg, ''/opt/valops/valops'')] extra\<rparr>"

definition set_default :: "('k \<times> 'v) list \<Rightarrow> 'k \<Rightarrow> 'v \<Rightarrow> ('k \<times> 'v) list" where
  "set_default d k v = (if map_of d k = None then d @ [(k, v)] else d)"

definition sandbox_rootfs ::
  "config \<Rightarrow> (string \<times> string option) list \<Rightarrow> bool \<Rightarrow> string \<Rightarrow> (string \<times> string) list \<Rightarrow> (string \<times> rootfs_spec) list" where
  "sandbox_rootfs cf paths host_ro_dev pkg extra =
     (let fs = map (\<lambda>(a, p). (a, \<lparr>rf_path = p, rf_host_ro = False, rf_extra_ro = []\<rparr>)) paths in
      if cf_development cf \<and> host_ro_dev
      then foldl (\<lambda>d a. set_default d a (host_rootfs pkg extra)) fs [''native'', ''claude_sdk'', ''codex_cli'', ''antigravity_cli'']
      else fs)"

text \<open>The providers that the approvals file approves, and whether an upstream may be insecure.\<close>

definition approval_valid :: "jv \<Rightarrow> bool result" where
  "approval_valid a =
     (if \<not> truthy a then Inr False
      else rbind (as_dict a) (\<lambda>d. Inr (pget d ''approved'' = JBool True \<and> truthy (pget d ''record''))))"

fun approvals :: "params \<Rightarrow> string list result" where
  "approvals [] = Inr []"
| "approvals ((p, a) # rest) =
     rbind (approval_valid a) (\<lambda>ok. rbind (approvals rest) (\<lambda>ps. Inr (if ok then p # ps else ps)))"

definition approved_providers :: "jv \<Rightarrow> string list result" where
  "approved_providers doc =
     rbind (as_dict (or_empty doc)) (\<lambda>d. rbind (as_dict (or_empty (pget d ''providers''))) approvals)"

definition insecure_upstream :: "config \<Rightarrow> params \<Rightarrow> bool" where
  "insecure_upstream cf mb = (truthy (pget mb ''allow_insecure_upstream_for_tests'') \<and> cf_development cf)"

end
