(* ===== verification/Sandbox_Theorems.thy ===== *)
theory Sandbox_Theorems
  imports Sandbox Step_Home
begin

text \<open>
  Properties of the sandbox command line, the launcher and the step home.

  \<open>read_options\<close> reads an argument vector as bubblewrap does: an option takes the number of words that
  its manual gives, and \<^verbatim>\<open>--\<close> ends the options. The words of the vector come from the configuration, so a
  path could look like an option; reading the vector back shows that it is not taken for one.
\<close>

section \<open>Reading an argument vector\<close>

definition BWRAP_OPTIONS :: "(string \<times> nat) list" where
  "BWRAP_OPTIONS =
     [(''--unshare-all'', 0), (''--die-with-parent'', 0), (''--new-session'', 0), (''--cap-drop'', 1), (''--clearenv'', 0),
      (''--hostname'', 1), (''--ro-bind'', 2), (''--ro-bind-try'', 2), (''--bind'', 2), (''--proc'', 1), (''--dev'', 1), (''--dir'', 1),
      (''--size'', 1), (''--tmpfs'', 1), (''--setenv'', 2), (''--chdir'', 1)]"

type_synonym sandbox_option = "string \<times> string list"

function read_options :: "string list \<Rightarrow> (sandbox_option list \<times> string list) option" where
  "read_options [] = None"
| "read_options (w # ws) =
     (if w = ''--'' then Some ([], ws)
      else case map_of BWRAP_OPTIONS w of
          None \<Rightarrow> None
        | Some n \<Rightarrow>
            if length ws < n then None
            else map_option (\<lambda>(os, c). ((w, take n ws) # os, c)) (read_options (drop n ws)))"
  by pat_completeness auto
termination by (relation "measure length") auto

declare read_options.simps(2) [simp del]

lemma read_end [simp]: "read_options (''--'' # ws) = Some ([], ws)"
  by (simp add: read_options.simps)

lemma read_word:
  assumes "map_of BWRAP_OPTIONS w = Some (length as)"
  shows "read_options (w # as @ ws) = map_option (\<lambda>(os, c). ((w, as) # os, c)) (read_options ws)"
proof -
  have "w \<noteq> ''--''" using assms by (auto simp: BWRAP_OPTIONS_def)
  then show ?thesis using assms by (simp add: read_options.simps)
qed

text \<open>The words of a list of options.\<close>

definition option_words :: "sandbox_option list \<Rightarrow> string list" where
  "option_words os = concat (map (\<lambda>(w, as). w # as) os)"

lemma option_words_simps [simp]:
  "option_words [] = []" "option_words ((w, as) # os) = w # as @ option_words os"
  "option_words (os @ os') = option_words os @ option_words os'"
  by (simp_all add: option_words_def)

lemma read_option_words:
  assumes "\<forall>(w, as) \<in> set os. map_of BWRAP_OPTIONS w = Some (length as)"
  shows "read_options (option_words os @ ''--'' # command) = Some (os, command)"
  using assms by (induction os) (auto simp: read_word)

section \<open>The options of a sandbox\<close>

definition root_options :: "rootfs_spec \<Rightarrow> sandbox_option list" where
  "root_options rf =
     (case rf_path rf of
        Some (c # cs) \<Rightarrow> [(''--ro-bind'', [c # cs, ''/''])]
      | _ \<Rightarrow> map (\<lambda>d. (''--ro-bind-try'', [d, d])) HOST_RO_DIRS)"

definition sandbox_options :: "sandbox_spec \<Rightarrow> sandbox_option list" where
  "sandbox_options sb =
     [(''--unshare-all'', []), (''--die-with-parent'', []), (''--new-session'', []), (''--cap-drop'', [''ALL'']), (''--clearenv'', []),
      (''--hostname'', [''valops-worker''])]
     @ root_options (sb_rootfs sb)
     @ map (\<lambda>(host, inside). (''--ro-bind'', [host, inside])) (rf_extra_ro (sb_rootfs sb))
     @ [(''--proc'', [''/proc'']), (''--dev'', [''/dev'']), (''--ro-bind'', [sb_home sb, ''/home/valops'']),
        (''--ro-bind'', [sb_bundle sb, ''/bundle'']), (''--dir'', [''/run/valops''])]
     @ map (\<lambda>(host, inside). (''--bind'', [host, inside])) (sb_sockets sb)
     @ (if sb_scratch_mb sb > 0
        then [(''--size'', [int_str (sb_scratch_mb sb * 1024 * 1024)]), (''--tmpfs'', [''/tmp''])] else [])
     @ map (\<lambda>(k, v). (''--setenv'', [k, v])) (sandbox_env (sb_env sb))
     @ [(''--chdir'', [''/home/valops''])]"

lemma option_words_pairs: "option_words (map (\<lambda>(a, b). (w, [a, b])) ps) = concat (map (\<lambda>(a, b). [w, a, b]) ps)"
  by (induction ps) auto

lemma option_words_same: "option_words (map (\<lambda>d. (w, [d, d])) ds) = concat (map (\<lambda>d. [w, d, d]) ds)"
  by (induction ds) auto

lemma rootfs_args_words: "rootfs_args rf = Inr ws \<Longrightarrow> ws = option_words (root_options rf)"
  by (auto simp: rootfs_args_def root_options_def option_words_same split: option.splits list.splits if_splits)

lemma build_argv_words:
  assumes "build_argv bwrap sb command = Inr argv"
  shows "\<exists>exe. bwrap = Some exe \<and> exe \<noteq> [] \<and> argv = exe # option_words (sandbox_options sb) @ ''--'' # command"
proof -
  obtain c cs root where b: "bwrap = Some (c # cs)" "rootfs_args (sb_rootfs sb) = Inr root"
    using assms by (auto simp: build_argv_def rbind_def split: option.splits list.splits sum.splits)
  from rootfs_args_words [OF b(2)] assms b show ?thesis
    by (auto simp: build_argv_def rbind_simps sandbox_options_def scratch_args_def option_words_pairs)
qed

lemma sandbox_options_known:
  "\<forall>(w, as) \<in> set (sandbox_options sb). map_of BWRAP_OPTIONS w = Some (length as)"
  by (auto simp: sandbox_options_def root_options_def BWRAP_OPTIONS_def split: option.splits list.splits)

lemma sandbox_option_names: "fst ` set (sandbox_options sb) \<subseteq> fst ` set BWRAP_OPTIONS"
proof
  fix w
  assume "w \<in> fst ` set (sandbox_options sb)"
  then obtain as where "(w, as) \<in> set (sandbox_options sb)" by auto
  with sandbox_options_known [of sb] have "map_of BWRAP_OPTIONS w = Some (length as)" by blast
  then show "w \<in> fst ` set BWRAP_OPTIONS" by (rule map_of_SomeD [THEN image_eqI [of _ fst, rotated]]) simp
qed

lemma build_argv_reads:
  assumes "build_argv bwrap sb command = Inr argv"
  shows "read_options (tl argv) = Some (sandbox_options sb, command)"
  using build_argv_words [OF assms] read_option_words [OF sandbox_options_known] by auto

section \<open>What the launcher starts\<close>

lemma set_dict_set: "set (dict_set d k v) \<subseteq> insert (k, v) (set d)"
  by (induction d k v rule: dict_set.induct) auto

lemma bind_sockets_known:
  assumes "bind_sockets socks acc = Inr binds"
    and "\<forall>(host, inside) \<in> set acc. \<exists>k. (k, host) \<in> S \<and> (k, inside) \<in> set SOCKETS_INSIDE" "set socks \<subseteq> S"
  shows "\<forall>(host, inside) \<in> set binds. \<exists>k. (k, host) \<in> S \<and> (k, inside) \<in> set SOCKETS_INSIDE"
  using assms
proof (induction socks acc rule: bind_sockets.induct)
  case (2 k host socks acc)
  then obtain inside where i: "map_of SOCKETS_INSIDE k = Some inside" by (auto split: option.splits)
  from 2(3) set_dict_set [of acc host inside] map_of_SomeD [OF i] 2(4)
  have "\<forall>(host, inside) \<in> set (dict_set acc host inside). \<exists>k. (k, host) \<in> S \<and> (k, inside) \<in> set SOCKETS_INSIDE"
    by fastforce
  with 2 i show ?case by auto
qed simp

lemma step_sandbox_parts:
  assumes "step_sandbox bl adapter home bundle socks = Inr sb"
  shows "sb_home sb = home \<and> sb_bundle sb = bundle \<and> (str_of adapter, sb_rootfs sb) \<in> set (bl_rootfs bl) \<and>
    sandbox_env (sb_env sb) =
      [(''HOME'', ''/home/valops''), (''PATH'', ''/usr/local/bin:/usr/bin:/bin''), (''LANG'', ''C.UTF-8''),
       (''PYTHONPATH'', bl_python_path bl), (''PYTHONDONTWRITEBYTECODE'', ''1''),
       (''VALOPS_PLACEHOLDER_KEY'', ''placeholder-not-a-secret'')] \<and>
    (\<forall>(host, inside) \<in> set (sb_sockets sb). \<exists>k. (k, host) \<in> set socks \<and> (k, inside) \<in> set SOCKETS_INSIDE)"
  using assms
  by (auto simp: step_sandbox_def rbind_def sandbox_env_def dict_update_def dest: map_of_SomeD
      dest!: bind_sockets_known [where S = "set socks"] split: if_splits option.splits sum.splits)

text \<open>A process is started only after a probe succeeded, with the arguments of the sandbox.\<close>

fun start_ok ::
  "launcher \<Rightarrow> jv \<Rightarrow> string \<Rightarrow> string \<Rightarrow> (string \<times> string) list \<Rightarrow> (spreq, spans) trace \<Rightarrow> spreq \<Rightarrow> bool" where
  "start_ok bl adapter home bundle socks h (Popen argv who) =
     ((\<exists>exe. (Run_probe (probe_argv exe), Inr (A_code 0)) \<in> set h) \<and>
      (\<exists>sb bwrap. step_sandbox bl adapter home bundle socks = Inr sb \<and> build_argv bwrap sb WORKER_COMMAND = Inr argv \<and>
         (Which_bwrap, Inr (A_path bwrap)) \<in> set h))"
| "start_ok bl adapter home bundle socks h _ = True"

lemma un_code_Some: "un_code x = Some c \<longleftrightarrow> x = A_code c"
  by (cases x) auto

lemma available_probe:
  "wp available (\<lambda>r h. r = Inr True \<longrightarrow> (\<exists>exe. (Run_probe (probe_argv exe), Inr (A_code 0)) \<in> set h)) []"
  by (auto simp: available_def un_code_Some split: option.splits list.splits sum.splits)

lemma available_quiet: "every (\<lambda>q. \<forall>h. start_ok bl adapter home bundle socks h q) available"
  by (auto simp: available_def intro!: every_pbind split: option.splits list.splits sum.splits)

lemma await_quiet: "every (\<lambda>q. \<forall>h. start_ok bl adapter home bundle socks h q) (await_worker bl timeout)"
  by (auto simp: await_worker_def intro!: every_intros split: sum.splits)

lemma un_path_Some: "un_path x = Some p \<longleftrightarrow> x = A_path p"
  by (cases x) auto

lemma start_keeps:
  assumes "(Run_probe (probe_argv exe), Inr (A_code 0)) \<in> A"
  shows "keeps A (start_ok bl adapter home bundle socks) (start_worker bl adapter home bundle socks timeout)"
  unfolding start_worker_def
  by (intro keeps_lift keeps_ask keeps_quiet await_quiet) (use assms in \<open>auto simp: un_path_Some\<close>)

lemma launcher_keeps: "keeps {} (start_ok bl adapter home bundle socks) (launcher_run bl adapter home bundle socks timeout)"
  unfolding launcher_run_def
proof (rule keeps_pbind_run [OF keeps_quiet [OF available_quiet]])
  fix t ok
  assume "runs available t (Inr ok)"
  then have "ok \<longrightarrow> (\<exists>exe. (Run_probe (probe_argv exe), Inr (A_code 0)) \<in> {} \<union> set t)"
    using wp_runsD [OF available_probe] by fastforce
  then show "keeps ({} \<union> set t) (start_ok bl adapter home bundle socks)
      (if \<not> ok then Raise SandboxUnavailable else start_worker bl adapter home bundle socks timeout)"
    using start_keeps by auto
qed

lemma started_process:
  assumes "runs (launcher_run bl adapter home bundle socks timeout) tr res" "(Popen argv who, ans) \<in> set tr"
  obtains t1 t2 exe sb bwrap where "tr = t1 @ (Popen argv who, ans) # t2" "(Run_probe (probe_argv exe), Inr (A_code 0)) \<in> set t1"
    "step_sandbox bl adapter home bundle socks = Inr sb" "build_argv bwrap sb WORKER_COMMAND = Inr argv"
    "(Which_bwrap, Inr (A_path bwrap)) \<in> set t1"
proof -
  from split_list [OF assms(2)] obtain t1 t2 where t: "tr = t1 @ (Popen argv who, ans) # t2" by blast
  have "sound (start_ok bl adapter home bundle socks) tr" using keeps_runs [OF launcher_keeps assms(1)] .
  then have "start_ok bl adapter home bundle socks t1 (Popen argv who)" unfolding t by (rule sound_split)
  then show thesis using that [OF t] by auto
qed

text \<open>C36: Whatever the operating system answers, every process that the launcher starts is bubblewrap, after a probe of
  it succeeded. Read as bubblewrap reads it, whatever the configured paths look like, its argument vector unshares every
  namespace, drops all capabilities, clears the environment and dies with the launcher; the step
  home and the bundle are mounted read-only; the only writable mounts are sockets that the caller
  handed in, each at the path of its kind, and a private \<^verbatim>\<open>/tmp\<close>; the environment has exactly six variables, none
  of them a credential; and the command is the worker.\<close>

theorem sandbox_confines:
  assumes "runs (launcher_run bl adapter home bundle socks timeout) tr res" "(Popen argv who, ans) \<in> set tr"
  shows "\<exists>exe bwrap ops t1 t2. tr = t1 @ (Popen argv who, ans) # t2 \<and>
    (Run_probe (probe_argv exe), Inr (A_code 0)) \<in> set t1 \<and> (Which_bwrap, Inr (A_path (Some bwrap))) \<in> set t1 \<and>
    hd argv = bwrap \<and> read_options (tl argv) = Some (ops, WORKER_COMMAND) \<and>
    {(''--unshare-all'', []), (''--die-with-parent'', []), (''--new-session'', []), (''--cap-drop'', [''ALL'']), (''--clearenv'', []),
     (''--ro-bind'', [home, ''/home/valops'']), (''--ro-bind'', [bundle, ''/bundle''])} \<subseteq> set ops \<and>
    (\<forall>as. (''--bind'', as) \<in> set ops \<longrightarrow>
       (\<exists>k host inside. as = [host, inside] \<and> (k, host) \<in> set socks \<and> (k, inside) \<in> set SOCKETS_INSIDE)) \<and>
    (\<forall>as. (''--tmpfs'', as) \<in> set ops \<longrightarrow> as = [''/tmp'']) \<and>
    fst ` set ops \<subseteq> {''--unshare-all'', ''--die-with-parent'', ''--new-session'', ''--cap-drop'', ''--clearenv'', ''--hostname'',
      ''--ro-bind'', ''--ro-bind-try'', ''--proc'', ''--dev'', ''--dir'', ''--bind'', ''--size'', ''--tmpfs'', ''--setenv'', ''--chdir''} \<and>
    map snd (filter (\<lambda>opt. fst opt = ''--setenv'') ops) =
      [[''HOME'', ''/home/valops''], [''PATH'', ''/usr/local/bin:/usr/bin:/bin''], [''LANG'', ''C.UTF-8''],
       [''PYTHONPATH'', bl_python_path bl], [''PYTHONDONTWRITEBYTECODE'', ''1''],
       [''VALOPS_PLACEHOLDER_KEY'', ''placeholder-not-a-secret'']]"
proof -
  obtain t1 t2 exe sb bwrap where t: "tr = t1 @ (Popen argv who, ans) # t2"
    and p: "(Run_probe (probe_argv exe), Inr (A_code 0)) \<in> set t1"
    and sb: "step_sandbox bl adapter home bundle socks = Inr sb" and argv: "build_argv bwrap sb WORKER_COMMAND = Inr argv"
    and w: "(Which_bwrap, Inr (A_path bwrap)) \<in> set t1"
    using started_process [OF assms] by metis
  note parts = step_sandbox_parts [OF sb]
  from build_argv_words [OF argv] obtain b where b: "bwrap = Some b" "hd argv = b" by auto
  let ?ops = "sandbox_options sb"
  have binds: "\<exists>k host inside. as = [host, inside] \<and> (k, host) \<in> set socks \<and> (k, inside) \<in> set SOCKETS_INSIDE"
    if "(''--bind'', as) \<in> set ?ops" for as
    using that parts by (fastforce simp: sandbox_options_def root_options_def split: option.splits list.splits if_splits)
  have env: "map snd (filter (\<lambda>opt. fst opt = ''--setenv'') ?ops) =
      [[''HOME'', ''/home/valops''], [''PATH'', ''/usr/local/bin:/usr/bin:/bin''], [''LANG'', ''C.UTF-8''],
       [''PYTHONPATH'', bl_python_path bl], [''PYTHONDONTWRITEBYTECODE'', ''1''],
       [''VALOPS_PLACEHOLDER_KEY'', ''placeholder-not-a-secret'']]"
    by (simp add: sandbox_options_def parts root_options_def filter_map o_def case_prod_beta split: option.split list.split)
  have rest: "{(''--unshare-all'', []), (''--die-with-parent'', []), (''--new-session'', []), (''--cap-drop'', [''ALL'']), (''--clearenv'', []),
     (''--ro-bind'', [home, ''/home/valops'']), (''--ro-bind'', [bundle, ''/bundle''])} \<subseteq> set ?ops"
    "(''--tmpfs'', as) \<in> set ?ops \<Longrightarrow> as = [''/tmp'']" for as
    using parts by (auto simp: sandbox_options_def root_options_def split: option.splits list.splits if_splits)
  have "fst ` set ?ops \<subseteq> fst ` set BWRAP_OPTIONS"
    by (rule sandbox_option_names)
  then have known: "fst ` set ?ops \<subseteq> {''--unshare-all'', ''--die-with-parent'', ''--new-session'', ''--cap-drop'', ''--clearenv'', ''--hostname'',
      ''--ro-bind'', ''--ro-bind-try'', ''--proc'', ''--dev'', ''--dir'', ''--bind'', ''--size'', ''--tmpfs'', ''--setenv'', ''--chdir''}"
    by (rule order_trans) (simp add: BWRAP_OPTIONS_def)
  have mounts: "\<forall>as. (''--bind'', as) \<in> set ?ops \<longrightarrow>
       (\<exists>k host inside. as = [host, inside] \<and> (k, host) \<in> set socks \<and> (k, inside) \<in> set SOCKETS_INSIDE)"
    "\<forall>as. (''--tmpfs'', as) \<in> set ?ops \<longrightarrow> as = [''/tmp'']"
    using binds rest(2) by blast+
  from w b(1) have w': "(Which_bwrap, Inr (A_path (Some b))) \<in> set t1" by simp
  show ?thesis
    using t p w' b(2) build_argv_reads [OF argv] rest(1) mounts known env
    by (intro exI [of _ exe] exI [of _ b] exI [of _ ?ops] exI [of _ t1] exI [of _ t2] conjI) assumption+
qed

section \<open>A worker that overruns its time\<close>

definition waits :: "rat \<Rightarrow> spreq \<Rightarrow> bool" where
  "waits timeout q = (q = Communicate (Some timeout))"

lemma available_waits: "every (\<lambda>q. \<not> waits timeout q) available"
  by (auto simp: available_def waits_def intro!: every_pbind split: option.splits list.splits sum.splits)

text \<open>How the launcher waits for the worker.\<close>

definition killed_ok :: "rat \<Rightarrow> launch_result result \<Rightarrow> (spreq, spans) trace \<Rightarrow> bool" where
  "killed_ok timeout res h =
     (((Communicate (Some timeout), Inl TimeoutExpired) \<in> set h \<longrightarrow> Killpg \<in> fst ` set h) \<and>
      (\<forall>x. res = Inr x \<longrightarrow>
         (lr_timed_out x \<longleftrightarrow> (Communicate (Some timeout), Inl TimeoutExpired) \<in> set h) \<and>
         lr_exit_code x \<noteq> None \<and> length (lr_stderr x) \<le> STDERR_CAP))"

lemma killed_ok_quiet:
  assumes "\<forall>(q, r) \<in> set h. \<not> waits timeout q" "q \<noteq> Communicate (Some timeout) \<or> r \<noteq> Inl TimeoutExpired"
  shows "killed_ok timeout (Inl e) (h @ [(q, r)])" "killed_ok timeout (Inr (launch_result_of bl False out)) (h @ [(q, r)])"
  using assms by (auto simp: killed_ok_def waits_def launch_result_of_def split: prod.splits)

lemma killed_ok_killed:
  "killed_ok timeout (Inl e) (h @ (Communicate (Some timeout), Inl TimeoutExpired) # (Killpg, r) # t)"
  "killed_ok timeout (Inr (launch_result_of bl True out)) (h @ (Communicate (Some timeout), Inl TimeoutExpired) # (Killpg, r) # t)"
  by (auto simp: killed_ok_def launch_result_of_def split: prod.splits)

lemma await_kills:
  assumes "\<forall>(q, r) \<in> set h. \<not> waits timeout q"
  shows "wp (await_worker bl timeout) (killed_ok timeout) h"
proof -
  have te: "TimeoutExpired \<noteq> TypeError" by (simp add: TimeoutExpired_def TypeError_def)
  show ?thesis
    unfolding await_worker_def
    by (simp add: te te [symmetric] killed_ok_quiet [OF assms] killed_ok_killed split: option.split sum.split)
qed

lemma start_kills:
  assumes "\<forall>(q, r) \<in> set h. \<not> waits timeout q"
  shows "wp (start_worker bl adapter home bundle socks timeout) (killed_ok timeout) h"
proof -
  have quiet: "killed_ok timeout (Inl e) h'" if "\<forall>(q, r) \<in> set h'. \<not> waits timeout q" for e h'
    using that by (auto simp: killed_ok_def waits_def)
  show ?thesis
    unfolding start_worker_def wp_pbind wp_lift wp_ask
    by (auto split: sum.split option.split intro!: quiet await_kills dest!: assms [rule_format] simp: waits_def)
qed

lemma launcher_kills: "wp (launcher_run bl adapter home bundle socks timeout) (killed_ok timeout) []"
proof -
  have "wp available (\<lambda>r h. \<forall>(q, a) \<in> set h. \<not> waits timeout q) []"
    using every_runs [OF available_waits] by (fastforce simp: wp_iff_runs)
  then show ?thesis
    unfolding launcher_run_def wp_pbind
  proof (rule wp_mono)
    fix r and h :: "(spreq, spans) trace"
    assume h: "\<forall>(q, a) \<in> set h. \<not> waits timeout q"
    then have "killed_ok timeout (Inl e) h" for e by (auto simp: killed_ok_def waits_def)
    with h show "case r of Inl e \<Rightarrow> killed_ok timeout (Inl e) h
      | Inr ok \<Rightarrow> wp (if \<not> ok then Raise SandboxUnavailable else start_worker bl adapter home bundle socks timeout) (killed_ok timeout) h"
      by (auto split: sum.splits intro: start_kills)
  qed
qed

text \<open>A worker that is still running when its time is up is killed with its whole process group, whatever else happens; a
  result of the launcher says that the time was exceeded exactly when it was, and carries at most the capped
  amount of standard error.\<close>

lemma overrunning_worker_killed:
  assumes "runs (launcher_run bl adapter home bundle socks timeout) tr res"
  shows "((Communicate (Some timeout), Inl TimeoutExpired) \<in> set tr \<longrightarrow> Killpg \<in> fst ` set tr) \<and>
    (\<forall>x. res = Inr x \<longrightarrow>
       (lr_timed_out x \<longleftrightarrow> (Communicate (Some timeout), Inl TimeoutExpired) \<in> set tr) \<and>
       length (lr_stderr x) \<le> 1024 * 1024)"
  using wp_runsD [OF launcher_kills assms] by (simp add: killed_ok_def STDERR_CAP_def)

section \<open>A run of the launcher\<close>

definition ex_launcher :: launcher where
  "ex_launcher =
     \<lparr>bl_rootfs = [(''native'', \<lparr>rf_path = Some ''/srv/rootfs'', rf_host_ro = False, rf_extra_ro = []\<rparr>)], bl_uid = Some 990,
      bl_gid = None, bl_scratch_mb = [], bl_python_path = ''/opt/valops'', bl_loads = (\<lambda>_. None), bl_decode = map char_of\<rparr>"

definition ex_os :: "bool \<Rightarrow> nat \<Rightarrow> spreq \<Rightarrow> spans result" where
  "ex_os late n q =
     (case q of
        Which_bwrap \<Rightarrow> Inr (A_path (Some ''/usr/bin/bwrap''))
      | Run_probe argv \<Rightarrow> Inr (A_code 0)
      | Communicate (Some t) \<Rightarrow> if late then Inl TimeoutExpired else Inr (A_output 0 [] [])
      | Communicate None \<Rightarrow> Inr (A_output (- 9) [] [])
      | _ \<Rightarrow> Inr A_done)"

definition ex_launch :: "bool \<Rightarrow> (spreq, spans) trace \<times> launch_result result" where
  "ex_launch late =
     exec (launcher_run ex_launcher (JStr ''native'') ''/steps/--bind'' ''/bundles/b'' [(''model'', ''/run/m.sock'')] 300) (ex_os late) 0"

lemmas ex_launch_eval = ex_launch_def launcher_run_def start_worker_def available_def await_worker_def exec_rules exec_ask
  catch_def ex_os_def rbind_simps build_argv_def rootfs_args_def step_sandbox_def ex_launcher_def SOCKETS_INSIDE_def TimeoutExpired_def

lemma ex_launch_runs:
  "runs (launcher_run ex_launcher (JStr ''native'') ''/steps/--bind'' ''/bundles/b'' [(''model'', ''/run/m.sock'')] 300)
     (fst (ex_launch late)) (snd (ex_launch late))"
  by (rule exec_runs [of _ "ex_os late" 0]) (simp add: ex_launch_def)

lemma ex_launch_starts: "\<exists>argv who. (Popen argv who, Inr A_done) \<in> set (fst (ex_launch late))"
  by (cases late) (simp_all add: ex_launch_eval)

lemma ex_launch_late: "(Communicate (Some 300), Inl TimeoutExpired) \<in> set (fst (ex_launch True))"
  by (simp add: ex_launch_eval)

theorem sandbox_confines_witness:
  "\<exists>argv who ops. (Popen argv who, Inr A_done) \<in> set (fst (ex_launch False)) \<and> read_options (tl argv) = Some (ops, WORKER_COMMAND) \<and>
     (''--ro-bind'', [''/steps/--bind'', ''/home/valops'']) \<in> set ops"
proof -
  obtain argv who where p: "(Popen argv who, Inr A_done) \<in> set (fst (ex_launch False))" using ex_launch_starts by blast
  from sandbox_confines [OF ex_launch_runs p] obtain ops
    where "read_options (tl argv) = Some (ops, WORKER_COMMAND)" "(''--ro-bind'', [''/steps/--bind'', ''/home/valops'']) \<in> set ops"
    by (elim exE conjE) (rule that, assumption, blast)
  with p show ?thesis by blast
qed

section \<open>The step home\<close>

text \<open>What a TOML reader makes of a basic string: a backslash takes the next character.\<close>

fun toml_chars :: "string \<Rightarrow> (string \<times> string) option" where
  "toml_chars [] = None"
| "toml_chars (c # cs) =
     (if c = QUOTE then Some ([], cs)
      else if c = BACKSLASH
      then (case cs of
              d # ds \<Rightarrow> if d = QUOTE \<or> d = BACKSLASH then map_option (\<lambda>(s, rest). (d # s, rest)) (toml_chars ds) else None
            | [] \<Rightarrow> None)
      else if c = NEWLINE then None
      else map_option (\<lambda>(s, rest). (c # s, rest)) (toml_chars cs))"

definition toml_string :: "string \<Rightarrow> (string \<times> string) option" where
  "toml_string s = (case s of c # cs \<Rightarrow> if c = QUOTE then toml_chars cs else None | [] \<Rightarrow> None)"

lemma replace_char_simps [simp]:
  "replace_char c new [] = []" "replace_char c new (d # s) = (if d = c then new else [d]) @ replace_char c new s"
  "replace_char c new (s @ t) = replace_char c new s @ replace_char c new t"
  by (simp_all add: replace_char_def)

lemma toml_chars_quoted:
  assumes "NEWLINE \<notin> set s"
  shows "toml_chars (replace_char QUOTE [BACKSLASH, QUOTE] (replace_char BACKSLASH [BACKSLASH, BACKSLASH] s) @ QUOTE # rest) =
    Some (s, rest)"
  using assms by (induction s) (auto simp: QUOTE_def BACKSLASH_def NEWLINE_def)

lemma toml_string_quote: "NEWLINE \<notin> set s \<Longrightarrow> toml_string (toml_quote s @ rest) = Some (s, rest)"
  using toml_chars_quoted [of s rest] by (simp add: toml_string_def toml_quote_def)

text \<open>No write bit of owner, group or others is set.\<close>

definition read_only :: "home_entry \<Rightarrow> bool" where
  "read_only e = (\<not> bit (he_mode e) 1 \<and> \<not> bit (he_mode e) 4 \<and> \<not> bit (he_mode e) 7)"

lemma protect_read_only: "read_only (protect e)"
  by (auto simp: read_only_def protect_def bit_iff_odd)

lemma protect_text [simp]: "he_text (protect e) = he_text e" "he_path (protect e) = he_path e"
  by (simp_all add: protect_def)

text \<open>
  A home that was built is new, leaves the others alone, is read-only, holds the specification and, for the Codex
  runtime, the instructions of the bundle and a configuration that names the model.
\<close>

lemma step_home_read_only:
  assumes "build_home dumps dumps2 session spec prompt adapter hs = (Inr (), hs')"
  shows "map_of hs session = None \<and> (\<forall>s. s \<noteq> session \<longrightarrow> map_of hs' s = map_of hs s) \<and>
    (\<exists>home. map_of hs' session = Some home \<and> (\<forall>e \<in> set home. read_only e) \<and>
       (\<exists>e \<in> set home. he_path e = ''step.json'' \<and> he_text e = Some (dumps (JObj spec))) \<and>
       (adapter = JStr ''codex_cli'' \<longrightarrow>
          (\<exists>model. getitem (pget spec ''configuration'') ''model'' = Inr (JStr model) \<and>
             (\<exists>e \<in> set home. he_path e = ''.codex/config.toml'' \<and> he_text e = Some (config_toml model MODEL_PORT MCP_COMMAND)) \<and>
             (\<exists>e \<in> set home. he_path e = ''AGENTS.md'' \<and> he_text e = Some (agents_md prompt)))))"
proof -
  from assms obtain fs where fs: "map_of hs session = None" "adapter_files dumps2 spec prompt adapter = Inr fs"
    "hs' = dict_set hs session (map protect (new_dir [] # new_file ''step.json'' (dumps (JObj spec)) # fs))"
    by (auto simp: build_home_def Let_def split: if_splits sum.splits)
  have "adapter = JStr ''codex_cli'' \<Longrightarrow> \<exists>model. getitem (pget spec ''configuration'') ''model'' = Inr (JStr model) \<and>
      fs = [new_dir ''.codex'', new_file ''.codex/config.toml'' (config_toml model MODEL_PORT MCP_COMMAND), new_file ''AGENTS.md'' (agents_md prompt)]"
    using fs(2) by (auto simp: adapter_files_def rbind_def split: sum.splits jv.splits)
  then show ?thesis
    by (auto simp: fs(1,3) protect_read_only new_file_def new_dir_def simp del: map_of.simps)
qed

end
