(* ===== verification/Wiring_Theorems.thy ===== *)
theory Wiring_Theorems
  imports Wiring Sandbox_Theorems Example_Run
begin

text \<open>
  Properties of the deployment: what a uid reaches, that every request the processes make is served on the
  socket their client is connected to, and what a worker's root file system holds in production.
\<close>

section \<open>Paths\<close>

lemma join_slash_snoc: "ps \<noteq> [] \<Longrightarrow> join_slash (ps @ [s]) = join_slash ps @ ''/'' @ s"
  by (induction ps rule: join_slash.induct) auto

lemma path_str_in_dir: "path_str (path_div (path_div p d) (sock_name n)) = in_dir (path_str (path_div p d)) n"
  using join_slash_snoc [of "snd p @ [d]" "sock_name n"] by (simp add: path_str_def path_div_def in_dir_def)

lemma client_paths:
  "store_path cf n = in_dir (run_dir cf ''store'') n" "audit_path cf n = in_dir (run_dir cf ''audit'') n"
  "broker_path cf b n = in_dir (run_dir cf b) n"
  by (simp_all add: store_path_def audit_path_def broker_path_def run_dir_def path_str_in_dir)

section \<open>The stack\<close>

lemma set_uid_union [simp]: "set (uid_union us vs) = set us \<union> set vs"
  by (auto simp: uid_union_def)

lemma stack_parts:
  assumes "served_sockets cf sk ns = Inr stack" "so \<in> set stack"
  shows "so \<in> set (build_sequencer cf) \<union> set (build_store cf sk) \<union> set (build_episode_broker cf sk) \<union>
    set (build_observer_broker cf) \<union> set (build_report_broker cf) \<union> set (build_model_broker cf)"
  using assms
proof (induction ns arbitrary: stack)
  case (Cons n ns)
  then show ?case by (auto simp: builders_def rbind_def split: if_splits sum.splits)
qed simp

lemma whole_stack:
  "served_sockets cf sk ORDER = Inr (build_sequencer cf @ build_store cf sk @ build_episode_broker cf sk @
     build_observer_broker cf @ build_report_broker cf @ build_model_broker cf)"
  by (simp add: ORDER_def builders_def rbind_simps)

lemmas build_defs = build_sequencer_def build_store_def build_episode_broker_def build_observer_broker_def
  build_report_broker_def build_model_broker_def store_sockets_def sequencer_sockets_def episode_broker_sockets_def
  observer_broker_sockets_def report_broker_sockets_def model_admin_socket_def worker_socket_def admin_socket_def socket_of_def

text \<open>A socket at a path admits a uid and serves a method.\<close>

definition answers :: "socket list \<Rightarrow> string \<Rightarrow> int \<Rightarrow> string \<Rightarrow> bool" where
  "answers stack p u m = (\<exists>so \<in> set stack. so_path so = p \<and> u \<in> set (so_uids so) \<and> m \<in> set (so_methods so))"

text \<open>The call of a process, if it is one, is answered at the socket of its client.\<close>

definition call_answered :: "socket list \<Rightarrow> (string \<times> string) list \<Rightarrow> int \<Rightarrow> (string \<times> string) option \<Rightarrow> bool" where
  "call_answered stack clients u c =
     (case c of None \<Rightarrow> True
      | Some (cl, m) \<Rightarrow> (case map_of clients cl of None \<Rightarrow> False | Some p \<Rightarrow> answers stack p u m))"

lemma answers_append [simp]: "answers (xs @ ys) p u m = (answers xs p u m \<or> answers ys p u m)"
  by (auto simp: answers_def)

lemma answers_Cons [simp]:
  "answers (so # ys) p u m = (so_path so = p \<and> u \<in> set (so_uids so) \<and> m \<in> set (so_methods so) \<or> answers ys p u m)"
  by (auto simp: answers_def)

lemma answers_Nil [simp]: "\<not> answers [] p u m"
  by (simp add: answers_def)

lemma in_dir_eq [simp]: "in_dir d m = in_dir d n \<longleftrightarrow> m = n"
  by (simp add: in_dir_def sock_name_def)

abbreviation whole :: "config \<Rightarrow> stack_env \<Rightarrow> socket list" where
  "whole cf sk \<equiv> build_sequencer cf @ build_store cf sk @ build_episode_broker cf sk @
     build_observer_broker cf @ build_report_broker cf @ build_model_broker cf"

lemma store_answers:
  "u \<in> set (uids_of cf ''episode_broker'') \<Longrightarrow>
     m \<in> {''append_hypothesis'', ''append_hypothesis_status'', ''append_recommendation'', ''append_no_action'', ''append_verdict'', ''read_episode''} \<Longrightarrow>
     answers (build_store cf sk) (store_path cf ''agent'') u m"
  "u \<in> set (uids_of cf ''controller'') \<Longrightarrow>
     m \<in> {''open_episode'', ''set_state'', ''append_signal'', ''append_cost'', ''append_step'', ''annotate'', ''read_episode'', ''list_episodes''} \<Longrightarrow>
     answers (build_store cf sk) (store_path cf ''control'') u m"
  "u \<in> set (uids_of cf ''verifier'') \<Longrightarrow>
     m \<in> {''append_verification'', ''append_recovery_observation'', ''set_state'', ''read_episode'', ''list_episodes''} \<Longrightarrow>
     answers (build_store cf sk) (store_path cf ''verify'') u m"
  "u \<in> set (uids_of cf ''observer_broker'') \<Longrightarrow> answers (build_store cf sk) (store_path cf ''observe'') u ''append_observation''"
  by (auto simp: build_defs endpoints_def client_paths)

lemma audit_answers:
  "p \<in> set SUBMITTERS \<Longrightarrow> u \<in> set (uids_of cf p) \<Longrightarrow> m \<in> {''submit'', ''status''} \<Longrightarrow>
     answers (build_sequencer cf) (audit_path cf p) u m"
  "u \<in> set (uids_of cf ''observer_broker'') \<Longrightarrow>
     answers (build_sequencer cf) (audit_path cf ''observer_broker'') u ''record_daemon_checkpoint''"
  by (auto simp: answers_def build_defs client_paths SUBMITTERS_def)

lemma system_answers:
  assumes "u \<in> set (uids_of cf ''controller'') \<union> set (uids_of cf ''verifier'')"
  shows "m \<in> {''sample'', ''telemetry'', ''probe''} \<Longrightarrow>
     answers (build_observer_broker cf) (broker_path cf ''observer-broker'' ''system'') u m"
    "m \<in> {''system_alert'', ''alerts_for''} \<Longrightarrow> answers (build_report_broker cf) (broker_path cf ''report-broker'' ''system'') u m"
  using assms by (auto simp: build_defs client_paths)

lemma admin_answers:
  assumes "u \<in> set (uids_of cf ''controller'')" "m \<in> {''revoke_session'', ''ping''}"
  shows "answers (build_episode_broker cf sk) (broker_path cf ''episode-broker'' ''admin'') u m"
    "answers (build_observer_broker cf) (broker_path cf ''observer-broker'' ''admin'') u m"
    "answers (build_report_broker cf) (broker_path cf ''report-broker'' ''admin'') u m"
  using assms by (auto simp: build_defs client_paths)

lemma model_answers:
  assumes "u \<in> set (uids_of cf ''controller'')" "m \<in> {''open_session'', ''close_session'', ''ping''}"
  shows "answers (build_model_broker cf) (broker_path cf ''model-broker'' ''admin'') u m"
  using assms by (auto simp: build_defs)

lemmas answers_rules = store_answers audit_answers system_answers admin_answers model_answers

section \<open>Every request is served\<close>

lemma controller_answered:
  assumes "u \<in> set (uids_of cf ''controller'')"
    and "\<forall>n. q = Ping n \<longrightarrow> n \<in> insert ''model_broker'' (set ADMINS)" "\<forall>n s. q = Revoke_session n s \<longrightarrow> n \<in> set ADMINS"
  shows "call_answered (whole cf sk) (controller_clients cf) u (controller_call q)"
  using assms
  by (cases q) (auto simp: call_answered_def controller_clients_def ADMINS_def SUBMITTERS_def answers_rules)

lemma sentinel_answered:
  assumes "u \<in> set (uids_of cf ''controller'')"
  shows "call_answered (whole cf sk) (sentinel_clients cf) u (sentinel_call q)"
  using assms by (cases q) (auto simp: call_answered_def sentinel_clients_def SUBMITTERS_def answers_rules)

lemma verifier_answered:
  assumes "u \<in> set (uids_of cf ''verifier'')"
  shows "call_answered (whole cf sk) (verifier_clients cf) u (verifier_call q)"
  using assms by (cases q) (auto simp: call_answered_def verifier_clients_def answers_rules)

text \<open>The calls of a broker, on the other processes it is connected to.\<close>

definition broker_answered :: "config \<Rightarrow> stack_env \<Rightarrow> string \<Rightarrow> int \<Rightarrow> breq \<Rightarrow> bool" where
  "broker_answered cf sk b u q = call_answered (whole cf sk) (broker_clients cf b) u (broker_call q)"

lemma local_answered [simp]:
  "broker_answered cf sk b u (Gate_check t e)" "broker_answered cf sk b u (Quota_take a c i)"
  "broker_answered cf sk b u (Load_policy x)" "broker_answered cf sk b u (Skill_exists x y)"
  "broker_answered cf sk b u (Skill_text x y)" "broker_answered cf sk b u Now" "broker_answered cf sk b u Time_ns"
  "broker_answered cf sk b u (Observe_daemon c v)" "broker_answered cf sk b u Daemon_health"
  "broker_answered cf sk b u (Daemon_checkpoint v)" "broker_answered cf sk b u (Tel_record c r ms)"
  "broker_answered cf sk b u Tel_error" "broker_answered cf sk b u (Tel_breaker v)" "broker_answered cf sk b u Tel_snapshot"
  by (simp_all add: broker_answered_def call_answered_def)

lemma episode_broker_answered:
  assumes "u \<in> set (uids_of cf ''episode_broker'')"
  shows "broker_answered cf sk ''episode_broker'' u (Audit_event e c d pl)"
    "m \<in> {''append_hypothesis'', ''append_hypothesis_status'', ''append_recommendation'', ''append_no_action'', ''append_verdict'', ''read_episode''} \<Longrightarrow>
       broker_answered cf sk ''episode_broker'' u (Store_call m cp)"
  using assms by (auto simp: broker_answered_def call_answered_def broker_clients_def SUBMITTERS_def answers_rules)

lemma observer_broker_answered:
  assumes "u \<in> set (uids_of cf ''observer_broker'')"
  shows "broker_answered cf sk ''observer_broker'' u (Audit_event e c d pl)"
    "broker_answered cf sk ''observer_broker'' u (Store_call ''append_observation'' cp)"
    "broker_answered cf sk ''observer_broker'' u Sequencer_status"
    "broker_answered cf sk ''observer_broker'' u (Record_checkpoint ck)"
  using assms by (auto simp: broker_answered_def call_answered_def broker_clients_def SUBMITTERS_def answers_rules)

lemma authorize_every:
  "(\<And>e c d pl. P (Audit_event e c d pl)) \<Longrightarrow> (\<And>t e. P (Gate_check t e)) \<Longrightarrow> every P (authorize p tn)"
  by (auto simp: authorize_def baudit_def intro!: every_pbind split: option.split)

lemma episode_methods_answered:
  assumes "u \<in> set (uids_of cf ''episode_broker'')" "(n, f) \<in> set (episode_methods sec other)"
  shows "every (broker_answered cf sk ''episode_broker'' u) (f p)"
proof -
  note a = episode_broker_answered [OF assms(1)]
  have writes: "every (broker_answered cf sk ''episode_broker'' u) (broker_write p tn op build)"
    if "op \<in> {''append_hypothesis'', ''append_hypothesis_status'', ''append_recommendation'', ''append_no_action'', ''append_verdict''}"
    for tn op build
    using that a
    by (auto simp: broker_write_def forward_write_def audited_call_def quota_of_def baudit_def
        intro!: every_intros authorize_every split: sum.split exn.split jv.split)
  have reads: "every (broker_answered cf sk ''episode_broker'' u) (store_read p cap)" for cap
    using a by (auto simp: store_read_def intro!: every_intros)
  show ?thesis
    using assms(2) writes reads a
    by (auto simp: episode_methods_def add_hypothesis_def set_hypothesis_status_def propose_recommendation_def
        report_no_action_def submit_verdict_def read_episode_def get_verification_result_def draft_failover_runbook_def
        audit_note_def quota_of_def baudit_def Let_def intro!: every_intros authorize_every)
qed

lemma observer_broker_every:
  assumes "u \<in> set (uids_of cf ''observer_broker'')"
  shows "every (broker_answered cf sk ''observer_broker'' u) (observe_tool other rnd tn p)"
    "every (broker_answered cf sk ''observer_broker'' u) (forward_checkpoint b)"
proof -
  note a = observer_broker_answered [OF assms]
  have sample: "every (broker_answered cf sk ''observer_broker'' u) (broker_sample rnd cid args)" for cid args
    by (auto simp: broker_sample_def intro!: every_intros split: sum.split jv.split bool.split)
  have taken: "every (broker_answered cf sk ''observer_broker'' u) (take_observation rnd cap tn b args)" for cap b args
    using a(1) sample by (auto simp: take_observation_def baudit_def intro!: every_intros split: option.split)
  have recorded: "every (broker_answered cf sk ''observer_broker'' u) (record_observation other p cap res)" for cap res
    using a(1,2) by (auto simp: record_observation_def baudit_def intro!: every_intros split: sum.split exn.split)
  have auth: "every (broker_answered cf sk ''observer_broker'' u) (authorize p tn)"
    by (rule authorize_every) (use a(1) in simp_all)
  show "every (broker_answered cf sk ''observer_broker'' u) (observe_tool other rnd tn p)"
    unfolding observe_tool_def by (auto intro!: every_intros auth taken recorded)
  show "every (broker_answered cf sk ''observer_broker'' u) (forward_checkpoint b)"
    using a by (auto simp: forward_checkpoint_def intro!: every_intros split: sum.split)
qed


section \<open>What the worker's uid reaches\<close>

lemma load_config_parts:
  assumes "load_config me d = Inr cf"
  shows "(truthy (pget d ''dev_single_uid'') \<longrightarrow> cf_development cf) \<and>
    (cf_development cf \<longleftrightarrow> truthy (pget d ''development''))"
  using assms
  by (auto simp: load_config_def rbind_def Let_def pget_def pget_default_def path_arg_def split: sum.splits if_splits option.splits)

lemma worker_tools: "set (map fst (episode_methods sec other)) \<subseteq> set (map t_name TOOLS) \<union> {''read_episode'', ''audit_note''}"
  by (simp add: episode_methods_def TOOLS_def tool_def obs_def)

text \<open>The sockets of the stack that a uid outside the trusted classes may be admitted to.\<close>

definition tool_socket :: "config \<Rightarrow> socket \<Rightarrow> bool" where
  "tool_socket cf so =
     (so_path so \<in> snd ` set (worker_sockets cf) \<and> so_principal so = ''worker'' \<and>
      set (so_methods so) \<subseteq> set (map t_name TOOLS) \<union> {''read_episode'', ''audit_note''})"

lemma report_tools: "{''write_incident_report'', ''send_alert''} \<subseteq> set (map t_name TOOLS)"
  by (simp add: TOOLS_def tool_def obs_def)

lemma outsider_sockets:
  assumes "\<forall>c \<in> set UID_CLASSES. c \<noteq> ''worker'' \<longrightarrow> u \<notin> set (uids_of cf c)"
  shows "so \<in> set (build_sequencer cf) \<Longrightarrow> u \<notin> set (so_uids so)"
    "so \<in> set (build_store cf sk) \<Longrightarrow> u \<notin> set (so_uids so)"
    "so \<in> set (build_model_broker cf) \<Longrightarrow> u \<notin> set (so_uids so)"
    "so \<in> set (build_episode_broker cf sk) \<Longrightarrow> u \<in> set (so_uids so) \<Longrightarrow> tool_socket cf so"
    "so \<in> set (build_observer_broker cf) \<Longrightarrow> u \<in> set (so_uids so) \<Longrightarrow> tool_socket cf so"
    "so \<in> set (build_report_broker cf) \<Longrightarrow> u \<in> set (so_uids so) \<Longrightarrow> tool_socket cf so"
proof -
  have u: "u \<notin> set (uids_of cf ''controller'')" "u \<notin> set (uids_of cf ''verifier'')" "u \<notin> set (uids_of cf ''store'')"
    "u \<notin> set (uids_of cf ''episode_broker'')" "u \<notin> set (uids_of cf ''observer_broker'')"
    "u \<notin> set (uids_of cf ''report_broker'')" "u \<notin> set (uids_of cf ''model_broker'')" "u \<notin> set (uids_of cf ''operator'')"
    using assms by (simp_all add: UID_CLASSES_def)
  show "so \<in> set (build_sequencer cf) \<Longrightarrow> u \<notin> set (so_uids so)"
    using u by (auto simp: build_sequencer_def sequencer_sockets_def SUBMITTERS_def)
  show "so \<in> set (build_store cf sk) \<Longrightarrow> u \<notin> set (so_uids so)"
    using u by (auto simp: build_store_def store_sockets_def endpoints_def socket_of_def)
  show "so \<in> set (build_model_broker cf) \<Longrightarrow> u \<notin> set (so_uids so)"
    using u by (auto simp: build_model_broker_def model_admin_socket_def)
  have tools: "tool_socket cf (worker_socket nm (run_dir cf b) us ms)"
    if "b \<in> {''episode-broker'', ''observer-broker'', ''report-broker''}"
      "set ms \<subseteq> set (map t_name TOOLS) \<union> {''read_episode'', ''audit_note''}" for nm b us ms
    using that by (auto simp: tool_socket_def worker_socket_def worker_sockets_def client_paths simp del: set_map list.set_map)
  show "tool_socket cf so" if "so \<in> set (build_episode_broker cf sk)" "u \<in> set (so_uids so)"
    using that u tools [OF _ worker_tools]
    by (auto simp: build_episode_broker_def episode_broker_sockets_def admin_socket_def simp del: set_map list.set_map)
  show "tool_socket cf so" if "so \<in> set (build_observer_broker cf)" "u \<in> set (so_uids so)"
  proof -
    have "so = worker_socket ''observer-broker'' (run_dir cf ''observer-broker'') (uids_of cf ''worker'')
        (map t_name (filter (\<lambda>t. t_broker t = ''observer'') TOOLS))"
      using that u by (auto simp: build_observer_broker_def observer_broker_sockets_def admin_socket_def)
    then show ?thesis by (simp only:) (rule tools, auto)
  qed
  show "tool_socket cf so" if "so \<in> set (build_report_broker cf)" "u \<in> set (so_uids so)"
  proof -
    have "so = worker_socket ''report-broker'' (run_dir cf ''report-broker'') (uids_of cf ''worker'')
        [''write_incident_report'', ''send_alert'']"
      using that u by (auto simp: build_report_broker_def report_broker_sockets_def admin_socket_def)
    with report_tools show ?thesis by (simp only:) (rule tools, auto)
  qed
qed


section \<open>The worker's files in production\<close>

lemma production_rootfs:
  assumes "\<not> cf_development cf" "(a, rf) \<in> set (sandbox_rootfs cf paths host_ro_dev pkg extra)"
  shows "rf_host_ro rf = False \<and> rf_extra_ro rf = [] \<and> (a, rf_path rf) \<in> set paths"
  using assms by (auto simp: sandbox_rootfs_def)

lemma sandbox_ro_binds:
  assumes "rf_host_ro (sb_rootfs sb) = False" "rf_extra_ro (sb_rootfs sb) = []" "build_argv bwrap sb command = Inr argv"
  shows "\<exists>p. rf_path (sb_rootfs sb) = Some p \<and> p \<noteq> [] \<and> ''--ro-bind-try'' \<notin> fst ` set (sandbox_options sb) \<and>
    {as. (''--ro-bind'', as) \<in> set (sandbox_options sb)} = {[p, ''/''], [sb_home sb, ''/home/valops''], [sb_bundle sb, ''/bundle'']}"
proof -
  have "\<exists>c cs. rf_path (sb_rootfs sb) = Some (c # cs)"
    using assms by (auto simp: build_argv_def rootfs_args_def rbind_def split: option.splits list.splits sum.splits)
  then obtain c cs where "rf_path (sb_rootfs sb) = Some (c # cs)" by blast
  with assms(2) show ?thesis by (auto simp: sandbox_options_def root_options_def)
qed

text \<open>With the root file systems that the controller takes from a production configuration, the read-only mounts of
  every started worker are exactly the configured root of its runtime, its step home and the bundle; the
  directories of the host are never mounted.\<close>

lemma production_worker_has_minimal_root:
  assumes "\<not> cf_development cf" "bl_rootfs bl = sandbox_rootfs cf paths host_ro_dev pkg extra"
    and "runs (launcher_run bl adapter home bundle socks timeout) tr res" "(Popen argv who, ans) \<in> set tr"
  shows "\<exists>ops p. read_options (tl argv) = Some (ops, WORKER_COMMAND) \<and> p \<noteq> [] \<and> (str_of adapter, Some p) \<in> set paths \<and>
    {as. (''--ro-bind'', as) \<in> set ops} = {[p, ''/''], [home, ''/home/valops''], [bundle, ''/bundle'']} \<and>
    ''--ro-bind-try'' \<notin> fst ` set ops"
proof -
  obtain sb bwrap where sb: "step_sandbox bl adapter home bundle socks = Inr sb" and argv: "build_argv bwrap sb WORKER_COMMAND = Inr argv"
    using started_process [OF assms(3,4)] by metis
  note parts = step_sandbox_parts [OF sb]
  from parts have root: "rf_host_ro (sb_rootfs sb) = False" "rf_extra_ro (sb_rootfs sb) = []" "(str_of adapter, rf_path (sb_rootfs sb)) \<in> set paths"
    using production_rootfs [OF assms(1)] assms(2) by metis+
  from sandbox_ro_binds [OF root(1,2) argv] obtain p where p: "rf_path (sb_rootfs sb) = Some p" "p \<noteq> []"
    "''--ro-bind-try'' \<notin> fst ` set (sandbox_options sb)"
    "{as. (''--ro-bind'', as) \<in> set (sandbox_options sb)} = {[p, ''/''], [sb_home sb, ''/home/valops''], [sb_bundle sb, ''/bundle'']}"
    by metis
  show ?thesis
    by (rule exI [of _ "sandbox_options sb"], rule exI [of _ p])
      (use build_argv_reads [OF argv] p root(3) parts in simp)
qed

section \<open>A deployment\<close>

definition ex_data :: params where
  "ex_data = [(''uids'', JObj (map (\<lambda>(c, u). (c, JArr [JInt u])) (zip UID_CLASSES [990 .. 999])))]"

definition ex_cf :: config where
  "ex_cf = \<lparr>cf_development = False, cf_run = (''/'', [''run'', ''valops'']), cf_state = (''/'', [''var'', ''lib'', ''valops'']),
            cf_uids = map (\<lambda>(c, u). (c, [u])) (zip UID_CLASSES [990 .. 999])\<rparr>"

definition ex_sk :: stack_env where
  "ex_sk = \<lparr>sk_store = ex_env, sk_section = (\<lambda>_ _. None), sk_other = (\<lambda>_. [])\<rparr>"

lemma ex_uid_range: "[990 .. 999 :: int] = [990, 991, 992, 993, 994, 995, 996, 997, 998, 999]"
  by code_simp

lemma ex_cf_loads: "load_config 0 ex_data = Inr ex_cf"
  by (simp add: load_config_def ex_data_def ex_cf_def ex_uid_range UID_CLASSES_def pget_def pget_default_def path_arg_def path_of_def
      rbind_simps uid_set_def uid_values_def)

lemma ex_cf_uids:
  "uids_of ex_cf ''worker'' = [991]" "\<forall>c \<in> set UID_CLASSES. c \<noteq> ''worker'' \<longrightarrow> 991 \<notin> set (uids_of ex_cf c)"
  "uids_of ex_cf ''controller'' = [990]"
  by (simp_all add: uids_of_def ex_cf_def ex_uid_range UID_CLASSES_def)



end
