(* ===== verification/Worker_Theorems.thy ===== *)
theory Worker_Theorems
  imports Worker Policy_Theorems
begin

text \<open>
  Properties of the worker process: what it may ask of the brokers, and how its MCP server answers.
\<close>

section \<open>Requests to the brokers\<close>

text \<open>A request to a broker is for a tool of the role, on the broker of the tool, with the token and episode of the step.\<close>

fun tool_request :: "stubs \<Rightarrow> wreq \<Rightarrow> bool" where
  "tool_request st (W_call b m ps) =
     ((\<exists>t. TOOLS_BY_NAME m = Some t \<and> t_broker t = b) \<and> allowed st (JStr m) \<and> b \<in> set (st_clients st) \<and>
      map_of ps ''token'' = map_of (st_spec st) ''token'' \<and> map_of ps ''episode_id'' = map_of (st_spec st) ''episode_id'')"
| "tool_request st _ = True"

lemma credentials_Inr:
  "credentials st = Inr c \<longleftrightarrow>
     (\<exists>tok eid. c = [(''token'', tok), (''episode_id'', eid)] \<and> map_of (st_spec st) ''token'' = Some tok \<and>
        map_of (st_spec st) ''episode_id'' = Some eid)"
  by (auto simp: credentials_def rbind_def split: sum.splits option.splits)

lemma every_if: "every P p \<Longrightarrow> every P q \<Longrightarrow> every P (if c then p else q)"
  by simp

lemma every_lift_bind: "(\<And>x. r = Inr x \<Longrightarrow> every P (f x)) \<Longrightarrow> every P (pbind (lift r) f)"
  by (cases r) auto

lemma stub_call_requests:
  assumes "allowed st (JStr n)"
  shows "every (tool_request st) (stub_call st n args)"
  using assms
  by (auto simp: stub_call_def rpc_failure_def rbind_def broker_client_def
      intro!: every_catch every_lift_bind every_pbind simp: credentials_Inr
      split: option.split exn.split sum.splits if_splits)

lemma run_tool_requests: "every (tool_request st) (run_tool w st name args)"
  by (auto simp: run_tool_def intro: stub_call_requests split: jv.split)

lemma reply_requests [simp]: "every (tool_request st) (reply_result rid r)" "every (tool_request st) (reply_error rid c m)"
  by (simp_all add: reply_result_def reply_error_def every_pbind)

lemma handle_requests: "every (tool_request st) (handle_method w st rid mth ps)"
  unfolding handle_method_def by (intro every_if every_pbind every_lift run_tool_requests reply_requests)

lemma mcp_requests: "every (tool_request st) (mcp_serve w st ls)"
  by (auto simp: mcp_serve_def serve_line_def intro!: every_for_each every_pbind handle_requests split: option.split)

lemma run_calls_requests: "every (tool_request st) (run_calls w st cs)"
  by (induction cs) (auto intro!: every_pbind run_tool_requests)

lemma native_turns_requests: "every (tool_request st) (native_turns w st n)"
  by (induction n) (auto intro!: every_pbind run_calls_requests)

lemma native_requests: "every (tool_request st) (native_run w spec prompt st)"
  by (auto simp: native_run_def intro!: every_pbind native_turns_requests)

lemma main_requests:
  assumes "new_stubs spec = Inr st"
  shows "every (tool_request st) (worker_main w spec)"
proof -
  have "every (tool_request st) (run_adapter w spec conf st prompt)" for conf prompt
    by (auto simp: run_adapter_def intro!: every_pbind native_requests)
  then show ?thesis
    using assms
    by (auto simp: worker_main_def rbind_def intro!: every_pbind every_lift_bind split: option.split sum.splits)
qed

section \<open>The controller's specification\<close>

lemma make_spec_fields:
  assumes "make_spec d rec role b kind session token nc view = Inr s"
  shows "ss_token s = token \<and> ss_episode_id s = r_episode_id rec \<and> TOOLS_BY_ROLE role = Some (ss_tools s)"
  using assms by (auto simp: make_spec_def rbind_def split: sum.splits option.splits)

lemma spec_stubs:
  assumes "spec_json s = Inr spec" "new_stubs spec = Inr st"
  shows "map_of (st_spec st) ''token'' = Some (JStr (ss_token s)) \<and> map_of (st_spec st) ''episode_id'' = Some (JStr (ss_episode_id s)) \<and>
    (allowed st (JStr m) \<longleftrightarrow> m \<in> set (ss_tools s)) \<and> st_clients st = [''episode'', ''observer'', ''report'']"
  using assms
  by (auto simp: spec_json_def new_stubs_def rbind_def as_dict_def allowed_def SOCKETS_INSIDE_def list_ex_iff
      split: sum.splits jv.splits)


section \<open>The answers of the MCP server\<close>

text \<open>The ids of the lines sent, and the ids that the lines received ask to be answered.\<close>

definition sent_id :: "wreq \<times> 'r \<Rightarrow> jv list" where
  "sent_id x = (case fst x of W_send (JObj d) \<Rightarrow> [pget d ''id''] | _ \<Rightarrow> [])"

definition sent_ids :: "(wreq \<times> 'r) list \<Rightarrow> jv list" where
  "sent_ids tr = concat (map sent_id tr)"

definition asked_id :: "worker_env \<Rightarrow> string \<Rightarrow> jv list" where
  "asked_id w line =
     (if strip line = [] then []
      else case wk_loads w (strip line) of
          None \<Rightarrow> [JNull]
        | Some (JObj q) \<Rightarrow> if pget q ''id'' = JNull then [] else [pget q ''id'']
        | Some _ \<Rightarrow> [])"

lemma sent_ids_simps [simp]: "sent_ids [] = []" "sent_ids (x # tr) = sent_id x @ sent_ids tr" "sent_ids (t @ t') = sent_ids t @ sent_ids t'"
  by (simp_all add: sent_ids_def)

definition silent :: "wreq \<Rightarrow> bool" where
  "silent q = (case q of W_send _ \<Rightarrow> False | _ \<Rightarrow> True)"

lemma silent_ids: "every silent p \<Longrightarrow> runs p tr res \<Longrightarrow> sent_ids tr = []"
proof -
  assume a: "every silent p" "runs p tr res"
  have "sent_id x = []" if "x \<in> set tr" for x
    using every_runs [OF a, of "fst x" "snd x"] that by (auto simp: silent_def sent_id_def split: wreq.splits)
  then show ?thesis by (simp add: sent_ids_def)
qed

lemma run_tool_silent: "every silent (run_tool w st name args)"
  by (auto simp: run_tool_def stub_call_def rpc_failure_def silent_def intro!: every_catch every_pbind
      split: option.split exn.split jv.split)

text \<open>A program that sends at most the given ids, and all of them when it returns.\<close>

definition sends :: "jv list \<Rightarrow> unit work \<Rightarrow> bool" where
  "sends ids p =
     (\<forall>tr res. runs p tr res \<longrightarrow> (\<exists>rest. ids = sent_ids tr @ rest) \<and> (res = Inr () \<longrightarrow> sent_ids tr = ids))"

lemma sends_reply: "sends [rid] (reply_result rid r)" "sends [rid] (reply_error rid c m)"
  by (auto simp: sends_def reply_result_def reply_error_def runs_pbind runs_ask sent_id_def pget_def)

lemma sends_quiet_bind:
  assumes "every silent p" "\<And>x. sends ids (f x)"
  shows "sends ids (pbind p f)"
  unfolding sends_def
proof (intro allI impI)
  fix tr res
  assume "runs (pbind p f) tr res"
  then show "(\<exists>rest. ids = sent_ids tr @ rest) \<and> (res = Inr () \<longrightarrow> sent_ids tr = ids)"
  proof (rule pbindE)
    fix e
    assume "res = Inl e" "runs p tr (Inl e)"
    then show ?thesis using silent_ids [OF assms(1)] by simp
  next
    fix x t1 t2
    assume "tr = t1 @ t2" "runs p t1 (Inr x)" "runs (f x) t2 res"
    then show ?thesis using silent_ids [OF assms(1)] assms(2) [of x] by (simp add: sends_def)
  qed
qed

lemma sends_bind:
  assumes "sends ids p" "sends ids' q"
  shows "sends (ids @ ids') (pbind p (\<lambda>_. q))"
  unfolding sends_def
proof (intro allI impI)
  fix tr res
  assume "runs (pbind p (\<lambda>_. q)) tr res"
  then show "(\<exists>rest. ids @ ids' = sent_ids tr @ rest) \<and> (res = Inr () \<longrightarrow> sent_ids tr = ids @ ids')"
  proof (rule pbindE)
    fix e
    assume "res = Inl e" "runs p tr (Inl e)"
    then show ?thesis using assms(1) unfolding sends_def by force
  next
    fix x t1 t2
    assume r: "tr = t1 @ t2" "runs p t1 (Inr x)" "runs q t2 res"
    then have "sent_ids t1 = ids" using assms(1) by (simp add: sends_def)
    with r assms(2) show ?thesis by (auto simp: sends_def)
  qed
qed

lemma sends_if: "sends ids p \<Longrightarrow> sends ids q \<Longrightarrow> sends ids (if c then p else q)"
  by simp

lemma handle_sends: "sends [rid] (handle_method w st rid mth ps)"
  unfolding handle_method_def by (intro sends_if sends_quiet_bind every_lift run_tool_silent sends_reply)

lemma line_sends: "sends (asked_id w line) (serve_line w st line)"
proof -
  have quiet: "sends [] (Ret ())" "sends [] (Raise e)" for e by (auto simp: sends_def)
  show ?thesis
    using sends_reply(2) handle_sends
    by (auto simp: serve_line_def asked_id_def as_dict_def quiet split: option.split jv.split)
qed

lemma mcp_sends: "sends (concat (map (asked_id w) ls)) (mcp_serve w st ls)"
  unfolding mcp_serve_def
proof (induction ls)
  case Nil
  show ?case by (simp add: sends_def)
next
  case (Cons l ls)
  then show ?case using sends_bind [OF line_sends] by simp
qed

text \<open>The MCP server answers every request of its input once and in the order of the input, with the id of the
  request; a line that is no JSON is answered with the id null, a notification and a blank line not at all. When it ends with an
  exception it has answered an initial part of them.\<close>

lemma mcp_answers_in_order:
  assumes "runs (mcp_serve w st ls) tr res"
  shows "(\<exists>rest. concat (map (asked_id w) ls) = sent_ids tr @ rest) \<and>
    (res = Inr () \<longrightarrow> sent_ids tr = concat (map (asked_id w) ls))"
  using mcp_sends assms unfolding sends_def by blast

section \<open>A call through the MCP server\<close>

definition ex_worker :: worker_env where
  "ex_worker =
     \<lparr>wk_loads = (\<lambda>_. Some (JObj [(''id'', JInt 1), (''method'', JStr ''tools/call''),
                                 (''params'', JObj [(''name'', JStr ''add_hypothesis'')])])),
      wk_dumps1 = (\<lambda>_. []), wk_card = (\<lambda>_. ([], JNull)), wk_str = (\<lambda>_. [])\<rparr>"

definition ex_brokers :: "nat \<Rightarrow> wreq \<Rightarrow> wresp result" where
  "ex_brokers n q = (case q of W_uuid \<Rightarrow> Inr (WA_text ''u'') | W_call _ _ _ \<Rightarrow> Inr (WA_json (JObj [])) | _ \<Rightarrow> Inr WA_unit)"

definition ex_mcp :: "stubs \<Rightarrow> (wreq, wresp) trace \<times> unit result" where
  "ex_mcp st = exec (mcp_serve ex_worker st [''x'']) ex_brokers 0"

lemma ex_mcp_runs: "runs (mcp_serve ex_worker st [''x'']) (fst (ex_mcp st)) (snd (ex_mcp st))"
  by (rule exec_runs [of _ ex_brokers 0]) (simp add: ex_mcp_def)

lemma ex_mcp_call:
  assumes "allowed st (JStr ''add_hypothesis'')" "''episode'' \<in> set (st_clients st)" "credentials st = Inr c"
  shows "\<exists>ps r. (W_call ''episode'' ''add_hypothesis'' ps, r) \<in> set (fst (ex_mcp st))"
proof -
  have "strip ''x'' \<noteq> []" by code_simp
  then show ?thesis
    using assms
    by (simp add: ex_mcp_def mcp_serve_def serve_line_def ex_worker_def handle_method_def run_tool_def stub_call_def catch_def
        exec_rules exec_ask ex_brokers_def rbind_simps broker_client_def as_dict_def pget_def tool_def reply_result_def Let_def)
qed

lemma ex_step_stubs:
  "\<exists>s spec st. make_spec ex_deps ex_step_rec ''diagnostician'' ex_bundle ''incident'' ''s1'' ''t''
       (''c1'', JObj [(''adapter'', JStr ''native'')]) [] = Inr s \<and> spec_json s = Inr spec \<and> new_stubs spec = Inr st"
proof -
  obtain s where s: "make_spec ex_deps ex_step_rec ''diagnostician'' ex_bundle ''incident'' ''s1'' ''t''
      (''c1'', JObj [(''adapter'', JStr ''native'')]) [] = Inr s" using ex_step_spec by blast
  then have "ss_conf s = JObj [(''adapter'', JStr ''native'')]"
    by (auto simp: make_spec_def rbind_def split: sum.splits option.splits)
  then have "\<exists>spec. spec_json s = Inr spec" by (simp add: spec_json_def as_dict_def rbind_simps)
  then obtain spec where spec: "spec_json s = Inr spec" by blast
  then have "\<exists>st. new_stubs spec = Inr st"
    by (auto simp: spec_json_def new_stubs_def rbind_def as_dict_def split: sum.splits)
  with s spec show ?thesis by blast
qed


end
