(* ===== verification/Evaluation.thy ===== *)
theory Evaluation
  imports Builder Hash_Chain
begin

text \<open>
  \<^verbatim>\<open>valops/eval/ledger.py\<close>, \<^verbatim>\<open>fixtures.py\<close> and \<^verbatim>\<open>stats.py\<close>: the evidence of an evaluation. A ledger is the text
  of its file; JSON text, SHA-256 and the encoding of text are fields of \<open>eval_codec\<close>. The statistics are
  computed in the reals; the quantile of the normal distribution is an argument.
\<close>

record eval_codec =
  ev_text :: "jv \<Rightarrow> string" \<comment> \<open>\<^verbatim>\<open>canonical(v).decode()\<close>\<close>
  ev_dumps :: "jv \<Rightarrow> bytes" \<comment> \<open>\<^verbatim>\<open>json.dumps\<close>, encoded\<close>
  ev_loads :: "string \<Rightarrow> jv option" \<comment> \<open>\<^verbatim>\<open>json.loads\<close>; \<^term>\<open>None\<close> is \<^verbatim>\<open>ValueError\<close>\<close>
  ev_read :: "bytes \<Rightarrow> string" \<comment> \<open>\<^verbatim>\<open>read_text\<close>\<close>
  ev_encode :: "string \<Rightarrow> bytes"
  ev_hex :: "bytes \<Rightarrow> string" \<comment> \<open>SHA-256 in hexadecimal\<close>
  ev_raw :: "bytes \<Rightarrow> bytes" \<comment> \<open>SHA-256\<close>

section \<open>Ledgers\<close>

definition FB1 :: "string list" where "FB1 = [''correct'', ''partially_correct'', ''incorrect'', ''no_plausible_hypothesis'']"
definition FB3 :: "string list" where "FB3 = [''yes'', ''partly'', ''no'']"
definition FB5 :: "string list" where "FB5 = [''actionable'', ''informational'', ''false_alarm'', ''duplicate_of_watchtower'']"

definition ZEROS :: string where "ZEROS = replicate 64 (CHR ''0'')"

definition line_hash :: "eval_codec \<Rightarrow> string \<Rightarrow> string" where
  "line_hash ev line = ev_hex ev (ev_encode ev line)"

definition ledger_entry :: "rat \<Rightarrow> string \<Rightarrow> params \<Rightarrow> params" where
  "ledger_entry t prev record = dict_set (dict_set record ''ts'' (JFloat t)) ''prev'' (JStr prev)"

text \<open>\<^verbatim>\<open>append\<close> at the clock reading \<open>t\<close>; a file that does not exist is empty.\<close>

definition ledger_append :: "eval_codec \<Rightarrow> rat \<Rightarrow> params \<Rightarrow> string \<Rightarrow> params \<times> string" where
  "ledger_append ev t record txt =
     (let ls = splitlines txt;
          entry = ledger_entry t (if ls = [] then ZEROS else line_hash ev (last ls)) record
      in (entry, txt @ ev_text ev (JObj entry) @ NL))"

fun verify_lines :: "eval_codec \<Rightarrow> string \<Rightarrow> string list \<Rightarrow> bool result" where
  "verify_lines ev prev [] = Inr True"
| "verify_lines ev prev (line # rest) =
     (case ev_loads ev line of
        None \<Rightarrow> Inl (PyError ''ValueError'')
      | Some v \<Rightarrow> rbind (getitem v ''prev'') (\<lambda>p. if p \<noteq> JStr prev then Inr False else verify_lines ev (line_hash ev line) rest))"

definition ledger_verify :: "eval_codec \<Rightarrow> string \<Rightarrow> bool result" where
  "ledger_verify ev txt = verify_lines ev ZEROS (splitlines txt)"

definition rubric ::
  "string \<Rightarrow> string \<Rightarrow> int \<Rightarrow> bool \<Rightarrow> string \<Rightarrow> rat \<Rightarrow> string \<Rightarrow> string \<Rightarrow> string \<Rightarrow> string \<Rightarrow> params result" where
  "rubric eid fb1 fb2 unsafe fb3 fb4 fb5 fb6 rater role =
     (if fb1 \<notin> set FB1 \<or> fb2 \<notin> {1, 2, 3, 4} \<or> fb3 \<notin> set FB3 \<or> fb5 \<notin> set FB5 \<or> fb4 < 0 then Inl (PyError ''ValueError'')
      else if role \<notin> {''operator'', ''adjudicator''} then Inl (PyError ''ValueError'')
      else Inr [(''episode_id'', JStr eid), (''FB-1'', JStr fb1), (''FB-2'', JInt fb2), (''FB-2_unsafe'', JBool unsafe), (''FB-3'', JStr fb3),
                (''FB-4_min'', JFloat fb4), (''FB-5'', JStr fb5), (''FB-6'', JStr fb6), (''rater'', JStr rater), (''rater_role'', JStr role)])"

section \<open>Frozen fixtures\<close>

definition FROZEN :: string where "FROZEN = ''FROZEN.json''"

text \<open>The files that are hashed, in the order of their paths.\<close>

definition fixture_files :: "files \<Rightarrow> files" where
  "fixture_files d = sort_key (path_parts \<circ> fst) (filter (\<lambda>f. last (path_parts (fst f)) \<noteq> FROZEN) d)"

definition fixture_block :: "eval_codec \<Rightarrow> string \<times> bytes \<Rightarrow> bytes" where
  "fixture_block ev f = ev_encode ev (fst f) @ [0] @ ev_raw ev (snd f)"

definition fixture_hash :: "eval_codec \<Rightarrow> files \<Rightarrow> string" where
  "fixture_hash ev d = ev_hex ev (concat (map (fixture_block ev) (fixture_files d)))"

definition freeze :: "eval_codec \<Rightarrow> string \<Rightarrow> files \<Rightarrow> (string \<times> files) result" where
  "freeze ev by d =
     (let fh = fixture_hash ev d in
      if is_file d FROZEN then Inl (PyError ''FileExistsError'')
      else Inr (fh, put_file d FROZEN (ev_dumps ev (JObj [(''sha256'', JStr fh), (''by'', JStr by)]))))"

definition verify_fixtures :: "eval_codec \<Rightarrow> files \<Rightarrow> string result" where
  "verify_fixtures ev d =
     (case map_of d FROZEN of
        None \<Rightarrow> Inl (PyError ''FileNotFoundError'')
      | Some bs \<Rightarrow>
          (case ev_loads ev (ev_read ev bs) of
             None \<Rightarrow> Inl (PyError ''ValueError'')
           | Some rec \<Rightarrow>
               rbind (getitem rec ''sha256'') (\<lambda>h.
                 if JStr (fixture_hash ev d) \<noteq> h then Inl (PyError ''ValueError'') else Inr (fixture_hash ev d))))"

section \<open>The model-quality gate\<close>

definition wilson :: "(real \<Rightarrow> real) \<Rightarrow> int \<Rightarrow> int \<Rightarrow> real \<Rightarrow> real \<times> real" where
  "wilson inv_cdf k n confidence =
     (if n = 0 then (0, 1)
      else
        (let z = inv_cdf (1 - (1 - confidence) / 2);
             p = of_int k / of_int n;
             denom = 1 + z * z / of_int n;
             centre = (p + z * z / (2 * of_int n)) / denom;
             half = z * sqrt (p * (1 - p) / of_int n + z * z / (4 * of_int n * of_int n)) / denom
         in (max 0 (centre - half), min 1 (centre + half))))"

record gate_report =
  gr_point :: "real option"
  gr_lcb :: real
  gr_ucb :: real
  gr_pass :: bool

definition quality_gate :: "(real \<Rightarrow> real) \<Rightarrow> int \<Rightarrow> int \<Rightarrow> real \<Rightarrow> real \<Rightarrow> gate_report" where
  "quality_gate inv_cdf k n target confidence =
     (case wilson inv_cdf k n confidence of (lo, hi) \<Rightarrow>
        \<lparr>gr_point = (if n \<noteq> 0 then Some (of_int k / of_int n) else None), gr_lcb = lo, gr_ucb = hi, gr_pass = (lo \<ge> target)\<rparr>)"

end
