(* ===== verification/Evaluation_Theorems.thy ===== *)
theory Evaluation_Theorems
  imports Evaluation Builder_Theorems
begin

text \<open>
  Properties of the evaluation evidence: what the ledger and the frozen fixtures protect, and what the
  model-quality gate accepts.
\<close>

section \<open>Lines of a ledger\<close>

definition breakless :: "string \<Rightarrow> bool" where
  "breakless s = list_all (\<lambda>c. \<not> is_linebreak c) s"

lemma NL_break: "is_linebreak (CHR 0x0A)"
  by code_simp

lemma splitlines_acc_line:
  "breakless l \<Longrightarrow> splitlines_acc acc (l @ NL @ rest) = (rev acc @ l) # splitlines_acc [] rest"
  by (induction l arbitrary: acc) (auto simp: breakless_def NL_def NL_break)

definition file_text :: "string list \<Rightarrow> string" where
  "file_text ls = concat (map (\<lambda>l. l @ NL) ls)"

lemma splitlines_file: "list_all breakless ls \<Longrightarrow> splitlines (file_text ls) = ls"
proof (induction ls)
  case (Cons l ls)
  then show ?case using splitlines_acc_line [of l "[]" "file_text ls"] by (simp add: splitlines_def file_text_def)
qed (simp add: splitlines_def file_text_def)

section \<open>The ledger as a hash chain\<close>

definition line_prev :: "eval_codec \<Rightarrow> string \<Rightarrow> string option" where
  "line_prev ev line =
     (case ev_loads ev line of
        Some (JObj d) \<Rightarrow> (case map_of d ''prev'' of Some (JStr h) \<Rightarrow> Some h | _ \<Rightarrow> None)
      | _ \<Rightarrow> None)"

definition next_line :: "eval_codec \<Rightarrow> rat \<times> params \<Rightarrow> nat \<Rightarrow> string \<Rightarrow> string" where
  "next_line ev x n h = ev_text ev (JObj (ledger_entry (fst x) h (snd x)))"

text \<open>A record whose entry is one line of text that reads back.\<close>

definition recordable :: "eval_codec \<Rightarrow> rat \<times> params \<Rightarrow> bool" where
  "recordable ev x =
     (\<forall>h. let e = JObj (ledger_entry (fst x) h (snd x)) in breakless (ev_text ev e) \<and> ev_loads ev (ev_text ev e) = Some e)"

interpretation ledger: hash_chain "line_hash ev" "line_prev ev" "\<lambda>_ _. True" ZEROS "next_line ev" "recordable ev" for ev
  by unfold_locales (auto simp: line_prev_def next_line_def recordable_def Let_def ledger_entry_def)

text \<open>The text after a list of appends.\<close>

definition ledger_run :: "eval_codec \<Rightarrow> (rat \<times> params) list \<Rightarrow> string" where
  "ledger_run ev xs = foldl (\<lambda>txt (t, r). snd (ledger_append ev t r txt)) [] xs"

lemma ledger_run_lines:
  "list_all (recordable ev) xs \<Longrightarrow> ledger_run ev xs = file_text (ledger.extend ev xs) \<and> list_all breakless (ledger.extend ev xs)"
proof (induction xs rule: rev_induct)
  case Nil
  show ?case by (simp add: ledger_run_def file_text_def ledger.extend_def)
next
  case (snoc x xs)
  then have ih: "ledger_run ev xs = file_text (ledger.extend ev xs)" "list_all breakless (ledger.extend ev xs)" by auto
  have x: "breakless (next_line ev x n h)" for n h using snoc.prems by (simp add: recordable_def next_line_def Let_def)
  have "snd (ledger_append ev (fst x) (snd x) (file_text ls)) = file_text ls @ next_line ev x (length ls) (ledger.head ev ls) @ NL"
    if "list_all breakless ls" for ls
    using splitlines_file [OF that] by (simp add: ledger_append_def Let_def next_line_def ledger.head_def)
  then have "ledger_run ev (xs @ [x]) = file_text (ledger.extend ev (xs @ [x]))"
    using ih by (simp add: ledger_run_def case_prod_beta ledger.extend_snoc file_text_def)
  then show ?case using ih x by (simp add: ledger.extend_snoc)
qed

lemma verify_lines_True:
  "verify_lines ev prev ls = Inr True \<longleftrightarrow>
     (\<forall>i < length ls. line_prev ev (ls ! i) = Some (if i = 0 then prev else line_hash ev (ls ! (i - 1))))"
proof (induction ls arbitrary: prev)
  case (Cons l ls)
  have head: "verify_lines ev prev (l # ls) = Inr True \<longleftrightarrow> line_prev ev l = Some prev \<and> verify_lines ev (line_hash ev l) ls = Inr True"
    by (auto simp: line_prev_def rbind_def split: option.splits jv.splits sum.splits)
  have "(\<forall>i < length (l # ls). line_prev ev ((l # ls) ! i) = Some (if i = 0 then prev else line_hash ev ((l # ls) ! (i - 1)))) \<longleftrightarrow>
      line_prev ev l = Some prev \<and>
      (\<forall>i < length ls. line_prev ev (ls ! i) = Some (if i = 0 then line_hash ev l else line_hash ev (ls ! (i - 1))))"
    by (simp only: length_Cons All_less_Suc2) (auto simp: nth_Cons' gr0_conv_Suc)
  with head Cons show ?case by simp
qed simp

lemma ledger_verify_chained: "ledger_verify ev txt = Inr True \<longleftrightarrow> ledger.chained ev (splitlines txt)"
proof -
  have "(if i = 0 then ZEROS else line_hash ev (ls ! (i - 1))) = ledger.head ev (take i ls)" if "i < length ls" for i and ls :: "string list"
    using that by (cases i) (simp_all add: ledger.head_def take_Suc_conv_app_nth)
  then show ?thesis by (simp add: ledger_verify_def verify_lines_True ledger.chained_def)
qed

text \<open>A ledger that was written by appends verifies, and any text that verifies and ends in the same line is the
  ledger, line for line, unless SHA-256 has a collision or a preimage of the genesis value.\<close>

lemma ledger_tamper_evident:
  assumes "list_all (recordable ev) xs" "xs \<noteq> []"
  shows "ledger_verify ev (ledger_run ev xs) = Inr True \<and>
    (\<forall>txt. ledger_verify ev txt = Inr True \<and> splitlines txt \<noteq> [] \<and>
       last (splitlines txt) = last (splitlines (ledger_run ev xs)) \<longrightarrow>
       splitlines txt = splitlines (ledger_run ev xs) \<or>
       (\<exists>a b. a \<noteq> b \<and> ev_hex ev (ev_encode ev a) = ev_hex ev (ev_encode ev b)) \<or>
       (\<exists>a. ev_hex ev (ev_encode ev a) = replicate 64 (CHR ''0'')))"
proof -
  note lines = ledger_run_lines [OF assms(1)]
  have ls: "splitlines (ledger_run ev xs) = ledger.extend ev xs" using lines splitlines_file by simp
  have ch: "ledger.chained ev (ledger.extend ev xs)" using ledger.chained_extend [OF assms(1)] .
  have ne: "ledger.extend ev xs \<noteq> []" using assms(2) by (cases xs rule: rev_cases) (simp_all add: ledger.extend_snoc)
  show ?thesis
    using ledger.last_determined [OF _ ch _ ne] ch
    unfolding ledger_verify_chained ls ledger.collision_def line_hash_def ZEROS_def by blast
qed

text \<open>A codec that keeps only the link of an entry, for two empty records.\<close>

definition ex_ev :: eval_codec where
  "ex_ev = \<lparr>ev_text = (\<lambda>v. case v of JObj d \<Rightarrow> (case map_of d ''prev'' of Some (JStr h) \<Rightarrow> b64u (encode_utf8 h) | _ \<Rightarrow> []) | _ \<Rightarrow> []),
     ev_dumps = (\<lambda>_. []),
     ev_loads = (\<lambda>s. Option.bind (b64u_dec s) (\<lambda>bs. map_option (\<lambda>h. JObj (ledger_entry 0 h [])) (decode_utf8 bs))),
     ev_read = (\<lambda>_. []), ev_encode = encode_utf8, ev_hex = (\<lambda>bs. CHR ''h'' # map char_of bs), ev_raw = id\<rparr>"

lemma encode_utf8_bytes: "\<forall>b \<in> set (encode_utf8 s). b < 256"
proof (induction s)
  case (Cons c s)
  have "(of_char c :: nat) < 256" by simp
  then have "192 + (of_char c :: nat) div 64 < 256" "128 + (of_char c :: nat) mod 64 < 256" by linarith+
  with Cons show ?case by (simp add: Let_def)
qed simp

lemma b64u_breakless: "breakless (b64u bs)"
proof -
  have c: "\<not> is_linebreak (b64_char n)" for n
    by (auto simp: b64_char_def is_linebreak_def Let_def of_char_of)
  show ?thesis
    unfolding breakless_def b64u_eq by (induction bs rule: enc_nopad.induct) (simp_all add: c Let_def)
qed

lemma ex_recordable: "recordable ex_ev (0, [])"
  by (simp add: recordable_def ex_ev_def ledger_entry_def Let_def b64u_breakless b64u_dec_b64u encode_utf8_bytes)

lemma ex_hash_inject: "line_hash ex_ev a = line_hash ex_ev b \<longleftrightarrow> a = b"
proof -
  have round: "map of_char (map char_of (encode_utf8 s) :: string) = encode_utf8 s" for s
    using encode_utf8_bytes [of s] by (simp add: map_idI)
  have "a = b" if "map char_of (encode_utf8 a) = (map char_of (encode_utf8 b) :: string)"
    using arg_cong [OF that, of "map of_char :: string \<Rightarrow> nat list"] unfolding round by (simp only: encode_utf8_inject)
  then show ?thesis by (auto simp: line_hash_def ex_ev_def)
qed

lemma ledger_tamper_evident_witness:
  "\<exists>txt. txt \<noteq> ledger_run ex_ev [(0, [])] \<and> ledger_verify ex_ev txt = Inr True \<and>
     splitlines txt = splitlines (ledger_run ex_ev [(0, [])])"
proof -
  let ?t = "ledger_run ex_ev [(0, [])]" and ?l = "ev_text ex_ev (JObj (ledger_entry 0 ZEROS []))"
  have t: "?t = ?l @ NL" by (simp add: ledger_run_def ledger_append_def splitlines_def Let_def)
  have l: "breakless ?l" "?l \<noteq> []" by code_simp+
  have cut: "splitlines ?l = [?l]"
  proof -
    have "splitlines_acc acc l = [rev acc @ l]" if "breakless l" "l \<noteq> [] \<or> acc \<noteq> []" for acc l
      using that by (induction l arbitrary: acc) (auto simp: breakless_def)
    then show ?thesis using l by (simp add: splitlines_def)
  qed
  have lines: "splitlines ?t = [?l]" using splitlines_file [of "[?l]"] l t by (simp add: file_text_def)
  note evident = ledger_tamper_evident [of ex_ev "[(0, [])]"]
  have ver: "ledger_verify ex_ev ?l = Inr True"
    using conjunct1 [OF evident] cut lines by (simp add: ex_recordable ledger_verify_def)
  moreover have "splitlines ?l = splitlines ?t"
  proof -
    have "\<not> (\<exists>a b. a \<noteq> b \<and> ev_hex ex_ev (ev_encode ex_ev a) = ev_hex ex_ev (ev_encode ex_ev b))"
      using ex_hash_inject unfolding line_hash_def by blast
    moreover have "\<not> (\<exists>a. ev_hex ex_ev (ev_encode ex_ev a) = replicate 64 (CHR ''0''))"
      by (simp add: ex_ev_def numeral_eq_Suc)
    ultimately show ?thesis using evident ver cut lines by (simp add: ex_recordable)
  qed
  moreover have "?l \<noteq> ?t" by (simp add: t NL_def)
  ultimately show ?thesis by blast
qed

text \<open>A canonical text keeps the code point U+0085 as it is, and \<^verbatim>\<open>splitlines\<close> breaks the line there: after such an
  entry the check does not answer false, it raises.\<close>

lemma ledger_breaks_at_next_line:
  assumes "ev_text ev (JObj (ledger_entry t ZEROS r)) = a @ [CHR 0x85] @ b" "breakless a" "ev_loads ev a = None"
  shows "ledger_verify ev (snd (ledger_append ev t r [])) = Inl (PyError ''ValueError'')"
proof -
  have nel: "is_linebreak (CHR 0x85)" by code_simp
  have "splitlines_acc acc (a @ [CHR 0x85] @ c) = (rev acc @ a) # splitlines_acc [] c" for acc c
    using assms(2) by (induction a arbitrary: acc) (auto simp: breakless_def nel)
  from this [of "[]" "b @ NL"] have "splitlines (snd (ledger_append ev t r [])) = a # splitlines_acc [] (b @ NL)"
    using assms(1) by (simp add: ledger_append_def splitlines_def Let_def)
  then show ?thesis using assms(3) by (simp add: ledger_verify_def)
qed

section \<open>Frozen fixtures\<close>

lemma fixture_files_frozen: "fixture_files (put_file d FROZEN bs) = fixture_files d"
proof -
  have "last (path_parts FROZEN) = FROZEN" by code_simp
  then show ?thesis
    by (auto simp: fixture_files_def put_file_def filter_insort_triv intro!: arg_cong [where f = "sort_key _"] filter_cong)
qed

lemma fixture_blocks_inject:
  assumes "inj (ev_encode ev)" "\<forall>b. length (ev_raw ev b) = 32"
    and "\<forall>f \<in> set fs \<union> set gs. 0 \<notin> set (ev_encode ev (fst f))"
    and "concat (map (fixture_block ev) fs) = concat (map (fixture_block ev) gs)"
  shows "fs = gs \<or> (\<exists>a b. a \<noteq> b \<and> ev_raw ev a = ev_raw ev b)"
  using assms(3,4)
proof (induction fs arbitrary: gs)
  case Nil
  then show ?case by (cases gs) (simp_all add: fixture_block_def)
next
  case (Cons f fs)
  then obtain g gs' where gs: "gs = g # gs'" by (cases gs) (auto simp: fixture_block_def)
  have "ev_encode ev (fst f) @ 0 # ev_raw ev (snd f) @ concat (map (fixture_block ev) fs)
      = ev_encode ev (fst g) @ 0 # ev_raw ev (snd g) @ concat (map (fixture_block ev) gs')"
    using Cons.prems(2) unfolding gs by (simp add: fixture_block_def [of ev f] fixture_block_def [of ev g])
  note sep = append_sep_inject [OF _ _ this]
  have eq: "ev_encode ev (fst f) = ev_encode ev (fst g)"
      "ev_raw ev (snd f) @ concat (map (fixture_block ev) fs) = ev_raw ev (snd g) @ concat (map (fixture_block ev) gs')"
    using sep Cons.prems(1) gs by simp_all
  have name: "fst f = fst g" using eq(1) assms(1) by (simp add: inj_eq)
  have raw: "ev_raw ev (snd f) = ev_raw ev (snd g)" "concat (map (fixture_block ev) fs) = concat (map (fixture_block ev) gs')"
    using iffD1 [OF append_eq_append_conv eq(2)] assms(2) by simp_all
  show ?case
  proof (cases "snd f = snd g")
    case True
    with name have "f = g" by (simp add: prod_eq_iff)
    moreover have "fs = gs' \<or> (\<exists>a b. a \<noteq> b \<and> ev_raw ev a = ev_raw ev b)"
      using Cons.IH [OF _ raw(2)] Cons.prems(1) gs by simp
    ultimately show ?thesis using gs by blast
  next
    case False
    with raw(1) show ?thesis by blast
  qed
qed

text \<open>A frozen set verifies, and a set that verifies against its record holds the same files under the same
  paths, unless SHA-256 has a collision.\<close>

lemma frozen_set_unchanged:
  assumes "freeze ev by d = Inr (fh, d1)"
    and "ev_loads ev (ev_read ev (ev_dumps ev (JObj [(''sha256'', JStr fh), (''by'', JStr by)]))) =
       Some (JObj [(''sha256'', JStr fh), (''by'', JStr by)])"
  shows "verify_fixtures ev d1 = Inr fh \<and>
    (\<forall>d2 h. verify_fixtures ev d2 = Inr h \<and> map_of d2 FROZEN = map_of d1 FROZEN \<and>
       inj (ev_encode ev) \<and> (\<forall>b. length (ev_raw ev b) = 32) \<and> (\<forall>f \<in> set d \<union> set d2. 0 \<notin> set (ev_encode ev (fst f))) \<longrightarrow>
       fixture_files d2 = fixture_files d \<or>
       (\<exists>a b. a \<noteq> b \<and> ev_raw ev a = ev_raw ev b) \<or> (\<exists>a b. a \<noteq> b \<and> ev_hex ev a = ev_hex ev b))"
proof -
  have fh: "fh = fixture_hash ev d"
    and d1: "d1 = put_file d FROZEN (ev_dumps ev (JObj [(''sha256'', JStr fh), (''by'', JStr by)]))"
    using assms(1) by (auto simp: freeze_def Let_def split: if_splits)
  have rec: "map_of d1 FROZEN = Some (ev_dumps ev (JObj [(''sha256'', JStr fh), (''by'', JStr by)]))"
    by (simp add: d1)
  have same: "fixture_files d2 = fixture_files d \<or>
       (\<exists>a b. a \<noteq> b \<and> ev_raw ev a = ev_raw ev b) \<or> (\<exists>a b. a \<noteq> b \<and> ev_hex ev a = ev_hex ev b)"
    if "verify_fixtures ev d2 = Inr h" "map_of d2 FROZEN = map_of d1 FROZEN" "inj (ev_encode ev)" "\<forall>b. length (ev_raw ev b) = 32"
      "\<forall>f \<in> set d \<union> set d2. 0 \<notin> set (ev_encode ev (fst f))" for d2 h
  proof -
    have "fixture_hash ev d2 = fixture_hash ev d"
      using that(1,2) rec assms(2) fh by (auto simp: verify_fixtures_def rbind_simps split: if_splits)
    moreover have "set (fixture_files d2) \<union> set (fixture_files d) \<subseteq> set d \<union> set d2" by (auto simp: fixture_files_def)
    ultimately show ?thesis
      using fixture_blocks_inject [OF that(3,4), of "fixture_files d2" "fixture_files d"] that(5)
      unfolding fixture_hash_def by blast
  qed
  have "verify_fixtures ev d1 = Inr fh"
    using rec assms(2) fixture_files_frozen [of d] fh d1 by (simp add: verify_fixtures_def fixture_hash_def rbind_simps)
  with same show ?thesis by blast
qed

text \<open>The record's name is left out of the hash at every depth, so a file of that name below the root can change.\<close>

lemma nested_record_not_covered: "fixture_hash ev (d @ [(''set/FROZEN.json'', a)]) = fixture_hash ev d"
proof -
  have "last (path_parts ''set/FROZEN.json'') = FROZEN" by code_simp
  then show ?thesis by (simp add: fixture_hash_def fixture_files_def del: path_parts.simps)
qed

section \<open>The model-quality gate\<close>

text \<open>With \<open>s\<close> the root of the variance term, the point estimate lies within \<open>z s\<close> of the shifted centre on
  either side.\<close>

lemma wilson_half:
  fixes z p n :: real
  assumes "0 < n" "0 \<le> z" "0 \<le> p" "p \<le> 1"
  shows "\<bar>z * (1 - 2 * p)\<bar> / (2 * n) \<le> sqrt (p * (1 - p) / n + z * z / (4 * n * n))"
proof (rule real_le_rsqrt)
  have sq: "(z * (1 - 2 * p)) * (z * (1 - 2 * p)) = z * z - z * z * (4 * (p * (1 - p)))" by algebra
  have "(\<bar>z * (1 - 2 * p)\<bar> / (2 * n))\<^sup>2 = (z * (1 - 2 * p)) * (z * (1 - 2 * p)) / (4 * n * n)"
    by (simp add: power2_eq_square)
  also have "\<dots> \<le> z * z / (4 * n * n)"
    unfolding sq using assms by (intro divide_right_mono) simp_all
  also have "\<dots> \<le> p * (1 - p) / n + z * z / (4 * n * n)" using assms by simp
  finally show "(\<bar>z * (1 - 2 * p)\<bar> / (2 * n))\<^sup>2 \<le> p * (1 - p) / n + z * z / (4 * n * n)" .
qed

text \<open>The interval holds the point estimate and is part of \<open>[0, 1]\<close>; so the gate passes only with a point estimate
  of at least the target.\<close>

lemma gate_passes_on_lower_bound:
  assumes "0 \<le> k" "k \<le> n" "0 < n" "0 \<le> inv_cdf (1 - (1 - confidence) / 2)"
    and g: "g = quality_gate inv_cdf k n target confidence"
  shows "0 \<le> gr_lcb g" "gr_lcb g \<le> of_int k / of_int n" "of_int k / of_int n \<le> gr_ucb g" "gr_ucb g \<le> 1"
    "gr_pass g \<longleftrightarrow> target \<le> gr_lcb g" "gr_pass g \<Longrightarrow> target \<le> of_int k / of_int n"
proof -
  define z where "z = inv_cdf (1 - (1 - confidence) / 2)"
  define p where "p = (of_int k / of_int n :: real)"
  define m where "m = (of_int n :: real)"
  define s where "s = sqrt (p * (1 - p) / m + z * z / (4 * m * m))"
  have pos: "0 < m" "0 \<le> z" "0 \<le> p" "p \<le> 1" "0 < 1 + z * z / m"
    using assms by (simp_all add: m_def z_def p_def add_pos_nonneg)
  have w: "wilson inv_cdf k n confidence =
      (max 0 ((p + z * z / (2 * m)) / (1 + z * z / m) - z * s / (1 + z * z / m)),
       min 1 ((p + z * z / (2 * m)) / (1 + z * z / m) + z * s / (1 + z * z / m)))"
    using assms(3) by (simp add: wilson_def Let_def z_def p_def m_def s_def)
  have "z * (\<bar>z * (1 - 2 * p)\<bar> / (2 * m)) \<le> z * s"
    unfolding s_def using wilson_half [OF pos(1-4)] pos(2) by (rule mult_left_mono)
  moreover have "p + z * z / (2 * m) - p * (1 + z * z / m) = z * (z * (1 - 2 * p) / (2 * m))"
    using pos(1) by (simp add: divide_simps) algebra
  ultimately have dist: "\<bar>p + z * z / (2 * m) - p * (1 + z * z / m)\<bar> \<le> z * s"
    using pos by (simp add: abs_mult)
  have "p * (1 + z * z / m) \<le> p + z * z / (2 * m) + z * s" "p + z * z / (2 * m) - z * s \<le> p * (1 + z * z / m)"
    using dist by (simp_all only: abs_le_iff, linarith+)
  then have "(p + z * z / (2 * m) - z * s) / (1 + z * z / m) \<le> p" "p \<le> (p + z * z / (2 * m) + z * s) / (1 + z * z / m)"
    using pos(5) by (simp_all only: pos_divide_le_eq pos_le_divide_eq)
  then have b: "fst (wilson inv_cdf k n confidence) \<le> p" "p \<le> snd (wilson inv_cdf k n confidence)"
    using pos by (simp_all add: w diff_divide_distrib add_divide_distrib)
  have gw: "gr_lcb g = fst (wilson inv_cdf k n confidence)" "gr_ucb g = snd (wilson inv_cdf k n confidence)"
      "gr_pass g \<longleftrightarrow> target \<le> fst (wilson inv_cdf k n confidence)"
    by (simp_all add: g quality_gate_def case_prod_beta)
  show "0 \<le> gr_lcb g" "gr_ucb g \<le> 1" by (simp_all add: gw w)
  show "gr_lcb g \<le> of_int k / of_int n" "of_int k / of_int n \<le> gr_ucb g" using b by (simp_all add: gw p_def)
  show "gr_pass g \<longleftrightarrow> target \<le> gr_lcb g" by (simp add: gw)
  show "target \<le> of_int k / of_int n" if "gr_pass g" using that b by (simp add: gw p_def)
qed

end
