(* ===== verification/Scan.thy ===== *)
theory Scan
  imports Command_Table
begin

text \<open>
  The regular expressions of \<^verbatim>\<open>valops/observer/parsers.py\<close> and \<^verbatim>\<open>redact.py\<close>. An expression is a list of pieces
  that are matched one after the other, each taking as much as it can. The next piece of every expression here
  begins with a character that the piece before cannot take, so trying again with less, as the
  library does after a failure, never finds a match that this misses. A matcher sees the character before the
  position and the rest of the text; it gives its groups and the length of the match.
\<close>

section \<open>Classes of characters below 256\<close>

definition is_word :: "char \<Rightarrow> bool" where
  "is_word c = (let n = of_char c :: nat in
     is_lower c \<or> is_upper c \<or> is_dec c \<or> n \<in> {95, 170, 178, 179, 181, 185, 186, 188, 189, 190} \<or>
     (192 \<le> n \<and> n \<noteq> 215 \<and> n \<noteq> 247))"

definition is_b58 :: "char \<Rightarrow> bool" where
  "is_b58 c = ((is_lower c \<or> is_upper c \<or> is_dec c) \<and> c \<notin> {CHR ''0'', CHR ''I'', CHR ''O'', CHR ''l''})"

definition before_word :: "char option \<Rightarrow> bool" where
  "before_word p = (case p of None \<Rightarrow> False | Some c \<Rightarrow> is_word c)"

definition next_word :: "string \<Rightarrow> bool" where
  "next_word s = (case s of [] \<Rightarrow> False | c # _ \<Rightarrow> is_word c)"

section \<open>Pieces\<close>

datatype piece =
    Lit string
  | Lit_ci string \<comment> \<open>a literal in lower case, matched in either case\<close>
  | One_of "string list" \<comment> \<open>one of the literals, in either case\<close>
  | Opt_of "string list"
  | Run "char \<Rightarrow> bool" nat "nat option" \<comment> \<open>at least and at most so many characters of a class\<close>
  | Group "char \<Rightarrow> bool" nat "nat option"
  | Decimal \<comment> \<open>digits with an optional fraction, a group\<close>
  | Boundary
  | Not_after "char \<Rightarrow> bool"
  | Line_start
  | Line_end \<comment> \<open>white space up to the end of a line\<close>

type_synonym matcher = "char option \<Rightarrow> string \<Rightarrow> (string list \<times> nat) option"

definition take_run :: "(char \<Rightarrow> bool) \<Rightarrow> nat option \<Rightarrow> string \<Rightarrow> string" where
  "take_run p hi s = (let r = takeWhile p s in case hi of None \<Rightarrow> r | Some n \<Rightarrow> take n r)"

fun first_literal :: "string list \<Rightarrow> string \<Rightarrow> string option" where
  "first_literal [] s = None"
| "first_literal (l # ls) s = (if starts_with l (lower s) then Some l else first_literal ls s)"

definition decimal :: "string \<Rightarrow> string" where
  "decimal s =
     (let d = takeWhile is_dec s; r = dropWhile is_dec s in
      if d \<noteq> [] \<and> r \<noteq> [] \<and> hd r = CHR ''.'' \<and> takeWhile is_dec (tl r) \<noteq> []
      then d @ [CHR ''.''] @ takeWhile is_dec (tl r) else d)"

definition line_end_len :: "string \<Rightarrow> nat option" where
  "line_end_len s =
     (let w = takeWhile is_space s in
      if dropWhile is_space s = [] then Some (length w)
      else if CHR 0x0A \<in> set w then Some (length w - Suc (length (takeWhile (\<lambda>c. c \<noteq> CHR 0x0A) (rev w))))
      else None)"

text \<open>What a piece takes: whether it is a group, and its text.\<close>

definition piece_at :: "piece \<Rightarrow> char option \<Rightarrow> string \<Rightarrow> (bool \<times> nat) option" where
  "piece_at x p s =
     (case x of
        Lit l \<Rightarrow> if starts_with l s then Some (False, length l) else None
      | Lit_ci l \<Rightarrow> if starts_with l (lower s) then Some (False, length l) else None
      | One_of ls \<Rightarrow> map_option (\<lambda>l. (False, length l)) (first_literal ls s)
      | Opt_of ls \<Rightarrow> Some (False, case first_literal ls s of None \<Rightarrow> 0 | Some l \<Rightarrow> length l)
      | Run c lo hi \<Rightarrow> let r = take_run c hi s in if length r < lo then None else Some (False, length r)
      | Group c lo hi \<Rightarrow> let r = take_run c hi s in if length r < lo then None else Some (True, length r)
      | Decimal \<Rightarrow> let r = decimal s in if r = [] then None else Some (True, length r)
      | Boundary \<Rightarrow> if before_word p \<noteq> next_word s then Some (False, 0) else None
      | Not_after c \<Rightarrow> if (case p of None \<Rightarrow> True | Some d \<Rightarrow> \<not> c d) then Some (False, 0) else None
      | Line_start \<Rightarrow> if p = None \<or> p = Some (CHR 0x0A) then Some (False, 0) else None
      | Line_end \<Rightarrow> map_option (\<lambda>n. (False, n)) (line_end_len s))"

definition after :: "char option \<Rightarrow> string \<Rightarrow> char option" where
  "after p s = (if s = [] then p else Some (last s))"

fun match_at :: "piece list \<Rightarrow> matcher" where
  "match_at [] p s = Some ([], 0)"
| "match_at (x # xs) p s =
     (case piece_at x p s of
        None \<Rightarrow> None
      | Some (g, n) \<Rightarrow>
          map_option (\<lambda>(gs, m). (if g then take n s # gs else gs, n + m)) (match_at xs (after p (take n s)) (drop n s)))"

text \<open>The first of several alternatives.\<close>

fun first_of :: "matcher list \<Rightarrow> matcher" where
  "first_of [] p s = None"
| "first_of (m # ms) p s = (case m p s of None \<Rightarrow> first_of ms p s | Some r \<Rightarrow> Some r)"

section \<open>Searching\<close>

text \<open>
  \<^verbatim>\<open>search\<close>, \<^verbatim>\<open>findall\<close> and \<^verbatim>\<open>subn\<close>: the leftmost match, and the matches that do not overlap. No expression here matches
  the empty text. \<open>k\<close> counts the characters that are still part of the last match.
\<close>

fun search_from :: "matcher \<Rightarrow> char option \<Rightarrow> string \<Rightarrow> string list option" where
  "search_from m p [] = None"
| "search_from m p (c # s) = (case m p (c # s) of Some (gs, _) \<Rightarrow> Some gs | None \<Rightarrow> search_from m (Some c) s)"

fun find_from :: "matcher \<Rightarrow> nat \<Rightarrow> char option \<Rightarrow> string \<Rightarrow> (string list \<times> string) list" where
  "find_from m k p [] = []"
| "find_from m (Suc k) p (c # s) = find_from m k (Some c) s"
| "find_from m 0 p (c # s) =
     (case m p (c # s) of
        Some (gs, n) \<Rightarrow> (gs, take n (c # s)) # find_from m (n - 1) (Some c) s
      | None \<Rightarrow> find_from m 0 (Some c) s)"

fun sub_from :: "matcher \<Rightarrow> string \<Rightarrow> nat \<Rightarrow> char option \<Rightarrow> string \<Rightarrow> string \<times> nat" where
  "sub_from m repl k p [] = ([], 0)"
| "sub_from m repl (Suc k) p (c # s) = sub_from m repl k (Some c) s"
| "sub_from m repl 0 p (c # s) =
     (case m p (c # s) of
        Some (_, n) \<Rightarrow> (case sub_from m repl (n - 1) (Some c) s of (t, k) \<Rightarrow> (repl @ t, Suc k))
      | None \<Rightarrow> (case sub_from m repl 0 (Some c) s of (t, k) \<Rightarrow> (c # t, k)))"

definition re_search :: "matcher \<Rightarrow> string \<Rightarrow> string list option" where "re_search m s = search_from m None s"
definition re_find :: "matcher \<Rightarrow> string \<Rightarrow> (string list \<times> string) list" where "re_find m s = find_from m 0 None s"
definition re_sub :: "matcher \<Rightarrow> string \<Rightarrow> string \<Rightarrow> string \<times> nat" where "re_sub m repl s = sub_from m repl 0 None s"

end
