(* ===== verification/Parsers.thy ===== *)
theory Parsers
  imports Scan Registry Providers
begin

text \<open>
  \<^verbatim>\<open>valops/observer/parsers.py\<close>: the parsers of command output. A float is the rational that the text denotes.
\<close>

section \<open>Expressions\<close>

definition US_THEM :: matcher where
  "US_THEM = match_at [Lit ''us:'', Run is_space 0 None, Group is_dec 1 None, Run is_space 1 None, Lit ''them:'', Run is_space 0 None,
     Group is_dec 1 None]"

definition SOL :: matcher where
  "SOL = match_at [Line_start, Run is_space 0 None, Decimal, Run is_space 1 None, Lit ''SOL'', Boundary]"

definition VERSION :: matcher where
  "VERSION = match_at [Boundary, Group is_dec 1 None, Lit ''.'', Group is_dec 1 None, Lit ''.'', Group is_dec 1 None, Boundary]"

definition MONITOR_WORDS :: "string list" where "MONITOR_WORDS = [''processed'', ''confirmed'', ''finalized'']"

text \<open>One matcher for each word, which is put in front of the groups.\<close>

definition MONITOR_SLOT :: matcher where
  "MONITOR_SLOT = first_of (map (\<lambda>w p s. map_option (\<lambda>(gs, n). (w # gs, n))
     (match_at [Lit_ci w, Run (\<lambda>c. \<not> is_dec c) 0 (Some 10), Group is_dec 1 None] p s)) MONITOR_WORDS)"

definition SCHED :: matcher where
  "SCHED = match_at [Line_start, Run is_space 0 None, Group is_dec 1 None, Run is_space 1 None, Group is_b58 32 (Some 44), Line_end]"

section \<open>Numbers\<close>

definition digits_int :: "string \<Rightarrow> int" where
  "digits_int s = foldl (\<lambda>n c. 10 * n + (of_char c - 48)) 0 s"

definition decimal_rat :: "string \<Rightarrow> rat" where
  "decimal_rat s =
     (let f = tl (dropWhile is_dec s) in of_int (digits_int (takeWhile is_dec s)) + of_int (digits_int f) / 10 ^ length f)"

section \<open>The parsers\<close>

definition unparsed :: params where "unparsed = [(''parsed'', JBool False)]"

definition catchup :: "string \<Rightarrow> params \<Rightarrow> params" where
  "catchup t loc =
     (case re_search US_THEM t of
        Some [us, them] \<Rightarrow>
          [(''parsed'', JBool True), (''our_slot'', JInt (digits_int us)), (''cluster_slot'', JInt (digits_int them)),
           (''slots_behind'', JInt (max 0 (digits_int them - digits_int us))), (''caught_up'', JBool (substring ''has caught up'' t))]
      | _ \<Rightarrow> unparsed)"

definition balance :: "string \<Rightarrow> params \<Rightarrow> params" where
  "balance t loc =
     (case re_search SOL t of
        Some [b] \<Rightarrow> [(''parsed'', JBool True), (''balance_sol'', JFloat (decimal_rat b))]
      | _ \<Rightarrow> unparsed)"

definition START :: string where "START = ''Starting validator with''"

fun first_version :: "string list \<Rightarrow> params" where
  "first_version [] = unparsed"
| "first_version (l # ls) =
     (case re_search VERSION l of
        Some [a, b, c] \<Rightarrow> [(''parsed'', JBool True), (''version'', JStr (a @ ''.'' @ b @ ''.'' @ c))]
      | _ \<Rightarrow> first_version ls)"

definition running_version :: "string \<Rightarrow> params \<Rightarrow> params" where
  "running_version t loc = first_version (rev (filter (\<lambda>l. substring START l \<or> substring ''agave-validator'' l) (splitlines t)))"

text \<open>The dictionary of the last slot of each word, in the order of the first ones.\<close>

definition monitor_slots :: "string \<Rightarrow> params" where
  "monitor_slots t =
     foldl (\<lambda>d m. case fst m of [w, n] \<Rightarrow> dict_set d w (JInt (digits_int n)) | _ \<Rightarrow> d) [] (re_find MONITOR_SLOT t)"

definition validator_monitor :: "string \<Rightarrow> params \<Rightarrow> params" where
  "validator_monitor t loc =
     (let slots = monitor_slots t in
      (''parsed'', JBool (slots \<noteq> [])) # (if slots \<noteq> [] then [(''slots'', JObj slots)] else []))"

definition own_slots :: "string \<Rightarrow> params \<Rightarrow> int list" where
  "own_slots t loc =
     concat (map (\<lambda>m. case fst m of [s, pk] \<Rightarrow> if JStr pk = pget loc ''identity_pubkey'' then [digits_int s] else [] | _ \<Rightarrow> [])
       (re_find SCHED t))"

definition leader_schedule_self :: "string \<Rightarrow> params \<Rightarrow> params" where
  "leader_schedule_self t loc =
     (let slots = own_slots t loc in
      if slots = [] \<and> re_search SCHED t = None then unparsed
      else [(''parsed'', JBool True), (''own_leader_slots'', JArr (map JInt (take 200 slots))), (''count'', JInt (int (length slots)))])"

definition PARSERS :: "(string \<times> (string \<Rightarrow> params \<Rightarrow> params)) list" where
  "PARSERS =
     [(''catchup'', catchup), (''balance'', balance), (''running_version'', running_version),
      (''validator_monitor'', validator_monitor), (''leader_schedule_self'', leader_schedule_self)]"

end
