(* ===== verification/Redact.thy ===== *)
theory Redact
  imports Scan Observer_Daemon
begin

text \<open>
  \<^verbatim>\<open>valops/observer/redact.py\<close>: the expressions for secrets and paths, the redaction in their order, and the scan for
  text that reads like an instruction.
\<close>

section \<open>Secrets and paths\<close>

text \<open>The rest of an array of numbers after its bracket: \<open>n\<close> digits of the current number read (a number
  that white space follows counts as 4), \<open>k\<close> numbers with their comma before it.\<close>

fun number_array :: "nat \<Rightarrow> nat \<Rightarrow> string \<Rightarrow> nat option" where
  "number_array n k [] = None"
| "number_array n k (c # s) = map_option Suc
     (if is_dec c then (if n < 3 then number_array (Suc n) k s else None)
      else if is_space c then number_array (if n = 0 then 0 else 4) k s
      else if c = CHR '','' \<and> 0 < n then number_array 0 (Suc k) s
      else if c = CHR '']'' \<and> 0 < n \<and> 31 \<le> k then Some 0
      else None)"

definition KEYPAIR_ARRAY :: matcher where
  "KEYPAIR_ARRAY p s =
     (case s of [] \<Rightarrow> None
      | c # t \<Rightarrow> if c = CHR ''['' then map_option (\<lambda>n. ([], Suc n)) (number_array 0 0 t) else None)"

definition LONG_B58 :: matcher where
  "LONG_B58 = match_at [Boundary, Run is_b58 64 None, Boundary]"

definition pem_line :: "string \<Rightarrow> piece list" where
  "pem_line kw = [Lit (''-----'' @ kw @ '' ''), Run (\<lambda>c. is_upper c \<or> c = CHR '' '') 1 None, Lit ''-----'']"

text \<open>From the start of a block to the end of the first closing line.\<close>

fun up_to :: "matcher \<Rightarrow> string \<Rightarrow> nat option" where
  "up_to m [] = None"
| "up_to m (c # s) = (case m None (c # s) of Some (_, n) \<Rightarrow> Some n | None \<Rightarrow> map_option Suc (up_to m s))"

definition PEM :: matcher where
  "PEM p s =
     (case match_at (pem_line ''BEGIN'') p s of
        None \<Rightarrow> None
      | Some (_, n) \<Rightarrow> map_option (\<lambda>m. ([], n + m)) (up_to (match_at (pem_line ''END'')) (drop n s)))"

definition key_char :: "char \<Rightarrow> bool" where
  "key_char c = (is_lower c \<or> is_upper c \<or> is_dec c \<or> c = CHR ''_'' \<or> c = CHR ''-'')"

definition API_KEY :: matcher where
  "API_KEY = first_of
     [match_at [Boundary, Lit ''sk-'', Run key_char 16 None], match_at [Boundary, Lit ''sk-ant-'', Run key_char 16 None],
      match_at [Boundary, Lit ''AIza'', Run key_char 30 None],
      match_at [Boundary, Lit ''Bearer'', Run is_space 1 None, Run (\<lambda>c. key_char c \<or> c = CHR ''.'') 16 None]]"

definition path_stop :: "char \<Rightarrow> bool" where
  "path_stop c = (is_space c \<or> c \<in> {CHR '':'', CHR 0x22, CHR 0x27, CHR '','', CHR '')''})"

definition PATH :: matcher where
  "PATH = first_of (map (\<lambda>d. match_at [Not_after (\<lambda>c. is_word c \<or> c = CHR ''.''), Lit (CHR ''/'' # d), Run (\<lambda>c. \<not> path_stop c) 0 None])
     [''home'', ''root'', ''etc'', ''mnt'', ''var'', ''srv'', ''opt'', ''data''])"

definition REDACTIONS :: "(matcher \<times> string) list" where
  "REDACTIONS =
     [(PEM, ''[REDACTED-PEM]''), (KEYPAIR_ARRAY, ''[REDACTED-KEYPAIR]''), (API_KEY, ''[REDACTED-KEY]''),
      (LONG_B58, ''[REDACTED-B58]''), (PATH, ''[PATH]'')]"

definition redact :: "string \<Rightarrow> string \<times> nat" where
  "redact t = foldl (\<lambda>(t, n) (m, repl). case re_sub m repl t of (t', k) \<Rightarrow> (t', n + k)) (t, 0) REDACTIONS"

section \<open>Suspicious text\<close>

definition SUSPICIOUS :: matcher where
  "SUSPICIOUS = first_of (map (\<lambda>xs. match_at (Boundary # xs))
     [[Lit_ci ''ignore '', Opt_of [''all '', ''any ''], One_of [''previous'', ''prior''], Lit_ci '' instructions''],
      [Lit_ci ''you '', One_of [''must'', ''should''], Lit_ci '' now''],
      [Lit_ci ''system prompt''],
      [One_of [''run'', ''execute'', ''call'', ''invoke''], Run is_space 1 None, Opt_of [''`''],
       One_of [''agave-validator'', ''solana'', ''systemctl'', ''rm'', ''curl'', ''wget'', ''sudo''], Boundary],
      [Lit_ci ''set-identity''], [Lit_ci ''exit --force''], [Lit_ci ''withdraw''],
      [Lit_ci ''transfer'', Run is_space 1 None, Run is_dec 1 (Some 1)],
      [Lit_ci ''submit_verdict''], [Lit_ci ''propose_recommendation''], [Lit_ci ''send_alert'']])"

text \<open>The set of the cut matches, sorted by code point.\<close>

definition sorted_texts :: "string list \<Rightarrow> string list" where
  "sorted_texts xs = sort_key (map (of_char :: char \<Rightarrow> nat)) (remdups xs)"

definition suspicious :: "string \<Rightarrow> string list" where
  "suspicious t = take 20 (sorted_texts (map (\<lambda>m. take 80 (snd m)) (re_find SUSPICIOUS t)))"

end
