(* ===== verification/Builtins.thy ===== *)
theory Builtins
  imports Parsers Redact
begin

text \<open>
  \<^verbatim>\<open>valops/observer/builtins.py\<close>: the commands that the daemon answers itself, as programs over the calls of the
  operating system. A call answers or raises; a path out of the configuration is passed as the value it is.
  The functions of the library that the results depend on are fields of \<open>host_lib\<close>.
\<close>

section \<open>Calls\<close>

datatype hreq =
    File_size jv \<comment> \<open>open, seek to the end, tell\<close>
  | Read_from jv nat int \<comment> \<open>seek, read at most so many bytes\<close>
  | Disk_usage jv
  | Read_text string
  | Load_avg
  | Run_tool "string list"
  | Which string
  | Path_exists string
  | Glob jv string
  | Stat_mtime string
  | Clock
  | Http_post jv string jv \<comment> \<open>address, body, time-out; the first 4096 bytes of the answer\<close>

datatype hresp =
    H_nat nat
  | H_bytes bytes
  | H_disk nat nat \<comment> \<open>total, free\<close>
  | H_text string
  | H_num rat
  | H_bool bool
  | H_paths "string list"

fun h_nat :: "hresp \<Rightarrow> nat option" where "h_nat (H_nat n) = Some n" | "h_nat _ = None"
fun h_bytes :: "hresp \<Rightarrow> bytes option" where "h_bytes (H_bytes b) = Some b" | "h_bytes _ = None"
fun h_disk :: "hresp \<Rightarrow> (nat \<times> nat) option" where "h_disk (H_disk t f) = Some (t, f)" | "h_disk _ = None"
fun h_text :: "hresp \<Rightarrow> string option" where "h_text (H_text s) = Some s" | "h_text _ = None"
fun h_num :: "hresp \<Rightarrow> rat option" where "h_num (H_num r) = Some r" | "h_num _ = None"
fun h_bool :: "hresp \<Rightarrow> bool option" where "h_bool (H_bool b) = Some b" | "h_bool _ = None"
fun h_paths :: "hresp \<Rightarrow> string list option" where "h_paths (H_paths ps) = Some ps" | "h_paths _ = None"

type_synonym 'a hosted = "(hreq, hresp, 'a) prog"

record host_lib =
  hl_decode :: "bytes \<Rightarrow> string"
  hl_dumps :: "params \<Rightarrow> string"
  hl_round :: "nat \<Rightarrow> rat \<Rightarrow> rat"

section \<open>Text\<close>

text \<open>\<^verbatim>\<open>split()\<close>, \<^verbatim>\<open>rsplit(c, 1)[-1]\<close> and the slice \<^verbatim>\<open>xs[-n:]\<close>.\<close>

fun words_acc :: "string \<Rightarrow> string \<Rightarrow> string list" where
  "words_acc acc [] = (if acc = [] then [] else [rev acc])"
| "words_acc acc (c # cs) =
     (if is_space c then (if acc = [] then words_acc [] cs else rev acc # words_acc [] cs) else words_acc (c # acc) cs)"

definition words :: "string \<Rightarrow> string list" where "words s = words_acc [] s"

definition after_last :: "char \<Rightarrow> string \<Rightarrow> string" where
  "after_last c s = rev (takeWhile (\<lambda>d. d \<noteq> c) (rev s))"

definition last_items :: "int \<Rightarrow> 'a list \<Rightarrow> 'a list" where
  "last_items n xs = (if n > 0 then drop (length xs - nat n) xs else drop (nat (- n)) xs)"

fun join_nl :: "string list \<Rightarrow> string" where
  "join_nl [] = []"
| "join_nl [l] = l"
| "join_nl (l # ls) = l @ CHR 0x0A # join_nl ls"

definition count_nl :: "string \<Rightarrow> nat" where "count_nl s = length (filter (\<lambda>c. c = CHR 0x0A) s)"

text \<open>\<^verbatim>\<open>except OSError\<close> and \<^verbatim>\<open>except (OSError, subprocess.TimeoutExpired)\<close>, with a value to continue with.\<close>

definition or_os_error :: "'a hosted \<Rightarrow> 'a \<Rightarrow> 'a hosted" where
  "or_os_error p x = catch p (\<lambda>e. if os_error e then Ret x else Raise e)"

definition or_tool_error :: "'a hosted \<Rightarrow> 'a \<Rightarrow> 'a hosted" where
  "or_tool_error p x = catch p (\<lambda>e. if os_error e \<or> e = PyError ''TimeoutExpired'' then Ret x else Raise e)"

section \<open>The log\<close>

definition tail_bytes :: "jv \<Rightarrow> int \<Rightarrow> bytes hosted" where
  "tail_bytes path max_bytes =
     pbind (ask (File_size path) h_nat) (\<lambda>size.
       ask (Read_from path (nat (max 0 (int size - max_bytes))) max_bytes) h_bytes)"

definition log_tail :: "host_lib \<Rightarrow> params \<Rightarrow> params \<Rightarrow> (string \<times> params) hosted" where
  "log_tail hl args loc =
     pbind (lift (rbind (getitem (JObj args) ''lines'') to_int)) (\<lambda>lines.
     pbind (lift (getitem (JObj loc) ''logfile'')) (\<lambda>logfile.
     pbind (lift (to_int (pget_default loc ''log_tail_max_bytes'' (JInt 262144)))) (\<lambda>n.
     pbind (tail_bytes logfile n) (\<lambda>raw.
       let txt = join_nl (last_items lines (splitlines (hl_decode hl raw)))
       in Ret (txt, [(''lines'', JInt (min lines (if txt \<noteq> [] then int (count_nl txt) + 1 else 0)))])))))"

text \<open>Every start line with the line before it.\<close>

fun start_lines :: "string list \<Rightarrow> string list \<Rightarrow> string list" where
  "start_lines prev [] = []"
| "start_lines prev (l # ls) = (if substring START l then prev @ [l] else []) @ start_lines [l] ls"

definition version_builtin :: "host_lib \<Rightarrow> params \<Rightarrow> params \<Rightarrow> (string \<times> params) hosted" where
  "version_builtin hl args loc =
     pbind (lift (getitem (JObj loc) ''logfile'')) (\<lambda>logfile.
     pbind (lift (to_int (pget_default loc ''log_scan_max_bytes'' (JInt (8 * 1024 * 1024))))) (\<lambda>n.
     pbind (tail_bytes logfile n) (\<lambda>raw.
       let txt = join_nl (last_items 4 (start_lines [] (splitlines (hl_decode hl raw))))
       in Ret (txt, running_version txt loc))))"

section \<open>The host\<close>

definition systemctl_is_active :: "jv \<Rightarrow> string hosted" where
  "systemctl_is_active unit_name =
     or_tool_error
       (pbind (lift (as_str unit_name)) (\<lambda>u.
        pbind (ask (Run_tool [''systemctl'', ''is-active'', u]) h_text) (\<lambda>out.
          Ret (if strip out \<noteq> [] then strip out else ''unknown''))))
       ''unknown''"

definition ratio :: "rat \<Rightarrow> rat \<Rightarrow> rat result" where
  "ratio a b = (if b = 0 then Inl (PyError ''ZeroDivisionError'') else Inr (a / b))"

text \<open>A volume: its free share and free space, or the class of the error.\<close>

type_synonym volume = "string + rat \<times> rat"

fun volume_json :: "volume \<Rightarrow> jv" where
  "volume_json (Inl err) = JObj [(''error'', JStr err)]"
| "volume_json (Inr (pct, gib)) = JObj [(''free_pct'', JFloat pct), (''free_gib'', JFloat gib)]"

definition volume_path :: "params \<Rightarrow> string \<Rightarrow> jv result" where
  "volume_path loc name =
     (let v = pget loc (name @ ''_path'') in
      if truthy v then Inr v else if name = ''ledger'' then getitem (JObj loc) ''ledger'' else Inr JNull)"

definition measure_volume :: "host_lib \<Rightarrow> params \<Rightarrow> string \<Rightarrow> (string \<times> volume) list \<Rightarrow> (string \<times> volume) list hosted" where
  "measure_volume hl loc name vols =
     pbind (lift (volume_path loc name)) (\<lambda>path.
       if \<not> truthy path then Ret vols
       else
         pbind
           (catch
             (pbind (ask (Disk_usage path) h_disk) (\<lambda>(total, free).
              pbind (lift (ratio (100 * of_nat free) (of_nat total))) (\<lambda>pct.
                Ret (Inr (hl_round hl 2 pct, hl_round hl 2 (of_nat free / 2 ^ 30))))))
             (\<lambda>e. if os_error e then Ret (Inl (exn_class e)) else Raise e))
           (\<lambda>v. Ret (vols @ [(name, v)])))"

definition split_colon :: "string \<Rightarrow> (string \<times> string) result" where
  "split_colon s =
     (if CHR '':'' \<in> set s then Inr (takeWhile (\<lambda>c. c \<noteq> CHR '':'') s, tl (dropWhile (\<lambda>c. c \<noteq> CHR '':'') s))
      else Inl (PyError ''ValueError''))"

fun mem_lines :: "string list \<Rightarrow> (string \<times> int) list \<Rightarrow> (string \<times> int) list result" where
  "mem_lines [] mem = Inr mem"
| "mem_lines (l # ls) mem =
     rbind (split_colon l) (\<lambda>(k, v).
       if k \<in> {''MemTotal'', ''MemAvailable''} then
         (case words v of
            [] \<Rightarrow> Inl (PyError ''IndexError'')
          | w # _ \<Rightarrow> rbind (to_int (JStr w)) (\<lambda>n. mem_lines ls (dict_set mem k n)))
       else mem_lines ls mem)"

definition free_shares :: "(string \<times> volume) list \<Rightarrow> rat list" where
  "free_shares vols = concat (map (\<lambda>v. case snd v of Inr (pct, _) \<Rightarrow> [pct] | Inl _ \<Rightarrow> []) vols)"

definition mem_share :: "host_lib \<Rightarrow> (string \<times> int) list \<Rightarrow> jv result" where
  "mem_share hl mem =
     (case (map_of mem ''MemAvailable'', map_of mem ''MemTotal'') of
        (Some a, Some t) \<Rightarrow> rbind (ratio (100 * of_int a) (of_int t)) (\<lambda>r. Inr (JFloat (hl_round hl 2 r)))
      | _ \<Rightarrow> Inr JNull)"

definition host_metrics :: "host_lib \<Rightarrow> params \<Rightarrow> params \<Rightarrow> (string \<times> params) hosted" where
  "host_metrics hl args loc =
     pbind (fold_prog (measure_volume hl loc) [''ledger'', ''accounts''] []) (\<lambda>vols.
     pbind (or_os_error (pbind (ask (Read_text ''/proc/meminfo'') h_text) (\<lambda>t. lift (mem_lines (splitlines t) []))) []) (\<lambda>mem.
     pbind (systemctl_is_active (pget_default loc ''unit_name'' (JStr ''sol.service''))) (\<lambda>state.
     pbind (lift (mem_share hl mem)) (\<lambda>mem_pct.
     pbind (ask Load_avg h_num) (\<lambda>load1.
       let frees = free_shares vols;
           structured =
             [(''parsed'', JBool True), (''volumes'', JObj (map (\<lambda>(k, v). (k, volume_json v)) vols)),
              (''min_free_pct'', if frees = [] then JNull else JFloat (Min (set frees))), (''mem_available_pct'', mem_pct),
              (''load1'', JFloat load1), (''unit_state'', JStr state), (''unit_active'', JBool (state = ''active''))]
       in Ret (hl_dumps hl structured, structured))))))"

text \<open>The value of the last line that sets password authentication.\<close>

definition password_line :: "string \<Rightarrow> string \<Rightarrow> string" where
  "password_line pw l =
     (let s = strip l in if starts_with ''passwordauthentication'' (lower s) then lower (last (words s)) else pw)"

definition listening_ports :: "string \<Rightarrow> string list" where
  "listening_ports out =
     take 100 (sorted_texts (concat (map (\<lambda>l. let ws = words l in if length ws \<ge> 4 then [after_last (CHR '':'') (ws ! 3)] else [])
       (splitlines out))))"

definition UPDATES :: string where "UPDATES = ''/var/lib/update-notifier/updates-available''"

definition host_hygiene :: "host_lib \<Rightarrow> params \<Rightarrow> params \<Rightarrow> (string \<times> params) hosted" where
  "host_hygiene hl args loc =
     pbind (or_os_error (pbind (ask (Read_text ''/etc/ssh/sshd_config'') h_text)
        (\<lambda>t. Ret (foldl password_line ''unknown'' (splitlines t)))) ''unknown'') (\<lambda>pw.
     pbind (or_tool_error (pbind (ask (Run_tool [''ss'', ''-ltnH'']) h_text) (\<lambda>out. Ret (listening_ports out))) []) (\<lambda>ports.
     pbind (ask (Path_exists UPDATES) h_bool) (\<lambda>there.
     pbind (if there then or_os_error (pbind (ask (Read_text UPDATES) h_text) (\<lambda>t. Ret (JStr (take 500 t)))) JNull else Ret JNull)
       (\<lambda>pending.
     pbind (ask (Which ''fail2ban-client'') h_bool) (\<lambda>fail2ban.
       let structured =
         [(''parsed'', JBool True), (''ssh_password_authentication'', JStr pw), (''fail2ban_present'', JBool fail2ban),
          (''listening_tcp_ports'', JArr (map JStr ports)), (''pending_updates_note'', pending)]
       in Ret (hl_dumps hl structured, structured))))))"

text \<open>The files of one kind; a file that is gone when its time is asked for is left out.\<close>

definition state_file :: "string \<Rightarrow> jv list \<Rightarrow> jv list hosted" where
  "state_file p found =
     or_os_error (pbind (ask (Stat_mtime p) h_num) (\<lambda>m.
       Ret (found @ [JObj [(''name'', JStr (after_last (CHR ''/'') p)), (''mtime'', JFloat m)]]))) found"

definition state_files :: "jv \<Rightarrow> string \<Rightarrow> jv list hosted" where
  "state_files ledger pat =
     pbind (ask (Glob ledger pat) h_paths) (\<lambda>ps. fold_prog state_file (take 10 (sort_key (map (of_char :: char \<Rightarrow> nat)) ps)) [])"

definition consensus_state_files :: "host_lib \<Rightarrow> params \<Rightarrow> params \<Rightarrow> (string \<times> params) hosted" where
  "consensus_state_files hl args loc =
     pbind (lift (getitem (JObj loc) ''ledger'')) (\<lambda>ledger.
     pbind (state_files ledger ''tower-*.bin'') (\<lambda>tower.
     pbind (state_files ledger ''vote_history-*.bin'') (\<lambda>votes.
       let out = [(''parsed'', JBool True), (''tower'', JArr tower), (''vote_history'', JArr votes)]
       in Ret (hl_dumps hl out, out))))"

text \<open>Any exception of the request, of its address or of its time-out is a failed probe.\<close>

definition HEALTH_BODY :: params where
  "HEALTH_BODY = [(''jsonrpc'', JStr ''2.0''), (''id'', JInt 1), (''method'', JStr ''getHealth'')]"

definition ok_text :: string where "ok_text = [CHR 0x22, CHR ''o'', CHR ''k'', CHR 0x22]"

definition rpc_latency :: "host_lib \<Rightarrow> params \<Rightarrow> params \<Rightarrow> (string \<times> params) hosted" where
  "rpc_latency hl args loc =
     pbind (ask Clock h_num) (\<lambda>t0.
     pbind (attempt (ask (Http_post (pget_default loc ''rpc_url'' (JStr ''http://127.0.0.1:8899'')) (hl_dumps hl HEALTH_BODY)
         (pget_default loc ''rpc_timeout_s'' (JInt 5))) h_text)) (\<lambda>r.
     pbind (ask Clock h_num) (\<lambda>t1.
       let structured =
         [(''parsed'', JBool True), (''latency_ms'', JFloat (hl_round hl 1 ((t1 - t0) * 1000))),
          (''healthy'', JBool (case r of Inr t \<Rightarrow> substring ok_text t | Inl _ \<Rightarrow> False)),
          (''error'', case r of Inr _ \<Rightarrow> JNull | Inl e \<Rightarrow> JStr (exn_class e))]
       in Ret (hl_dumps hl structured, structured))))"

definition BUILTIN_FUNCTIONS :: "(string \<times> (host_lib \<Rightarrow> params \<Rightarrow> params \<Rightarrow> (string \<times> params) hosted)) list" where
  "BUILTIN_FUNCTIONS =
     [(''log_tail'', log_tail), (''running_version'', version_builtin), (''host_metrics'', host_metrics),
      (''host_hygiene'', host_hygiene), (''consensus_state_files'', consensus_state_files), (''rpc_latency'', rpc_latency)]"

end
