(* ===== verification/Host_Theorems.thy ===== *)
theory Host_Theorems
  imports Builtins Consensus Observer_Theorems
begin

text \<open>
  Properties of what leaves the validator host: redacted text holds no long key and no private path, the builtins do
  nothing but read, and parsed values are those that were printed.
\<close>

section \<open>Words of a text\<close>

text \<open>The maximal runs of word characters, of which \<open>acc\<close> is the part already seen.\<close>

fun word_runs :: "string \<Rightarrow> string \<Rightarrow> string list" where
  "word_runs acc [] = (if acc = [] then [] else [acc])"
| "word_runs acc (c # s) =
     (if is_word c then word_runs (acc @ [c]) s else (if acc = [] then [] else [acc]) @ word_runs [] s)"

definition long_key :: "string \<Rightarrow> bool" where
  "long_key w = (64 \<le> length w \<and> list_all is_b58 w)"

lemma b58_word: "is_b58 c \<Longrightarrow> is_word c"
  by (auto simp: is_b58_def is_word_def Let_def)

lemma word_runs_first:
  "acc @ takeWhile is_word s \<noteq> [] \<Longrightarrow> acc @ takeWhile is_word s \<in> set (word_runs acc s)"
proof (induction s arbitrary: acc)
  case (Cons c s)
  then show ?case using Cons.IH [of "acc @ [c]"] by (cases "is_word c") auto
qed auto

lemma word_runs_split:
  "\<not> next_word b \<Longrightarrow> word_runs acc (a @ b) = word_runs acc a @ word_runs [] b"
proof (induction a arbitrary: acc)
  case Nil
  then show ?case by (cases b) (auto simp: next_word_def)
qed auto

lemma word_runs_bracket:
  "word_runs acc (CHR ''['' # a @ CHR '']'' # b) = (if acc = [] then [] else [acc]) @ word_runs [] a @ word_runs [] b"
proof -
  have n: "\<not> is_word (CHR ''['')" "\<not> is_word (CHR '']'')" by code_simp+
  have "word_runs [] (a @ CHR '']'' # b) = word_runs [] a @ word_runs [] (CHR '']'' # b)"
    by (rule word_runs_split) (simp add: next_word_def n)
  then show ?thesis by (simp add: n)
qed

section \<open>Long keys\<close>

lemma run_b58:
  assumes "\<not> next_word (drop (length (takeWhile is_b58 s)) s)"
  shows "takeWhile is_word s = takeWhile is_b58 s"
proof -
  have "\<not> next_word (dropWhile is_b58 s) \<Longrightarrow> takeWhile is_word s = takeWhile is_b58 s"
  proof (induction s)
    case (Cons c s)
    then show ?case by (cases "is_b58 c") (auto simp: next_word_def b58_word)
  qed simp
  then show ?thesis using assms by (simp add: dropWhile_eq_drop)
qed

text \<open>A match is a whole word.\<close>

lemma long_b58_at:
  "LONG_B58 p s =
     (if \<not> before_word p \<and> long_key (takeWhile is_word s) then Some ([], length (takeWhile is_word s)) else None)"
proof -
  let ?r = "takeWhile is_b58 s"
  have pos: "next_word s" if "?r \<noteq> []" using that by (cases s) (auto simp: next_word_def b58_word split: if_splits)
  have b: "before_word (after p (take (length ?r) s))" if "?r \<noteq> []"
  proof -
    have "take (length ?r) s = ?r" by (metis takeWhile_eq_take)
    moreover have "is_b58 (last ?r)" using that by (metis last_in_set set_takeWhileD)
    ultimately show ?thesis using that by (simp add: after_def before_word_def b58_word)
  qed
  have keyed: "long_key (takeWhile is_word s) \<longleftrightarrow> 64 \<le> length ?r \<and> \<not> next_word (drop (length ?r) s)"
  proof
    assume k: "long_key (takeWhile is_word s)"
    have "takeWhile is_b58 s = takeWhile is_word s" if "list_all is_b58 (takeWhile is_word s)" for s
      using that by (induction s) (auto simp: b58_word)
    then have eq: "?r = takeWhile is_word s" using k by (simp add: long_key_def)
    have "\<not> next_word (dropWhile is_word s)" by (induction s) (auto simp: next_word_def)
    then show "64 \<le> length ?r \<and> \<not> next_word (drop (length ?r) s)"
      using k by (simp add: eq long_key_def dropWhile_eq_drop)
  next
    assume "64 \<le> length ?r \<and> \<not> next_word (drop (length ?r) s)"
    then have r: "64 \<le> length ?r" "takeWhile is_word s = ?r" using run_b58 [of s] by blast+
    have "list_all is_b58 ?r" by (auto simp: list_all_iff dest: set_takeWhileD)
    with r show "long_key (takeWhile is_word s)" by (simp add: long_key_def)
  qed
  show ?thesis
  proof (cases "64 \<le> length ?r")
    case True
    then have ne: "?r \<noteq> []" by auto
    have "after p [] = p" by (simp add: after_def)
    then have "LONG_B58 p s = (if \<not> before_word p \<and> \<not> next_word (drop (length ?r) s) then Some ([], length ?r) else None)"
      using True pos [OF ne] b [OF ne] by (simp add: LONG_B58_def piece_at_def take_run_def Let_def)
    then show ?thesis using keyed True run_b58 [of s] by simp
  next
    case False
    then show ?thesis using keyed by (simp add: LONG_B58_def piece_at_def take_run_def Let_def after_def)
  qed
qed

lemma sub_skip: "n \<le> length s \<Longrightarrow> sub_from m repl n p s = sub_from m repl 0 (after p (take n s)) (drop n s)"
proof (induction n arbitrary: p s)
  case (Suc n)
  then obtain c t where "s = c # t" by (cases s) auto
  with Suc show ?case by (cases "n = 0 \<or> t = []") (auto simp: after_def)
qed (simp add: after_def)

lemma takeWhile_after:
  "\<not> next_word (drop (length (takeWhile is_word s)) s)"
  by (induction s) (auto simp: next_word_def)

definition cut_keys :: "char option \<Rightarrow> string \<Rightarrow> string" where
  "cut_keys p s = fst (sub_from LONG_B58 ''[REDACTED-B58]'' 0 p s)"

lemma cut_keys_keep: "LONG_B58 p (c # t) = None \<Longrightarrow> cut_keys p (c # t) = c # cut_keys (Some c) t"
  by (simp add: cut_keys_def split: prod.splits)

lemma cut_keys_match:
  assumes "LONG_B58 p (c # t) = Some r"
  obtains q u where "cut_keys p (c # t) = ''[REDACTED-B58]'' @ cut_keys q u" "\<not> next_word u" "length u < Suc (length t)" "\<not> before_word p"
proof -
  let ?n = "length (takeWhile is_word (c # t))"
  from assms have m: "\<not> before_word p" "long_key (takeWhile is_word (c # t))" "r = ([], ?n)"
    unfolding long_b58_at by (metis option.distinct(1), metis option.distinct(1), metis option.distinct(1) option.inject)
  have "0 < ?n" using m(2) unfolding long_key_def by linarith
  then have n: "?n = Suc (?n - 1)" "?n - 1 \<le> length t"
    using length_takeWhile_le [of is_word "c # t"] by (simp_all del: takeWhile.simps)
  have rest: "drop (?n - 1) t = drop ?n (c # t)" using n(1) by (metis drop_Suc_Cons)
  have "cut_keys p (c # t) = ''[REDACTED-B58]'' @ cut_keys (after (Some c) (take (?n - 1) t)) (drop ?n (c # t))"
    using assms m(3) sub_skip [OF n(2), of LONG_B58 "''[REDACTED-B58]''" "Some c"] rest
    by (simp add: cut_keys_def split: prod.splits del: takeWhile.simps)
  moreover have "length (drop ?n (c # t)) < Suc (length t)" using n(1) by (metis diff_Suc_less length_Cons length_drop zero_less_Suc)
  ultimately show ?thesis using that takeWhile_after m(1) by blast
qed

text \<open>A position in a text whose current word so far is \<open>acc\<close>, and whose current word is no long key.\<close>

definition at_word :: "string \<Rightarrow> char option \<Rightarrow> string \<Rightarrow> bool" where
  "at_word acc p s =
     ((acc \<noteq> [] \<longrightarrow> before_word p \<and> \<not> long_key (acc @ takeWhile is_word s)) \<and>
      (acc = [] \<longrightarrow> \<not> before_word p \<or> \<not> next_word s))"

lemma at_word_step:
  assumes "at_word acc p (c # t)" "LONG_B58 p (c # t) = None"
  shows "at_word (if is_word c then acc @ [c] else []) (Some c) t"
proof (cases "is_word c")
  case True
  then have w: "takeWhile is_word (c # t) = c # takeWhile is_word t" "next_word (c # t)" by (simp_all add: next_word_def)
  have "before_word p \<or> \<not> long_key (takeWhile is_word (c # t))"
    using assms(2) unfolding long_b58_at by (metis option.distinct(1))
  then have "\<not> long_key (acc @ c # takeWhile is_word t)"
    using assms(1) w unfolding at_word_def by (cases "acc = []") auto
  then show ?thesis using True by (simp add: at_word_def before_word_def)
qed (simp add: at_word_def before_word_def)

text \<open>What the substitution leaves has no long key as a word.\<close>

lemma long_b58_replaced:
  "at_word acc p s \<Longrightarrow> \<forall>w \<in> set (word_runs acc (cut_keys p s)). \<not> long_key w"
proof (induction s arbitrary: acc p rule: length_induct)
  case (1 s)
  have ih: "\<forall>w \<in> set (word_runs acc' (cut_keys q u)). \<not> long_key w" if "length u < length s" "at_word acc' q u" for acc' q u
    using "1.IH" that by (elim allE impE) assumption+
  show ?case
  proof (cases s)
    case Nil
    then show ?thesis using "1.prems" by (auto simp: cut_keys_def at_word_def)
  next
    case (Cons c t)
    show ?thesis
    proof (cases "LONG_B58 p (c # t)")
      case None
      have "\<forall>w \<in> set (word_runs (if is_word c then acc @ [c] else []) (cut_keys (Some c) t)). \<not> long_key w"
        using at_word_step [OF _ None] "1.prems" Cons by (intro ih) simp_all
      moreover have "is_word c \<or> acc = [] \<or> \<not> long_key acc" using "1.prems" Cons by (auto simp: at_word_def)
      ultimately show ?thesis unfolding Cons cut_keys_keep [OF None] by (cases "is_word c") auto
    next
      case (Some r)
      then obtain q u where m: "cut_keys p (c # t) = ''[REDACTED-B58]'' @ cut_keys q u" "\<not> next_word u" "length u < Suc (length t)"
        "\<not> before_word p" by (rule cut_keys_match)
      have acc: "acc = []" using m(4) "1.prems" by (auto simp: at_word_def)
      have left: "\<forall>w \<in> set (word_runs [] (cut_keys q u)). \<not> long_key w" using m(2,3) Cons by (intro ih) (simp_all add: at_word_def)
      have runs: "word_runs acc (''[REDACTED-B58]'' @ v) = word_runs [] ''REDACTED-B58'' @ word_runs [] v" for v
        using word_runs_bracket [of acc "''REDACTED-B58''" v] acc by (simp del: word_runs.simps)
      have mark: "\<forall>w \<in> set (word_runs [] ''REDACTED-B58''). \<not> long_key w" by code_simp
      show ?thesis unfolding Cons m(1) runs set_append ball_Un using mark left by (rule conjI)
    qed
  qed
qed

lemma no_long_key_no_match:
  assumes "acc \<noteq> [] \<longrightarrow> before_word p" "\<forall>w \<in> set (word_runs acc s). \<not> long_key w"
  shows "search_from LONG_B58 p s = None"
  using assms
proof (induction s arbitrary: acc p)
  case (Cons c s)
  have "LONG_B58 p (c # s) = None"
  proof (rule ccontr)
    assume "LONG_B58 p (c # s) \<noteq> None"
    then have m: "\<not> before_word p" "long_key (takeWhile is_word (c # s))" by (auto simp: long_b58_at split: if_splits)
    with Cons.prems(1) have "acc = []" by blast
    have "takeWhile is_word (c # s) \<noteq> []" using m(2) by (auto simp: long_key_def simp del: takeWhile.simps)
    with word_runs_first [of "[]" "c # s"] \<open>acc = []\<close> Cons.prems(2) m(2) show False by (simp del: takeWhile.simps word_runs.simps)
  qed
  moreover have "search_from LONG_B58 (Some c) s = None"
    using Cons.IH [of "acc @ [c]" "Some c"] Cons.IH [of "[]" "Some c"] Cons.prems by (cases "is_word c") (auto simp: before_word_def)
  ultimately show ?case by simp
qed simp

section \<open>Paths\<close>

definition PATH_ROOTS :: "string list" where
  "PATH_ROOTS = [''home'', ''root'', ''etc'', ''mnt'', ''var'', ''srv'', ''opt'', ''data'']"

definition path_len :: "string \<Rightarrow> nat" where "path_len s = length (takeWhile (\<lambda>c. \<not> path_stop c) s)"

lemma path_at_root:
  "match_at [Not_after q, Lit (CHR ''/'' # d), Run (\<lambda>c. \<not> path_stop c) 0 None] p s =
     (if (case p of None \<Rightarrow> True | Some c \<Rightarrow> \<not> q c) \<and> starts_with (CHR ''/'' # d) s
      then Some ([], Suc (length d) + path_len (drop (Suc (length d)) s)) else None)"
  by (simp add: piece_at_def take_run_def Let_def path_len_def del: starts_with.simps)

lemma starts_with_append: "starts_with a s \<longleftrightarrow> (\<exists>r. s = a @ r)"
  by (induction a s rule: starts_with.induct) (auto split: list.splits)

lemma path_len_add: "list_all (\<lambda>c. \<not> path_stop c) d \<Longrightarrow> starts_with d s \<Longrightarrow> path_len s = length d + path_len (drop (length d) s)"
  by (auto simp: starts_with_append path_len_def list_all_iff takeWhile_append2)

text \<open>A match begins with a slash after neither a word nor a dot, and goes to the next stop.\<close>

lemma path_at:
  "PATH p s =
     (if (case p of None \<Rightarrow> True | Some c \<Rightarrow> \<not> (is_word c \<or> c = CHR ''.'')) \<and> (\<exists>d \<in> set PATH_ROOTS. starts_with (CHR ''/'' # d) s)
      then Some ([], path_len s) else None)"
proof -
  have free: "\<forall>d \<in> set PATH_ROOTS. list_all (\<lambda>c. \<not> path_stop c) (CHR ''/'' # d)" by code_simp
  have len: "Suc (length d) + path_len (drop (Suc (length d)) s) = path_len s"
    if "d \<in> set PATH_ROOTS" "starts_with (CHR ''/'' # d) s" for d
    using path_len_add [of "CHR ''/'' # d" s] that free by (simp del: starts_with.simps)
  let ?f = "\<lambda>d. match_at [Not_after (\<lambda>c. is_word c \<or> c = CHR ''.''), Lit (CHR ''/'' # d), Run (\<lambda>c. \<not> path_stop c) 0 None]"
  have "first_of (map ?f ds) p s =
      (if (case p of None \<Rightarrow> True | Some c \<Rightarrow> \<not> (is_word c \<or> c = CHR ''.'')) \<and> (\<exists>d \<in> set ds. starts_with (CHR ''/'' # d) s)
       then Some ([], path_len s) else None)" if "set ds \<subseteq> set PATH_ROOTS" for ds
    using that
  proof (induction ds)
    case (Cons d ds)
    then show ?case using len [of d] unfolding list.map first_of.simps path_at_root by auto
  qed simp
  then show ?thesis unfolding PATH_def PATH_ROOTS_def by blast
qed

lemma path_no_slash: "c \<noteq> CHR ''/'' \<Longrightarrow> PATH p (c # t) = None"
  by (simp add: path_at)

text \<open>After a match comes a stop or the end.\<close>

lemma path_stops:
  assumes "PATH p (c # t) = Some r"
  obtains n where "snd r = Suc n" "n \<le> length t" "drop n t = [] \<or> path_stop (hd (drop n t))" "c = CHR ''/''"
proof -
  from assms have c: "c = CHR ''/''" "r = ([], path_len (c # t))" by (auto simp: path_at split: if_splits)
  have "\<not> path_stop (CHR ''/'')" by code_simp
  with c have r: "snd r = Suc (path_len t)" by (simp add: path_len_def)
  have "dropWhile (\<lambda>c. \<not> path_stop c) t = [] \<or> path_stop (hd (dropWhile (\<lambda>c. \<not> path_stop c) t))"
    using hd_dropWhile [of "\<lambda>c. \<not> path_stop c" t] by auto
  then show ?thesis
    using that [OF r] c(1) length_takeWhile_le [of _ t] by (simp add: path_len_def dropWhile_eq_drop)
qed

lemma stop_no_word: "path_stop c \<Longrightarrow> \<not> is_word c \<and> c \<noteq> CHR ''/''"
  by (auto simp: path_stop_def is_space_def is_word_def is_lower_def is_upper_def is_dec_def Let_def)

definition cut_paths :: "char option \<Rightarrow> string \<Rightarrow> string" where "cut_paths p s = fst (sub_from PATH ''[PATH]'' 0 p s)"

lemma cut_paths_Nil: "cut_paths p [] = []"
  by (simp add: cut_paths_def)

lemma cut_paths_keep: "PATH p (c # t) = None \<Longrightarrow> cut_paths p (c # t) = c # cut_paths (Some c) t"
  by (simp add: cut_paths_def split: prod.splits)

lemma cut_paths_match:
  assumes "PATH p (c # t) = Some r"
  obtains q n where "cut_paths p (c # t) = CHR ''['' # ''PATH'' @ CHR '']'' # cut_paths q (drop n t)"
    "drop n t = [] \<or> path_stop (hd (drop n t))" "c = CHR ''/''" "length (drop n t) < Suc (length t)"
proof -
  from path_stops [OF assms] obtain n where n: "snd r = Suc n" "n \<le> length t" "drop n t = [] \<or> path_stop (hd (drop n t))" "c = CHR ''/''"
    by blast
  have "cut_paths p (c # t) = CHR ''['' # ''PATH'' @ CHR '']'' # cut_paths (after (Some c) (take n t)) (drop n t)"
    using assms n(1) sub_skip [OF n(2), of PATH "''[PATH]''" "Some c"] by (cases r) (simp add: cut_paths_def split: prod.splits)
  then show ?thesis using that n by simp
qed

text \<open>The words of the result are words of the text, or the word of the mark.\<close>

lemma cut_paths_words: "set (word_runs acc (cut_paths p s)) \<subseteq> insert ''PATH'' (set (word_runs acc s))"
proof (induction s arbitrary: acc p rule: length_induct)
  case (1 s)
  show ?case
  proof (cases s)
    case Nil
    then show ?thesis by (simp add: cut_paths_Nil)
  next
    case (Cons c t)
    show ?thesis
    proof (cases "PATH p (c # t)")
      case None
      have "set (word_runs acc' (cut_paths (Some c) t)) \<subseteq> insert ''PATH'' (set (word_runs acc' t))" for acc'
        using "1.IH" Cons by simp
      then show ?thesis using Cons cut_paths_keep [OF None] by (cases "is_word c") auto
    next
      case (Some r)
      then obtain q n where m: "cut_paths p (c # t) = CHR ''['' # ''PATH'' @ CHR '']'' # cut_paths q (drop n t)"
        "drop n t = [] \<or> path_stop (hd (drop n t))" "c = CHR ''/''" "length (drop n t) < Suc (length t)"
        by (rule cut_paths_match)
      have ih: "set (word_runs [] (cut_paths q (drop n t))) \<subseteq> insert ''PATH'' (set (word_runs [] (drop n t)))"
        using "1.IH" m(4) Cons by (simp only: length_Cons)
      have stop: "\<not> next_word (drop n t)" using m(2) stop_no_word by (cases "drop n t") (auto simp: next_word_def)
      have slash: "\<not> is_word (CHR ''/'')" by code_simp
      have "word_runs acc s = (if acc = [] then [] else [acc]) @ word_runs [] (take n t) @ word_runs [] (drop n t)"
        using word_runs_split [OF stop, of "[]" "take n t"] slash m(3) by (simp add: Cons)
      moreover have "word_runs [] ''PATH'' = [''PATH'']" by code_simp
      ultimately show ?thesis using ih unfolding Cons m(1) word_runs_bracket by auto
    qed
  qed
qed

text \<open>Letters at the start of the result are letters of the text.\<close>

lemma cut_paths_letters:
  "list_all is_lower d \<Longrightarrow> starts_with d (cut_paths p s) \<Longrightarrow> starts_with d s"
proof (induction d arbitrary: p s)
  case (Cons x d)
  have low: "\<not> is_lower (CHR ''['')" by code_simp
  show ?case
  proof (cases s)
    case (Cons c t)
    show ?thesis
    proof (cases "PATH p s")
      case None
      then show ?thesis using Cons.prems Cons.IH [of "Some c" t] \<open>s = c # t\<close> by (auto simp: cut_paths_keep)
    next
      case (Some r)
      then obtain q n where "cut_paths p s = CHR ''['' # ''PATH'' @ CHR '']'' # cut_paths q (drop n t)"
        unfolding \<open>s = c # t\<close> by (rule cut_paths_match)
      then show ?thesis using Cons.prems low by auto
    qed
  qed (use Cons.prems in \<open>simp add: cut_paths_Nil\<close>)
qed simp

lemma cut_paths_none: "p' = p \<or> s = [] \<or> hd s \<noteq> CHR ''/'' \<Longrightarrow> search_from PATH p' (cut_paths p s) = None"
proof (induction s arbitrary: p p' rule: length_induct)
  case (1 s)
  show ?case
  proof (cases s)
    case Nil
    then show ?thesis by (simp add: cut_paths_Nil)
  next
    case (Cons c t)
    show ?thesis
    proof (cases "PATH p (c # t)")
      case None
      have "\<forall>d \<in> set PATH_ROOTS. list_all is_lower d" by code_simp
      then have "starts_with (CHR ''/'' # d) (c # cut_paths (Some c) t) \<longrightarrow> starts_with (CHR ''/'' # d) (c # t)"
        if "d \<in> set PATH_ROOTS" for d using that cut_paths_letters by auto
      moreover have "p' = p \<or> c \<noteq> CHR ''/''" using "1.prems" Cons by simp
      ultimately have "PATH p' (c # cut_paths (Some c) t) = None"
        using None unfolding path_at by (auto split: if_splits)
      moreover have "search_from PATH (Some c) (cut_paths (Some c) t) = None" using "1.IH" Cons by simp
      ultimately show ?thesis using Cons cut_paths_keep [OF None] by simp
    next
      case (Some r)
      then obtain q n where m: "cut_paths p (c # t) = CHR ''['' # ''PATH'' @ CHR '']'' # cut_paths q (drop n t)"
        "drop n t = [] \<or> path_stop (hd (drop n t))" "c = CHR ''/''" "length (drop n t) < Suc (length t)"
        by (rule cut_paths_match)
      have "drop n t = [] \<or> hd (drop n t) \<noteq> CHR ''/''" using m(2) stop_no_word by blast
      then have "search_from PATH (Some (CHR '']'')) (cut_paths q (drop n t)) = None"
        using "1.IH" [rule_format, of "drop n t" "Some (CHR '']'')" q] m(4) Cons by simp
      then show ?thesis unfolding Cons m(1) by (simp add: path_no_slash)
    qed
  qed
qed

section \<open>The output of an observation\<close>

lemma redact_clean:
  "re_search LONG_B58 (fst (redact t)) = None" "re_search PATH (fst (redact t)) = None"
proof -
  define u where "u = fst (foldl (\<lambda>(t, n) (m, repl). case re_sub m repl t of (t', k) \<Rightarrow> (t', n + k)) (t, 0) (take 3 REDACTIONS))"
  define v where "v = cut_keys None u"
  have t: "fst (redact t) = cut_paths None v"
    by (simp add: redact_def REDACTIONS_def re_sub_def u_def v_def cut_keys_def cut_paths_def case_prod_beta)
  have "\<forall>w \<in> set (word_runs [] v). \<not> long_key w"
    unfolding v_def by (rule long_b58_replaced) (simp add: at_word_def before_word_def)
  moreover have "\<not> long_key ''PATH''" by code_simp
  ultimately have "\<forall>w \<in> set (word_runs [] (cut_paths None v)). \<not> long_key w" using cut_paths_words [of "[]" None v] by auto
  then show "re_search LONG_B58 (fst (redact t)) = None"
    unfolding re_search_def t by (intro no_long_key_no_match [of "[]"]) simp_all
  show "re_search PATH (fst (redact t)) = None" unfolding re_search_def t by (rule cut_paths_none) simp
qed

text \<open>The output of a report is the text that the redaction answered in the same run.\<close>

definition from_redact :: "(oreq, oresp) trace \<Rightarrow> params \<Rightarrow> bool" where
  "from_redact tr rep = (\<exists>txt flags red n. (Redact txt, Inr (O_redacted flags red n)) \<in> set tr \<and> pget rep ''output'' = JStr red)"

definition reporting :: "params observing \<Rightarrow> bool" where
  "reporting p = (\<forall>tr rep. runs p tr (Inr rep) \<longrightarrow> from_redact tr rep)"

lemma from_redact_later: "from_redact t2 rep \<Longrightarrow> from_redact (t1 @ t2) rep"
  by (auto simp: from_redact_def)

lemma reporting_pbind: "(\<And>x. reporting (f x)) \<Longrightarrow> reporting (pbind p f)"
  unfolding reporting_def runs_pbind using from_redact_later by blast

lemma reporting_Raise [simp]: "reporting (Raise e)"
  by (simp add: reporting_def)

lemma reporting_finish [simp]: "reporting (finish d cid rid col st str txt tru t0)"
proof -
  have "from_redact tr rep" if "runs (finish d cid rid col st str txt tru t0) tr (Inr rep)" for tr rep
  proof -
    from that obtain flags red n t1 t2 where t: "tr = t1 @ t2" "runs (ask (Redact txt) o_redacted) t1 (Inr (flags, red, n))"
      "pget rep ''output'' = JStr red"
      unfolding finish_def by (auto simp: runs_pbind pget_def elim!: pbindE)
    from t(2) have "(Redact txt, Inr (O_redacted flags red n)) \<in> set t1"
      by (auto simp: runs_ask_Inr elim!: o_redacted.elims)
    with t show ?thesis by (auto simp: from_redact_def)
  qed
  then show ?thesis by (simp add: reporting_def)
qed

lemma locked_report:
  assumes "runs (locked d cid rid col t0 cmd vargs) tr (Inr (Inl rep))"
  shows "from_redact tr rep"
proof -
  define body where "body = pbind (collect d cmd vargs) (\<lambda>r.
          case r of
            Inl err \<Rightarrow> pbind (finish d cid rid col ''error'' [(''error'', JStr err)] [] False t0) (\<lambda>rep. Ret (Inl rep))
          | Inr x \<Rightarrow> Ret (Inr x))"
  from assms obtain t1 t2 where t: "tr = t1 @ t2" "runs body t1 (Inr (Inl rep))"
    unfolding locked_def finally_do_def body_def [symmetric] by (auto simp: runs_pbind runs_attempt runs_lift)
  have "from_redact t1 rep"
    using t(2) unfolding body_def
  proof (cases rule: pbindE)
    case (ok x u1 u2)
    from ok(3) obtain err where "x = Inl err" by (cases x) auto
    with ok(3) have "runs (finish d cid rid col ''error'' [(''error'', JStr err)] [] False t0) u2 (Inr rep)"
      by (auto simp: runs_pbind)
    then have "from_redact u2 rep" using reporting_finish unfolding reporting_def by blast
    then show ?thesis unfolding ok(1) by (rule from_redact_later)
  qed simp
  then show ?thesis unfolding t(1) by (auto simp: from_redact_def)
qed

lemma reporting_run_command: "reporting (run_command d cid rid col t0 cmd vargs)"
proof -
  have "from_redact tr rep"
    if "runs (pbind (locked d cid rid col t0 cmd vargs) (\<lambda>r. case r of Inl rep \<Rightarrow> Ret rep
        | Inr (status, structured, txt, truncated) \<Rightarrow> finish d cid rid col status structured txt truncated t0)) tr (Inr rep)" for tr rep
    using that
  proof (cases rule: pbindE)
    case (ok r t1 t2)
    show ?thesis
    proof (cases r)
      case (Inl rep')
      with ok show ?thesis using locked_report by simp
    next
      case (Inr x)
      obtain st sd tx tru where "x = (st, sd, tx, tru)" by (cases x)
      with ok Inr have "from_redact t2 rep" using reporting_finish unfolding reporting_def by simp
      then show ?thesis unfolding ok(1) by (rule from_redact_later)
    qed
  qed simp
  then have "reporting (pbind (locked d cid rid col t0 cmd vargs) (\<lambda>r. case r of Inl rep \<Rightarrow> Ret rep
        | Inr (status, structured, txt, truncated) \<Rightarrow> finish d cid rid col status structured txt truncated t0))"
    by (simp add: reporting_def)
  then show ?thesis unfolding run_command_def by (intro reporting_pbind) (simp add: reporting_pbind)
qed

lemma reporting_observe: "reporting (observe d cid args rid)"
  unfolding observe_def observe_command_def
  by (intro reporting_pbind) (auto simp: reporting_run_command intro!: reporting_pbind split: option.splits sum.splits)

text \<open>C40: Whenever the daemon's redaction is that of \<^verbatim>\<open>redact.py\<close>, the output of a report, whatever its status, holds no word
  of 64 or more base58 characters and no path under the private roots.\<close>

theorem observed_output_is_clean:
  assumes "runs (observe d cid args rid) tr (Inr rep)"
    and "\<forall>txt r. (Redact txt, r) \<in> set tr \<longrightarrow> r = Inr (O_redacted (suspicious txt) (fst (redact txt)) (snd (redact txt)))"
  shows "\<exists>out. pget rep ''output'' = JStr out \<and> re_search LONG_B58 out = None \<and> re_search PATH out = None"
proof -
  have "from_redact tr rep" using reporting_observe assms(1) unfolding reporting_def by blast
  then show ?thesis using assms(2) redact_clean unfolding from_redact_def by fastforce
qed

definition ex_redacting :: "nat \<Rightarrow> oreq \<Rightarrow> oresp result" where
  "ex_redacting n q =
     (case q of
        Redact t \<Rightarrow> Inr (O_redacted (suspicious t) (fst (redact t)) (snd (redact t)))
      | Spawn _ _ \<Rightarrow> Inr (O_proc (Exited 0) [map of_char (replicate 70 (CHR ''a'') @ '' /etc/x'')])
      | _ \<Rightarrow> ex_oanswer n q)"

lemma exec_answer: "exec p w n = (tr, res) \<Longrightarrow> (q, r) \<in> set tr \<Longrightarrow> \<exists>m. r = w m q"
proof (induction p arbitrary: n tr)
  case (Call x k)
  obtain t where t: "tr = (x, w n x) # t" "exec (k (w n x)) w (Suc n) = (t, res)"
    using Call.prems(1) by (auto simp: Let_def split: prod.splits)
  with Call.IH [OF rangeI t(2)] Call.prems(2) show ?case by auto
qed auto

theorem observed_output_is_clean_witness:
  "\<exists>tr rep out. runs (observe ex_odeps (JStr ''leader_schedule_self'') (JObj [(''epoch'', JInt 7)]) JNull) tr (Inr rep) \<and>
     pget rep ''status'' = JStr ''ok'' \<and> pget rep ''output'' = JStr out \<and> re_search LONG_B58 out = None \<and> re_search PATH out = None"
proof -
  let ?p = "observe ex_odeps (JStr ''leader_schedule_self'') (JObj [(''epoch'', JInt 7)]) JNull"
  have "\<exists>tr rep. exec ?p ex_redacting 0 = (tr, Inr rep) \<and> pget rep ''status'' = JStr ''ok''"
    by (simp add: observe_def observe_command_def run_command_def locked_def collect_def collect_exec_def finally_do_def finish_def
        exec_rules exec_ask ex_oanswer_def ex_redacting_def ex_odeps_def ex_leader_args ex_leader_argv ex_leader_sel rbind_simps
        exec_result_def proc_status_def pget_def Let_def split: prod.splits)
  then obtain tr rep where ex: "exec ?p ex_redacting 0 = (tr, Inr rep)" "pget rep ''status'' = JStr ''ok''" by blast
  have "\<forall>txt r. (Redact txt, r) \<in> set tr \<longrightarrow> r = Inr (O_redacted (suspicious txt) (fst (redact txt)) (snd (redact txt)))"
    by (auto simp: ex_redacting_def dest!: exec_answer [OF ex(1)])
  from observed_output_is_clean [OF exec_runs [OF ex(1)] this] ex(2) exec_runs [OF ex(1)] show ?thesis by blast
qed

text \<open>A key block that the cap, or a tail that starts or ends inside it, has cut before its closing line is not
  recognised: the expression leaves the text as it is.\<close>

lemma substring_drop: "substring a (drop n s) \<Longrightarrow> substring a s"
proof (induction s arbitrary: n)
  case (Cons c s)
  then show ?case by (cases n) auto
qed simp

lemma starts_substring: "starts_with a s \<Longrightarrow> substring a s"
  by (cases s) (auto split: list.splits elim: starts_with.elims)

lemma sub_from_none: "(\<And>p n. m p (drop n s) = None) \<Longrightarrow> sub_from m repl 0 p s = (s, 0)"
proof (induction s arbitrary: p)
  case (Cons c s)
  have "m p (c # s) = None" for p using Cons.prems [of p 0] by simp
  moreover have "m p (drop n s) = None" for p n using Cons.prems [of p "Suc n"] by simp
  ultimately show ?case using Cons.IH [of "Some c"] by simp
qed simp

lemma cut_block_not_redacted:
  assumes "\<not> substring ''-----END '' t"
  shows "re_sub PEM repl t = (t, 0)"
proof -
  have up: "up_to (match_at (pem_line ''END'')) s = None" if "\<not> substring ''-----END '' s" for s
    using that
  proof (induction s)
    case (Cons c s)
    have "\<not> starts_with ''-----END '' (c # s)" using Cons.prems starts_substring by blast
    then have "match_at (pem_line ''END'') None (c # s) = None" by (simp add: pem_line_def piece_at_def del: starts_with.simps)
    with Cons show ?case by simp
  qed simp
  have "PEM p (drop n t) = None" for p n
    using up [of "drop k t" for k] assms substring_drop [of "''-----END ''" _ t]
    by (auto simp: PEM_def drop_drop split: option.splits)
  then show ?thesis unfolding re_sub_def by (rule sub_from_none)
qed

section \<open>The builtins\<close>

definition SOURCES :: "string list" where "SOURCES = [''/proc/meminfo'', ''/etc/ssh/sshd_config'', UPDATES]"

text \<open>The calls a builtin may make: reads of the configured log up to the configured size, sizes, times and names of files,
  three fixed files, two fixed commands and one request to the configured address.\<close>

fun harmless :: "params \<Rightarrow> hreq \<Rightarrow> bool" where
  "harmless loc (File_size p) = (getitem (JObj loc) ''logfile'' = Inr p)"
| "harmless loc (Read_from p off n) =
     (getitem (JObj loc) ''logfile'' = Inr p \<and>
      (to_int (pget_default loc ''log_tail_max_bytes'' (JInt 262144)) = Inr n \<or>
       to_int (pget_default loc ''log_scan_max_bytes'' (JInt 8388608)) = Inr n))"
| "harmless loc (Read_text p) = (p \<in> set SOURCES)"
| "harmless loc (Run_tool argv) =
     ((\<exists>u. pget_default loc ''unit_name'' (JStr ''sol.service'') = JStr u \<and> argv = [''systemctl'', ''is-active'', u]) \<or> argv = [''ss'', ''-ltnH''])"
| "harmless loc (Glob p pat) = (getitem (JObj loc) ''ledger'' = Inr p \<and> pat \<in> {''tower-*.bin'', ''vote_history-*.bin''})"
| "harmless loc (Http_post url b t) = (url = pget_default loc ''rpc_url'' (JStr ''http://127.0.0.1:8899''))"
| "harmless loc q = True"

lemma every_lift_Inr: "(\<And>x. r = Inr x \<Longrightarrow> every P (f x)) \<Longrightarrow> every P (pbind (lift r) f)"
  by (cases r) auto

lemma every_or_os_error: "every P p \<Longrightarrow> every P (or_os_error p x)" "every P p \<Longrightarrow> every P (or_tool_error p x)"
  unfolding or_os_error_def or_tool_error_def by (auto intro!: every_catch)

lemma builtins_harmless: "\<forall>nf \<in> set BUILTIN_FUNCTIONS. every (harmless loc) (snd nf hl args loc)"
proof -
  have "every (harmless loc) (log_tail hl args loc)"
    unfolding log_tail_def tail_bytes_def by (intro every_lift_Inr every_pbind) (simp_all add: Let_def)
  moreover have "every (harmless loc) (version_builtin hl args loc)"
    unfolding version_builtin_def tail_bytes_def by (intro every_lift_Inr every_pbind) (simp_all add: Let_def)
  moreover have "every (harmless loc) (host_metrics hl args loc)"
    unfolding host_metrics_def measure_volume_def systemctl_is_active_def
    by (intro every_lift_Inr every_fold every_pbind every_or_os_error)
      (auto simp: Let_def SOURCES_def as_str_def split: jv.splits intro!: every_pbind every_catch every_lift_Inr)
  moreover have "every (harmless loc) (host_hygiene hl args loc)"
    unfolding host_hygiene_def
    by (intro every_pbind every_or_os_error) (auto simp: Let_def SOURCES_def intro!: every_pbind every_or_os_error)
  moreover have "every (harmless loc) (consensus_state_files hl args loc)"
    unfolding consensus_state_files_def state_files_def state_file_def
    by (intro every_lift_Inr every_pbind every_fold every_or_os_error) (simp_all add: Let_def)
  moreover have "every (harmless loc) (rpc_latency hl args loc)"
    unfolding rpc_latency_def by (intro every_pbind) (simp_all add: Let_def)
  ultimately show ?thesis by (simp add: BUILTIN_FUNCTIONS_def)
qed

text \<open>Whatever the host answers, a builtin makes only such calls: it starts nothing but \<^verbatim>\<open>systemctl is-active\<close> on the
  configured unit and \<^verbatim>\<open>ss -ltnH\<close>, and reads the log in pieces no larger than the configured size.\<close>

lemma builtins_only_read:
  assumes "(name, f) \<in> set BUILTIN_FUNCTIONS" "runs (f hl args loc) tr res" "(q, r) \<in> set tr"
  shows "harmless loc q"
  using builtins_harmless [of loc hl args] every_runs [OF _ assms(2,3)] assms(1) by fastforce

definition ex_hl :: host_lib where
  "ex_hl = \<lparr>hl_decode = map char_of, hl_dumps = (\<lambda>_. []), hl_round = (\<lambda>_ x. x)\<rparr>"

definition ex_log_answer :: "nat \<Rightarrow> hreq \<Rightarrow> hresp result" where
  "ex_log_answer n q =
     Inr (case q of File_size _ \<Rightarrow> H_nat 12 | Read_from _ _ _ \<Rightarrow> H_bytes (map of_char (''a'' @ [CHR 0x0A] @ ''b'' @ [CHR 0x0A] @ ''c''))
          | _ \<Rightarrow> H_nat 0)"

lemma ex_log_run:
  "exec (log_tail ex_hl [(''lines'', JInt 2)] [(''logfile'', JStr ''log''), (''log_tail_max_bytes'', JInt 5)]) ex_log_answer 0 =
     ([(File_size (JStr ''log''), Inr (H_nat 12)),
       (Read_from (JStr ''log'') 7 5, Inr (H_bytes (map of_char (''a'' @ [CHR 0x0A] @ ''b'' @ [CHR 0x0A] @ ''c''))))],
      Inr (''b'' @ [CHR 0x0A] @ ''c'', [(''lines'', JInt 2)]))"
proof -
  have "splitlines [char_of (97 :: nat), char_of (10 :: nat), char_of (98 :: nat), char_of (10 :: nat), char_of (99 :: nat)] = [''a'', ''b'', ''c'']"
    by code_simp
  then show ?thesis
    by (simp add: log_tail_def tail_bytes_def exec_rules exec_ask ex_log_answer_def ex_hl_def pget_default_def rbind_simps
        last_items_def count_nl_def Let_def)
qed

lemma builtins_only_read_witness:
  "\<exists>tr out. runs (log_tail ex_hl [(''lines'', JInt 2)] [(''logfile'', JStr ''log''), (''log_tail_max_bytes'', JInt 5)]) tr (Inr out) \<and>
     (\<exists>r. (Read_from (JStr ''log'') 7 5, r) \<in> set tr) \<and>
     harmless [(''logfile'', JStr ''log''), (''log_tail_max_bytes'', JInt 5)] (Read_from (JStr ''log'') 7 5)"
proof -
  have "(''log_tail'', log_tail) \<in> set BUILTIN_FUNCTIONS" by (simp add: BUILTIN_FUNCTIONS_def)
  note only = builtins_only_read [OF this exec_runs [OF ex_log_run]]
  show ?thesis
    by (intro exI conjI, rule exec_runs [OF ex_log_run], simp, rule only) simp
qed

text \<open>What \<^verbatim>\<open>rpc_latency\<close> returns is what the daemon reads from it for the breaker, and only an answered probe is healthy.\<close>

lemma rpc_latency_feeds_breaker:
  assumes "runs (rpc_latency hl args loc) tr (Inr (t, st))"
  shows "\<exists>ms ok. getitem (JObj st) ''latency_ms'' = Inr (JFloat ms) \<and> getitem (JObj st) ''healthy'' = Inr (JBool ok) \<and>
    (ok \<longrightarrow> (\<exists>url b tmo x. (Http_post url b tmo, Inr (H_text x)) \<in> set tr \<and> substring ok_text x))"
proof -
  from assms obtain t0 t1 r a b c where x:
    "tr = a @ b @ c" "runs (attempt (ask (Http_post (pget_default loc ''rpc_url'' (JStr ''http://127.0.0.1:8899'')) (hl_dumps hl HEALTH_BODY)
         (pget_default loc ''rpc_timeout_s'' (JInt 5))) h_text)) b (Inr r)"
    "getitem (JObj st) ''latency_ms'' = Inr (JFloat (hl_round hl 1 ((t1 - t0) * 1000)))"
    "getitem (JObj st) ''healthy'' = Inr (JBool (case r of Inr t \<Rightarrow> substring ok_text t | Inl _ \<Rightarrow> False))"
    unfolding rpc_latency_def by (auto simp: runs_pbind Let_def)
  show ?thesis
  proof (cases r)
    case (Inr y)
    with x(2) have "(Http_post (pget_default loc ''rpc_url'' (JStr ''http://127.0.0.1:8899'')) (hl_dumps hl HEALTH_BODY)
         (pget_default loc ''rpc_timeout_s'' (JInt 5)), Inr (H_text y)) \<in> set b"
      by (auto simp: runs_attempt runs_ask_Inr elim!: h_text.elims)
    with x Inr show ?thesis by auto
  next
    case (Inl e)
    with x show ?thesis by auto
  qed
qed

section \<open>Parsed values\<close>

lemma nat_str_digits: "list_all is_dec (nat_str n)"
proof (induction n rule: nat_str.induct)
  case (1 n)
  have d: "is_dec (char_of (48 + k))" if "k < 10" for k :: nat using that by (simp add: is_dec_def of_char_of)
  show ?case by (subst nat_str.simps) (use 1 d [of n] d [of "n mod 10"] in auto)
qed

lemma digits_int_append: "digits_int (s @ [c]) = 10 * digits_int s + (of_char c - 48)"
  by (simp add: digits_int_def)

lemma digits_int_nat_str [simp]: "digits_int (nat_str n) = int n"
proof (induction n rule: nat_str.induct)
  case (1 n)
  have c: "(of_char (char_of (48 + k) :: char) :: int) - 48 = int k" if "k < 10" for k :: nat
  proof -
    have "(of_char (char_of (48 + k) :: char) :: int) = int (of_char (char_of (48 + k) :: char))" by (simp only: of_nat_of_char)
    then show ?thesis using that by (simp only: of_char_of) simp
  qed
  show ?case
  proof (cases "n < 10")
    case True
    then show ?thesis using c [of n] by (simp add: nat_str.simps [of n] digits_int_def)
  next
    case False
    have "int (10 * (n div 10) + n mod 10) = int n" by (simp only: mult_div_mod_eq)
    then have "10 * int (n div 10) + int (n mod 10) = int n" by (simp only: of_nat_add of_nat_mult of_nat_numeral)
    then show ?thesis
      using False 1 c [of "n mod 10"] by (simp add: nat_str.simps [of n] digits_int_append)
  qed
qed

definition no_digit_next :: "string \<Rightarrow> bool" where
  "no_digit_next s = (case s of [] \<Rightarrow> True | c # _ \<Rightarrow> \<not> is_dec c)"

lemma takeWhile_nat_str: "no_digit_next r \<Longrightarrow> takeWhile is_dec (nat_str n @ r) = nat_str n"
  using nat_str_digits [of n] by (cases r) (simp_all add: no_digit_next_def takeWhile_append list_all_iff)

lemma us_them_at:
  assumes "no_digit_next post"
  shows "US_THEM p (''us:'' @ nat_str u @ '' them:'' @ nat_str t @ post) =
    Some ([nat_str u, nat_str t], 3 + length (nat_str u) + 6 + length (nat_str t))"
proof -
  have sp: "is_space (CHR '' '')" "\<not> is_space (CHR ''t'')" "\<not> is_dec (CHR '' '')" by code_simp+
  have first: "\<not> is_space (hd (nat_str n))" "nat_str n \<noteq> []" for n
    using nat_str_digits [of n] by (cases "nat_str n"; auto simp: is_space_def is_dec_def Let_def)+
  have nospace: "takeWhile is_space (nat_str n @ r) = []" for n r
    using first [of n] by (cases "nat_str n") simp_all
  have one: "takeWhile is_dec (nat_str u @ CHR '' '' # r) = nat_str u" for r
    using takeWhile_nat_str [of "CHR '' '' # r"] sp by (simp add: no_digit_next_def)
  have len: "nat_str n \<noteq> [] \<and> \<not> length (nat_str n) < Suc 0" for n by (cases "nat_str n") (use first in auto)
  show ?thesis
    using one nospace takeWhile_nat_str [OF assms] sp len
    by (simp add: US_THEM_def piece_at_def take_run_def Let_def)
qed

lemma us_them_before:
  assumes "CHR '':'' \<notin> set (c # pre)"
  shows "US_THEM p (c # pre @ ''us:'' @ r) = None"
proof -
  have "\<not> starts_with ''us:'' (c # pre @ ''us:'' @ r)"
    using assms by (cases pre; cases "tl pre") auto
  then show ?thesis by (simp add: US_THEM_def piece_at_def del: starts_with.simps)
qed

text \<open>The slots that the command printed are the slots of the sample, and the distance is never negative.\<close>

lemma catchup_roundtrip:
  assumes "CHR '':'' \<notin> set pre" "no_digit_next post"
  shows "catchup (pre @ ''us:'' @ nat_str u @ '' them:'' @ nat_str t @ post) loc =
    [(''parsed'', JBool True), (''our_slot'', JInt (int u)), (''cluster_slot'', JInt (int t)), (''slots_behind'', JInt (max 0 (int t - int u))),
     (''caught_up'', JBool (substring ''has caught up'' (pre @ ''us:'' @ nat_str u @ '' them:'' @ nat_str t @ post)))]"
proof -
  have "search_from US_THEM p (pre @ ''us:'' @ nat_str u @ '' them:'' @ nat_str t @ post) = Some [nat_str u, nat_str t]" for p
    using assms(1)
  proof (induction pre arbitrary: p)
    case Nil
    then show ?case using us_them_at [OF assms(2), of p u t] by simp
  next
    case (Cons c pre)
    then show ?case using us_them_before [of c pre p "nat_str u @ '' them:'' @ nat_str t @ post"] by simp
  qed
  then show ?thesis by (simp add: catchup_def re_search_def)
qed

text \<open>A version that was parsed is a tuple of three numbers for the consensus check, never its \<^verbatim>\<open>ValueError\<close>.\<close>

definition digits :: "string \<Rightarrow> bool" where "digits s = (s \<noteq> [] \<and> list_all is_dec s)"

lemma search_from_match: "search_from m p s = Some gs \<Longrightarrow> \<exists>q r n. m q r = Some (gs, n)"
  by (induction s arbitrary: p) (auto split: option.splits)

lemma take_digits: "\<not> length (takeWhile is_dec s) < Suc 0 \<Longrightarrow> digits (take (length (takeWhile is_dec s)) s)"
  unfolding takeWhile_eq_take [symmetric] by (auto simp: digits_def list_all_iff dest: set_takeWhileD)

lemma version_groups: "VERSION p s = Some (gs, n) \<Longrightarrow> \<exists>a b c. gs = [a, b, c] \<and> digits a \<and> digits b \<and> digits c"
  by (auto simp: VERSION_def piece_at_def take_run_def Let_def take_digits split: if_splits option.splits simp del: starts_with.simps)

lemma digits_value_Some: "list_all is_dec s \<Longrightarrow> \<exists>n. digits_value k s = Some n"
  by (induction s arbitrary: k) auto

lemma strip_digits: "digits s \<Longrightarrow> strip s = s"
proof -
  have "dropWhile is_space t = t" if "list_all is_dec t" for t
    using that by (cases t) (auto simp: is_dec_def is_space_def Let_def)
  then show "digits s \<Longrightarrow> strip s = s" by (simp add: strip_def digits_def)
qed

lemma int_text_digits: "digits s \<Longrightarrow> \<exists>n. int_text s = Some n"
  unfolding int_text_def strip_digits using digits_value_Some
  by (cases s) (auto simp: digits_def is_dec_def Let_def strip_digits)

lemma split_dots_digits: "list_all is_dec s \<Longrightarrow> split_dots acc (s @ CHR ''.'' # r) = (rev acc @ s) # split_dots [] r"
  by (induction s arbitrary: acc) (auto simp: is_dec_def Let_def)

lemma split_dots_last: "list_all is_dec s \<Longrightarrow> split_dots acc s = [rev acc @ s]"
  by (induction s arbitrary: acc) (auto simp: is_dec_def Let_def)

lemma version_is_tuple:
  assumes "pget (running_version t loc) ''version'' = JStr v"
  shows "\<exists>a b c. vtuple (JStr v) = Inr [a, b, c]"
proof -
  have "\<exists>a b c. v = a @ ''.'' @ b @ ''.'' @ c \<and> digits a \<and> digits b \<and> digits c"
    if "pget (first_version ls) ''version'' = JStr v" for ls
    using that
  proof (induction ls)
    case (Cons l ls)
    show ?case
    proof (cases "re_search VERSION l")
      case None
      then show ?thesis using Cons by simp
    next
      case (Some gs)
      then obtain a b c where "gs = [a, b, c]" "digits a" "digits b" "digits c"
        using search_from_match version_groups unfolding re_search_def by metis
      then show ?thesis using Some Cons.prems by (auto simp: pget_def)
    qed
  qed (simp add: unparsed_def pget_def)
  then obtain a b c where v: "v = a @ ''.'' @ b @ ''.'' @ c" "digits a" "digits b" "digits c"
    using assms unfolding running_version_def by blast
  then have "split_dots [] v = [a, b, c]"
    using split_dots_digits [of a "[]"] split_dots_digits [of b "[]"] split_dots_last [of c "[]"] by (simp add: digits_def)
  moreover obtain x y z where "int_text a = Some x" "int_text b = Some y" "int_text c = Some z" using v int_text_digits by metis
  ultimately show ?thesis by (simp add: vtuple_def rbind_simps)
qed

text \<open>The first three numbers of an address on the line that is looked at first count as the version.\<close>

lemma address_read_as_version:
  "first_version [''--entrypoint 10.1.2.3:8001'', ''agave-validator 2.2.0''] = [(''parsed'', JBool True), (''version'', JStr ''10.1.2'')]"
proof -
  have "re_search VERSION ''--entrypoint 10.1.2.3:8001'' = Some [''10'', ''1'', ''2'']" by code_simp
  then show ?thesis by simp
qed

end
