(* ===== verification/Spec2Isabelle.thy ===== *)
theory Spec2Isabelle
  imports Store_Theorems Lifecycle_Theorems Params Registry_Theorems Audit_Theorems Runner_Theorems Artefact_Theorems
    Table_Theorems Observer_Theorems Model_Broker_Theorems Broker_Theorems Report_Theorems Sentinel_Theorems
    Verifier_Theorems Builder_Theorems Policy_Theorems Wiring_Theorems Worker_Theorems Evaluation_Theorems Host_Theorems
begin

text \<open>
  A verification development of the validator operations agent under \<^verbatim>\<open>src/valops\<close>.

  \<^bold>\<open>The program.\<close> Language-model workers diagnose incidents of a blockchain validator under the control
  of deterministic processes. The sentinel samples the validator through the observer broker and opens
  episodes in the episode store. The controller runs one model step per tick on each open
  episode, spawns a worker for it with a capability token, validates what the worker left in
  the store and asks for the transition of the state table. Workers reach the system only through the
  brokers (episode, observer, model, report), which check the token, the tool table and the quotas. The
  verifier samples again after the operator acted and resolves an episode. Every broker call is an entry of
  the audit chain; the policy, prompts and thresholds come from a signed bundle. The processes share no
  memory: they talk by line-delimited JSON over sockets, so any other request may come between two calls of
  one process.

  \<^bold>\<open>Shared vocabulary.\<close> \<open>Prelude\<close> has the JSON values, Python's dictionaries, truthiness and equality, the
  exceptions (\<open>RpcError code\<close> and \<open>PyError class\<close>) and results \<open>exn + 'a\<close>. \<open>Prog\<close> is the model of a process that
  calls others: a tree that returns, raises or makes a request and continues with whatever the answer
  is. A theorem about all runs of a tree holds for every behaviour of the other processes and every
  interleaving; the rules \<open>wp\<close>, \<open>every\<close>, \<open>covers\<close> and \<open>keeps\<close> are its proof methods. A tree is finite along every
  branch, so no program modelled this way needs fuel; the rounds of an endless loop are given as a list, of
  any length.

  \<^bold>\<open>Components and theories\<close> (all paths under \<^verbatim>\<open>src/valops\<close>).

  \<^item> \<open>Canonical\<close>, \<open>Schema\<close>, \<open>Tools\<close>, \<open>Rpc\<close>, \<open>Tokens\<close>: \<^verbatim>\<open>common/canonical.py\<close>, \<^verbatim>\<open>schema.py\<close>, \<^verbatim>\<open>tools.py\<close> with
    \<^verbatim>\<open>artefact_schema.py\<close>, \<^verbatim>\<open>rpc.py\<close> (the server: admission by uid, the request loop, dispatch with the
    identity fields stripped), \<^verbatim>\<open>tokens.py\<close>.
  \<^item> \<open>Transitions\<close>, \<open>Fold\<close>, \<open>Store\<close>: \<^verbatim>\<open>store/transitions.py\<close>, \<^verbatim>\<open>fold.py\<close>, \<^verbatim>\<open>service.py\<close>. The state is the rows of the
    log, the opening keys and the folded records; one definition per handler, grouped into the five
    sockets by \<open>endpoints\<close>. \<open>Store_Inv\<close> states the abstract log and the contract of each entry kind,
    \<open>Store_Refine\<close> shows that every handler implements it and states the store's dependencies as the locale
    \<open>store_deps\<close>, which \<open>Store_Props\<close> interprets on the token gate and the registry. \<open>Store_Theorems\<close> and \<open>Lifecycle_Theorems\<close>
    hold the properties, \<open>Example_Run\<close> a run from opening to resolution on which they are instantiated.
  \<^item> \<open>Registry\<close>, \<open>Bundle_View\<close>, \<open>Params\<close>, \<open>Builder\<close>: \<^verbatim>\<open>bundle/registry.py\<close>, \<^verbatim>\<open>params.py\<close>, \<^verbatim>\<open>builder.py\<close>; properties in
    \<open>Registry_Theorems\<close> and, for a build composed with the registry and the accessors of the running system, \<open>Builder_Theorems\<close>.
  \<^item> \<open>Sequencer\<close>, \<open>Audit_Client\<close>: \<^verbatim>\<open>audit/sequencer.py\<close>, \<^verbatim>\<open>client.py\<close> and \<^verbatim>\<open>observer/chain.py\<close>; properties in \<open>Audit_Theorems\<close>.
    The locale \<open>hash_chain\<close> of \<open>Hash_Chain\<close> is the contract of a chain, interpreted on the sequencer, on the daemon and on the ledgers.
  \<^item> \<open>Evaluation\<close>: \<^verbatim>\<open>eval/ledger.py\<close>, \<^verbatim>\<open>fixtures.py\<close>, \<^verbatim>\<open>stats.py\<close>; properties in \<open>Evaluation_Theorems\<close>.
  \<^item> \<open>Controller_Effects\<close>, \<open>Preflight\<close>, \<open>Artefacts\<close>, \<open>Runner\<close>: \<^verbatim>\<open>controller/preflight.py\<close>, \<^verbatim>\<open>artefacts.py\<close>, \<^verbatim>\<open>runner.py\<close>, and the
    launch result of \<^verbatim>\<open>spawn.py\<close>. \<open>Runner_Props\<close> characterises all runs, \<open>Runner_Theorems\<close> composes them with the store.
  \<^item> \<open>Command_Table\<close>, \<open>Observer_Daemon\<close>: \<^verbatim>\<open>observer/table.py\<close>, \<^verbatim>\<open>validate.py\<close>, \<^verbatim>\<open>daemon.py\<close>; properties in \<open>Table_Theorems\<close> and
    \<open>Observer_Theorems\<close>.
  \<^item> \<open>Scan\<close>, \<open>Parsers\<close>, \<open>Redact\<close>, \<open>Builtins\<close>: the regular expressions of \<^verbatim>\<open>observer/parsers.py\<close> and \<^verbatim>\<open>redact.py\<close> as
    matchers, and \<^verbatim>\<open>builtins.py\<close> as programs over the calls of the operating system; \<open>Host_Theorems\<close> composes them with the
    daemon and with the consensus check.
  \<^item> \<open>Brokers\<close>, \<open>Providers\<close>, \<open>Model_Broker\<close>, \<open>Report_Broker\<close>: \<^verbatim>\<open>brokers/base.py\<close>, \<^verbatim>\<open>episode_broker.py\<close>, \<^verbatim>\<open>observer_broker.py\<close>,
    \<^verbatim>\<open>providers.py\<close>, \<^verbatim>\<open>model_broker.py\<close>, \<^verbatim>\<open>report_broker.py\<close>; properties in \<open>Broker_Theorems\<close>, \<open>Model_Broker_Theorems\<close> and
    \<open>Report_Theorems\<close>.
  \<^item> \<open>Sandbox\<close>, \<open>Step_Home\<close>: \<^verbatim>\<open>sandbox/bwrap.py\<close>, the launcher and the step home of \<^verbatim>\<open>controller/spawn.py\<close> and the generated
    configuration under \<^verbatim>\<open>worker/adapters\<close>; properties in \<open>Sandbox_Theorems\<close>.
  \<^item> \<open>Wiring\<close>: \<^verbatim>\<open>config.py\<close> and \<^verbatim>\<open>services.py\<close>, the sockets, uids and clients of every process; \<open>Wiring_Theorems\<close> composes them
    with the requests of the processes, the endpoints of the store and the launcher.
  \<^item> \<open>Worker\<close>: \<^verbatim>\<open>worker/main.py\<close>, \<^verbatim>\<open>tools/stubs.py\<close>, \<^verbatim>\<open>tools/mcp_server.py\<close>, \<^verbatim>\<open>hooks/audit.py\<close> and the native loop;
    \<open>Worker_Theorems\<close> composes it with the specification that the controller writes.
  \<^item> \<open>Policy_Gate\<close>: \<^verbatim>\<open>worker/hooks/policy_gate.py\<close>, the worker's check of its own tool calls; \<open>Policy_Theorems\<close> relates it to
    the decisions of the broker and of the store.
  \<^item> \<open>Consensus\<close>, \<open>Sentinel_Checks\<close>, \<open>Sentinel\<close>: \<^verbatim>\<open>consensus.py\<close>, \<^verbatim>\<open>sentinel/checks.py\<close>, \<^verbatim>\<open>scheduler.py\<close>; properties in
    \<open>Sentinel_Theorems\<close>.
  \<^item> \<open>Verifier_Rules\<close>, \<open>Verifier\<close>: \<^verbatim>\<open>verifier/rules.py\<close>, \<^verbatim>\<open>verifier.py\<close>; properties in \<open>Verifier_Theorems\<close>.

  \<^bold>\<open>What the lemmas show.\<close> For the store: the in-memory records are the fold of the log, the
  history of states is a path of the table, only the verifier resolves, terminal states absorb,
  evidence exists, roles see only their views, a life is bounded, and schema types are all the
  handlers need. For the bundle and the audit chain: tampering shows, or the hash has a
  collision. For the controller: each transition follows the decision of the table, no model step
  runs in a degraded tier, tokens are revoked. For the observer: only argument vectors of the table are
  executed, under the breaker, the rate limit and the lock, output is capped and redacted, and builtins only read. For the brokers: every store call is
  authorised, limits hold for requests handled one at a time, alerts survive a restart and
  escalate. For the worker: it runs confined, its uid reaches only the tool sockets, and its own gate
  agrees with the broker. For the sentinel and the verifier: missing or stale data opens and resolves nothing. A
  few lemmas show where the code departs from what its documents say.

  \<^bold>\<open>Conventions.\<close> Python integers are \<open>int\<close> or \<open>nat\<close>; a float is a rational, so rounding is not modelled; text is a
  list of characters and bytes a list of \<open>8 word\<close> or numbers. SHA-256, Ed25519, JSON and YAML text, regular expressions beyond
  the ones written out, clocks, random identifiers, file contents and the answers of other processes are
  parameters or requests; where a property needs a law of one of them it is a hypothesis.

  \<^bold>\<open>Not modelled.\<close> The command line (\<^verbatim>\<open>cli.py\<close>), the provider bindings and third-party
  runtimes under \<^verbatim>\<open>worker/adapters\<close> (requests of the worker), the HTTPS client of the daemon, alert sinks, external anchors, the
  wrappers of the cryptography library and the check of \<^verbatim>\<open>writepath.py\<close>:
  I/O and glue around the components above, or code whose result is data to them.
\<close>

end
